(* ===== verification/Prelude.thy ===== *)
theory Prelude
  imports Main "HOL-Library.Word"
begin

text \<open>
  Shared vocabulary of the swbt development: names for the machine integers of the Rust code,
  the \<open>Result\<close> type with its \<open>?\<close> operator, the slice operations the byte encoders use
  (\<open>copy_from_slice\<close>, indexed \<open>|=\<close>, little-endian conversions), saturating and
  checked addition, and the lemmas about them that the component theories share.

  A machine integer of width \<open>w\<close> is a \<open>w word\<close>; an \<open>i16\<close> is a \<open>16 word\<close>
  read with \<open>sint\<close>.  A Rust \<open>Result<T, E>\<close> is \<open>'e + 'a\<close>, \<open>Inl\<close> being \<open>Err\<close>.
  A fixed-size array is a list whose length the encoders are proved to keep.
\<close>

unbundle bit_operations_syntax

type_synonym u8 = "8 word"
type_synonym u16 = "16 word"
type_synonym u32 = "32 word"
type_synonym u64 = "64 word"
type_synonym i16 = "16 word"

type_synonym ('a, 'e) result = "'e + 'a"

named_theorems wire_simps \<open>lengths and layout of the encoded byte arrays\<close>
named_theorems model_defs \<open>the constants of the controller models\<close>

section \<open>Results\<close>

definition bind_result :: "('a, 'e) result \<Rightarrow> ('a \<Rightarrow> ('b, 'e) result) \<Rightarrow> ('b, 'e) result" where
  "bind_result r f = (case r of Inl e \<Rightarrow> Inl e | Inr a \<Rightarrow> f a)"

definition map_err :: "('e \<Rightarrow> 'f) \<Rightarrow> ('a, 'e) result \<Rightarrow> ('a, 'f) result" where
  "map_err g r = (case r of Inl e \<Rightarrow> Inl (g e) | Inr a \<Rightarrow> Inr a)"

definition map_ok :: "('a \<Rightarrow> 'b) \<Rightarrow> ('a, 'e) result \<Rightarrow> ('b, 'e) result" where
  "map_ok g r = (case r of Inl e \<Rightarrow> Inl e | Inr a \<Rightarrow> Inr (g a))"

definition is_ok :: "('a, 'e) result \<Rightarrow> bool" where
  "is_ok r = (case r of Inl _ \<Rightarrow> False | Inr _ \<Rightarrow> True)"

definition err_of :: "('a, 'e) result \<Rightarrow> 'e option" where
  "err_of r = (case r of Inl e \<Rightarrow> Some e | Inr _ \<Rightarrow> None)"

lemma bind_result_simps [simp]:
  "bind_result (Inl e) f = Inl e"
  "bind_result (Inr a) f = f a"
  by (simp_all add: bind_result_def)

lemma map_err_simps [simp]:
  "map_err g (Inl e) = Inl (g e)"
  "map_err g (Inr a) = Inr a"
  by (simp_all add: map_err_def)

lemma map_ok_simps [simp]:
  "map_ok g (Inl e) = Inl e"
  "map_ok g (Inr a) = Inr (g a)"
  by (simp_all add: map_ok_def)

lemma is_ok_simps [simp]:
  "is_ok (Inl e) = False"
  "is_ok (Inr a) = True"
  by (simp_all add: is_ok_def)

lemma err_of_simps [simp]:
  "err_of (Inl e) = Some e"
  "err_of (Inr a) = None"
  by (simp_all add: err_of_def)

lemma bind_result_Inr_iff:
  "bind_result r f = Inr b \<longleftrightarrow> (\<exists>a. r = Inr a \<and> f a = Inr b)"
  by (cases r) simp_all

lemma bind_result_Inl_iff:
  "bind_result r f = Inl e \<longleftrightarrow> r = Inl e \<or> (\<exists>a. r = Inr a \<and> f a = Inl e)"
  by (cases r) simp_all

lemma is_ok_iff: "is_ok r \<longleftrightarrow> (\<exists>a. r = Inr a)"
  by (cases r) simp_all

lemma not_is_ok_iff: "\<not> is_ok r \<longleftrightarrow> (\<exists>e. r = Inl e)"
  by (cases r) simp_all

section \<open>Slices and arrays\<close>

text \<open>
  \<open>blit xs off ys\<close> is \<open>xs[off..off + ys.len()].copy_from_slice(ys)\<close>.  Rust panics when the
  range leaves the array; every use below is shown to stay inside by a length lemma.
\<close>

definition blit :: "'a list \<Rightarrow> nat \<Rightarrow> 'a list \<Rightarrow> 'a list" where
  "blit xs off ys = take off xs @ ys @ drop (off + length ys) xs"

lemma length_blit [simp]:
  "off + length ys \<le> length xs \<Longrightarrow> length (blit xs off ys) = length xs"
  by (simp add: blit_def)

lemma nth_blit:
  assumes "off + length ys \<le> length xs" and "i < length xs"
  shows "blit xs off ys ! i =
    (if off \<le> i \<and> i < off + length ys then ys ! (i - off) else xs ! i)"
  using assms by (auto simp: blit_def nth_append min_def)

text \<open>\<open>or_at bs i mk\<close> is \<open>bs[i] |= mk\<close>.\<close>

definition or_at :: "u8 list \<Rightarrow> nat \<Rightarrow> u8 \<Rightarrow> u8 list" where
  "or_at bs i mk = bs[i := bs ! i OR mk]"

lemma length_or_at [simp]: "length (or_at bs i mk) = length bs"
  by (simp add: or_at_def)

lemma nth_or_at:
  "j < length bs \<Longrightarrow> or_at bs i mk ! j = (if j = i then bs ! j OR mk else bs ! j)"
  by (simp add: or_at_def)

definition le16 :: "u16 \<Rightarrow> u8 list" where
  "le16 w = [ucast w, ucast (drop_bit 8 w)]"

definition from_le16 :: "u8 \<Rightarrow> u8 \<Rightarrow> u16" where
  "from_le16 b0 b1 = ucast b0 OR push_bit 8 (ucast b1)"

definition from_le32 :: "u8 \<Rightarrow> u8 \<Rightarrow> u8 \<Rightarrow> u8 \<Rightarrow> u32" where
  "from_le32 b0 b1 b2 b3 =
     ucast b0 OR push_bit 8 (ucast b1) OR push_bit 16 (ucast b2) OR push_bit 24 (ucast b3)"

lemma length_le16 [simp]: "length (le16 w) = 2"
  by (simp add: le16_def)

lemma from_le16_le16: "from_le16 (le16 w ! 0) (le16 w ! 1) = w"
  unfolding from_le16_def le16_def
  by (rule bit_word_eqI) (auto simp: bit_simps)

section \<open>Single bits of words\<close>

lemma word_and_push_bit_one_iff:
  fixes w :: "'a::len word"
  assumes "n < LENGTH('a)"
  shows "w AND push_bit n 1 \<noteq> 0 \<longleftrightarrow> bit w n"
proof -
  have "w AND push_bit n 1 = (if bit w n then push_bit n 1 else 0)"
    by (rule bit_word_eqI) (auto simp: bit_simps)
  moreover have "push_bit n (1 :: 'a word) \<noteq> 0"
    using assms by (simp add: push_bit_eq_mult)
  ultimately show ?thesis
    by simp
qed

lemma bit_or_push_bit_one:
  fixes w :: "'a::len word"
  assumes "n < LENGTH('a)"
  shows "bit (w OR push_bit n 1) k \<longleftrightarrow> bit w k \<or> k = n"
  using assms by (auto simp: bit_simps)

lemma and_byte_masks:
  fixes w :: "'a::len word"
  shows "w AND 0xFF = take_bit 8 w" and "w AND 0x0F = take_bit 4 w" and "w AND 3 = take_bit 2 w"
  by (simp_all add: take_bit_eq_mask mask_eq_exp_minus_1)

lemma bit_u8_beyond [simp]: "8 \<le> n \<Longrightarrow> \<not> bit (w :: u8) n"
  by (auto dest: bit_imp_le_length)

lemma bit_u16_beyond [simp]: "16 \<le> n \<Longrightarrow> \<not> bit (w :: u16) n"
  by (auto dest: bit_imp_le_length)

lemmas byte_bit_simps = and_byte_masks bit_simps

section \<open>Bounded arithmetic\<close>

definition saturating_add_u64 :: "u64 \<Rightarrow> u64 \<Rightarrow> u64" where
  "saturating_add_u64 a b = (if unat a + unat b < 2 ^ 64 then a + b else 0xFFFFFFFFFFFFFFFF)"

lemma unat_saturating_add_u64:
  "unat (saturating_add_u64 a b) = min (unat a + unat b) (2 ^ 64 - 1)"
proof (cases "unat a + unat b < 2 ^ 64")
  case True
  then show ?thesis
    by (simp add: saturating_add_u64_def unat_word_ariths)
next
  case False
  then show ?thesis
    by (simp add: saturating_add_u64_def)
qed

section \<open>Decimal notation\<close>

text \<open>What \<open>{}\<close> prints for an unsigned integer.\<close>

fun decimal :: "nat \<Rightarrow> string" where
  "decimal n = (if n < 10 then [''0123456789'' ! n] else decimal (n div 10) @ [''0123456789'' ! (n mod 10)])"

declare decimal.simps [simp del]

lemma length_decimal_pos: "decimal n \<noteq> []"
  by (subst decimal.simps) simp

lemma digit_inject: "a < 10 \<Longrightarrow> b < 10 \<Longrightarrow> ''0123456789'' ! a = ''0123456789'' ! b \<longleftrightarrow> a = b"
proof -
  have "distinct ''0123456789''"
    by simp
  then show "a < 10 \<Longrightarrow> b < 10 \<Longrightarrow> ''0123456789'' ! a = ''0123456789'' ! b \<longleftrightarrow> a = b"
    by (simp add: nth_eq_iff_index_eq)
qed

text \<open>Two numbers with the same notation are the same number.\<close>

lemma decimal_inject: "decimal m = decimal n \<longleftrightarrow> m = n"
proof (induction m arbitrary: n rule: decimal.induct)
  case (1 m)
  show ?case
  proof (cases "m < 10 \<or> n < 10")
    case True
    then show ?thesis
      by (subst (1 2) decimal.simps) (auto simp: digit_inject length_decimal_pos length_decimal_pos[symmetric])
  next
    case False
    then have "decimal m = decimal n \<longleftrightarrow> m div 10 = n div 10 \<and> m mod 10 = n mod 10"
      using 1[of "n div 10"] by (subst (1 2) decimal.simps) (simp add: digit_inject)
    also have "\<dots> \<longleftrightarrow> m = n"
      by (metis div_mult_mod_eq)
    finally show ?thesis .
  qed
qed

section \<open>Set-like interfaces\<close>

text \<open>
  The code keeps two sets as bit fields: the pressed buttons and the observed subcommand
  identifiers.  Both offer the same contract, stated here once.
\<close>

locale element_set =
  fixes empty :: "'s"
    and insert_elem :: "'a \<Rightarrow> 's \<Rightarrow> 's"
    and member :: "'s \<Rightarrow> 'a \<Rightarrow> bool"
  assumes member_empty: "\<not> member empty x"
    and member_insert: "member (insert_elem x s) y \<longleftrightarrow> y = x \<or> member s y"
begin

lemma member_fold: "member (fold insert_elem xs s) y \<longleftrightarrow> member s y \<or> y \<in> set xs"
  by (induction xs arbitrary: s) (auto simp: member_insert)

lemma member_collect: "member (fold insert_elem xs empty) y \<longleftrightarrow> y \<in> set xs"
  by (simp add: member_fold member_empty)

lemma filter_collect: "filter (member (fold insert_elem xs empty)) ys = filter (\<lambda>y. y \<in> set xs) ys"
  by (intro filter_cong refl) (rule member_collect)

end

section \<open>Encodings with a decoder\<close>

text \<open>
  Several values cross the wire or the profile file in an encoded form.  A codec is an
  encoder on the valid values together with a decoder that inverts it.
\<close>

locale codec =
  fixes valid :: "'a \<Rightarrow> bool"
    and encode :: "'a \<Rightarrow> 'b"
    and decode :: "'b \<Rightarrow> 'a option"
  assumes decode_encode: "valid x \<Longrightarrow> decode (encode x) = Some x"
begin

lemma encode_inject: "valid x \<Longrightarrow> valid y \<Longrightarrow> encode x = encode y \<longleftrightarrow> x = y"
  using decode_encode by (metis option.inject)

lemma encode_inj_on: "inj_on encode {x. valid x}"
  by (auto simp: inj_on_def encode_inject)

lemma decode_list:
  "\<forall>x \<in> set xs. valid x \<Longrightarrow> map decode (map encode xs) = map Some xs"
  by (induction xs) (simp_all add: decode_encode)

end

end
