(* ===== verification/Errors.thy ===== *)
theory Errors
  imports Prelude
begin

text \<open>
  The public error type of \<open>crates/swbt-core/src/error.rs\<close>: the recovery category
  (\<open>ErrorKind\<close>) and the chain of related failures.  The display text and the opaque source of
  an \<open>Error\<close> are not represented: no code of the repository branches on them.
\<close>

datatype error_kind =
    AdapterDiscovery
  | TransportOpen
  | ProfilePathRequired
  | ProfileNotFound
  | ProfileAlreadyExists
  | InvalidProfile
  | ProfileControllerMismatch
  | InvalidKeyStore
  | NoBond
  | TransportClosed
  | ConnectionTimeout
  | ConnectionFailed
  | Protocol
  | InvalidInput
  | UnsupportedInput
  | UnsupportedCapability
  | AdapterIdentityRecoveryRequired
  | WorkerFailed
  | Shutdown
  | Internal

text \<open>The \<open>related\<close> field links further errors; \<open>kind\<close> is \<open>err_kind\<close>.\<close>

datatype error = Error (err_kind: error_kind) (related_error: "error option")

definition new_error :: "error_kind \<Rightarrow> error" where
  "new_error k = Error k None"

text \<open>
  \<open>with_related\<close> walks the \<open>related\<close> links to the first empty slot and puts the new error there.
\<close>

fun with_related :: "error \<Rightarrow> error \<Rightarrow> error" where
  "with_related (Error k None) r = Error k (Some r)"
| "with_related (Error k (Some e)) r = Error k (Some (with_related e r))"

text \<open>The chain of kinds that \<open>related_error\<close> enumerates from an error, itself first.\<close>

fun error_chain :: "error \<Rightarrow> error_kind list" where
  "error_chain (Error k None) = [k]"
| "error_chain (Error k (Some e)) = k # error_chain e"

lemma err_kind_new_error [simp]: "err_kind (new_error k) = k"
  by (simp add: new_error_def)

lemma error_chain_new_error [simp]: "error_chain (new_error k) = [k]"
  by (simp add: new_error_def)

lemma err_kind_with_related [simp]: "err_kind (with_related e r) = err_kind e"
  by (cases "(e, r)" rule: with_related.cases) simp_all

lemma error_chain_with_related [simp]:
  "error_chain (with_related e r) = error_chain e @ error_chain r"
  by (induction e r rule: with_related.induct) simp_all

lemma error_chain_fold_with_related:
  "error_chain (foldl with_related e rs) = error_chain e @ concat (map error_chain rs)"
  by (induction rs arbitrary: e) simp_all

lemma err_kind_fold_with_related [simp]: "err_kind (foldl with_related e rs) = err_kind e"
  by (induction rs arbitrary: e) simp_all

text \<open>
  Related failures are appended in the order they occur and never replace the primary error:
  the chain of an error with \<open>rs\<close> attached is its own chain followed by the chains of \<open>rs\<close> in
  order, and its kind is still the primary kind.
\<close>

theorem related_errors_in_occurrence_order:
  "error_chain (foldl with_related e rs) = error_chain e @ concat (map error_chain rs)
   \<and> err_kind (foldl with_related e rs) = err_kind e"
  by (simp add: error_chain_fold_with_related)

end
