(* ===== verification/Adapter.thy ===== *)
theory Adapter
  imports Errors
begin

text \<open>
  \<open>src/adapter.rs\<close>: discovery of Bluetooth HCI adapters from USB descriptors.

  What \<open>rusb\<close> reports is data: the device list of a context, each device a \<open>usb_device\<close> whose descriptors
  may be unreadable.  Nothing else of the library is used.  The trace event for skipped devices is the
  count that \<open>descriptor_records\<close> returns beside the records.
\<close>

type_synonym adapter_selector = string

record adapter_info =
  ai_selector :: adapter_selector
  ai_vendor_id :: u16
  ai_product_id :: u16
  ai_bus_number :: u8
  ai_port_numbers :: "u8 list option"
  ai_has_serial_number :: bool

record usb_class =
  uc_class :: u8
  uc_subclass :: u8
  uc_protocol :: u8

definition bluetooth_hci_class :: usb_class where
  "bluetooth_hci_class = \<lparr>uc_class = 0xE0, uc_subclass = 0x01, uc_protocol = 0x01\<rparr>"

record usb_descriptor_record =
  ud_vendor_id :: u16
  ud_product_id :: u16
  ud_bus_number :: u8
  ud_port_numbers :: "u8 list option"
  ud_has_serial_number :: bool
  ud_device_class :: usb_class
  ud_interface_classes :: "usb_class list"

definition is_bluetooth_hci :: "usb_descriptor_record \<Rightarrow> bool" where
  "is_bluetooth_hci r =
     (ud_device_class r = bluetooth_hci_class
      \<or> (uc_class (ud_device_class r) = 0 \<and> bluetooth_hci_class \<in> set (ud_interface_classes r)))"

section \<open>Reading descriptors\<close>

text \<open>
  A configuration is the list of its interfaces, each the list of the classes of its settings.  \<open>None\<close> for a
  device descriptor, a configuration or a port path is the error the library returns for it.
\<close>

record usb_device_descriptor =
  dd_class :: usb_class
  dd_vendor_id :: u16
  dd_product_id :: u16
  dd_serial_number_index :: "u8 option"

record usb_device =
  dev_descriptor :: "usb_device_descriptor option"
  dev_configurations :: "usb_class list list option list"
  dev_bus_number :: u8
  dev_port_numbers :: "u8 list option"

fun read_configurations :: "usb_class list list option list \<Rightarrow> usb_class list \<Rightarrow> usb_class list option" where
  "read_configurations [] classes = Some classes"
| "read_configurations (None # rest) classes = None"
| "read_configurations (Some interfaces # rest) classes =
     read_configurations rest (classes @ concat interfaces)"

definition descriptor_record :: "usb_device \<Rightarrow> usb_descriptor_record option" where
  "descriptor_record d =
     (case dev_descriptor d of
        None \<Rightarrow> None
      | Some descriptor \<Rightarrow>
          map_option (\<lambda>interface_classes.
              \<lparr>ud_vendor_id = dd_vendor_id descriptor, ud_product_id = dd_product_id descriptor,
               ud_bus_number = dev_bus_number d, ud_port_numbers = dev_port_numbers d,
               ud_has_serial_number = dd_serial_number_index descriptor \<noteq> None,
               ud_device_class = dd_class descriptor, ud_interface_classes = interface_classes\<rparr>)
            (if uc_class (dd_class descriptor) = 0 then read_configurations (dev_configurations d) [] else Some []))"

text \<open>The loop over the devices: readable ones are collected, the others counted.\<close>

fun collect_records ::
  "usb_device list \<Rightarrow> usb_descriptor_record list \<Rightarrow> nat \<Rightarrow> usb_descriptor_record list \<times> nat" where
  "collect_records [] records skipped = (records, skipped)"
| "collect_records (d # ds) records skipped =
     (case descriptor_record d of
        Some r \<Rightarrow> collect_records ds (records @ [r]) skipped
      | None \<Rightarrow> collect_records ds records (skipped + 1))"

text \<open>\<open>'e\<close> is the error of \<open>rusb\<close>, for the context or for the device list.\<close>

definition descriptor_records ::
  "(usb_device list, 'e) result \<Rightarrow> (usb_descriptor_record list \<times> nat, 'e) result" where
  "descriptor_records devices = map_ok (\<lambda>ds. collect_records ds [] 0) devices"

section \<open>Discovery\<close>

definition adapter_info_new :: "nat \<Rightarrow> usb_descriptor_record \<Rightarrow> adapter_info" where
  "adapter_info_new index r = \<lparr>
     ai_selector = ''usb:'' @ decimal index, ai_vendor_id = ud_vendor_id r, ai_product_id = ud_product_id r,
     ai_bus_number = ud_bus_number r, ai_port_numbers = ud_port_numbers r,
     ai_has_serial_number = ud_has_serial_number r\<rparr>"

definition discover_with_probe ::
  "(usb_descriptor_record list, 'e) result \<Rightarrow> (adapter_info list, error) result" where
  "discover_with_probe probe =
     bind_result (map_err (\<lambda>source. new_error AdapterDiscovery) probe) (\<lambda>records.
       Inr (map (\<lambda>(index, r). adapter_info_new index r) (enumerate 0 (filter is_bluetooth_hci records))))"

definition list_adapters :: "(usb_device list, 'e) result \<Rightarrow> (adapter_info list, error) result" where
  "list_adapters devices = discover_with_probe (map_ok fst (descriptor_records devices))"

section \<open>What is listed\<close>

lemma collect_records_eq:
  "collect_records ds records skipped =
    (records @ List.map_filter descriptor_record ds, skipped + length (filter (\<lambda>d. descriptor_record d = None) ds))"
  by (induction ds arbitrary: records skipped) (auto simp: map_filter_simps split: option.split)

lemma read_configurations_eq:
  "read_configurations cs classes =
    (if None \<in> set cs then None else Some (classes @ concat (concat (map the cs))))"
  by (induction cs classes rule: read_configurations.induct) auto

text \<open>What a device must look like to be listed.\<close>

definition hci_device :: "usb_device \<Rightarrow> bool" where
  "hci_device d =
     (case descriptor_record d of None \<Rightarrow> False | Some r \<Rightarrow> is_bluetooth_hci r)"

lemma hci_device_iff:
  "hci_device d \<longleftrightarrow>
     (\<exists>descriptor. dev_descriptor d = Some descriptor
        \<and> (dd_class descriptor = bluetooth_hci_class
           \<or> uc_class (dd_class descriptor) = 0 \<and> None \<notin> set (dev_configurations d)
             \<and> (\<exists>c \<in> set (map the (dev_configurations d)). \<exists>settings \<in> set c. bluetooth_hci_class \<in> set settings)))"
  by (auto simp: hci_device_def descriptor_record_def is_bluetooth_hci_def read_configurations_eq
      bluetooth_hci_class_def split: option.splits)

lemma descriptor_record_fields:
  assumes "descriptor_record d \<noteq> None"
  shows "ud_vendor_id (the (descriptor_record d)) = dd_vendor_id (the (dev_descriptor d))"
    "ud_product_id (the (descriptor_record d)) = dd_product_id (the (dev_descriptor d))"
    "ud_bus_number (the (descriptor_record d)) = dev_bus_number d"
    "ud_port_numbers (the (descriptor_record d)) = dev_port_numbers d"
  using assms by (auto simp: descriptor_record_def split: option.splits if_splits)

lemma filter_records:
  "filter is_bluetooth_hci (List.map_filter descriptor_record ds) =
    map (\<lambda>d. the (descriptor_record d)) (filter hci_device ds)"
  by (induction ds) (auto simp: map_filter_simps hci_device_def split: option.split)

text \<open>
  Discovery lists exactly the Bluetooth HCI devices.  When the device list can be read, the result has one
  entry per readable device whose device class, or for a composite device whose interface class, is Bluetooth HCI, in
  enumeration order; the selectors are distinct and number the entries from zero; unreadable devices are skipped; and
  when the list cannot be read the error is an adapter discovery error.
\<close>

theorem discovery_lists_hci_devices:
  "(case list_adapters devices of
      Inl e \<Rightarrow> \<not> is_ok devices \<and> e = new_error AdapterDiscovery
    | Inr adapters \<Rightarrow>
        (\<exists>ds. devices = Inr ds
          \<and> map (\<lambda>a. (ai_vendor_id a, ai_product_id a, ai_bus_number a, ai_port_numbers a)) adapters =
              map (\<lambda>d. (dd_vendor_id (the (dev_descriptor d)), dd_product_id (the (dev_descriptor d)),
                        dev_bus_number d, dev_port_numbers d)) (filter hci_device ds))
        \<and> map ai_selector adapters = map (\<lambda>i. ''usb:'' @ decimal i) [0..<length adapters]
        \<and> distinct (map ai_selector adapters))"
proof (cases devices)
  case (Inr ds)
  define found where "found = filter hci_device ds"
  have adapters: "list_adapters devices = Inr (map (\<lambda>(i, d). adapter_info_new i (the (descriptor_record d))) (enumerate 0 found))"
    by (simp add: list_adapters_def discover_with_probe_def descriptor_records_def Inr collect_records_eq filter_records
        found_def enumerate_map_upt enumerate_eq_zip zip_map2 case_prod_beta)
  have selectors: "map ai_selector (map (\<lambda>(i, d). adapter_info_new i (the (descriptor_record d))) (enumerate 0 found)) =
      map (\<lambda>i. ''usb:'' @ decimal i) [0..<length found]"
    by (rule nth_equalityI) (simp_all add: nth_enumerate_eq adapter_info_new_def)
  have shown: "descriptor_record d \<noteq> None" if "d \<in> set found" for d
    using that by (auto simp: found_def hci_device_def split: option.splits)
  have fields: "map (\<lambda>a. (ai_vendor_id a, ai_product_id a, ai_bus_number a, ai_port_numbers a))
        (map (\<lambda>(i, d). adapter_info_new i (the (descriptor_record d))) (enumerate 0 found)) =
      map (\<lambda>d. (dd_vendor_id (the (dev_descriptor d)), dd_product_id (the (dev_descriptor d)),
                dev_bus_number d, dev_port_numbers d)) found"
    by (rule nth_equalityI) (simp_all add: nth_enumerate_eq adapter_info_new_def descriptor_record_fields[OF shown])
  have "distinct (map (\<lambda>i. ''usb:'' @ decimal i) [0..<n])" for n
    by (simp add: distinct_map inj_on_def decimal_inject)
  then show ?thesis
    using adapters selectors fields Inr by (simp add: found_def)
qed (simp add: list_adapters_def discover_with_probe_def descriptor_records_def)

end
