(* ===== verification/Identity.thy ===== *)
theory Identity
  imports Errors
begin

text \<open>
  \<open>crates/swbt-core/src/profile/identity.rs\<close>: the local Bluetooth address a profile may carry, its
  notation and its validity rules; and the hexadecimal notations of \<open>document.rs\<close>.  A Rust string
  is the list of its UTF-8 bytes, each a \<open>char\<close>.
\<close>

definition address_text_length :: nat where "address_text_length = 17"
definition address_octets :: nat where "address_octets = 6"
definition reserved_inquiry_lap_min :: u32 where "reserved_inquiry_lap_min = 0x9E8B00"
definition reserved_inquiry_lap_max :: u32 where "reserved_inquiry_lap_max = 0x9E8B3F"

lemmas address_consts =
  address_text_length_def address_octets_def reserved_inquiry_lap_min_def reserved_inquiry_lap_max_def

definition char_code :: "char \<Rightarrow> nat" where
  "char_code c = of_char c"

definition hex_nibble :: "char \<Rightarrow> u8 option" where
  "hex_nibble c =
     (let n = char_code c in
      if 48 \<le> n \<and> n \<le> 57 then Some (of_nat (n - 48))
      else if 97 \<le> n \<and> n \<le> 102 then Some (of_nat (n - 97 + 10))
      else if 65 \<le> n \<and> n \<le> 70 then Some (of_nat (n - 65 + 10))
      else None)"

text \<open>The upper-case digit of a nibble, as \<open>{:02X}\<close> prints it and as \<open>encode_hex\<close>'s table has it.\<close>

definition hex_digits :: string where
  "hex_digits = ''0123456789ABCDEF''"

definition hex_digit :: "u8 \<Rightarrow> char" where
  "hex_digit n = hex_digits ! unat n"

definition hex_byte :: "u8 \<Rightarrow> string" where
  "hex_byte b = [hex_digit (drop_bit 4 b), hex_digit (b AND 0x0F)]"

definition separator_indices :: "nat list" where
  "separator_indices = [2, 5, 8, 11, 14]"

section \<open>Local addresses\<close>

type_synonym local_address = "u8 list"

definition address_lap :: "u8 list \<Rightarrow> u32" where
  "address_lap octets = push_bit 16 (ucast (octets ! 3)) OR push_bit 8 (ucast (octets ! 4)) OR ucast (octets ! 5)"

definition local_address_try_from :: "u8 list \<Rightarrow> (local_address, error) result" where
  "local_address_try_from octets =
     (let first = octets ! 0; lap = address_lap octets in
      if first AND 0x01 \<noteq> 0 then Inl (new_error InvalidInput)
      else if first AND 0x02 = 0 then Inl (new_error InvalidInput)
      else if reserved_inquiry_lap_min \<le> lap \<and> lap \<le> reserved_inquiry_lap_max
      then Inl (new_error InvalidInput)
      else Inr octets)"

text \<open>The octet loop of \<open>parse\<close>: one high and one low nibble at three times the index.\<close>

fun parse_octets :: "string \<Rightarrow> nat list \<Rightarrow> (u8 list, error) result" where
  "parse_octets bytes [] = Inr []"
| "parse_octets bytes (i # is) =
     (case (hex_nibble (bytes ! (i * 3)), hex_nibble (bytes ! (i * 3 + 1))) of
        (Some high, Some low) \<Rightarrow>
          map_ok (\<lambda>rest. (push_bit 4 high OR low) # rest) (parse_octets bytes is)
      | _ \<Rightarrow> Inl (new_error InvalidInput))"

definition local_address_parse :: "string \<Rightarrow> (local_address, error) result" where
  "local_address_parse bytes =
     (if length bytes \<noteq> address_text_length
         \<or> list_ex (\<lambda>i. bytes ! i \<noteq> CHR '':'') separator_indices
      then Inl (new_error InvalidInput)
      else bind_result (parse_octets bytes [0..<address_octets]) local_address_try_from)"

definition format_local_address :: "local_address \<Rightarrow> string" where
  "format_local_address a =
     hex_byte (a ! 0) @ '':'' @ hex_byte (a ! 1) @ '':'' @ hex_byte (a ! 2) @ '':''
     @ hex_byte (a ! 3) @ '':'' @ hex_byte (a ! 4) @ '':'' @ hex_byte (a ! 5)"

definition valid_local_address :: "local_address \<Rightarrow> bool" where
  "valid_local_address a = (length a = 6 \<and> local_address_try_from a = Inr a)"

datatype profile_identity = AdapterDefault | LocalAddress local_address

section \<open>Hexadecimal facts\<close>

lemma nibble_bound: "drop_bit 4 (b :: u8) < 16" "(b :: u8) AND 0x0F < 16"
proof -
  have "unat b < 2 ^ LENGTH(8)"
    by (rule unsigned_less)
  then have "unat b div 16 < 16"
    by simp
  then show "drop_bit 4 b < 16"
    by (simp add: word_less_nat_alt drop_bit_eq_div unat_div)
  show "b AND 0x0F < 16"
    by (simp add: word_less_nat_alt and_byte_masks take_bit_eq_mod unat_mod)
qed

lemma hex_nibble_digit_table:
  "list_all (\<lambda>n. hex_nibble (hex_digit (of_nat n)) = Some (of_nat n)) [0..<16]"
  by code_simp

lemma hex_nibble_digit:
  assumes "n < 16"
  shows "hex_nibble (hex_digit n) = Some n"
proof -
  have "unat n < 16"
    using assms by (simp add: word_less_nat_alt)
  then have "unat n \<in> set [0..<16]"
    by simp
  with hex_nibble_digit_table have "hex_nibble (hex_digit (of_nat (unat n))) = Some (of_nat (unat n))"
    unfolding list_all_iff by blast
  then show ?thesis by simp
qed

lemma nibbles_of_byte: "push_bit 4 (drop_bit 4 b) OR (b AND 0x0F) = (b :: u8)"
  by (rule bit_word_eqI) (auto simp: byte_bit_simps)

lemma hex_byte_nibbles:
  "hex_nibble (hex_byte b ! 0) = Some (drop_bit 4 b)"
  "hex_nibble (hex_byte b ! Suc 0) = Some (b AND 0x0F)"
  by (simp_all add: hex_byte_def hex_nibble_digit nibble_bound)

lemma length_hex_byte [simp]: "length (hex_byte b) = 2"
  by (simp add: hex_byte_def)

lemma list6:
  assumes "length a = 6"
  obtains a0 a1 a2 a3 a4 a5 where "a = [a0, a1, a2, a3, a4, a5]"
  using assms by (auto simp: length_Suc_conv numeral_eq_Suc)

lemma local_address_try_from_Inr_iff:
  "local_address_try_from octets = Inr a \<longleftrightarrow>
     a = octets \<and> \<not> bit (octets ! 0) 0 \<and> bit (octets ! 0) 1
     \<and> \<not> (0x9E8B00 \<le> address_lap octets \<and> address_lap octets \<le> 0x9E8B3F)"
proof -
  have "octets ! 0 AND 1 \<noteq> 0 \<longleftrightarrow> bit (octets ! 0) 0"
    using word_and_push_bit_one_iff[of 0 "octets ! 0"] by simp
  moreover have "octets ! 0 AND 2 \<noteq> 0 \<longleftrightarrow> bit (octets ! 0) 1"
    using word_and_push_bit_one_iff[of 1 "octets ! 0"] by simp
  ultimately show ?thesis
    by (auto simp: local_address_try_from_def address_consts Let_def)
qed

lemma local_address_parse_format:
  assumes "valid_local_address a"
  shows "local_address_parse (format_local_address a) = Inr a"
proof -
  from assms obtain a0 a1 a2 a3 a4 a5 where a: "a = [a0, a1, a2, a3, a4, a5]"
    by (auto simp: valid_local_address_def elim: list6)
  have upt: "[0..<6] = [0, 1, 2, 3, 4, 5 :: nat]"
    by (simp add: upt_rec)
  have "parse_octets (format_local_address a) [0..<6] = Inr a"
    by (simp add: a upt format_local_address_def hex_byte_def hex_nibble_digit nibble_bound
        nibbles_of_byte)
  moreover have "length (format_local_address a) = 17"
    "\<not> list_ex (\<lambda>i. format_local_address a ! i \<noteq> CHR '':'') separator_indices"
    by (simp_all add: a format_local_address_def hex_byte_def separator_indices_def)
  ultimately show ?thesis
    using assms
    by (simp add: local_address_parse_def address_consts valid_local_address_def)
qed

interpretation local_address_codec: codec
  valid_local_address format_local_address
  "\<lambda>s. case local_address_parse s of Inl _ \<Rightarrow> None | Inr a \<Rightarrow> Some a"
  by unfold_locales (simp add: local_address_parse_format)

lemma length_parse_octets: "parse_octets bytes is = Inr a \<Longrightarrow> length a = length is"
  by (induction "is" arbitrary: a) (auto simp: map_ok_def split: option.splits sum.splits)

lemma local_address_parse_valid: "local_address_parse s = Inr a \<Longrightarrow> valid_local_address a"
  by (auto simp: local_address_parse_def valid_local_address_def bind_result_Inr_iff
      local_address_try_from_Inr_iff address_consts dest: length_parse_octets split: if_splits)

text \<open>
  The address notation is faithful and safe.  Whatever text parses yields a six-octet address
  that is individual, locally administered and outside the reserved inquiry access codes, and
  printing it in canonical form and parsing again gives the same address.
\<close>

theorem local_address_notation:
  assumes "local_address_parse s = Inr a"
  shows "length a = 6 \<and> \<not> bit (a ! 0) 0 \<and> bit (a ! 0) 1
    \<and> \<not> (0x9E8B00 \<le> address_lap a \<and> address_lap a \<le> 0x9E8B3F)
    \<and> local_address_parse (format_local_address a) = Inr a"
  using local_address_parse_valid[OF assms]
  by (simp add: local_address_parse_format) (auto simp: valid_local_address_def
      local_address_try_from_Inr_iff)

theorem local_address_notation_witness:
  "local_address_parse ''02:0a:Ff:00:10:7C'' = Inr [0x02, 0x0A, 0xFF, 0x00, 0x10, 0x7C]
   \<and> bit ([0x02, 0x0A, 0xFF, 0x00, 0x10, 0x7C :: u8] ! 0) 1"
proof -
  have parse: "local_address_parse ''02:0a:Ff:00:10:7C'' = Inr [0x02, 0x0A, 0xFF, 0x00, 0x10, 0x7C]"
    by code_simp
  show ?thesis
    using local_address_notation[OF parse] parse by blast
qed

end
