(* ===== verification/Colors.thy ===== *)
theory Colors
  imports Errors
begin

text \<open>
  \<open>crates/swbt-core/src/profile/colors.rs\<close>: packed 24-bit colours and the four controller
  colours with their SPI byte order.
\<close>

type_synonym rgb24 = u32

definition rgb24_new :: "u8 \<Rightarrow> u8 \<Rightarrow> u8 \<Rightarrow> rgb24" where
  "rgb24_new red green blue =
     push_bit 16 (ucast red) OR push_bit 8 (ucast green) OR ucast blue"

definition components :: "rgb24 \<Rightarrow> u8 list" where
  "components c =
     [ucast (drop_bit 16 c AND 0xFF), ucast (drop_bit 8 c AND 0xFF), ucast (c AND 0xFF)]"

definition rgb24_try_from :: "u32 \<Rightarrow> (rgb24, error) result" where
  "rgb24_try_from v = (if v \<le> 0xFFFFFF then Inr v else Inl (new_error InvalidInput))"

record controller_colors =
  body :: rgb24
  buttons_color :: rgb24
  left_grip :: rgb24
  right_grip :: rgb24

definition controller_colors_new ::
  "rgb24 \<Rightarrow> rgb24 \<Rightarrow> rgb24 \<Rightarrow> rgb24 \<Rightarrow> controller_colors" where
  "controller_colors_new b bs l r =
     \<lparr>body = b, buttons_color = bs, left_grip = l, right_grip = r\<rparr>"

definition to_spi_bytes :: "controller_colors \<Rightarrow> u8 list" where
  "to_spi_bytes c =
     components (body c) @ components (buttons_color c)
     @ components (left_grip c) @ components (right_grip c)"

definition default_controller_colors :: controller_colors where
  "default_controller_colors = controller_colors_new
     (rgb24_new 0x32 0x32 0x32) (rgb24_new 0xFF 0xFF 0xFF)
     (rgb24_new 0x00 0xB2 0xFF) (rgb24_new 0xFF 0x3B 0x30)"

lemma length_components [simp]: "length (components c) = 3"
  by (simp add: components_def)

lemma length_to_spi_bytes [simp, wire_simps]: "length (to_spi_bytes c) = 12"
  by (simp add: to_spi_bytes_def)

lemma components_rgb24_new: "components (rgb24_new r g b) = [r, g, b]"
  unfolding components_def rgb24_new_def
  by (auto intro!: bit_word_eqI simp: byte_bit_simps)

lemma rgb24_new_le: "rgb24_new r g b \<le> 0xFFFFFF"
proof -
  have "rgb24_new r g b = take_bit 24 (rgb24_new r g b)"
    unfolding rgb24_new_def
    by (rule bit_word_eqI) (auto simp: bit_simps dest: bit_imp_le_length)
  then have "unat (rgb24_new r g b) = take_bit 24 (unat (rgb24_new r g b))"
    by (metis unsigned_take_bit_eq)
  then have "unat (rgb24_new r g b) < 2 ^ 24"
    by (metis take_bit_nat_less_exp)
  then show ?thesis
    by (simp add: word_le_nat_alt)
qed

text \<open>The decoder of the three component bytes, for the codec view of a colour.\<close>

fun rgb24_of_components :: "u8 list \<Rightarrow> rgb24 option" where
  "rgb24_of_components [r, g, b] = Some (rgb24_new r g b)"
| "rgb24_of_components _ = None"

lemma rgb24_of_components_components:
  assumes "c \<le> 0xFFFFFF"
  shows "rgb24_of_components (components c) = Some c"
proof -
  have "unat c < 2 ^ 24"
    using assms by (simp add: word_le_nat_alt)
  then have "take_bit 24 c = c"
    by (simp add: word_unat_eq_iff unsigned_take_bit_eq take_bit_nat_eq_self)
  then have high: "\<not> bit c n" if "24 \<le> n" for n
    using that by (metis bit_take_bit_iff not_le)
  have "rgb24_new (ucast (drop_bit 16 c AND 0xFF)) (ucast (drop_bit 8 c AND 0xFF))
          (ucast (c AND 0xFF)) = c"
    unfolding rgb24_new_def
  proof (rule bit_word_eqI)
    fix n
    assume "n < LENGTH(32)"
    then show "bit (push_bit 16 (ucast (ucast (drop_bit 16 c AND 0xFF) :: u8)) OR
        push_bit 8 (ucast (ucast (drop_bit 8 c AND 0xFF) :: u8)) OR
        ucast (ucast (c AND 0xFF) :: u8) :: u32) n = bit c n"
      using high[of n] by (cases "n < 8"; cases "n < 16"; cases "n < 24") (auto simp: byte_bit_simps)
  qed
  then show ?thesis
    by (simp add: components_def)
qed

text \<open>The SPI byte form of a colour is a codec on the 24-bit values.\<close>

interpretation rgb_codec: codec "\<lambda>c. c \<le> 0xFFFFFF" components rgb24_of_components
  by unfold_locales (rule rgb24_of_components_components)

end
