(* ===== verification/ControllerModel.thy ===== *)
theory ControllerModel
  imports Colors "HOL-Library.Numeral_Type"
begin

text \<open>
  \<open>crates/swbt-core/src/model/mod.rs\<close> and \<open>hid.rs\<close>: the logical buttons, the three controller
  models and the constants each model carries.  The Rust code selects a model by a type
  parameter \<open>M: ControllerModel\<close>; here the model is a value of \<open>controller_kind\<close> passed to every
  operation that is generic in \<open>M\<close>, and \<open>M::SPEC\<close> is \<open>spec m\<close>.
\<close>

section \<open>Logical buttons\<close>

datatype button_kind =
    Btn_A | Btn_B | Btn_X | Btn_Y | Btn_L | Btn_R | Btn_ZL | Btn_ZR
  | Btn_Plus | Btn_Minus | Btn_Home | Btn_Capture | Btn_LeftStick | Btn_RightStick
  | Btn_SL | Btn_SR | Btn_DpadUp | Btn_DpadDown | Btn_DpadLeft | Btn_DpadRight

text \<open>The stable logical code is the enum discriminant (\<open>kind as u8\<close>).\<close>

fun button_code :: "button_kind \<Rightarrow> nat" where
  "button_code Btn_A = 0x00"
| "button_code Btn_B = 0x01"
| "button_code Btn_X = 0x02"
| "button_code Btn_Y = 0x03"
| "button_code Btn_L = 0x04"
| "button_code Btn_R = 0x05"
| "button_code Btn_ZL = 0x06"
| "button_code Btn_ZR = 0x07"
| "button_code Btn_Plus = 0x08"
| "button_code Btn_Minus = 0x09"
| "button_code Btn_Home = 0x0A"
| "button_code Btn_Capture = 0x0B"
| "button_code Btn_LeftStick = 0x0C"
| "button_code Btn_RightStick = 0x0D"
| "button_code Btn_SL = 0x0E"
| "button_code Btn_SR = 0x0F"
| "button_code Btn_DpadUp = 0x10"
| "button_code Btn_DpadDown = 0x11"
| "button_code Btn_DpadLeft = 0x12"
| "button_code Btn_DpadRight = 0x13"

definition all_buttons :: "button_kind list" where
  "all_buttons =
     [Btn_A, Btn_B, Btn_X, Btn_Y, Btn_L,
      Btn_R, Btn_ZL, Btn_ZR, Btn_Plus, Btn_Minus,
      Btn_Home, Btn_Capture, Btn_LeftStick, Btn_RightStick, Btn_SL,
      Btn_SR, Btn_DpadUp, Btn_DpadDown, Btn_DpadLeft, Btn_DpadRight]"

lemma button_code_less: "button_code k < 20"
  by (cases k) simp_all

lemma button_code_inject [simp]: "button_code j = button_code k \<longleftrightarrow> j = k"
  by (cases j; cases k) simp_all

text \<open>Buttons are ordered by their logical code, the order every iteration follows.\<close>

instantiation button_kind :: linorder
begin

definition less_eq_button_kind :: "button_kind \<Rightarrow> button_kind \<Rightarrow> bool" where
  "less_eq_button_kind j k = (button_code j \<le> button_code k)"

definition less_button_kind :: "button_kind \<Rightarrow> button_kind \<Rightarrow> bool" where
  "less_button_kind j k = (button_code j < button_code k)"

instance
  by standard (auto simp: less_eq_button_kind_def less_button_kind_def)

end

section \<open>Models and their protocol constants\<close>

datatype controller_kind = Pro | JoyConL | JoyConR

definition all_controller_kinds :: "controller_kind list" where
  "all_controller_kinds = [Pro, JoyConL, JoyConR]"

record wire_position =
  byte_index :: nat
  wire_mask :: u8

text \<open>\<open>[i16; 3]\<close> calibration vectors are triples.\<close>

record sensor_calibration =
  zero_raw :: "i16 \<times> i16 \<times> i16"
  reference_raw :: "i16 \<times> i16 \<times> i16"

record hid_sdp_policy_spec =
  service_name :: "string option"
  service_description :: "string option"
  provider_name :: "string option"
  device_release_number :: "u16 option"
  bluetooth_profile_version :: u16
  parser_version :: u16
  device_subclass :: u8
  country_code :: u8
  virtual_cable :: bool
  reconnect_initiate :: bool
  remote_wake :: "bool option"
  profile_version :: u16
  supervision_timeout :: u16
  normally_connectable :: bool
  boot_device :: bool
  ssr_host_max_latency :: u16
  ssr_host_min_timeout :: u16

definition pro_hid_sdp_policy :: hid_sdp_policy_spec where
  "pro_hid_sdp_policy = \<lparr>
     service_name = None, service_description = None, provider_name = None,
     device_release_number = None,
     bluetooth_profile_version = 0x0101, parser_version = 0x0111,
     device_subclass = 0x08, country_code = 0x21,
     virtual_cable = True, reconnect_initiate = True, remote_wake = Some True,
     profile_version = 0x0101, supervision_timeout = 0x0C80,
     normally_connectable = True, boot_device = False,
     ssr_host_max_latency = 0xFFFF, ssr_host_min_timeout = 0xFFFF\<rparr>"

definition joycon_hid_sdp_policy :: hid_sdp_policy_spec where
  "joycon_hid_sdp_policy = \<lparr>
     service_name = Some ''Wireless Gamepad'', service_description = Some ''Gamepad'',
     provider_name = Some ''Nintendo'', device_release_number = Some 0x0100,
     bluetooth_profile_version = 0x0100, parser_version = 0x0111,
     device_subclass = 0x08, country_code = 0x00,
     virtual_cable = True, reconnect_initiate = True, remote_wake = None,
     profile_version = 0x0100, supervision_timeout = 0x0C80,
     normally_connectable = False, boot_device = True,
     ssr_host_max_latency = 0x0640, ssr_host_min_timeout = 0x0320\<rparr>"

definition switch_hid_report_descriptor :: "u8 list" where
  "switch_hid_report_descriptor = [
     0x05, 0x01, 0x15, 0x00, 0x09, 0x04, 0xA1, 0x01, 0x85, 0x30, 0x05, 0x01, 0x05, 0x09,
     0x19, 0x01, 0x29, 0x0A, 0x15, 0x00, 0x25, 0x01, 0x75, 0x01, 0x95, 0x0A, 0x55, 0x00,
     0x65, 0x00, 0x81, 0x02, 0x05, 0x09, 0x19, 0x0B, 0x29, 0x0E, 0x15, 0x00, 0x25, 0x01,
     0x75, 0x01, 0x95, 0x04, 0x81, 0x02, 0x75, 0x01, 0x95, 0x02, 0x81, 0x03, 0x0B, 0x01,
     0x00, 0x01, 0x00, 0xA1, 0x00, 0x0B, 0x30, 0x00, 0x01, 0x00, 0x0B, 0x31, 0x00, 0x01,
     0x00, 0x0B, 0x32, 0x00, 0x01, 0x00, 0x0B, 0x35, 0x00, 0x01, 0x00, 0x15, 0x00, 0x27,
     0xFF, 0xFF, 0x00, 0x00, 0x75, 0x10, 0x95, 0x04, 0x81, 0x02, 0xC0, 0x0B, 0x39, 0x00,
     0x01, 0x00, 0x15, 0x00, 0x25, 0x07, 0x35, 0x00, 0x46, 0x3B, 0x01, 0x65, 0x14, 0x75,
     0x04, 0x95, 0x01, 0x81, 0x02, 0x05, 0x09, 0x19, 0x0F, 0x29, 0x12, 0x15, 0x00, 0x25,
     0x01, 0x75, 0x01, 0x95, 0x04, 0x81, 0x02, 0x75, 0x08, 0x95, 0x34, 0x81, 0x03, 0x06,
     0x00, 0xFF, 0x85, 0x21, 0x09, 0x01, 0x75, 0x08, 0x95, 0x3F, 0x81, 0x03, 0x85, 0x81,
     0x09, 0x02, 0x75, 0x08, 0x95, 0x3F, 0x81, 0x03, 0x85, 0x01, 0x09, 0x03, 0x75, 0x08,
     0x95, 0x3F, 0x91, 0x83, 0x85, 0x10, 0x09, 0x04, 0x75, 0x08, 0x95, 0x3F, 0x91, 0x83,
     0x85, 0x80, 0x09, 0x05, 0x75, 0x08, 0x95, 0x3F, 0x91, 0x83, 0x85, 0x82, 0x09, 0x06,
     0x75, 0x08, 0x95, 0x3F, 0x91, 0x83, 0xC0]"

record model_protocol_spec =
  local_name :: string
  class_of_device :: u32
  device_type :: u8
  device_info_tail :: "u8 list"
  battery_connection :: u8
  vibrator_input :: u8
  pairing_trigger_buttons :: "button_kind list"
  accepted_imu_modes :: "u8 list"
  default_colors :: controller_colors
  accelerometer_calibration :: sensor_calibration
  gyroscope_calibration :: sensor_calibration
  hid_report_descriptor :: "u8 list"
  hid_sdp_policy :: hid_sdp_policy_spec

definition model_protocol_spec_new ::
  "string \<Rightarrow> u32 \<Rightarrow> u8 \<Rightarrow> u8 list \<Rightarrow> button_kind list \<Rightarrow> controller_colors
   \<Rightarrow> hid_sdp_policy_spec \<Rightarrow> model_protocol_spec" where
  "model_protocol_spec_new name cod devtype tail triggers colors policy = \<lparr>
     local_name = name, class_of_device = cod, device_type = devtype,
     device_info_tail = tail,
     battery_connection = 0x80, vibrator_input = 0x00,
     pairing_trigger_buttons = triggers,
     accepted_imu_modes = [0, 1, 2, 3, 4, 5],
     default_colors = colors,
     accelerometer_calibration =
       \<lparr>zero_raw = (0, 0, 0), reference_raw = (0x4000, 0x4000, 0x4000)\<rparr>,
     gyroscope_calibration =
       \<lparr>zero_raw = (0, 0, 0), reference_raw = (0x343B, 0x343B, 0x343B)\<rparr>,
     hid_report_descriptor = switch_hid_report_descriptor,
     hid_sdp_policy = policy\<rparr>"

text \<open>\<open>ModelSpec\<close>: the wire mapping carries the supported buttons in declaration order.\<close>

record model_spec =
  spec_kind :: controller_kind
  spec_profile_name :: string
  spec_has_left_stick :: bool
  spec_has_right_stick :: bool
  spec_supported_buttons :: "button_kind list"
  spec_button_wire_mapping :: "(button_kind \<times> wire_position) list"
  spec_protocol :: model_protocol_spec

definition model_spec_new ::
  "controller_kind \<Rightarrow> string \<Rightarrow> bool \<Rightarrow> bool \<Rightarrow> (button_kind \<times> nat \<times> u8) list
   \<Rightarrow> model_protocol_spec \<Rightarrow> model_spec" where
  "model_spec_new k name left right table p = \<lparr>
     spec_kind = k, spec_profile_name = name,
     spec_has_left_stick = left, spec_has_right_stick = right,
     spec_supported_buttons = map fst table,
     spec_button_wire_mapping =
       map (\<lambda>(b, i, msk). (b, \<lparr>byte_index = i, wire_mask = msk\<rparr>)) table,
     spec_protocol = p\<rparr>"

definition pro_buttons :: "(button_kind \<times> nat \<times> u8) list" where
  "pro_buttons = [
     (Btn_A, 3, 0x08), (Btn_B, 3, 0x04), (Btn_X, 3, 0x02),
     (Btn_Y, 3, 0x01), (Btn_L, 5, 0x40), (Btn_R, 3, 0x40),
     (Btn_ZL, 5, 0x80), (Btn_ZR, 3, 0x80), (Btn_Plus, 4, 0x02),
     (Btn_Minus, 4, 0x01), (Btn_Home, 4, 0x10), (Btn_Capture, 4, 0x20),
     (Btn_LeftStick, 4, 0x08), (Btn_RightStick, 4, 0x04), (Btn_DpadUp, 5, 0x02),
     (Btn_DpadDown, 5, 0x01), (Btn_DpadLeft, 5, 0x08), (Btn_DpadRight, 5, 0x04)]"

definition pro_protocol_spec :: model_protocol_spec where
  "pro_protocol_spec = model_protocol_spec_new
     ''Pro Controller'' 0x002508 0x03 [0x03, 0x02]
     [Btn_L, Btn_R]
     (controller_colors_new
       (rgb24_new 0x32 0x32 0x32)
       (rgb24_new 0xFF 0xFF 0xFF)
       (rgb24_new 0x00 0xB2 0xFF)
       (rgb24_new 0xFF 0x3B 0x30))
     pro_hid_sdp_policy"

definition pro_spec :: model_spec where
  "pro_spec = model_spec_new Pro ''pro'' True True
     pro_buttons pro_protocol_spec"

definition joycon_l_buttons :: "(button_kind \<times> nat \<times> u8) list" where
  "joycon_l_buttons = [
     (Btn_L, 5, 0x40), (Btn_ZL, 5, 0x80), (Btn_Minus, 4, 0x01),
     (Btn_Capture, 4, 0x20), (Btn_LeftStick, 4, 0x08), (Btn_SL, 5, 0x20),
     (Btn_SR, 5, 0x10), (Btn_DpadUp, 5, 0x02), (Btn_DpadDown, 5, 0x01),
     (Btn_DpadLeft, 5, 0x08), (Btn_DpadRight, 5, 0x04)]"

definition joycon_l_protocol_spec :: model_protocol_spec where
  "joycon_l_protocol_spec = model_protocol_spec_new
     ''Joy-Con (L)'' 0x002508 0x01 [0x01, 0x01]
     [Btn_SL, Btn_SR]
     (controller_colors_new
       (rgb24_new 0x00 0xB2 0xFF)
       (rgb24_new 0x32 0x32 0x32)
       (rgb24_new 0x00 0xB2 0xFF)
       (rgb24_new 0x00 0xB2 0xFF))
     joycon_hid_sdp_policy"

definition joycon_l_spec :: model_spec where
  "joycon_l_spec = model_spec_new JoyConL ''joycon_l'' True False
     joycon_l_buttons joycon_l_protocol_spec"

definition joycon_r_buttons :: "(button_kind \<times> nat \<times> u8) list" where
  "joycon_r_buttons = [
     (Btn_A, 3, 0x08), (Btn_B, 3, 0x04), (Btn_X, 3, 0x02),
     (Btn_Y, 3, 0x01), (Btn_R, 3, 0x40), (Btn_ZR, 3, 0x80),
     (Btn_Plus, 4, 0x02), (Btn_Home, 4, 0x10), (Btn_RightStick, 4, 0x04),
     (Btn_SL, 3, 0x20), (Btn_SR, 3, 0x10)]"

definition joycon_r_protocol_spec :: model_protocol_spec where
  "joycon_r_protocol_spec = model_protocol_spec_new
     ''Joy-Con (R)'' 0x002508 0x02 [0x01, 0x01]
     [Btn_SL, Btn_SR]
     (controller_colors_new
       (rgb24_new 0xFF 0x3B 0x30)
       (rgb24_new 0x32 0x32 0x32)
       (rgb24_new 0xFF 0x3B 0x30)
       (rgb24_new 0xFF 0x3B 0x30))
     joycon_hid_sdp_policy"

definition joycon_r_spec :: model_spec where
  "joycon_r_spec = model_spec_new JoyConR ''joycon_r'' False True
     joycon_r_buttons joycon_r_protocol_spec"

fun spec :: "controller_kind \<Rightarrow> model_spec" where
  "spec Pro = pro_spec"
| "spec JoyConL = joycon_l_spec"
| "spec JoyConR = joycon_r_spec"

abbreviation protocol_spec :: "controller_kind \<Rightarrow> model_protocol_spec" where
  "protocol_spec m \<equiv> spec_protocol (spec m)"

definition supported_buttons :: "controller_kind \<Rightarrow> button_kind list" where
  "supported_buttons m = spec_supported_buttons (spec m)"

text \<open>\<open>find_map\<close> over the wire mapping: the first entry for the button.\<close>

definition button_wire_position :: "controller_kind \<Rightarrow> button_kind \<Rightarrow> wire_position option" where
  "button_wire_position m b = map_of (spec_button_wire_mapping (spec m)) b"

definition supports_button :: "controller_kind \<Rightarrow> button_kind \<Rightarrow> bool" where
  "supports_button m b = (button_wire_position m b \<noteq> None)"

declare
  spec.simps [simp del, model_defs]
  pro_buttons_def [model_defs] joycon_l_buttons_def [model_defs] joycon_r_buttons_def [model_defs]
  pro_spec_def [model_defs] joycon_l_spec_def [model_defs] joycon_r_spec_def [model_defs]
  pro_protocol_spec_def [model_defs] joycon_l_protocol_spec_def [model_defs]
  joycon_r_protocol_spec_def [model_defs]
  model_spec_new_def [model_defs] model_protocol_spec_new_def [model_defs]

section \<open>Facts about the models\<close>

lemma supported_buttons_simps:
  "supported_buttons Pro = map fst pro_buttons"
  "supported_buttons JoyConL = map fst joycon_l_buttons"
  "supported_buttons JoyConR = map fst joycon_r_buttons"
  by (simp_all add: supported_buttons_def spec.simps pro_spec_def joycon_l_spec_def joycon_r_spec_def
      model_spec_new_def)

lemma supports_button_iff: "supports_button m b \<longleftrightarrow> b \<in> set (supported_buttons m)"
proof -
  have "fst ` set (spec_button_wire_mapping (spec m)) = set (supported_buttons m)"
    by (cases m) (simp_all add: supported_buttons_def spec.simps model_spec_new_def pro_spec_def
        joycon_l_spec_def joycon_r_spec_def image_image case_prod_beta)
  then show ?thesis
    by (simp add: supports_button_def button_wire_position_def map_of_eq_None_iff)
qed

lemma sorted_supported_buttons: "sorted (supported_buttons m)"
  by (cases m) (simp_all add: supported_buttons_simps model_defs less_eq_button_kind_def)

lemma distinct_supported_buttons: "distinct (supported_buttons m)"
  by (cases m) (simp_all add: supported_buttons_simps model_defs)

lemma wire_position_bounds:
  assumes "button_wire_position m b = Some p"
  shows "3 \<le> byte_index p \<and> byte_index p \<le> 5 \<and> wire_mask p \<noteq> 0"
  using assms
  by (cases m; cases b) (auto simp: button_wire_position_def model_defs)

text \<open>
  Two different buttons of one model never share a report bit.  The table is finite, so the
  check is evaluated.
\<close>

definition wire_positions_disjoint :: "(button_kind \<times> wire_position) list \<Rightarrow> bool" where
  "wire_positions_disjoint t = list_all (\<lambda>(b, p). list_all (\<lambda>(c, q).
     b = c \<or> byte_index p \<noteq> byte_index q \<or> wire_mask p AND wire_mask q = 0) t) t"

lemma wire_positions_disjoint_spec: "wire_positions_disjoint (spec_button_wire_mapping (spec m))"
  by (cases m; hypsubst; code_simp)

lemma wire_position_disjoint:
  assumes "button_wire_position m b = Some p" "button_wire_position m c = Some q"
    and "b \<noteq> c" "byte_index p = byte_index q"
  shows "wire_mask p AND wire_mask q = 0"
  using wire_positions_disjoint_spec[of m] assms
  by (fastforce simp: wire_positions_disjoint_def list_all_iff button_wire_position_def
      dest: map_of_SomeD)

lemma protocol_spec_common [simp]:
  "battery_connection (protocol_spec m) = 0x80"
  "vibrator_input (protocol_spec m) = 0"
  "accepted_imu_modes (protocol_spec m) = [0, 1, 2, 3, 4, 5]"
  "length (device_info_tail (protocol_spec m)) = 2"
  "accelerometer_calibration (protocol_spec m) =
     \<lparr>zero_raw = (0, 0, 0), reference_raw = (0x4000, 0x4000, 0x4000)\<rparr>"
  "gyroscope_calibration (protocol_spec m) =
     \<lparr>zero_raw = (0, 0, 0), reference_raw = (0x343B, 0x343B, 0x343B)\<rparr>"
  by (cases m; simp add: model_defs)+

lemma device_type_simps:
  "device_type (protocol_spec Pro) = 3"
  "device_type (protocol_spec JoyConL) = 1"
  "device_type (protocol_spec JoyConR) = 2"
  by (simp_all add: model_defs)

lemma pairing_trigger_buttons_simps:
  "pairing_trigger_buttons (protocol_spec Pro) = [Btn_L, Btn_R]"
  "pairing_trigger_buttons (protocol_spec JoyConL) = [Btn_SL, Btn_SR]"
  "pairing_trigger_buttons (protocol_spec JoyConR) = [Btn_SL, Btn_SR]"
  by (simp_all add: model_defs)

end
