(* ===== verification/ProfileDocument.thy ===== *)
theory ProfileDocument
  imports Identity ControllerModel "HOL-Library.Char_ord" "HOL-Library.List_Lexorder"
begin

text \<open>
  \<open>crates/swbt-core/src/profile/document.rs\<close> and \<open>summary.rs\<close>: the schema v2 pairing profile, its
  key store of one current peer per adapter namespace, and its text form.

  A \<open>BTreeMap\<close> is an association list with strictly increasing keys.  JSON is the work of
  \<open>serde_json\<close>: a document is handed over as a \<open>raw_document\<close>, the tree of its fields with every string
  still text, and the record \<open>json_codec\<close> turns such a tree into bytes and back.  The source's own
  \<open>Serialize\<close> and \<open>Deserialize\<close> implementations are \<open>to_raw\<close> and \<open>from_raw\<close>.
\<close>

section \<open>Ordered maps\<close>

fun btree_insert :: "'k::linorder \<Rightarrow> 'v \<Rightarrow> ('k \<times> 'v) list \<Rightarrow> ('k \<times> 'v) list" where
  "btree_insert k v [] = [(k, v)]"
| "btree_insert k v ((k', v') # entries) =
     (if k < k' then (k, v) # (k', v') # entries
      else if k = k' then (k, v) # entries
      else (k', v') # btree_insert k v entries)"

definition btree_ok :: "('k::linorder \<times> 'v) list \<Rightarrow> bool" where
  "btree_ok entries = sorted_wrt (<) (map fst entries)"

text \<open>The contract of a map that the profile code relies on.\<close>

locale key_map =
  fixes new :: "'m"
    and put :: "'k \<Rightarrow> 'v \<Rightarrow> 'm \<Rightarrow> 'm"
    and find :: "'m \<Rightarrow> 'k \<Rightarrow> 'v option"
    and well_formed :: "'m \<Rightarrow> bool"
  assumes well_formed_new: "well_formed new"
    and well_formed_put: "well_formed m \<Longrightarrow> well_formed (put k v m)"
    and find_new: "find new k = None"
    and find_put: "well_formed m \<Longrightarrow> find (put k v m) j = (if j = k then Some v else find m j)"
begin

lemma well_formed_collect: "well_formed m \<Longrightarrow> well_formed (fold (\<lambda>(k, v). put k v) entries m)"
  by (induction entries arbitrary: m) (auto simp: well_formed_put)

lemma find_collect:
  "well_formed m \<Longrightarrow> find (fold (\<lambda>(k, v). put k v) entries m) j =
     (case map_of (rev entries) j of None \<Rightarrow> find m j | Some v \<Rightarrow> Some v)"
  by (induction entries arbitrary: m)
    (auto simp: well_formed_put find_put map_add_def split: option.splits)

end

lemma btree_ok_Nil [simp]: "btree_ok []"
  by (simp add: btree_ok_def)

lemma map_of_btree_insert:
  "btree_ok m \<Longrightarrow> map_of (btree_insert k v m) j = (if j = k then Some v else map_of m j)"
  by (induction k v m rule: btree_insert.induct) (auto simp: btree_ok_def)

lemma set_btree_insert_keys: "fst ` set (btree_insert k v m) = insert k (fst ` set m)"
  by (induction k v m rule: btree_insert.induct) auto

lemma btree_ok_insert: "btree_ok m \<Longrightarrow> btree_ok (btree_insert k v m)"
proof (induction k v m rule: btree_insert.induct)
  case (2 k v k' v' entries)
  then show ?case
    using set_btree_insert_keys[of k v entries]
    by (auto simp: btree_ok_def dest: less_trans)
qed (simp add: btree_ok_def)

interpretation btree: key_map "[]" btree_insert "\<lambda>m. map_of m" btree_ok
  by unfold_locales (simp_all add: map_of_btree_insert btree_ok_insert)

lemma btree_insert_last:
  "\<forall>k' \<in> fst ` set m. k' < k \<Longrightarrow> btree_insert k v m = m @ [(k, v)]"
  by (induction k v m rule: btree_insert.induct) auto

text \<open>Collecting entries that are already in order rebuilds the map.\<close>

lemma collect_sorted:
  "btree_ok (m @ entries) \<Longrightarrow> fold (\<lambda>(k, v). btree_insert k v) entries m = m @ entries"
proof (induction entries arbitrary: m)
  case (Cons e entries)
  obtain k v where e: "e = (k, v)" by (cases e)
  have "btree_insert k v m = m @ [(k, v)]"
    using Cons.prems by (intro btree_insert_last) (auto simp: btree_ok_def e sorted_wrt_append)
  with Cons show ?case
    by (simp add: e)
qed simp

section \<open>Keys and bonds\<close>

record stored_classic_bond =
  link_key :: "u8 list"
  link_key_type :: u8
  authenticated :: bool

definition is_ascii_hexdigit :: "char \<Rightarrow> bool" where
  "is_ascii_hexdigit c = (hex_nibble c \<noteq> None)"

definition is_ascii_lowercase :: "char \<Rightarrow> bool" where
  "is_ascii_lowercase c = (97 \<le> char_code c \<and> char_code c \<le> 122)"

definition is_bluetooth_address :: "string \<Rightarrow> bool" where
  "is_bluetooth_address bytes =
     (length bytes = 17
      \<and> list_all (\<lambda>i. bytes ! i = CHR '':'') separator_indices
      \<and> list_all (\<lambda>i. i \<in> set separator_indices \<or> is_ascii_hexdigit (bytes ! i)) [0..<length bytes])"

definition is_canonical_bluetooth_address :: "string \<Rightarrow> bool" where
  "is_canonical_bluetooth_address v = (is_bluetooth_address v \<and> \<not> list_ex is_ascii_lowercase v)"

definition invalid_profile :: error where
  "invalid_profile = new_error InvalidProfile"

definition bluetooth_address_key_parse :: "string \<Rightarrow> (string, error) result" where
  "bluetooth_address_key_parse v =
     (if \<not> is_canonical_bluetooth_address v then Inl invalid_profile else Inr v)"

definition strip_suffix :: "string \<Rightarrow> string \<Rightarrow> string option" where
  "strip_suffix v suffix =
     (if length suffix \<le> length v \<and> drop (length v - length suffix) v = suffix
      then Some (take (length v - length suffix) v) else None)"

definition classic_peer_key_parse :: "string \<Rightarrow> (string, error) result" where
  "classic_peer_key_parse v =
     (case strip_suffix v ''/P'' of
        None \<Rightarrow> Inl invalid_profile
      | Some address \<Rightarrow>
          if \<not> is_canonical_bluetooth_address address then Inl invalid_profile else Inr v)"

definition encode_hex :: "u8 list \<Rightarrow> string" where
  "encode_hex bytes = concat (map hex_byte bytes)"

fun decode_hex_pairs :: "string \<Rightarrow> u8 list option" where
  "decode_hex_pairs [] = Some []"
| "decode_hex_pairs [c] = Some []"
| "decode_hex_pairs (c # d # rest) =
     (case (hex_nibble c, hex_nibble d, decode_hex_pairs rest) of
        (Some h, Some l, Some bytes) \<Rightarrow> Some ((16 * h + l) # bytes)
      | _ \<Rightarrow> None)"

definition decode_link_key :: "string \<Rightarrow> u8 list option" where
  "decode_link_key v =
     (if length v \<noteq> 32 \<or> \<not> list_all is_ascii_hexdigit v then None else decode_hex_pairs v)"

text \<open>\<open>ClassicPairingKeysDocument\<close> with its nested \<open>LinkKeyDocument\<close>.\<close>

record classic_pairing_keys =
  doc_authenticated :: bool
  doc_link_key :: "u8 list"
  doc_link_key_type :: u8

definition to_stored_bond :: "classic_pairing_keys \<Rightarrow> stored_classic_bond" where
  "to_stored_bond k =
     \<lparr>link_key = doc_link_key k, link_key_type = doc_link_key_type k, authenticated = doc_authenticated k\<rparr>"

definition from_stored_bond :: "stored_classic_bond \<Rightarrow> classic_pairing_keys" where
  "from_stored_bond b =
     \<lparr>doc_authenticated = authenticated b, doc_link_key = link_key b, doc_link_key_type = link_key_type b\<rparr>"

section \<open>The document\<close>

type_synonym peer_map = "(string \<times> classic_pairing_keys) list"
type_synonym namespace_map = "(string \<times> peer_map) list"

record profile_document =
  doc_controller_kind :: controller_kind
  doc_identity :: profile_identity
  doc_namespaces :: namespace_map
  doc_schema_version :: u64

definition profile_schema_version :: u64 where
  "profile_schema_version = 2"

definition document_empty :: "controller_kind \<Rightarrow> profile_identity \<Rightarrow> profile_document" where
  "document_empty m identity = \<lparr>
     doc_controller_kind = m, doc_identity = identity, doc_namespaces = [],
     doc_schema_version = profile_schema_version\<rparr>"

definition document_validate :: "profile_document \<Rightarrow> (unit, error) result" where
  "document_validate d =
     (if doc_schema_version d \<noteq> profile_schema_version then Inl invalid_profile
      else if list_ex (\<lambda>peers. length peers > 1) (map snd (doc_namespaces d)) then Inl invalid_profile
      else Inr ())"

definition document_pairing_keys ::
  "profile_document \<Rightarrow> string \<Rightarrow> string \<Rightarrow> stored_classic_bond option" where
  "document_pairing_keys d namespace peer =
     (case map_of (doc_namespaces d) namespace of
        None \<Rightarrow> None
      | Some peers \<Rightarrow> map_option to_stored_bond (map_of peers peer))"

definition document_all_pairing_keys ::
  "profile_document \<Rightarrow> string \<Rightarrow> (string \<times> stored_classic_bond) list" where
  "document_all_pairing_keys d namespace =
     (case map_of (doc_namespaces d) namespace of
        None \<Rightarrow> []
      | Some peers \<Rightarrow> map (\<lambda>(peer, keys). (peer, to_stored_bond keys)) peers)"

text \<open>
  Both keys are parsed before the map is touched; the entry of the namespace is emptied and then
  holds the replacement only.
\<close>

definition document_replace_pairing_keys ::
  "profile_document \<Rightarrow> string \<Rightarrow> string \<Rightarrow> stored_classic_bond \<Rightarrow> (profile_document, error) result" where
  "document_replace_pairing_keys d namespace peer replacement =
     bind_result (bluetooth_address_key_parse namespace) (\<lambda>namespace.
     bind_result (classic_peer_key_parse peer) (\<lambda>peer.
       let cleared = [];
           peers = btree_insert peer (from_stored_bond replacement) cleared
       in Inr (d\<lparr>doc_namespaces := btree_insert namespace peers (doc_namespaces d)\<rparr>)))"

datatype profile_identity_kind = AdapterDefaultIdentity | LocalAddressIdentity

record profile_summary =
  summary_schema_version :: u64
  summary_controller_kind :: controller_kind
  summary_identity_kind :: profile_identity_kind
  namespace_count :: nat
  bond_count :: nat

fun identity_kind_of :: "profile_identity \<Rightarrow> profile_identity_kind" where
  "identity_kind_of AdapterDefault = AdapterDefaultIdentity"
| "identity_kind_of (LocalAddress _) = LocalAddressIdentity"

definition document_summary :: "profile_document \<Rightarrow> profile_summary" where
  "document_summary d = \<lparr>
     summary_schema_version = profile_schema_version,
     summary_controller_kind = doc_controller_kind d,
     summary_identity_kind = identity_kind_of (doc_identity d),
     namespace_count = length (doc_namespaces d),
     bond_count = sum_list (map (\<lambda>(_, peers). length peers) (doc_namespaces d))\<rparr>"

section \<open>The text form\<close>

text \<open>
  The tree that \<open>serde\<close> reads and writes: field names and the closed identity variants resolved, every
  string still text.  Unknown, missing and mistyped fields are refused by \<open>json_read\<close>.
\<close>

datatype raw_identity = RawAdapterDefault | RawLocalAddress string

record raw_pairing_keys =
  raw_authenticated :: bool
  raw_value :: string
  raw_link_key_type :: u8

record raw_document =
  raw_controller_kind :: string
  raw_format :: string
  raw_identity :: raw_identity
  raw_namespaces :: "(string \<times> (string \<times> raw_pairing_keys) list) list"
  raw_schema_version :: u64

record json_codec =
  json_render :: "raw_document \<Rightarrow> string option"
  json_read :: "string \<Rightarrow> raw_document option"

fun controller_kind_name :: "controller_kind \<Rightarrow> string" where
  "controller_kind_name Pro = ''pro''"
| "controller_kind_name JoyConL = ''joycon_l''"
| "controller_kind_name JoyConR = ''joycon_r''"

definition controller_kind_of_name :: "string \<Rightarrow> controller_kind option" where
  "controller_kind_of_name s =
     (if s = ''pro'' then Some Pro
      else if s = ''joycon_l'' then Some JoyConL
      else if s = ''joycon_r'' then Some JoyConR
      else None)"

definition format_name :: string where
  "format_name = ''swbt.profile''"

fun identity_to_raw :: "profile_identity \<Rightarrow> raw_identity" where
  "identity_to_raw AdapterDefault = RawAdapterDefault"
| "identity_to_raw (LocalAddress a) = RawLocalAddress (format_local_address a)"

fun identity_from_raw :: "raw_identity \<Rightarrow> profile_identity option" where
  "identity_from_raw RawAdapterDefault = Some AdapterDefault"
| "identity_from_raw (RawLocalAddress s) =
     (case local_address_parse s of Inl _ \<Rightarrow> None | Inr a \<Rightarrow> Some (LocalAddress a))"

definition keys_to_raw :: "classic_pairing_keys \<Rightarrow> raw_pairing_keys" where
  "keys_to_raw k = \<lparr>raw_authenticated = doc_authenticated k, raw_value = encode_hex (doc_link_key k),
     raw_link_key_type = doc_link_key_type k\<rparr>"

definition keys_from_raw :: "raw_pairing_keys \<Rightarrow> classic_pairing_keys option" where
  "keys_from_raw r =
     (case decode_link_key (raw_value r) of
        None \<Rightarrow> None
      | Some bytes \<Rightarrow> Some \<lparr>doc_authenticated = raw_authenticated r, doc_link_key = bytes,
          doc_link_key_type = raw_link_key_type r\<rparr>)"

text \<open>
  A \<open>BTreeMap\<close> is read entry by entry: each key is checked, each value converted, and the pair
  inserted.
\<close>

fun read_entries ::
  "(string \<Rightarrow> (string, error) result) \<Rightarrow> ('r \<Rightarrow> 'v option) \<Rightarrow> (string \<times> 'r) list
   \<Rightarrow> (string \<times> 'v) list \<Rightarrow> (string \<times> 'v) list option" where
  "read_entries key_parse value_from [] m = Some m"
| "read_entries key_parse value_from ((k, r) # entries) m =
     (case (key_parse k, value_from r) of
        (Inr k', Some v) \<Rightarrow> read_entries key_parse value_from entries (btree_insert k' v m)
      | _ \<Rightarrow> None)"

definition peers_from_raw :: "(string \<times> raw_pairing_keys) list \<Rightarrow> peer_map option" where
  "peers_from_raw entries = read_entries classic_peer_key_parse keys_from_raw entries []"

definition to_raw :: "profile_document \<Rightarrow> raw_document" where
  "to_raw d = \<lparr>
     raw_controller_kind = controller_kind_name (doc_controller_kind d),
     raw_format = format_name,
     raw_identity = identity_to_raw (doc_identity d),
     raw_namespaces = map (\<lambda>(ns, peers). (ns, map (\<lambda>(peer, k). (peer, keys_to_raw k)) peers)) (doc_namespaces d),
     raw_schema_version = doc_schema_version d\<rparr>"

definition from_raw :: "raw_document \<Rightarrow> profile_document option" where
  "from_raw r =
     (case (controller_kind_of_name (raw_controller_kind r), identity_from_raw (raw_identity r),
            read_entries bluetooth_address_key_parse peers_from_raw (raw_namespaces r) []) of
        (Some m, Some i, Some namespaces) \<Rightarrow>
          if raw_format r = format_name
          then Some \<lparr>doc_controller_kind = m, doc_identity = i, doc_namespaces = namespaces,
                     doc_schema_version = raw_schema_version r\<rparr>
          else None
      | _ \<Rightarrow> None)"

definition document_to_json_bytes :: "json_codec \<Rightarrow> profile_document \<Rightarrow> (string, error) result" where
  "document_to_json_bytes J d =
     (case json_render J (to_raw d) of
        None \<Rightarrow> Inl (new_error Internal)
      | Some bytes \<Rightarrow> Inr (bytes @ [CHR 0x0A]))"

definition document_parse_json :: "json_codec \<Rightarrow> string \<Rightarrow> (profile_document, error) result" where
  "document_parse_json J bytes =
     (case json_read J bytes of
        None \<Rightarrow> Inl invalid_profile
      | Some r \<Rightarrow>
          (case from_raw r of
             None \<Rightarrow> Inl invalid_profile
           | Some d \<Rightarrow> bind_result (document_validate d) (\<lambda>_. Inr d)))"

text \<open>\<open>PairingProfile<M>\<close> wraps a document whose controller kind is \<open>M::KIND\<close>.\<close>

definition pairing_profile_try_from ::
  "controller_kind \<Rightarrow> profile_document \<Rightarrow> (profile_document, error) result" where
  "pairing_profile_try_from m d =
     (if doc_controller_kind d \<noteq> m then Inl (new_error ProfileControllerMismatch) else Inr d)"

definition pairing_profile_from_json ::
  "json_codec \<Rightarrow> controller_kind \<Rightarrow> string \<Rightarrow> (profile_document, error) result" where
  "pairing_profile_from_json J m bytes =
     bind_result (document_parse_json J bytes) (pairing_profile_try_from m)"

definition profile_summary_from_json :: "json_codec \<Rightarrow> string \<Rightarrow> (profile_summary, error) result" where
  "profile_summary_from_json J bytes = map_ok document_summary (document_parse_json J bytes)"

section \<open>The invariant of a profile\<close>

definition valid_keys :: "classic_pairing_keys \<Rightarrow> bool" where
  "valid_keys k = (length (doc_link_key k) = 16)"

definition valid_peers :: "peer_map \<Rightarrow> bool" where
  "valid_peers peers =
     (btree_ok peers \<and> length peers \<le> 1
      \<and> (\<forall>(peer, k) \<in> set peers. classic_peer_key_parse peer = Inr peer \<and> valid_keys k))"

fun valid_identity :: "profile_identity \<Rightarrow> bool" where
  "valid_identity AdapterDefault = True"
| "valid_identity (LocalAddress a) = valid_local_address a"

definition valid_document :: "profile_document \<Rightarrow> bool" where
  "valid_document d =
     (doc_schema_version d = profile_schema_version \<and> valid_identity (doc_identity d)
      \<and> btree_ok (doc_namespaces d)
      \<and> (\<forall>(ns, peers) \<in> set (doc_namespaces d).
            bluetooth_address_key_parse ns = Inr ns \<and> valid_peers peers))"

section \<open>Hexadecimal keys\<close>

lemma hex_value_of_nibbles: "16 * drop_bit 4 b + (b AND 0x0F) = (b :: u8)"
proof -
  have "b AND 0x0F = b mod 16"
    by (simp add: and_byte_masks take_bit_eq_mod)
  moreover have "drop_bit 4 b = b div 16"
    by (simp add: drop_bit_eq_div)
  ultimately show ?thesis
    by (simp only: mult_div_mod_eq)
qed

lemma decode_hex_pairs_encode: "decode_hex_pairs (encode_hex bytes) = Some bytes"
  by (induction bytes)
    (simp_all add: encode_hex_def hex_byte_def hex_nibble_digit nibble_bound hex_value_of_nibbles)

lemma hexdigits_encode_hex: "list_all is_ascii_hexdigit (encode_hex bytes)"
  by (induction bytes)
    (simp_all add: encode_hex_def hex_byte_def is_ascii_hexdigit_def hex_nibble_digit nibble_bound)

lemma length_encode_hex [simp]: "length (encode_hex bytes) = 2 * length bytes"
  by (induction bytes) (simp_all add: encode_hex_def)

lemma decode_link_key_encode: "length bytes = 16 \<Longrightarrow> decode_link_key (encode_hex bytes) = Some bytes"
  by (simp add: decode_link_key_def hexdigits_encode_hex decode_hex_pairs_encode)

interpretation link_key_codec: codec "\<lambda>bytes. length bytes = 16" encode_hex decode_link_key
  by unfold_locales (rule decode_link_key_encode)

lemma length_decode_hex_pairs: "decode_hex_pairs v = Some bytes \<Longrightarrow> length bytes = length v div 2"
  by (induction v arbitrary: bytes rule: decode_hex_pairs.induct) (auto split: option.splits)

lemma length_decode_link_key: "decode_link_key v = Some bytes \<Longrightarrow> length bytes = 16"
  by (auto simp: decode_link_key_def dest: length_decode_hex_pairs split: if_splits)

section \<open>Reading what was written\<close>

lemma keys_from_to_raw: "valid_keys k \<Longrightarrow> keys_from_raw (keys_to_raw k) = Some k"
  by (simp add: keys_from_raw_def keys_to_raw_def valid_keys_def decode_link_key_encode)

lemma read_entries_written:
  assumes "\<forall>(k, v) \<in> set entries. key_parse k = Inr k \<and> value_from (to_value v) = Some v"
  shows "read_entries key_parse value_from (map (\<lambda>(k, v). (k, to_value v)) entries) m =
    Some (fold (\<lambda>(k, v). btree_insert k v) entries m)"
  using assms by (induction entries arbitrary: m) auto

lemma peers_from_to_raw:
  assumes "valid_peers peers"
  shows "peers_from_raw (map (\<lambda>(peer, k). (peer, keys_to_raw k)) peers) = Some peers"
proof -
  have "\<forall>(k, v) \<in> set peers. classic_peer_key_parse k = Inr k \<and> keys_from_raw (keys_to_raw v) = Some v"
    using assms by (auto simp: valid_peers_def keys_from_to_raw)
  from read_entries_written[where to_value = keys_to_raw, OF this, of "[]"] show ?thesis
    using assms collect_sorted[of "[]" peers] by (simp add: peers_from_raw_def valid_peers_def)
qed

lemma controller_kind_of_name_name [simp]: "controller_kind_of_name (controller_kind_name m) = Some m"
  by (cases m) (simp_all add: controller_kind_of_name_def)

lemma identity_from_to_raw: "valid_identity i \<Longrightarrow> identity_from_raw (identity_to_raw i) = Some i"
  by (cases i) (simp_all add: local_address_parse_format)

lemma from_to_raw:
  assumes "valid_document d"
  shows "from_raw (to_raw d) = Some d"
proof -
  have "\<forall>(k, v) \<in> set (doc_namespaces d). bluetooth_address_key_parse k = Inr k
      \<and> peers_from_raw (map (\<lambda>(peer, k). (peer, keys_to_raw k)) v) = Some v"
    using assms by (auto simp: valid_document_def peers_from_to_raw)
  from read_entries_written[where to_value = "\<lambda>v. map (\<lambda>(peer, k). (peer, keys_to_raw k)) v", OF this, of "[]"]
  have "read_entries bluetooth_address_key_parse peers_from_raw (raw_namespaces (to_raw d)) [] =
      Some (doc_namespaces d)"
    using assms collect_sorted[of "[]" "doc_namespaces d"]
    by (simp add: to_raw_def valid_document_def)
  then show ?thesis
    using assms by (simp add: from_raw_def to_raw_def identity_from_to_raw valid_document_def)
qed

lemma validate_valid: "valid_document d \<Longrightarrow> document_validate d = Inr ()"
  by (fastforce simp: document_validate_def valid_document_def valid_peers_def list_ex_iff)

interpretation document_codec: codec valid_document to_raw from_raw
  by unfold_locales (rule from_to_raw)

section \<open>Every document in use is valid\<close>

lemma valid_document_empty: "valid_identity i \<Longrightarrow> valid_document (document_empty m i)"
  by (simp add: valid_document_def document_empty_def)

lemma key_parse_idem:
  "bluetooth_address_key_parse s = Inr k \<Longrightarrow> k = s \<and> bluetooth_address_key_parse k = Inr k"
  "classic_peer_key_parse s = Inr k \<Longrightarrow> k = s \<and> classic_peer_key_parse k = Inr k"
  by (auto simp: bluetooth_address_key_parse_def classic_peer_key_parse_def split: option.splits if_splits)

lemma set_btree_insert: "set (btree_insert k v m) \<subseteq> insert (k, v) (set m)"
  by (induction k v m rule: btree_insert.induct) auto

lemma read_entries_invariant:
  assumes "read_entries key_parse value_from entries m = Some m'"
    and "btree_ok m" "\<forall>(k, v) \<in> set m. P k v"
    and "\<And>s k r v. key_parse s = Inr k \<Longrightarrow> value_from r = Some v \<Longrightarrow> P k v"
  shows "btree_ok m' \<and> (\<forall>(k, v) \<in> set m'. P k v)"
  using assms(1-3)
proof (induction entries arbitrary: m)
  case (Cons e entries)
  obtain s r where e: "e = (s, r)" by (cases e)
  with Cons.prems(1) obtain k v where kv: "key_parse s = Inr k" "value_from r = Some v"
    and rest: "read_entries key_parse value_from entries (btree_insert k v m) = Some m'"
    by (auto split: sum.splits option.splits)
  have "\<forall>(k', v') \<in> set (btree_insert k v m). P k' v'"
    using Cons.prems(3) assms(4)[OF kv] set_btree_insert[of k v m] by fastforce
  then show ?case
    using Cons.IH[OF rest] Cons.prems(2) by (simp add: btree_ok_insert)
qed simp

lemma keys_from_raw_valid: "keys_from_raw r = Some k \<Longrightarrow> valid_keys k"
  by (auto simp: keys_from_raw_def valid_keys_def dest: length_decode_link_key split: option.splits)

definition peers_wf :: "peer_map \<Rightarrow> bool" where
  "peers_wf peers = (btree_ok peers
     \<and> (\<forall>(peer, k) \<in> set peers. classic_peer_key_parse peer = Inr peer \<and> valid_keys k))"

lemma peers_from_raw_wf: "peers_from_raw r = Some peers \<Longrightarrow> peers_wf peers"
  unfolding peers_from_raw_def peers_wf_def
  by (erule read_entries_invariant) (use key_parse_idem keys_from_raw_valid in auto)

lemma identity_from_raw_valid: "identity_from_raw r = Some i \<Longrightarrow> valid_identity i"
  by (cases r) (auto simp: local_address_parse_valid split: sum.splits)

lemma from_raw_valid:
  assumes "from_raw r = Some d" and "document_validate d = Inr ()"
  shows "valid_document d"
proof -
  from assms(1) have identity: "valid_identity (doc_identity d)"
    and read: "read_entries bluetooth_address_key_parse peers_from_raw (raw_namespaces r) [] = Some (doc_namespaces d)"
    by (auto simp: from_raw_def identity_from_raw_valid split: option.splits if_splits)
  have "btree_ok (doc_namespaces d)
      \<and> (\<forall>(ns, peers) \<in> set (doc_namespaces d). bluetooth_address_key_parse ns = Inr ns \<and> peers_wf peers)"
    by (rule read_entries_invariant[OF read]) (use key_parse_idem peers_from_raw_wf in auto)
  then show ?thesis
    using assms(2) identity
    by (fastforce simp: valid_document_def valid_peers_def peers_wf_def document_validate_def
        list_ex_iff not_less split: if_splits)
qed

lemma document_parse_json_valid: "document_parse_json J bytes = Inr d \<Longrightarrow> valid_document d"
  by (auto simp: document_parse_json_def bind_result_Inr_iff intro: from_raw_valid split: option.splits)

lemma replace_valid:
  assumes "valid_document d" "length (link_key b) = 16"
    and "document_replace_pairing_keys d ns peer b = Inr d'"
  shows "valid_document d'"
proof -
  from assms(3) have keys: "bluetooth_address_key_parse ns = Inr ns" "classic_peer_key_parse peer = Inr peer"
    and d': "d' = d\<lparr>doc_namespaces := btree_insert ns [(peer, from_stored_bond b)] (doc_namespaces d)\<rparr>"
    by (auto simp: document_replace_pairing_keys_def bind_result_Inr_iff Let_def dest: key_parse_idem)
  have peers: "valid_peers [(peer, from_stored_bond b)]"
    using keys assms(2) by (simp add: valid_peers_def valid_keys_def from_stored_bond_def btree_ok_def)
  have "\<forall>(ns', peers) \<in> set (btree_insert ns [(peer, from_stored_bond b)] (doc_namespaces d)).
      bluetooth_address_key_parse ns' = Inr ns' \<and> valid_peers peers"
    using set_btree_insert[of ns "[(peer, from_stored_bond b)]" "doc_namespaces d"] peers keys assms(1)
    by (fastforce simp: valid_document_def)
  then show ?thesis
    using assms(1) by (simp add: d' valid_document_def btree_ok_insert)
qed

lemma replace_succeeds:
  "is_ok (document_replace_pairing_keys d ns peer b) \<longleftrightarrow>
     bluetooth_address_key_parse ns = Inr ns \<and> classic_peer_key_parse peer = Inr peer"
  by (auto simp: is_ok_iff document_replace_pairing_keys_def bind_result_Inr_iff Let_def dest: key_parse_idem)

text \<open>What a lookup returns after a replacement, in the namespace and in the others.\<close>

lemma replace_lookup:
  assumes "valid_document d" and "document_replace_pairing_keys d ns peer b = Inr d'"
  shows "document_all_pairing_keys d' ns = [(peer, b)]"
    and "document_pairing_keys d' ns p = (if p = peer then Some b else None)"
    and "ns' \<noteq> ns \<Longrightarrow> document_all_pairing_keys d' ns' = document_all_pairing_keys d ns'"
    and "ns' \<noteq> ns \<Longrightarrow> document_pairing_keys d' ns' p = document_pairing_keys d ns' p"
    and "doc_controller_kind d' = doc_controller_kind d"
proof -
  have d': "d' = d\<lparr>doc_namespaces := btree_insert ns [(peer, from_stored_bond b)] (doc_namespaces d)\<rparr>"
    using assms(2)
    by (auto simp: document_replace_pairing_keys_def bind_result_Inr_iff Let_def dest!: key_parse_idem)
  have look: "map_of (doc_namespaces d') n =
      (if n = ns then Some [(peer, from_stored_bond b)] else map_of (doc_namespaces d) n)" for n
    using btree.find_put[of "doc_namespaces d" ns "[(peer, from_stored_bond b)]" n] assms(1)
    by (simp add: d' valid_document_def)
  have bond: "to_stored_bond (from_stored_bond b) = b"
    by (simp add: to_stored_bond_def from_stored_bond_def)
  show "document_all_pairing_keys d' ns = [(peer, b)]"
    by (simp add: document_all_pairing_keys_def look bond)
  show "document_pairing_keys d' ns p = (if p = peer then Some b else None)"
    by (simp add: document_pairing_keys_def look bond)
  show "document_all_pairing_keys d' ns' = document_all_pairing_keys d ns'" if "ns' \<noteq> ns"
    using that by (simp add: document_all_pairing_keys_def look)
  show "document_pairing_keys d' ns' p = document_pairing_keys d ns' p" if "ns' \<noteq> ns"
    using that by (simp add: document_pairing_keys_def look)
  show "doc_controller_kind d' = doc_controller_kind d"
    by (simp add: d')
qed

text \<open>
  A namespace holds exactly its current peer.  Storing a bond in a valid profile succeeds iff
  both keys are canonical; the profile stays valid, the peer's bond is what was stored, every other
  peer of the namespace is gone, and other namespaces are untouched.
\<close>

theorem replace_keeps_one_current_peer:
  assumes "valid_document d" and "length (link_key b) = 16"
  shows "(is_ok (document_replace_pairing_keys d ns peer b) \<longleftrightarrow>
        bluetooth_address_key_parse ns = Inr ns \<and> classic_peer_key_parse peer = Inr peer)
    \<and> (\<forall>d'. document_replace_pairing_keys d ns peer b = Inr d' \<longrightarrow>
        valid_document d' \<and> document_all_pairing_keys d' ns = [(peer, b)]
        \<and> (\<forall>p. document_pairing_keys d' ns p = (if p = peer then Some b else None))
        \<and> (\<forall>ns'. ns' \<noteq> ns \<longrightarrow> document_all_pairing_keys d' ns' = document_all_pairing_keys d ns'))"
  using replace_succeeds[of d ns peer b] replace_valid[OF assms] replace_lookup[OF assms(1)] by blast

theorem replace_keeps_one_current_peer_witness:
  "valid_document (document_empty Pro AdapterDefault)
   \<and> is_ok (document_replace_pairing_keys (document_empty Pro AdapterDefault)
        ''00:11:22:33:44:AB'' ''AA:BB:CC:DD:EE:FF/P''
        \<lparr>link_key = replicate 16 7, link_key_type = 4, authenticated = True\<rparr>)"
proof -
  have valid: "valid_document (document_empty Pro AdapterDefault)"
    by (simp add: valid_document_empty)
  have keys: "bluetooth_address_key_parse ''00:11:22:33:44:AB'' = Inr ''00:11:22:33:44:AB''"
    "classic_peer_key_parse ''AA:BB:CC:DD:EE:FF/P'' = Inr ''AA:BB:CC:DD:EE:FF/P''"
    by code_simp+
  show ?thesis
    using replace_keeps_one_current_peer[OF valid, of "\<lparr>link_key = replicate 16 7, link_key_type = 4,
        authenticated = True\<rparr>" "''00:11:22:33:44:AB''" "''AA:BB:CC:DD:EE:FF/P''"] keys valid
    by simp
qed

text \<open>
  The contract of \<open>serde_json\<close> that the profile relies on: text rendered from a tree, with the
  final newline, reads back as that tree.
\<close>

definition json_reads_back :: "json_codec \<Rightarrow> bool" where
  "json_reads_back J =
     (\<forall>r bytes. json_render J r = Some bytes \<longrightarrow> json_read J (bytes @ [CHR 0x0A]) = Some r)"

lemma load_saved:
  assumes "json_reads_back J" "valid_document d" "document_to_json_bytes J d = Inr bytes"
  shows "pairing_profile_from_json J m bytes =
    (if doc_controller_kind d = m then Inr d else Inl (new_error ProfileControllerMismatch))"
proof -
  have "json_read J bytes = Some (to_raw d)"
    using assms by (auto simp: document_to_json_bytes_def json_reads_back_def split: option.splits)
  then have "document_parse_json J bytes = Inr d"
    using assms(2) by (simp add: document_parse_json_def from_to_raw validate_valid)
  then show ?thesis
    by (simp add: pairing_profile_from_json_def pairing_profile_try_from_def)
qed

lemma load_valid:
  "pairing_profile_from_json J m bytes = Inr d \<Longrightarrow> valid_document d \<and> doc_controller_kind d = m"
  by (auto simp: pairing_profile_from_json_def bind_result_Inr_iff pairing_profile_try_from_def
      document_parse_json_valid split: if_splits)

text \<open>
  A saved profile loads as itself.  Given that JSON text reads back as the tree it was rendered
  from, loading the bytes of a valid profile returns that profile for its own controller model and
  a controller mismatch for any other; and whatever loads at all is valid, of the requested model.
\<close>

theorem profile_load_after_save:
  assumes "json_reads_back J"
  shows "(\<forall>bytes. valid_document d \<and> document_to_json_bytes J d = Inr bytes \<longrightarrow>
        pairing_profile_from_json J m bytes =
          (if doc_controller_kind d = m then Inr d else Inl (new_error ProfileControllerMismatch)))
    \<and> (\<forall>bytes d'. pairing_profile_from_json J m bytes = Inr d' \<longrightarrow>
        valid_document d' \<and> doc_controller_kind d' = m)"
  using load_saved[OF assms] load_valid by blast

definition sample_json_codec :: json_codec where
  "sample_json_codec = \<lparr>
     json_render = (\<lambda>r. if r = to_raw (document_empty Pro AdapterDefault) then Some ''{}'' else None),
     json_read = (\<lambda>bytes. if bytes = ''{}'' @ [CHR 0x0A]
       then Some (to_raw (document_empty Pro AdapterDefault)) else None)\<rparr>"

theorem profile_load_after_save_witness:
  "json_reads_back sample_json_codec
   \<and> pairing_profile_from_json sample_json_codec Pro (''{}'' @ [CHR 0x0A]) =
       Inr (document_empty Pro AdapterDefault)"
proof -
  have J: "json_reads_back sample_json_codec"
    by (simp add: json_reads_back_def sample_json_codec_def)
  have valid: "valid_document (document_empty Pro AdapterDefault)"
    by (simp add: valid_document_empty)
  have render: "document_to_json_bytes sample_json_codec (document_empty Pro AdapterDefault) =
      Inr (''{}'' @ [CHR 0x0A])"
    by (simp add: document_to_json_bytes_def sample_json_codec_def)
  have "doc_controller_kind (document_empty Pro AdapterDefault) = Pro"
    by (simp add: document_empty_def)
  then show ?thesis
    using profile_load_after_save[OF J, where m = Pro and d = "document_empty Pro AdapterDefault"]
      J valid render by presburger
qed

end
