(* ===== verification/Lifecycle.thy ===== *)
theory Lifecycle
  imports Prelude
begin

text \<open>
  \<open>src/runtime/lifecycle.rs\<close> and the public \<open>LifecycleState\<close> of \<open>src/diagnostics.rs\<close>: the state
  machine that gates every runtime operation.  Its transitions are also given as a step relation,
  so that what a sequence of operations can reach is stated by rule induction.
\<close>

datatype lifecycle_state =
  Lc_Configured | Lc_Open | Lc_Connecting | Lc_Ready | Lc_Closing | Lc_Closed | Lc_Failed

datatype runtime_state = Rs_Open | Rs_Connecting | Rs_Ready | Rs_Closing | Rs_Failed

datatype lifecycle_action = BeginCleanup | ClosedAction | NoAction

datatype lifecycle_command_error = LifecycleShutdown | LifecycleFailed

definition lifecycle_new :: runtime_state where
  "lifecycle_new = Rs_Open"

fun lifecycle_state_of :: "runtime_state \<Rightarrow> lifecycle_state" where
  "lifecycle_state_of Rs_Open = Lc_Open"
| "lifecycle_state_of Rs_Connecting = Lc_Connecting"
| "lifecycle_state_of Rs_Ready = Lc_Ready"
| "lifecycle_state_of Rs_Closing = Lc_Closing"
| "lifecycle_state_of Rs_Failed = Lc_Failed"

definition mark_failed :: "runtime_state \<Rightarrow> runtime_state" where
  "mark_failed s = Rs_Failed"

text \<open>The transitions that may be refused return whether they happened and the next state.\<close>

definition lifecycle_begin_connection :: "runtime_state \<Rightarrow> bool \<times> runtime_state" where
  "lifecycle_begin_connection s = (if s \<noteq> Rs_Open then (False, s) else (True, Rs_Connecting))"

definition mark_ready :: "runtime_state \<Rightarrow> bool \<times> runtime_state" where
  "mark_ready s = (if s \<noteq> Rs_Connecting then (False, s) else (True, Rs_Ready))"

definition mark_connection_ended :: "runtime_state \<Rightarrow> bool \<times> runtime_state" where
  "mark_connection_ended s =
     (if s \<notin> {Rs_Connecting, Rs_Ready} then (False, s) else (True, Rs_Open))"

fun request_close :: "runtime_state \<Rightarrow> lifecycle_action \<times> runtime_state" where
  "request_close Rs_Closing = (NoAction, Rs_Closing)"
| "request_close _ = (BeginCleanup, Rs_Closing)"

fun complete_close :: "runtime_state \<Rightarrow> lifecycle_action" where
  "complete_close Rs_Closing = ClosedAction"
| "complete_close _ = NoAction"

fun ensure_input_command :: "runtime_state \<Rightarrow> (unit, lifecycle_command_error) result" where
  "ensure_input_command Rs_Closing = Inl LifecycleShutdown"
| "ensure_input_command Rs_Failed = Inl LifecycleFailed"
| "ensure_input_command _ = Inr ()"

lemma lifecycle_state_of_inject [simp]: "lifecycle_state_of a = lifecycle_state_of b \<longleftrightarrow> a = b"
  by (cases a; cases b) simp_all

lemma lifecycle_state_of_eq [simp]:
  "lifecycle_state_of s = Lc_Ready \<longleftrightarrow> s = Rs_Ready"
  "lifecycle_state_of s = Lc_Connecting \<longleftrightarrow> s = Rs_Connecting"
  "lifecycle_state_of s = Lc_Open \<longleftrightarrow> s = Rs_Open"
  "lifecycle_state_of s \<noteq> Lc_Closed"
  "lifecycle_state_of s \<noteq> Lc_Configured"
  by (cases s; simp)+

section \<open>The transitions as a relation\<close>

text \<open>
  The worker's step marks a failure only while it runs, before any cleanup: \<open>fail\<close> ends the step that
  \<open>close\<close> would have ended.
\<close>

inductive lifecycle_step :: "runtime_state \<Rightarrow> runtime_state \<Rightarrow> bool" where
  begin_step: "lifecycle_begin_connection s = (True, s') \<Longrightarrow> lifecycle_step s s'"
| ready_step: "mark_ready s = (True, s') \<Longrightarrow> lifecycle_step s s'"
| ended_step: "mark_connection_ended s = (True, s') \<Longrightarrow> lifecycle_step s s'"
| close_step: "request_close s = (BeginCleanup, s') \<Longrightarrow> lifecycle_step s s'"
| fail_step: "s \<noteq> Rs_Closing \<Longrightarrow> lifecycle_step s (mark_failed s)"

inductive_cases lifecycle_stepE: "lifecycle_step s s'"

lemma request_close_eq: "request_close s = (if s = Rs_Closing then NoAction else BeginCleanup, Rs_Closing)"
  by (cases s) simp_all

lemma lifecycle_step_iff:
  "lifecycle_step s s' \<longleftrightarrow>
     s = Rs_Open \<and> s' = Rs_Connecting
   \<or> s = Rs_Connecting \<and> s' = Rs_Ready
   \<or> s \<in> {Rs_Connecting, Rs_Ready} \<and> s' = Rs_Open
   \<or> s \<noteq> Rs_Closing \<and> s' \<in> {Rs_Closing, Rs_Failed}"
  using fail_step[of s]
  by (auto elim!: lifecycle_stepE intro: lifecycle_step.intros
      simp: lifecycle_begin_connection_def mark_ready_def mark_connection_ended_def mark_failed_def
        request_close_eq split: if_splits)

lemma closing_is_final: "lifecycle_step\<^sup>*\<^sup>* s s' \<Longrightarrow> s = Rs_Closing \<Longrightarrow> s' = Rs_Closing"
  by (induction rule: rtranclp_induct) (auto simp: lifecycle_step_iff)

lemma failed_leads_to_closing: "lifecycle_step\<^sup>*\<^sup>* s s' \<Longrightarrow> s = Rs_Failed \<Longrightarrow> s' \<in> {Rs_Failed, Rs_Closing}"
  by (induction rule: rtranclp_induct) (auto simp: lifecycle_step_iff)

text \<open>How a state came to be: \<open>trace\<close> lists the states visited, oldest first.\<close>

inductive lifecycle_trace :: "runtime_state list \<Rightarrow> bool" where
  start: "lifecycle_trace [lifecycle_new]"
| extend: "lifecycle_trace (trace @ [s]) \<Longrightarrow> lifecycle_step s s' \<Longrightarrow> lifecycle_trace (trace @ [s, s'])"

lemma lifecycle_trace_ready_predecessor:
  assumes "lifecycle_trace trace" "i < length trace" "trace ! i = Rs_Ready"
  shows "0 < i \<and> trace ! (i - 1) = Rs_Connecting"
  using assms
proof (induction arbitrary: i rule: lifecycle_trace.induct)
  case (extend trace s s')
  show ?case
  proof (cases "i = length trace + 1")
    case True
    with extend.prems extend.hyps(2) show ?thesis
      by (auto simp: nth_append lifecycle_step_iff)
  next
    case False
    with extend.prems have i: "i < length (trace @ [s])" by simp
    moreover have "(trace @ [s]) ! j = (trace @ [s, s']) ! j" if "j < length (trace @ [s])" for j
      using that by (auto simp: nth_append nth_Cons split: nat.splits)
    ultimately show ?thesis
      using extend.IH[of i] extend.prems(2) by simp
  qed
qed (simp add: lifecycle_new_def)

text \<open>
  The lifecycle machine.  Along every run of it from a new controller, \<open>Ready\<close> is entered only
  from \<open>Connecting\<close>; once closing it stays closing, once failed it can only be closed; and input
  commands are refused exactly in those two states, each with its own error.
\<close>

theorem lifecycle_discipline:
  assumes "lifecycle_trace trace" and "i < length trace"
  shows "(trace ! i = Rs_Ready \<longrightarrow> 0 < i \<and> trace ! (i - 1) = Rs_Connecting)
    \<and> (\<forall>s'. lifecycle_step\<^sup>*\<^sup>* (trace ! i) s' \<longrightarrow>
          (trace ! i = Rs_Closing \<longrightarrow> s' = Rs_Closing)
        \<and> (trace ! i = Rs_Failed \<longrightarrow> s' \<in> {Rs_Failed, Rs_Closing}))
    \<and> (ensure_input_command (trace ! i) = Inl LifecycleShutdown \<longleftrightarrow> trace ! i = Rs_Closing)
    \<and> (ensure_input_command (trace ! i) = Inl LifecycleFailed \<longleftrightarrow> trace ! i = Rs_Failed)"
  using lifecycle_trace_ready_predecessor[OF assms]
  by (cases "trace ! i") (auto dest: closing_is_final failed_leads_to_closing)

theorem lifecycle_discipline_witness:
  "lifecycle_trace [Rs_Open, Rs_Connecting, Rs_Ready]
   \<and> [Rs_Open, Rs_Connecting, Rs_Ready] ! (2 - 1) = Rs_Connecting"
proof -
  have "lifecycle_trace ([] @ [Rs_Open])"
    using lifecycle_trace.start by (simp add: lifecycle_new_def)
  then have "lifecycle_trace ([Rs_Open] @ [Rs_Connecting])"
    using lifecycle_trace.extend[of "[]" Rs_Open Rs_Connecting] by (simp add: lifecycle_step_iff)
  then have trace: "lifecycle_trace [Rs_Open, Rs_Connecting, Rs_Ready]"
    using lifecycle_trace.extend[of "[Rs_Open]" Rs_Connecting Rs_Ready] by (simp add: lifecycle_step_iff)
  show ?thesis
    using lifecycle_discipline[OF trace, of 2] trace by simp
qed

end
