(* ===== verification/Clock.thy ===== *)
theory Clock
  imports Prelude
begin

text \<open>
  Time in the runtime: \<open>core::time::Duration\<close> as a number of nanoseconds, and
  \<open>src/runtime/clock.rs\<close>.  A \<open>Duration\<close> holds \<open>u64\<close> seconds and fewer than \<open>10^9\<close> nanoseconds, so
  the representable values are those up to \<open>duration_max\<close>; \<open>checked_add\<close> and \<open>saturating_add\<close>
  write the overflow out.
\<close>

type_synonym duration = nat

definition nanos_per_second :: nat where
  "nanos_per_second = 1000000000"

definition duration_max :: duration where
  "duration_max = 18446744073709551615999999999"

definition from_secs :: "nat \<Rightarrow> duration" where
  "from_secs s = s * nanos_per_second"

definition from_millis :: "nat \<Rightarrow> duration" where
  "from_millis ms = ms * 1000000"

definition duration_checked_add :: "duration \<Rightarrow> duration \<Rightarrow> duration option" where
  "duration_checked_add a b = (if a + b \<le> duration_max then Some (a + b) else None)"

definition duration_saturating_add :: "duration \<Rightarrow> duration \<Rightarrow> duration" where
  "duration_saturating_add a b = min (a + b) duration_max"

text \<open>\<open>as_nanos\<close> is a \<open>u128\<close>, wide enough for every duration; \<open>u64::try_from\<close> bounds it.\<close>

definition fits_protocol_timestamp :: "duration \<Rightarrow> bool" where
  "fits_protocol_timestamp d = (d \<le> 2 ^ 64 - 1)"

definition protocol_timestamp :: "duration \<Rightarrow> u64" where
  "protocol_timestamp now = (if now \<le> 2 ^ 64 - 1 then of_nat now else 0xFFFFFFFFFFFFFFFF)"

definition deadline_after :: "duration \<Rightarrow> duration \<Rightarrow> duration" where
  "deadline_after now d = duration_saturating_add now d"

lemma duration_max_eq: "duration_max = (2 ^ 64 - 1) * nanos_per_second + 999999999"
  by (simp add: duration_max_def nanos_per_second_def)

lemma duration_max_as_nanos_fits_u128: "duration_max < 2 ^ 128"
  by (simp add: duration_max_def)

lemma duration_checked_add_Some:
  "duration_checked_add a b = Some c \<longleftrightarrow> c = a + b \<and> c \<le> duration_max"
  by (auto simp: duration_checked_add_def)

lemma unat_protocol_timestamp: "unat (protocol_timestamp now) = min now (2 ^ 64 - 1)"
  by (auto simp: protocol_timestamp_def unsigned_of_nat take_bit_nat_eq_self)

lemma protocol_timestamp_mono: "a \<le> b \<Longrightarrow> protocol_timestamp a \<le> protocol_timestamp b"
  by (simp add: word_le_nat_alt unat_protocol_timestamp)

lemma deadline_after_le_max: "deadline_after now d \<le> duration_max"
  by (simp add: deadline_after_def duration_saturating_add_def)

lemma deadline_after_ge: "now \<le> duration_max \<Longrightarrow> now \<le> deadline_after now d"
  by (simp add: deadline_after_def duration_saturating_add_def)

end
