(* ===== verification/InputState.thy ===== *)
theory InputState
  imports ControllerModel Clock
begin

text \<open>
  \<open>crates/swbt-core/src/input/\<close>: buttons proven to belong to a model, the bit set of pressed
  buttons, the 12-bit sticks, the IMU frames and the complete input state; and
  \<open>src/controller/input.rs\<close>: the candidate states of press, release and tap.

  The construction of sticks and IMU frames from \<open>f32\<close> and \<open>f64\<close> values is in \<open>UnitInput\<close>.
\<close>

section \<open>Buttons\<close>

text \<open>
  A \<open>Button<M>\<close> holds a kind that \<open>M\<close> supports; \<open>valid_button m b\<close> is that type's invariant and
  \<open>button_try_from\<close> the checked conversion.
\<close>

definition valid_button :: "controller_kind \<Rightarrow> button_kind \<Rightarrow> bool" where
  "valid_button m b = supports_button m b"

definition button_try_from :: "controller_kind \<Rightarrow> button_kind \<Rightarrow> (button_kind, error) result" where
  "button_try_from m b =
     (if supports_button m b then Inr b else Inl (new_error UnsupportedInput))"

definition button_bit :: "button_kind \<Rightarrow> u32" where
  "button_bit b = push_bit (button_code b) 1"

type_synonym button_set = u32

definition button_set_new :: button_set where
  "button_set_new = 0"

definition button_set_len :: "button_set \<Rightarrow> nat" where
  "button_set_len s = length (filter (bit s) [0..<32])"

definition button_set_is_empty :: "button_set \<Rightarrow> bool" where
  "button_set_is_empty s = (s = 0)"

definition button_set_contains :: "button_set \<Rightarrow> button_kind \<Rightarrow> bool" where
  "button_set_contains s b = (s AND button_bit b \<noteq> 0)"

text \<open>\<open>insert\<close> returns whether the button was absent, and the updated set.\<close>

definition button_set_insert :: "button_set \<Rightarrow> button_kind \<Rightarrow> bool \<times> button_set" where
  "button_set_insert s b = (s AND button_bit b = 0, s OR button_bit b)"

definition button_set_iter :: "controller_kind \<Rightarrow> button_set \<Rightarrow> button_kind list" where
  "button_set_iter m s = filter (\<lambda>k. s AND button_bit k \<noteq> 0) (supported_buttons m)"

text \<open>\<open>FromIterator\<close>: insert every element in turn into an empty set.\<close>

definition button_set_from_list :: "button_kind list \<Rightarrow> button_set" where
  "button_set_from_list bs = fold (\<lambda>b s. snd (button_set_insert s b)) bs button_set_new"

lemma button_set_contains_iff: "button_set_contains s b \<longleftrightarrow> bit s (button_code b)"
  using word_and_push_bit_one_iff[of "button_code b" s] button_code_less[of b]
  by (simp add: button_set_contains_def button_bit_def)

lemma bit_button_set_insert:
  "bit (snd (button_set_insert s b)) n \<longleftrightarrow> bit s n \<or> n = button_code b"
  using bit_or_push_bit_one[of "button_code b" s n] button_code_less[of b]
  by (simp add: button_set_insert_def button_bit_def)

text \<open>The pressed buttons are an element set; what \<open>from_iter\<close> collects follows from the laws.\<close>

interpretation button_elems: element_set
  button_set_new "\<lambda>b s. snd (button_set_insert s b)" button_set_contains
  by unfold_locales
    (auto simp: button_set_contains_iff bit_button_set_insert button_set_new_def)

lemma contains_from_list: "button_set_contains (button_set_from_list bs) b \<longleftrightarrow> b \<in> set bs"
  unfolding button_set_from_list_def by (rule button_elems.member_collect)

lemma button_set_iter_eq: "button_set_iter m s = filter (button_set_contains s) (supported_buttons m)"
  by (simp add: button_set_iter_def button_set_contains_def[abs_def])

lemma button_set_iter_from_list:
  "button_set_iter m (button_set_from_list bs) = filter (\<lambda>b. b \<in> set bs) (supported_buttons m)"
  by (simp add: button_set_iter_eq contains_from_list[abs_def])

lemma set_button_set_iter:
  "set (button_set_iter m s) = {b. valid_button m b \<and> button_set_contains s b}"
  by (auto simp: button_set_iter_eq valid_button_def supports_button_iff)

lemma sorted_button_set_iter: "sorted (button_set_iter m s)"
  unfolding button_set_iter_eq by (intro sorted_wrt_filter sorted_supported_buttons)

lemma distinct_button_set_iter: "distinct (button_set_iter m s)"
  unfolding button_set_iter_eq by (intro distinct_filter distinct_supported_buttons)

lemma bit_button_set_from_list:
  "bit (button_set_from_list bs) n \<longleftrightarrow> (\<exists>b \<in> set bs. button_code b = n)"
proof -
  have "bit (fold (\<lambda>b s. snd (button_set_insert s b)) bs s) n \<longleftrightarrow>
    bit s n \<or> (\<exists>b \<in> set bs. button_code b = n)" for s
    by (induction bs arbitrary: s) (auto simp: bit_button_set_insert)
  then show ?thesis
    by (simp add: button_set_from_list_def button_set_new_def)
qed

lemma button_set_from_list_empty: "button_set_is_empty (button_set_from_list bs) \<longleftrightarrow> bs = []"
proof
  assume "button_set_is_empty (button_set_from_list bs)"
  then have "\<not> (\<exists>b \<in> set bs. button_code b = n)" for n
    by (simp add: button_set_is_empty_def flip: bit_button_set_from_list)
  then show "bs = []"
    by (cases bs) auto
qed (simp add: button_set_is_empty_def button_set_from_list_def button_set_new_def)

section \<open>Sticks\<close>

record stick =
  stick_x :: u16
  stick_y :: u16

definition stick_min :: u16 where "stick_min = 0"
definition stick_center_axis :: u16 where "stick_center_axis = 2048"
definition stick_max :: u16 where "stick_max = 4095"

definition stick_center :: stick where
  "stick_center = \<lparr>stick_x = stick_center_axis, stick_y = stick_center_axis\<rparr>"

definition validate_raw_axis :: "u16 \<Rightarrow> (unit, error) result" where
  "validate_raw_axis v = (if v \<le> stick_max then Inr () else Inl (new_error InvalidInput))"

definition stick_raw :: "u16 \<Rightarrow> u16 \<Rightarrow> (stick, error) result" where
  "stick_raw x y =
     bind_result (validate_raw_axis x) (\<lambda>_.
     bind_result (validate_raw_axis y) (\<lambda>_.
     Inr \<lparr>stick_x = x, stick_y = y\<rparr>))"

definition stick_axes :: "stick \<Rightarrow> u16 \<times> u16" where
  "stick_axes s = (stick_x s, stick_y s)"

definition valid_stick :: "stick \<Rightarrow> bool" where
  "valid_stick s = (stick_x s \<le> stick_max \<and> stick_y s \<le> stick_max)"

lemma stick_raw_Inr: "stick_raw x y = Inr s \<Longrightarrow> valid_stick s \<and> stick_axes s = (x, y)"
  by (auto simp: stick_raw_def validate_raw_axis_def valid_stick_def stick_axes_def split: if_splits)

lemma valid_stick_center [simp]: "valid_stick stick_center"
  by (simp add: valid_stick_def stick_center_def stick_center_axis_def stick_max_def)

section \<open>IMU frames\<close>

record imu_frame =
  accel :: "i16 \<times> i16 \<times> i16"
  gyro :: "i16 \<times> i16 \<times> i16"

type_synonym imu_frames3 = "imu_frame \<times> imu_frame \<times> imu_frame"

definition imu_frame_neutral :: imu_frame where
  "imu_frame_neutral = \<lparr>accel = (0, 0, 0), gyro = (0, 0, 0)\<rparr>"

definition imu_frame_raw :: "i16 \<times> i16 \<times> i16 \<Rightarrow> i16 \<times> i16 \<times> i16 \<Rightarrow> imu_frame" where
  "imu_frame_raw a g = \<lparr>accel = a, gyro = g\<rparr>"

definition with_accel :: "imu_frame \<Rightarrow> i16 \<times> i16 \<times> i16 \<Rightarrow> imu_frame" where
  "with_accel f a = f\<lparr>accel := a\<rparr>"

definition with_gyro :: "imu_frame \<Rightarrow> i16 \<times> i16 \<times> i16 \<Rightarrow> imu_frame" where
  "with_gyro f g = f\<lparr>gyro := g\<rparr>"

datatype imu_samples = Repeat imu_frame | Frames imu_frames3

fun into_frames :: "imu_samples \<Rightarrow> imu_frames3" where
  "into_frames (Repeat f) = (f, f, f)"
| "into_frames (Frames fs) = fs"

section \<open>The input state\<close>

record input_state =
  state_buttons :: button_set
  left_stick :: stick
  right_stick :: stick
  imu_frames :: imu_frames3

definition input_neutral :: input_state where
  "input_neutral = \<lparr>
     state_buttons = button_set_new,
     left_stick = stick_center, right_stick = stick_center,
     imu_frames = (imu_frame_neutral, imu_frame_neutral, imu_frame_neutral)\<rparr>"

definition with_buttons :: "input_state \<Rightarrow> button_kind list \<Rightarrow> input_state" where
  "with_buttons s bs = s\<lparr>state_buttons := button_set_from_list bs\<rparr>"

definition with_imu :: "input_state \<Rightarrow> imu_samples \<Rightarrow> input_state" where
  "with_imu s samples = s\<lparr>imu_frames := into_frames samples\<rparr>"

definition pressed_buttons :: "controller_kind \<Rightarrow> input_state \<Rightarrow> button_kind list" where
  "pressed_buttons m s = button_set_iter m (state_buttons s)"

definition wire_sticks :: "input_state \<Rightarrow> stick \<times> stick" where
  "wire_sticks s = (left_stick s, right_stick s)"

definition with_left_stick :: "input_state \<Rightarrow> stick \<Rightarrow> input_state" where
  "with_left_stick s k = s\<lparr>left_stick := k\<rparr>"

definition with_right_stick :: "input_state \<Rightarrow> stick \<Rightarrow> input_state" where
  "with_right_stick s k = s\<lparr>right_stick := k\<rparr>"

definition with_sticks :: "input_state \<Rightarrow> stick \<Rightarrow> stick \<Rightarrow> input_state" where
  "with_sticks s l r = s\<lparr>left_stick := l, right_stick := r\<rparr>"

text \<open>
  What the Rust types guarantee of an \<open>InputState<M>\<close>: only supported buttons are set, both
  sticks are 12-bit, and a stick the model lacks is centred (its setter needs
  \<open>M: HasLeftStick\<close> or \<open>HasRightStick\<close>).
\<close>

definition valid_input :: "controller_kind \<Rightarrow> input_state \<Rightarrow> bool" where
  "valid_input m s \<longleftrightarrow>
     (\<forall>n. bit (state_buttons s) n \<longrightarrow> (\<exists>b. valid_button m b \<and> button_code b = n))
     \<and> valid_stick (left_stick s) \<and> valid_stick (right_stick s)
     \<and> (\<not> spec_has_left_stick (spec m) \<longrightarrow> left_stick s = stick_center)
     \<and> (\<not> spec_has_right_stick (spec m) \<longrightarrow> right_stick s = stick_center)"

lemma valid_input_neutral [simp]: "valid_input m input_neutral"
  by (simp add: valid_input_def input_neutral_def button_set_new_def)

lemma valid_input_with_buttons:
  "valid_input m s \<Longrightarrow> \<forall>b \<in> set bs. valid_button m b \<Longrightarrow> valid_input m (with_buttons s bs)"
  by (auto simp: valid_input_def with_buttons_def bit_button_set_from_list)

lemma pressed_buttons_with_buttons:
  "pressed_buttons m (with_buttons s bs) = filter (\<lambda>b. b \<in> set bs) (supported_buttons m)"
  by (simp add: pressed_buttons_def with_buttons_def button_set_iter_from_list)

lemma set_pressed_buttons_with_buttons:
  "\<forall>b \<in> set bs. valid_button m b \<Longrightarrow> set (pressed_buttons m (with_buttons s bs)) = set bs"
  by (auto simp: pressed_buttons_with_buttons valid_button_def supports_button_iff)

lemma pressed_buttons_neutral [simp]: "pressed_buttons m input_neutral = []"
  by (simp add: pressed_buttons_def input_neutral_def button_set_iter_def button_set_new_def)

lemma valid_button_of_pressed: "b \<in> set (pressed_buttons m s) \<Longrightarrow> valid_button m b"
  by (simp add: pressed_buttons_def set_button_set_iter)

section \<open>Press, release and tap\<close>

definition max_tap_duration :: duration where
  "max_tap_duration = from_secs (24 * 60 * 60)"

definition validated_buttons :: "button_kind list \<Rightarrow> (button_set, error) result" where
  "validated_buttons bs =
     (let s = button_set_from_list bs in
      if button_set_is_empty s then Inl (new_error InvalidInput) else Inr s)"

definition validated_tap_duration :: "duration \<Rightarrow> (duration, error) result" where
  "validated_tap_duration d =
     (if d \<le> max_tap_duration then Inr d else Inl (new_error InvalidInput))"

definition press_validated ::
  "controller_kind \<Rightarrow> input_state \<Rightarrow> button_set \<Rightarrow> input_state" where
  "press_validated m current bs =
     (let pressed = fold (\<lambda>b s. snd (button_set_insert s b)) (button_set_iter m bs)
                      (button_set_from_list (pressed_buttons m current))
      in with_buttons current (button_set_iter m pressed))"

definition release_validated ::
  "controller_kind \<Rightarrow> input_state \<Rightarrow> button_set \<Rightarrow> input_state" where
  "release_validated m current bs =
     (let retained = button_set_from_list
                       (filter (\<lambda>b. \<not> button_set_contains bs b) (pressed_buttons m current))
      in with_buttons current (button_set_iter m retained))"

definition press_candidate ::
  "controller_kind \<Rightarrow> input_state \<Rightarrow> button_kind list \<Rightarrow> (input_state, error) result" where
  "press_candidate m current bs =
     bind_result (validated_buttons bs) (\<lambda>s. Inr (press_validated m current s))"

definition release_candidate ::
  "controller_kind \<Rightarrow> input_state \<Rightarrow> button_kind list \<Rightarrow> (input_state, error) result" where
  "release_candidate m current bs =
     bind_result (validated_buttons bs) (\<lambda>s. Inr (release_validated m current s))"

definition tap_plan ::
  "controller_kind \<Rightarrow> input_state \<Rightarrow> button_kind list \<Rightarrow> duration
   \<Rightarrow> (input_state \<times> input_state \<times> duration, error) result" where
  "tap_plan m current bs d =
     bind_result (validated_buttons bs) (\<lambda>s.
     bind_result (validated_tap_duration d) (\<lambda>d'.
       let pressed = press_validated m current s;
           released = release_validated m pressed s
       in Inr (pressed, released, d')))"

lemma validated_buttons_eq:
  "validated_buttons bs =
     (if bs = [] then Inl (new_error InvalidInput) else Inr (button_set_from_list bs))"
  by (simp add: validated_buttons_def button_set_from_list_empty Let_def)

lemma pressed_buttons_press:
  "pressed_buttons m (press_validated m s bs) =
     filter (\<lambda>b. button_set_contains (state_buttons s) b \<or> button_set_contains bs b) (supported_buttons m)"
  unfolding press_validated_def Let_def pressed_buttons_with_buttons
  by (rule filter_cong)
    (auto simp: set_button_set_iter button_elems.member_fold contains_from_list pressed_buttons_def
      valid_button_def supports_button_iff)

lemma pressed_buttons_release:
  "pressed_buttons m (release_validated m s bs) =
     filter (\<lambda>b. button_set_contains (state_buttons s) b \<and> \<not> button_set_contains bs b) (supported_buttons m)"
  unfolding release_validated_def Let_def pressed_buttons_with_buttons
  by (rule filter_cong)
    (auto simp: set_button_set_iter contains_from_list pressed_buttons_def
      valid_button_def supports_button_iff)

lemma press_validated_frame [simp]:
  "left_stick (press_validated m s bs) = left_stick s"
  "right_stick (press_validated m s bs) = right_stick s"
  "imu_frames (press_validated m s bs) = imu_frames s"
  by (simp_all add: press_validated_def with_buttons_def Let_def)

lemma release_validated_frame [simp]:
  "left_stick (release_validated m s bs) = left_stick s"
  "right_stick (release_validated m s bs) = right_stick s"
  "imu_frames (release_validated m s bs) = imu_frames s"
  by (simp_all add: release_validated_def with_buttons_def Let_def)

lemma valid_input_press: "valid_input m s \<Longrightarrow> valid_input m (press_validated m s bs)"
  unfolding press_validated_def Let_def
  by (rule valid_input_with_buttons) (simp_all add: set_button_set_iter)

lemma valid_input_release: "valid_input m s \<Longrightarrow> valid_input m (release_validated m s bs)"
  unfolding release_validated_def Let_def
  by (rule valid_input_with_buttons) (simp_all add: set_button_set_iter)

text \<open>
  A tap with at least one button and a duration of at most 24 hours plans exactly two
  states: in the first the given buttons are pressed on top of what was pressed, in the second
  the given buttons are up and every other button is as it was, with sticks and IMU untouched
  in both; an empty button list or a longer duration is an \<open>InvalidInput\<close> error.
\<close>

theorem tap_plan_presses_then_releases:
  assumes "\<forall>b \<in> set bs. valid_button m b"
  shows "case tap_plan m s bs d of
     Inl e \<Rightarrow> (bs = [] \<or> max_tap_duration < d) \<and> e = new_error InvalidInput
   | Inr (pressed, released, d') \<Rightarrow>
       bs \<noteq> [] \<and> d \<le> max_tap_duration \<and> d' = d
       \<and> set (pressed_buttons m pressed) = set (pressed_buttons m s) \<union> set bs
       \<and> set (pressed_buttons m released) = set (pressed_buttons m s) - set bs
       \<and> wire_sticks pressed = wire_sticks s \<and> wire_sticks released = wire_sticks s
       \<and> imu_frames pressed = imu_frames s \<and> imu_frames released = imu_frames s"
proof (cases "bs = [] \<or> max_tap_duration < d")
  case True
  then show ?thesis
    by (auto simp: tap_plan_def validated_buttons_eq validated_tap_duration_def)
next
  case False
  have contains: "button_set_contains (state_buttons (press_validated m s bs')) b \<longleftrightarrow>
      b \<in> set (pressed_buttons m (press_validated m s bs'))" if "valid_button m b" for b bs'
    using that by (simp add: pressed_buttons_def set_button_set_iter)
  have pressed: "set (pressed_buttons m s) = {b. valid_button m b \<and> button_set_contains (state_buttons s) b}"
    by (simp add: pressed_buttons_def set_button_set_iter)
  from False assms show ?thesis
    by (auto simp: tap_plan_def validated_buttons_eq validated_tap_duration_def Let_def
        wire_sticks_def pressed_buttons_press pressed_buttons_release contains_from_list contains
        pressed valid_button_def supports_button_iff)
qed

theorem tap_plan_presses_then_releases_witness:
  "valid_button Pro Btn_A
   \<and> (case tap_plan Pro input_neutral [Btn_A] 5 of
       Inl _ \<Rightarrow> False
     | Inr (p, r, d) \<Rightarrow> d = 5 \<and> set (pressed_buttons Pro p) = {Btn_A}
         \<and> set (pressed_buttons Pro r) = {})"
proof -
  have valid: "\<forall>b \<in> set [Btn_A]. valid_button Pro b"
    by (simp add: valid_button_def supports_button_iff supported_buttons_simps pro_buttons_def)
  have ok: "is_ok (tap_plan Pro input_neutral [Btn_A] 5)"
    by (simp add: tap_plan_def validated_buttons_eq validated_tap_duration_def max_tap_duration_def
        from_secs_def nanos_per_second_def Let_def)
  show ?thesis
    using tap_plan_presses_then_releases[OF valid, where s = input_neutral and d = 5] ok valid
    by (auto split: sum.splits prod.splits)
qed



end
