(* ===== verification/ImuEncoding.thy ===== *)
theory ImuEncoding
  imports InputState
begin

text \<open>
  \<open>crates/swbt-core/src/protocol/imu.rs\<close>: the 36-byte IMU block in standard and quaternion form.

  An \<open>f64\<close> is its 64-bit pattern.  The arithmetic on it (the primitive operators, the rounding
  conversions and the functions of \<open>std\<close>) is the record \<open>f64_ops\<close>, an argument of every
  definition that computes with floats; \<open>f_to_i64\<close> is the saturating cast \<open>as i64\<close>.
\<close>

type_synonym f64 = "64 word"

record f64_ops =
  f_add :: "f64 \<Rightarrow> f64 \<Rightarrow> f64"
  f_sub :: "f64 \<Rightarrow> f64 \<Rightarrow> f64"
  f_mul :: "f64 \<Rightarrow> f64 \<Rightarrow> f64"
  f_div :: "f64 \<Rightarrow> f64 \<Rightarrow> f64"
  f_sqrt :: "f64 \<Rightarrow> f64"
  f_sin :: "f64 \<Rightarrow> f64"
  f_cos :: "f64 \<Rightarrow> f64"
  f_abs :: "f64 \<Rightarrow> f64"
  f_to_radians :: "f64 \<Rightarrow> f64"
  f_sum :: "f64 list \<Rightarrow> f64"
  f_eq :: "f64 \<Rightarrow> f64 \<Rightarrow> bool"
  f_less :: "f64 \<Rightarrow> f64 \<Rightarrow> bool"
  f_of_int :: "int \<Rightarrow> f64"
  f_to_i64 :: "f64 \<Rightarrow> u64"

definition f64_zero :: f64 where "f64_zero = 0x0000000000000000"
definition f64_one :: f64 where "f64_one = 0x3FF0000000000000"
definition f64_minus_one :: f64 where "f64_minus_one = 0xBFF0000000000000"
definition f64_two :: f64 where "f64_two = 0x4000000000000000"
definition f64_billion :: f64 where "f64_billion = 0x41CDCD6500000000"

definition imu_block_size :: nat where "imu_block_size = 36"
definition quaternion_scale :: f64 where "quaternion_scale = 0x41D0000000000000"
definition gyro_dps_per_raw :: f64 where "gyro_dps_per_raw = 0x3FB1EB851EB851EC"
definition identity_quaternion :: "f64 list" where
  "identity_quaternion = [f64_zero, f64_zero, f64_zero, f64_one]"

datatype imu_mode =
  Imu_Disabled | Imu_Standard | Imu_Quaternion1 | Imu_Quaternion2 | Imu_Quaternion3 | Imu_Quaternion4

fun imu_mode_code :: "imu_mode \<Rightarrow> u8" where
  "imu_mode_code Imu_Disabled = 0x00"
| "imu_mode_code Imu_Standard = 0x01"
| "imu_mode_code Imu_Quaternion1 = 0x02"
| "imu_mode_code Imu_Quaternion2 = 0x03"
| "imu_mode_code Imu_Quaternion3 = 0x04"
| "imu_mode_code Imu_Quaternion4 = 0x05"

definition imu_mode_from_wire :: "u8 \<Rightarrow> imu_mode option" where
  "imu_mode_from_wire v =
     (if v = 0x00 then Some Imu_Disabled
      else if v = 0x01 then Some Imu_Standard
      else if v = 0x02 then Some Imu_Quaternion1
      else if v = 0x03 then Some Imu_Quaternion2
      else if v = 0x04 then Some Imu_Quaternion3
      else if v = 0x05 then Some Imu_Quaternion4
      else None)"

interpretation imu_mode_codec: codec "\<lambda>_. True" imu_mode_code imu_mode_from_wire
proof unfold_locales
  fix x
  show "imu_mode_from_wire (imu_mode_code x) = Some x"
    by (cases x) (simp_all add: imu_mode_from_wire_def)
qed

lemma imu_mode_from_wire_Some: "imu_mode_from_wire v = Some x \<longleftrightarrow> v = imu_mode_code x"
  by (cases x) (auto simp: imu_mode_from_wire_def)

record imu_encoding_state =
  orientation :: "f64 list"
  previous_report_ns :: "u64 option"

definition imu_encoding_state_default :: imu_encoding_state where
  "imu_encoding_state_default = \<lparr>orientation = identity_quaternion, previous_report_ns = None\<rparr>"

record imu_encoding_result =
  imu_block :: "u8 list"
  imu_next_state :: imu_encoding_state

fun triple_list :: "'a \<times> 'a \<times> 'a \<Rightarrow> 'a list" where
  "triple_list (a, b, c) = [a, b, c]"

lemma length_triple_list [simp]: "length (triple_list t) = 3"
  by (cases t) simp

section \<open>Standard form\<close>

definition put_values :: "nat \<Rightarrow> i16 list \<Rightarrow> u8 list \<Rightarrow> u8 list" where
  "put_values frame_index values block =
     fold (\<lambda>(value_index, v) block. blit block (frame_index * 12 + value_index * 2) (le16 v))
       (enumerate 0 values) block"

definition encode_standard_imu :: "imu_frames3 \<Rightarrow> u8 list" where
  "encode_standard_imu frames =
     fold (\<lambda>(frame_index, frame) block.
         put_values frame_index (triple_list (accel frame) @ triple_list (gyro frame)) block)
       (enumerate 0 (triple_list frames)) (replicate imu_block_size 0)"

section \<open>Quaternion form\<close>

definition hamilton_product :: "f64_ops \<Rightarrow> f64 list \<Rightarrow> f64 list \<Rightarrow> f64 list" where
  "hamilton_product F left right =
     (let lx = left ! 0; ly = left ! 1; lz = left ! 2; lw = left ! 3;
          rx = right ! 0; ry = right ! 1; rz = right ! 2; rw = right ! 3
      in [f_sub F (f_add F (f_add F (f_mul F lw rx) (f_mul F lx rw)) (f_mul F ly rz)) (f_mul F lz ry),
          f_sub F (f_add F (f_add F (f_mul F lw ry) (f_mul F ly rw)) (f_mul F lz rx)) (f_mul F lx rz),
          f_sub F (f_add F (f_add F (f_mul F lw rz) (f_mul F lz rw)) (f_mul F lx ry)) (f_mul F ly rx),
          f_sub F (f_sub F (f_sub F (f_mul F lw rw) (f_mul F lx rx)) (f_mul F ly ry)) (f_mul F lz rz)])"

definition normalize :: "f64_ops \<Rightarrow> f64 list \<Rightarrow> f64 list" where
  "normalize F v =
     (let inverse = f_div F f64_one (f_sqrt F (f_sum F (map (\<lambda>c. f_mul F c c) v)))
      in map (\<lambda>c. f_mul F c inverse) v)"

definition next_orientation :: "f64_ops \<Rightarrow> f64 list \<Rightarrow> f64 list \<Rightarrow> f64 \<Rightarrow> f64 list" where
  "next_orientation F orient rates_rad_s elapsed_seconds =
     (let rotation = map (\<lambda>rate. f_mul F rate elapsed_seconds) rates_rad_s;
          magnitude = f_sqrt F (f_sum F (map (\<lambda>v. f_mul F v v) rotation))
      in if f_eq F magnitude f64_zero then orient
         else let half_angle = f_div F magnitude f64_two;
                  vector_scale = f_div F (f_sin F half_angle) magnitude;
                  delta = [f_mul F (rotation ! 0) vector_scale, f_mul F (rotation ! 1) vector_scale,
                           f_mul F (rotation ! 2) vector_scale, f_cos F half_angle]
              in normalize F (hamilton_product F orient delta))"

definition gyro_rates :: "f64_ops \<Rightarrow> imu_frame \<Rightarrow> sensor_calibration \<Rightarrow> f64 list" where
  "gyro_rates F frame cal =
     map (\<lambda>(raw, zero).
         f_to_radians F (f_mul F (f_of_int F (sint raw - sint zero)) gyro_dps_per_raw))
       (zip (triple_list (gyro frame)) (triple_list (zero_raw cal)))"

text \<open>
  \<open>put_bits\<close> sets bit \<open>start + i\<close> of the block, least significant bit of each byte first, for
  every set bit \<open>i\<close> of the value below the width.
\<close>

definition put_bits :: "u8 list \<Rightarrow> nat \<Rightarrow> nat \<Rightarrow> u64 \<Rightarrow> u8 list" where
  "put_bits target start width v =
     fold (\<lambda>i target.
         if v AND push_bit i 1 \<noteq> 0
         then or_at target ((start + i) div 8) (push_bit ((start + i) mod 8) 1)
         else target)
       [0..<width] target"

definition put_accel :: "imu_frames3 \<Rightarrow> u8 list \<Rightarrow> u8 list" where
  "put_accel frames block =
     fold (\<lambda>(frame_index, frame) block. put_values frame_index (triple_list (accel frame)) block)
       (enumerate 0 (triple_list frames)) block"

definition max_abs_index :: "f64_ops \<Rightarrow> f64 list \<Rightarrow> nat" where
  "max_abs_index F orient =
     fold (\<lambda>i best. if f_less F (f_abs F (orient ! best)) (f_abs F (orient ! i)) then i else best)
       [1..<length orient] 0"

definition quaternion_components :: "f64_ops \<Rightarrow> f64 list \<Rightarrow> nat \<Rightarrow> u64 list" where
  "quaternion_components F orient max_index =
     (let sign = (if f_less F (orient ! max_index) f64_zero then f64_minus_one else f64_one)
      in map (\<lambda>i. let scaled = f_to_i64 F (f_mul F (f_mul F (orient ! ((max_index + i + 1) mod 4)) sign)
                                 quaternion_scale)
                  in signed_drop_bit 10 scaled) [0..<3])"

definition pack_mode_2 :: "f64_ops \<Rightarrow> imu_frames3 \<Rightarrow> f64 list \<Rightarrow> u64 \<Rightarrow> u8 list" where
  "pack_mode_2 F frames orient timestamp_ms =
     (let block = put_accel frames (replicate imu_block_size 0);
          max_index = max_abs_index F orient;
          components = quaternion_components F orient max_index;
          block = put_bits block 48 2 2;
          block = put_bits block 50 2 (of_nat max_index);
          block = put_bits block 52 21 (components ! 0);
          block = put_bits block 73 21 (components ! 1);
          block = put_bits block 94 2 (components ! 2);
          block = put_bits block 144 19 (signed_drop_bit 2 (components ! 2));
          block = put_bits block 271 11 timestamp_ms;
          block = put_bits block 282 6 (of_nat (length (triple_list frames)))
      in block)"

definition saturating_sub_u64 :: "u64 \<Rightarrow> u64 \<Rightarrow> u64" where
  "saturating_sub_u64 a b = (if a < b then 0 else a - b)"

definition encode_quaternion_imu ::
  "f64_ops \<Rightarrow> imu_encoding_state \<Rightarrow> imu_frames3 \<Rightarrow> sensor_calibration \<Rightarrow> u64 \<Rightarrow> imu_encoding_result" where
  "encode_quaternion_imu F current frames cal now_ns =
     (let elapsed_ns = (case previous_report_ns current of
                          None \<Rightarrow> 0 | Some previous \<Rightarrow> saturating_sub_u64 now_ns previous);
          sample_seconds = f_div F (f_div F (f_of_int F (uint elapsed_ns)) f64_billion)
                             (f_of_int F (int (length (triple_list frames))));
          orient = fold (\<lambda>frame orient. next_orientation F orient (gyro_rates F frame cal) sample_seconds)
                     (triple_list frames) (orientation current)
      in \<lparr>imu_block = pack_mode_2 F frames orient (now_ns div 1000000),
          imu_next_state = \<lparr>orientation = orient, previous_report_ns = Some now_ns\<rparr>\<rparr>)"

definition encode_imu_block ::
  "f64_ops \<Rightarrow> imu_encoding_state \<Rightarrow> imu_mode \<Rightarrow> imu_frames3 \<Rightarrow> sensor_calibration \<Rightarrow> u64
   \<Rightarrow> imu_encoding_result" where
  "encode_imu_block F current mode frames cal now_ns =
     (case mode of
        Imu_Disabled \<Rightarrow> \<lparr>imu_block = replicate imu_block_size 0,
                         imu_next_state = imu_encoding_state_default\<rparr>
      | Imu_Standard \<Rightarrow> \<lparr>imu_block = encode_standard_imu frames,
                         imu_next_state = imu_encoding_state_default\<rparr>
      | _ \<Rightarrow> encode_quaternion_imu F current frames cal now_ns)"

section \<open>Sizes\<close>

lemma length_put_bits [simp]: "length (put_bits t s w v) = length t"
proof -
  have "length (fold (\<lambda>i t. if v AND push_bit i 1 \<noteq> 0
      then or_at t ((s + i) div 8) (push_bit ((s + i) mod 8) 1) else t) is t) = length t" for "is" t
    by (induction "is" arbitrary: t) auto
  then show ?thesis by (simp add: put_bits_def)
qed

lemma length_put_values:
  "frame_index * 12 + length values * 2 \<le> length block \<Longrightarrow>
   length (put_values frame_index values block) = length block"
proof -
  have "frame_index * 12 + (k + length values) * 2 \<le> length block \<Longrightarrow>
    length (fold (\<lambda>(i, v) block. blit block (frame_index * 12 + i * 2) (le16 v))
      (enumerate k values) block) = length block" for k
    by (induction "values" arbitrary: k block) auto
  then show "frame_index * 12 + length values * 2 \<le> length block \<Longrightarrow> ?thesis"
    by (simp add: put_values_def)
qed

lemma enumerate_triple: "enumerate 0 (triple_list (a, b, c)) = [(0, a), (1, b), (2, c)]"
  by (simp add: enumerate_eq_zip numeral_2_eq_2)

lemma length_encode_standard_imu [simp]: "length (encode_standard_imu frames) = 36"
  by (cases frames) (simp add: encode_standard_imu_def enumerate_triple length_put_values imu_block_size_def)

lemma length_put_accel [simp]: "length block = 36 \<Longrightarrow> length (put_accel frames block) = 36"
  by (cases frames) (simp add: put_accel_def enumerate_triple length_put_values)

lemma length_pack_mode_2 [simp]: "length (pack_mode_2 F frames orient ts) = 36"
  by (simp add: pack_mode_2_def imu_block_size_def Let_def)

lemma length_encode_imu_block [simp]:
  "length (imu_block (encode_imu_block F current mode frames cal now)) = 36"
  by (cases mode) (simp_all add: encode_imu_block_def encode_quaternion_imu_def imu_block_size_def Let_def)

end
