(* ===== verification/ProtocolSession.thy ===== *)
theory ProtocolSession
  imports ImuEncoding
begin

text \<open>
  \<open>crates/swbt-core/src/protocol/session.rs\<close>: the protocol state of one connection, changed only
  by stateful subcommands and by the IMU encoder.
\<close>

definition supported_input_report_mode :: u8 where "supported_input_report_mode = 0x30"

datatype report_mode_selection = StandardFull | Unsupported u8

definition report_mode_from_requested :: "u8 \<Rightarrow> report_mode_selection" where
  "report_mode_from_requested requested =
     (if requested = supported_input_report_mode then StandardFull else Unsupported requested)"

record protocol_session =
  ps_report_mode :: "report_mode_selection option"
  ps_player_lights :: "u8 option"
  ps_imu_mode :: imu_mode
  ps_imu_encoding_state :: imu_encoding_state
  ps_vibration_enabled :: bool

definition protocol_session_default :: protocol_session where
  "protocol_session_default = \<lparr>
     ps_report_mode = None, ps_player_lights = None, ps_imu_mode = Imu_Disabled,
     ps_imu_encoding_state = imu_encoding_state_default, ps_vibration_enabled = False\<rparr>"

definition report_mode :: "protocol_session \<Rightarrow> u8 option" where
  "report_mode s =
     (case ps_report_mode s of
        Some StandardFull \<Rightarrow> Some supported_input_report_mode
      | Some (Unsupported requested) \<Rightarrow> Some requested
      | None \<Rightarrow> None)"

definition report_mode_supported :: "protocol_session \<Rightarrow> bool" where
  "report_mode_supported s = (ps_report_mode s = Some StandardFull)"

definition unsupported_report_mode :: "protocol_session \<Rightarrow> u8 option" where
  "unsupported_report_mode s =
     (case ps_report_mode s of
        Some (Unsupported requested) \<Rightarrow> Some requested
      | Some StandardFull \<Rightarrow> None
      | None \<Rightarrow> None)"

definition imu_enabled :: "protocol_session \<Rightarrow> bool" where
  "imu_enabled s = (ps_imu_mode s \<noteq> Imu_Disabled)"

definition protocol_ready :: "protocol_session \<Rightarrow> bool" where
  "protocol_ready s =
     (report_mode_supported s
      \<and> (case ps_player_lights s of None \<Rightarrow> False | Some lights \<Rightarrow> lights \<noteq> 0))"

definition with_report_mode :: "protocol_session \<Rightarrow> u8 \<Rightarrow> protocol_session" where
  "with_report_mode s requested = s\<lparr>ps_report_mode := Some (report_mode_from_requested requested)\<rparr>"

definition with_player_lights :: "protocol_session \<Rightarrow> u8 \<Rightarrow> protocol_session" where
  "with_player_lights s lights = s\<lparr>ps_player_lights := Some lights\<rparr>"

definition with_imu_mode :: "protocol_session \<Rightarrow> imu_mode \<Rightarrow> protocol_session" where
  "with_imu_mode s mode =
     s\<lparr>ps_imu_mode := mode, ps_imu_encoding_state := imu_encoding_state_default\<rparr>"

definition with_imu_encoding_state :: "protocol_session \<Rightarrow> imu_encoding_state \<Rightarrow> protocol_session" where
  "with_imu_encoding_state s i = s\<lparr>ps_imu_encoding_state := i\<rparr>"

definition with_vibration_enabled :: "protocol_session \<Rightarrow> bool \<Rightarrow> protocol_session" where
  "with_vibration_enabled s b = s\<lparr>ps_vibration_enabled := b\<rparr>"

lemma report_mode_with_report_mode [simp]: "report_mode (with_report_mode s v) = Some v"
  by (simp add: report_mode_def with_report_mode_def report_mode_from_requested_def)

lemma report_mode_supported_iff: "report_mode_supported (with_report_mode s v) \<longleftrightarrow> v = 0x30"
  by (simp add: report_mode_supported_def with_report_mode_def report_mode_from_requested_def
      supported_input_report_mode_def)

lemma protocol_ready_iff:
  "protocol_ready s \<longleftrightarrow> ps_report_mode s = Some StandardFull
     \<and> (\<exists>lights. ps_player_lights s = Some lights \<and> lights \<noteq> 0)"
  by (simp add: protocol_ready_def report_mode_supported_def split: option.splits)

lemma protocol_ready_default [simp]: "\<not> protocol_ready protocol_session_default"
  by (simp add: protocol_ready_iff protocol_session_default_def)

lemma protocol_ready_with_imu [simp]:
  "protocol_ready (with_imu_encoding_state s i) = protocol_ready s"
  "protocol_ready (with_imu_mode s mode) = protocol_ready s"
  "protocol_ready (with_vibration_enabled s b) = protocol_ready s"
  by (simp_all add: protocol_ready_iff with_imu_encoding_state_def with_imu_mode_def
      with_vibration_enabled_def)

end
