(* ===== verification/Status.thy ===== *)
theory Status
  imports Lifecycle InputState ProtocolSession
begin

text \<open>
  \<open>src/runtime/status.rs\<close>: the status projection shared by the worker and the controller, and the
  diagnostic events that \<open>src/diagnostics/event.rs\<close> defines.

  The \<open>RwLock\<close> is held for the replacement of the projection's values only, so every publisher method
  is one atomic step; emitted events are collected in \<open>st_events\<close> in emission order.  A diagnostic
  context is the session id (the model and reporting kind in it are constants of the worker).  The
  \<open>expect("active session context")\<close> of \<open>set_sender_state\<close> panics without a session: that outcome is the
  latch \<open>st_panicked\<close>, proved never to be set.
\<close>

datatype worker_failure_category =
  TransportFailure | WaitFailure | CommandDeliveryFailure | PanickedFailure
  | CompletionDisconnectedFailure | InternalFailure

datatype diagnostic_event =
    SessionStarted u64
  | LifecycleChanged u64 lifecycle_state
  | SubcommandObserved u64 u8
  | ReportTxAccepted u64 "u8 option" u8 u64
  | ReplyTxAccepted u64 "u8 option" u8 u64
  | SessionEnded u64 lifecycle_state "u8 option"
  | WorkerFailedEvent u64 worker_failure_category
  | UnsupportedButtonEvent u64 button_kind

record status_projection =
  st_lifecycle :: lifecycle_state
  st_connected :: bool
  st_session_id :: "u64 option"
  st_report_mode :: "u8 option"
  st_input_reports_accepted :: u64
  st_replies_accepted :: u64
  st_last_subcommand :: "u8 option"
  st_last_disconnect_reason :: "u8 option"
  st_worker_failure :: "string option"
  st_snapshot :: input_state
  st_events :: "diagnostic_event list"
  st_panicked :: bool

definition status_configured :: status_projection where
  "status_configured = \<lparr>
     st_lifecycle = Lc_Configured, st_connected = False, st_session_id = None, st_report_mode = None,
     st_input_reports_accepted = 0, st_replies_accepted = 0, st_last_subcommand = None,
     st_last_disconnect_reason = None, st_worker_failure = None, st_snapshot = input_neutral,
     st_events = [], st_panicked = False\<rparr>"

definition emit :: "diagnostic_event list \<Rightarrow> status_projection \<Rightarrow> status_projection" where
  "emit events st = st\<lparr>st_events := st_events st @ events\<rparr>"

text \<open>\<open>context.map(|context| event)\<close>: no event without a session.\<close>

definition emit_in_session ::
  "u64 option \<Rightarrow> (u64 \<Rightarrow> diagnostic_event list) \<Rightarrow> status_projection \<Rightarrow> status_projection" where
  "emit_in_session session events st = (case session of None \<Rightarrow> st | Some sid \<Rightarrow> emit (events sid) st)"

definition set_lifecycle :: "lifecycle_state \<Rightarrow> status_projection \<Rightarrow> status_projection" where
  "set_lifecycle lc st =
     (if st_lifecycle st = lc then st
      else emit_in_session (st_session_id st) (\<lambda>sid. [LifecycleChanged sid lc]) (st\<lparr>st_lifecycle := lc\<rparr>))"

definition status_begin_session ::
  "u64 \<Rightarrow> lifecycle_state \<Rightarrow> input_state \<Rightarrow> status_projection \<Rightarrow> status_projection" where
  "status_begin_session sid lc snapshot st =
     emit [SessionStarted sid, LifecycleChanged sid lc]
       (st\<lparr>st_lifecycle := lc, st_connected := False, st_session_id := Some sid,
          st_report_mode := None, st_last_subcommand := None, st_last_disconnect_reason := None,
          st_worker_failure := None, st_snapshot := snapshot\<rparr>)"

definition set_connected :: "bool \<Rightarrow> status_projection \<Rightarrow> status_projection" where
  "set_connected c st = st\<lparr>st_connected := c\<rparr>"

definition set_snapshot :: "input_state \<Rightarrow> status_projection \<Rightarrow> status_projection" where
  "set_snapshot s st = st\<lparr>st_snapshot := s\<rparr>"

definition set_sender_state ::
  "u8 option \<Rightarrow> u8 \<Rightarrow> u64 \<Rightarrow> u64 \<Rightarrow> status_projection \<Rightarrow> status_projection" where
  "set_sender_state mode imu inputs replies st =
     (let previous_input = st_input_reports_accepted st;
          previous_replies = st_replies_accepted st;
          st = st\<lparr>st_report_mode := mode, st_input_reports_accepted := inputs,
                 st_replies_accepted := replies\<rparr>
      in case st_session_id st of
           None \<Rightarrow>
             if inputs > previous_input \<or> replies > previous_replies then st\<lparr>st_panicked := True\<rparr> else st
         | Some sid \<Rightarrow>
             emit ((if inputs > previous_input then [ReportTxAccepted sid mode imu inputs] else [])
                 @ (if replies > previous_replies then [ReplyTxAccepted sid mode imu replies] else [])) st)"

definition record_subcommand :: "u8 \<Rightarrow> status_projection \<Rightarrow> status_projection" where
  "record_subcommand i st =
     emit_in_session (st_session_id st) (\<lambda>sid. [SubcommandObserved sid i])
       (st\<lparr>st_last_subcommand := Some i\<rparr>)"

definition record_unsupported_button :: "button_kind \<Rightarrow> status_projection \<Rightarrow> status_projection" where
  "record_unsupported_button b st =
     emit_in_session (st_session_id st) (\<lambda>sid. [UnsupportedButtonEvent sid b]) st"

definition status_end_session :: "lifecycle_state \<Rightarrow> u8 option \<Rightarrow> status_projection \<Rightarrow> status_projection" where
  "status_end_session lc reason st =
     emit_in_session (st_session_id st) (\<lambda>sid. [SessionEnded sid lc reason])
       (st\<lparr>st_lifecycle := lc, st_connected := False, st_session_id := None, st_report_mode := None,
          st_last_disconnect_reason := reason\<rparr>)"

definition status_close :: "lifecycle_state \<Rightarrow> status_projection \<Rightarrow> status_projection" where
  "status_close lc st =
     emit_in_session (st_session_id st) (\<lambda>sid. [SessionEnded sid lc None])
       (st\<lparr>st_lifecycle := lc, st_connected := False, st_session_id := None, st_report_mode := None\<rparr>)"

definition status_fail ::
  "string \<Rightarrow> worker_failure_category \<Rightarrow> status_projection \<Rightarrow> status_projection" where
  "status_fail message category st =
     (if st_worker_failure st \<noteq> None then st
      else emit_in_session (st_session_id st)
        (\<lambda>sid. [WorkerFailedEvent sid category, LifecycleChanged sid Lc_Failed, SessionEnded sid Lc_Failed None])
        (st\<lparr>st_lifecycle := Lc_Failed, st_connected := False, st_session_id := None,
           st_report_mode := None, st_worker_failure := Some message\<rparr>))"

lemmas status_defs =
  emit_def emit_in_session_def set_lifecycle_def status_begin_session_def set_connected_def
  set_snapshot_def record_subcommand_def record_unsupported_button_def status_end_session_def
  status_close_def status_fail_def

text \<open>What each method leaves alone, for the proofs about the worker.\<close>

lemma emit_fields [simp]:
  "st_lifecycle (emit es st) = st_lifecycle st" "st_connected (emit es st) = st_connected st"
  "st_session_id (emit es st) = st_session_id st" "st_report_mode (emit es st) = st_report_mode st"
  "st_input_reports_accepted (emit es st) = st_input_reports_accepted st"
  "st_replies_accepted (emit es st) = st_replies_accepted st"
  "st_last_subcommand (emit es st) = st_last_subcommand st"
  "st_last_disconnect_reason (emit es st) = st_last_disconnect_reason st"
  "st_worker_failure (emit es st) = st_worker_failure st"
  "st_snapshot (emit es st) = st_snapshot st" "st_panicked (emit es st) = st_panicked st"
  "st_events (emit es st) = st_events st @ es"
  by (simp_all add: emit_def)

lemma emit_in_session_fields [simp]:
  "st_lifecycle (emit_in_session s es st) = st_lifecycle st"
  "st_connected (emit_in_session s es st) = st_connected st"
  "st_session_id (emit_in_session s es st) = st_session_id st"
  "st_report_mode (emit_in_session s es st) = st_report_mode st"
  "st_input_reports_accepted (emit_in_session s es st) = st_input_reports_accepted st"
  "st_replies_accepted (emit_in_session s es st) = st_replies_accepted st"
  "st_last_subcommand (emit_in_session s es st) = st_last_subcommand st"
  "st_last_disconnect_reason (emit_in_session s es st) = st_last_disconnect_reason st"
  "st_worker_failure (emit_in_session s es st) = st_worker_failure st"
  "st_snapshot (emit_in_session s es st) = st_snapshot st"
  "st_panicked (emit_in_session s es st) = st_panicked st"
  by (simp_all add: emit_in_session_def split: option.splits)

section \<open>Well-nested sessions in the event log\<close>

text \<open>
  A session is open in a log after its \<open>SessionStarted\<close> and until its \<open>SessionEnded\<close>; \<open>log_session\<close>
  reads a log and returns the open session, or nothing at all (\<open>None\<close>) when some event names another
  session than the open one.  A new session may replace an open one.
\<close>

fun event_session :: "diagnostic_event \<Rightarrow> u64" where
  "event_session (SessionStarted s) = s"
| "event_session (LifecycleChanged s _) = s"
| "event_session (SubcommandObserved s _) = s"
| "event_session (ReportTxAccepted s _ _ _) = s"
| "event_session (ReplyTxAccepted s _ _ _) = s"
| "event_session (SessionEnded s _ _) = s"
| "event_session (WorkerFailedEvent s _) = s"
| "event_session (UnsupportedButtonEvent s _) = s"

fun log_step :: "diagnostic_event \<Rightarrow> u64 option option \<Rightarrow> u64 option option" where
  "log_step e None = None"
| "log_step (SessionStarted s) (Some current) = Some (Some s)"
| "log_step (SessionEnded s lc r) (Some current) = (if current = Some s then Some None else None)"
| "log_step e (Some current) = (if current = Some (event_session e) then Some current else None)"

definition log_session :: "diagnostic_event list \<Rightarrow> u64 option option" where
  "log_session es = fold log_step es (Some None)"

definition log_ok :: "status_projection \<Rightarrow> bool" where
  "log_ok st = (log_session (st_events st) = Some (st_session_id st))"

lemma log_session_append: "log_session (es @ fs) = fold log_step fs (log_session es)"
  by (simp add: log_session_def)

lemma log_ok_configured [simp]: "log_ok status_configured"
  by (simp add: log_ok_def log_session_def status_configured_def)

text \<open>
  A projection that no worker holds and that shows no failure: what a controller hands to the worker it
  opens, the first time or after a close.
\<close>

definition status_settled :: "status_projection \<Rightarrow> bool" where
  "status_settled st \<longleftrightarrow>
     log_ok st \<and> \<not> st_panicked st \<and> st_session_id st = None \<and> \<not> st_connected st \<and> st_worker_failure st = None"

lemma status_settled_configured [simp]: "status_settled status_configured"
  by (simp add: status_settled_def) (simp add: status_configured_def)

lemma log_ok_methods [simp]:
  "log_ok st \<Longrightarrow> log_ok (set_lifecycle lc st)"
  "log_ok st \<Longrightarrow> log_ok (status_begin_session sid lc snapshot st)"
  "log_ok st \<Longrightarrow> log_ok (set_connected c st)"
  "log_ok st \<Longrightarrow> log_ok (set_snapshot s st)"
  "log_ok st \<Longrightarrow> log_ok (set_sender_state mode imu inputs replies st)"
  "log_ok st \<Longrightarrow> log_ok (record_subcommand i st)"
  "log_ok st \<Longrightarrow> log_ok (record_unsupported_button b st)"
  "log_ok st \<Longrightarrow> log_ok (status_end_session lc reason st)"
  "log_ok st \<Longrightarrow> log_ok (status_close lc st)"
  "log_ok st \<Longrightarrow> log_ok (status_fail message category st)"
  by (auto simp: log_ok_def status_defs set_sender_state_def log_session_append Let_def split: option.splits)

text \<open>The operations of a publisher, for statements about every history of them.\<close>

datatype status_call =
    CallSetLifecycle lifecycle_state
  | CallBeginSession u64 lifecycle_state input_state
  | CallSetConnected bool
  | CallSetSnapshot input_state
  | CallSetSenderState "u8 option" u8 u64 u64
  | CallRecordSubcommand u8
  | CallRecordUnsupportedButton button_kind
  | CallEndSession lifecycle_state "u8 option"
  | CallClose lifecycle_state
  | CallFail string worker_failure_category

fun status_run :: "status_call \<Rightarrow> status_projection \<Rightarrow> status_projection" where
  "status_run (CallSetLifecycle lc) = set_lifecycle lc"
| "status_run (CallBeginSession sid lc s) = status_begin_session sid lc s"
| "status_run (CallSetConnected c) = set_connected c"
| "status_run (CallSetSnapshot s) = set_snapshot s"
| "status_run (CallSetSenderState mode imu i r) = set_sender_state mode imu i r"
| "status_run (CallRecordSubcommand i) = record_subcommand i"
| "status_run (CallRecordUnsupportedButton b) = record_unsupported_button b"
| "status_run (CallEndSession lc r) = status_end_session lc r"
| "status_run (CallClose lc) = status_close lc"
| "status_run (CallFail msg c) = status_fail msg c"

lemma log_ok_run: "log_ok st \<Longrightarrow> log_ok (status_run c st)"
  by (cases c) simp_all

lemma log_ok_history: "log_ok st \<Longrightarrow> log_ok (fold status_run cs st)"
  by (induction cs arbitrary: st) (simp_all add: log_ok_run)

lemma fail_sticky:
  "st_worker_failure st \<noteq> None \<Longrightarrow> status_run c st = st" if "\<exists>msg k. c = CallFail msg k"
  using that by (auto simp: status_fail_def)


end
