(* ===== verification/Observed.thy ===== *)
theory Observed
  imports Prelude
begin

text \<open>
  \<open>src/runtime/connection.rs\<close>: the set of subcommand ids seen in a session, a 256-bit field in
  four words, with the last one observed.
\<close>

definition bits_per_word :: nat where "bits_per_word = 64"
definition word_count :: nat where "word_count = 4"

record observed_subcommands =
  obs_words :: "u64 list"
  obs_last :: "u8 option"

definition observed_default :: observed_subcommands where
  "observed_default = \<lparr>obs_words = replicate word_count 0, obs_last = None\<rparr>"

definition bit_slot :: "u8 \<Rightarrow> nat \<times> u64" where
  "bit_slot i = (unat i div bits_per_word, push_bit (unat i mod bits_per_word) 1)"

definition observe :: "u8 \<Rightarrow> observed_subcommands \<Rightarrow> bool \<times> observed_subcommands" where
  "observe i obs =
     (let (word, mk) = bit_slot i;
          first_observation = (obs_words obs ! word AND mk = 0)
      in (first_observation,
          obs\<lparr>obs_last := Some i, obs_words := (obs_words obs)[word := obs_words obs ! word OR mk]\<rparr>))"

definition observed_is_empty :: "observed_subcommands \<Rightarrow> bool" where
  "observed_is_empty obs = list_all (\<lambda>w. w = 0) (obs_words obs)"

definition observed_reset :: "observed_subcommands \<Rightarrow> observed_subcommands" where
  "observed_reset obs = observed_default"

definition has_observed :: "observed_subcommands \<Rightarrow> u8 \<Rightarrow> bool" where
  "has_observed obs i = bit (obs_words obs ! (unat i div 64)) (unat i mod 64)"

definition observed_wf :: "observed_subcommands \<Rightarrow> bool" where
  "observed_wf obs = (length (obs_words obs) = 4)"

lemma slot_bound: "unat (i :: u8) div 64 < 4"
proof -
  have "unat i < 2 ^ LENGTH(8)"
    by (rule unsigned_less)
  then show ?thesis by simp
qed

lemma slot_eq: "unat (i :: u8) div 64 = unat j div 64 \<Longrightarrow> unat i mod 64 = unat j mod 64 \<Longrightarrow> i = j"
  by (metis div_mult_mod_eq unsigned_word_eqI)

lemma observed_wf_simps [simp]:
  "observed_wf observed_default"
  "observed_wf (observed_reset obs)"
  "observed_wf (snd (observe i obs)) = observed_wf obs"
  by (simp_all add: observed_wf_def observed_default_def observed_reset_def observe_def word_count_def
      bit_slot_def)

lemma has_observed_observe:
  assumes "observed_wf obs"
  shows "has_observed (snd (observe i obs)) j \<longleftrightarrow> j = i \<or> has_observed obs j"
proof -
  define wi bi wj bj where "wi = unat i div 64" and "bi = unat i mod 64"
    and "wj = unat j div 64" and "bj = unat j mod 64"
  have less: "wi < 4" "bi < 64"
    using slot_bound[of i] by (simp_all add: wi_def bi_def)
  have same: "j = i \<longleftrightarrow> wj = wi \<and> bj = bi"
    using slot_eq[of i j] by (auto simp: wi_def bi_def wj_def bj_def)
  have "obs_words (snd (observe i obs)) =
      (obs_words obs)[wi := obs_words obs ! wi OR push_bit bi 1]"
    by (simp add: observe_def bit_slot_def bits_per_word_def wi_def bi_def)
  then have "has_observed (snd (observe i obs)) j \<longleftrightarrow>
      bit ((obs_words obs)[wi := obs_words obs ! wi OR push_bit bi 1] ! wj) bj"
    by (simp add: has_observed_def wj_def bj_def)
  also have "\<dots> \<longleftrightarrow> bit (obs_words obs ! wj) bj \<or> wj = wi \<and> bj = bi"
    using less assms bit_or_push_bit_one[of bi "obs_words obs ! wi" bj]
    by (cases "wj = wi") (simp_all add: observed_wf_def)
  finally show ?thesis
    unfolding same by (auto simp: has_observed_def wj_def bj_def)
qed

lemma observe_first: "fst (observe i obs) \<longleftrightarrow> \<not> has_observed obs i"
  using word_and_push_bit_one_iff[of "unat i mod 64" "obs_words obs ! (unat i div 64)"]
  by (auto simp: observe_def has_observed_def bit_slot_def bits_per_word_def)

lemma obs_last_observe [simp]: "obs_last (snd (observe i obs)) = Some i"
  by (simp add: observe_def bit_slot_def)

lemma not_has_observed_default: "\<not> has_observed observed_default i"
  using slot_bound[of i] by (simp add: has_observed_def observed_default_def word_count_def)

lemma observed_is_empty_iff:
  assumes "observed_wf obs"
  shows "observed_is_empty obs \<longleftrightarrow> (\<forall>i. \<not> has_observed obs i)"
proof
  assume "observed_is_empty obs"
  then have "obs_words obs ! (unat i div 64) = 0" for i :: u8
    using assms slot_bound[of i] by (auto simp: observed_is_empty_def list_all_length observed_wf_def)
  then show "\<forall>i. \<not> has_observed obs i"
    by (simp add: has_observed_def)
next
  assume none: "\<forall>i. \<not> has_observed obs i"
  have "obs_words obs ! k = 0" if k: "k < 4" for k
  proof (rule bit_word_eqI)
    fix n
    assume "n < LENGTH(64)"
    then have n: "n < 64" by simp
    then have less: "k * 64 + n < 256"
      using k by simp
    have "unat (of_nat x :: u8) = x" if "x < 256" for x
      using that by (simp add: unsigned_of_nat take_bit_nat_eq_self)
    note u = this[OF less]
    have "unat (of_nat (k * 64 + n) :: u8) div 64 = k" "unat (of_nat (k * 64 + n) :: u8) mod 64 = n"
      unfolding u using n by simp_all
    then show "bit (obs_words obs ! k) n = bit 0 n"
      using none[rule_format, of "of_nat (k * 64 + n)"] unfolding has_observed_def by simp
  qed
  then show "observed_is_empty obs"
    using assms by (simp add: observed_is_empty_def list_all_length observed_wf_def)
qed

text \<open>
  The observed ids are an element set.  The carrier of the contract is the well-formed values; an
  ill-formed one (which never arises) is read as the empty set.
\<close>

definition obs_member :: "observed_subcommands \<Rightarrow> u8 \<Rightarrow> bool" where
  "obs_member obs i = (observed_wf obs \<and> has_observed obs i)"

definition obs_insert :: "u8 \<Rightarrow> observed_subcommands \<Rightarrow> observed_subcommands" where
  "obs_insert i obs = snd (observe i (if observed_wf obs then obs else observed_default))"

interpretation observed_elems: element_set observed_default obs_insert obs_member
  by unfold_locales
    (auto simp: obs_member_def obs_insert_def not_has_observed_default has_observed_observe)

lemma obs_insert_observe: "observed_wf obs \<Longrightarrow> obs_insert i obs = snd (observe i obs)"
  by (simp add: obs_insert_def)

lemma fold_observe_eq:
  "observed_wf obs \<Longrightarrow> fold (\<lambda>i obs. snd (observe i obs)) ids obs = fold obs_insert ids obs"
  by (induction ids arbitrary: obs) (simp_all add: obs_insert_observe)

lemma observed_wf_fold: "observed_wf obs \<Longrightarrow> observed_wf (fold (\<lambda>i obs. snd (observe i obs)) ids obs)"
  by (induction ids arbitrary: obs) simp_all

text \<open>
  The bit field records exactly the observed ids.  After observing a list of ids in a fresh
  session, the next observation is reported as the first one iff its id is not in the list, the
  set is empty iff the list is, and the last id is the last element.
\<close>

theorem observed_subcommands_exact:
  "(let obs = fold (\<lambda>i obs. snd (observe i obs)) ids observed_default in
     (fst (observe i obs) \<longleftrightarrow> i \<notin> set ids)
     \<and> (observed_is_empty obs \<longleftrightarrow> ids = [])
     \<and> obs_last (snd (observe i obs)) = Some i)"
proof -
  define obs where "obs = fold (\<lambda>i obs. snd (observe i obs)) ids observed_default"
  have wf: "observed_wf obs"
    by (simp add: obs_def observed_wf_fold)
  have member: "has_observed obs j \<longleftrightarrow> j \<in> set ids" for j
    using observed_elems.member_collect[of ids j] wf
    by (simp add: obs_def fold_observe_eq obs_member_def)
  show ?thesis
    unfolding obs_def[symmetric] Let_def
    using observed_is_empty_iff[OF wf] by (auto simp: observe_first member neq_Nil_conv)
qed

end
