(* ===== verification/Transport.thy ===== *)
theory Transport
  imports Clock Errors
begin

text \<open>
  \<open>src/runtime/transport/mod.rs\<close>: the interface between the controller worker and the Bluetooth
  transport.  A \<open>TransportPort\<close> is a record of operations on a transport state \<open>'t\<close>, each returning
  the next state; the worker is verified for every such record.  Of a \<open>TransportError\<close> the kind is
  kept; its opaque source is only ever displayed.
\<close>

datatype hid_channel = Control | Interrupt

datatype transport_event =
    Connected
  | HidChannelOpened hid_channel
  | HidOutput hid_channel "u8 list"
  | Disconnected "u8 option"

datatype transport_error =
    Te_OpenFailed
  | Te_InvalidControllerIdentity
  | Te_IdentityMismatch
  | Te_AdapterIdentityRecoveryRequired
  | Te_UnsupportedController
  | Te_InvalidKeyStore
  | Te_NoBond
  | Te_Closed
  | Te_SendRejected
  | Te_DrainTimedOut
  | Te_EventQueueOverflow
  | Te_SourceTerminated
  | Te_CloseFailed

text \<open>\<open>SendAcceptance\<close> has the single value \<open>ACCEPTED\<close>.\<close>

type_synonym send_acceptance = unit

record transport_capabilities =
  cap_local_address :: "u8 list"
  cap_classic_capable :: bool

definition capabilities_from_validated_classic_controller ::
  "u8 list \<Rightarrow> (transport_capabilities, transport_error) result" where
  "capabilities_from_validated_classic_controller address =
     (if address = replicate 6 0 then Inl Te_InvalidControllerIdentity
      else Inr \<lparr>cap_local_address = address, cap_classic_capable = True\<rparr>)"

record 't transport_port =
  t_open :: "'t \<Rightarrow> 't \<times> (transport_capabilities, transport_error) result"
  t_start_pairing :: "'t \<Rightarrow> 't \<times> (unit, transport_error) result"
  t_start_reconnect :: "'t \<Rightarrow> 't \<times> (unit, transport_error) result"
  t_poll :: "duration \<Rightarrow> 't \<Rightarrow> 't \<times> (transport_event list, transport_error) result"
  t_capacity_available :: "'t \<Rightarrow> bool"
  t_send_interrupt :: "u8 list \<Rightarrow> 't \<Rightarrow> 't \<times> (send_acceptance, transport_error) result"
  t_drain_interrupt :: "duration \<Rightarrow> 't \<Rightarrow> 't \<times> (unit, transport_error) result"
  t_disconnect :: "'t \<Rightarrow> 't \<times> (unit, transport_error) result"
  t_close :: "'t \<Rightarrow> 't \<times> (unit, transport_error) result"

text \<open>The trait's default bodies of \<open>start_reconnect\<close> and \<open>interrupt_send_capacity_available\<close>.\<close>

definition default_start_reconnect :: "'t \<Rightarrow> 't \<times> (unit, transport_error) result" where
  "default_start_reconnect t = (t, Inl Te_NoBond)"

definition default_capacity_available :: "'t \<Rightarrow> bool" where
  "default_capacity_available t = True"

text \<open>
  A scripted port for evaluating the model: \<open>sp_events\<close> answers the polls, \<open>sp_sends\<close> the sends (an
  exhausted script accepts), \<open>sp_sent\<close> collects the accepted payloads and \<open>sp_calls\<close> names the calls.
\<close>

record scripted_port =
  sp_events :: "transport_event list list"
  sp_sends :: "transport_error option list"
  sp_sent :: "u8 list list"
  sp_calls :: "string list"

definition scripted_call :: "string \<Rightarrow> scripted_port \<Rightarrow> scripted_port" where
  "scripted_call name t = t\<lparr>sp_calls := sp_calls t @ [name]\<rparr>"

definition scripted_send ::
  "u8 list \<Rightarrow> scripted_port \<Rightarrow> scripted_port \<times> (send_acceptance, transport_error) result" where
  "scripted_send payload t =
     (case sp_sends t of
        Some e # rest \<Rightarrow> (t\<lparr>sp_sends := rest\<rparr>, Inl e)
      | None # rest \<Rightarrow> (t\<lparr>sp_sends := rest, sp_sent := sp_sent t @ [payload]\<rparr>, Inr ())
      | [] \<Rightarrow> (t\<lparr>sp_sent := sp_sent t @ [payload]\<rparr>, Inr ()))"

definition scripted_poll ::
  "duration \<Rightarrow> scripted_port \<Rightarrow> scripted_port \<times> (transport_event list, transport_error) result" where
  "scripted_poll timeout t =
     (case sp_events t of
        [] \<Rightarrow> (t, Inr [])
      | events # rest \<Rightarrow> (t\<lparr>sp_events := rest\<rparr>, Inr events))"

definition scripted_transport :: "scripted_port transport_port" where
  "scripted_transport = \<lparr>
     t_open = (\<lambda>t. (scripted_call ''open'' t, capabilities_from_validated_classic_controller [0, 27, 220, 249, 159, 125])),
     t_start_pairing = (\<lambda>t. (scripted_call ''pair'' t, Inr ())),
     t_start_reconnect = default_start_reconnect,
     t_poll = scripted_poll,
     t_capacity_available = default_capacity_available,
     t_send_interrupt = scripted_send,
     t_drain_interrupt = (\<lambda>_ t. (scripted_call ''drain'' t, Inr ())),
     t_disconnect = (\<lambda>t. (scripted_call ''disconnect'' t, Inr ())),
     t_close = (\<lambda>t. (scripted_call ''close'' t, Inr ()))\<rparr>"

definition scripted_start :: scripted_port where
  "scripted_start = \<lparr>sp_events = [], sp_sends = [], sp_sent = [], sp_calls = []\<rparr>"

end
