(* ===== verification/ProtocolError.thy ===== *)
theory ProtocolError
  imports ControllerModel
begin

text \<open>\<open>crates/swbt-core/src/protocol/error.rs\<close>: the failures of the pure protocol layer.\<close>

datatype protocol_error =
    SpiReadTooLarge nat nat                \<comment> \<open>size, maximum\<close>
  | SpiAddressOutOfRange u32 nat           \<comment> \<open>address, size\<close>
  | OutputReportEmpty
  | UnsupportedOutputReport u8             \<comment> \<open>report id\<close>
  | TruncatedOutputReport u8 nat nat       \<comment> \<open>report id, minimum, actual\<close>
  | SubcommandReplyDataTooLarge nat nat    \<comment> \<open>size, maximum\<close>
  | UnsupportedTriggerElapsedButton button_kind
  | TruncatedSpiReadRequest nat nat        \<comment> \<open>minimum, actual\<close>
  | MissingSubcommandArgument u8           \<comment> \<open>subcommand id\<close>
  | UnsupportedImuMode u8 "u8 list"        \<comment> \<open>requested, accepted\<close>
  | InvalidVibrationValue u8               \<comment> \<open>requested\<close>
  | InvalidNfcIrMcuState u8                \<comment> \<open>requested\<close>
  | UnsupportedSubcommand u8               \<comment> \<open>subcommand id\<close>

end
