(* ===== verification/SpiFlash.thy ===== *)
theory SpiFlash
  imports ProtocolError
begin

text \<open>
  \<open>crates/swbt-core/src/protocol/spi.rs\<close>: the read-only virtual SPI flash.  \<open>VirtualSpiFlash<M>\<close>
  holds the colours; the model is the argument \<open>m\<close>.
\<close>

definition spi_address_limit :: u32 where "spi_address_limit = 0x80000"
definition max_read_size :: nat where "max_read_size = 0x1D"
definition erased_byte :: u8 where "erased_byte = 0xFF"
definition device_type_address :: u32 where "device_type_address = 0x6012"
definition color_info_exists_address :: u32 where "color_info_exists_address = 0x601B"
definition factory_accelerometer_calibration_address :: u32 where
  "factory_accelerometer_calibration_address = 0x6020"
definition factory_accelerometer_calibration_end :: u32 where
  "factory_accelerometer_calibration_end = 0x602B"
definition factory_gyroscope_calibration_address :: u32 where
  "factory_gyroscope_calibration_address = 0x602C"
definition factory_gyroscope_calibration_end :: u32 where
  "factory_gyroscope_calibration_end = 0x6037"
definition controller_colors_address :: u32 where "controller_colors_address = 0x6050"
definition controller_colors_end :: u32 where "controller_colors_end = 0x605B"

lemmas spi_consts =
  spi_address_limit_def max_read_size_def erased_byte_def device_type_address_def
  color_info_exists_address_def factory_accelerometer_calibration_address_def
  factory_accelerometer_calibration_end_def factory_gyroscope_calibration_address_def
  factory_gyroscope_calibration_end_def controller_colors_address_def controller_colors_end_def

record virtual_spi_flash =
  spi_colors :: controller_colors

definition virtual_spi_flash_new :: "controller_kind \<Rightarrow> controller_colors option \<Rightarrow> virtual_spi_flash" where
  "virtual_spi_flash_new m colors =
     \<lparr>spi_colors = (case colors of None \<Rightarrow> default_colors (protocol_spec m) | Some c \<Rightarrow> c)\<rparr>"

fun triple_nth :: "'a \<times> 'a \<times> 'a \<Rightarrow> nat \<Rightarrow> 'a" where
  "triple_nth (a, b, c) i = [a, b, c] ! i"

definition calibration_byte :: "sensor_calibration \<Rightarrow> u32 \<Rightarrow> u8" where
  "calibration_byte cal offset =
     (let value_index = unat (offset div 2);
          axis = value_index mod 3;
          v = (if value_index < 3 then triple_nth (zero_raw cal) axis
               else triple_nth (reference_raw cal) axis)
      in le16 v ! unat (offset mod 2))"

definition byte_at :: "controller_kind \<Rightarrow> virtual_spi_flash \<Rightarrow> u32 \<Rightarrow> u8" where
  "byte_at m flash address =
     (let p = protocol_spec m in
      if address = device_type_address then device_type p
      else if address = color_info_exists_address then 0x01
      else if factory_accelerometer_calibration_address \<le> address
              \<and> address \<le> factory_accelerometer_calibration_end
      then calibration_byte (accelerometer_calibration p)
             (address - factory_accelerometer_calibration_address)
      else if factory_gyroscope_calibration_address \<le> address
              \<and> address \<le> factory_gyroscope_calibration_end
      then calibration_byte (gyroscope_calibration p)
             (address - factory_gyroscope_calibration_address)
      else if controller_colors_address \<le> address \<and> address \<le> controller_colors_end
      then to_spi_bytes (spi_colors flash) ! unat (address - controller_colors_address)
      else erased_byte)"

text \<open>
  \<open>SpiRead\<close> keeps a 29-byte buffer and a length and exposes \<open>as_slice\<close>; the model returns the
  slice.  \<open>address.checked_add(size as u32)\<close> fails on 32-bit overflow.
\<close>

definition spi_read ::
  "controller_kind \<Rightarrow> virtual_spi_flash \<Rightarrow> u32 \<Rightarrow> nat \<Rightarrow> (u8 list, protocol_error) result" where
  "spi_read m flash address sz =
     (if sz > max_read_size then Inl (SpiReadTooLarge sz max_read_size)
      else if \<not> unat address + sz < 2 ^ 32 then Inl (SpiAddressOutOfRange address sz)
      else if address + of_nat sz > spi_address_limit then Inl (SpiAddressOutOfRange address sz)
      else Inr (map (\<lambda>offset. byte_at m flash (address + of_nat offset)) [0..<sz]))"

lemma unat_add_of_nat_u32:
  "unat (a :: u32) + n < 2 ^ 32 \<Longrightarrow> unat (a + of_nat n) = unat a + n"
  by (simp add: unat_word_ariths unsigned_of_nat take_bit_nat_eq_self)

lemma spi_read_Inr_iff:
  "spi_read m flash address sz = Inr bytes \<longleftrightarrow>
     sz \<le> 29 \<and> unat address + sz \<le> 0x80000
     \<and> bytes = map (\<lambda>offset. byte_at m flash (address + of_nat offset)) [0..<sz]"
proof (cases "unat address + sz < 2 ^ 32")
  case True
  then show ?thesis
    by (auto simp: spi_read_def spi_consts not_less word_less_nat_alt word_le_nat_alt
        unat_add_of_nat_u32)
next
  case False
  then show ?thesis
    by (auto simp: spi_read_def spi_consts)
qed

text \<open>
  The flash is a memory.  A read succeeds exactly when it asks for at most 29 bytes inside the
  512 KiB address space, and reading \<open>n + k\<close> bytes returns the bytes of a read of \<open>n\<close> followed by
  those of a read of \<open>k\<close> at the address \<open>n\<close> further on.
\<close>

theorem spi_read_is_a_memory:
  "((\<exists>bytes. spi_read m flash a n = Inr bytes \<and> length bytes = n) \<longleftrightarrow>
      n \<le> 29 \<and> unat a + n \<le> 0x80000)
   \<and> (\<forall>bytes. spi_read m flash a (n + k) = Inr bytes \<longrightarrow>
       (\<exists>xs ys. spi_read m flash a n = Inr xs \<and> spi_read m flash (a + of_nat n) k = Inr ys
          \<and> bytes = xs @ ys))"
proof (intro conjI allI impI)
  show "(\<exists>bytes. spi_read m flash a n = Inr bytes \<and> length bytes = n) \<longleftrightarrow>
      n \<le> 29 \<and> unat a + n \<le> 0x80000"
    by (auto simp: spi_read_Inr_iff)
next
  fix bytes
  assume "spi_read m flash a (n + k) = Inr bytes"
  then have bound: "n + k \<le> 29" "unat a + (n + k) \<le> 0x80000"
    and bytes: "bytes = map (\<lambda>offset. byte_at m flash (a + of_nat offset)) [0..<n + k]"
    by (simp_all add: spi_read_Inr_iff)
  have shift: "map (\<lambda>offset. byte_at m flash (a + of_nat offset)) [n..<n + k] =
      map (\<lambda>offset. byte_at m flash (a + of_nat n + of_nat offset)) [0..<k]"
    by (rule nth_equalityI) (simp_all add: add.assoc)
  have follows: "unat (a + of_nat n) = unat a + n"
    using bound by (intro unat_add_of_nat_u32) simp
  define xs ys where "xs = map (\<lambda>offset. byte_at m flash (a + of_nat offset)) [0..<n]"
    and "ys = map (\<lambda>offset. byte_at m flash (a + of_nat n + of_nat offset)) [0..<k]"
  have "[0..<n + k] = [0..<n] @ [n..<n + k]"
    by (rule upt_add_eq_append) simp
  with bytes have "bytes = xs @ ys"
    by (simp only: xs_def ys_def map_append shift)
  moreover have "spi_read m flash a n = Inr xs"
    unfolding spi_read_Inr_iff using bound by (simp add: xs_def)
  moreover have "spi_read m flash (a + of_nat n) k = Inr ys"
    unfolding spi_read_Inr_iff using bound follows by (simp add: ys_def)
  ultimately show "\<exists>xs ys. spi_read m flash a n = Inr xs
      \<and> spi_read m flash (a + of_nat n) k = Inr ys \<and> bytes = xs @ ys"
    by blast
qed

theorem spi_read_is_a_memory_witness:
  "spi_read Pro (virtual_spi_flash_new Pro None) 0x6012 (1 + 1) = Inr [3, 255]
   \<and> (\<exists>xs ys. spi_read Pro (virtual_spi_flash_new Pro None) 0x6012 1 = Inr xs
        \<and> spi_read Pro (virtual_spi_flash_new Pro None) (0x6012 + of_nat 1) 1 = Inr ys
        \<and> [3, 255] = xs @ ys)"
proof -
  have read: "spi_read Pro (virtual_spi_flash_new Pro None) 0x6012 (1 + 1) = Inr [3, 255]"
    unfolding spi_read_Inr_iff
    by (simp add: upt_rec byte_at_def spi_consts device_type_simps Let_def)
  show ?thesis
    using spi_read_is_a_memory[of Pro "virtual_spi_flash_new Pro None" "0x6012" 1 1] read by blast
qed

text \<open>
  The memory map.  The host reads back the model's device type, the colour-present marker,
  the little-endian factory calibrations and the controller's colours at their fixed addresses.
\<close>

theorem spi_memory_map:
  "spi_read m flash 0x6012 1 = Inr [device_type (protocol_spec m)]
   \<and> spi_read m flash 0x601B 1 = Inr [1]
   \<and> spi_read m flash 0x6020 12 = Inr [0, 0, 0, 0, 0, 0, 0x00, 0x40, 0x00, 0x40, 0x00, 0x40]
   \<and> spi_read m flash 0x602C 12 = Inr [0, 0, 0, 0, 0, 0, 0x3B, 0x34, 0x3B, 0x34, 0x3B, 0x34]
   \<and> spi_read m flash 0x6050 12 = Inr (to_spi_bytes (spi_colors flash))"
proof -
  have upt12: "[0..<12] = [0, 1, 2, 3, 4, 5, 6, 7, 8, 9, 10, 11 :: nat]"
    by (simp add: upt_rec)
  have colors: "map (\<lambda>i. xs ! i) [0..<12] = xs" if "length xs = 12" for xs :: "u8 list"
    using that by (metis map_nth)
  have "spi_read m flash 0x6012 1 = Inr [device_type (protocol_spec m)]"
    "spi_read m flash 0x601B 1 = Inr [1]"
    by (simp_all add: spi_read_Inr_iff byte_at_def spi_consts Let_def)
  moreover have
    "spi_read m flash 0x6020 12 = Inr [0, 0, 0, 0, 0, 0, 0x00, 0x40, 0x00, 0x40, 0x00, 0x40]"
    by (simp add: spi_read_Inr_iff upt12 byte_at_def spi_consts Let_def calibration_byte_def le16_def)
  moreover have
    "spi_read m flash 0x602C 12 = Inr [0, 0, 0, 0, 0, 0, 0x3B, 0x34, 0x3B, 0x34, 0x3B, 0x34]"
    by (simp add: spi_read_Inr_iff upt12 byte_at_def spi_consts Let_def calibration_byte_def le16_def)
  moreover have "spi_read m flash 0x6050 12 = Inr (to_spi_bytes (spi_colors flash))"
    using colors[of "to_spi_bytes (spi_colors flash)"]
    by (simp add: spi_read_Inr_iff upt12 byte_at_def spi_consts Let_def)
  ultimately show ?thesis by blast
qed

end
