(* ===== verification/InputReport.thy ===== *)
theory InputReport
  imports InputState
begin

text \<open>
  \<open>crates/swbt-core/src/protocol/input_report.rs\<close>: the 49-byte full report \<open>0x30\<close>.
\<close>

definition input_report_size :: nat where "input_report_size = 49"
definition standard_full_report_id :: u8 where "standard_full_report_id = 0x30"

record prepared_input_report =
  report_bytes :: "u8 list"
  report_next_timer :: u8

definition pack_stick :: "stick \<Rightarrow> u8 list" where
  "pack_stick s =
     (let (x, y) = stick_axes s in
      [ucast x,
       (ucast (drop_bit 8 x) AND 0x0F) OR push_bit 4 (ucast y AND 0x0F),
       ucast (drop_bit 4 y)])"

text \<open>
  One pass of the button loop.  \<open>expect("Button<M> must have a wire mapping for M")\<close> is the
  \<open>None\<close> branch; every button that the iterator yields has a mapping.
\<close>

definition set_button_bit :: "controller_kind \<Rightarrow> button_kind \<Rightarrow> u8 list \<Rightarrow> u8 list" where
  "set_button_bit m b bytes =
     (case button_wire_position m b of
        None \<Rightarrow> bytes
      | Some p \<Rightarrow> or_at bytes (byte_index p) (wire_mask p))"

definition encode_0x30 ::
  "controller_kind \<Rightarrow> input_state \<Rightarrow> u8 \<Rightarrow> u8 list \<Rightarrow> prepared_input_report" where
  "encode_0x30 m state timer imu_block =
     (let bytes = replicate input_report_size 0;
          bytes = bytes[0 := standard_full_report_id];
          bytes = bytes[1 := timer];
          bytes = bytes[2 := battery_connection (protocol_spec m)];
          bytes = fold (set_button_bit m) (pressed_buttons m state) bytes;
          (left, right) = wire_sticks state;
          bytes = blit bytes 6 (pack_stick left);
          bytes = blit bytes 9 (pack_stick right);
          bytes = bytes[12 := vibrator_input (protocol_spec m)];
          bytes = blit bytes 13 imu_block
      in \<lparr>report_bytes = bytes, report_next_timer = timer + 1\<rparr>)"

section \<open>Stick packing\<close>

fun unpack_stick :: "u8 list \<Rightarrow> stick option" where
  "unpack_stick [b0, b1, b2] = Some
     \<lparr>stick_x = ucast b0 OR push_bit 8 (ucast (b1 AND 0x0F)),
      stick_y = ucast (drop_bit 4 b1) OR push_bit 4 (ucast b2)\<rparr>"
| "unpack_stick _ = None"

lemma length_pack_stick [simp]: "length (pack_stick s) = 3"
  by (simp add: pack_stick_def stick_axes_def)

lemma bit_12bit_axis:
  assumes "(w :: u16) \<le> stick_max" "12 \<le> n"
  shows "\<not> bit w n"
proof -
  have "unat w < 2 ^ 12"
    using assms(1) by (simp add: word_le_nat_alt stick_max_def)
  then have "take_bit 12 w = w"
    by (simp add: word_unat_eq_iff unsigned_take_bit_eq take_bit_nat_eq_self)
  then show ?thesis
    using assms(2) by (metis bit_take_bit_iff not_le)
qed

lemma unpack_pack_stick:
  assumes "valid_stick s"
  shows "unpack_stick (pack_stick s) = Some s"
proof -
  have x: "n < 12" if "bit (stick_x s) n" for n
    using assms that by (meson bit_12bit_axis not_le valid_stick_def)
  have y: "n < 12" if "bit (stick_y s) n" for n
    using assms that by (meson bit_12bit_axis not_le valid_stick_def)
  have "stick_x (the (unpack_stick (pack_stick s))) = stick_x s"
    by (rule bit_word_eqI) (auto simp: pack_stick_def stick_axes_def byte_bit_simps not_less dest: x)
  moreover have "stick_y (the (unpack_stick (pack_stick s))) = stick_y s"
    by (rule bit_word_eqI) (auto simp: pack_stick_def stick_axes_def byte_bit_simps not_less dest: y)
  ultimately show ?thesis
    by (simp add: pack_stick_def stick_axes_def)
qed

interpretation stick_codec: codec valid_stick pack_stick unpack_stick
  by unfold_locales (rule unpack_pack_stick)

text \<open>
  The three wire bytes of a 12-bit stick determine it: unpacking what \<open>pack_stick\<close> wrote gives
  back both axes, so no two stick positions share an encoding.
\<close>

theorem stick_roundtrip:
  assumes "stick_raw x y = Inr s"
  shows "unpack_stick (pack_stick s) = Some s \<and> stick_axes s = (x, y)"
  using stick_raw_Inr[OF assms] stick_codec.decode_encode[of s] by simp

theorem stick_roundtrip_witness:
  "stick_raw 4095 1 = Inr \<lparr>stick_x = 4095, stick_y = 1\<rparr>
   \<and> unpack_stick (pack_stick \<lparr>stick_x = 4095, stick_y = 1\<rparr>) = Some \<lparr>stick_x = 4095, stick_y = 1\<rparr>"
proof -
  have raw: "stick_raw 4095 1 = Inr \<lparr>stick_x = 4095, stick_y = 1\<rparr>"
    by (simp add: stick_raw_def validate_raw_axis_def stick_max_def)
  show ?thesis
    using stick_roundtrip[OF raw] raw by simp
qed

section \<open>The button bytes\<close>

lemma length_set_button_bit [simp]: "length (set_button_bit m b bytes) = length bytes"
  by (simp add: set_button_bit_def split: option.splits)

lemma length_fold_set_button_bit [simp]:
  "length (fold (set_button_bit m) bs bytes) = length bytes"
  by (induction bs arbitrary: bytes) simp_all

text \<open>A button's report bit in a byte list.\<close>

definition wire_pressed :: "controller_kind \<Rightarrow> u8 list \<Rightarrow> button_kind \<Rightarrow> bool" where
  "wire_pressed m bytes b =
     (case button_wire_position m b of
        None \<Rightarrow> False
      | Some p \<Rightarrow> bytes ! byte_index p AND wire_mask p \<noteq> 0)"

lemma set_button_bit_nth:
  "6 \<le> length bytes \<Longrightarrow> i < length bytes \<Longrightarrow>
   set_button_bit m b bytes ! i =
     (case button_wire_position m b of
        Some p \<Rightarrow> if byte_index p = i then bytes ! i OR wire_mask p else bytes ! i
      | None \<Rightarrow> bytes ! i)"
  by (auto simp: set_button_bit_def nth_or_at split: option.splits)

lemma fold_set_button_bit_outside:
  assumes "6 \<le> length bytes" "i < length bytes" "i < 3 \<or> 6 \<le> i"
  shows "fold (set_button_bit m) bs bytes ! i = bytes ! i"
  using assms
proof (induction bs arbitrary: bytes)
  case (Cons b bs)
  then show ?case
    using wire_position_bounds[of m b]
    by (fastforce simp: set_button_bit_nth split: option.splits)
qed simp

lemma wire_pressed_set_button_bit:
  assumes len: "6 \<le> length bytes" and b: "supports_button m b" and c: "supports_button m c"
  shows "wire_pressed m (set_button_bit m b bytes) c \<longleftrightarrow> c = b \<or> wire_pressed m bytes c"
proof -
  obtain p q where p: "button_wire_position m b = Some p" and q: "button_wire_position m c = Some q"
    using b c by (auto simp: supports_button_def)
  note pb = wire_position_bounds[OF p] and qb = wire_position_bounds[OF q]
  show ?thesis
  proof (cases "c = b")
    case True
    have "(bytes ! byte_index p OR wire_mask p) AND wire_mask p = wire_mask p"
      by (rule bit_word_eqI) (auto simp: bit_simps)
    with True p pb len show ?thesis
      by (simp add: wire_pressed_def set_button_bit_nth)
  next
    case False
    have "(bytes ! byte_index p OR wire_mask p) AND wire_mask q = bytes ! byte_index p AND wire_mask q"
      if "byte_index p = byte_index q"
      using wire_position_disjoint[OF p q] False that
      by (metis word_bw_comms(2) word_ao_dist or.right_neutral)
    with False p q qb len show ?thesis
      by (auto simp: wire_pressed_def set_button_bit_nth)
  qed
qed

lemma wire_pressed_fold:
  assumes "6 \<le> length bytes" "\<forall>b \<in> set bs. supports_button m b" "supports_button m c"
  shows "wire_pressed m (fold (set_button_bit m) bs bytes) c \<longleftrightarrow> c \<in> set bs \<or> wire_pressed m bytes c"
  using assms by (induction bs arbitrary: bytes) (auto simp: wire_pressed_set_button_bit)

section \<open>The whole report\<close>

definition report_head :: "controller_kind \<Rightarrow> u8 \<Rightarrow> u8 list" where
  "report_head m timer =
     (replicate input_report_size 0)
       [0 := standard_full_report_id, 1 := timer, 2 := battery_connection (protocol_spec m)]"

lemma length_report_head [simp]: "length (report_head m timer) = 49"
  by (simp add: report_head_def input_report_size_def)

lemma encode_0x30_bytes:
  "report_bytes (encode_0x30 m state timer imu) =
     blit ((blit (blit (fold (set_button_bit m) (pressed_buttons m state) (report_head m timer)) 6
        (pack_stick (left_stick state))) 9 (pack_stick (right_stick state)))
        [12 := vibrator_input (protocol_spec m)]) 13 imu"
  by (simp add: encode_0x30_def Let_def wire_sticks_def report_head_def)

lemma encode_0x30_next_timer [simp]: "report_next_timer (encode_0x30 m state timer imu) = timer + 1"
  by (simp add: encode_0x30_def Let_def wire_sticks_def)

lemma length_encode_0x30 [simp]:
  "length imu = 36 \<Longrightarrow> length (report_bytes (encode_0x30 m state timer imu)) = 49"
  by (simp add: encode_0x30_bytes)

lemma encode_0x30_nth:
  assumes "length imu = 36" "i < 49"
  shows "report_bytes (encode_0x30 m state timer imu) ! i =
    (if i < 6 then fold (set_button_bit m) (pressed_buttons m state) (report_head m timer) ! i
     else if i < 9 then pack_stick (left_stick state) ! (i - 6)
     else if i < 12 then pack_stick (right_stick state) ! (i - 9)
     else if i = 12 then vibrator_input (protocol_spec m)
     else imu ! (i - 13))"
  using assms by (auto simp: encode_0x30_bytes nth_blit nth_list_update)

lemma take3_of_nth:
  assumes "3 \<le> length (drop k xs)" "length ys = 3" "\<And>i. i < 3 \<Longrightarrow> xs ! (k + i) = ys ! i"
  shows "take 3 (drop k xs) = ys"
  using assms by (intro nth_equalityI) auto

lemma wire_pressed_encode:
  assumes "length imu = 36" "supports_button m b"
  shows "wire_pressed m (report_bytes (encode_0x30 m state timer imu)) b = (b \<in> set (pressed_buttons m state))"
proof -
  let ?head = "fold (set_button_bit m) (pressed_buttons m state) (report_head m timer)"
  have "wire_pressed m (report_bytes (encode_0x30 m state timer imu)) b = wire_pressed m ?head b"
    using wire_position_bounds[of m b] encode_0x30_nth[OF assms(1)]
    by (fastforce simp: wire_pressed_def split: option.splits)
  moreover have "wire_pressed m ?head b \<longleftrightarrow> b \<in> set (pressed_buttons m state) \<or> wire_pressed m (report_head m timer) b"
    using assms(2) valid_button_of_pressed by (intro wire_pressed_fold) (auto simp: valid_button_def)
  moreover have "\<not> wire_pressed m (report_head m timer) b"
    using wire_position_bounds[of m b]
    by (auto simp: wire_pressed_def report_head_def input_report_size_def nth_list_update split: option.splits)
  ultimately show ?thesis by simp
qed

text \<open>
  C22: the full input report carries the state.  For every model, the 49 bytes start with id 0x30,
  the timer and the battery byte; a supported button is pressed in the bytes exactly when it is
  pressed in the state; the two stick fields unpack to the state's sticks, the vibrator byte is
  zero, the last 36 bytes are the IMU block, and the timer advances by one modulo 256.
\<close>

theorem encode_0x30_carries_state:
  assumes "valid_input m state" and "length imu = 36"
  shows "let r = encode_0x30 m state timer imu; bytes = report_bytes r in
    length bytes = 49 \<and> bytes ! 0 = 0x30 \<and> bytes ! 1 = timer \<and> bytes ! 2 = 0x80
    \<and> (\<forall>b. supports_button m b \<longrightarrow> wire_pressed m bytes b = (b \<in> set (pressed_buttons m state)))
    \<and> unpack_stick (take 3 (drop 6 bytes)) = Some (left_stick state)
    \<and> unpack_stick (take 3 (drop 9 bytes)) = Some (right_stick state)
    \<and> bytes ! 12 = 0 \<and> drop 13 bytes = imu
    \<and> unat (report_next_timer r) = (unat timer + 1) mod 256"
proof -
  define bytes where "bytes = report_bytes (encode_0x30 m state timer imu)"
  define head where "head = fold (set_button_bit m) (pressed_buttons m state) (report_head m timer)"
  have len: "length bytes = 49"
    using assms by (simp add: bytes_def)
  have nth: "bytes ! i = (if i < 6 then head ! i
     else if i < 9 then pack_stick (left_stick state) ! (i - 6)
     else if i < 12 then pack_stick (right_stick state) ! (i - 9)
     else if i = 12 then vibrator_input (protocol_spec m) else imu ! (i - 13))" if "i < 49" for i
    using encode_0x30_nth[OF assms(2) that] by (simp add: bytes_def head_def)
  have head3: "head ! i = report_head m timer ! i" if "i < 3" for i
    using that by (simp add: head_def fold_set_button_bit_outside)
  have h: "bytes ! 0 = 0x30" "bytes ! 1 = timer" "bytes ! 2 = 0x80"
    by (simp_all add: nth head3 report_head_def input_report_size_def standard_full_report_id_def)
  have pressed: "wire_pressed m bytes b = (b \<in> set (pressed_buttons m state))" if "supports_button m b" for b
    unfolding bytes_def by (rule wire_pressed_encode[OF assms(2) that])
  have left: "take 3 (drop 6 bytes) = pack_stick (left_stick state)"
    by (rule take3_of_nth) (simp_all add: len nth)
  have right: "take 3 (drop 9 bytes) = pack_stick (right_stick state)"
    by (rule take3_of_nth) (simp_all add: len nth)
  have sticks: "valid_stick (left_stick state)" "valid_stick (right_stick state)"
    using assms by (simp_all add: valid_input_def)
  have tail: "drop 13 bytes = imu"
    using assms(2) by (intro nth_equalityI) (simp_all add: len nth)
  have timer: "unat (timer + 1) = (unat timer + 1) mod 256"
    by (simp add: unat_word_ariths)
  show ?thesis
    using len h pressed sticks tail timer
    by (simp add: Let_def left right stick_codec.decode_encode nth flip: bytes_def)
qed

theorem encode_0x30_carries_state_witness:
  "valid_input Pro (with_buttons input_neutral [Btn_A])
   \<and> wire_pressed Pro (report_bytes
        (encode_0x30 Pro (with_buttons input_neutral [Btn_A]) 255 (replicate 36 0))) Btn_A
   \<and> report_next_timer (encode_0x30 Pro (with_buttons input_neutral [Btn_A]) 255 (replicate 36 0)) = 0"
proof -
  have A: "valid_button Pro Btn_A"
    by (simp add: valid_button_def supports_button_iff supported_buttons_simps pro_buttons_def)
  have valid: "valid_input Pro (with_buttons input_neutral [Btn_A])"
    using A by (simp add: valid_input_with_buttons)
  have "Btn_A \<in> set (pressed_buttons Pro (with_buttons input_neutral [Btn_A]))"
    using A by (simp add: set_pressed_buttons_with_buttons)
  then show ?thesis
    using encode_0x30_carries_state[OF valid, where imu = "replicate 36 0" and timer = 255] A valid
    by (simp add: Let_def valid_button_def)
qed

end
