(* ===== verification/OutputReport.thy ===== *)
theory OutputReport
  imports ProtocolError
begin

text \<open>
  \<open>crates/swbt-core/src/protocol/output_report.rs\<close>: parsing of the host's output reports.  A
  report is a byte list; the borrowed payload slice is the tail of that list.
\<close>

definition subcommand_report_id :: u8 where "subcommand_report_id = 0x01"
definition rumble_report_id :: u8 where "rumble_report_id = 0x10"
definition rumble_size :: nat where "rumble_size = 8"
definition subcommand_minimum_size :: nat where "subcommand_minimum_size = 11"
definition rumble_minimum_size :: nat where "rumble_minimum_size = 10"

type_synonym raw_rumble = "u8 list"

record subcommand_request =
  request_id :: u8
  request_payload :: "u8 list"

datatype output_report =
    SubcommandReport u8 raw_rumble subcommand_request
  | RumbleReport u8 raw_rumble

fun report_id :: "output_report \<Rightarrow> u8" where
  "report_id (SubcommandReport _ _ _) = subcommand_report_id"
| "report_id (RumbleReport _ _) = rumble_report_id"

fun packet_id :: "output_report \<Rightarrow> u8" where
  "packet_id (SubcommandReport p _ _) = p"
| "packet_id (RumbleReport p _) = p"

fun rumble :: "output_report \<Rightarrow> raw_rumble" where
  "rumble (SubcommandReport _ r _) = r"
| "rumble (RumbleReport _ r) = r"

fun subcommand :: "output_report \<Rightarrow> subcommand_request option" where
  "subcommand (SubcommandReport _ _ q) = Some q"
| "subcommand (RumbleReport _ _) = None"

definition require_length :: "u8 list \<Rightarrow> u8 \<Rightarrow> nat \<Rightarrow> (unit, protocol_error) result" where
  "require_length raw rid minimum =
     (if length raw < minimum then Inl (TruncatedOutputReport rid minimum (length raw)) else Inr ())"

text \<open>\<open>raw[2..10]\<close>\<close>

definition copy_rumble :: "u8 list \<Rightarrow> raw_rumble" where
  "copy_rumble raw = take rumble_size (drop 2 raw)"

definition parse_subcommand_report :: "u8 list \<Rightarrow> (output_report, protocol_error) result" where
  "parse_subcommand_report raw =
     bind_result (require_length raw subcommand_report_id subcommand_minimum_size) (\<lambda>_.
       Inr (SubcommandReport (raw ! 1) (copy_rumble raw)
              \<lparr>request_id = raw ! 10, request_payload = drop 11 raw\<rparr>))"

definition parse_rumble_report :: "u8 list \<Rightarrow> (output_report, protocol_error) result" where
  "parse_rumble_report raw =
     bind_result (require_length raw rumble_report_id rumble_minimum_size) (\<lambda>_.
       Inr (RumbleReport (raw ! 1) (copy_rumble raw)))"

definition parse_output_report :: "u8 list \<Rightarrow> (output_report, protocol_error) result" where
  "parse_output_report raw =
     (case raw of
        [] \<Rightarrow> Inl OutputReportEmpty
      | rid # _ \<Rightarrow>
          if rid = subcommand_report_id then parse_subcommand_report raw
          else if rid = rumble_report_id then parse_rumble_report raw
          else Inl (UnsupportedOutputReport rid))"

lemmas output_report_consts =
  subcommand_report_id_def rumble_report_id_def rumble_size_def
  subcommand_minimum_size_def rumble_minimum_size_def

text \<open>The bytes a host sends for a report: the layout that the parser inverts.\<close>

fun output_report_bytes :: "output_report \<Rightarrow> u8 list" where
  "output_report_bytes (SubcommandReport p r q) =
     subcommand_report_id # p # r @ request_id q # request_payload q"
| "output_report_bytes (RumbleReport p r) = rumble_report_id # p # r"

definition valid_output_report :: "output_report \<Rightarrow> bool" where
  "valid_output_report rep = (length (rumble rep) = rumble_size)"

lemma split_header:
  assumes "10 \<le> length raw"
  obtains rid p r rest where "raw = rid # p # r @ rest" "length r = 8"
proof -
  obtain rid p tl where raw: "raw = rid # p # tl"
    using assms by (cases raw; cases "List.tl raw") auto
  have "raw = rid # p # take 8 tl @ drop 8 tl"
    using raw by simp
  moreover have "length (take 8 tl) = 8"
    using assms raw by simp
  ultimately show thesis
    using that by blast
qed

lemma parse_output_report_bytes:
  "valid_output_report rep \<Longrightarrow> parse_output_report (output_report_bytes rep) = Inr rep"
  by (cases rep)
    (auto simp: valid_output_report_def parse_output_report_def parse_subcommand_report_def
      parse_rumble_report_def require_length_def copy_rumble_def output_report_consts
      nth_Cons' nth_append)

text \<open>Host reports are a codec: the layout on one side, the parser on the other.\<close>

interpretation output_report_codec: codec
  valid_output_report output_report_bytes "\<lambda>raw. case parse_output_report raw of Inl _ \<Rightarrow> None | Inr r \<Rightarrow> Some r"
  by unfold_locales (simp add: parse_output_report_bytes)

lemma parse_subcommand_InrD:
  assumes "parse_output_report raw = Inr (SubcommandReport p r q)"
  shows "valid_output_report (SubcommandReport p r q)"
    and "raw = output_report_bytes (SubcommandReport p r q)"
proof -
  from assms have len: "11 \<le> length raw" and hd: "raw \<noteq> []" "raw ! 0 = subcommand_report_id"
    and fields: "p = raw ! 1" "r = copy_rumble raw"
      "q = \<lparr>request_id = raw ! 10, request_payload = drop 11 raw\<rparr>"
    by (auto simp: parse_output_report_def parse_subcommand_report_def parse_rumble_report_def
        require_length_def output_report_consts bind_result_Inr_iff split: list.splits if_splits)
  from len have "10 \<le> length raw" by simp
  then obtain rid p' r' rest where raw: "raw = rid # p' # r' @ rest" and r': "length r' = 8"
    by (rule split_header)
  with len obtain x xs where rest: "rest = x # xs"
    by (cases rest) auto
  from raw rest r' hd fields
  show "raw = output_report_bytes (SubcommandReport p r q)"
    by (simp add: copy_rumble_def output_report_consts nth_Cons' nth_append)
  from raw r' fields show "valid_output_report (SubcommandReport p r q)"
    by (simp add: valid_output_report_def copy_rumble_def output_report_consts)
qed

lemma parse_rumble_InrD:
  assumes "parse_output_report raw = Inr (RumbleReport p r)"
  shows "valid_output_report (RumbleReport p r)"
    and "\<exists>rest. raw = output_report_bytes (RumbleReport p r) @ rest"
proof -
  from assms have len: "10 \<le> length raw" and hd: "raw \<noteq> []" "raw ! 0 = rumble_report_id"
    and fields: "p = raw ! 1" "r = copy_rumble raw"
    by (auto simp: parse_output_report_def parse_subcommand_report_def parse_rumble_report_def
        require_length_def output_report_consts bind_result_Inr_iff split: list.splits if_splits)
  from len obtain rid p' r' rest where raw: "raw = rid # p' # r' @ rest" and r': "length r' = 8"
    by (rule split_header)
  from raw r' hd fields
  show "\<exists>rest. raw = output_report_bytes (RumbleReport p r) @ rest"
    by (intro exI[of _ rest]) (simp add: copy_rumble_def output_report_consts)
  from raw r' fields show "valid_output_report (RumbleReport p r)"
    by (simp add: valid_output_report_def copy_rumble_def output_report_consts)
qed

text \<open>
  C23: the parser accepts exactly the host reports.  A byte string parses to a subcommand report
  iff it is that report's layout (id 0x01, packet id, 8 rumble bytes, subcommand id, payload,
  nothing lost), and to a rumble report iff that report's ten bytes are a prefix of it.
\<close>

theorem parse_output_report_exact:
  "(parse_output_report raw = Inr (SubcommandReport p r q) \<longleftrightarrow>
      length r = 8 \<and> raw = [0x01, p] @ r @ [request_id q] @ request_payload q)
   \<and> (parse_output_report raw = Inr (RumbleReport p r) \<longleftrightarrow>
      length r = 8 \<and> (\<exists>rest. raw = [0x10, p] @ r @ rest))"
proof (intro conjI iffI)
  assume "parse_output_report raw = Inr (SubcommandReport p r q)"
  from parse_subcommand_InrD[OF this]
  show "length r = 8" "raw = [0x01, p] @ r @ [request_id q] @ request_payload q"
    by (simp_all add: valid_output_report_def output_report_consts)
next
  assume "length r = 8 \<and> raw = [0x01, p] @ r @ [request_id q] @ request_payload q"
  then show "parse_output_report raw = Inr (SubcommandReport p r q)"
    using parse_output_report_bytes[of "SubcommandReport p r q"]
    by (simp add: valid_output_report_def output_report_consts)
next
  assume "parse_output_report raw = Inr (RumbleReport p r)"
  from parse_rumble_InrD[OF this]
  show "length r = 8" "\<exists>rest. raw = [0x10, p] @ r @ rest"
    by (simp_all add: valid_output_report_def output_report_consts)
next
  assume "length r = 8 \<and> (\<exists>rest. raw = [0x10, p] @ r @ rest)"
  then show "parse_output_report raw = Inr (RumbleReport p r)"
    by (auto simp: parse_output_report_def parse_rumble_report_def require_length_def
        copy_rumble_def output_report_consts)
qed

end
