(* ===== verification/Subcommand.thy ===== *)
theory Subcommand
  imports SpiFlash InputReport OutputReport ProtocolSession
begin

text \<open>
  \<open>crates/swbt-core/src/protocol/subcommand.rs\<close> and \<open>facade.rs\<close>: the replies to the host's
  subcommands and the composition of the pure protocol layer.  A reply is prepared against the
  current session and timer; nothing is changed until the sender commits it.
\<close>

definition subcommand_reply_size :: nat where "subcommand_reply_size = 50"
definition subcommand_reply_data_size :: nat where "subcommand_reply_data_size = 35"
definition subcommand_reply_id :: u8 where "subcommand_reply_id = 0x21"
definition device_info_subcommand :: u8 where "device_info_subcommand = 0x02"
definition report_mode_subcommand :: u8 where "report_mode_subcommand = 0x03"
definition trigger_elapsed_subcommand :: u8 where "trigger_elapsed_subcommand = 0x04"
definition simple_ack_subcommand :: u8 where "simple_ack_subcommand = 0x08"
definition spi_read_subcommand :: u8 where "spi_read_subcommand = 0x10"
definition mcu_config_subcommand :: u8 where "mcu_config_subcommand = 0x21"
definition nfc_ir_mcu_state_subcommand :: u8 where "nfc_ir_mcu_state_subcommand = 0x22"
definition player_lights_subcommand :: u8 where "player_lights_subcommand = 0x30"
definition imu_mode_subcommand :: u8 where "imu_mode_subcommand = 0x40"
definition vibration_subcommand :: u8 where "vibration_subcommand = 0x48"
definition device_info_ack :: u8 where "device_info_ack = 0x82"
definition trigger_elapsed_ack :: u8 where "trigger_elapsed_ack = 0x83"
definition simple_ack :: u8 where "simple_ack = 0x80"
definition stateful_ack :: u8 where "stateful_ack = 0x80"
definition spi_read_ack :: u8 where "spi_read_ack = 0x90"
definition mcu_config_ack :: u8 where "mcu_config_ack = 0xA0"
definition spi_read_request_size :: nat where "spi_read_request_size = 5"
definition device_info_firmware :: "u8 list" where "device_info_firmware = [0x04, 0x00]"
definition device_info_marker :: u8 where "device_info_marker = 0x02"
definition trigger_elapsed_ticks :: "u8 list" where "trigger_elapsed_ticks = le16 300"
definition mcu_config_data :: "u8 list" where
  "mcu_config_data = [
     0x01, 0x00, 0xFF, 0x00, 0x08, 0x00, 0x1B, 0x01, 0x00, 0x00, 0x00, 0x00, 0x00, 0x00, 0x00, 0x00,
     0x00, 0x00, 0x00, 0x00, 0x00, 0x00, 0x00, 0x00, 0x00, 0x00, 0x00, 0x00, 0x00, 0x00, 0x00, 0x00,
     0x00, 0xC8]"

lemmas subcommand_ids =
  device_info_subcommand_def report_mode_subcommand_def trigger_elapsed_subcommand_def
  simple_ack_subcommand_def spi_read_subcommand_def mcu_config_subcommand_def
  nfc_ir_mcu_state_subcommand_def player_lights_subcommand_def imu_mode_subcommand_def
  vibration_subcommand_def

lemmas subcommand_acks =
  device_info_ack_def trigger_elapsed_ack_def simple_ack_def stateful_ack_def spi_read_ack_def
  mcu_config_ack_def

record prepared_subcommand_reply =
  reply_bytes :: "u8 list"
  reply_next_timer :: u8

record prepared_session_reply =
  session_reply :: prepared_subcommand_reply
  next_session :: protocol_session

definition prepare_0x21 ::
  "controller_kind \<Rightarrow> u8 \<Rightarrow> u8 \<Rightarrow> u8 list \<Rightarrow> input_state \<Rightarrow> u8
   \<Rightarrow> (prepared_subcommand_reply, protocol_error) result" where
  "prepare_0x21 m subcommand_id ack data state timer =
     (if length data > subcommand_reply_data_size
      then Inl (SubcommandReplyDataTooLarge (length data) subcommand_reply_data_size)
      else let input = encode_0x30 m state timer (replicate 36 0);
               bytes = replicate subcommand_reply_size 0;
               bytes = blit bytes 0 (take 13 (report_bytes input));
               bytes = bytes[0 := subcommand_reply_id];
               bytes = bytes[13 := ack];
               bytes = bytes[14 := subcommand_id];
               bytes = blit bytes 15 data
           in Inr \<lparr>reply_bytes = bytes, reply_next_timer = report_next_timer input\<rparr>)"

definition device_info_data :: "controller_kind \<Rightarrow> u8 list \<Rightarrow> u8 list" where
  "device_info_data m device_info_address =
     (let p = protocol_spec m;
          data = replicate 12 0;
          data = blit data 0 device_info_firmware;
          data = data[2 := device_type p];
          data = data[3 := device_info_marker];
          data = blit data 4 device_info_address;
          data = blit data 10 (device_info_tail p)
      in data)"

fun trigger_elapsed_offset :: "button_kind \<Rightarrow> nat option" where
  "trigger_elapsed_offset Btn_L = Some 0"
| "trigger_elapsed_offset Btn_R = Some 2"
| "trigger_elapsed_offset Btn_ZL = Some 4"
| "trigger_elapsed_offset Btn_ZR = Some 6"
| "trigger_elapsed_offset Btn_SL = Some 8"
| "trigger_elapsed_offset Btn_SR = Some 10"
| "trigger_elapsed_offset Btn_Home = Some 12"
| "trigger_elapsed_offset _ = None"

fun put_trigger_ticks :: "button_kind list \<Rightarrow> u8 list \<Rightarrow> (u8 list, protocol_error) result" where
  "put_trigger_ticks [] data = Inr data"
| "put_trigger_ticks (b # bs) data =
     (case trigger_elapsed_offset b of
        None \<Rightarrow> Inl (UnsupportedTriggerElapsedButton b)
      | Some offset \<Rightarrow> put_trigger_ticks bs (blit data offset trigger_elapsed_ticks))"

definition trigger_elapsed_data :: "controller_kind \<Rightarrow> (u8 list, protocol_error) result" where
  "trigger_elapsed_data m =
     put_trigger_ticks (pairing_trigger_buttons (protocol_spec m)) (replicate 14 0)"

definition first_argument :: "subcommand_request \<Rightarrow> (u8, protocol_error) result" where
  "first_argument q =
     (case request_payload q of
        [] \<Rightarrow> Inl (MissingSubcommandArgument (request_id q))
      | b # _ \<Rightarrow> Inr b)"

definition try_prepare_stateless_reply ::
  "controller_kind \<Rightarrow> subcommand_request \<Rightarrow> input_state \<Rightarrow> u8 \<Rightarrow> u8 list
   \<Rightarrow> (prepared_subcommand_reply option, protocol_error) result" where
  "try_prepare_stateless_reply m q state timer device_info_address =
     (let i = request_id q in
      if i = device_info_subcommand then
        map_ok Some (prepare_0x21 m i device_info_ack (device_info_data m device_info_address) state timer)
      else if i = trigger_elapsed_subcommand then
        bind_result (trigger_elapsed_data m) (\<lambda>data.
          map_ok Some (prepare_0x21 m i trigger_elapsed_ack data state timer))
      else if i = simple_ack_subcommand then
        map_ok Some (prepare_0x21 m i simple_ack [] state timer)
      else if i = mcu_config_subcommand then
        map_ok Some (prepare_0x21 m i mcu_config_ack mcu_config_data state timer)
      else if i = nfc_ir_mcu_state_subcommand then
        bind_result (first_argument q) (\<lambda>requested.
          if \<not> requested \<le> 0x02 then Inl (InvalidNfcIrMcuState requested)
          else map_ok Some (prepare_0x21 m i simple_ack [] state timer))
      else Inr None)"

definition try_prepare_spi_reply ::
  "controller_kind \<Rightarrow> subcommand_request \<Rightarrow> input_state \<Rightarrow> u8 \<Rightarrow> virtual_spi_flash
   \<Rightarrow> (prepared_subcommand_reply option, protocol_error) result" where
  "try_prepare_spi_reply m q state timer spi =
     (if request_id q \<noteq> spi_read_subcommand then Inr None
      else let payload = request_payload q in
        if length payload < spi_read_request_size
        then Inl (TruncatedSpiReadRequest spi_read_request_size (length payload))
        else let address = from_le32 (payload ! 0) (payload ! 1) (payload ! 2) (payload ! 3);
                 sz = unat (payload ! 4)
             in bind_result (spi_read m spi address sz) (\<lambda>bytes.
                  let data = replicate (spi_read_request_size + max_read_size) 0;
                      data = blit data 0 (take spi_read_request_size payload);
                      data = blit data spi_read_request_size bytes
                  in map_ok Some (prepare_0x21 m (request_id q) spi_read_ack
                       (take (spi_read_request_size + length bytes) data) state timer)))"

text \<open>The session that an accepted stateful subcommand leads to.\<close>

definition stateful_next_session ::
  "controller_kind \<Rightarrow> u8 \<Rightarrow> u8 \<Rightarrow> protocol_session \<Rightarrow> (protocol_session, protocol_error) result" where
  "stateful_next_session m subcommand_id requested current =
     (if subcommand_id = report_mode_subcommand then Inr (with_report_mode current requested)
      else if subcommand_id = player_lights_subcommand then Inr (with_player_lights current requested)
      else if subcommand_id = imu_mode_subcommand then
        (let accepted = accepted_imu_modes (protocol_spec m) in
         case (if requested \<in> set accepted then imu_mode_from_wire requested else None) of
           None \<Rightarrow> Inl (UnsupportedImuMode requested accepted)
         | Some mode \<Rightarrow> Inr (with_imu_mode current mode))
      else if requested = 0x00 then Inr (with_vibration_enabled current False)
      else if requested = 0x01 then Inr (with_vibration_enabled current True)
      else Inl (InvalidVibrationValue requested))"

definition try_prepare_stateful_reply ::
  "controller_kind \<Rightarrow> subcommand_request \<Rightarrow> input_state \<Rightarrow> u8 \<Rightarrow> protocol_session
   \<Rightarrow> (prepared_session_reply option, protocol_error) result" where
  "try_prepare_stateful_reply m q state timer current =
     (let i = request_id q in
      if i \<notin> {report_mode_subcommand, player_lights_subcommand, imu_mode_subcommand, vibration_subcommand}
      then Inr None
      else bind_result (first_argument q) (\<lambda>requested.
           bind_result (stateful_next_session m i requested current) (\<lambda>next.
           bind_result (prepare_0x21 m i stateful_ack [] state timer) (\<lambda>reply.
             Inr (Some \<lparr>session_reply = reply, next_session = next\<rparr>)))))"

section \<open>The facade\<close>

record input_preparation =
  prepared_report :: prepared_input_report
  next_imu_encoding_state :: imu_encoding_state

datatype prepared_output_action =
    Reply prepared_subcommand_reply
  | SessionReply prepared_session_reply

record switch_hid_protocol =
  protocol_spi :: virtual_spi_flash
  device_info_address :: "u8 list"

definition switch_hid_protocol_new ::
  "controller_kind \<Rightarrow> controller_colors option \<Rightarrow> u8 list \<Rightarrow> switch_hid_protocol" where
  "switch_hid_protocol_new m colors address =
     \<lparr>protocol_spi = virtual_spi_flash_new m colors, device_info_address = address\<rparr>"

definition prepare_input_report ::
  "f64_ops \<Rightarrow> controller_kind \<Rightarrow> input_state \<Rightarrow> u8 \<Rightarrow> protocol_session \<Rightarrow> u64 \<Rightarrow> input_preparation" where
  "prepare_input_report F m state timer current_session now_ns =
     (let imu = encode_imu_block F (ps_imu_encoding_state current_session) (ps_imu_mode current_session)
                  (imu_frames state) (gyroscope_calibration (protocol_spec m)) now_ns
      in \<lparr>prepared_report = encode_0x30 m state timer (imu_block imu),
          next_imu_encoding_state = imu_next_state imu\<rparr>)"

definition prepare_subcommand ::
  "controller_kind \<Rightarrow> switch_hid_protocol \<Rightarrow> subcommand_request \<Rightarrow> input_state \<Rightarrow> u8
   \<Rightarrow> protocol_session \<Rightarrow> (prepared_output_action, protocol_error) result" where
  "prepare_subcommand m p q state timer current_session =
     bind_result (try_prepare_stateless_reply m q state timer (device_info_address p)) (\<lambda>r1.
     case r1 of Some reply \<Rightarrow> Inr (Reply reply) | None \<Rightarrow>
     bind_result (try_prepare_spi_reply m q state timer (protocol_spi p)) (\<lambda>r2.
     case r2 of Some reply \<Rightarrow> Inr (Reply reply) | None \<Rightarrow>
     bind_result (try_prepare_stateful_reply m q state timer current_session) (\<lambda>r3.
     case r3 of Some reply \<Rightarrow> Inr (SessionReply reply) | None \<Rightarrow>
       Inl (UnsupportedSubcommand (request_id q)))))"


fun action_bytes :: "prepared_output_action \<Rightarrow> u8 list" where
  "action_bytes (Reply r) = reply_bytes r"
| "action_bytes (SessionReply r) = reply_bytes (session_reply r)"

fun action_next_timer :: "prepared_output_action \<Rightarrow> u8" where
  "action_next_timer (Reply r) = reply_next_timer r"
| "action_next_timer (SessionReply r) = reply_next_timer (session_reply r)"

section \<open>Reply frames\<close>

lemma prepare_0x21_Inl_iff:
  "prepare_0x21 m i ack data state timer = Inl e \<longleftrightarrow>
     35 < length data \<and> e = SubcommandReplyDataTooLarge (length data) 35"
  by (auto simp: prepare_0x21_def Let_def subcommand_reply_data_size_def)

text \<open>The 50 bytes of a reply: the report head, the acknowledgement, the echoed id and the data.\<close>

lemma prepare_0x21_bytes:
  assumes "length data \<le> 35"
  shows "prepare_0x21 m i ack data state timer = Inr
    \<lparr>reply_bytes = 0x21 # take 12 (drop 1 (report_bytes (encode_0x30 m state timer (replicate 36 0))))
        @ ack # i # data @ replicate (35 - length data) 0,
     reply_next_timer = timer + 1\<rparr>"
proof -
  define r where "r = report_bytes (encode_0x30 m state timer (replicate 36 0))"
  have len: "length r = 49"
    by (simp add: r_def)
  define bytes where "bytes = blit ((blit (replicate 50 0) 0 (take 13 r))[0 := 0x21, 13 := ack, 14 := i]) 15 data"
  define target where "target = 0x21 # take 12 (drop 1 r) @ ack # i # data @ replicate (35 - length data) 0"
  have "bytes = target"
  proof (rule nth_equalityI)
    show "length bytes = length target"
      using assms len by (simp add: bytes_def target_def)
    fix k
    assume "k < length bytes"
    then have k: "k < 50"
      using assms len by (simp add: bytes_def)
    consider "k = 0" | "0 < k" "k < 13" | "k = 13" | "k = 14" | "15 \<le> k" by linarith
    then show "bytes ! k = target ! k"
      using k assms len
      by cases (auto simp: bytes_def target_def nth_blit nth_list_update nth_Cons' nth_append)
  qed
  then show ?thesis
    using assms
    by (simp add: prepare_0x21_def Let_def subcommand_reply_data_size_def subcommand_reply_size_def
        subcommand_reply_id_def bytes_def target_def r_def)
qed

lemma length_device_info_data:
  "length address = 6 \<Longrightarrow> length (device_info_data m address) = 12"
  by (simp add: device_info_data_def Let_def device_info_firmware_def)

lemma trigger_elapsed_data_Inr:
  "\<exists>data. trigger_elapsed_data m = Inr data \<and> length data = 14"
  by (cases m) (simp_all add: trigger_elapsed_data_def pairing_trigger_buttons_simps
      trigger_elapsed_ticks_def)

lemma length_mcu_config_data [simp]: "length mcu_config_data = 34"
  by (simp add: mcu_config_data_def)

lemma length_spi_read: "spi_read m spi a n = Inr bytes \<Longrightarrow> length bytes = n \<and> n \<le> 29"
  by (auto simp: spi_read_Inr_iff)

text \<open>What every accepted reply has in common, as a predicate on its bytes and timer.\<close>

definition reply_framed ::
  "controller_kind \<Rightarrow> input_state \<Rightarrow> u8 \<Rightarrow> u8 \<Rightarrow> u8 list \<Rightarrow> u8 \<Rightarrow> bool" where
  "reply_framed m state timer i bytes timer' \<longleftrightarrow>
     length bytes = 50 \<and> bytes ! 0 = 0x21 \<and> bit (bytes ! 13) 7 \<and> bytes ! 14 = i
     \<and> take 12 (drop 1 bytes) = take 12 (drop 1 (report_bytes (encode_0x30 m state timer (replicate 36 0))))
     \<and> timer' = timer + 1"

lemma prepare_0x21_framed:
  assumes "prepare_0x21 m i ack data state timer = Inr r" and "bit ack 7"
  shows "reply_framed m state timer i (reply_bytes r) (reply_next_timer r)"
proof -
  have "length data \<le> 35"
    using assms(1) by (auto simp: prepare_0x21_def Let_def subcommand_reply_data_size_def split: if_splits)
  with assms show ?thesis
    by (auto simp: prepare_0x21_bytes reply_framed_def nth_Cons' nth_append)
qed

lemma map_ok_Inr_iff: "map_ok g r = Inr b \<longleftrightarrow> (\<exists>a. r = Inr a \<and> b = g a)"
  by (cases r) auto

lemma ack_bit [simp]:
  "bit device_info_ack 7" "bit trigger_elapsed_ack 7" "bit simple_ack 7" "bit stateful_ack 7"
  "bit spi_read_ack 7" "bit mcu_config_ack 7"
  by (simp_all add: subcommand_acks)

lemma stateless_framed:
  "try_prepare_stateless_reply m q state timer a = Inr (Some r) \<Longrightarrow>
   reply_framed m state timer (request_id q) (reply_bytes r) (reply_next_timer r)"
  by (auto simp: try_prepare_stateless_reply_def Let_def bind_result_Inr_iff map_ok_Inr_iff
      dest: prepare_0x21_framed split: if_splits)

lemma spi_reply_framed:
  "try_prepare_spi_reply m q state timer spi = Inr (Some r) \<Longrightarrow>
   reply_framed m state timer (request_id q) (reply_bytes r) (reply_next_timer r)"
  by (auto simp: try_prepare_spi_reply_def Let_def bind_result_Inr_iff map_ok_Inr_iff
      dest: prepare_0x21_framed split: if_splits)

lemma stateful_framed:
  "try_prepare_stateful_reply m q state timer s = Inr (Some r) \<Longrightarrow>
   reply_framed m state timer (request_id q) (reply_bytes (session_reply r))
     (reply_next_timer (session_reply r))"
  by (auto simp: try_prepare_stateful_reply_def Let_def bind_result_Inr_iff
      dest: prepare_0x21_framed split: if_splits)

lemma prepare_subcommand_Inr_iff:
  "prepare_subcommand m p q state timer s = Inr action \<longleftrightarrow>
     (\<exists>r. action = Reply r
        \<and> try_prepare_stateless_reply m q state timer (device_info_address p) = Inr (Some r))
   \<or> (\<exists>r. action = Reply r
        \<and> try_prepare_stateless_reply m q state timer (device_info_address p) = Inr None
        \<and> try_prepare_spi_reply m q state timer (protocol_spi p) = Inr (Some r))
   \<or> (\<exists>r. action = SessionReply r
        \<and> try_prepare_stateless_reply m q state timer (device_info_address p) = Inr None
        \<and> try_prepare_spi_reply m q state timer (protocol_spi p) = Inr None
        \<and> try_prepare_stateful_reply m q state timer s = Inr (Some r))"
  by (auto simp: prepare_subcommand_def bind_result_def split: sum.splits option.splits)

text \<open>
  Every accepted subcommand is acknowledged in the same frame.  Whatever the request, a
  prepared reply is 50 bytes: id 0x21, the timer, battery, button, stick and vibrator bytes of the
  current state exactly as the full report has them, a positive acknowledgement (bit 7 set), the
  echoed subcommand id; and it advances the timer by one.
\<close>

theorem subcommand_reply_frame:
  assumes "prepare_subcommand m p q state timer session = Inr action"
  shows "length (action_bytes action) = 50 \<and> action_bytes action ! 0 = 0x21
    \<and> bit (action_bytes action ! 13) 7 \<and> action_bytes action ! 14 = request_id q
    \<and> take 12 (drop 1 (action_bytes action))
        = take 12 (drop 1 (report_bytes (encode_0x30 m state timer (replicate 36 0))))
    \<and> action_next_timer action = timer + 1"
proof -
  have "reply_framed m state timer (request_id q) (action_bytes action) (action_next_timer action)"
    using assms
    by (auto simp: prepare_subcommand_Inr_iff
        dest: stateless_framed spi_reply_framed stateful_framed)
  then show ?thesis
    by (simp add: reply_framed_def)
qed

theorem subcommand_reply_frame_witness:
  "prepare_subcommand JoyConL (switch_hid_protocol_new JoyConL None (replicate 6 0))
      \<lparr>request_id = 0x08, request_payload = []\<rparr> input_neutral 255 protocol_session_default
    = Inr (Reply \<lparr>reply_bytes = 0x21 # take 12 (drop 1
         (report_bytes (encode_0x30 JoyConL input_neutral 255 (replicate 36 0)))) @ 0x80 # 8 # replicate 35 0,
       reply_next_timer = 0\<rparr>)
   \<and> bit ((0x21 # take 12 (drop 1
         (report_bytes (encode_0x30 JoyConL input_neutral 255 (replicate 36 0)))) @ 0x80 # 8 # replicate 35 (0 :: u8)) ! 13) 7"
proof -
  have eq: "prepare_subcommand JoyConL (switch_hid_protocol_new JoyConL None (replicate 6 0))
      \<lparr>request_id = 0x08, request_payload = []\<rparr> input_neutral 255 protocol_session_default
    = Inr (Reply \<lparr>reply_bytes = 0x21 # take 12 (drop 1
         (report_bytes (encode_0x30 JoyConL input_neutral 255 (replicate 36 0)))) @ 0x80 # 8 # replicate 35 0,
       reply_next_timer = 0\<rparr>)"
    by (simp add: prepare_subcommand_def try_prepare_stateless_reply_def subcommand_ids
        prepare_0x21_bytes simple_ack_def Let_def)
  show ?thesis
    using subcommand_reply_frame[OF eq] eq by (simp only: action_bytes.simps prepared_subcommand_reply.simps)
qed

section \<open>Which subcommands are answered\<close>

definition known_subcommands :: "u8 list" where
  "known_subcommands = [0x02, 0x03, 0x04, 0x08, 0x10, 0x21, 0x22, 0x30, 0x40, 0x48]"

lemma prepare_0x21_device_info:
  "length a = 6 \<Longrightarrow>
   \<exists>r. prepare_0x21 m i device_info_ack (device_info_data m a) state timer = Inr r"
  by (simp add: prepare_0x21_bytes length_device_info_data)

lemma imu_mode_accepted:
  "v \<in> set (accepted_imu_modes (protocol_spec m)) \<longleftrightarrow> imu_mode_from_wire v \<noteq> None"
  by (auto simp: imu_mode_from_wire_def split: if_splits)

lemma stateful_next_session_imu:
  "stateful_next_session m 0x40 v s =
     (case imu_mode_from_wire v of
        None \<Rightarrow> Inl (UnsupportedImuMode v [0, 1, 2, 3, 4, 5])
      | Some mode \<Rightarrow> Inr (with_imu_mode s mode))"
  using imu_mode_accepted[of v m]
  by (auto simp: stateful_next_session_def subcommand_ids Let_def split: option.splits)

lemma stateless_result:
  assumes "length a = 6"
  shows "request_id q \<in> {0x02, 0x04, 0x08, 0x21} \<Longrightarrow>
      \<exists>r. try_prepare_stateless_reply m q state timer a = Inr (Some r)"
    and "request_id q = 0x22 \<Longrightarrow> try_prepare_stateless_reply m q state timer a =
      (case request_payload q of
         [] \<Rightarrow> Inl (MissingSubcommandArgument 0x22)
       | v # _ \<Rightarrow> if v \<le> 2 then map_ok Some (prepare_0x21 m 0x22 simple_ack [] state timer)
           else Inl (InvalidNfcIrMcuState v))"
    and "request_id q \<notin> {0x02, 0x04, 0x08, 0x21, 0x22} \<Longrightarrow>
      try_prepare_stateless_reply m q state timer a = Inr None"
  using assms trigger_elapsed_data_Inr[of m]
  by (auto simp: try_prepare_stateless_reply_def subcommand_ids Let_def prepare_0x21_bytes
      length_device_info_data first_argument_def split: list.splits)

lemma spi_result:
  "request_id q \<noteq> 0x10 \<Longrightarrow> try_prepare_spi_reply m q state timer spi = Inr None"
  "request_id q = 0x10 \<Longrightarrow> length (request_payload q) < 5 \<Longrightarrow>
    try_prepare_spi_reply m q state timer spi = Inl (TruncatedSpiReadRequest 5 (length (request_payload q)))"
  by (auto simp: try_prepare_spi_reply_def subcommand_ids spi_read_request_size_def Let_def)

text \<open>The data of a memory read: the request echoed, then the bytes read.\<close>

lemma spi_reply_read:
  assumes "request_id q = 0x10" and "5 \<le> length (request_payload q)"
  shows "try_prepare_spi_reply m q state timer spi =
    (case spi_read m spi (from_le32 (request_payload q ! 0) (request_payload q ! 1)
        (request_payload q ! 2) (request_payload q ! 3)) (unat (request_payload q ! 4)) of
       Inl e \<Rightarrow> Inl e
     | Inr bytes \<Rightarrow> map_ok Some
         (prepare_0x21 m 0x10 0x90 (take 5 (request_payload q) @ bytes) state timer))"
proof -
  define a where "a = request_payload q"
  define address where "address = from_le32 (a ! 0) (a ! 1) (a ! 2) (a ! 3)"
  have data: "take (5 + length bytes) (blit (blit (replicate 34 (0 :: u8)) 0 (take 5 a)) 5 bytes)
      = take 5 a @ bytes" if "length bytes \<le> 29" for bytes
    using that assms by (simp add: blit_def a_def)
  have short: "\<not> length a < 5"
    using assms by (simp add: a_def)
  show ?thesis
  proof (cases "spi_read m spi address (unat (a ! 4))")
    case (Inl e)
    then show ?thesis
      using assms short
      by (simp add: try_prepare_spi_reply_def subcommand_ids spi_read_request_size_def Let_def
          address_def a_def)
  next
    case (Inr bytes)
    with length_spi_read[OF Inr] data[of bytes] show ?thesis
      using assms short
      by (simp add: try_prepare_spi_reply_def subcommand_ids spi_read_request_size_def Let_def
          max_read_size_def spi_read_ack_def address_def a_def)
  qed
qed

lemma spi_result_ok:
  assumes "request_id q = 0x10"
  shows "is_ok (try_prepare_spi_reply m q state timer spi) \<longleftrightarrow>
    (let a = request_payload q in 5 \<le> length a \<and> a ! 4 \<le> 29
      \<and> unat (from_le32 (a ! 0) (a ! 1) (a ! 2) (a ! 3)) + unat (a ! 4) \<le> 0x80000)"
proof (cases "5 \<le> length (request_payload q)")
  case True
  define a where "a = request_payload q"
  define address where "address = from_le32 (a ! 0) (a ! 1) (a ! 2) (a ! 3)"
  have "is_ok (try_prepare_spi_reply m q state timer spi) \<longleftrightarrow> is_ok (spi_read m spi address (unat (a ! 4)))"
  proof (cases "spi_read m spi address (unat (a ! 4))")
    case (Inl e)
    then show ?thesis
      using True assms by (simp add: spi_reply_read address_def a_def)
  next
    case (Inr bytes)
    have "length (take 5 a @ bytes) \<le> 35"
      using length_spi_read[OF Inr] by (auto simp: min_def)
    with Inr show ?thesis
      using True assms by (simp add: spi_reply_read prepare_0x21_bytes address_def a_def)
  qed
  also have "\<dots> \<longleftrightarrow> unat (a ! 4) \<le> 29 \<and> unat address + unat (a ! 4) \<le> 0x80000"
    by (simp add: is_ok_iff spi_read_Inr_iff)
  also have "unat (a ! 4) \<le> 29 \<longleftrightarrow> a ! 4 \<le> 29"
    by (simp add: word_le_nat_alt)
  finally show ?thesis
    using True by (simp add: Let_def address_def a_def)
qed (simp add: spi_result assms Let_def)

lemma spi_result_not_None:
  "request_id q = 0x10 \<Longrightarrow> try_prepare_spi_reply m q state timer spi \<noteq> Inr None"
  by (auto simp: try_prepare_spi_reply_def subcommand_ids Let_def bind_result_Inr_iff map_ok_Inr_iff)

lemma stateful_result:
  "request_id q \<notin> {0x03, 0x30, 0x40, 0x48} \<Longrightarrow>
    try_prepare_stateful_reply m q state timer s = Inr None"
  "request_id q \<in> {0x03, 0x30, 0x40, 0x48} \<Longrightarrow>
    try_prepare_stateful_reply m q state timer s =
      (case request_payload q of
         [] \<Rightarrow> Inl (MissingSubcommandArgument (request_id q))
       | v # _ \<Rightarrow> bind_result (stateful_next_session m (request_id q) v s) (\<lambda>n.
          map_ok (\<lambda>r. Some \<lparr>session_reply = r, next_session = n\<rparr>)
            (prepare_0x21 m (request_id q) 0x80 [] state timer)))"
  by (auto simp: try_prepare_stateful_reply_def subcommand_ids Let_def first_argument_def
      stateful_ack_def bind_result_def map_ok_def split: list.splits sum.splits)

lemma stateful_next_session_ok:
  "is_ok (stateful_next_session m i v s) \<longleftrightarrow>
     i = 0x03 \<or> i = 0x30 \<or> (i = 0x40 \<and> v \<le> 5)
     \<or> (i \<notin> {0x03, 0x30, 0x40} \<and> v \<le> 1)"
proof -
  have cases: "unat v = 0 \<or> unat v = 1 \<or> unat v = 2 \<or> unat v = 3 \<or> unat v = 4 \<or> unat v = 5
      \<longleftrightarrow> v \<le> 5"
    by (simp add: word_le_nat_alt) linarith
  have imu: "imu_mode_from_wire v \<noteq> None \<longleftrightarrow> v \<le> 5"
    by (auto simp: imu_mode_from_wire_def word_unat_eq_iff simp flip: cases)
  have vib: "v \<le> 1 \<longleftrightarrow> v = 0 \<or> v = 1"
    by (simp add: word_le_nat_alt word_unat_eq_iff) linarith
  show ?thesis
    using imu vib stateful_next_session_imu[of m v s]
    by (cases "i = 0x40")
      (auto simp: stateful_next_session_def subcommand_ids Let_def split: option.splits)
qed

lemma spi_no_unsupported:
  "try_prepare_spi_reply m q state timer spi \<noteq> Inl (UnsupportedSubcommand i)"
  by (auto simp: try_prepare_spi_reply_def bind_result_Inl_iff spi_read_def map_ok_def Let_def
      prepare_0x21_Inl_iff split: if_splits sum.splits)

lemma stateful_next_session_no_unsupported:
  "stateful_next_session m i v s \<noteq> Inl (UnsupportedSubcommand j)"
  by (auto simp: stateful_next_session_def Let_def split: option.splits)

text \<open>The facade tries the three groups of replies in turn.\<close>

lemma prepare_spi_request:
  assumes "length (device_info_address p) = 6" "request_id q = 0x10"
  shows "prepare_subcommand m p q state timer s =
    (case try_prepare_spi_reply m q state timer (protocol_spi p) of Inl e \<Rightarrow> Inl e | Inr r \<Rightarrow> Inr (Reply (the r)))"
proof -
  have "try_prepare_stateless_reply m q state timer (device_info_address p) = Inr None"
    using assms by (intro stateless_result(3)) simp_all
  then show ?thesis
    using spi_result_not_None[OF assms(2)]
    by (auto simp: prepare_subcommand_def bind_result_def split: sum.splits option.splits)
qed

lemma earlier_groups_skip:
  assumes "length (device_info_address p) = 6" "request_id q \<notin> {0x02, 0x04, 0x08, 0x21, 0x22, 0x10}"
  shows "try_prepare_stateless_reply m q state timer (device_info_address p) = Inr None"
    and "try_prepare_spi_reply m q state timer (protocol_spi p) = Inr None"
  using assms by (auto intro!: stateless_result(3) spi_result(1))

lemma prepare_plain_request:
  assumes "length (device_info_address p) = 6" "request_id q \<in> {0x02, 0x04, 0x08, 0x21}"
  shows "\<exists>r. prepare_subcommand m p q state timer s = Inr (Reply r)"
proof -
  obtain r where "try_prepare_stateless_reply m q state timer (device_info_address p) = Inr (Some r)"
    using stateless_result(1)[OF assms] by blast
  then show ?thesis
    by (simp add: prepare_subcommand_def)
qed

lemma prepare_unknown_request:
  assumes "length (device_info_address p) = 6" "request_id q \<notin> set known_subcommands"
  shows "prepare_subcommand m p q state timer s = Inl (UnsupportedSubcommand (request_id q))"
  using assms
  by (auto simp: prepare_subcommand_def stateless_result(3)[OF assms(1)] spi_result(1) stateful_result(1)
      known_subcommands_def)

text \<open>
  C19: exactly the requests that make sense are answered.  For a six-byte device address, the facade
  reports an unsupported subcommand iff the id is not one of the ten known ones, and it prepares a
  reply iff the id is known and its argument is valid: a read of at most 29 bytes inside the flash,
  an MCU state up to 2, some report mode or player lights byte, an IMU mode up to 5, vibration 0 or 1.
\<close>

theorem prepare_subcommand_domain:
  assumes "length (device_info_address p) = 6"
  shows "(prepare_subcommand m p q state timer s = Inl (UnsupportedSubcommand (request_id q))
       \<longleftrightarrow> request_id q \<notin> set known_subcommands)
   \<and> (is_ok (prepare_subcommand m p q state timer s) \<longleftrightarrow>
       (let a = request_payload q in
        request_id q \<in> {0x02, 0x04, 0x08, 0x21}
        \<or> request_id q = 0x10 \<and> 5 \<le> length a \<and> a ! 4 \<le> 29
            \<and> unat (from_le32 (a ! 0) (a ! 1) (a ! 2) (a ! 3)) + unat (a ! 4) \<le> 0x80000
        \<or> request_id q = 0x22 \<and> a \<noteq> [] \<and> a ! 0 \<le> 2
        \<or> request_id q \<in> {0x03, 0x30} \<and> a \<noteq> []
        \<or> request_id q = 0x40 \<and> a \<noteq> [] \<and> a ! 0 \<le> 5
        \<or> request_id q = 0x48 \<and> a \<noteq> [] \<and> a ! 0 \<le> 1))"
proof -
  define a where "a = request_payload q"
  consider (plain) "request_id q \<in> {0x02, 0x04, 0x08, 0x21}" | (mcu) "request_id q = 0x22"
    | (spi) "request_id q = 0x10" | (stateful) "request_id q \<in> {0x03, 0x30, 0x40, 0x48}"
    | (unknown) "request_id q \<notin> set known_subcommands"
    by (auto simp: known_subcommands_def)
  then show ?thesis
  proof cases
    case plain
    then show ?thesis
      using prepare_plain_request[OF assms plain, of m state timer s] by (auto simp: known_subcommands_def Let_def)
  next
    case mcu
    then show ?thesis
      using stateless_result(2)[OF assms mcu, of m state timer]
      by (auto simp: prepare_subcommand_def known_subcommands_def Let_def prepare_0x21_bytes
          split: list.splits)
  next
    case spi
    then show ?thesis
      using prepare_spi_request[OF assms spi] spi_result_ok[OF spi, of m state timer "protocol_spi p"]
        spi_no_unsupported[of m q state timer "protocol_spi p"]
      by (auto simp: known_subcommands_def Let_def split: sum.splits)
  next
    case stateful
    then have "request_id q \<notin> {0x02, 0x04, 0x08, 0x21, 0x22, 0x10}"
      by auto
    note none = earlier_groups_skip[OF assms this]
    show ?thesis
      using stateful stateful_next_session_ok[of m "request_id q" "a ! 0" s]
        stateful_next_session_no_unsupported[of m "request_id q" "a ! 0" s]
      by (auto simp: prepare_subcommand_def none stateful_result(2)[OF stateful] known_subcommands_def
          Let_def prepare_0x21_bytes a_def bind_result_def is_ok_iff split: list.splits sum.splits)
  next
    case unknown
    then show ?thesis
      by (auto simp: prepare_unknown_request[OF assms] known_subcommands_def Let_def)
  qed
qed

theorem prepare_subcommand_domain_witness:
  "length (device_info_address (switch_hid_protocol_new Pro None [1, 2, 3, 4, 5, 6])) = 6
   \<and> is_ok (prepare_subcommand Pro (switch_hid_protocol_new Pro None [1, 2, 3, 4, 5, 6])
        \<lparr>request_id = 0x40, request_payload = [2]\<rparr> input_neutral 0 protocol_session_default)"
proof -
  have len: "length (device_info_address (switch_hid_protocol_new Pro None [1, 2, 3, 4, 5, 6])) = 6"
    by (simp add: switch_hid_protocol_new_def)
  show ?thesis
    using prepare_subcommand_domain[OF len, of Pro "\<lparr>request_id = 0x40, request_payload = [2]\<rparr>"] len
    by (simp add: Let_def)
qed

text \<open>
  C20: the host reads the flash through the reply.  A read request with a four-byte little-endian
  address and a length is answered with acknowledgement 0x90, the echoed request and exactly the
  bytes that the flash holds there, zero padded to 35 bytes; a refused read gives the flash's error.
\<close>

theorem spi_read_reply_delivers_flash:
  assumes "length (device_info_address p) = 6"
  shows "prepare_subcommand m p \<lparr>request_id = 0x10, request_payload = [a0, a1, a2, a3, n] @ rest\<rparr>
      state timer s =
    (case spi_read m (protocol_spi p) (from_le32 a0 a1 a2 a3) (unat n) of
       Inl e \<Rightarrow> Inl e
     | Inr bytes \<Rightarrow> Inr (Reply
         \<lparr>reply_bytes = 0x21 # take 12 (drop 1 (report_bytes (encode_0x30 m state timer (replicate 36 0))))
            @ [0x90, 0x10, a0, a1, a2, a3, n] @ bytes @ replicate (30 - length bytes) 0,
          reply_next_timer = timer + 1\<rparr>))"
proof -
  have none: "try_prepare_stateless_reply m \<lparr>request_id = 0x10, request_payload = a0 # a1 # a2 # a3 # n # rest\<rparr>
      state timer (device_info_address p) = Inr None"
    by (intro stateless_result(3)[OF assms]) simp
  show ?thesis
  proof (cases "spi_read m (protocol_spi p) (from_le32 a0 a1 a2 a3) (unat n)")
    case (Inl e)
    then show ?thesis
      by (simp add: prepare_subcommand_def none spi_reply_read numeral_2_eq_2 numeral_3_eq_3)
  next
    case (Inr bytes)
    with length_spi_read[OF Inr] show ?thesis
      by (simp add: prepare_subcommand_def none spi_reply_read numeral_2_eq_2 numeral_3_eq_3
          prepare_0x21_bytes)
  qed
qed

theorem spi_read_reply_delivers_flash_witness:
  "length (device_info_address (switch_hid_protocol_new Pro None (replicate 6 0))) = 6
   \<and> action_bytes (case prepare_subcommand Pro (switch_hid_protocol_new Pro None (replicate 6 0))
        \<lparr>request_id = 0x10, request_payload = [0x12, 0x60, 0, 0, 1] @ []\<rparr> input_neutral 0
        protocol_session_default of Inr a \<Rightarrow> a) ! 20 = 3"
proof -
  have len: "length (device_info_address (switch_hid_protocol_new Pro None (replicate 6 0))) = 6"
    by (simp add: switch_hid_protocol_new_def)
  have addr: "from_le32 0x12 0x60 0 0 = 0x6012"
    by (simp add: from_le32_def)
  have read: "spi_read Pro spi 0x6012 (Suc 0) = Inr [3]" for spi
    by (simp add: spi_read_Inr_iff byte_at_def spi_consts device_type_simps Let_def)
  show ?thesis
    using spi_read_reply_delivers_flash[OF len, of Pro "0x12" "0x60" 0 0 1 "[]" input_neutral 0
        protocol_session_default] len
    by (simp add: addr read nth_append nth_Cons')
qed

section \<open>Readiness of the session\<close>

text \<open>
  The session after a sequence of requests, each reply having been sent and committed: an accepted
  stateful subcommand moves it, every other request leaves it alone.
\<close>

definition session_step ::
  "controller_kind \<Rightarrow> input_state \<Rightarrow> u8 \<Rightarrow> protocol_session \<Rightarrow> subcommand_request \<Rightarrow> protocol_session" where
  "session_step m state timer s q =
     (case try_prepare_stateful_reply m q state timer s of
        Inr (Some r) \<Rightarrow> next_session r
      | _ \<Rightarrow> s)"

text \<open>The argument of the last request with the given id that has one.\<close>

definition last_argument :: "u8 \<Rightarrow> subcommand_request list \<Rightarrow> u8 option" where
  "last_argument i qs =
     (case rev (filter (\<lambda>q. request_id q = i \<and> request_payload q \<noteq> []) qs) of
        [] \<Rightarrow> None
      | q # _ \<Rightarrow> Some (hd (request_payload q)))"

lemma last_argument_Nil [simp]: "last_argument i [] = None"
  by (simp add: last_argument_def)

lemma last_argument_snoc:
  "last_argument i (qs @ [q]) =
     (if request_id q = i \<and> request_payload q \<noteq> [] then Some (hd (request_payload q))
      else last_argument i qs)"
  by (simp add: last_argument_def)

lemma session_step_eq:
  "session_step m state timer s q =
     (if request_payload q = [] then s
      else if request_id q = 0x03 then with_report_mode s (hd (request_payload q))
      else if request_id q = 0x30 then with_player_lights s (hd (request_payload q))
      else if request_id q \<in> {0x40, 0x48} then
        (case stateful_next_session m (request_id q) (hd (request_payload q)) s of Inl _ \<Rightarrow> s | Inr n \<Rightarrow> n)
      else s)"
proof (cases "request_id q \<in> {0x03, 0x30, 0x40, 0x48}")
  case True
  have "stateful_next_session m 0x03 v s = Inr (with_report_mode s v)"
    "stateful_next_session m 0x30 v s = Inr (with_player_lights s v)" for v
    by (simp_all add: stateful_next_session_def subcommand_ids)
  with True show ?thesis
    by (auto simp: session_step_def stateful_result(2) prepare_0x21_bytes bind_result_def
        split: list.splits sum.splits)
qed (simp add: session_step_def stateful_result(1))

lemma stateful_imu_vibration_frame:
  "stateful_next_session m i v s = Inr n \<Longrightarrow> i \<in> {0x40, 0x48} \<Longrightarrow>
   ps_report_mode n = ps_report_mode s \<and> ps_player_lights n = ps_player_lights s"
  by (auto simp: stateful_next_session_def subcommand_ids with_imu_mode_def with_vibration_enabled_def
      Let_def split: if_splits option.splits)

lemma session_step_fields:
  "ps_report_mode (session_step m state timer s q) =
     (if request_id q = 0x03 \<and> request_payload q \<noteq> []
      then Some (report_mode_from_requested (hd (request_payload q))) else ps_report_mode s)"
  "ps_player_lights (session_step m state timer s q) =
     (if request_id q = 0x30 \<and> request_payload q \<noteq> []
      then Some (hd (request_payload q)) else ps_player_lights s)"
  by (auto simp: session_step_eq with_report_mode_def with_player_lights_def
      dest: stateful_imu_vibration_frame split: sum.splits)

lemma session_after_fields:
  "ps_report_mode (foldl (session_step m state timer) s qs) =
     (case last_argument 0x03 qs of None \<Rightarrow> ps_report_mode s
      | Some v \<Rightarrow> Some (report_mode_from_requested v))"
  "ps_player_lights (foldl (session_step m state timer) s qs) =
     (case last_argument 0x30 qs of None \<Rightarrow> ps_player_lights s | Some v \<Rightarrow> Some v)"
  by (induction qs rule: rev_induct) (auto simp: session_step_fields last_argument_snoc)

text \<open>
  C21: the connection becomes ready through the handshake only.  After any sequence of requests from
  a fresh session, the protocol is ready exactly when the last report mode asked for is 0x30 and the
  last player lights are not all off, in whatever order and among whatever else they arrived.
\<close>

theorem protocol_ready_after_requests:
  "protocol_ready (foldl (session_step m state timer) protocol_session_default qs) \<longleftrightarrow>
     last_argument 0x03 qs = Some 0x30
     \<and> (\<exists>lights. last_argument 0x30 qs = Some lights \<and> lights \<noteq> 0)"
  by (auto simp: protocol_ready_iff session_after_fields protocol_session_default_def
      report_mode_from_requested_def supported_input_report_mode_def split: option.splits if_splits)

end
