(* ===== verification/Sender.thy ===== *)
theory Sender
  imports Status Observed Transport Subcommand
begin

text \<open>
  \<open>src/runtime/sender.rs\<close>, \<open>state.rs\<close> and \<open>output.rs\<close>: the transaction around every send, the committed
  input state, and the handling of the host's output reports.

  \<open>env\<close> gathers what a worker never changes: the float operations, the controller model (the type
  parameter \<open>M\<close>), the protocol object and the transport's operations.  \<open>runtime_context\<close> gathers what the
  sending operations borrow mutably: the committed input state and the observed subcommands, the
  sender, the status projection they all publish to, the transport, and the calls made to the
  \<open>observe_output\<close> callback.
\<close>

record 't env =
  env_floats :: f64_ops
  env_model :: controller_kind
  env_protocol :: switch_hid_protocol
  env_transport :: "'t transport_port"

record sender_commit =
  commit_next_timer :: u8
  commit_session :: protocol_session

definition sender_commit_default :: sender_commit where
  "sender_commit_default = \<lparr>commit_next_timer = 0, commit_session = protocol_session_default\<rparr>"

record report_sender =
  snd_committed :: sender_commit
  snd_input_reports_accepted :: u64
  snd_replies_accepted :: u64

definition report_sender_new :: report_sender where
  "report_sender_new = \<lparr>snd_committed = sender_commit_default, snd_input_reports_accepted = 0,
     snd_replies_accepted = 0\<rparr>"

abbreviation sender_session :: "report_sender \<Rightarrow> protocol_session" where
  "sender_session s \<equiv> commit_session (snd_committed s)"

record output_observation =
  oo_channel :: hid_channel
  oo_report_id :: u8
  oo_packet_id :: u8
  oo_rumble :: raw_rumble

record 't runtime_context =
  cx_input :: input_state
  cx_observed :: observed_subcommands
  cx_sender :: report_sender
  cx_status :: status_projection
  cx_transport :: 't
  cx_outputs :: "output_observation list"

section \<open>The committed input state\<close>

definition input_commit :: "input_state \<Rightarrow> 't runtime_context \<Rightarrow> 't runtime_context" where
  "input_commit candidate cx =
     cx\<lparr>cx_input := candidate, cx_status := set_snapshot candidate (cx_status cx)\<rparr>"

definition input_reset_to_neutral :: "'t runtime_context \<Rightarrow> 't runtime_context" where
  "input_reset_to_neutral cx =
     cx\<lparr>cx_input := input_neutral, cx_status := set_snapshot input_neutral (cx_status cx)\<rparr>"

section \<open>The sender\<close>

definition publish_sender :: "'t runtime_context \<Rightarrow> 't runtime_context" where
  "publish_sender cx =
     (let s = cx_sender cx in
      cx\<lparr>cx_status := set_sender_state (report_mode (sender_session s))
           (imu_mode_code (ps_imu_mode (sender_session s)))
           (snd_input_reports_accepted s) (snd_replies_accepted s) (cx_status cx)\<rparr>)"

definition sender_reset_for_new_session :: "'t runtime_context \<Rightarrow> 't runtime_context" where
  "sender_reset_for_new_session cx =
     publish_sender (cx\<lparr>cx_sender := (cx_sender cx)\<lparr>snd_committed := sender_commit_default\<rparr>\<rparr>)"

definition prepare_reply ::
  "'t env \<Rightarrow> report_sender \<Rightarrow> subcommand_request \<Rightarrow> input_state
   \<Rightarrow> (prepared_output_action, protocol_error) result" where
  "prepare_reply E s q current =
     (if protocol_ready (sender_session s)
      then prepare_subcommand (env_model E) (env_protocol E) q current
             (commit_next_timer (snd_committed s)) (sender_session s)
      else prepare_subcommand (env_model E) (env_protocol E) q input_neutral
             (commit_next_timer (snd_committed s)) (sender_session s))"

definition count_accepted :: "u8 list \<Rightarrow> report_sender \<Rightarrow> report_sender" where
  "count_accepted bytes s =
     (case bytes of
        [] \<Rightarrow> s
      | b # _ \<Rightarrow>
          if b = 0x30 then s\<lparr>snd_input_reports_accepted := saturating_add_u64 (snd_input_reports_accepted s) 1\<rparr>
          else if b = 0x21 then s\<lparr>snd_replies_accepted := saturating_add_u64 (snd_replies_accepted s) 1\<rparr>
          else s)"

text \<open>
  The one place that touches the wire: the candidate replaces the committed timer and session only
  after the transport has accepted the bytes.
\<close>

definition send_candidate ::
  "'t env \<Rightarrow> u8 list \<Rightarrow> sender_commit \<Rightarrow> 't runtime_context \<Rightarrow> 't runtime_context \<times> (send_acceptance, transport_error) result" where
  "send_candidate E bytes candidate cx =
     (case t_send_interrupt (env_transport E) bytes (cx_transport cx) of
        (t, Inl e) \<Rightarrow> (cx\<lparr>cx_transport := t\<rparr>, Inl e)
      | (t, Inr acceptance) \<Rightarrow>
          (publish_sender (cx\<lparr>cx_transport := t,
             cx_sender := count_accepted bytes ((cx_sender cx)\<lparr>snd_committed := candidate\<rparr>)\<rparr>),
           Inr acceptance))"

definition send_input ::
  "'t env \<Rightarrow> input_state \<Rightarrow> u64 \<Rightarrow> 't runtime_context \<Rightarrow> 't runtime_context \<times> (send_acceptance, transport_error) result" where
  "send_input E state now_ns cx =
     (let committed = snd_committed (cx_sender cx);
          prepared = prepare_input_report (env_floats E) (env_model E) state
                       (commit_next_timer committed) (commit_session committed) now_ns;
          candidate = \<lparr>commit_next_timer = report_next_timer (prepared_report prepared),
             commit_session = with_imu_encoding_state (commit_session committed)
                                (next_imu_encoding_state prepared)\<rparr>
      in send_candidate E (report_bytes (prepared_report prepared)) candidate cx)"

fun reply_candidate :: "sender_commit \<Rightarrow> prepared_output_action \<Rightarrow> sender_commit" where
  "reply_candidate committed (Reply r) =
     \<lparr>commit_next_timer = reply_next_timer r, commit_session = commit_session committed\<rparr>"
| "reply_candidate committed (SessionReply r) =
     \<lparr>commit_next_timer = reply_next_timer (session_reply r), commit_session = next_session r\<rparr>"

definition send_reply ::
  "'t env \<Rightarrow> prepared_output_action \<Rightarrow> 't runtime_context \<Rightarrow> 't runtime_context \<times> (send_acceptance, transport_error) result" where
  "send_reply E prepared cx =
     send_candidate E (action_bytes prepared) (reply_candidate (snd_committed (cx_sender cx)) prepared) cx"

section \<open>Output reports\<close>

datatype output_handling = RumbleOnly | ReplyAccepted send_acceptance

datatype output_handling_error = OutputProtocol protocol_error | OutputTransport transport_error

type_synonym output_completion = "(output_handling, output_handling_error) result"

text \<open>
  \<open>handle_output\<close> with the status publisher of the worker.  The reply is prepared against the input
  state committed before the report was handled.
\<close>

definition handle_output ::
  "'t env \<Rightarrow> hid_channel \<Rightarrow> u8 list \<Rightarrow> 't runtime_context \<Rightarrow> 't runtime_context \<times> output_completion" where
  "handle_output E channel raw cx =
     (case parse_output_report raw of
        Inl e \<Rightarrow> (cx, Inl (OutputProtocol e))
      | Inr output \<Rightarrow>
          let cx = cx\<lparr>cx_outputs := cx_outputs cx @
                 [\<lparr>oo_channel = channel, oo_report_id = report_id output,
                   oo_packet_id = packet_id output, oo_rumble = rumble output\<rparr>]\<rparr>
          in case output of
               RumbleReport _ _ \<Rightarrow> (cx, Inr RumbleOnly)
             | SubcommandReport _ _ q \<Rightarrow>
                 let cx = cx\<lparr>cx_observed := snd (observe (request_id q) (cx_observed cx))\<rparr>;
                     cx = (case obs_last (cx_observed cx) of
                             None \<Rightarrow> cx
                           | Some i \<Rightarrow> cx\<lparr>cx_status := record_subcommand i (cx_status cx)\<rparr>)
                 in case prepare_reply E (cx_sender cx) q (cx_input cx) of
                      Inl e \<Rightarrow> (cx, Inl (OutputProtocol e))
                    | Inr prepared \<Rightarrow>
                        (case send_reply E prepared cx of
                           (cx, Inl e) \<Rightarrow> (cx, Inl (OutputTransport e))
                         | (cx, Inr accepted) \<Rightarrow> (cx, Inr (ReplyAccepted accepted))))"

section \<open>Consistency of the shared state\<close>

text \<open>
  What relates the parts of a context between operations, for the session \<open>sid\<close> that the projection
  shows: no publisher has panicked, the projection's counters, snapshot and (in a session) report
  mode are the sender's and the store's, and the event log is well nested.  Before its first session a new
  worker has sent nothing and is neutral, while the projection may still show an earlier worker's
  counters and snapshot.
\<close>

definition counters_shown :: "'t runtime_context \<Rightarrow> bool" where
  "counters_shown cx \<longleftrightarrow>
     st_input_reports_accepted (cx_status cx) = snd_input_reports_accepted (cx_sender cx)
     \<and> st_replies_accepted (cx_status cx) = snd_replies_accepted (cx_sender cx)"

definition nothing_sent :: "report_sender \<Rightarrow> bool" where
  "nothing_sent s \<longleftrightarrow> snd_input_reports_accepted s = 0 \<and> snd_replies_accepted s = 0"

definition context_ok :: "u64 option \<Rightarrow> 't runtime_context \<Rightarrow> bool" where
  "context_ok sid cx \<longleftrightarrow>
     (let st = cx_status cx; s = cx_sender cx in
      \<not> st_panicked st \<and> st_session_id st = sid
      \<and> (counters_shown cx \<or> sid = None \<and> nothing_sent s)
      \<and> (st_snapshot st = cx_input cx \<or> sid = None \<and> cx_input cx = input_neutral)
      \<and> (sid \<noteq> None \<longrightarrow> st_report_mode st = report_mode (sender_session s))
      \<and> observed_wf (cx_observed cx) \<and> log_ok st)"

text \<open>What \<open>context_ok\<close> reads, for its own proofs.\<close>

lemmas context_ok_parts = context_ok_def counters_shown_def nothing_sent_def Let_def

text \<open>The operations that only send keep everything else of a context.\<close>

definition status_frame :: "status_projection \<Rightarrow> status_projection \<Rightarrow> bool" where
  "status_frame st st' \<longleftrightarrow>
     st_lifecycle st' = st_lifecycle st \<and> st_connected st' = st_connected st
     \<and> st_session_id st' = st_session_id st \<and> st_worker_failure st' = st_worker_failure st
     \<and> st_last_disconnect_reason st' = st_last_disconnect_reason st"

lemma status_frame_refl [simp]: "status_frame st st"
  by (simp add: status_frame_def)

lemma status_frame_trans: "status_frame a b \<Longrightarrow> status_frame b c \<Longrightarrow> status_frame a c"
  by (simp add: status_frame_def)

lemma status_frame_methods [simp]:
  "status_frame st (set_snapshot s st)"
  "status_frame st (set_sender_state mode imu i r st)"
  "status_frame st (record_subcommand j st)"
  by (simp_all add: status_frame_def set_snapshot_def set_sender_state_def record_subcommand_def Let_def
      split: option.splits)

lemma set_sender_state_fields [simp]:
  "st_session_id (set_sender_state mode imu i r st) = st_session_id st"
  "st_snapshot (set_sender_state mode imu i r st) = st_snapshot st"
  "st_report_mode (set_sender_state mode imu i r st) = mode"
  "st_input_reports_accepted (set_sender_state mode imu i r st) = i"
  "st_replies_accepted (set_sender_state mode imu i r st) = r"
  by (simp_all add: set_sender_state_def Let_def split: option.splits)

lemma set_sender_state_panicked:
  "st_panicked (set_sender_state mode imu i r st) \<longleftrightarrow>
     st_panicked st \<or> st_session_id st = None
       \<and> (st_input_reports_accepted st < i \<or> st_replies_accepted st < r)"
  by (auto simp: set_sender_state_def Let_def split: option.splits)

lemma publish_sender_fields [simp]:
  "cx_input (publish_sender cx) = cx_input cx" "cx_observed (publish_sender cx) = cx_observed cx"
  "cx_sender (publish_sender cx) = cx_sender cx" "cx_transport (publish_sender cx) = cx_transport cx"
  "cx_outputs (publish_sender cx) = cx_outputs cx"
  "status_frame (cx_status cx) (cx_status (publish_sender cx))"
  by (simp_all add: publish_sender_def Let_def)

lemma input_commit_ok [simp]: "context_ok sid cx \<Longrightarrow> context_ok sid (input_commit s cx)"
  by (simp add: context_ok_parts input_commit_def) (simp add: set_snapshot_def)

lemma input_commit_fields [simp]:
  "cx_input (input_commit s cx) = s" "cx_observed (input_commit s cx) = cx_observed cx"
  "cx_sender (input_commit s cx) = cx_sender cx" "cx_transport (input_commit s cx) = cx_transport cx"
  "cx_outputs (input_commit s cx) = cx_outputs cx"
  "status_frame (cx_status cx) (cx_status (input_commit s cx))"
  by (simp_all add: input_commit_def)

lemma input_reset_eq: "input_reset_to_neutral cx = input_commit input_neutral cx"
  by (simp add: input_reset_to_neutral_def input_commit_def)

lemma snd_committed_count [simp]: "snd_committed (count_accepted bytes s) = snd_committed s"
  by (simp add: count_accepted_def split: list.splits)

lemma publish_sender_ok:
  assumes "\<not> st_panicked (cx_status cx)" "st_session_id (cx_status cx) = sid" "sid \<noteq> None"
    and "st_snapshot (cx_status cx) = cx_input cx" "observed_wf (cx_observed cx)" "log_ok (cx_status cx)"
  shows "context_ok sid (publish_sender cx)"
  using assms by (auto simp: context_ok_parts publish_sender_def set_sender_state_panicked)

lemma context_ok_transport [simp]: "context_ok sid (cx\<lparr>cx_transport := t\<rparr>) = context_ok sid cx"
  by (simp add: context_ok_parts)

lemma context_ok_outputs [simp]: "context_ok sid (cx\<lparr>cx_outputs := os\<rparr>) = context_ok sid cx"
  by (simp add: context_ok_parts)

text \<open>A send outcome: what may change, and how.\<close>

definition sent_frame :: "'t runtime_context \<Rightarrow> 't runtime_context \<Rightarrow> bool" where
  "sent_frame cx cx' \<longleftrightarrow>
     cx_input cx' = cx_input cx \<and> cx_observed cx' = cx_observed cx \<and> cx_outputs cx' = cx_outputs cx
     \<and> status_frame (cx_status cx) (cx_status cx')"

lemma sent_frame_refl [simp]: "sent_frame cx cx"
  by (simp add: sent_frame_def)

lemma sent_frame_trans: "sent_frame a b \<Longrightarrow> sent_frame b c \<Longrightarrow> sent_frame a c"
  by (auto simp: sent_frame_def intro: status_frame_trans)

lemma send_candidate_cases:
  assumes "t_send_interrupt (env_transport E) bytes (cx_transport cx) = (t, r)"
  shows "send_candidate E bytes candidate cx =
    (case r of
       Inl e \<Rightarrow> (cx\<lparr>cx_transport := t\<rparr>, Inl e)
     | Inr a \<Rightarrow> (publish_sender (cx\<lparr>cx_transport := t,
         cx_sender := count_accepted bytes ((cx_sender cx)\<lparr>snd_committed := candidate\<rparr>)\<rparr>), Inr a))"
  using assms by (simp add: send_candidate_def split: sum.splits)

lemma send_candidate_frame: "sent_frame cx (fst (send_candidate E bytes candidate cx))"
  by (cases "t_send_interrupt (env_transport E) bytes (cx_transport cx)")
    (auto simp: send_candidate_cases sent_frame_def publish_sender_def Let_def split: sum.splits)

lemma send_candidate_ok:
  assumes "context_ok (Some s) cx"
  shows "context_ok (Some s) (fst (send_candidate E bytes candidate cx))"
proof -
  obtain t r where send: "t_send_interrupt (env_transport E) bytes (cx_transport cx) = (t, r)"
    by fastforce
  show ?thesis
  proof (cases r)
    case Inl
    then show ?thesis
      using assms by (simp add: send_candidate_cases[OF send])
  next
    case Inr
    have "context_ok (Some s) (publish_sender (cx\<lparr>cx_transport := t,
        cx_sender := count_accepted bytes ((cx_sender cx)\<lparr>snd_committed := candidate\<rparr>)\<rparr>))"
      by (rule publish_sender_ok) (use assms in \<open>auto simp: context_ok_parts\<close>)
    with Inr show ?thesis
      by (simp add: send_candidate_cases[OF send])
  qed
qed

lemma send_input_frame: "sent_frame cx (fst (send_input E state now cx))"
  by (simp add: send_input_def Let_def send_candidate_frame)

lemma send_input_ok [simp]:
  "context_ok (Some s) cx \<Longrightarrow> context_ok (Some s) (fst (send_input E state now cx))"
  by (simp add: send_input_def Let_def send_candidate_ok)

lemma send_reply_frame: "sent_frame cx (fst (send_reply E prepared cx))"
  by (simp add: send_reply_def send_candidate_frame)

lemma send_reply_ok [simp]:
  "context_ok (Some s) cx \<Longrightarrow> context_ok (Some s) (fst (send_reply E prepared cx))"
  by (simp add: send_reply_def send_candidate_ok)

lemma Cons_of_nth: "xs ! 0 = x \<Longrightarrow> 0 < length xs \<Longrightarrow> xs = x # drop 1 xs"
  by (cases xs) auto

lemma input_report_first:
  "report_bytes (prepared_report (prepare_input_report F m state timer session now)) =
     0x30 # drop 1 (report_bytes (prepared_report (prepare_input_report F m state timer session now)))"
proof -
  let ?imu = "imu_block (encode_imu_block F (ps_imu_encoding_state session) (ps_imu_mode session)
      (imu_frames state) (gyroscope_calibration (protocol_spec m)) now)"
  have "report_bytes (encode_0x30 m state timer ?imu) ! 0 = 0x30"
    by (subst encode_0x30_nth)
      (simp_all add: fold_set_button_bit_outside report_head_def input_report_size_def standard_full_report_id_def)
  moreover have "0 < length (report_bytes (encode_0x30 m state timer ?imu))"
    by simp
  ultimately have "report_bytes (encode_0x30 m state timer ?imu) =
      0x30 # drop 1 (report_bytes (encode_0x30 m state timer ?imu))"
    by (rule Cons_of_nth)
  then show ?thesis
    by (simp only: prepare_input_report_def Let_def input_preparation.simps)
qed

lemma input_report_next_timer:
  "report_next_timer (prepared_report (prepare_input_report F m state timer session now)) = timer + 1"
  by (simp add: prepare_input_report_def Let_def)

text \<open>
  C10: a send is a transaction.  The transport is offered exactly one full report, built from the
  committed timer and session.  If it refuses, nothing but the transport's own state has changed; if
  it accepts, the timer advances by one, the session changes only in its IMU encoder state, the
  accepted-report counter grows by one (saturating), and the projection shows the new values.
\<close>

theorem send_input_is_a_transaction:
  assumes "context_ok (Some sid) cx"
  shows "let c = snd_committed (cx_sender cx);
      p = prepare_input_report (env_floats E) (env_model E) state (commit_next_timer c) (commit_session c) now;
      (t, r) = t_send_interrupt (env_transport E) (report_bytes (prepared_report p)) (cx_transport cx);
      (cx', r') = send_input E state now cx in
    r' = r \<and> cx_transport cx' = t
    \<and> (case r of
         Inl e \<Rightarrow> cx' = cx\<lparr>cx_transport := t\<rparr>
       | Inr _ \<Rightarrow>
           commit_next_timer (snd_committed (cx_sender cx')) = commit_next_timer c + 1
           \<and> commit_session (snd_committed (cx_sender cx')) =
               with_imu_encoding_state (commit_session c) (next_imu_encoding_state p)
           \<and> unat (snd_input_reports_accepted (cx_sender cx')) =
               min (unat (snd_input_reports_accepted (cx_sender cx)) + 1) (2 ^ 64 - 1)
           \<and> snd_replies_accepted (cx_sender cx') = snd_replies_accepted (cx_sender cx)
           \<and> cx_input cx' = cx_input cx \<and> context_ok (Some sid) cx')"
proof -
  define c where "c = snd_committed (cx_sender cx)"
  define p where "p = prepare_input_report (env_floats E) (env_model E) state (commit_next_timer c)
      (commit_session c) now"
  define bytes where "bytes = report_bytes (prepared_report p)"
  obtain t r where send: "t_send_interrupt (env_transport E) bytes (cx_transport cx) = (t, r)"
    by fastforce
  have ok: "context_ok (Some sid) (fst (send_input E state now cx))"
    using assms by simp
  have "\<exists>tl. bytes = 0x30 # tl"
    unfolding bytes_def p_def by (rule exI, rule input_report_first)
  then obtain tl where bytes: "bytes = 0x30 # tl" by blast
  have timer: "report_next_timer (prepared_report p) = commit_next_timer c + 1"
    by (simp add: p_def input_report_next_timer)
  have run: "send_input E state now cx = send_candidate E bytes
      \<lparr>commit_next_timer = commit_next_timer c + 1,
       commit_session = with_imu_encoding_state (commit_session c) (next_imu_encoding_state p)\<rparr> cx"
    by (simp add: send_input_def Let_def c_def[symmetric] p_def[symmetric] bytes_def[symmetric] timer)
  show ?thesis
    using ok unfolding Let_def c_def[symmetric] p_def[symmetric] bytes_def[symmetric] send run
    unfolding send_candidate_cases[OF send]
    by (cases r) (simp_all add: count_accepted_def bytes unat_saturating_add_u64)
qed

definition sample_floats :: f64_ops where
  "sample_floats = \<lparr>f_add = (\<lambda>a b. a), f_sub = (\<lambda>a b. a), f_mul = (\<lambda>a b. a), f_div = (\<lambda>a b. a),
     f_sqrt = id, f_sin = id, f_cos = id, f_abs = id, f_to_radians = id, f_sum = (\<lambda>xs. 0),
     f_eq = (=), f_less = (\<lambda>a b. False), f_of_int = of_int, f_to_i64 = id\<rparr>"

definition sample_env :: "scripted_port env" where
  "sample_env = \<lparr>env_floats = sample_floats, env_model = Pro,
     env_protocol = switch_hid_protocol_new Pro None [0, 27, 220, 249, 159, 125],
     env_transport = scripted_transport\<rparr>"

definition sample_context :: "scripted_port runtime_context" where
  "sample_context = \<lparr>cx_input = input_neutral, cx_observed = observed_default,
     cx_sender = report_sender_new,
     cx_status = status_begin_session 1 Lc_Connecting input_neutral status_configured,
     cx_transport = scripted_start, cx_outputs = []\<rparr>"

lemma sample_context_ok: "context_ok (Some 1) sample_context"
proof -
  have "report_mode protocol_session_default = None"
    by (simp add: report_mode_def protocol_session_default_def)
  moreover have "log_ok (status_begin_session 1 Lc_Connecting input_neutral status_configured)"
    by simp
  ultimately show ?thesis
    by (simp add: context_ok_parts sample_context_def report_sender_new_def sender_commit_default_def
        Let_def del: log_ok_methods)
      (simp add: status_begin_session_def status_configured_def)
qed

theorem send_input_is_a_transaction_witness:
  "context_ok (Some 1) sample_context
   \<and> commit_next_timer (snd_committed (cx_sender (fst (send_input sample_env input_neutral 0 sample_context)))) = 1"
proof -
  have accept: "\<exists>t. t_send_interrupt (env_transport sample_env) bytes (cx_transport sample_context) = (t, Inr ())"
    for bytes
    by (simp add: sample_env_def scripted_transport_def scripted_send_def sample_context_def scripted_start_def)
  have timer: "commit_next_timer (snd_committed (cx_sender sample_context)) = 0"
    by (simp add: sample_context_def report_sender_new_def sender_commit_default_def)
  show ?thesis
    using send_input_is_a_transaction[OF sample_context_ok, of sample_env input_neutral 0]
      accept[of "report_bytes (prepared_report (prepare_input_report (env_floats sample_env)
        (env_model sample_env) input_neutral (commit_next_timer (snd_committed (cx_sender sample_context)))
        (sender_session (cx_sender sample_context)) 0))"] timer sample_context_ok
    by (auto simp: Let_def split: prod.splits)
qed

section \<open>Output handling\<close>

text \<open>What \<open>handle_output\<close> keeps: the input state and the projection's lifecycle part.\<close>

definition output_frame :: "'t runtime_context \<Rightarrow> 't runtime_context \<Rightarrow> bool" where
  "output_frame cx cx' \<longleftrightarrow> cx_input cx' = cx_input cx \<and> status_frame (cx_status cx) (cx_status cx')"

lemma output_frame_refl [simp]: "output_frame cx cx"
  by (simp add: output_frame_def)

lemma sent_frame_output_frame: "sent_frame cx cx' \<Longrightarrow> output_frame cx cx'"
  by (simp add: sent_frame_def output_frame_def)

lemma output_frame_trans: "output_frame a b \<Longrightarrow> output_frame b c \<Longrightarrow> output_frame a c"
  by (auto simp: output_frame_def intro: status_frame_trans)

text \<open>The context in which the reply to \<open>q\<close> is prepared: the report observed and recorded.\<close>

definition observed_request ::
  "hid_channel \<Rightarrow> u8 \<Rightarrow> raw_rumble \<Rightarrow> subcommand_request \<Rightarrow> 't runtime_context \<Rightarrow> 't runtime_context" where
  "observed_request channel p r q cx =
     cx\<lparr>cx_outputs := cx_outputs cx @ [\<lparr>oo_channel = channel, oo_report_id = 0x01, oo_packet_id = p, oo_rumble = r\<rparr>],
        cx_observed := snd (observe (request_id q) (cx_observed cx)),
        cx_status := record_subcommand (request_id q) (cx_status cx)\<rparr>"

lemma observed_request_fields [simp]:
  "cx_input (observed_request channel p r q cx) = cx_input cx"
  "cx_sender (observed_request channel p r q cx) = cx_sender cx"
  "cx_transport (observed_request channel p r q cx) = cx_transport cx"
  "cx_observed (observed_request channel p r q cx) = snd (observe (request_id q) (cx_observed cx))"
  by (simp_all add: observed_request_def)

lemma handle_output_eq:
  "handle_output E channel raw cx =
     (case parse_output_report raw of
        Inl e \<Rightarrow> (cx, Inl (OutputProtocol e))
      | Inr (RumbleReport p r) \<Rightarrow>
          (cx\<lparr>cx_outputs := cx_outputs cx @ [\<lparr>oo_channel = channel, oo_report_id = 0x10, oo_packet_id = p, oo_rumble = r\<rparr>]\<rparr>,
           Inr RumbleOnly)
      | Inr (SubcommandReport p r q) \<Rightarrow>
          let cx' = observed_request channel p r q cx in
          case prepare_reply E (cx_sender cx) q (cx_input cx) of
            Inl e \<Rightarrow> (cx', Inl (OutputProtocol e))
          | Inr prepared \<Rightarrow>
              (case send_reply E prepared cx' of
                 (cx', Inl e) \<Rightarrow> (cx', Inl (OutputTransport e))
               | (cx', Inr accepted) \<Rightarrow> (cx', Inr (ReplyAccepted accepted))))"
  by (simp add: handle_output_def observed_request_def output_report_consts Let_def
      split: sum.splits output_report.splits)

lemma observed_request_ok [simp]:
  "context_ok sid cx \<Longrightarrow> context_ok sid (observed_request channel p r q cx)"
  by (simp add: context_ok_parts observed_request_def) (simp add: record_subcommand_def)

lemma observed_request_frame [simp]: "output_frame cx (observed_request channel p r q cx)"
  by (simp add: output_frame_def observed_request_def)

lemma fst_handle_output:
  "fst (handle_output E channel raw cx) =
     (case parse_output_report raw of
        Inl e \<Rightarrow> cx
      | Inr (RumbleReport p r) \<Rightarrow>
          cx\<lparr>cx_outputs := cx_outputs cx @ [\<lparr>oo_channel = channel, oo_report_id = 0x10, oo_packet_id = p, oo_rumble = r\<rparr>]\<rparr>
      | Inr (SubcommandReport p r q) \<Rightarrow>
          (case prepare_reply E (cx_sender cx) q (cx_input cx) of
             Inl e \<Rightarrow> observed_request channel p r q cx
           | Inr prepared \<Rightarrow> fst (send_reply E prepared (observed_request channel p r q cx))))"
  by (auto simp: handle_output_eq Let_def split: sum.splits output_report.splits prod.splits)

lemma snd_handle_output:
  "snd (handle_output E channel raw cx) =
     (case parse_output_report raw of
        Inl e \<Rightarrow> Inl (OutputProtocol e)
      | Inr (RumbleReport p r) \<Rightarrow> Inr RumbleOnly
      | Inr (SubcommandReport p r q) \<Rightarrow>
          (case prepare_reply E (cx_sender cx) q (cx_input cx) of
             Inl e \<Rightarrow> Inl (OutputProtocol e)
           | Inr prepared \<Rightarrow> map_ok ReplyAccepted (map_err OutputTransport
               (snd (send_reply E prepared (observed_request channel p r q cx))))))"
  by (auto simp: handle_output_eq Let_def split: sum.splits output_report.splits prod.splits)

lemma handle_output_ok [simp]:
  "context_ok (Some s) cx \<Longrightarrow> context_ok (Some s) (fst (handle_output E channel raw cx))"
  by (simp add: fst_handle_output split: sum.splits output_report.splits)

lemma observed_send_frame: "output_frame cx (fst (send_reply E prepared (observed_request channel p r q cx)))"
  by (rule output_frame_trans[OF observed_request_frame sent_frame_output_frame[OF send_reply_frame]])

lemma handle_output_frame: "output_frame cx (fst (handle_output E channel raw cx))"
  using observed_send_frame[of cx E]
  by (simp add: fst_handle_output split: sum.splits output_report.splits) (simp add: output_frame_def)

lemma send_candidate_input_irrelevant:
  "snd (send_candidate E bytes candidate (cx\<lparr>cx_input := s\<rparr>)) = snd (send_candidate E bytes candidate cx)
   \<and> cx_transport (fst (send_candidate E bytes candidate (cx\<lparr>cx_input := s\<rparr>))) =
       cx_transport (fst (send_candidate E bytes candidate cx))
   \<and> cx_sender (fst (send_candidate E bytes candidate (cx\<lparr>cx_input := s\<rparr>))) =
       cx_sender (fst (send_candidate E bytes candidate cx))"
  by (cases "t_send_interrupt (env_transport E) bytes (cx_transport cx)")
    (simp add: send_candidate_cases split: sum.splits)

text \<open>
  C11: no input leaks before the protocol is ready.  Until then the handling of any output report (the
  bytes offered to the transport, its answer, the sender's commit) does not depend on the committed
  input state: replies are prepared from the neutral state.
\<close>

theorem replies_hide_input_until_ready:
  assumes "\<not> protocol_ready (sender_session (cx_sender cx))"
  shows "snd (handle_output E channel raw (cx\<lparr>cx_input := s\<rparr>)) = snd (handle_output E channel raw cx)
    \<and> cx_transport (fst (handle_output E channel raw (cx\<lparr>cx_input := s\<rparr>))) =
        cx_transport (fst (handle_output E channel raw cx))
    \<and> cx_sender (fst (handle_output E channel raw (cx\<lparr>cx_input := s\<rparr>))) =
        cx_sender (fst (handle_output E channel raw cx))"
proof -
  have reply: "prepare_reply E (cx_sender cx) q current = prepare_reply E (cx_sender cx) q input_neutral"
    for q current
    using assms by (simp add: prepare_reply_def)
  have moved: "observed_request channel p r q (cx\<lparr>cx_input := s\<rparr>) = (observed_request channel p r q cx)\<lparr>cx_input := s\<rparr>"
    for p r q
    by (simp add: observed_request_def)
  have send: "snd (send_reply E prepared (cx'\<lparr>cx_input := s\<rparr>)) = snd (send_reply E prepared cx')
      \<and> cx_transport (fst (send_reply E prepared (cx'\<lparr>cx_input := s\<rparr>))) = cx_transport (fst (send_reply E prepared cx'))
      \<and> cx_sender (fst (send_reply E prepared (cx'\<lparr>cx_input := s\<rparr>))) = cx_sender (fst (send_reply E prepared cx'))"
    for prepared and cx' :: "'a runtime_context"
    using send_candidate_input_irrelevant[of E "action_bytes prepared"] by (simp add: send_reply_def)
  show ?thesis
    unfolding fst_handle_output snd_handle_output
    by (simp add: reply[where current = s] reply[where current = "cx_input cx"] moved send
        split: sum.splits output_report.splits)
qed

theorem replies_hide_input_until_ready_witness:
  "\<not> protocol_ready (sender_session (cx_sender sample_context))
   \<and> snd (handle_output sample_env Interrupt ([1, 0] @ replicate 8 0 @ [8])
        (sample_context\<lparr>cx_input := with_buttons input_neutral [Btn_A]\<rparr>)) =
      snd (handle_output sample_env Interrupt ([1, 0] @ replicate 8 0 @ [8]) sample_context)"
proof -
  have "\<not> protocol_ready (sender_session (cx_sender sample_context))"
    by (simp add: sample_context_def report_sender_new_def sender_commit_default_def)
  then show ?thesis
    using replies_hide_input_until_ready[of sample_context sample_env Interrupt "[1, 0] @ replicate 8 0 @ [8]"
        "with_buttons input_neutral [Btn_A]"] by blast
qed

end
