(* ===== verification/Sessions.thy ===== *)
theory Sessions
  imports Sender
begin

text \<open>
  \<open>src/runtime/session.rs\<close>: connection sessions and the tagging of transport events with the session
  in which they were received.  A \<open>ConnectionSessionId\<close> is a non-zero \<open>u64\<close>.
\<close>

type_synonym session_id = u64

record session_event =
  se_session_id :: session_id
  se_event :: transport_event

record connection_sessions =
  last_issued :: u64
  current_session :: "session_id option"

definition sessions_new :: connection_sessions where
  "sessions_new = \<lparr>last_issued = 0, current_session = None\<rparr>"

definition prepare_next :: "connection_sessions \<Rightarrow> session_id" where
  "prepare_next s = (let next = last_issued s + 1 in if next = 0 then 1 else next)"

definition sessions_commit ::
  "session_id \<Rightarrow> connection_sessions \<Rightarrow> 't runtime_context \<Rightarrow> connection_sessions \<times> 't runtime_context" where
  "sessions_commit next s cx =
     (let cx = sender_reset_for_new_session cx;
          cx = cx\<lparr>cx_observed := observed_reset (cx_observed cx)\<rparr>;
          cx = input_reset_to_neutral cx
      in (s\<lparr>last_issued := next, current_session := Some next\<rparr>, cx))"

definition begin_direct ::
  "connection_sessions \<Rightarrow> 't runtime_context \<Rightarrow> connection_sessions \<times> 't runtime_context \<times> session_id" where
  "begin_direct s cx =
     (let next = prepare_next s; (s, cx) = sessions_commit next s cx in (s, cx, next))"

definition end_current :: "session_id \<Rightarrow> connection_sessions \<Rightarrow> bool \<times> connection_sessions" where
  "end_current sid s =
     (if current_session s \<noteq> Some sid then (False, s) else (True, s\<lparr>current_session := None\<rparr>))"

definition tag_current :: "connection_sessions \<Rightarrow> transport_event \<Rightarrow> session_event option" where
  "tag_current s event = map_option (\<lambda>sid. \<lparr>se_session_id = sid, se_event = event\<rparr>) (current_session s)"

definition take_current :: "connection_sessions \<Rightarrow> session_event \<Rightarrow> transport_event option" where
  "take_current s event = (if Some (se_session_id event) = current_session s then Some (se_event event) else None)"

text \<open>\<open>if let Some(id) = sessions.current() { sessions.end_current(id) }\<close>, as the worker ends a session.\<close>

definition end_any_session :: "connection_sessions \<Rightarrow> connection_sessions" where
  "end_any_session s = (case current_session s of None \<Rightarrow> s | Some sid \<Rightarrow> snd (end_current sid s))"

lemma end_any_session_fields [simp]:
  "current_session (end_any_session s) = None"
  "last_issued (end_any_session s) = last_issued s"
  by (auto simp: end_any_session_def end_current_def split: option.splits)

lemma sessions_commit_fields [simp]:
  "fst (sessions_commit next s cx) = s\<lparr>last_issued := next, current_session := Some next\<rparr>"
  "cx_input (snd (sessions_commit next s cx)) = input_neutral"
  "cx_observed (snd (sessions_commit next s cx)) = observed_default"
  "snd_committed (cx_sender (snd (sessions_commit next s cx))) = sender_commit_default"
  "cx_transport (snd (sessions_commit next s cx)) = cx_transport cx"
  "status_frame (cx_status cx) (cx_status (snd (sessions_commit next s cx)))"
  by (simp_all add: sessions_commit_def Let_def sender_reset_for_new_session_def input_reset_eq
      observed_reset_def input_commit_def status_frame_def set_snapshot_def publish_sender_def
      set_sender_state_def split: option.splits)

lemma prepare_next_nonzero [simp]: "prepare_next s \<noteq> 0"
  by (simp add: prepare_next_def Let_def)

lemma prepare_next_differs: "prepare_next s \<noteq> last_issued s"
proof -
  have "(1 :: u64) \<noteq> 0" by simp
  moreover have "w + 1 \<noteq> w" for w :: u64
    by simp
  moreover have "last_issued s + 1 = 0 \<Longrightarrow> last_issued s \<noteq> 1"
    by auto
  ultimately show ?thesis
    by (auto simp: prepare_next_def Let_def)
qed

section \<open>The sequence of identifiers\<close>

text \<open>The sessions after \<open>k\<close> more connections, leaving the runtime state aside.\<close>

definition issue :: "connection_sessions \<Rightarrow> connection_sessions" where
  "issue s = s\<lparr>last_issued := prepare_next s, current_session := Some (prepare_next s)\<rparr>"

lemma begin_direct_issue: "fst (begin_direct s cx) = issue s"
  by (simp add: begin_direct_def issue_def Let_def case_prod_beta)

lemma unat_prepare_next: "unat (prepare_next s) = Suc (unat (last_issued s) mod (2 ^ 64 - 1))"
proof (cases "last_issued s + 1 = 0")
  case True
  then have "last_issued s = - 1"
    by (simp add: eq_neg_iff_add_eq_0)
  then have "unat (last_issued s) = 2 ^ 64 - 1"
    by (simp add: unsigned_minus_1_eq_mask mask_eq_exp_minus_1)
  with True show ?thesis
    by (simp add: prepare_next_def Let_def)
next
  case False
  then have "unat (last_issued s + 1) = Suc (unat (last_issued s))"
    by (metis Suc_eq_plus1 unatSuc add.commute)
  moreover have "unat (last_issued s + 1) < 2 ^ LENGTH(64)"
    by (rule unsigned_less)
  ultimately have "unat (last_issued s) < 2 ^ 64 - 1"
    by simp
  with False \<open>unat (last_issued s + 1) = Suc (unat (last_issued s))\<close> show ?thesis
    by (simp add: prepare_next_def Let_def)
qed

lemma unat_issue_iterate:
  "unat (last_issued ((issue ^^ Suc k) s)) = Suc ((unat (last_issued s) + k) mod (2 ^ 64 - 1))"
proof (induction k)
  case 0
  then show ?case by (simp add: issue_def unat_prepare_next)
next
  case (Suc k)
  have "unat (last_issued ((issue ^^ Suc (Suc k)) s)) =
      Suc (unat (last_issued ((issue ^^ Suc k) s)) mod (2 ^ 64 - 1))"
    by (simp add: issue_def unat_prepare_next)
  also have "\<dots> = Suc (Suc ((unat (last_issued s) + k) mod (2 ^ 64 - 1)) mod (2 ^ 64 - 1))"
    by (simp only: Suc)
  also have "\<dots> = Suc ((unat (last_issued s) + Suc k) mod (2 ^ 64 - 1))"
    by (simp only: mod_Suc_eq add_Suc_right)
  finally show ?case .
qed

lemma current_issue: "current_session ((issue ^^ Suc k) s) = Some (last_issued ((issue ^^ Suc k) s))"
  by (simp add: issue_def)

lemma issue_distinct:
  assumes "0 < j" "j < 2 ^ 64 - 1"
  shows "last_issued ((issue ^^ j) (issue s)) \<noteq> last_issued (issue s)"
proof -
  define n where "n = unat (last_issued s)"
  have "n mod (2 ^ 64 - 1) \<noteq> (n + j) mod (2 ^ 64 - 1)"
  proof
    assume "n mod (2 ^ 64 - 1) = (n + j) mod (2 ^ 64 - 1)"
    then have "(2 ^ 64 - 1) dvd (n + j) - n"
      by (metis le_add1 mod_eq_dvd_iff_nat)
    then show False
      using assms by (auto dest: dvd_imp_le)
  qed
  moreover have "unat (last_issued (issue s)) = Suc (n mod (2 ^ 64 - 1))"
    using unat_issue_iterate[of 0 s] by (simp add: n_def)
  moreover have "unat (last_issued ((issue ^^ j) (issue s))) = Suc ((n + j) mod (2 ^ 64 - 1))"
    using unat_issue_iterate[of j s] by (simp add: n_def funpow_swap1)
  ultimately show ?thesis by (metis Suc_inject)
qed



section \<open>Beginning a session\<close>

lemma sessions_commit_ok [simp]:
  assumes "context_ok sid cx"
  shows "context_ok sid (snd (sessions_commit next s cx))"
proof -
  have "context_ok sid (sender_reset_for_new_session cx)"
    using assms
    by (auto simp: context_ok_parts sender_reset_for_new_session_def publish_sender_def
        set_sender_state_panicked)
  then have "context_ok sid ((sender_reset_for_new_session cx)\<lparr>cx_observed := observed_default\<rparr>)"
    by (simp add: context_ok_parts)
  then show ?thesis
    by (simp add: sessions_commit_def Let_def observed_reset_def input_reset_eq)
qed

text \<open>From then on the projection shows the counters of this sender.\<close>

lemma counters_shown_input_commit [simp]: "counters_shown (input_commit s cx) = counters_shown cx"
  by (simp add: counters_shown_def input_commit_def set_snapshot_def)

lemma sessions_commit_counters [simp]: "counters_shown (snd (sessions_commit next s cx))"
  by (simp add: sessions_commit_def input_reset_eq Let_def)
    (simp add: counters_shown_def sender_reset_for_new_session_def publish_sender_def Let_def)

end
