(* ===== verification/Scheduler.thy ===== *)
theory Scheduler
  imports Clock
begin

text \<open>
  \<open>src/runtime/scheduler.rs\<close>: the fixed-phase deadline scheduler of the periodic reports and of the
  handshake's retries.  Intermediate values are \<open>u128\<close> nanoseconds, which never overflow; the
  conversions back to \<open>u64\<close> and to a \<open>Duration\<close> are checked.
\<close>

datatype tick_decision = NotDue | Due nat

datatype scheduler_error = ZeroPeriod | DeadlineOverflow

record report_scheduler =
  sched_period :: duration
  sched_next_deadline :: duration

definition scheduler_start :: "duration \<Rightarrow> duration \<Rightarrow> (report_scheduler, scheduler_error) result" where
  "scheduler_start started_at period =
     (if period = 0 then Inl ZeroPeriod
      else case duration_checked_add started_at period of
        None \<Rightarrow> Inl DeadlineOverflow
      | Some next_deadline \<Rightarrow> Inr \<lparr>sched_period = period, sched_next_deadline = next_deadline\<rparr>)"

definition duration_from_total_nanos :: "nat \<Rightarrow> (duration, scheduler_error) result" where
  "duration_from_total_nanos nanos =
     (if nanos div nanos_per_second > 2 ^ 64 - 1 then Inl DeadlineOverflow
      else if nanos mod nanos_per_second > 2 ^ 32 - 1 then Inl DeadlineOverflow
      else Inr (from_secs (nanos div nanos_per_second) + nanos mod nanos_per_second))"

text \<open>The step returns the decision and the scheduler, unchanged unless a deadline was due.\<close>

definition scheduler_step ::
  "report_scheduler \<Rightarrow> duration \<Rightarrow> report_scheduler \<times> (tick_decision, scheduler_error) result" where
  "scheduler_step s now =
     (if now < sched_next_deadline s then (s, Inr NotDue)
      else let elapsed = now - sched_next_deadline s;
               period_ns = sched_period s;
               skipped = elapsed div period_ns
           in if skipped > 2 ^ 64 - 1 then (s, Inl DeadlineOverflow)
              else let remainder_ns = elapsed mod period_ns;
                       until_next_ns = period_ns - remainder_ns
                   in case duration_from_total_nanos until_next_ns of
                        Inl e \<Rightarrow> (s, Inl e)
                      | Inr until_next \<Rightarrow>
                          (case duration_checked_add now until_next of
                             None \<Rightarrow> (s, Inl DeadlineOverflow)
                           | Some next_deadline \<Rightarrow>
                               (s\<lparr>sched_next_deadline := next_deadline\<rparr>, Inr (Due skipped))))"

definition scheduler_ok :: "report_scheduler \<Rightarrow> bool" where
  "scheduler_ok s = (0 < sched_period s \<and> sched_period s \<le> duration_max
     \<and> sched_next_deadline s \<le> duration_max)"

lemma duration_from_total_nanos_Inr: "nanos \<le> duration_max \<Longrightarrow> duration_from_total_nanos nanos = Inr nanos"
proof -
  assume "nanos \<le> duration_max"
  then have "nanos div nanos_per_second \<le> duration_max div nanos_per_second"
    by (rule div_le_mono)
  then have "\<not> nanos div nanos_per_second > 2 ^ 64 - 1"
    by (simp add: duration_max_def nanos_per_second_def)
  moreover have "nanos mod nanos_per_second < nanos_per_second"
    by (simp add: nanos_per_second_def)
  then have "\<not> nanos mod nanos_per_second > 2 ^ 32 - 1"
    by (simp add: nanos_per_second_def)
  ultimately show ?thesis
    by (simp add: duration_from_total_nanos_def from_secs_def)
qed

lemma scheduler_start_ok:
  "scheduler_start started_at period = Inr s \<Longrightarrow>
   scheduler_ok s \<and> sched_period s = period \<and> sched_next_deadline s = started_at + period"
  by (auto simp: scheduler_start_def scheduler_ok_def duration_checked_add_def split: if_splits)

text \<open>The deadline after a due one: whole periods later, the first one after now.\<close>

lemma next_deadline_arith:
  assumes "d \<le> now" "0 < (p :: nat)"
  shows "now + (p - (now - d) mod p) = d + Suc ((now - d) div p) * p"
proof -
  define q r where "q = (now - d) div p" and "r = (now - d) mod p"
  have "now - d = q * p + r" "r < p"
    using assms by (simp_all add: q_def r_def)
  then have "now + (p - r) = d + Suc q * p"
    using assms by simp
  then show ?thesis
    by (simp add: q_def r_def)
qed

lemma scheduler_step_due:
  assumes ok: "scheduler_ok s" and due: "sched_next_deadline s \<le> now" and now: "now \<le> duration_max"
  shows "scheduler_step s now =
    (let k = (now - sched_next_deadline s) div sched_period s;
         next = sched_next_deadline s + Suc k * sched_period s
     in if k > 2 ^ 64 - 1 \<or> next > duration_max then (s, Inl DeadlineOverflow)
        else (s\<lparr>sched_next_deadline := next\<rparr>, Inr (Due k)))"
proof -
  have p: "0 < sched_period s" "sched_period s \<le> duration_max"
    using ok by (simp_all add: scheduler_ok_def)
  have "duration_from_total_nanos (sched_period s - (now - sched_next_deadline s) mod sched_period s)
      = Inr (sched_period s - (now - sched_next_deadline s) mod sched_period s)"
    using p by (intro duration_from_total_nanos_Inr) simp
  then show ?thesis
    using due next_deadline_arith[OF due p(1)]
    by (simp add: scheduler_step_def Let_def duration_checked_add_def not_less)
qed

text \<open>With room for one more period and a representable count, a due step succeeds.\<close>

lemma scheduler_step_fits:
  assumes ok: "scheduler_ok s" and due: "sched_next_deadline s \<le> now"
    and room: "now + sched_period s \<le> duration_max"
    and few: "(now - sched_next_deadline s) div sched_period s \<le> 2 ^ 64 - 1"
  shows "\<exists>s' k. scheduler_step s now = (s', Inr (Due k)) \<and> now < sched_next_deadline s'
    \<and> sched_next_deadline s' \<le> now + sched_period s \<and> sched_period s' = sched_period s \<and> scheduler_ok s'"
proof -
  have p: "0 < sched_period s"
    using ok by (simp add: scheduler_ok_def)
  define k where "k = (now - sched_next_deadline s) div sched_period s"
  define m where "m = (now - sched_next_deadline s) mod sched_period s"
  have nxt: "sched_next_deadline s + Suc k * sched_period s = now + (sched_period s - m)"
    using next_deadline_arith[OF due p] by (simp add: k_def m_def)
  have m: "m < sched_period s"
    using p by (simp add: m_def)
  have max: "now \<le> duration_max"
    using room by simp
  have "\<not> (k > 2 ^ 64 - 1 \<or> now + (sched_period s - m) > duration_max)"
    using few room by (simp add: k_def)
  then have "scheduler_step s now =
      (s\<lparr>sched_next_deadline := now + (sched_period s - m)\<rparr>, Inr (Due k))"
    using scheduler_step_due[OF ok due max, folded k_def, unfolded Let_def nxt] by simp
  then show ?thesis
    using m ok room by (auto simp: scheduler_ok_def)
qed



end
