(* ===== verification/Periodic.thy ===== *)
theory Periodic
  imports Sessions Scheduler
begin

text \<open>
  \<open>src/runtime/periodic.rs\<close>: fixed-rate reporting, held off for 300 ms after every accepted reply, and
  the periodic tap.  A periodic input command commits first and reports what is committed.
\<close>

definition reply_holdoff :: duration where
  "reply_holdoff = from_millis 300"

datatype periodic_error =
    PeriodicNotReady
  | PeriodicScheduler scheduler_error
  | PeriodicTransport transport_error "transport_error option"   \<comment> \<open>error, later terminal\<close>

definition commit_and_send_candidate ::
  "'t env \<Rightarrow> input_state \<Rightarrow> u64 \<Rightarrow> 't runtime_context
   \<Rightarrow> 't runtime_context \<times> (send_acceptance, transport_error) result" where
  "commit_and_send_candidate E candidate now_ns cx =
     (let cx = input_commit candidate cx in send_input E (cx_input cx) now_ns cx)"

record pending_periodic_tap =
  ppt_released :: input_state
  ppt_first_error :: "transport_error option"

definition periodic_tap_finish ::
  "'t env \<Rightarrow> pending_periodic_tap \<Rightarrow> u64 \<Rightarrow> 't runtime_context
   \<Rightarrow> 't runtime_context \<times> (unit, periodic_error) result" where
  "periodic_tap_finish E tap now_ns cx =
     (case commit_and_send_candidate E (ppt_released tap) now_ns cx of
        (cx, released) \<Rightarrow>
          (cx, case (ppt_first_error tap, err_of released) of
                 (None, None) \<Rightarrow> Inr ()
               | (Some e, None) \<Rightarrow> Inl (PeriodicTransport e None)
               | (None, Some e) \<Rightarrow> Inl (PeriodicTransport e None)
               | (Some e, Some release_error) \<Rightarrow>
                   Inl (PeriodicTransport e
                     (if release_error \<noteq> Te_SendRejected then Some release_error else None))))"

definition periodic_begin_tap ::
  "'t env \<Rightarrow> bool \<Rightarrow> input_state \<times> input_state \<times> duration \<Rightarrow> u64 \<Rightarrow> 't runtime_context
   \<Rightarrow> 't runtime_context \<times> (pending_periodic_tap, periodic_error) result" where
  "periodic_begin_tap E ready plan now_ns cx =
     (if \<not> ready then (cx, Inl PeriodicNotReady)
      else case plan of (pressed, released, _) \<Rightarrow>
        (case commit_and_send_candidate E pressed now_ns cx of
           (cx, sent) \<Rightarrow>
             (case err_of sent of
                Some e \<Rightarrow>
                  if e \<noteq> Te_SendRejected then (cx, Inl (PeriodicTransport e None))
                  else (cx, Inr \<lparr>ppt_released = released, ppt_first_error = Some e\<rparr>)
              | None \<Rightarrow> (cx, Inr \<lparr>ppt_released = released, ppt_first_error = None\<rparr>))))"

datatype automatic_input =
    AutoNotDue
  | AutoHeldOff duration
  | AutoBackpressured nat
  | AutoSent send_acceptance nat

datatype periodic_start = StartHeldOff duration | StartStarted duration

record periodic_policy =
  pol_period :: duration
  pol_scheduler :: "report_scheduler option"
  pol_reply_holdoff_until :: "duration option"

definition periodic_policy_new :: "duration \<Rightarrow> (periodic_policy, scheduler_error) result" where
  "periodic_policy_new period =
     (if period = 0 then Inl ZeroPeriod
      else Inr \<lparr>pol_period = period, pol_scheduler = None, pol_reply_holdoff_until = None\<rparr>)"

definition held_off :: "periodic_policy \<Rightarrow> duration \<Rightarrow> duration option" where
  "held_off p now =
     (case pol_reply_holdoff_until p of
        None \<Rightarrow> None
      | Some until \<Rightarrow> if now < until then Some until else None)"

definition start_when_unheld ::
  "periodic_policy \<Rightarrow> duration \<Rightarrow> periodic_policy \<times> (periodic_start, scheduler_error) result" where
  "start_when_unheld p now =
     (case held_off p now of
        Some until \<Rightarrow> (p, Inr (StartHeldOff until))
      | None \<Rightarrow>
          (case pol_scheduler p of
             Some s \<Rightarrow> (p, Inr (StartStarted (sched_next_deadline s)))
           | None \<Rightarrow>
               (case scheduler_start now (pol_period p) of
                  Inl e \<Rightarrow> (p, Inl e)
                | Inr s \<Rightarrow> (p\<lparr>pol_scheduler := Some s\<rparr>, Inr (StartStarted (sched_next_deadline s))))))"

definition record_output_completion ::
  "periodic_policy \<Rightarrow> duration \<Rightarrow> output_completion \<Rightarrow> periodic_policy \<times> (unit, periodic_error) result" where
  "record_output_completion p completed_at completion =
     (case completion of
        Inr (ReplyAccepted _) \<Rightarrow>
          (case duration_checked_add completed_at reply_holdoff of
             None \<Rightarrow> (p, Inl (PeriodicScheduler DeadlineOverflow))
           | Some candidate \<Rightarrow>
               (p\<lparr>pol_reply_holdoff_until := Some
                   (case pol_reply_holdoff_until p of None \<Rightarrow> candidate | Some current \<Rightarrow> max current candidate)\<rparr>,
                Inr ()))
      | _ \<Rightarrow> (p, Inr ()))"

definition policy_stop_session :: "periodic_policy \<Rightarrow> periodic_policy" where
  "policy_stop_session p = p\<lparr>pol_scheduler := None, pol_reply_holdoff_until := None\<rparr>"

definition policy_reset_for_new_session :: "periodic_policy \<Rightarrow> periodic_policy" where
  "policy_reset_for_new_session p = policy_stop_session p"

definition policy_next_deadline :: "periodic_policy \<Rightarrow> duration option" where
  "policy_next_deadline p =
     map_option (\<lambda>s. case pol_reply_holdoff_until p of
          None \<Rightarrow> sched_next_deadline s
        | Some holdoff \<Rightarrow> max holdoff (sched_next_deadline s)) (pol_scheduler p)"

definition send_due ::
  "'t env \<Rightarrow> periodic_policy \<Rightarrow> duration \<Rightarrow> 't runtime_context
   \<Rightarrow> periodic_policy \<times> 't runtime_context \<times> (automatic_input, periodic_error) result" where
  "send_due E p now cx =
     (case pol_scheduler p of
        None \<Rightarrow> (p, cx, Inl PeriodicNotReady)
      | Some scheduler \<Rightarrow>
          (case held_off p now of
             Some until \<Rightarrow> (p, cx, Inr (AutoHeldOff until))
           | None \<Rightarrow>
               (case scheduler_step scheduler now of
                  (s, Inl e) \<Rightarrow> (p\<lparr>pol_scheduler := Some s\<rparr>, cx, Inl (PeriodicScheduler e))
                | (s, Inr NotDue) \<Rightarrow> (p\<lparr>pol_scheduler := Some s\<rparr>, cx, Inr AutoNotDue)
                | (s, Inr (Due skipped)) \<Rightarrow>
                    let p = p\<lparr>pol_scheduler := Some s\<rparr> in
                    if \<not> t_capacity_available (env_transport E) (cx_transport cx)
                    then (p, cx, Inr (AutoBackpressured skipped))
                    else case send_input E (cx_input cx) (protocol_timestamp now) cx of
                           (cx, Inl e) \<Rightarrow> (p, cx, Inl (PeriodicTransport e None))
                         | (cx, Inr acceptance) \<Rightarrow> (p, cx, Inr (AutoSent acceptance skipped)))))"

text \<open>\<open>ConnectionSessions::begin_periodic\<close> resets the policy between choosing the id and the commit.\<close>

definition begin_periodic ::
  "connection_sessions \<Rightarrow> periodic_policy \<Rightarrow> 't runtime_context
   \<Rightarrow> connection_sessions \<times> periodic_policy \<times> 't runtime_context \<times> session_id" where
  "begin_periodic s p cx =
     (let next = prepare_next s;
          p = policy_reset_for_new_session p;
          (s, cx) = sessions_commit next s cx
      in (s, p, cx, next))"

section \<open>Properties\<close>

lemma commit_and_send_ok [simp]:
  "context_ok (Some s) cx \<Longrightarrow> context_ok (Some s) (fst (commit_and_send_candidate E c now cx))"
  by (simp add: commit_and_send_candidate_def Let_def)

lemma commit_and_send_fields:
  "cx_input (fst (commit_and_send_candidate E c now cx)) = c
   \<and> status_frame (cx_status cx) (cx_status (fst (commit_and_send_candidate E c now cx)))"
  using send_input_frame[of "input_commit c cx" E c now]
  by (auto simp: commit_and_send_candidate_def Let_def sent_frame_def intro: status_frame_trans[OF input_commit_fields(6)])

lemma fst_periodic_tap_finish:
  "fst (periodic_tap_finish E tap now cx) = fst (commit_and_send_candidate E (ppt_released tap) now cx)"
  by (simp add: periodic_tap_finish_def split: prod.splits)

lemma fst_periodic_begin_tap:
  "fst (periodic_begin_tap E ready (pressed, released, d) now cx) =
     (if ready then fst (commit_and_send_candidate E pressed now cx) else cx)"
  by (auto simp: periodic_begin_tap_def split: prod.splits option.splits)

lemma send_due_context:
  "fst (snd (send_due E p now cx)) = cx
   \<or> fst (snd (send_due E p now cx)) = fst (send_input E (cx_input cx) (protocol_timestamp now) cx)"
  by (auto simp: send_due_def Let_def split: option.splits prod.splits sum.splits tick_decision.splits)

lemma send_due_ok [simp]:
  "context_ok (Some s) cx \<Longrightarrow> context_ok (Some s) (fst (snd (send_due E p now cx)))"
  using send_due_context[of E p now cx] by (elim disjE) simp_all

lemma send_due_frame: "sent_frame cx (fst (snd (send_due E p now cx)))"
  using send_due_context[of E p now cx]
  by (elim disjE) (simp_all add: send_input_frame)

definition record_completions ::
  "(duration \<times> output_completion) list \<Rightarrow> periodic_policy \<Rightarrow> periodic_policy" where
  "record_completions cs p = fold (\<lambda>(t, c) p. fst (record_output_completion p t c)) cs p"

lemma record_output_completion_holdoff:
  "pol_reply_holdoff_until p = Some u \<Longrightarrow>
   \<exists>u'. pol_reply_holdoff_until (fst (record_output_completion p t c)) = Some u' \<and> u \<le> u'"
  by (auto simp: record_output_completion_def split: sum.splits output_handling.splits option.splits)

lemma record_output_completion_frame [simp]:
  "pol_scheduler (fst (record_output_completion p t c)) = pol_scheduler p"
  "pol_period (fst (record_output_completion p t c)) = pol_period p"
  by (auto simp: record_output_completion_def split: sum.splits output_handling.splits option.splits)

lemma record_completions_holdoff:
  "pol_reply_holdoff_until p = Some u \<Longrightarrow>
   \<exists>u'. pol_reply_holdoff_until (record_completions cs p) = Some u' \<and> u \<le> u'"
proof (induction cs arbitrary: p u)
  case (Cons c cs)
  obtain t comp where c: "c = (t, comp)" by (cases c)
  from record_output_completion_holdoff[OF Cons.prems, of t comp] Cons.IH show ?case
    by (fastforce simp: record_completions_def c intro: le_trans)
qed (simp add: record_completions_def)

text \<open>
  C12: replies silence the periodic reports.  After a reply accepted at \<open>t\<close>, whatever further replies,
  output errors and rumble reports follow, no automatic report is sent before \<open>t\<close> plus 300 ms: the
  policy answers that it is held off at least until then and the transport is not touched.
\<close>

theorem replies_hold_off_reports:
  assumes "record_output_completion p t (Inr (ReplyAccepted a)) = (p', Inr ())"
    and "now < t + 300 * 10 ^ 6"
  shows "\<exists>until. t + 300 * 10 ^ 6 \<le> until
    \<and> (pol_scheduler (record_completions cs p') \<noteq> None \<longrightarrow>
        send_due E (record_completions cs p') now cx = (record_completions cs p', cx, Inr (AutoHeldOff until)))
    \<and> start_when_unheld (record_completions cs p') now = (record_completions cs p', Inr (StartHeldOff until))"
proof -
  obtain u where u: "pol_reply_holdoff_until p' = Some u" "t + 300 * 10 ^ 6 \<le> u"
    using assms(1)
    by (auto simp: record_output_completion_def duration_checked_add_def reply_holdoff_def from_millis_def
        split: option.splits if_splits)
  from record_completions_holdoff[OF u(1), of cs] u(2) obtain u' where
    u': "pol_reply_holdoff_until (record_completions cs p') = Some u'" "t + 300 * 10 ^ 6 \<le> u'"
    using le_trans by blast
  then have "held_off (record_completions cs p') now = Some u'"
    using assms(2) by (simp add: held_off_def)
  then show ?thesis
    using u'(2) by (auto simp: send_due_def start_when_unheld_def split: option.splits)
qed

theorem replies_hold_off_reports_witness:
  "record_output_completion \<lparr>pol_period = 8000000, pol_scheduler = None, pol_reply_holdoff_until = None\<rparr> 0
      (Inr (ReplyAccepted ())) =
     (\<lparr>pol_period = 8000000, pol_scheduler = None, pol_reply_holdoff_until = Some 300000000\<rparr>, Inr ())
   \<and> (\<exists>until. 0 + 300 * 10 ^ 6 \<le> until
       \<and> start_when_unheld \<lparr>pol_period = 8000000, pol_scheduler = None, pol_reply_holdoff_until = Some 300000000\<rparr>
           299999999 = (\<lparr>pol_period = 8000000, pol_scheduler = None, pol_reply_holdoff_until = Some 300000000\<rparr>,
             Inr (StartHeldOff until)))"
proof -
  have rec: "record_output_completion \<lparr>pol_period = 8000000, pol_scheduler = None, pol_reply_holdoff_until = None\<rparr> 0
      (Inr (ReplyAccepted ())) =
     (\<lparr>pol_period = 8000000, pol_scheduler = None, pol_reply_holdoff_until = Some 300000000\<rparr>, Inr ())"
    by (simp add: record_output_completion_def duration_checked_add_def reply_holdoff_def from_millis_def
        duration_max_def)
  have less: "(299999999 :: nat) < 0 + 300 * 10 ^ 6" by simp
  show ?thesis
    using replies_hold_off_reports[OF rec less, of "[]"] rec by (auto simp: record_completions_def)
qed

end
