(* ===== verification/Direct.thy ===== *)
theory Direct
  imports Periodic
begin

text \<open>
  \<open>src/runtime/direct.rs\<close>: reports sent only on command.  A direct command sends first and commits what
  was accepted.
\<close>

definition send_direct ::
  "'t env \<Rightarrow> input_state \<Rightarrow> u64 \<Rightarrow> 't runtime_context
   \<Rightarrow> 't runtime_context \<times> (send_acceptance, transport_error) result" where
  "send_direct E candidate now_ns cx =
     (case send_input E candidate now_ns cx of
        (cx, Inl e) \<Rightarrow> (cx, Inl e)
      | (cx, Inr acceptance) \<Rightarrow> (input_commit candidate cx, Inr acceptance))"

datatype direct_tap_interruption = TapDisconnected "u8 option" | TapShutdown

datatype direct_tap_error =
    DirectNotReady
  | DirectTransport transport_error
  | DirectInterrupted direct_tap_interruption

datatype direct_tap_stimulus = StimulusTransport transport_event | StimulusShutdown

record pending_direct_tap =
  pdt_released :: input_state
  pdt_release_at :: duration

datatype direct_tap_step =
    TapPending pending_direct_tap "output_completion option"
  | TapComplete "(unit, direct_tap_error) result"

definition direct_tap_finish ::
  "'t env \<Rightarrow> pending_direct_tap \<Rightarrow> duration \<Rightarrow> 't runtime_context
   \<Rightarrow> 't runtime_context \<times> (unit, direct_tap_error) result" where
  "direct_tap_finish E tap now cx =
     (case send_direct E (pdt_released tap) (protocol_timestamp now) cx of
        (cx, r) \<Rightarrow> (cx, map_err DirectTransport (map_ok (\<lambda>_. ()) r)))"

definition direct_tap_step ::
  "'t env \<Rightarrow> pending_direct_tap \<Rightarrow> direct_tap_stimulus \<Rightarrow> 't runtime_context
   \<Rightarrow> 't runtime_context \<times> direct_tap_step" where
  "direct_tap_step E tap stimulus cx =
     (case stimulus of
        StimulusTransport (HidOutput channel payload) \<Rightarrow>
          (case handle_output E channel payload cx of
             (cx, completion) \<Rightarrow> (cx, TapPending tap (Some completion)))
      | StimulusTransport (Disconnected reason) \<Rightarrow>
          (cx, TapComplete (Inl (DirectInterrupted (TapDisconnected reason))))
      | StimulusShutdown \<Rightarrow> (cx, TapComplete (Inl (DirectInterrupted TapShutdown)))
      | StimulusTransport Connected \<Rightarrow> (cx, TapPending tap None)
      | StimulusTransport (HidChannelOpened _) \<Rightarrow> (cx, TapPending tap None))"

definition direct_begin_tap ::
  "'t env \<Rightarrow> bool \<Rightarrow> input_state \<times> input_state \<times> duration \<Rightarrow> duration \<Rightarrow> 't runtime_context
   \<Rightarrow> 't runtime_context \<times> (pending_direct_tap, direct_tap_error) result" where
  "direct_begin_tap E ready plan started_at cx =
     (if \<not> ready then (cx, Inl DirectNotReady)
      else case plan of (pressed, released, d) \<Rightarrow>
        let release_at = deadline_after started_at d;
            now_ns = protocol_timestamp started_at
        in case send_direct E pressed now_ns cx of
             (cx, Inl e) \<Rightarrow> (cx, Inl (DirectTransport e))
           | (cx, Inr _) \<Rightarrow> (cx, Inr \<lparr>pdt_released = released, pdt_release_at = release_at\<rparr>))"

lemma fst_send_direct:
  "fst (send_direct E c now cx) =
     (if is_ok (snd (send_input E c now cx)) then input_commit c (fst (send_input E c now cx))
      else fst (send_input E c now cx))"
  by (auto simp: send_direct_def split: prod.splits sum.splits)

lemma snd_send_direct: "snd (send_direct E c now cx) = snd (send_input E c now cx)"
  by (auto simp: send_direct_def split: prod.splits sum.splits)

lemma send_direct_ok [simp]:
  "context_ok (Some s) cx \<Longrightarrow> context_ok (Some s) (fst (send_direct E c now cx))"
  by (simp add: fst_send_direct)

lemma send_direct_frame:
  "status_frame (cx_status cx) (cx_status (fst (send_direct E c now cx)))
   \<and> cx_observed (fst (send_direct E c now cx)) = cx_observed cx"
  using send_input_frame[of cx E c now]
  by (auto simp: fst_send_direct sent_frame_def intro: status_frame_trans[OF _ input_commit_fields(6)])

lemma fst_direct_begin_tap:
  "fst (direct_begin_tap E ready (pressed, released, d) started_at cx) =
     (if ready then fst (send_direct E pressed (protocol_timestamp started_at) cx) else cx)"
  by (auto simp: direct_begin_tap_def Let_def split: prod.splits sum.splits)

lemma fst_direct_tap_finish:
  "fst (direct_tap_finish E tap now cx) = fst (send_direct E (pdt_released tap) (protocol_timestamp now) cx)"
  by (simp add: direct_tap_finish_def split: prod.splits)

lemma snd_direct_tap_finish:
  "snd (direct_tap_finish E tap now cx) =
     map_err DirectTransport (map_ok (\<lambda>_. ()) (snd (send_direct E (pdt_released tap) (protocol_timestamp now) cx)))"
  by (simp add: direct_tap_finish_def split: prod.splits)

text \<open>
  The two reporting modes commit at opposite ends of a send.  A direct send commits the candidate
  exactly when the transport accepted it and otherwise leaves the input state alone; a periodic one has
  committed it whatever the transport answers, and both make the same single offer to the transport.
\<close>

theorem direct_commits_after_periodic_before:
  "(cx_input (fst (send_direct E c now cx)) =
      (if is_ok (snd (send_direct E c now cx)) then c else cx_input cx))
   \<and> cx_input (fst (commit_and_send_candidate E c now cx)) = c
   \<and> snd (commit_and_send_candidate E c now cx) = snd (send_direct E c now cx)
   \<and> cx_transport (fst (commit_and_send_candidate E c now cx)) = cx_transport (fst (send_direct E c now cx))"
proof -
  have "cx_input (fst (send_input E c now cx)) = cx_input cx"
    using send_input_frame[of cx E c now] by (simp add: sent_frame_def)
  moreover have "snd (send_input E c now (input_commit c cx)) = snd (send_input E c now cx)
    \<and> cx_transport (fst (send_input E c now (input_commit c cx))) = cx_transport (fst (send_input E c now cx))"
    by (simp add: send_input_def Let_def send_candidate_def input_commit_def split: prod.splits sum.splits)
  ultimately show ?thesis
    by (simp add: fst_send_direct snd_send_direct commit_and_send_fields)
      (simp add: commit_and_send_candidate_def Let_def)
qed

end
