(* ===== verification/Handshake.thy ===== *)
theory Handshake
  imports Direct
begin

text \<open>
  \<open>src/runtime/handshake.rs\<close>: the bootstrap of a connection.  Once the link and both HID channels are up,
  neutral reports are sent every second until one has been accepted and the host has answered.
\<close>

definition bootstrap_retry :: duration where
  "bootstrap_retry = from_secs 1"

datatype handshake_progress =
    HsStaleSession
  | HsWaitingForTopology
  | HsWaitingUntil duration
  | HsBootstrapAttempted "(send_acceptance, transport_error) result" nat
  | HsSubcommandObserved

datatype handshake_error = HandshakeScheduler scheduler_error

datatype completion_condition = FirstSubcommand | ProtocolReady

definition is_satisfied :: "completion_condition \<Rightarrow> observed_subcommands \<Rightarrow> bool \<Rightarrow> bool" where
  "is_satisfied c obs ready = (case c of FirstSubcommand \<Rightarrow> \<not> observed_is_empty obs | ProtocolReady \<Rightarrow> ready)"

record handshake =
  hs_session_id :: session_id
  hs_completion_condition :: completion_condition
  hs_link_observed :: bool
  hs_control_observed :: bool
  hs_interrupt_observed :: bool
  hs_retry :: "report_scheduler option"
  hs_bootstrap_accepted :: bool
  hs_bootstrap_stopped :: bool

definition with_completion_condition :: "session_id \<Rightarrow> completion_condition \<Rightarrow> handshake" where
  "with_completion_condition sid c = \<lparr>
     hs_session_id = sid, hs_completion_condition = c,
     hs_link_observed = False, hs_control_observed = False, hs_interrupt_observed = False,
     hs_retry = None, hs_bootstrap_accepted = False, hs_bootstrap_stopped = False\<rparr>"

definition handshake_new :: "session_id \<Rightarrow> handshake" where
  "handshake_new sid = with_completion_condition sid FirstSubcommand"

definition handshake_until_protocol_ready :: "session_id \<Rightarrow> handshake" where
  "handshake_until_protocol_ready sid = with_completion_condition sid ProtocolReady"

definition observe_link :: "session_id \<Rightarrow> handshake \<Rightarrow> handshake" where
  "observe_link sid h = (if sid = hs_session_id h then h\<lparr>hs_link_observed := True\<rparr> else h)"

definition observe_channel :: "session_id \<Rightarrow> hid_channel \<Rightarrow> handshake \<Rightarrow> handshake" where
  "observe_channel sid channel h =
     (if sid \<noteq> hs_session_id h then h
      else case channel of
        Control \<Rightarrow> h\<lparr>hs_control_observed := True\<rparr>
      | Interrupt \<Rightarrow> h\<lparr>hs_interrupt_observed := True\<rparr>)"

definition topology_ready :: "handshake \<Rightarrow> bool" where
  "topology_ready h = (hs_link_observed h \<and> hs_control_observed h \<and> hs_interrupt_observed h)"

text \<open>\<open>HandshakeCompletion\<close> carries the session id only.\<close>

definition handshake_completion :: "handshake \<Rightarrow> session_id option" where
  "handshake_completion h = (if hs_bootstrap_stopped h then Some (hs_session_id h) else None)"

definition handshake_next_deadline :: "handshake \<Rightarrow> duration option" where
  "handshake_next_deadline h =
     (if hs_bootstrap_stopped h then None else map_option sched_next_deadline (hs_retry h))"

definition stop_bootstrap :: "handshake \<Rightarrow> handshake" where
  "stop_bootstrap h = h\<lparr>hs_retry := None, hs_bootstrap_stopped := True\<rparr>"

definition send_bootstrap ::
  "'t env \<Rightarrow> u64 \<Rightarrow> 't runtime_context \<Rightarrow> 't runtime_context \<times> (send_acceptance, transport_error) result" where
  "send_bootstrap E now_ns cx = send_input E input_neutral now_ns cx"

definition record_bootstrap_attempt ::
  "handshake \<Rightarrow> observed_subcommands \<Rightarrow> bool \<Rightarrow> (send_acceptance, transport_error) result \<Rightarrow> nat
   \<Rightarrow> handshake \<times> handshake_progress" where
  "record_bootstrap_attempt h obs ready result skipped =
     ((if is_ok result
       then let h = h\<lparr>hs_bootstrap_accepted := True\<rparr> in
            if is_satisfied (hs_completion_condition h) obs ready then stop_bootstrap h else h
       else h),
      HsBootstrapAttempted result skipped)"

definition attempt_bootstrap ::
  "'t env \<Rightarrow> handshake \<Rightarrow> duration \<Rightarrow> nat \<Rightarrow> 't runtime_context
   \<Rightarrow> handshake \<times> 't runtime_context \<times> (handshake_progress, handshake_error) result" where
  "attempt_bootstrap E h now skipped cx =
     (case send_bootstrap E (protocol_timestamp now) cx of
        (cx, result) \<Rightarrow>
          (case record_bootstrap_attempt h (cx_observed cx)
                  (protocol_ready (sender_session (cx_sender cx))) result skipped of
             (h, progress) \<Rightarrow> (h, cx, Inr progress)))"

definition handshake_step ::
  "'t env \<Rightarrow> handshake \<Rightarrow> session_id \<Rightarrow> duration \<Rightarrow> 't runtime_context
   \<Rightarrow> handshake \<times> 't runtime_context \<times> (handshake_progress, handshake_error) result" where
  "handshake_step E h sid now cx =
     (if sid \<noteq> hs_session_id h then (h, cx, Inr HsStaleSession)
      else if hs_bootstrap_stopped h then (h, cx, Inr HsSubcommandObserved)
      else if \<not> topology_ready h then (h, cx, Inr HsWaitingForTopology)
      else if hs_bootstrap_accepted h
              \<and> is_satisfied (hs_completion_condition h) (cx_observed cx)
                  (protocol_ready (sender_session (cx_sender cx)))
      then (stop_bootstrap h, cx, Inr HsSubcommandObserved)
      else case hs_retry h of
        None \<Rightarrow>
          (case scheduler_start now bootstrap_retry of
             Inl e \<Rightarrow> (h, cx, Inl (HandshakeScheduler e))
           | Inr s \<Rightarrow> attempt_bootstrap E (h\<lparr>hs_retry := Some s\<rparr>) now 0 cx)
      | Some scheduler \<Rightarrow>
          (let deadline = sched_next_deadline scheduler in
           if now < deadline then (h, cx, Inr (HsWaitingUntil deadline))
           else case scheduler_step scheduler now of
             (s, Inl e) \<Rightarrow> (h\<lparr>hs_retry := Some s\<rparr>, cx, Inl (HandshakeScheduler e))
           | (s, Inr NotDue) \<Rightarrow>
               (h\<lparr>hs_retry := Some s\<rparr>, cx, Inr (HsWaitingUntil (sched_next_deadline s)))
           | (s, Inr (Due skipped)) \<Rightarrow> attempt_bootstrap E (h\<lparr>hs_retry := Some s\<rparr>) now skipped cx))"

section \<open>Properties\<close>

lemma hs_observe_fields [simp]:
  "hs_session_id (observe_link sid h) = hs_session_id h"
  "hs_session_id (observe_channel sid c h) = hs_session_id h"
  "hs_session_id (stop_bootstrap h) = hs_session_id h"
  "hs_bootstrap_stopped (observe_link sid h) = hs_bootstrap_stopped h"
  "hs_bootstrap_stopped (observe_channel sid c h) = hs_bootstrap_stopped h"
  "hs_bootstrap_stopped (stop_bootstrap h) = True"
  by (simp_all add: observe_link_def observe_channel_def stop_bootstrap_def split: hid_channel.splits)

lemma record_bootstrap_attempt_fields:
  "hs_session_id (fst (record_bootstrap_attempt h obs ready r k)) = hs_session_id h"
  "snd (record_bootstrap_attempt h obs ready r k) = HsBootstrapAttempted r k"
  by (simp_all add: record_bootstrap_attempt_def Let_def)

lemma attempt_bootstrap_fields:
  "hs_session_id (fst (attempt_bootstrap E h now k cx)) = hs_session_id h"
  "fst (snd (attempt_bootstrap E h now k cx)) = fst (send_bootstrap E (protocol_timestamp now) cx)"
  "snd (snd (attempt_bootstrap E h now k cx)) =
     Inr (HsBootstrapAttempted (snd (send_bootstrap E (protocol_timestamp now) cx)) k)"
  by (auto simp: attempt_bootstrap_def record_bootstrap_attempt_def Let_def split: prod.splits)

lemma handshake_step_session [simp]:
  "hs_session_id (fst (handshake_step E h sid now cx)) = hs_session_id h"
  by (auto simp: handshake_step_def Let_def attempt_bootstrap_fields
      split: option.splits sum.splits prod.splits tick_decision.splits)

lemma handshake_step_context:
  "fst (snd (handshake_step E h sid now cx)) = cx
   \<or> fst (snd (handshake_step E h sid now cx)) = fst (send_bootstrap E (protocol_timestamp now) cx)"
  by (auto simp: handshake_step_def Let_def attempt_bootstrap_fields
      split: option.splits sum.splits prod.splits tick_decision.splits)

lemma handshake_step_ok [simp]:
  "context_ok (Some s) cx \<Longrightarrow> context_ok (Some s) (fst (snd (handshake_step E h sid now cx)))"
  using handshake_step_context[of E h sid now cx] by (elim disjE) (simp_all add: send_bootstrap_def)

lemma handshake_step_frame: "sent_frame cx (fst (snd (handshake_step E h sid now cx)))"
  using handshake_step_context[of E h sid now cx]
  by (elim disjE) (simp_all add: send_bootstrap_def send_input_frame)

text \<open>Completion of the bootstrap: what has happened by the time it stops.\<close>

definition bootstrap_justified :: "handshake \<Rightarrow> bool" where
  "bootstrap_justified h \<longleftrightarrow> (hs_bootstrap_stopped h \<longrightarrow>
     hs_bootstrap_accepted h \<and> topology_ready h \<and> hs_retry h = None)"

lemma bootstrap_justified_steps:
  "bootstrap_justified (with_completion_condition sid c)"
  "bootstrap_justified h \<Longrightarrow> bootstrap_justified (observe_link sid h)"
  "bootstrap_justified h \<Longrightarrow> bootstrap_justified (observe_channel sid ch h)"
  "bootstrap_justified h \<Longrightarrow> bootstrap_justified (fst (handshake_step E h sid now cx))"
     apply (simp add: bootstrap_justified_def with_completion_condition_def)
    apply (simp add: bootstrap_justified_def observe_link_def topology_ready_def)
   apply (simp add: bootstrap_justified_def observe_channel_def topology_ready_def split: hid_channel.splits)
  apply (auto simp: bootstrap_justified_def handshake_step_def attempt_bootstrap_def
      record_bootstrap_attempt_def stop_bootstrap_def topology_ready_def Let_def
      split: option.splits sum.splits prod.splits tick_decision.splits)
  done

text \<open>
  C14: the bootstrap goes out on time and only on time.  A step of the current session sends at most one
  neutral report.  It sends exactly when the topology is up, the bootstrap has not stopped or just been
  satisfied, and no retry is pending before its deadline; after the send the next retry is due within
  one second, or the bootstrap has stopped.
\<close>

theorem bootstrap_is_paced:
  assumes "sid = hs_session_id h" and "now + 10 ^ 9 \<le> duration_max"
    and "\<forall>s. hs_retry h = Some s \<longrightarrow> scheduler_ok s \<and> sched_period s = 10 ^ 9
           \<and> (now - sched_next_deadline s) div 10 ^ 9 \<le> 2 ^ 64 - 1"
  shows "let sends = \<not> hs_bootstrap_stopped h \<and> topology_ready h
        \<and> \<not> (hs_bootstrap_accepted h \<and> is_satisfied (hs_completion_condition h) (cx_observed cx)
                (protocol_ready (sender_session (cx_sender cx))))
        \<and> (\<forall>s. hs_retry h = Some s \<longrightarrow> sched_next_deadline s \<le> now);
      (h', cx', r) = handshake_step E h sid now cx in
    (sends \<longrightarrow> (\<exists>k. r = Inr (HsBootstrapAttempted (snd (send_input E input_neutral (protocol_timestamp now) cx)) k))
        \<and> cx' = fst (send_input E input_neutral (protocol_timestamp now) cx)
        \<and> (hs_bootstrap_stopped h'
           \<or> (\<exists>d. handshake_next_deadline h' = Some d \<and> now < d \<and> d \<le> now + 10 ^ 9)))
    \<and> (\<not> sends \<longrightarrow> cx' = cx \<and> (\<forall>result k. r \<noteq> Inr (HsBootstrapAttempted result k)))"
proof -
  have second: "bootstrap_retry = 10 ^ 9"
    by (simp add: bootstrap_retry_def from_secs_def nanos_per_second_def)
  have after: "hs_bootstrap_stopped (fst (attempt_bootstrap E (h\<lparr>hs_retry := Some s\<rparr>) now k cx))
      \<or> handshake_next_deadline (fst (attempt_bootstrap E (h\<lparr>hs_retry := Some s\<rparr>) now k cx)) =
          Some (sched_next_deadline s)" if "\<not> hs_bootstrap_stopped h" for s k
    using that by (auto simp: attempt_bootstrap_def record_bootstrap_attempt_def Let_def
        handshake_next_deadline_def split: prod.splits)
  note attempt = attempt_bootstrap_fields[of E "h\<lparr>hs_retry := Some s\<rparr>" now k cx for s k]
  show ?thesis
  proof (cases "hs_retry h")
    case None
    have start: "scheduler_start now bootstrap_retry = Inr \<lparr>sched_period = 10 ^ 9, sched_next_deadline = now + 10 ^ 9\<rparr>"
      using assms(2) by (simp add: scheduler_start_def duration_checked_add_def second)
    show ?thesis
      using assms(1) after[of "\<lparr>sched_period = 10 ^ 9, sched_next_deadline = now + 10 ^ 9\<rparr>" 0]
        attempt[of "\<lparr>sched_period = 10 ^ 9, sched_next_deadline = now + 10 ^ 9\<rparr>" 0]
      by (auto simp: handshake_step_def None start Let_def send_bootstrap_def split: prod.splits)
  next
    case (Some s)
    have ok: "scheduler_ok s" "sched_period s = 10 ^ 9"
      and few: "(now - sched_next_deadline s) div 10 ^ 9 \<le> 2 ^ 64 - 1"
      using assms(3) Some by simp_all
    show ?thesis
    proof (cases "now < sched_next_deadline s")
      case True
      then show ?thesis
        using assms(1) by (auto simp: handshake_step_def Some Let_def)
    next
      case False
      obtain s' k where step: "scheduler_step s now = (s', Inr (Due k))"
        and d: "now < sched_next_deadline s'" "sched_next_deadline s' \<le> now + 10 ^ 9"
        using scheduler_step_fits[OF ok(1), of now] False few assms(2) unfolding ok(2) by auto
      show ?thesis
        using assms(1) False d after[of s' k] attempt[of s' k]
        by (auto simp: handshake_step_def Some step Let_def send_bootstrap_def split: prod.splits)
    qed
  qed
qed

definition sample_handshake :: handshake where
  "sample_handshake = observe_channel 1 Interrupt (observe_channel 1 Control (observe_link 1 (handshake_new 1)))"

theorem bootstrap_is_paced_witness:
  "hs_session_id sample_handshake = 1
   \<and> fst (snd (handshake_step sample_env sample_handshake 1 0 sample_context)) =
       fst (send_input sample_env input_neutral (protocol_timestamp 0) sample_context)"
proof -
  have fields: "1 = hs_session_id sample_handshake" "hs_retry sample_handshake = None"
    "\<not> hs_bootstrap_stopped sample_handshake" "topology_ready sample_handshake"
    "\<not> hs_bootstrap_accepted sample_handshake"
    by (simp_all add: sample_handshake_def handshake_new_def with_completion_condition_def
        observe_link_def observe_channel_def topology_ready_def)
  have room: "0 + 10 ^ 9 \<le> duration_max"
    by (simp add: duration_max_def)
  show ?thesis
    using bootstrap_is_paced[OF fields(1) room, of sample_context sample_env] fields
    by (auto simp: Let_def split: prod.splits)
qed

end
