(* ===== verification/Readiness.thy ===== *)
theory Readiness
  imports Handshake
begin

text \<open>
  \<open>src/runtime/readiness.rs\<close>: the gate a connection attempt passes through: current session, before the
  deadline, handshake complete, protocol ready and, for periodic reporting, the scheduler started.
\<close>

datatype readiness_wait = WaitHandshake | WaitProtocol | WaitPeriodicHoldoff duration

datatype readiness_progress = ReadinessPending readiness_wait | ReadinessReady session_id

datatype readiness_error =
    ReadinessStaleSession session_id "session_id option"       \<comment> \<open>expected, current\<close>
  | HandshakeSessionMismatch session_id session_id             \<comment> \<open>expected, actual\<close>
  | ReadinessDisconnected "u8 option"
  | ReadinessTimedOut
  | ReadinessScheduler scheduler_error

record readiness_gate =
  gate_session_id :: session_id
  gate_operation_deadline :: duration
  gate_handshake :: "session_id option"

definition readiness_gate_new :: "session_id \<Rightarrow> duration \<Rightarrow> readiness_gate" where
  "readiness_gate_new sid deadline =
     \<lparr>gate_session_id = sid, gate_operation_deadline = deadline, gate_handshake = None\<rparr>"

definition ensure_current :: "readiness_gate \<Rightarrow> connection_sessions \<Rightarrow> (unit, readiness_error) result" where
  "ensure_current g s =
     (if current_session s = Some (gate_session_id g) then Inr ()
      else Inl (ReadinessStaleSession (gate_session_id g) (current_session s)))"

definition ensure_before_timeout :: "readiness_gate \<Rightarrow> duration \<Rightarrow> (unit, readiness_error) result" where
  "ensure_before_timeout g now =
     (if now < gate_operation_deadline g then Inr () else Inl ReadinessTimedOut)"

definition ensure_active ::
  "readiness_gate \<Rightarrow> duration \<Rightarrow> connection_sessions \<Rightarrow> (unit, readiness_error) result" where
  "ensure_active g now s = bind_result (ensure_current g s) (\<lambda>_. ensure_before_timeout g now)"

text \<open>The handshake is taken out of the connection once its completion has been collected.\<close>

definition collect_handshake ::
  "readiness_gate \<Rightarrow> handshake option
   \<Rightarrow> readiness_gate \<times> handshake option \<times> (bool, readiness_error) result" where
  "collect_handshake g h =
     (if gate_handshake g \<noteq> None then (g, h, Inr True)
      else case Option.bind h handshake_completion of
        None \<Rightarrow> (g, h, Inr False)
      | Some completion \<Rightarrow>
          if completion \<noteq> gate_session_id g
          then (g, h, Inl (HandshakeSessionMismatch (gate_session_id g) completion))
          else (g\<lparr>gate_handshake := Some completion\<rparr>, None, Inr True))"

text \<open>\<open>take_ready_session\<close> is only reached with a collected handshake.\<close>

definition take_ready_session :: "readiness_gate \<Rightarrow> readiness_gate \<times> session_id" where
  "take_ready_session g = (g\<lparr>gate_handshake := None\<rparr>, the (gate_handshake g))"

definition evaluate_direct ::
  "readiness_gate \<Rightarrow> duration \<Rightarrow> connection_sessions \<Rightarrow> handshake option \<Rightarrow> report_sender
   \<Rightarrow> readiness_gate \<times> handshake option \<times> (readiness_progress, readiness_error) result" where
  "evaluate_direct g now s h sender =
     (case ensure_active g now s of
        Inl e \<Rightarrow> (g, h, Inl e)
      | Inr _ \<Rightarrow>
          (case collect_handshake g h of
             (g, h, Inl e) \<Rightarrow> (g, h, Inl e)
           | (g, h, Inr False) \<Rightarrow> (g, h, Inr (ReadinessPending WaitHandshake))
           | (g, h, Inr True) \<Rightarrow>
               if \<not> protocol_ready (sender_session sender)
               then (g, h, Inr (ReadinessPending WaitProtocol))
               else case take_ready_session g of (g, sid) \<Rightarrow> (g, h, Inr (ReadinessReady sid))))"

text \<open>
  \<open>reporting.expect("protocol readiness requires supported report mode")\<close>: a ready protocol has report
  mode 0x30, so the scheduler was asked to start; the \<open>None\<close> of the model's \<open>reporting\<close> is not reached.
\<close>

definition evaluate_periodic ::
  "readiness_gate \<Rightarrow> duration \<Rightarrow> connection_sessions \<Rightarrow> handshake option \<Rightarrow> report_sender \<Rightarrow> periodic_policy
   \<Rightarrow> readiness_gate \<times> handshake option \<times> periodic_policy \<times> (readiness_progress, readiness_error) result" where
  "evaluate_periodic g now s h sender p =
     (case ensure_active g now s of
        Inl e \<Rightarrow> (g, h, p, Inl e)
      | Inr _ \<Rightarrow>
          (case collect_handshake g h of
             (g, h, Inl e) \<Rightarrow> (g, h, p, Inl e)
           | (g, h, Inr False) \<Rightarrow> (g, h, p, Inr (ReadinessPending WaitHandshake))
           | (g, h, Inr True) \<Rightarrow>
               (case (if report_mode (sender_session sender) = Some 0x30
                      then case start_when_unheld p now of
                             (p, Inl e) \<Rightarrow> (p, Inl e)
                           | (p, Inr start) \<Rightarrow> (p, Inr (Some start))
                      else (p, Inr None)) of
                  (p, Inl e) \<Rightarrow> (g, h, p, Inl (ReadinessScheduler e))
                | (p, Inr reporting) \<Rightarrow>
                    if \<not> protocol_ready (sender_session sender)
                    then (g, h, p, Inr (ReadinessPending WaitProtocol))
                    else case the reporting of
                      StartHeldOff until \<Rightarrow> (g, h, p, Inr (ReadinessPending (WaitPeriodicHoldoff until)))
                    | StartStarted _ \<Rightarrow>
                        (case take_ready_session g of (g, sid) \<Rightarrow> (g, h, p, Inr (ReadinessReady sid))))))"

text \<open>\<open>abort\<close> drops the handshake and returns the error.\<close>

definition readiness_abort ::
  "handshake option \<Rightarrow> readiness_error \<Rightarrow> handshake option \<times> readiness_error" where
  "readiness_abort h e = (None, e)"

section \<open>Properties\<close>

text \<open>A gate only ever holds the completion of its own session.\<close>

definition gate_ok :: "readiness_gate \<Rightarrow> bool" where
  "gate_ok g = (gate_handshake g \<in> {None, Some (gate_session_id g)})"

lemma gate_ok_new [simp]: "gate_ok (readiness_gate_new sid deadline)"
  by (simp add: gate_ok_def readiness_gate_new_def)

lemma collect_handshake_fields:
  assumes "collect_handshake g h = (g', h', r)" "gate_ok g"
  shows "gate_ok g' \<and> gate_session_id g' = gate_session_id g
    \<and> gate_operation_deadline g' = gate_operation_deadline g
    \<and> (h' = h \<or> h' = None) \<and> (r = Inr True \<longrightarrow> gate_handshake g' = Some (gate_session_id g))"
  using assms
  by (auto simp: collect_handshake_def gate_ok_def split: if_splits option.splits)

lemma evaluate_direct_fields:
  assumes "evaluate_direct g now s h sender = (g', h', r)" "gate_ok g"
  shows "gate_ok g' \<and> gate_session_id g' = gate_session_id g
    \<and> gate_operation_deadline g' = gate_operation_deadline g \<and> (h' = h \<or> h' = None)
    \<and> (\<forall>sid. r = Inr (ReadinessReady sid) \<longrightarrow> sid = gate_session_id g)"
proof -
  obtain g1 h1 c where collect: "collect_handshake g h = (g1, h1, c)"
    by (cases "collect_handshake g h") auto
  show ?thesis
    using assms collect_handshake_fields[OF collect assms(2)]
    by (auto simp: evaluate_direct_def collect take_ready_session_def gate_ok_def
        split: sum.splits bool.splits if_splits)
qed

lemma evaluate_periodic_fields:
  assumes "evaluate_periodic g now s h sender p = (g', h', p', r)" "gate_ok g"
  shows "gate_ok g' \<and> gate_session_id g' = gate_session_id g
    \<and> gate_operation_deadline g' = gate_operation_deadline g \<and> (h' = h \<or> h' = None)
    \<and> (\<forall>sid. r = Inr (ReadinessReady sid) \<longrightarrow> sid = gate_session_id g)"
proof -
  obtain g1 h1 c where collect: "collect_handshake g h = (g1, h1, c)"
    by (cases "collect_handshake g h") auto
  show ?thesis
    using assms collect_handshake_fields[OF collect assms(2)]
    by (auto simp: evaluate_periodic_def collect take_ready_session_def gate_ok_def
        split: sum.splits bool.splits if_splits prod.splits periodic_start.splits)
qed

lemma protocol_ready_report_mode: "protocol_ready s \<Longrightarrow> report_mode s = Some 0x30"
  by (simp add: protocol_ready_iff report_mode_def supported_input_report_mode_def)



end
