(* ===== verification/Cleanup.thy ===== *)
theory Cleanup
  imports Readiness
begin

text \<open>
  \<open>src/runtime/cleanup.rs\<close>: the shutdown sequence.  Every stage runs whatever the earlier ones returned
  and the first failure is the one reported.
\<close>

datatype close_mode = WithNeutral | WithoutNeutral

datatype cleanup_phase = PhaseNeutral | PhaseDrainInterrupt | PhaseDisconnect | PhaseTransportClose

record cleanup_failure =
  cf_phase :: cleanup_phase
  cf_error :: transport_error

datatype 'j explicit_close_error =
    CloseCleanup cleanup_failure
  | CloseJoin 'j
  | CloseCleanupAndJoin cleanup_failure 'j

record cleanup_sequence =
  seq_mode :: close_mode
  seq_drain_timeout :: duration
  seq_drain_interrupt :: bool

definition cleanup_sequence_new :: "close_mode \<Rightarrow> duration \<Rightarrow> cleanup_sequence" where
  "cleanup_sequence_new mode timeout =
     \<lparr>seq_mode = mode, seq_drain_timeout = timeout, seq_drain_interrupt = True\<rparr>"

definition cleanup_for_drop :: cleanup_sequence where
  "cleanup_for_drop = \<lparr>seq_mode = WithoutNeutral, seq_drain_timeout = 0, seq_drain_interrupt = False\<rparr>"

record close_completion =
  cc_performed :: bool
  cc_first_failure :: "cleanup_failure option"

definition not_performed :: close_completion where
  "not_performed = \<lparr>cc_performed = False, cc_first_failure = None\<rparr>"

definition record_first_failure ::
  "cleanup_failure option \<Rightarrow> cleanup_phase \<Rightarrow> (unit, transport_error) result \<Rightarrow> cleanup_failure option" where
  "record_first_failure first_failure phase r =
     (if first_failure \<noteq> None then first_failure
      else case r of
        Inl e \<Rightarrow> Some \<lparr>cf_phase = phase, cf_error = e\<rparr>
      | Inr _ \<Rightarrow> None)"

definition call_transport ::
  "('t \<Rightarrow> 't \<times> (unit, transport_error) result) \<Rightarrow> 't runtime_context
   \<Rightarrow> 't runtime_context \<times> (unit, transport_error) result" where
  "call_transport f cx = (case f (cx_transport cx) of (t, r) \<Rightarrow> (cx\<lparr>cx_transport := t\<rparr>, r))"

text \<open>The four stages, for a close that is to be performed.\<close>

definition cleanup_stages ::
  "'t env \<Rightarrow> cleanup_sequence \<Rightarrow> bool \<Rightarrow> u64 \<Rightarrow> 't runtime_context
   \<Rightarrow> 't runtime_context \<times> cleanup_failure option" where
  "cleanup_stages E sq connected now_ns cx =
     (let T = env_transport E;
          (cx, failure) =
            (if seq_mode sq = WithNeutral \<and> connected
             then case send_input E input_neutral now_ns cx of
               (cx, r) \<Rightarrow> (cx, record_first_failure None PhaseNeutral (map_ok (\<lambda>_. ()) r))
             else (cx, None));
          (cx, failure) =
            (if seq_drain_interrupt sq
             then case call_transport (t_drain_interrupt T (seq_drain_timeout sq)) cx of
               (cx, r) \<Rightarrow> (cx, record_first_failure failure PhaseDrainInterrupt r)
             else (cx, failure));
          (cx, failure) =
            (case call_transport (t_disconnect T) cx of
               (cx, r) \<Rightarrow> (cx, record_first_failure failure PhaseDisconnect r));
          (cx, failure) =
            (case call_transport (t_close T) cx of
               (cx, r) \<Rightarrow> (cx, record_first_failure failure PhaseTransportClose r))
      in (cx, failure))"

text \<open>\<open>with_status\<close> tells whether the sequence was given a status publisher.\<close>

definition cleanup_run ::
  "'t env \<Rightarrow> cleanup_sequence \<Rightarrow> bool \<Rightarrow> u64 \<Rightarrow> bool \<Rightarrow> runtime_state \<Rightarrow> 't runtime_context
   \<Rightarrow> runtime_state \<times> 't runtime_context \<times> close_completion" where
  "cleanup_run E sq connected now_ns with_status lifecycle cx =
     (case request_close lifecycle of
        (action, lifecycle) \<Rightarrow>
          if action \<noteq> BeginCleanup then (lifecycle, cx, not_performed)
          else let cx = (if with_status
                         then cx\<lparr>cx_status := set_lifecycle (lifecycle_state_of lifecycle) (cx_status cx)\<rparr>
                         else cx);
                   (cx, failure) = cleanup_stages E sq connected now_ns cx;
                   cx = (if with_status then cx\<lparr>cx_status := status_close Lc_Closed (cx_status cx)\<rparr> else cx)
               in (lifecycle, cx, \<lparr>cc_performed = True, cc_first_failure = failure\<rparr>))"

definition finish_with_join ::
  "close_completion \<Rightarrow> (unit, 'j) result \<Rightarrow> (unit, 'j explicit_close_error) result" where
  "finish_with_join c joined =
     (if \<not> cc_performed c then Inr ()
      else case (cc_first_failure c, joined) of
        (None, Inr _) \<Rightarrow> Inr ()
      | (None, Inl j) \<Rightarrow> Inl (CloseJoin j)
      | (Some f, Inr _) \<Rightarrow> Inl (CloseCleanup f)
      | (Some f, Inl j) \<Rightarrow> Inl (CloseCleanupAndJoin f j))"

section \<open>Properties\<close>

text \<open>What the stages do to the transport, written as a plain composition of its operations.\<close>

definition stage_results ::
  "'t env \<Rightarrow> cleanup_sequence \<Rightarrow> bool \<Rightarrow> u64 \<Rightarrow> 't runtime_context
   \<Rightarrow> 't \<times> (cleanup_phase \<times> (unit, transport_error) result) list" where
  "stage_results E sq connected now_ns cx =
     (let T = env_transport E;
          sent = send_input E input_neutral now_ns cx;
          neutral = seq_mode sq = WithNeutral \<and> connected;
          t0 = (if neutral then cx_transport (fst sent) else cx_transport cx);
          r0 = (if neutral then [(PhaseNeutral, snd sent)] else []);
          drained = t_drain_interrupt T (seq_drain_timeout sq) t0;
          t1 = (if seq_drain_interrupt sq then fst drained else t0);
          r1 = (if seq_drain_interrupt sq then [(PhaseDrainInterrupt, snd drained)] else []);
          disconnected = t_disconnect T t1;
          closed = t_close T (fst disconnected)
      in (fst closed, r0 @ r1 @ [(PhaseDisconnect, snd disconnected), (PhaseTransportClose, snd closed)]))"

definition first_failure_of ::
  "(cleanup_phase \<times> (unit, transport_error) result) list \<Rightarrow> cleanup_failure option" where
  "first_failure_of rs = fold (\<lambda>(p, r) f. record_first_failure f p r) rs None"

lemma fold_record_first_failure_Some:
  "fold (\<lambda>(p, r) f. record_first_failure f p r) rs (Some f) = Some f"
  by (induction rs) (auto simp: record_first_failure_def)

lemma first_failure_of_Cons:
  "first_failure_of ((p, r) # rs) =
     (case r of Inl e \<Rightarrow> Some \<lparr>cf_phase = p, cf_error = e\<rparr> | Inr _ \<Rightarrow> first_failure_of rs)"
  using fold_record_first_failure_Some[of rs]
  by (cases r) (simp_all add: first_failure_of_def record_first_failure_def[of None])

lemma first_failure_of_iff:
  "first_failure_of rs = Some f \<longleftrightarrow>
     (\<exists>before after. rs = before @ (cf_phase f, Inl (cf_error f)) # after \<and> list_all (is_ok \<circ> snd) before)"
proof (induction rs)
  case Nil
  then show ?case by (simp add: first_failure_of_def)
next
  case (Cons x rs)
  obtain p r where x: "x = (p, r)" by (cases x)
  show ?case
  proof (cases r)
    case (Inl e)
    have head: "first_failure_of (x # rs) = Some \<lparr>cf_phase = p, cf_error = e\<rparr>"
      by (simp add: x Inl first_failure_of_Cons)
    have split: "x # rs = before @ (cf_phase f, Inl (cf_error f)) # after \<and> list_all (is_ok \<circ> snd) before
        \<longleftrightarrow> before = [] \<and> after = rs \<and> f = \<lparr>cf_phase = p, cf_error = e\<rparr>" for before after
      by (cases before) (auto simp: x Inl)
    show ?thesis
      unfolding head by (simp only: split) auto
  next
    case (Inr u)
    have head: "first_failure_of (x # rs) = first_failure_of rs"
      by (simp add: x Inr first_failure_of_Cons)
    have split: "x # rs = before @ (cf_phase f, Inl (cf_error f)) # after \<and> list_all (is_ok \<circ> snd) before
        \<longleftrightarrow> (\<exists>before'. before = x # before' \<and> rs = before' @ (cf_phase f, Inl (cf_error f)) # after
            \<and> list_all (is_ok \<circ> snd) before')" for before after
      by (cases before) (auto simp: x Inr)
    show ?thesis
      unfolding head Cons.IH by (simp only: split) blast
  qed
qed

lemma map_ok_unit [simp]: "map_ok (\<lambda>_. ()) (r :: (unit, 'e) result) = r"
  by (cases r) simp_all

lemma cleanup_stages_eq:
  "cx_transport (fst (cleanup_stages E sq connected now cx)) = fst (stage_results E sq connected now cx)
   \<and> snd (cleanup_stages E sq connected now cx) = first_failure_of (snd (stage_results E sq connected now cx))"
  by (simp add: cleanup_stages_def stage_results_def first_failure_of_def call_transport_def Let_def
      case_prod_beta)

lemma cleanup_stages_ok [simp]:
  "context_ok (Some s) cx \<Longrightarrow> context_ok (Some s) (fst (cleanup_stages E sq connected now cx))"
  by (simp add: cleanup_stages_def call_transport_def Let_def case_prod_beta)

lemma cleanup_stages_ok_silent:
  "context_ok sid cx \<Longrightarrow> \<not> connected \<Longrightarrow> context_ok sid (fst (cleanup_stages E sq connected now cx))"
  by (simp add: cleanup_stages_def call_transport_def Let_def case_prod_beta)

lemma cleanup_stages_frame: "sent_frame cx (fst (cleanup_stages E sq connected now cx))"
  using send_input_frame[of cx E input_neutral now]
  by (auto simp: cleanup_stages_def call_transport_def Let_def case_prod_beta sent_frame_def)



lemma finish_with_join_Inr_iff:
  "finish_with_join c joined = Inr () \<longleftrightarrow>
     \<not> cc_performed c \<or> (cc_first_failure c = None \<and> is_ok joined)"
  by (auto simp: finish_with_join_def split: option.splits sum.splits)

end
