(* ===== verification/Reporting.thy ===== *)
theory Reporting
  imports Cleanup
begin

text \<open>
  The reporting half of \<open>src/runtime/worker.rs\<close>: the commands and errors of the worker, the
  \<open>WorkerReporting\<close> trait as a record of operations on a reporting state \<open>'r\<close>, and its implementations
  for \<open>Periodic\<close> and \<open>Direct\<close>.  What the worker core needs of an implementation is the locale
  \<open>reporting_laws\<close>; both implementations are interpretations of it.
\<close>

datatype shutdown_request = ShutdownExplicit close_mode | ShutdownDropped

datatype common_command =
    Press "button_kind list"
  | Release "button_kind list"
  | Tap "button_kind list" duration
  | NeutralCommand

datatype periodic_command = PeriodicCommon common_command | Apply input_state

datatype direct_command = DirectCommon common_command | SendState input_state

datatype 'c runtime_command = Pair duration | Reconnect duration | InputCommand 'c

datatype worker_core_error =
    InvalidLifecycle
  | CoreHandshake handshake_error
  | CoreTransport transport_error

datatype connection_command_kind = PairCommand | ReconnectCommand

datatype connection_command_failure =
    BeginFailure worker_core_error
  | ReadinessFailure readiness_error
  | KeyStoreFailure
  | WorkerFailedFailure

record connection_command_error =
  cce_command :: connection_command_kind
  cce_failure :: connection_command_failure

definition is_worker_failed :: "connection_command_error \<Rightarrow> bool" where
  "is_worker_failed e = (cce_failure e = WorkerFailedFailure)"

datatype worker_command_error =
    CommandInput error
  | CommandLifecycle lifecycle_command_error
  | CommandConnection connection_command_error
  | CommandPeriodic periodic_error
  | CommandDirect direct_tap_error
  | CommandShutdown
  | CommandDisconnected

type_synonym command_result = "(unit, worker_command_error) result"

datatype worker_command_progress = CommandComplete command_result | CommandPending

datatype worker_operation_error =
    OperationOutput output_handling_error
  | OperationPeriodic periodic_error
  | OperationReadiness

fun status_message :: "worker_core_error \<Rightarrow> string" where
  "status_message InvalidLifecycle = ''worker lifecycle invariant failed''"
| "status_message (CoreHandshake _) = ''worker handshake failed''"
| "status_message (CoreTransport e) =
     (if e = Te_InvalidKeyStore then ''worker pairing key store failed'' else ''worker transport failed'')"

datatype reporting_event =
    Passthrough transport_event
  | EventOutput output_completion
  | EventDisconnected "u8 option" "worker_command_error option"

record reporting_due =
  due_actions :: nat
  due_immediate :: bool
  due_completion :: "worker_command_progress option"
  due_errors :: "worker_operation_error list"

definition due_none :: reporting_due where
  "due_none = \<lparr>due_actions = 0, due_immediate = False, due_completion = None, due_errors = []\<rparr>"

definition minimum_deadline :: "duration option \<Rightarrow> duration option \<Rightarrow> duration option" where
  "minimum_deadline left right =
     (case (left, right) of
        (Some l, Some r) \<Rightarrow> Some (min l r)
      | (Some d, None) \<Rightarrow> Some d
      | (None, Some d) \<Rightarrow> Some d
      | (None, None) \<Rightarrow> None)"

text \<open>
  The trait.  \<open>rp_handle_command\<close> takes the readiness flag and the time of its command context;
  \<open>build_worker\<close> is the construction of the runtime state (\<open>periodic_runtime_new\<close>,
  \<open>direct_runtime_new\<close>).
\<close>

record ('c, 'r, 't) worker_reporting =
  rp_begin_session :: "'r \<Rightarrow> connection_sessions \<Rightarrow> 't runtime_context
     \<Rightarrow> 'r \<times> connection_sessions \<times> 't runtime_context \<times> session_id"
  rp_begin_handshake :: "session_id \<Rightarrow> handshake"
  rp_handle_command :: "'t env \<Rightarrow> 'r \<Rightarrow> 'c \<Rightarrow> bool \<Rightarrow> duration \<Rightarrow> 't runtime_context
     \<Rightarrow> 'r \<times> 't runtime_context \<times> worker_command_progress"
  rp_handle_event :: "'t env \<Rightarrow> 'r \<Rightarrow> transport_event \<Rightarrow> 't runtime_context
     \<Rightarrow> 'r \<times> 't runtime_context \<times> reporting_event"
  rp_record_output :: "'r \<Rightarrow> duration \<Rightarrow> output_completion \<Rightarrow> 'r \<times> (unit, worker_operation_error) result"
  rp_evaluate_readiness :: "'r \<Rightarrow> duration \<Rightarrow> connection_sessions \<Rightarrow> handshake option \<Rightarrow> report_sender
     \<Rightarrow> readiness_gate \<Rightarrow> 'r \<times> handshake option \<times> readiness_gate \<times> (readiness_progress, readiness_error) result"
  rp_next_deadline :: "'r \<Rightarrow> duration option"
  rp_automatic_due_before_ready :: "'r \<Rightarrow> bool"
  rp_run_due :: "'t env \<Rightarrow> 'r \<Rightarrow> duration \<Rightarrow> 't runtime_context \<Rightarrow> 'r \<times> 't runtime_context \<times> reporting_due"
  rp_cancel_for_shutdown :: "'t env \<Rightarrow> 'r \<Rightarrow> 't runtime_context
     \<Rightarrow> 'r \<times> 't runtime_context \<times> worker_command_error option"
  rp_stop_session :: "'r \<Rightarrow> 'r"
  rp_has_pending :: "'r \<Rightarrow> bool"

section \<open>Periodic\<close>

record scheduled_periodic_tap =
  spt_tap :: pending_periodic_tap
  spt_release_at :: duration

record periodic_runtime =
  pr_policy :: periodic_policy
  pr_pending_tap :: "scheduled_periodic_tap option"

definition periodic_runtime_new :: "duration \<Rightarrow> (periodic_runtime, scheduler_error) result" where
  "periodic_runtime_new period =
     bind_result (periodic_policy_new period) (\<lambda>policy. Inr \<lparr>pr_policy = policy, pr_pending_tap = None\<rparr>)"

definition complete_input_candidate ::
  "(input_state, error) result \<Rightarrow> 't runtime_context \<Rightarrow> 't runtime_context \<times> worker_command_progress" where
  "complete_input_candidate candidate cx =
     (case candidate of
        Inr c \<Rightarrow> (input_commit c cx, CommandComplete (Inr ()))
      | Inl e \<Rightarrow> (cx, CommandComplete (Inl (CommandInput e))))"

definition periodic_tap_times :: "duration \<Rightarrow> duration \<Rightarrow> u64 \<times> duration" where
  "periodic_tap_times now d =
     (let release_at = deadline_after now d in (protocol_timestamp now, release_at))"

definition periodic_begin_session ::
  "periodic_runtime \<Rightarrow> connection_sessions \<Rightarrow> 't runtime_context
   \<Rightarrow> periodic_runtime \<times> connection_sessions \<times> 't runtime_context \<times> session_id" where
  "periodic_begin_session r s cx =
     (case begin_periodic s (pr_policy r) cx of (s, p, cx, sid) \<Rightarrow> (r\<lparr>pr_policy := p\<rparr>, s, cx, sid))"

definition periodic_handle_command ::
  "'t env \<Rightarrow> periodic_runtime \<Rightarrow> periodic_command \<Rightarrow> bool \<Rightarrow> duration \<Rightarrow> 't runtime_context
   \<Rightarrow> periodic_runtime \<times> 't runtime_context \<times> worker_command_progress" where
  "periodic_handle_command E r command ready now cx =
     (case command of
        Apply candidate \<Rightarrow> (r, input_commit candidate cx, CommandComplete (Inr ()))
      | PeriodicCommon (Press bs) \<Rightarrow>
          (r, complete_input_candidate (press_candidate (env_model E) (cx_input cx) bs) cx)
      | PeriodicCommon (Release bs) \<Rightarrow>
          (r, complete_input_candidate (release_candidate (env_model E) (cx_input cx) bs) cx)
      | PeriodicCommon NeutralCommand \<Rightarrow> (r, input_commit input_neutral cx, CommandComplete (Inr ()))
      | PeriodicCommon (Tap bs d) \<Rightarrow>
          (case tap_plan (env_model E) (cx_input cx) bs d of
             Inl e \<Rightarrow> (r, cx, CommandComplete (Inl (CommandInput e)))
           | Inr plan \<Rightarrow>
               (case periodic_tap_times now (snd (snd plan)) of
                  (now_ns, release_at) \<Rightarrow>
                    (case periodic_begin_tap E ready plan now_ns cx of
                       (cx, Inr tap) \<Rightarrow>
                         (r\<lparr>pr_pending_tap := Some \<lparr>spt_tap = tap, spt_release_at = release_at\<rparr>\<rparr>, cx, CommandPending)
                     | (cx, Inl e) \<Rightarrow> (r, cx, CommandComplete (Inl (CommandPeriodic e)))))))"

definition periodic_handle_event ::
  "'t env \<Rightarrow> periodic_runtime \<Rightarrow> transport_event \<Rightarrow> 't runtime_context
   \<Rightarrow> periodic_runtime \<times> 't runtime_context \<times> reporting_event" where
  "periodic_handle_event E r event cx =
     (case event of
        Disconnected reason \<Rightarrow>
          (r\<lparr>pr_pending_tap := None\<rparr>, cx,
           EventDisconnected reason (map_option (\<lambda>_. CommandDisconnected) (pr_pending_tap r)))
      | _ \<Rightarrow> (r, cx, Passthrough event))"

definition periodic_record_output ::
  "periodic_runtime \<Rightarrow> duration \<Rightarrow> output_completion \<Rightarrow> periodic_runtime \<times> (unit, worker_operation_error) result" where
  "periodic_record_output r completed_at completion =
     (case record_output_completion (pr_policy r) completed_at completion of
        (p, result) \<Rightarrow> (r\<lparr>pr_policy := p\<rparr>, map_err OperationPeriodic result))"

definition periodic_evaluate_readiness ::
  "periodic_runtime \<Rightarrow> duration \<Rightarrow> connection_sessions \<Rightarrow> handshake option \<Rightarrow> report_sender \<Rightarrow> readiness_gate
   \<Rightarrow> periodic_runtime \<times> handshake option \<times> readiness_gate \<times> (readiness_progress, readiness_error) result" where
  "periodic_evaluate_readiness r now s h sender g =
     (case evaluate_periodic g now s h sender (pr_policy r) of
        (g, h, p, result) \<Rightarrow> (r\<lparr>pr_policy := p\<rparr>, h, g, result))"

definition periodic_next_deadline :: "periodic_runtime \<Rightarrow> duration option" where
  "periodic_next_deadline r =
     minimum_deadline
       (case policy_next_deadline (pr_policy r) of
          Some d \<Rightarrow> Some d
        | None \<Rightarrow> pol_reply_holdoff_until (pr_policy r))
       (map_option spt_release_at (pr_pending_tap r))"

definition periodic_automatic_due_before_ready :: "periodic_runtime \<Rightarrow> bool" where
  "periodic_automatic_due_before_ready r = (policy_next_deadline (pr_policy r) \<noteq> None)"

definition periodic_send_automatic ::
  "'t env \<Rightarrow> periodic_runtime \<Rightarrow> duration \<Rightarrow> 't runtime_context
   \<Rightarrow> periodic_runtime \<times> 't runtime_context \<times> reporting_due" where
  "periodic_send_automatic E r now cx =
     (case send_due E (pr_policy r) now cx of
        (p, cx, result) \<Rightarrow>
          (r\<lparr>pr_policy := p\<rparr>, cx,
           (case result of
              Inr (AutoSent _ _) \<Rightarrow> due_none\<lparr>due_actions := 1\<rparr>
            | Inr AutoNotDue \<Rightarrow> due_none
            | Inr (AutoHeldOff _) \<Rightarrow> due_none
            | Inr (AutoBackpressured _) \<Rightarrow> due_none
            | Inl e \<Rightarrow> due_none\<lparr>due_actions := 1, due_errors := [OperationPeriodic e]\<rparr>)))"

text \<open>
  A due release is the only action of its pass and asks for an immediate next one, so a report due at
  the same time (\<open>policy.next_deadline() <= now\<close>, which sets the same flag again) follows at once.
\<close>

definition periodic_run_due ::
  "'t env \<Rightarrow> periodic_runtime \<Rightarrow> duration \<Rightarrow> 't runtime_context
   \<Rightarrow> periodic_runtime \<times> 't runtime_context \<times> reporting_due" where
  "periodic_run_due E r now cx =
     (case pr_pending_tap r of
        Some pending \<Rightarrow>
          if spt_release_at pending \<le> now then
            (case periodic_tap_finish E (spt_tap pending) (protocol_timestamp now) cx of
               (cx, result) \<Rightarrow>
                 (r\<lparr>pr_pending_tap := None\<rparr>, cx,
                  due_none\<lparr>due_actions := 1, due_immediate := True,
                    due_completion := Some (CommandComplete (map_err CommandPeriodic result))\<rparr>))
          else periodic_send_automatic E r now cx
      | None \<Rightarrow> periodic_send_automatic E r now cx)"

definition periodic_cancel_for_shutdown ::
  "'t env \<Rightarrow> periodic_runtime \<Rightarrow> 't runtime_context
   \<Rightarrow> periodic_runtime \<times> 't runtime_context \<times> worker_command_error option" where
  "periodic_cancel_for_shutdown E r cx =
     (r\<lparr>pr_pending_tap := None\<rparr>, cx, map_option (\<lambda>_. CommandShutdown) (pr_pending_tap r))"

definition periodic_stop_session :: "periodic_runtime \<Rightarrow> periodic_runtime" where
  "periodic_stop_session r = r\<lparr>pr_pending_tap := None, pr_policy := policy_stop_session (pr_policy r)\<rparr>"

definition periodic_has_pending :: "periodic_runtime \<Rightarrow> bool" where
  "periodic_has_pending r = (pr_pending_tap r \<noteq> None)"

definition periodic_reporting :: "(periodic_command, periodic_runtime, 't) worker_reporting" where
  "periodic_reporting = \<lparr>
     rp_begin_session = periodic_begin_session,
     rp_begin_handshake = handshake_new,
     rp_handle_command = periodic_handle_command,
     rp_handle_event = periodic_handle_event,
     rp_record_output = periodic_record_output,
     rp_evaluate_readiness = periodic_evaluate_readiness,
     rp_next_deadline = periodic_next_deadline,
     rp_automatic_due_before_ready = periodic_automatic_due_before_ready,
     rp_run_due = periodic_run_due,
     rp_cancel_for_shutdown = periodic_cancel_for_shutdown,
     rp_stop_session = periodic_stop_session,
     rp_has_pending = periodic_has_pending\<rparr>"

lemma periodic_reporting_fields [simp]:
  "rp_begin_session periodic_reporting = periodic_begin_session"
  "rp_begin_handshake periodic_reporting = handshake_new"
  "rp_handle_command periodic_reporting = periodic_handle_command"
  "rp_handle_event periodic_reporting = periodic_handle_event"
  "rp_record_output periodic_reporting = periodic_record_output"
  "rp_evaluate_readiness periodic_reporting = periodic_evaluate_readiness"
  "rp_next_deadline periodic_reporting = periodic_next_deadline"
  "rp_automatic_due_before_ready periodic_reporting = periodic_automatic_due_before_ready"
  "rp_run_due periodic_reporting = periodic_run_due"
  "rp_cancel_for_shutdown periodic_reporting = periodic_cancel_for_shutdown"
  "rp_stop_session periodic_reporting = periodic_stop_session"
  "rp_has_pending periodic_reporting = periodic_has_pending"
  by (simp_all add: periodic_reporting_def)

section \<open>Direct\<close>

record direct_runtime =
  dr_pending_tap :: "pending_direct_tap option"

definition direct_runtime_new :: direct_runtime where
  "direct_runtime_new = \<lparr>dr_pending_tap = None\<rparr>"

definition direct_begin_session ::
  "direct_runtime \<Rightarrow> connection_sessions \<Rightarrow> 't runtime_context
   \<Rightarrow> direct_runtime \<times> connection_sessions \<times> 't runtime_context \<times> session_id" where
  "direct_begin_session r s cx = (case begin_direct s cx of (s, cx, sid) \<Rightarrow> (r, s, cx, sid))"

definition complete_direct_send ::
  "'t env \<Rightarrow> input_state \<Rightarrow> bool \<Rightarrow> duration \<Rightarrow> 't runtime_context
   \<Rightarrow> 't runtime_context \<times> worker_command_progress" where
  "complete_direct_send E candidate ready now cx =
     (if \<not> ready then (cx, CommandComplete (Inl (CommandDirect DirectNotReady)))
      else case send_direct E candidate (protocol_timestamp now) cx of
        (cx, result) \<Rightarrow>
          (cx, CommandComplete (map_err (\<lambda>e. CommandDirect (DirectTransport e)) (map_ok (\<lambda>_. ()) result))))"

definition complete_direct_candidate ::
  "'t env \<Rightarrow> (input_state, error) result \<Rightarrow> bool \<Rightarrow> duration \<Rightarrow> 't runtime_context
   \<Rightarrow> 't runtime_context \<times> worker_command_progress" where
  "complete_direct_candidate E candidate ready now cx =
     (case candidate of
        Inr c \<Rightarrow> complete_direct_send E c ready now cx
      | Inl e \<Rightarrow> (cx, CommandComplete (Inl (CommandInput e))))"

definition direct_handle_command ::
  "'t env \<Rightarrow> direct_runtime \<Rightarrow> direct_command \<Rightarrow> bool \<Rightarrow> duration \<Rightarrow> 't runtime_context
   \<Rightarrow> direct_runtime \<times> 't runtime_context \<times> worker_command_progress" where
  "direct_handle_command E r command ready now cx =
     (if \<not> ready then (r, cx, CommandComplete (Inl (CommandDirect DirectNotReady)))
      else case command of
        SendState candidate \<Rightarrow> (r, complete_direct_send E candidate ready now cx)
      | DirectCommon (Press bs) \<Rightarrow>
          (r, complete_direct_candidate E (press_candidate (env_model E) (cx_input cx) bs) ready now cx)
      | DirectCommon (Release bs) \<Rightarrow>
          (r, complete_direct_candidate E (release_candidate (env_model E) (cx_input cx) bs) ready now cx)
      | DirectCommon NeutralCommand \<Rightarrow> (r, complete_direct_send E input_neutral ready now cx)
      | DirectCommon (Tap bs d) \<Rightarrow>
          (case tap_plan (env_model E) (cx_input cx) bs d of
             Inl e \<Rightarrow> (r, cx, CommandComplete (Inl (CommandInput e)))
           | Inr plan \<Rightarrow>
               (case direct_begin_tap E ready plan now cx of
                  (cx, Inr tap) \<Rightarrow> (r\<lparr>dr_pending_tap := Some tap\<rparr>, cx, CommandPending)
                | (cx, Inl e) \<Rightarrow> (r, cx, CommandComplete (Inl (CommandDirect e))))))"

text \<open>
  A pending tap is taken out and stepped.  HID output never completes it (\<open>unreachable!\<close>) and always
  yields an output result (\<open>expect\<close>); a disconnect always completes it.
\<close>

definition direct_handle_event ::
  "'t env \<Rightarrow> direct_runtime \<Rightarrow> transport_event \<Rightarrow> 't runtime_context
   \<Rightarrow> direct_runtime \<times> 't runtime_context \<times> reporting_event" where
  "direct_handle_event E r event cx =
     (case dr_pending_tap r of
        None \<Rightarrow> (r, cx, Passthrough event)
      | Some tap \<Rightarrow>
          let r = r\<lparr>dr_pending_tap := None\<rparr> in
          case event of
            HidOutput channel payload \<Rightarrow>
              (case direct_tap_step E tap (StimulusTransport (HidOutput channel payload)) cx of
                 (cx, TapPending tap completion) \<Rightarrow>
                   (r\<lparr>dr_pending_tap := Some tap\<rparr>, cx, EventOutput (the completion))
               | (cx, TapComplete _) \<Rightarrow> (r, cx, Passthrough event))
          | Disconnected reason \<Rightarrow>
              (case direct_tap_step E tap (StimulusTransport (Disconnected reason)) cx of
                 (cx, TapComplete result) \<Rightarrow>
                   (r, cx, EventDisconnected reason (map_option CommandDirect (err_of result)))
               | (cx, TapPending tap _) \<Rightarrow>
                   (r\<lparr>dr_pending_tap := Some tap\<rparr>, cx, EventDisconnected reason None))
          | _ \<Rightarrow> (r\<lparr>dr_pending_tap := Some tap\<rparr>, cx, Passthrough event))"

definition direct_record_output ::
  "direct_runtime \<Rightarrow> duration \<Rightarrow> output_completion \<Rightarrow> direct_runtime \<times> (unit, worker_operation_error) result" where
  "direct_record_output r completed_at completion = (r, Inr ())"

definition direct_evaluate_readiness ::
  "direct_runtime \<Rightarrow> duration \<Rightarrow> connection_sessions \<Rightarrow> handshake option \<Rightarrow> report_sender \<Rightarrow> readiness_gate
   \<Rightarrow> direct_runtime \<times> handshake option \<times> readiness_gate \<times> (readiness_progress, readiness_error) result" where
  "direct_evaluate_readiness r now s h sender g =
     (case evaluate_direct g now s h sender of (g, h, result) \<Rightarrow> (r, h, g, result))"

definition direct_next_deadline :: "direct_runtime \<Rightarrow> duration option" where
  "direct_next_deadline r = map_option pdt_release_at (dr_pending_tap r)"

definition direct_automatic_due_before_ready :: "direct_runtime \<Rightarrow> bool" where
  "direct_automatic_due_before_ready r = False"

definition direct_run_due ::
  "'t env \<Rightarrow> direct_runtime \<Rightarrow> duration \<Rightarrow> 't runtime_context
   \<Rightarrow> direct_runtime \<times> 't runtime_context \<times> reporting_due" where
  "direct_run_due E r now cx =
     (case dr_pending_tap r of
        None \<Rightarrow> (r, cx, due_none)
      | Some tap \<Rightarrow>
          if now < pdt_release_at tap then (r, cx, due_none)
          else case direct_tap_finish E tap now cx of
            (cx, result) \<Rightarrow>
              (r\<lparr>dr_pending_tap := None\<rparr>, cx,
               due_none\<lparr>due_actions := 1, due_immediate := True,
                 due_completion := Some (CommandComplete (map_err CommandDirect result))\<rparr>))"

definition direct_cancel_for_shutdown ::
  "'t env \<Rightarrow> direct_runtime \<Rightarrow> 't runtime_context
   \<Rightarrow> direct_runtime \<times> 't runtime_context \<times> worker_command_error option" where
  "direct_cancel_for_shutdown E r cx =
     (case dr_pending_tap r of
        None \<Rightarrow> (r, cx, None)
      | Some tap \<Rightarrow>
          let r = r\<lparr>dr_pending_tap := None\<rparr> in
          (case direct_tap_step E tap StimulusShutdown cx of
             (cx, TapComplete result) \<Rightarrow> (r, cx, map_option CommandDirect (err_of result))
           | (cx, TapPending tap _) \<Rightarrow> (r\<lparr>dr_pending_tap := Some tap\<rparr>, cx, None)))"

definition direct_stop_session :: "direct_runtime \<Rightarrow> direct_runtime" where
  "direct_stop_session r = r\<lparr>dr_pending_tap := None\<rparr>"

definition direct_has_pending :: "direct_runtime \<Rightarrow> bool" where
  "direct_has_pending r = (dr_pending_tap r \<noteq> None)"

definition direct_reporting :: "(direct_command, direct_runtime, 't) worker_reporting" where
  "direct_reporting = \<lparr>
     rp_begin_session = direct_begin_session,
     rp_begin_handshake = handshake_until_protocol_ready,
     rp_handle_command = direct_handle_command,
     rp_handle_event = direct_handle_event,
     rp_record_output = direct_record_output,
     rp_evaluate_readiness = direct_evaluate_readiness,
     rp_next_deadline = direct_next_deadline,
     rp_automatic_due_before_ready = direct_automatic_due_before_ready,
     rp_run_due = direct_run_due,
     rp_cancel_for_shutdown = direct_cancel_for_shutdown,
     rp_stop_session = direct_stop_session,
     rp_has_pending = direct_has_pending\<rparr>"

lemma direct_reporting_fields [simp]:
  "rp_begin_session direct_reporting = direct_begin_session"
  "rp_begin_handshake direct_reporting = handshake_until_protocol_ready"
  "rp_handle_command direct_reporting = direct_handle_command"
  "rp_handle_event direct_reporting = direct_handle_event"
  "rp_record_output direct_reporting = direct_record_output"
  "rp_evaluate_readiness direct_reporting = direct_evaluate_readiness"
  "rp_next_deadline direct_reporting = direct_next_deadline"
  "rp_automatic_due_before_ready direct_reporting = direct_automatic_due_before_ready"
  "rp_run_due direct_reporting = direct_run_due"
  "rp_cancel_for_shutdown direct_reporting = direct_cancel_for_shutdown"
  "rp_stop_session direct_reporting = direct_stop_session"
  "rp_has_pending direct_reporting = direct_has_pending"
  by (simp_all add: direct_reporting_def)

end
