(* ===== verification/FileStore.thy ===== *)
theory FileStore
  imports Prelude
begin

text \<open>
  \<open>src/profile/store.rs\<close>: the profile store on a file system.

  The part of \<open>std::path\<close> and \<open>std::fs\<close> that the store uses is written out: paths as their components, a disk of
  directory entries that refer to files by number (so that a hard link is two entries of one file), and the
  system calls on it.  Any call may be refused by the operating system (\<open>fw_refusals\<close>, in the order of the
  calls); a refused write may have written a part.  \<open>fw_trace\<close> collects the disk after every call, and every prefix
  of a write in progress: what another process, or the program after a crash, may find.  A file's contents are
  guaranteed to survive a power failure once it is synchronised (\<open>dk_synced\<close>).

  An entry is identified by the path it is reached by.  The directory synchronisation is the one of Unix.
  \<open>AtomicWriteFile\<close> is the crate \<open>atomic-write-file\<close>: the record \<open>atomic_writer\<close>, an argument of \<open>store_update\<close>.
\<close>

section \<open>The store as its clients see it\<close>

text \<open>
  The \<open>ProfileStore\<close> trait on a store state \<open>'fs\<close>; the error kinds are the ones the callers look at.
  \<open>read\<close> takes \<open>&mut self\<close>, so it may change the state.
\<close>

datatype io_error = IoNotFound | IoAlreadyExists | IoInvalidInput | IoOther

record 'fs profile_store =
  ps_read :: "string \<Rightarrow> 'fs \<Rightarrow> 'fs \<times> (string, io_error) result"
  ps_create_new :: "string \<Rightarrow> string \<Rightarrow> 'fs \<Rightarrow> 'fs \<times> (unit, io_error) result"
  ps_update :: "string \<Rightarrow> string \<Rightarrow> 'fs \<Rightarrow> 'fs \<times> (unit, io_error) result"

section \<open>Paths\<close>

record file_path =
  fp_absolute :: bool
  fp_components :: "string list"

fun split_components :: "string \<Rightarrow> string \<Rightarrow> string list" where
  "split_components [] acc = (if acc = [] then [] else [acc])"
| "split_components (c # cs) acc =
     (if c = CHR ''/'' then (if acc = [] then [] else [acc]) @ split_components cs []
      else split_components cs (acc @ [c]))"

text \<open>\<open>Path::components\<close>: repeated separators are one, and \<open>.\<close> is kept only at the start of a relative path.\<close>

definition parse_path :: "string \<Rightarrow> file_path" where
  "parse_path s =
     (let absolute = (case s of [] \<Rightarrow> False | c # _ \<Rightarrow> c = CHR ''/''); parts = split_components s [] in
      \<lparr>fp_absolute = absolute,
       fp_components =
         (if \<not> absolute \<and> parts \<noteq> [] \<and> hd parts = ''.'' then [''.''] else [])
         @ filter (\<lambda>c. c \<noteq> ''.'') parts\<rparr>)"

definition path_parent :: "file_path \<Rightarrow> file_path option" where
  "path_parent p =
     (if fp_components p = [] then None else Some (p\<lparr>fp_components := butlast (fp_components p)\<rparr>))"

definition path_file_name :: "file_path \<Rightarrow> string option" where
  "path_file_name p =
     (if fp_components p = [] \<or> last (fp_components p) \<in> {''.'', ''..''} then None
      else Some (last (fp_components p)))"

definition path_join :: "file_path \<Rightarrow> string \<Rightarrow> file_path" where
  "path_join p name = p\<lparr>fp_components := fp_components p @ [name]\<rparr>"

definition path_is_empty :: "file_path \<Rightarrow> bool" where
  "path_is_empty p = (\<not> fp_absolute p \<and> fp_components p = [])"

definition current_directory :: file_path where
  "current_directory = \<lparr>fp_absolute = False, fp_components = [''.'']\<rparr>"

text \<open>The entry a path names: \<open>./x\<close> and \<open>x\<close> are one entry.\<close>

datatype entry = Entry (entry_absolute: bool) (entry_names: "string list")

definition entry_key :: "file_path \<Rightarrow> entry" where
  "entry_key p = Entry (fp_absolute p) (filter (\<lambda>c. c \<noteq> ''.'') (fp_components p))"

section \<open>The disk\<close>

text \<open>For a symbolic link, what following it reaches.\<close>

datatype node = RegularFile nat | Directory | LinkToDirectory | LinkToFile nat | DanglingLink

record disk =
  dk_entries :: "entry \<Rightarrow> node option"
  dk_files :: "nat \<Rightarrow> string option"
  dk_synced :: "nat \<Rightarrow> bool"
  dk_next :: nat

definition dk_node :: "disk \<Rightarrow> file_path \<Rightarrow> node option" where
  "dk_node d p = dk_entries d (entry_key p)"

definition set_entry :: "file_path \<Rightarrow> node option \<Rightarrow> disk \<Rightarrow> disk" where
  "set_entry p n d = d\<lparr>dk_entries := (dk_entries d)(entry_key p := n)\<rparr>"

definition set_content :: "nat \<Rightarrow> string \<Rightarrow> disk \<Rightarrow> disk" where
  "set_content i bytes d =
     d\<lparr>dk_files := (dk_files d)(i := Some bytes), dk_synced := (dk_synced d)(i := False)\<rparr>"

text \<open>The root, the current directory and what \<open>..\<close> names have no entry and are always directories.\<close>

definition anchor :: "file_path \<Rightarrow> bool" where
  "anchor p = (entry_names (entry_key p) = [] \<or> last (entry_names (entry_key p)) = ''..'')"

definition leads_to_directory :: "disk \<Rightarrow> file_path \<Rightarrow> bool" where
  "leads_to_directory d p =
     (anchor p \<or> dk_node d p = Some Directory \<or> dk_node d p = Some LinkToDirectory)"

definition occupied :: "disk \<Rightarrow> file_path \<Rightarrow> bool" where
  "occupied d p = (anchor p \<or> dk_node d p \<noteq> None)"

text \<open>The error of a call that adds an entry whose directory is missing or not a directory.\<close>

definition parent_problem :: "disk \<Rightarrow> file_path \<Rightarrow> io_error option" where
  "parent_problem d p =
     (case path_parent p of
        None \<Rightarrow> Some IoNotFound
      | Some parent \<Rightarrow>
          if leads_to_directory d parent then None
          else if occupied d parent then Some IoOther else Some IoNotFound)"

section \<open>System calls\<close>

record fs_world =
  fw_disk :: disk
  fw_sequence :: u64              \<comment> \<open>\<open>NEXT_TEMP_FILE\<close>\<close>
  fw_process_id :: nat
  fw_refusals :: "(io_error \<times> nat) option list"
  fw_trace :: "disk list"

type_synonym 'a io = "fs_world \<Rightarrow> fs_world \<times> ('a, io_error) result"

definition io_return :: "'a \<Rightarrow> 'a io" where
  "io_return a w = (w, Inr a)"

definition io_fail :: "io_error \<Rightarrow> 'a io" where
  "io_fail e w = (w, Inl e)"

definition io_bind :: "'a io \<Rightarrow> ('a \<Rightarrow> 'b io) \<Rightarrow> 'b io" where
  "io_bind m f w = (case m w of (w, Inl e) \<Rightarrow> (w, Inl e) | (w, Inr a) \<Rightarrow> f a w)"

definition io_attempt :: "'a io \<Rightarrow> (('a, io_error) result \<Rightarrow> 'b io) \<Rightarrow> 'b io" where
  "io_attempt m f w = (case m w of (w, r) \<Rightarrow> f r w)"

definition take_refusal :: "fs_world \<Rightarrow> fs_world \<times> (io_error \<times> nat) option" where
  "take_refusal w =
     (case fw_refusals w of [] \<Rightarrow> (w, None) | r # rest \<Rightarrow> (w\<lparr>fw_refusals := rest\<rparr>, r))"

definition show_disk :: "disk \<Rightarrow> fs_world \<Rightarrow> fs_world" where
  "show_disk d w = w\<lparr>fw_disk := d, fw_trace := fw_trace w @ [d]\<rparr>"

definition syscall :: "(disk \<Rightarrow> disk \<times> ('a, io_error) result) \<Rightarrow> 'a io" where
  "syscall f w =
     (case take_refusal w of
        (w, Some (e, _)) \<Rightarrow> (w, Inl e)
      | (w, None) \<Rightarrow> (case f (fw_disk w) of (d, r) \<Rightarrow> (show_disk d w, r)))"

definition disk_mkdir :: "file_path \<Rightarrow> disk \<Rightarrow> disk \<times> (unit, io_error) result" where
  "disk_mkdir p d = (
     if occupied d p then (d, Inl IoAlreadyExists)
     else case parent_problem d p of
       Some e \<Rightarrow> (d, Inl e)
     | None \<Rightarrow> (set_entry p (Some Directory) d, Inr ()))"

definition sys_mkdir :: "file_path \<Rightarrow> unit io" where
  "sys_mkdir p = syscall (disk_mkdir p)"

definition sys_is_dir :: "file_path \<Rightarrow> bool io" where
  "sys_is_dir p = syscall (\<lambda>d. (d, Inr (leads_to_directory d p)))"

definition disk_metadata :: "file_path \<Rightarrow> disk \<Rightarrow> disk \<times> (node, io_error) result" where
  "disk_metadata p d = (
     (d, if path_is_empty p then Inl IoNotFound
         else if anchor p then Inr Directory
         else case dk_node d p of None \<Rightarrow> Inl IoNotFound | Some n \<Rightarrow> Inr n))"

definition sys_symlink_metadata :: "file_path \<Rightarrow> node io" where
  "sys_symlink_metadata p = syscall (disk_metadata p)"

text \<open>\<open>open\<close> with \<open>create_new\<close>: the handle is the number of the new file.\<close>

definition disk_create_new :: "file_path \<Rightarrow> disk \<Rightarrow> disk \<times> (nat, io_error) result" where
  "disk_create_new p d = (
     if occupied d p then (d, Inl IoAlreadyExists)
     else case parent_problem d p of
       Some e \<Rightarrow> (d, Inl e)
     | None \<Rightarrow>
         ((set_content (dk_next d) [] (set_entry p (Some (RegularFile (dk_next d))) d))\<lparr>dk_next := dk_next d + 1\<rparr>,
          Inr (dk_next d)))"

definition sys_create_new :: "file_path \<Rightarrow> nat io" where
  "sys_create_new p = syscall (disk_create_new p)"

definition sys_write_all :: "nat \<Rightarrow> string \<Rightarrow> unit io" where
  "sys_write_all i bytes w =
     (case take_refusal w of
        (w, refusal) \<Rightarrow>
          let written = (case refusal of None \<Rightarrow> length bytes | Some (_, n) \<Rightarrow> min n (length bytes));
              w = fold (\<lambda>n. show_disk (set_content i (take n bytes) (fw_disk w))) [0..<Suc written] w
          in (w, case refusal of None \<Rightarrow> Inr () | Some (e, _) \<Rightarrow> Inl e))"

definition sys_sync_all :: "nat \<Rightarrow> unit io" where
  "sys_sync_all i = syscall (\<lambda>d. (d\<lparr>dk_synced := (dk_synced d)(i := True)\<rparr>, Inr ()))"

definition disk_hard_link :: "file_path \<Rightarrow> file_path \<Rightarrow> disk \<Rightarrow> disk \<times> (unit, io_error) result" where
  "disk_hard_link original link d = (
     case dk_node d original of
       None \<Rightarrow> (d, Inl IoNotFound)
     | Some n \<Rightarrow>
         if occupied d link then (d, Inl IoAlreadyExists)
         else case parent_problem d link of
           Some e \<Rightarrow> (d, Inl e)
         | None \<Rightarrow> (set_entry link (Some n) d, Inr ()))"

definition sys_hard_link :: "file_path \<Rightarrow> file_path \<Rightarrow> unit io" where
  "sys_hard_link original link = syscall (disk_hard_link original link)"

definition disk_remove_file :: "file_path \<Rightarrow> disk \<Rightarrow> disk \<times> (unit, io_error) result" where
  "disk_remove_file p d = (
     if anchor p \<or> dk_node d p = Some Directory then (d, Inl IoOther)
     else case dk_node d p of
       None \<Rightarrow> (d, Inl IoNotFound)
     | Some _ \<Rightarrow> (set_entry p None d, Inr ()))"

definition sys_remove_file :: "file_path \<Rightarrow> unit io" where
  "sys_remove_file p = syscall (disk_remove_file p)"

definition sys_open_directory :: "file_path \<Rightarrow> unit io" where
  "sys_open_directory p = syscall (\<lambda>d. (d, if occupied d p then Inr () else Inl IoNotFound))"

definition sys_sync_directory :: "unit io" where
  "sys_sync_directory = syscall (\<lambda>d. (d, Inr ()))"

definition file_contents :: "disk \<Rightarrow> file_path \<Rightarrow> (string, io_error) result" where
  "file_contents d p =
     (let of_file = (\<lambda>i. case dk_files d i of None \<Rightarrow> Inl IoOther | Some bytes \<Rightarrow> Inr bytes) in
      case dk_node d p of
        Some (RegularFile i) \<Rightarrow> of_file i
      | Some (LinkToFile i) \<Rightarrow> of_file i
      | Some Directory \<Rightarrow> Inl IoOther
      | Some LinkToDirectory \<Rightarrow> Inl IoOther
      | Some DanglingLink \<Rightarrow> Inl IoNotFound
      | None \<Rightarrow> Inl (if anchor p \<and> \<not> path_is_empty p then IoOther else IoNotFound))"

text \<open>\<open>fs::create_dir_all\<close> of the standard library, by recursion on the number of components.\<close>

definition accept_directory :: "file_path \<Rightarrow> io_error \<Rightarrow> unit io" where
  "accept_directory p e =
     io_attempt (sys_is_dir p) (\<lambda>r. if r = Inr True then io_return () else io_fail e)"

fun create_dir_all_fuel :: "nat \<Rightarrow> file_path \<Rightarrow> unit io" where
  "create_dir_all_fuel fuel p =
     (if path_is_empty p then io_return ()
      else io_attempt (sys_mkdir p) (\<lambda>r.
        case r of
          Inr _ \<Rightarrow> io_return ()
        | Inl e \<Rightarrow>
            if e \<noteq> IoNotFound then accept_directory p e
            else (case (path_parent p, fuel) of
                (Some parent, Suc fuel) \<Rightarrow>
                  io_bind (create_dir_all_fuel fuel parent) (\<lambda>_.
                  io_attempt (sys_mkdir p) (\<lambda>r.
                    case r of Inr _ \<Rightarrow> io_return () | Inl e \<Rightarrow> accept_directory p e))
              | _ \<Rightarrow> io_fail IoOther)))"

declare create_dir_all_fuel.simps [simp del]

definition create_dir_all :: "file_path \<Rightarrow> unit io" where
  "create_dir_all p = create_dir_all_fuel (length (fp_components p)) p"

section \<open>The store\<close>

definition temp_create_attempts :: nat where "temp_create_attempts = 128"

definition usable_parent :: "file_path \<Rightarrow> file_path" where
  "usable_parent p =
     (case path_parent p of
        None \<Rightarrow> current_directory
      | Some parent \<Rightarrow> if path_is_empty parent then current_directory else parent)"

definition fetch_sequence :: "u64 io" where
  "fetch_sequence w = (w\<lparr>fw_sequence := fw_sequence w + 1\<rparr>, Inr (fw_sequence w))"

definition temporary_name :: "string \<Rightarrow> nat \<Rightarrow> u64 \<Rightarrow> string" where
  "temporary_name target_name pid sequence =
     ''.'' @ target_name @ ''.swbt-profile-'' @ decimal pid @ ''-'' @ decimal (unat sequence) @ ''.tmp''"

text \<open>The attempts that remain of the \<open>for\<close> loop; the result is the temporary path and its file.\<close>

fun temporary_loop :: "nat \<Rightarrow> file_path \<Rightarrow> string \<Rightarrow> (file_path \<times> nat) io" where
  "temporary_loop 0 parent target_name = io_fail IoAlreadyExists"
| "temporary_loop (Suc attempts) parent target_name =
     io_bind fetch_sequence (\<lambda>sequence w.
       let path = path_join parent (temporary_name target_name (fw_process_id w) sequence) in
       io_attempt (sys_create_new path) (\<lambda>r.
         case r of
           Inr i \<Rightarrow> io_return (path, i)
         | Inl e \<Rightarrow> if e = IoAlreadyExists then temporary_loop attempts parent target_name else io_fail e) w)"

definition create_temporary :: "file_path \<Rightarrow> file_path \<Rightarrow> (file_path \<times> nat) io" where
  "create_temporary parent target =
     (case path_file_name target of
        None \<Rightarrow> io_fail IoInvalidInput
      | Some target_name \<Rightarrow> temporary_loop temp_create_attempts parent target_name)"

definition sync_parent_directory :: "file_path \<Rightarrow> unit io" where
  "sync_parent_directory parent = io_bind (sys_open_directory parent) (\<lambda>_. sys_sync_directory)"

text \<open>The closure \<open>publish\<close> of \<open>create_new\<close>; \<open>flush\<close> of a file and dropping it call nothing.\<close>

definition publish :: "file_path \<Rightarrow> file_path \<Rightarrow> file_path \<Rightarrow> nat \<Rightarrow> string \<Rightarrow> unit io" where
  "publish parent path temporary_path i bytes =
     io_bind (sys_write_all i bytes) (\<lambda>_.
     io_bind (sys_sync_all i) (\<lambda>_.
     io_bind (io_attempt (sys_hard_link temporary_path path) (\<lambda>r.
         case r of
           Inr _ \<Rightarrow> io_return ()
         | Inl source \<Rightarrow>
             io_attempt (sys_symlink_metadata path) (\<lambda>m.
               io_fail (if is_ok m then IoAlreadyExists else source)))) (\<lambda>_.
     io_bind (sys_remove_file temporary_path) (\<lambda>_.
     sync_parent_directory parent))))"

definition store_create_new :: "file_path \<Rightarrow> string \<Rightarrow> unit io" where
  "store_create_new path bytes =
     (let parent = usable_parent path in
      io_bind (create_dir_all parent) (\<lambda>_.
      io_bind (create_temporary parent path) (\<lambda>(temporary_path, i).
      io_attempt (publish parent path temporary_path i bytes) (\<lambda>published.
        if \<not> is_ok published
        then io_attempt (sys_remove_file temporary_path) (\<lambda>_ w. (w, published))
        else (\<lambda>w. (w, published))))))"

definition store_read :: "file_path \<Rightarrow> string io" where
  "store_read p = syscall (\<lambda>d. (d, file_contents d p))"

text \<open>
  \<open>AtomicWriteFile\<close>: a handle \<open>'h\<close> is opened for a path, written, synchronised and committed.  Each operation
  hands the handle on; one that is not committed is dropped.
\<close>

record 'h atomic_writer =
  aw_open :: "file_path \<Rightarrow> 'h io"
  aw_write_all :: "'h \<Rightarrow> string \<Rightarrow> 'h io"
  aw_flush :: "'h \<Rightarrow> 'h io"
  aw_sync_all :: "'h \<Rightarrow> 'h io"
  aw_commit :: "'h \<Rightarrow> unit io"
  aw_drop :: "'h \<Rightarrow> fs_world \<Rightarrow> fs_world"

text \<open>A step on an open handle: when it fails, the handle is dropped.\<close>

definition atomic_step :: "'h atomic_writer \<Rightarrow> 'h \<Rightarrow> 'h io \<Rightarrow> 'h io" where
  "atomic_step A h m w = (case m w of (w, Inl e) \<Rightarrow> (aw_drop A h w, Inl e) | (w, Inr h) \<Rightarrow> (w, Inr h))"

definition store_update :: "'h atomic_writer \<Rightarrow> file_path \<Rightarrow> string \<Rightarrow> unit io" where
  "store_update A path replacement =
     io_bind (sys_symlink_metadata path) (\<lambda>metadata.
       case metadata of
         RegularFile _ \<Rightarrow>
           io_bind (aw_open A path) (\<lambda>h.
           io_bind (atomic_step A h (aw_write_all A h replacement)) (\<lambda>h.
           io_bind (atomic_step A h (aw_flush A h)) (\<lambda>h.
           io_bind (atomic_step A h (aw_sync_all A h)) (\<lambda>h.
           io_bind (aw_commit A h) (\<lambda>_.
           sync_parent_directory (usable_parent path))))))
       | _ \<Rightarrow> io_fail IoInvalidInput)"

definition file_profile_store :: "'h atomic_writer \<Rightarrow> fs_world profile_store" where
  "file_profile_store A = \<lparr>
     ps_read = (\<lambda>path. store_read (parse_path path)),
     ps_create_new = (\<lambda>path. store_create_new (parse_path path)),
     ps_update = (\<lambda>path. store_update A (parse_path path))\<rparr>"

section \<open>An empty disk\<close>

definition empty_disk :: disk where
  "empty_disk = \<lparr>dk_entries = (\<lambda>_. None), dk_files = (\<lambda>_. None), dk_synced = (\<lambda>_. False), dk_next = 0\<rparr>"

definition empty_world :: fs_world where
  "empty_world = \<lparr>fw_disk = empty_disk, fw_sequence = 0, fw_process_id = 7, fw_refusals = [], fw_trace = []\<rparr>"

end
