(* ===== verification/ControllerConfig.thy ===== *)
theory ControllerConfig
  imports ProfileDocument Reporting FileStore
begin

text \<open>
  How a controller is configured: the builder and its options (\<open>src/controller/mod.rs\<close>, \<open>config.rs\<close>,
  \<open>create.rs\<close>, \<open>build.rs\<close>), the reporting modes' options (\<open>src/reporting/mod.rs\<close>), the connection
  options (\<open>src/connection.rs\<close>) and the transport's static configuration (\<open>src/runtime/transport/config.rs\<close>).

  The type parameter \<open>M\<close> is a value of \<open>controller_kind\<close> as everywhere; the mode parameter \<open>R\<close> is a record of
  the operations of \<open>sealed::Sealed\<close>.  Paths and adapter selectors are uninterpreted strings.
\<close>

section \<open>Reporting modes\<close>

definition min_report_period :: duration where "min_report_period = from_millis 1"
definition default_report_period :: duration where "default_report_period = from_millis 8"
definition max_report_period :: duration where "max_report_period = from_secs 1"

definition validated_report_period :: "duration \<Rightarrow> (duration, error) result" where
  "validated_report_period period =
     (if min_report_period \<le> period \<and> period \<le> max_report_period then Inr period
      else Inl (new_error InvalidInput))"

record ('o, 'g, 'c, 'r) reporting_mode =
  md_default_options :: 'o
  md_validate :: "'o \<Rightarrow> ('g, error) result"
  md_common :: "common_command \<Rightarrow> 'c"
  md_build_state :: "'g \<Rightarrow> 'r option"

text \<open>
  \<open>md_build_state\<close> is the reporting state that \<open>build_worker\<close> starts from; \<open>None\<close> is the panic of
  \<open>expect("validated report period is non-zero")\<close>.
\<close>

definition periodic_build_state :: "duration \<Rightarrow> periodic_runtime option" where
  "periodic_build_state period = (case periodic_runtime_new period of Inl _ \<Rightarrow> None | Inr r \<Rightarrow> Some r)"

definition periodic_mode :: "(duration, duration, periodic_command, periodic_runtime) reporting_mode" where
  "periodic_mode = \<lparr>md_default_options = default_report_period, md_validate = validated_report_period,
     md_common = PeriodicCommon, md_build_state = periodic_build_state\<rparr>"

definition direct_mode :: "(unit, unit, direct_command, direct_runtime) reporting_mode" where
  "direct_mode = \<lparr>md_default_options = (), md_validate = Inr, md_common = DirectCommon,
     md_build_state = (\<lambda>_. Some direct_runtime_new)\<rparr>"

section \<open>Options and configurations\<close>

record connect_options =
  co_timeout :: duration
  co_allow_pairing :: bool

datatype connection_path = Reconnected | Paired

record create_profile_options =
  cp_identity :: profile_identity
  cp_pair_timeout :: duration

record 'g builder_config =
  bc_adapter :: string
  bc_profile_path :: "string option"
  bc_colors :: controller_colors
  bc_mode :: 'g

datatype profile_config = Ephemeral | Persistent string profile_document   \<comment> \<open>path, profile\<close>

record 'g controller_config =
  cf_adapter :: string
  cf_profile :: profile_config
  cf_colors :: controller_colors
  cf_mode :: 'g

fun persistent_path :: "profile_config \<Rightarrow> string option" where
  "persistent_path Ephemeral = None"
| "persistent_path (Persistent path _) = Some path"

fun profile_config_identity :: "profile_config \<Rightarrow> profile_identity" where
  "profile_config_identity Ephemeral = AdapterDefault"
| "profile_config_identity (Persistent _ profile) = doc_identity profile"

definition finalize_with_profile ::
  "(string \<Rightarrow> (profile_document, error) result) \<Rightarrow> 'g builder_config \<Rightarrow> ('g controller_config, error) result" where
  "finalize_with_profile load_profile b =
     bind_result
       (case bc_profile_path b of
          Some path \<Rightarrow> map_ok (Persistent path) (load_profile path)
        | None \<Rightarrow> Inr Ephemeral)
       (\<lambda>profile. Inr \<lparr>cf_adapter = bc_adapter b, cf_profile = profile, cf_colors = bc_colors b, cf_mode = bc_mode b\<rparr>)"

section \<open>The transport's configuration\<close>

record hid_sdp_policy_config =
  sdp_service_name :: string
  sdp_service_description :: "string option"
  sdp_provider_name :: "string option"
  sdp_device_release_number :: "u16 option"
  sdp_bluetooth_profile_version :: u16
  sdp_parser_version :: u16
  sdp_device_subclass :: u8
  sdp_country_code :: u8
  sdp_virtual_cable :: bool
  sdp_reconnect_initiate :: bool
  sdp_remote_wake :: "bool option"
  sdp_profile_version :: u16
  sdp_supervision_timeout :: u16
  sdp_normally_connectable :: bool
  sdp_boot_device :: bool
  sdp_ssr_host_max_latency :: u16
  sdp_ssr_host_min_timeout :: u16

record hid_service_config =
  hid_report_descriptor_bytes :: "u8 list"
  hid_sdp_policy_of :: hid_sdp_policy_config

record transport_config =
  tc_local_name :: string
  tc_class_of_device :: u32
  tc_hid_service :: hid_service_config

definition transport_config_for_model :: "controller_kind \<Rightarrow> transport_config" where
  "transport_config_for_model m =
     (let protocol = protocol_spec m; source_policy = hid_sdp_policy protocol in
      \<lparr>tc_local_name = local_name protocol, tc_class_of_device = class_of_device protocol,
       tc_hid_service = \<lparr>hid_report_descriptor_bytes = hid_report_descriptor protocol,
         hid_sdp_policy_of = \<lparr>
           sdp_service_name =
             (case service_name source_policy of Some name \<Rightarrow> name | None \<Rightarrow> local_name protocol),
           sdp_service_description = service_description source_policy,
           sdp_provider_name = provider_name source_policy,
           sdp_device_release_number = device_release_number source_policy,
           sdp_bluetooth_profile_version = bluetooth_profile_version source_policy,
           sdp_parser_version = parser_version source_policy,
           sdp_device_subclass = device_subclass source_policy,
           sdp_country_code = country_code source_policy,
           sdp_virtual_cable = virtual_cable source_policy,
           sdp_reconnect_initiate = reconnect_initiate source_policy,
           sdp_remote_wake = remote_wake source_policy,
           sdp_profile_version = profile_version source_policy,
           sdp_supervision_timeout = supervision_timeout source_policy,
           sdp_normally_connectable = normally_connectable source_policy,
           sdp_boot_device = boot_device source_policy,
           sdp_ssr_host_max_latency = ssr_host_max_latency source_policy,
           sdp_ssr_host_min_timeout = ssr_host_min_timeout source_policy\<rparr>\<rparr>\<rparr>)"

section \<open>The builder\<close>

record 'o controller_builder =
  cb_adapter :: string
  cb_profile_path :: "string option"
  cb_colors :: controller_colors
  cb_mode :: 'o

definition controller_builder_new ::
  "('o, 'g, 'c, 'r) reporting_mode \<Rightarrow> controller_kind \<Rightarrow> string \<Rightarrow> 'o controller_builder" where
  "controller_builder_new mode m adapter =
     \<lparr>cb_adapter = adapter, cb_profile_path = None, cb_colors = default_colors (protocol_spec m),
      cb_mode = md_default_options mode\<rparr>"

definition with_profile_path :: "string \<Rightarrow> 'o controller_builder \<Rightarrow> 'o controller_builder" where
  "with_profile_path path b = b\<lparr>cb_profile_path := Some path\<rparr>"

definition with_controller_colors :: "controller_colors \<Rightarrow> 'o controller_builder \<Rightarrow> 'o controller_builder" where
  "with_controller_colors colors b = b\<lparr>cb_colors := colors\<rparr>"

definition with_report_period :: "duration \<Rightarrow> duration controller_builder \<Rightarrow> duration controller_builder" where
  "with_report_period period b = b\<lparr>cb_mode := period\<rparr>"

definition builder_validate ::
  "('o, 'g, 'c, 'r) reporting_mode \<Rightarrow> 'o controller_builder \<Rightarrow> ('g builder_config, error) result" where
  "builder_validate mode b =
     bind_result (md_validate mode (cb_mode b)) (\<lambda>g.
       Inr \<lparr>bc_adapter = cb_adapter b, bc_profile_path = cb_profile_path b, bc_colors = cb_colors b, bc_mode = g\<rparr>)"

section \<open>Loading a profile\<close>

definition read_typed_profile ::
  "json_codec \<Rightarrow> 'fs profile_store \<Rightarrow> controller_kind \<Rightarrow> string \<Rightarrow> 'fs \<Rightarrow> 'fs \<times> (profile_document, error) result" where
  "read_typed_profile J S m path fs =
     (case ps_read S path fs of
        (fs, Inl source) \<Rightarrow> (fs, Inl (new_error (if source = IoNotFound then ProfileNotFound else Internal)))
      | (fs, Inr bytes) \<Rightarrow> (fs, bind_result (document_parse_json J bytes) (pairing_profile_try_from m)))"

text \<open>\<open>build_with_profile_reader\<close>: the profile is read only after the builder's settings were validated.\<close>

definition build_with_profile_reader ::
  "json_codec \<Rightarrow> 'fs profile_store \<Rightarrow> ('o, 'g, 'c, 'r) reporting_mode \<Rightarrow> controller_kind \<Rightarrow> 'o controller_builder
   \<Rightarrow> 'fs \<Rightarrow> 'fs \<times> ('g controller_config, error) result" where
  "build_with_profile_reader J S mode m b fs =
     (case builder_validate mode b of
        Inl e \<Rightarrow> (fs, Inl e)
      | Inr bc \<Rightarrow>
          (case bc_profile_path bc of
             None \<Rightarrow> (fs, finalize_with_profile (\<lambda>_. Inl (new_error Internal)) bc)
           | Some path \<Rightarrow>
               (case read_typed_profile J S m path fs of
                  (fs, loaded) \<Rightarrow> (fs, finalize_with_profile (\<lambda>_. loaded) bc))))"

section \<open>Creating a profile\<close>

definition validate_connection_timeout :: "duration \<Rightarrow> (unit, error) result" where
  "validate_connection_timeout timeout =
     (if fits_protocol_timestamp timeout then Inr () else Inl (new_error InvalidInput))"

record 'g create_profile_plan =
  pl_config :: "'g builder_config"
  pl_path :: string
  pl_identity :: profile_identity
  pl_pair_timeout :: duration

definition validate_target ::
  "'g builder_config \<Rightarrow> create_profile_options \<Rightarrow> ('g create_profile_plan, error) result" where
  "validate_target config options =
     (case bc_profile_path config of
        None \<Rightarrow> Inl (new_error ProfilePathRequired)
      | Some path \<Rightarrow>
          bind_result (validate_connection_timeout (cp_pair_timeout options)) (\<lambda>_.
            Inr \<lparr>pl_config = config, pl_path = path, pl_identity = cp_identity options,
              pl_pair_timeout = cp_pair_timeout options\<rparr>))"

definition validate_create_profile ::
  "('o, 'g, 'c, 'r) reporting_mode \<Rightarrow> 'o controller_builder \<Rightarrow> create_profile_options
   \<Rightarrow> ('g create_profile_plan, error) result" where
  "validate_create_profile mode b options =
     bind_result (builder_validate mode b) (\<lambda>config. validate_target config options)"

definition persist_and_configure ::
  "json_codec \<Rightarrow> 'fs profile_store \<Rightarrow> controller_kind \<Rightarrow> 'g create_profile_plan \<Rightarrow> 'fs
   \<Rightarrow> 'fs \<times> ('g controller_config \<times> duration, error) result" where
  "persist_and_configure J S m plan fs =
     (let profile = document_empty m (pl_identity plan) in
      case document_to_json_bytes J profile of
        Inl e \<Rightarrow> (fs, Inl e)
      | Inr bytes \<Rightarrow>
          (case ps_create_new S (pl_path plan) bytes fs of
             (fs, Inl source) \<Rightarrow>
               (fs, Inl (new_error (if source = IoAlreadyExists then ProfileAlreadyExists else Internal)))
           | (fs, Inr _) \<Rightarrow>
               (fs, bind_result (finalize_with_profile (\<lambda>_. Inr profile) (pl_config plan))
                  (\<lambda>config. Inr (config, pl_pair_timeout plan)))))"

section \<open>Every configuration can start\<close>

lemma validated_report_period_eq:
  "validated_report_period p = (if 10 ^ 6 \<le> p \<and> p \<le> 10 ^ 9 then Inr p else Inl (new_error InvalidInput))"
  by (simp add: validated_report_period_def min_report_period_def max_report_period_def from_millis_def
      from_secs_def nanos_per_second_def)

lemma periodic_build_state_nonzero: "0 < p \<Longrightarrow> periodic_build_state p \<noteq> None"
  by (simp add: periodic_build_state_def periodic_runtime_new_def periodic_policy_new_def bind_result_def)

text \<open>
  A builder's period is checked before anything else happens.  Building a periodic controller succeeds
  only for periods from 1 ms to 1 s, fails otherwise with invalid input and without touching the profile store, and
  every configuration it yields has a reporting state to start from: the \<open>expect\<close> of \<open>build_worker\<close> cannot fail.
\<close>

theorem periodic_configurations_start:
  "(case build_with_profile_reader J S periodic_mode m b fs of
      (fs', Inl e) \<Rightarrow> (if 10 ^ 6 \<le> cb_mode b \<and> cb_mode b \<le> 10 ^ 9 then cb_profile_path b \<noteq> None
                       else e = new_error InvalidInput \<and> fs' = fs)
    | (fs', Inr config) \<Rightarrow> 10 ^ 6 \<le> cf_mode config \<and> cf_mode config \<le> 10 ^ 9 \<and> cf_mode config = cb_mode b
        \<and> md_build_state periodic_mode (cf_mode config) \<noteq> None
        \<and> persistent_path (cf_profile config) = cb_profile_path b)"
proof (cases "10 ^ 6 \<le> cb_mode b \<and> cb_mode b \<le> 10 ^ 9")
  case True
  have "0 < cb_mode b"
    using True by simp
  then have start: "periodic_build_state (cb_mode b) \<noteq> None"
    by (rule periodic_build_state_nonzero)
  show ?thesis
    using True start
    by (auto simp: build_with_profile_reader_def builder_validate_def periodic_mode_def validated_report_period_eq
        finalize_with_profile_def bind_result_def map_ok_def split: option.split prod.split sum.split)
next
  case False
  then show ?thesis
    by (auto simp: build_with_profile_reader_def builder_validate_def periodic_mode_def validated_report_period_eq
        bind_result_def)
qed

end
