(* ===== verification/FileSafety.thy ===== *)
theory FileSafety
  imports FileStore
begin

text \<open>
  What the profile store guarantees of the disk, at every moment of a call and whatever the operating system
  refuses: \<open>create_new\<close> adds a complete synchronised file or nothing at the target and changes nothing that
  existed; \<open>update\<close> shows the old or the new contents and nothing in between.

  The proofs use a small program logic: \<open>runs S D m E\<close> says that from a disk with \<open>D\<close>, \<open>m\<close> shows only disks with
  \<open>S\<close> and ends with its result and disk in \<open>E\<close>.
\<close>

section \<open>The logic\<close>

definition shown_since :: "fs_world \<Rightarrow> fs_world \<Rightarrow> disk set" where
  "shown_since w w' = set (drop (length (fw_trace w)) (fw_trace w'))"

definition runs :: "(disk \<Rightarrow> bool) \<Rightarrow> (disk \<Rightarrow> bool) \<Rightarrow> 'a io \<Rightarrow> (('a, io_error) result \<Rightarrow> disk \<Rightarrow> bool) \<Rightarrow> bool" where
  "runs S D m E =
     (\<forall>w. D (fw_disk w) \<longrightarrow>
       (case m w of (w', r) \<Rightarrow>
          (\<exists>shown. fw_trace w' = fw_trace w @ shown \<and> (\<forall>d \<in> set shown. S d)) \<and> E r (fw_disk w')))"

lemma runsD:
  assumes "runs S D m E" "D (fw_disk w)" "m w = (w', r)"
  shows "\<exists>shown. fw_trace w' = fw_trace w @ shown \<and> (\<forall>d \<in> set shown. S d)" and "E r (fw_disk w')"
  using assms by (auto simp: runs_def)

lemma runs_weaken:
  assumes "runs S D m E" "\<And>d. D' d \<Longrightarrow> D d" "\<And>r d. E r d \<Longrightarrow> E' r d"
  shows "runs S D' m E'"
  using assms unfolding runs_def by (fastforce split: prod.splits)

lemma runs_return: "(\<And>d. D d \<Longrightarrow> E (Inr a) d) \<Longrightarrow> runs S D (io_return a) E"
  by (simp add: runs_def io_return_def)

lemma runs_fail: "(\<And>d. D d \<Longrightarrow> E (Inl e) d) \<Longrightarrow> runs S D (io_fail e) E"
  by (simp add: runs_def io_fail_def)

lemma runs_pure: "(\<And>d. D d \<Longrightarrow> E r d) \<Longrightarrow> runs S D (\<lambda>w. (w, r)) E"
  by (simp add: runs_def)

lemma runs_attempt:
  assumes "runs S D m F" "\<And>r. runs S (F r) (f r) E"
  shows "runs S D (io_attempt m f) E"
  unfolding runs_def
proof (intro allI impI)
  fix w :: fs_world
  assume "D (fw_disk w)"
  moreover obtain w1 r1 where m: "m w = (w1, r1)" by (cases "m w")
  moreover obtain w2 r2 where f: "f r1 w1 = (w2, r2)" by (cases "f r1 w1")
  ultimately show "case io_attempt m f w of (w', r) \<Rightarrow>
      (\<exists>shown. fw_trace w' = fw_trace w @ shown \<and> (\<forall>d \<in> set shown. S d)) \<and> E r (fw_disk w')"
    using runsD[OF assms(1) _ m] runsD[OF assms(2)[of r1] _ f]
    by (fastforce simp: io_attempt_def)
qed

lemma io_bind_attempt: "io_bind m f = io_attempt m (\<lambda>r. case r of Inl e \<Rightarrow> io_fail e | Inr a \<Rightarrow> f a)"
  by (rule ext) (auto simp: io_bind_def io_attempt_def io_fail_def split: prod.split sum.split)

lemma runs_bind:
  assumes "runs S D m F" "\<And>e d. F (Inl e) d \<Longrightarrow> E (Inl e) d" "\<And>a. runs S (F (Inr a)) (f a) E"
  shows "runs S D (io_bind m f) E"
  unfolding io_bind_attempt
  by (rule runs_attempt[OF assms(1)]) (auto intro: runs_fail assms split: sum.split)

lemma runs_seq:
  assumes "runs S D m F" "\<And>a. runs S G (f a) E" "\<And>e d. F (Inl e) d \<Longrightarrow> E (Inl e) d" "\<And>a d. F (Inr a) d \<Longrightarrow> G d"
  shows "runs S D (io_bind m f) E"
proof (rule runs_bind)
  show "runs S D m F"
    by (rule assms(1))
  show "runs S (F (Inr a)) (f a) E" for a
    by (rule runs_weaken[OF assms(2)]) (auto intro: assms(4))
qed (rule assms(3))

lemma runs_shown: "runs S D m E \<Longrightarrow> (\<And>d. S d \<Longrightarrow> S' d) \<Longrightarrow> runs S' D m E"
  unfolding runs_def by (fastforce split: prod.splits)

lemma take_refusal_same:
  "take_refusal w = (w', r) \<Longrightarrow> fw_disk w' = fw_disk w \<and> fw_trace w' = fw_trace w
    \<and> fw_process_id w' = fw_process_id w \<and> fw_sequence w' = fw_sequence w"
  by (auto simp: take_refusal_def split: list.splits)

lemma runs_syscall:
  assumes "\<And>d. D d \<Longrightarrow> S (fst (f d)) \<and> E (snd (f d)) (fst (f d))" "\<And>d e. D d \<Longrightarrow> E (Inl e) d"
  shows "runs S D (syscall f) E"
proof -
  have "(\<exists>shown. fw_trace w' = fw_trace w @ shown \<and> (\<forall>d \<in> set shown. S d)) \<and> E r (fw_disk w')"
    if "D (fw_disk w)" "syscall f w = (w', r)" for w w' r
    using that assms[of "fw_disk w"]
    by (auto simp: syscall_def show_disk_def split: prod.splits option.splits dest!: take_refusal_same)
  then show ?thesis
    by (auto simp: runs_def)
qed

text \<open>A call that only looks.\<close>

lemma runs_query: "(\<And>d. D d \<Longrightarrow> S d) \<Longrightarrow> (\<And>r d. D d \<Longrightarrow> E r d) \<Longrightarrow> runs S D (syscall (\<lambda>d. (d, g d))) E"
  by (rule runs_syscall) auto

lemma runs_write_all:
  assumes "\<And>d n. D d \<Longrightarrow> S (set_content i (take n bytes) d)"
    and "\<And>d. D d \<Longrightarrow> E (Inr ()) (set_content i bytes d)"
    and "\<And>d n e. D d \<Longrightarrow> E (Inl e) (set_content i (take n bytes) d)"
  shows "runs S D (sys_write_all i bytes) E"
proof -
  have trace: "fw_trace (fold (\<lambda>n. show_disk (c n)) ns w) = fw_trace w @ map c ns" for c ns w
    by (induction ns arbitrary: w) (simp_all add: show_disk_def)
  have final: "fw_disk (fold (\<lambda>n. show_disk (c n)) [0..<Suc n] w) = c n" for c n w
    by (simp add: show_disk_def)
  have "(\<exists>shown. fw_trace w' = fw_trace w @ shown \<and> (\<forall>d \<in> set shown. S d)) \<and> E r (fw_disk w')"
    if D: "D (fw_disk w)" and run: "sys_write_all i bytes w = (w', r)" for w w' r
  proof -
    obtain w1 q where q: "take_refusal w = (w1, q)"
      by (cases "take_refusal w")
    define written where "written = (case q of None \<Rightarrow> length bytes | Some (_, n) \<Rightarrow> min n (length bytes))"
    let ?c = "\<lambda>n. set_content i (take n bytes) (fw_disk w1)"
    have w1: "D (fw_disk w1)" "fw_trace w1 = fw_trace w"
      using take_refusal_same[OF q] D by simp_all
    have w': "w' = fold (\<lambda>n. show_disk (?c n)) [0..<Suc written] w1"
      and r: "r = (case q of None \<Rightarrow> Inr () | Some (e, _) \<Rightarrow> Inl e)"
      using run by (auto simp: sys_write_all_def q written_def Let_def simp del: upt_Suc)
    have "fw_trace w' = fw_trace w @ map ?c [0..<Suc written]" "fw_disk w' = ?c written"
      unfolding w' trace final w1 by simp_all
    moreover have "E r (?c written)"
      using assms(2,3)[OF w1(1)] by (auto simp: r written_def split: option.splits)
    ultimately show ?thesis
      using assms(1)[OF w1(1)] by (intro conjI exI[of _ "map ?c [0..<Suc written]"]) (auto simp del: upt_Suc)
  qed
  then show ?thesis
    by (auto simp: runs_def)
qed

section \<open>What a disk keeps\<close>

definition disk_ok :: "disk \<Rightarrow> bool" where
  "disk_ok d = (\<forall>k i. dk_entries d k = Some (RegularFile i) \<or> dk_entries d k = Some (LinkToFile i) \<longrightarrow> i < dk_next d)"

text \<open>Everything that was on the disk is still there, with its contents.\<close>

definition extends :: "disk \<Rightarrow> disk \<Rightarrow> bool" where
  "extends d0 d =
     (dk_next d0 \<le> dk_next d
      \<and> (\<forall>k. dk_entries d0 k \<noteq> None \<longrightarrow> dk_entries d k = dk_entries d0 k)
      \<and> (\<forall>i < dk_next d0. dk_files d i = dk_files d0 i \<and> dk_synced d i = dk_synced d0 i))"

text \<open>The path is a file with these contents, which survive a power failure.\<close>

definition holds_file :: "disk \<Rightarrow> file_path \<Rightarrow> string \<Rightarrow> bool" where
  "holds_file d p bytes =
     (\<exists>i. dk_node d p = Some (RegularFile i) \<and> dk_files d i = Some bytes \<and> dk_synced d i)"

text \<open>Entries that were added, other than directories.\<close>

definition added :: "disk \<Rightarrow> disk \<Rightarrow> entry set" where
  "added d0 d = {k. dk_entries d0 k = None \<and> dk_entries d k \<noteq> None \<and> dk_entries d k \<noteq> Some Directory}"

definition published_or_absent :: "disk \<Rightarrow> file_path \<Rightarrow> string \<Rightarrow> disk \<Rightarrow> bool" where
  "published_or_absent d0 p bytes d =
     (extends d0 d \<and> (dk_node d p = dk_node d0 p \<or> dk_node d0 p = None \<and> holds_file d p bytes))"

lemma extends_refl [simp]: "extends d d"
  by (simp add: extends_def)

lemma extends_fresh: "extends d0 d \<Longrightarrow> dk_entries d k = None \<Longrightarrow> dk_entries d0 k = None"
  by (metis extends_def)

lemma added_simps:
  "n \<noteq> Directory \<Longrightarrow> dk_entries d0 (entry_key t) = None \<Longrightarrow>
     added d0 (set_entry t (Some n) d) = insert (entry_key t) (added d0 d)"
  "added d0 (set_entry t (Some Directory) d) = added d0 d - {entry_key t}"
  "added d0 (set_entry t None d) = added d0 d - {entry_key t}"
  "added d0 (set_content i bytes d) = added d0 d"
  "added d0 (d\<lparr>dk_synced := synced\<rparr>) = added d0 d"
  "added d0 (d\<lparr>dk_next := m\<rparr>) = added d0 d"
  by (auto simp: added_def set_entry_def set_content_def)

lemma extends_simps:
  "dk_entries d0 (entry_key t) = None \<Longrightarrow> extends d0 (set_entry t n d) = extends d0 d"
  "dk_next d0 \<le> i \<Longrightarrow> extends d0 (set_content i bytes d) = extends d0 d"
  "dk_next d0 \<le> i \<Longrightarrow> extends d0 (d\<lparr>dk_synced := (dk_synced d)(i := b)\<rparr>) = extends d0 d"
  "extends d0 d \<Longrightarrow> extends d0 (d\<lparr>dk_next := Suc (dk_next d)\<rparr>)"
  by (auto simp: extends_def set_entry_def set_content_def) (metis option.distinct(1))+

lemma dk_node_simps:
  "dk_node (set_entry t n d) p = (if entry_key p = entry_key t then n else dk_node d p)"
  "dk_node (set_content i bytes d) p = dk_node d p"
  "dk_node (d\<lparr>dk_synced := synced\<rparr>) p = dk_node d p"
  "dk_node (d\<lparr>dk_next := m\<rparr>) p = dk_node d p"
  by (simp_all add: dk_node_def set_entry_def set_content_def)

lemma disk_ok_simps:
  "disk_ok d \<Longrightarrow> n = None \<or> n = Some Directory \<Longrightarrow> disk_ok (set_entry t n d)"
  "disk_ok d \<Longrightarrow> disk_ok (set_content i bytes d)"
  "disk_ok d \<Longrightarrow> disk_ok (d\<lparr>dk_synced := synced\<rparr>)"
  by (auto simp: disk_ok_def set_entry_def set_content_def)

lemmas disk_simps = added_simps extends_simps dk_node_simps disk_ok_simps

text \<open>The three stages of \<open>create_new\<close>: nothing added but directories; a temporary file; the target linked to it.\<close>

definition untouched :: "disk \<Rightarrow> file_path \<Rightarrow> disk \<Rightarrow> bool" where
  "untouched d0 p d = (extends d0 d \<and> disk_ok d \<and> dk_node d p = dk_node d0 p \<and> added d0 d = {})"

definition temporary :: "disk \<Rightarrow> file_path \<Rightarrow> file_path \<Rightarrow> nat \<Rightarrow> disk \<Rightarrow> bool" where
  "temporary d0 p t i d =
     (extends d0 d \<and> disk_ok d \<and> dk_node d p = dk_node d0 p \<and> added d0 d = {entry_key t}
      \<and> dk_node d t = Some (RegularFile i) \<and> dk_next d0 \<le> i \<and> entry_key t \<noteq> entry_key p)"

definition linked :: "disk \<Rightarrow> file_path \<Rightarrow> string \<Rightarrow> file_path \<Rightarrow> disk \<Rightarrow> bool" where
  "linked d0 p bytes t d =
     (extends d0 d \<and> dk_node d0 p = None \<and> holds_file d p bytes \<and> added d0 d \<subseteq> {entry_key t, entry_key p}
      \<and> dk_entries d0 (entry_key t) = None \<and> entry_key t \<noteq> entry_key p)"

definition complete :: "disk \<Rightarrow> file_path \<Rightarrow> string \<Rightarrow> disk \<Rightarrow> bool" where
  "complete d0 p bytes d =
     (extends d0 d \<and> dk_node d0 p = None \<and> holds_file d p bytes \<and> added d0 d = {entry_key p})"

lemmas stages = untouched_def temporary_def linked_def complete_def published_or_absent_def

lemma stages_safe:
  "untouched d0 p d \<Longrightarrow> published_or_absent d0 p bytes d"
  "temporary d0 p t i d \<Longrightarrow> published_or_absent d0 p bytes d"
  "linked d0 p bytes t d \<Longrightarrow> published_or_absent d0 p bytes d"
  "complete d0 p bytes d \<Longrightarrow> published_or_absent d0 p bytes d"
  by (simp_all add: stages)

section \<open>Creating the directories\<close>

text \<open>A path whose entry is another one than the target's, or which names no entry.\<close>

definition above :: "file_path \<Rightarrow> file_path \<Rightarrow> bool" where
  "above q p = (entry_names (entry_key q) = [] \<or> length (entry_names (entry_key q)) < length (entry_names (entry_key p)))"

lemma set_directory_untouched:
  assumes "untouched d0 p d" "\<not> occupied d q" "above q p"
  shows "untouched d0 p (set_entry q (Some Directory) d)"
proof -
  have "entry_key q \<noteq> entry_key p" "dk_entries d (entry_key q) = None"
    using assms by (auto simp: above_def occupied_def anchor_def dk_node_def)
  moreover from this have "dk_entries d0 (entry_key q) = None"
    using assms(1) by (auto simp: untouched_def intro: extends_fresh)
  ultimately show ?thesis
    using assms(1) by (simp add: untouched_def disk_simps)
qed

lemma above_parent:
  assumes "above q p" "path_parent q = Some r"
  shows "above r p"
proof -
  have "length (entry_names (entry_key r)) \<le> length (entry_names (entry_key q))"
    using assms(2) length_filter_le
    by (cases "fp_components q" rule: rev_cases) (auto simp: path_parent_def entry_key_def split: if_splits)
  then show ?thesis
    using assms by (auto simp: above_def)
qed

lemma mkdir_runs:
  assumes "above q p"
  shows "runs (untouched d0 p) (untouched d0 p) (sys_mkdir q) (\<lambda>_. untouched d0 p)"
  unfolding sys_mkdir_def
  by (rule runs_syscall) (auto simp: disk_mkdir_def assms set_directory_untouched split: option.splits)

lemma accept_directory_runs:
  "runs (untouched d0 p) (untouched d0 p) (accept_directory q e) (\<lambda>_. untouched d0 p)"
  unfolding accept_directory_def sys_is_dir_def
  by (rule runs_attempt[where F = "\<lambda>_. untouched d0 p"])
    (auto intro!: runs_query runs_return runs_fail)

lemma create_dir_all_fuel_runs:
  "above q p \<Longrightarrow> runs (untouched d0 p) (untouched d0 p) (create_dir_all_fuel fuel q) (\<lambda>_. untouched d0 p)"
proof (induction fuel arbitrary: q)
  case 0
  show ?case
    by (subst create_dir_all_fuel.simps)
      (auto intro!: runs_return runs_fail runs_attempt[OF mkdir_runs[OF 0]] accept_directory_runs
        split: sum.split option.split)
next
  case (Suc fuel)
  have again: "runs (untouched d0 p) (untouched d0 p)
      (io_bind (create_dir_all_fuel fuel r)
        (\<lambda>_. io_attempt (sys_mkdir q) (case_sum (accept_directory q) io_return))) (\<lambda>_. untouched d0 p)"
    if "path_parent q = Some r" for r
    by (rule runs_bind[OF Suc.IH[OF above_parent[OF Suc.prems that]]])
      (auto intro!: runs_return runs_attempt[OF mkdir_runs[OF Suc.prems]] accept_directory_runs split: sum.split)
  show ?case
    by (subst create_dir_all_fuel.simps)
      (auto intro!: runs_return runs_fail runs_attempt[OF mkdir_runs[OF Suc.prems]] accept_directory_runs again
        split: sum.split option.split)
qed

section \<open>The temporary file\<close>

lemma new_file_temporary:
  assumes "untouched d0 p d" "\<not> occupied d t" "entry_key t \<noteq> entry_key p"
  shows "temporary d0 p t (dk_next d)
    ((set_content (dk_next d) [] (set_entry t (Some (RegularFile (dk_next d))) d))\<lparr>dk_next := Suc (dk_next d)\<rparr>)"
proof -
  have "dk_entries d (entry_key t) = None"
    using assms(2) by (simp add: occupied_def dk_node_def)
  moreover from this have "dk_entries d0 (entry_key t) = None"
    using assms(1) by (auto simp: untouched_def intro: extends_fresh)
  ultimately show ?thesis
    using assms(1,3)
    by (auto simp: untouched_def temporary_def disk_simps extends_def)
      (auto simp: disk_ok_def set_entry_def set_content_def less_Suc_eq)
qed

lemma write_temporary:
  assumes "temporary d0 p t i d"
  shows "temporary d0 p t i (set_content i bytes d)"
    and "temporary d0 p t i (d\<lparr>dk_synced := (dk_synced d)(i := True)\<rparr>)"
  using assms by (simp_all add: temporary_def disk_simps)

text \<open>The name of a temporary file is longer than the target's.\<close>

lemma temporary_name_longer: "length target < length (temporary_name target pid sequence)"
  by (simp add: temporary_name_def)

definition beside :: "file_path \<Rightarrow> file_path \<Rightarrow> bool" where
  "beside t p =
     (\<exists>name pid sequence. path_file_name p = Some name
        \<and> t = path_join (usable_parent p) (temporary_name name pid sequence))"

lemma entry_key_join: "name \<noteq> ''.'' \<Longrightarrow> entry_key (path_join q name) = Entry (fp_absolute q) (entry_names (entry_key q) @ [name])"
  by (simp add: entry_key_def path_join_def)

lemma entry_key_last: "path_file_name p = Some name \<Longrightarrow> entry_names (entry_key p) \<noteq> [] \<and> last (entry_names (entry_key p)) = name"
  by (cases "fp_components p" rule: rev_cases) (auto simp: path_file_name_def entry_key_def split: if_splits)

lemma beside_key:
  assumes "beside t p"
  shows "entry_key t \<noteq> entry_key p"
proof -
  obtain name pid sequence where name: "path_file_name p = Some name"
    and t: "t = path_join (usable_parent p) (temporary_name name pid sequence)"
    using assms by (auto simp: beside_def)
  have "temporary_name name pid sequence \<noteq> ''.''"
    by (simp add: temporary_name_def)
  then have "last (entry_names (entry_key t)) = temporary_name name pid sequence"
    by (simp add: t entry_key_join)
  then show ?thesis
    using entry_key_last[OF name] temporary_name_longer[of name pid sequence] by auto
qed

text \<open>The result of creating the temporary file; a failure leaves no file.\<close>

definition opened_temporary ::
  "disk \<Rightarrow> file_path \<Rightarrow> (file_path \<times> nat, io_error) result \<Rightarrow> disk \<Rightarrow> bool" where
  "opened_temporary d0 p r d =
     (case r of Inl e \<Rightarrow> untouched d0 p d | Inr (t, i) \<Rightarrow> beside t p \<and> temporary d0 p t i d)"

lemma runs_read_world: "(\<And>x. runs S D (f x) E) \<Longrightarrow> runs S D (\<lambda>w. f (g w) w) E"
  by (auto simp: runs_def)

lemma sys_create_new_runs:
  assumes "beside t p"
  shows "runs (published_or_absent d0 p bytes) (untouched d0 p) (sys_create_new t)
    (\<lambda>r d. case r of Inl e \<Rightarrow> untouched d0 p d | Inr i \<Rightarrow> temporary d0 p t i d)"
  unfolding sys_create_new_def
proof (rule runs_syscall)
  fix d :: disk
  assume d: "untouched d0 p d"
  have new: "temporary d0 p t (dk_next d)
      ((set_content (dk_next d) [] (set_entry t (Some (RegularFile (dk_next d))) d))\<lparr>dk_next := Suc (dk_next d)\<rparr>)"
    if "\<not> occupied d t"
    by (rule new_file_temporary[OF d that beside_key[OF assms]])
  show "published_or_absent d0 p bytes (fst (disk_create_new t d))
      \<and> (case snd (disk_create_new t d) of Inl e \<Rightarrow> untouched d0 p (fst (disk_create_new t d))
         | Inr i \<Rightarrow> temporary d0 p t i (fst (disk_create_new t d)))"
    using d stages_safe(1)[OF d] new stages_safe(2)[OF new]
    by (auto simp: disk_create_new_def split: option.split)
qed simp

lemma temporary_loop_runs:
  assumes "path_file_name p = Some name"
  shows "runs (published_or_absent d0 p bytes) (untouched d0 p)
    (temporary_loop attempts (usable_parent p) name) (opened_temporary d0 p)"
proof (induction attempts)
  case 0
  show ?case
    by (auto intro: runs_fail simp: opened_temporary_def)
next
  case (Suc attempts)
  have attempt: "runs (published_or_absent d0 p bytes) (untouched d0 p)
      (io_attempt (sys_create_new (path_join (usable_parent p) (temporary_name name pid sequence))) (\<lambda>r.
         case r of Inr i \<Rightarrow> io_return (path_join (usable_parent p) (temporary_name name pid sequence), i)
         | Inl e \<Rightarrow> if e = IoAlreadyExists then temporary_loop attempts (usable_parent p) name else io_fail e))
      (opened_temporary d0 p)" for pid sequence
  proof -
    have b: "beside (path_join (usable_parent p) (temporary_name name pid sequence)) p"
      using assms by (auto simp: beside_def)
    show ?thesis
      by (rule runs_attempt[OF sys_create_new_runs[OF b]])
        (auto simp: opened_temporary_def b intro!: runs_return runs_fail Suc.IH split: sum.split)
  qed
  have seq: "runs (published_or_absent d0 p bytes) (untouched d0 p) fetch_sequence (\<lambda>_. untouched d0 p)"
    by (simp add: runs_def fetch_sequence_def)
  show ?case
    unfolding temporary_loop.simps Let_def
  proof (rule runs_bind[OF seq])
    show "runs (published_or_absent d0 p bytes) (untouched d0 p)
        (\<lambda>w. io_attempt (sys_create_new (path_join (usable_parent p) (temporary_name name (fw_process_id w) a)))
          (\<lambda>r. case r of
             Inr i \<Rightarrow> io_return (path_join (usable_parent p) (temporary_name name (fw_process_id w) a), i)
           | Inl e \<Rightarrow> if e = IoAlreadyExists then temporary_loop attempts (usable_parent p) name else io_fail e) w)
        (opened_temporary d0 p)" for a
      by (rule runs_read_world[where g = fw_process_id, OF attempt])
  qed (simp add: opened_temporary_def)
qed

section \<open>Publishing\<close>

definition synchronised :: "disk \<Rightarrow> file_path \<Rightarrow> file_path \<Rightarrow> nat \<Rightarrow> string \<Rightarrow> disk \<Rightarrow> bool" where
  "synchronised d0 p t i bytes d = (temporary d0 p t i d \<and> dk_files d i = Some bytes \<and> dk_synced d i)"

lemma temporary_added: "temporary d0 p t i d \<Longrightarrow> dk_entries d0 (entry_key t) = None"
  by (auto simp: temporary_def added_def)

lemma link_synchronised:
  assumes "synchronised d0 p t i bytes d" "dk_node d p = None"
  shows "linked d0 p bytes t (set_entry p (Some (RegularFile i)) d)"
proof -
  have "dk_entries d0 (entry_key p) = None"
    using assms by (simp add: synchronised_def temporary_def dk_node_def)
  then show ?thesis
    using assms temporary_added[of d0 p t i d]
    by (auto simp: linked_def synchronised_def temporary_def disk_simps holds_file_def)
      (auto simp: dk_node_def set_entry_def)
qed

lemma unlink_linked:
  assumes "linked d0 p bytes t d"
  shows "complete d0 p bytes (set_entry t None d)"
proof -
  have "entry_key p \<in> added d0 d"
    using assms by (auto simp: linked_def added_def holds_file_def dk_node_def)
  then show ?thesis
    using assms by (auto simp: linked_def complete_def disk_simps holds_file_def) (auto simp: set_entry_def)
qed

lemma unlink_temporary:
  assumes "temporary d0 p t i d"
  shows "untouched d0 p (set_entry t None d)"
  using assms temporary_added[OF assms] by (auto simp: untouched_def temporary_def disk_simps)

lemma linked_names: "linked d0 p bytes t d \<Longrightarrow> entry_key t \<noteq> entry_key p \<and> dk_entries d0 (entry_key t) = None"
  by (simp add: linked_def)

text \<open>Everything that can be found when a step of \<open>publish\<close> has failed, with the temporary path that was used.\<close>

definition unfinished :: "disk \<Rightarrow> file_path \<Rightarrow> string \<Rightarrow> file_path \<Rightarrow> nat \<Rightarrow> disk \<Rightarrow> bool" where
  "unfinished d0 p bytes t i d =
     (temporary d0 p t i d \<or> linked d0 p bytes t d
      \<or> complete d0 p bytes d \<and> entry_key t \<noteq> entry_key p \<and> dk_entries d0 (entry_key t) = None)"

lemma unfinished_safe: "unfinished d0 p bytes t i d \<Longrightarrow> published_or_absent d0 p bytes d"
  by (auto simp: unfinished_def intro: stages_safe)

lemma hard_link_runs:
  "runs (published_or_absent d0 p bytes) (synchronised d0 p t i bytes) (sys_hard_link t p)
    (\<lambda>r d. case r of Inl _ \<Rightarrow> temporary d0 p t i d | Inr _ \<Rightarrow> linked d0 p bytes t d)"
  unfolding sys_hard_link_def
proof (rule runs_syscall)
  fix d :: disk
  assume d: "synchronised d0 p t i bytes d"
  then have t: "temporary d0 p t i d" and node: "dk_node d t = Some (RegularFile i)"
    by (simp_all add: synchronised_def temporary_def)
  have "dk_node d p = None" if "\<not> occupied d p"
    using that by (simp add: occupied_def)
  then show "published_or_absent d0 p bytes (fst (disk_hard_link t p d))
      \<and> (case snd (disk_hard_link t p d) of Inl _ \<Rightarrow> temporary d0 p t i (fst (disk_hard_link t p d))
         | Inr _ \<Rightarrow> linked d0 p bytes t (fst (disk_hard_link t p d)))"
    using t node stages_safe(2)[OF t] stages_safe(3) link_synchronised[OF d]
    by (auto simp: disk_hard_link_def split: option.split)
qed (simp add: synchronised_def)

lemma remove_file_runs:
  "runs (published_or_absent d0 p bytes) (linked d0 p bytes t) (sys_remove_file t)
    (\<lambda>r d. unfinished d0 p bytes t i d \<and> (is_ok r \<longrightarrow> complete d0 p bytes d))"
  unfolding sys_remove_file_def
  by (rule runs_syscall)
    (auto simp: disk_remove_file_def unlink_linked unfinished_def intro: stages_safe
      dest: linked_names split: option.split)

lemma clean_up_runs:
  "runs (published_or_absent d0 p bytes) (unfinished d0 p bytes t i) (sys_remove_file t)
    (\<lambda>_ d. unfinished d0 p bytes t i d \<or> untouched d0 p d)"
  unfolding sys_remove_file_def
proof (rule runs_syscall)
  fix d :: disk
  assume d: "unfinished d0 p bytes t i d"
  have "unfinished d0 p bytes t i (fst (disk_remove_file t d)) \<or> untouched d0 p (fst (disk_remove_file t d))"
    if "dk_node d t \<noteq> Some Directory" "dk_node d t \<noteq> None"
  proof -
    have "\<not> complete d0 p bytes d \<or> entry_key t = entry_key p \<or> dk_entries d0 (entry_key t) \<noteq> None"
      using that by (auto simp: complete_def added_def dk_node_def)
    then have "temporary d0 p t i d \<or> linked d0 p bytes t d"
      using d by (auto simp: unfinished_def)
    then show ?thesis
      using d that unlink_temporary[of d0 p t i d] unlink_linked[of d0 p bytes t d]
      by (auto simp: disk_remove_file_def unfinished_def linked_def[of d0 p bytes t d])
  qed
  then have e: "unfinished d0 p bytes t i (fst (disk_remove_file t d)) \<or> untouched d0 p (fst (disk_remove_file t d))"
    using d by (cases "dk_node d t") (auto simp: disk_remove_file_def)
  then show "published_or_absent d0 p bytes (fst (disk_remove_file t d))
      \<and> (unfinished d0 p bytes t i (fst (disk_remove_file t d)) \<or> untouched d0 p (fst (disk_remove_file t d)))"
    by (auto intro: unfinished_safe stages_safe)
qed simp

lemma sync_parent_directory_runs:
  "(\<And>d. D d \<Longrightarrow> S d) \<Longrightarrow> runs S D (sync_parent_directory q) (\<lambda>_. D)"
  unfolding sync_parent_directory_def sys_open_directory_def sys_sync_directory_def
  by (rule runs_bind[where F = "\<lambda>_. D"]) (auto intro: runs_query)

lemma dk_files_set_content: "dk_files (set_content i bytes d) = (dk_files d)(i := Some bytes)"
  by (simp add: set_content_def)

lemma write_all_runs:
  "runs (published_or_absent d0 p bytes) (temporary d0 p t i) (sys_write_all i bytes)
    (\<lambda>r d. temporary d0 p t i d \<and> (is_ok r \<longrightarrow> dk_files d i = Some bytes))"
proof (rule runs_write_all)
  show "published_or_absent d0 p bytes (set_content i (take n bytes) d)" if "temporary d0 p t i d" for d n
    by (rule stages_safe(2)[OF write_temporary(1)[OF that]])
qed (auto intro: write_temporary simp: dk_files_set_content)

lemma sync_all_runs:
  "runs (published_or_absent d0 p bytes) (\<lambda>d. temporary d0 p t i d \<and> dk_files d i = Some bytes) (sys_sync_all i)
    (\<lambda>r d. temporary d0 p t i d \<and> (is_ok r \<longrightarrow> synchronised d0 p t i bytes d))"
  unfolding sys_sync_all_def
  by (rule runs_syscall)
    (auto simp: synchronised_def intro: write_temporary stages_safe(2)[OF write_temporary(2)])

text \<open>\<open>publish\<close> from its last call to its first.\<close>

definition publish_ends ::
  "disk \<Rightarrow> file_path \<Rightarrow> string \<Rightarrow> file_path \<Rightarrow> nat \<Rightarrow> (unit, io_error) result \<Rightarrow> disk \<Rightarrow> bool" where
  "publish_ends d0 p bytes t i r d = (unfinished d0 p bytes t i d \<and> (is_ok r \<longrightarrow> complete d0 p bytes d))"

lemma publish_unlink_runs:
  "runs (published_or_absent d0 p bytes) (linked d0 p bytes t)
    (io_bind (sys_remove_file t) (\<lambda>_. sync_parent_directory q)) (publish_ends d0 p bytes t i)"
proof -
  have "runs (published_or_absent d0 p bytes) (\<lambda>d. unfinished d0 p bytes t i d \<and> complete d0 p bytes d)
      (sync_parent_directory q) (publish_ends d0 p bytes t i)"
    by (rule runs_weaken[OF sync_parent_directory_runs[where D = "\<lambda>d. unfinished d0 p bytes t i d \<and> complete d0 p bytes d"]])
      (auto simp: publish_ends_def intro: unfinished_safe)
  then show ?thesis
    by (rule runs_seq[OF remove_file_runs[where i = i]]) (auto simp: publish_ends_def)
qed

lemma publish_link_runs:
  "runs (published_or_absent d0 p bytes) (synchronised d0 p t i bytes)
    (io_bind (io_attempt (sys_hard_link t p) (\<lambda>r. case r of
         Inr _ \<Rightarrow> io_return ()
       | Inl source \<Rightarrow> io_attempt (sys_symlink_metadata p) (\<lambda>m. io_fail (if is_ok m then IoAlreadyExists else source))))
      (\<lambda>_. io_bind (sys_remove_file t) (\<lambda>_. sync_parent_directory q)))
    (publish_ends d0 p bytes t i)"
proof -
  have "runs (published_or_absent d0 p bytes) (synchronised d0 p t i bytes)
      (io_attempt (sys_hard_link t p) (\<lambda>r. case r of
         Inr _ \<Rightarrow> io_return ()
       | Inl source \<Rightarrow> io_attempt (sys_symlink_metadata p) (\<lambda>m. io_fail (if is_ok m then IoAlreadyExists else source))))
      (\<lambda>r d. case r of Inl _ \<Rightarrow> temporary d0 p t i d | Inr _ \<Rightarrow> linked d0 p bytes t d)"
    by (rule runs_attempt[OF hard_link_runs])
      (auto intro!: runs_return runs_fail runs_attempt[where F = "\<lambda>_. temporary d0 p t i"] runs_syscall
        intro: stages_safe simp: sys_symlink_metadata_def disk_metadata_def split: sum.split)
  then show ?thesis
    by (rule runs_seq[OF _ publish_unlink_runs]) (auto simp: publish_ends_def unfinished_def)
qed

lemma publish_runs:
  "runs (published_or_absent d0 p bytes) (temporary d0 p t i) (publish q p t i bytes) (publish_ends d0 p bytes t i)"
proof -
  have "runs (published_or_absent d0 p bytes) (\<lambda>d. temporary d0 p t i d \<and> dk_files d i = Some bytes)
      (io_bind (sys_sync_all i) (\<lambda>_. io_bind (io_attempt (sys_hard_link t p) (\<lambda>r. case r of
           Inr _ \<Rightarrow> io_return ()
         | Inl source \<Rightarrow> io_attempt (sys_symlink_metadata p) (\<lambda>m. io_fail (if is_ok m then IoAlreadyExists else source))))
        (\<lambda>_. io_bind (sys_remove_file t) (\<lambda>_. sync_parent_directory q))))
      (publish_ends d0 p bytes t i)"
    by (rule runs_seq[OF sync_all_runs publish_link_runs]) (auto simp: publish_ends_def unfinished_def)
  then show ?thesis
    unfolding publish_def
    by (rule runs_seq[OF write_all_runs]) (auto simp: publish_ends_def unfinished_def)
qed

text \<open>The whole of \<open>create_new\<close>.\<close>

definition creation_ends :: "disk \<Rightarrow> file_path \<Rightarrow> string \<Rightarrow> (unit, io_error) result \<Rightarrow> disk \<Rightarrow> bool" where
  "creation_ends d0 p bytes r d =
     (published_or_absent d0 p bytes d
      \<and> (is_ok r \<longrightarrow> complete d0 p bytes d)
      \<and> (\<exists>t. (beside t p \<or> t = p) \<and> added d0 d \<subseteq> {entry_key t, entry_key p}))"

lemma unfinished_ends:
  assumes "unfinished d0 p bytes t i d" "beside t p" "is_ok r \<Longrightarrow> complete d0 p bytes d"
  shows "creation_ends d0 p bytes r d"
  using assms unfinished_safe[OF assms(1)]
  by (auto simp: creation_ends_def unfinished_def temporary_def linked_def complete_def intro!: exI[of _ t])

lemma untouched_ends: "untouched d0 p d \<Longrightarrow> creation_ends d0 p bytes (Inl e) d"
  by (auto simp: creation_ends_def untouched_def published_or_absent_def)

lemma parse_path_last_dot:
  assumes "fp_components (parse_path s) \<noteq> []" "last (fp_components (parse_path s)) = ''.''"
  shows "butlast (fp_components (parse_path s)) = [] \<and> \<not> fp_absolute (parse_path s)"
proof -
  have "last (filter (\<lambda>c. c \<noteq> ''.'') cs) \<noteq> ''.''" if "filter (\<lambda>c. c \<noteq> ''.'') cs \<noteq> []" for cs :: "string list"
    using last_in_set[OF that] by auto
  then show ?thesis
    using assms by (auto simp: parse_path_def Let_def split: if_splits)
qed

lemma usable_parent_above: "above (usable_parent (parse_path s)) (parse_path s)"
proof (cases "fp_components (parse_path s)" rule: rev_cases)
  case Nil
  then show ?thesis
    by (simp add: usable_parent_def path_parent_def above_def current_directory_def entry_key_def)
next
  case (snoc cs c)
  then show ?thesis
    using parse_path_last_dot[of s]
    by (auto simp: usable_parent_def path_parent_def above_def current_directory_def entry_key_def path_is_empty_def)
qed

lemma store_create_new_runs:
  assumes "p = parse_path s"
  shows "runs (published_or_absent d0 p bytes) (untouched d0 p) (store_create_new p bytes) (creation_ends d0 p bytes)"
proof -
  have dirs: "runs (published_or_absent d0 p bytes) (untouched d0 p) (create_dir_all (usable_parent p)) (\<lambda>_. untouched d0 p)"
    unfolding create_dir_all_def
    by (rule runs_shown[OF create_dir_all_fuel_runs])
      (use usable_parent_above[of s] in \<open>simp_all add: assms stages_safe(1)\<close>)
  have temporary: "runs (published_or_absent d0 p bytes) (untouched d0 p) (create_temporary (usable_parent p) p) (opened_temporary d0 p)"
    by (auto simp: create_temporary_def opened_temporary_def intro!: runs_fail temporary_loop_runs split: option.split)
  have rest: "runs (published_or_absent d0 p bytes) (opened_temporary d0 p (Inr (t, i)))
      (io_attempt (publish (usable_parent p) p t i bytes) (\<lambda>published.
        if \<not> is_ok published then io_attempt (sys_remove_file t) (\<lambda>_ w. (w, published)) else (\<lambda>w. (w, published))))
      (creation_ends d0 p bytes)" for t i
  proof (cases "beside t p")
    case True
    have clean: "runs (published_or_absent d0 p bytes) (publish_ends d0 p bytes t i r)
        (if \<not> is_ok r then io_attempt (sys_remove_file t) (\<lambda>_ w. (w, r)) else (\<lambda>w. (w, r))) (creation_ends d0 p bytes)" for r
    proof (cases r)
      case (Inl e)
      have "runs (published_or_absent d0 p bytes) (publish_ends d0 p bytes t i (Inl e))
          (io_attempt (sys_remove_file t) (\<lambda>_ w. (w, Inl e))) (creation_ends d0 p bytes)"
      proof (rule runs_attempt)
        show "runs (published_or_absent d0 p bytes) (publish_ends d0 p bytes t i (Inl e)) (sys_remove_file t)
            (\<lambda>_ d. unfinished d0 p bytes t i d \<or> untouched d0 p d)"
          by (rule runs_weaken[OF clean_up_runs]) (auto simp: publish_ends_def)
      qed (auto intro!: runs_pure intro: unfinished_ends[OF _ True] untouched_ends)
      then show ?thesis
        by (simp add: Inl)
    next
      case (Inr u)
      then show ?thesis
        by (auto simp: publish_ends_def intro!: runs_pure intro: unfinished_ends[OF _ True])
    qed
    show ?thesis
      by (rule runs_attempt[OF runs_weaken[OF publish_runs] clean]) (auto simp: opened_temporary_def)
  qed (simp add: runs_def opened_temporary_def)
  show ?thesis
    unfolding store_create_new_def Let_def
    by (rule runs_seq[OF dirs runs_bind[OF temporary]])
      (use rest in \<open>auto simp: opened_temporary_def intro: untouched_ends\<close>)
qed

section \<open>When nothing is refused\<close>

definition at_disk :: "disk \<Rightarrow> fs_world \<Rightarrow> bool" where
  "at_disk d w = (fw_refusals w = [] \<and> fw_disk w = d)"

lemma syscall_granted:
  "at_disk d w \<Longrightarrow> at_disk (fst (f d)) (fst (syscall f w)) \<and> snd (syscall f w) = snd (f d)"
  by (auto simp: at_disk_def syscall_def take_refusal_def show_disk_def split: prod.split)

lemma write_all_granted:
  "at_disk d w \<Longrightarrow> at_disk (set_content i bytes d) (fst (sys_write_all i bytes w)) \<and> snd (sys_write_all i bytes w) = Inr ()"
proof -
  have keep: "fw_refusals (fold (\<lambda>n. show_disk (c n)) ns w) = fw_refusals w" for c and ns :: "nat list" and w
    by (induction ns arbitrary: w) (simp_all add: show_disk_def)
  have final: "fw_disk (fold (\<lambda>n. show_disk (c n)) [0..<Suc n] w) = c n" for c n w
    by (simp add: show_disk_def)
  show "at_disk d w \<Longrightarrow> ?thesis"
    by (auto simp: at_disk_def sys_write_all_def take_refusal_def Let_def keep final simp del: upt_Suc)
qed

text \<open>A run that is granted everything: from disk \<open>d\<close> it ends in \<open>d'\<close> with \<open>r\<close>.\<close>

definition granted :: "disk \<Rightarrow> 'a io \<Rightarrow> disk \<Rightarrow> ('a, io_error) result \<Rightarrow> bool" where
  "granted d m d' r = (\<forall>w. at_disk d w \<longrightarrow> at_disk d' (fst (m w)) \<and> snd (m w) = r)"

lemma granted_syscall: "f d = (d', r) \<Longrightarrow> granted d (syscall f) d' r"
  using syscall_granted[of d _ f] by (auto simp: granted_def)

lemma granted_return: "granted d (io_return a) d (Inr a)" and granted_fail: "granted d (io_fail e) d (Inl e)"
  by (simp_all add: granted_def io_return_def io_fail_def)

lemma granted_attempt: "granted d m d1 r1 \<Longrightarrow> granted d1 (f r1) d2 r2 \<Longrightarrow> granted d (io_attempt m f) d2 r2"
  by (auto simp: granted_def io_attempt_def split: prod.split)

lemma granted_bind: "granted d m d1 (Inr a) \<Longrightarrow> granted d1 (f a) d2 r2 \<Longrightarrow> granted d (io_bind m f) d2 r2"
  unfolding io_bind_attempt by (rule granted_attempt, assumption, simp)

lemma granted_write_all: "granted d (sys_write_all i bytes) (set_content i bytes d) (Inr ())"
  using write_all_granted by (simp add: granted_def)

lemma leads_occupied: "leads_to_directory d q \<Longrightarrow> occupied d q"
  by (auto simp: leads_to_directory_def occupied_def)

lemma granted_create_dir_all:
  assumes "leads_to_directory d q"
  shows "granted d (create_dir_all q) d (Inr ())"
proof -
  have mkdir: "granted d (sys_mkdir q) d (Inl IoAlreadyExists)"
    unfolding sys_mkdir_def by (rule granted_syscall) (simp add: disk_mkdir_def leads_occupied[OF assms])
  have accept: "granted d (accept_directory q IoAlreadyExists) d (Inr ())"
    unfolding accept_directory_def sys_is_dir_def
    by (rule granted_attempt[OF granted_syscall[OF refl]]) (simp add: assms granted_return)
  show ?thesis
    unfolding create_dir_all_def
    by (subst create_dir_all_fuel.simps)
      (simp add: granted_return, intro impI, rule granted_attempt, rule mkdir, simp add: accept)
qed

lemma path_parent_join: "path_parent (path_join q name) = Some q"
  by (simp add: path_parent_def path_join_def)

text \<open>Publishing through a temporary path whose name is free.\<close>

lemma publish_granted:
  assumes "leads_to_directory d (usable_parent p)" "\<not> occupied d p" "path_file_name p = Some name"
    and t: "t = path_join (usable_parent p) (temporary_name name pid sequence)"
    and "\<not> occupied d t"
  shows "\<exists>d1 d2. granted d (sys_create_new t) d1 (Inr (dk_next d))
    \<and> granted d1 (publish (usable_parent p) p t (dk_next d) bytes) d2 (Inr ())"
proof -
  let ?q = "usable_parent p" and ?i = "dk_next d"
  let ?d1 = "(set_content ?i [] (set_entry t (Some (RegularFile ?i)) d))\<lparr>dk_next := dk_next d + 1\<rparr>"
  let ?d2 = "set_content ?i bytes ?d1"
  let ?d3 = "?d2\<lparr>dk_synced := (dk_synced ?d2)(?i := True)\<rparr>"
  let ?d4 = "set_entry p (Some (RegularFile ?i)) ?d3"
  let ?d5 = "set_entry t None ?d4"
  have "beside t p"
    using assms(3) t by (auto simp: beside_def)
  note tp = beside_key[OF this]
  have "temporary_name name pid sequence \<noteq> ''.''"
    by (simp add: temporary_name_def)
  then have t_key: "entry_names (entry_key t) = entry_names (entry_key ?q) @ [temporary_name name pid sequence]"
    by (simp add: t entry_key_join)
  have q_t: "entry_key ?q \<noteq> entry_key t"
    using t_key by (metis append_self_conv not_Cons_self2)
  have q_p: "entry_key ?q \<noteq> entry_key p"
    using leads_occupied[OF assms(1)] assms(2) by (auto simp: occupied_def anchor_def dk_node_def)
  have anchor_t: "\<not> anchor t"
    using assms(5) by (simp add: occupied_def)
  have leads: "leads_to_directory ?d1 ?q" "leads_to_directory ?d2 ?q" "leads_to_directory ?d3 ?q" "occupied ?d5 ?q"
    using assms(1) q_t q_p by (simp_all add: leads_to_directory_def occupied_def dk_node_simps) auto
  have problem: "parent_problem d t = None"
    using assms(1) by (simp add: parent_problem_def t path_parent_join)
  have problem_p: "parent_problem ?d3 p = None"
  proof -
    have "path_parent p \<noteq> None"
      using assms(3) by (auto simp: path_parent_def path_file_name_def split: if_splits)
    moreover have "leads_to_directory ?d3 r" if "path_is_empty r" for r
      using that by (simp add: leads_to_directory_def anchor_def entry_key_def path_is_empty_def)
    ultimately show ?thesis
      using leads(3) by (auto simp: parent_problem_def usable_parent_def split: option.splits if_splits)
  qed
  have create: "granted d (sys_create_new t) ?d1 (Inr ?i)"
    unfolding sys_create_new_def by (rule granted_syscall) (simp add: disk_create_new_def assms(5) problem)
  have sync: "granted ?d2 (sys_sync_all ?i) ?d3 (Inr ())"
    unfolding sys_sync_all_def by (rule granted_syscall) simp
  have link: "granted ?d3 (sys_hard_link t p) ?d4 (Inr ())"
    unfolding sys_hard_link_def
    by (rule granted_syscall)
      (use assms(2) tp problem_p in \<open>simp add: disk_hard_link_def dk_node_simps occupied_def\<close>)
  have unlink: "granted ?d4 (sys_remove_file t) ?d5 (Inr ())"
    unfolding sys_remove_file_def
    by (rule granted_syscall) (use tp anchor_t in \<open>simp add: disk_remove_file_def dk_node_simps\<close>)
  have parent: "granted ?d5 (sync_parent_directory ?q) ?d5 (Inr ())"
    unfolding sync_parent_directory_def sys_open_directory_def sys_sync_directory_def
    by (rule granted_bind[OF granted_syscall granted_syscall], simp only: leads(4) if_True, rule refl)
  have publish: "granted ?d1 (publish ?q p t ?i bytes) ?d5 (Inr ())"
    unfolding publish_def
    by (rule granted_bind, rule granted_write_all, rule granted_bind, rule sync, rule granted_bind,
        rule granted_attempt, rule link, simp only: sum.case, rule granted_return,
        rule granted_bind, rule unlink, rule parent)
  show ?thesis
    using create publish by blast
qed

lemma create_new_granted:
  assumes "leads_to_directory d (usable_parent p)" "\<not> occupied d p" "path_file_name p = Some name"
    and "\<And>pid sequence. \<not> occupied d (path_join (usable_parent p) (temporary_name name pid sequence))"
    and "at_disk d w"
  shows "snd (store_create_new p bytes w) = Inr ()"
proof -
  let ?q = "usable_parent p"
  obtain w1 where w1: "create_dir_all ?q w = (w1, Inr ())" "at_disk d w1"
    using granted_create_dir_all[OF assms(1)] assms(5) by (cases "create_dir_all ?q w") (auto simp: granted_def)
  define t where "t = path_join ?q (temporary_name name (fw_process_id w1) (fw_sequence w1))"
  obtain d1 d2 where create: "granted d (sys_create_new t) d1 (Inr (dk_next d))"
    and publish: "granted d1 (publish ?q p t (dk_next d) bytes) d2 (Inr ())"
    using publish_granted[OF assms(1-3) t_def] assms(4) t_def by blast
  let ?w1 = "w1\<lparr>fw_sequence := fw_sequence w1 + 1\<rparr>"
  have "at_disk d ?w1"
    using w1(2) by (simp add: at_disk_def)
  then obtain w2 where w2: "sys_create_new t ?w1 = (w2, Inr (dk_next d))" "at_disk d1 w2"
    using create by (cases "sys_create_new t ?w1") (auto simp: granted_def)
  have loop: "temporary_loop temp_create_attempts ?q name w1 = (w2, Inr (t, dk_next d))"
    using w2(1)
    by (simp add: temp_create_attempts_def temporary_loop.simps(2)[of 127, simplified] io_bind_def io_attempt_def
        fetch_sequence_def t_def[symmetric] io_return_def)
  obtain w3 where "publish ?q p t (dk_next d) bytes w2 = (w3, Inr ())"
    using publish w2(2) by (cases "publish ?q p t (dk_next d) bytes w2") (auto simp: granted_def)
  then show ?thesis
    using w1(1) loop assms(3)
    by (simp add: store_create_new_def create_temporary_def io_bind_def io_attempt_def Let_def)
qed

section \<open>The two guarantees\<close>

text \<open>
  C25: creating a profile publishes a whole file or nothing.  Whatever calls the operating system refuses, at every
  moment (also inside a write) everything that was on the disk is still there with its contents, and the target is as
  before or, if it was free, a complete synchronised file.  Success means that the target was free, now holds exactly
  the bytes, and nothing else but directories was added; otherwise at most one temporary file beside the target is left;
  and when nothing is refused, a free target in an existing directory without leftover temporaries is created.
\<close>

theorem create_new_publishes_whole_files:
  assumes "disk_ok (fw_disk w)" and "p = parse_path s" and "store_create_new p bytes w = (w', r)"
  shows "(\<exists>shown. fw_trace w' = fw_trace w @ shown \<and> (\<forall>d \<in> set shown. published_or_absent (fw_disk w) p bytes d))
    \<and> published_or_absent (fw_disk w) p bytes (fw_disk w')
    \<and> (r = Inr () \<longrightarrow> dk_node (fw_disk w) p = None \<and> file_contents (fw_disk w') p = Inr bytes
         \<and> holds_file (fw_disk w') p bytes \<and> added (fw_disk w) (fw_disk w') = {entry_key p})
    \<and> (\<exists>t. (beside t p \<or> t = p) \<and> added (fw_disk w) (fw_disk w') \<subseteq> {entry_key t, entry_key p})
    \<and> (fw_refusals w = [] \<and> leads_to_directory (fw_disk w) (usable_parent p) \<and> \<not> occupied (fw_disk w) p
         \<and> path_file_name p \<noteq> None
         \<and> (\<forall>name pid sequence.
              \<not> occupied (fw_disk w) (path_join (usable_parent p) (temporary_name name pid sequence)))
       \<longrightarrow> r = Inr ())"
proof -
  have "untouched (fw_disk w) p (fw_disk w)"
    using assms(1) by (auto simp: untouched_def added_def)
  from runsD[OF store_create_new_runs[OF assms(2)] this assms(3)]
  have shown: "\<exists>shown. fw_trace w' = fw_trace w @ shown \<and> (\<forall>d \<in> set shown. published_or_absent (fw_disk w) p bytes d)"
    and ends: "creation_ends (fw_disk w) p bytes r (fw_disk w')"
    by blast+
  have contents: "file_contents d p = Inr bytes" if "holds_file d p bytes" for d
    using that by (auto simp: holds_file_def file_contents_def)
  have granted: "r = Inr ()"
    if "fw_refusals w = []" "leads_to_directory (fw_disk w) (usable_parent p)" "\<not> occupied (fw_disk w) p"
      "path_file_name p = Some name"
      "\<forall>name pid sequence. \<not> occupied (fw_disk w) (path_join (usable_parent p) (temporary_name name pid sequence))" for name
    using create_new_granted[OF that(2-4), of w bytes] that(1,5) assms(3) by (simp add: at_disk_def)
  show ?thesis
    using shown ends contents granted
    by (auto simp: creation_ends_def complete_def)
qed

theorem create_new_publishes_whole_files_witness:
  "disk_ok empty_disk \<and> snd (store_create_new (parse_path ''pro.json'') ''{}'' empty_world) = Inr ()"
proof -
  have ok: "disk_ok (fw_disk empty_world)"
    by (simp add: disk_ok_def empty_world_def empty_disk_def)
  obtain w' r where run: "store_create_new (parse_path ''pro.json'') ''{}'' empty_world = (w', r)"
    by (cases "store_create_new (parse_path ''pro.json'') ''{}'' empty_world")
  have path: "parse_path ''pro.json'' = \<lparr>fp_absolute = False, fp_components = [''pro.json'']\<rparr>"
    by code_simp
  have free: "\<not> occupied (fw_disk empty_world) (path_join (usable_parent (parse_path ''pro.json'')) (temporary_name name pid sequence))"
    for name pid sequence
  proof -
    have "temporary_name name pid sequence \<noteq> ''.''" "temporary_name name pid sequence \<noteq> ''..''"
      by (simp_all add: temporary_name_def)
    then show ?thesis
      by (simp add: occupied_def anchor_def entry_key_join dk_node_def empty_world_def empty_disk_def)
  qed
  have "fw_refusals empty_world = []" "leads_to_directory (fw_disk empty_world) (usable_parent (parse_path ''pro.json''))"
    "\<not> occupied (fw_disk empty_world) (parse_path ''pro.json'')" "path_file_name (parse_path ''pro.json'') \<noteq> None"
    by (simp_all add: path empty_world_def empty_disk_def usable_parent_def path_parent_def path_is_empty_def
        current_directory_def leads_to_directory_def anchor_def entry_key_def occupied_def dk_node_def path_file_name_def)
  then have "r = Inr ()"
    using create_new_publishes_whole_files[OF ok refl run] free by blast
  then show ?thesis
    using ok run by (simp add: empty_world_def)
qed

section \<open>Replacing a profile\<close>

text \<open>
  What the crate documents of an \<open>AtomicWriteFile\<close>: until it is committed, no existing path changes; a commit replaces
  the path by a file with the contents written, or fails and changes no existing path; no other path is affected; and
  readers see the old or the new contents.  \<open>target\<close> and \<open>contents\<close> are what a handle is for and what was
  written to it.
\<close>

definition keeps_path :: "disk \<Rightarrow> disk \<Rightarrow> file_path \<Rightarrow> bool" where
  "keeps_path d0 d q = (dk_node d0 q = None \<or> dk_node d q = dk_node d0 q \<and> file_contents d q = file_contents d0 q)"

definition replaces_path :: "disk \<Rightarrow> disk \<Rightarrow> file_path \<Rightarrow> string \<Rightarrow> bool" where
  "replaces_path d0 d p bytes =
     ((\<forall>q. entry_key q \<noteq> entry_key p \<longrightarrow> keeps_path d0 d q)
      \<and> (\<exists>i. dk_node d p = Some (RegularFile i)) \<and> file_contents d p = Inr bytes)"

definition shows_only :: "(disk \<Rightarrow> disk \<Rightarrow> bool) \<Rightarrow> fs_world \<Rightarrow> fs_world \<Rightarrow> bool" where
  "shows_only K w w' =
     (K (fw_disk w) (fw_disk w')
      \<and> (\<exists>shown. fw_trace w' = fw_trace w @ shown \<and> (\<forall>d \<in> set shown. K (fw_disk w) d)))"

definition keeps_paths :: "disk \<Rightarrow> disk \<Rightarrow> bool" where
  "keeps_paths d0 d = ((\<forall>q. keeps_path d0 d q) \<and> (disk_ok d0 \<longrightarrow> disk_ok d))"

definition atomic_contract ::
  "'h atomic_writer \<Rightarrow> ('h \<Rightarrow> file_path) \<Rightarrow> ('h \<Rightarrow> string) \<Rightarrow> bool" where
  "atomic_contract A target contents =
     ((\<forall>p w w' r. disk_ok (fw_disk w) \<and> aw_open A p w = (w', r) \<longrightarrow>
         shows_only keeps_paths w w' \<and> (\<forall>h. r = Inr h \<longrightarrow> target h = p \<and> contents h = []))
      \<and> (\<forall>h bytes w w' r. disk_ok (fw_disk w) \<and> aw_write_all A h bytes w = (w', r) \<longrightarrow>
         shows_only keeps_paths w w' \<and> (\<forall>h'. r = Inr h' \<longrightarrow> target h' = target h \<and> contents h' = contents h @ bytes))
      \<and> (\<forall>h w w' r. disk_ok (fw_disk w) \<and> (aw_flush A h w = (w', r) \<or> aw_sync_all A h w = (w', r)) \<longrightarrow>
         shows_only keeps_paths w w' \<and> (\<forall>h'. r = Inr h' \<longrightarrow> target h' = target h \<and> contents h' = contents h))
      \<and> (\<forall>h w. disk_ok (fw_disk w) \<longrightarrow> shows_only keeps_paths w (aw_drop A h w))
      \<and> (\<forall>h w w' r. disk_ok (fw_disk w) \<and> aw_commit A h w = (w', r) \<longrightarrow>
         (if is_ok r
          then shows_only (\<lambda>d0 d. keeps_paths d0 d \<or> replaces_path d0 d (target h) (contents h)) w w'
            \<and> replaces_path (fw_disk w) (fw_disk w') (target h) (contents h)
          else shows_only keeps_paths w w')))"


lemma atomic_contractD:
  assumes "atomic_contract A target contents" "disk_ok (fw_disk w)"
  shows "aw_open A p w = (w', r) \<Longrightarrow>
      shows_only keeps_paths w w' \<and> (\<forall>h. r = Inr h \<longrightarrow> target h = p \<and> contents h = [])"
    and "aw_write_all A h bytes w = (w', r) \<Longrightarrow>
      shows_only keeps_paths w w' \<and> (\<forall>h'. r = Inr h' \<longrightarrow> target h' = target h \<and> contents h' = contents h @ bytes)"
    and "aw_flush A h w = (w', r) \<Longrightarrow>
      shows_only keeps_paths w w' \<and> (\<forall>h'. r = Inr h' \<longrightarrow> target h' = target h \<and> contents h' = contents h)"
    and "aw_sync_all A h w = (w', r) \<Longrightarrow>
      shows_only keeps_paths w w' \<and> (\<forall>h'. r = Inr h' \<longrightarrow> target h' = target h \<and> contents h' = contents h)"
proof -
  note contract = assms(1)[unfolded atomic_contract_def]
  note rest = contract[THEN conjunct2]
  show "aw_open A p w = (w', r) \<Longrightarrow>
      shows_only keeps_paths w w' \<and> (\<forall>h. r = Inr h \<longrightarrow> target h = p \<and> contents h = [])"
    using contract[THEN conjunct1] assms(2) by blast
  show "aw_write_all A h bytes w = (w', r) \<Longrightarrow>
      shows_only keeps_paths w w' \<and> (\<forall>h'. r = Inr h' \<longrightarrow> target h' = target h \<and> contents h' = contents h @ bytes)"
    using rest[THEN conjunct1] assms(2) by blast
  show "aw_flush A h w = (w', r) \<Longrightarrow>
      shows_only keeps_paths w w' \<and> (\<forall>h'. r = Inr h' \<longrightarrow> target h' = target h \<and> contents h' = contents h)"
    "aw_sync_all A h w = (w', r) \<Longrightarrow>
      shows_only keeps_paths w w' \<and> (\<forall>h'. r = Inr h' \<longrightarrow> target h' = target h \<and> contents h' = contents h)"
    using rest[THEN conjunct2, THEN conjunct1] assms(2) by blast+
qed

lemma keeps_paths_trans: "keeps_paths d0 d1 \<Longrightarrow> keeps_paths d1 d2 \<Longrightarrow> keeps_paths d0 d2"
  unfolding keeps_paths_def keeps_path_def by metis

lemma keeps_then_replaces: "keeps_paths d0 d1 \<Longrightarrow> replaces_path d1 d2 p bytes \<Longrightarrow> replaces_path d0 d2 p bytes"
  unfolding keeps_paths_def keeps_path_def replaces_path_def by metis

lemma shows_only_trans:
  assumes "shows_only keeps_paths w w1" "shows_only keeps_paths w1 w2"
  shows "shows_only keeps_paths w w2"
  using assms unfolding shows_only_def
  by (metis (no_types, lifting) append.assoc keeps_paths_trans set_append Un_iff)

text \<open>What \<open>update\<close> may show.\<close>

definition old_or_new :: "disk \<Rightarrow> file_path \<Rightarrow> string \<Rightarrow> disk \<Rightarrow> bool" where
  "old_or_new d0 p bytes d = (keeps_paths d0 d \<or> replaces_path d0 d p bytes)"

lemma runs_shows_only:
  assumes "disk_ok d0" "\<And>w w' r. disk_ok (fw_disk w) \<Longrightarrow> m w = (w', r) \<Longrightarrow> shows_only keeps_paths w w' \<and> G r"
  shows "runs (old_or_new d0 p bytes) (keeps_paths d0) m (\<lambda>r d. keeps_paths d0 d \<and> G r)"
  unfolding runs_def
proof (intro allI impI)
  fix w :: fs_world
  assume d0: "keeps_paths d0 (fw_disk w)"
  then have "disk_ok (fw_disk w)"
    using assms(1) by (simp add: keeps_paths_def)
  moreover obtain w' r where m: "m w = (w', r)" by (cases "m w")
  ultimately show "case m w of (w', r) \<Rightarrow>
      (\<exists>shown. fw_trace w' = fw_trace w @ shown \<and> (\<forall>d \<in> set shown. old_or_new d0 p bytes d))
      \<and> keeps_paths d0 (fw_disk w') \<and> G r"
    using assms(2)[OF _ m] d0 by (auto simp: shows_only_def old_or_new_def m intro: keeps_paths_trans)
qed

text \<open>The step on a handle with its contents so far: it is dropped when the step fails.\<close>

lemma atomic_step_runs:
  assumes "atomic_contract A target contents" "disk_ok d0"
    and "\<And>w w' r. disk_ok (fw_disk w) \<Longrightarrow> m w = (w', r) \<Longrightarrow> shows_only keeps_paths w w' \<and> (\<forall>h'. r = Inr h' \<longrightarrow> target h' = p \<and> contents h' = written)"
  shows "runs (old_or_new d0 p bytes) (keeps_paths d0) (atomic_step A h m)
    (\<lambda>r d. keeps_paths d0 d \<and> (\<forall>h'. r = Inr h' \<longrightarrow> target h' = p \<and> contents h' = written))"
proof (rule runs_shows_only[OF assms(2)])
  fix w w' r
  assume ok: "disk_ok (fw_disk w)" and run: "atomic_step A h m w = (w', r)"
  obtain w1 r1 where m: "m w = (w1, r1)" by (cases "m w")
  have "disk_ok (fw_disk w1)"
    using assms(3)[OF ok m] ok by (simp add: shows_only_def keeps_paths_def)
  then have drop: "shows_only keeps_paths w1 (aw_drop A h w1)"
    using assms(1) by (simp add: atomic_contract_def)
  have "shows_only keeps_paths w (aw_drop A h w1)"
    using assms(3)[OF ok m] drop by (blast intro: shows_only_trans)
  then show "shows_only keeps_paths w w' \<and> (\<forall>h'. r = Inr h' \<longrightarrow> target h' = p \<and> contents h' = written)"
    using run assms(3)[OF ok m] by (auto simp: atomic_step_def m split: sum.splits)
qed

definition update_ends :: "disk \<Rightarrow> file_path \<Rightarrow> string \<Rightarrow> (unit, io_error) result \<Rightarrow> disk \<Rightarrow> bool" where
  "update_ends d0 p bytes r d = (old_or_new d0 p bytes d \<and> (is_ok r \<longrightarrow> replaces_path d0 d p bytes))"

lemma commit_runs:
  assumes "atomic_contract A target contents" "disk_ok d0" "target h = p" "contents h = bytes"
  shows "runs (old_or_new d0 p bytes) (keeps_paths d0)
    (io_bind (aw_commit A h) (\<lambda>_. sync_parent_directory q)) (update_ends d0 p bytes)"
proof -
  have commit: "runs (old_or_new d0 p bytes) (keeps_paths d0) (aw_commit A h)
      (\<lambda>r d. if is_ok r then replaces_path d0 d p bytes else keeps_paths d0 d)"
    unfolding runs_def
  proof (intro allI impI)
    fix w :: fs_world
    assume d0: "keeps_paths d0 (fw_disk w)"
    then have ok: "disk_ok (fw_disk w)"
      using assms(2) by (simp add: keeps_paths_def)
    obtain w' r where m: "aw_commit A h w = (w', r)" by (cases "aw_commit A h w")
    from assms have "if is_ok r
        then shows_only (\<lambda>d0 d. keeps_paths d0 d \<or> replaces_path d0 d p bytes) w w'
          \<and> replaces_path (fw_disk w) (fw_disk w') p bytes
        else shows_only keeps_paths w w'"
      using m ok unfolding atomic_contract_def by blast
    then show "case aw_commit A h w of (w', r) \<Rightarrow>
        (\<exists>shown. fw_trace w' = fw_trace w @ shown \<and> (\<forall>d \<in> set shown. old_or_new d0 p bytes d))
        \<and> (if is_ok r then replaces_path d0 (fw_disk w') p bytes else keeps_paths d0 (fw_disk w'))"
      using d0 by (auto simp: m shows_only_def old_or_new_def split: if_splits
          intro: keeps_paths_trans keeps_then_replaces)
  qed
  have "runs (old_or_new d0 p bytes) (\<lambda>d. replaces_path d0 d p bytes) (sync_parent_directory q) (update_ends d0 p bytes)"
    by (rule runs_weaken[OF sync_parent_directory_runs[where D = "\<lambda>d. replaces_path d0 d p bytes"]])
      (auto simp: update_ends_def old_or_new_def)
  then show ?thesis
    by (rule runs_seq[OF commit]) (auto simp: update_ends_def old_or_new_def)
qed

lemma replace_runs:
  assumes C: "atomic_contract A target contents" and ok: "disk_ok d0"
  shows "runs (old_or_new d0 p bytes) (keeps_paths d0)
    (io_bind (aw_open A p) (\<lambda>h.
     io_bind (atomic_step A h (aw_write_all A h bytes)) (\<lambda>h.
     io_bind (atomic_step A h (aw_flush A h)) (\<lambda>h.
     io_bind (atomic_step A h (aw_sync_all A h)) (\<lambda>h.
     io_bind (aw_commit A h) (\<lambda>_. sync_parent_directory q)))))) (update_ends d0 p bytes)"
proof -
  let ?S = "old_or_new d0 p bytes" and ?K = "keeps_paths d0"
  let ?F = "\<lambda>written r d. ?K d \<and> (\<forall>h'. r = Inr h' \<longrightarrow> target h' = p \<and> contents h' = written)"
  have pure: "runs ?S (?F written (Inr h)) m E" if "target h = p \<Longrightarrow> contents h = written \<Longrightarrow> runs ?S ?K m E"
    for written h and m :: "unit io" and E
    using that by (auto simp: runs_def)
  have failed: "?F written (Inl e) d \<Longrightarrow> update_ends d0 p bytes (Inl e) d" for written e d
    by (simp add: update_ends_def old_or_new_def)
  have sync: "runs ?S ?K (io_bind (atomic_step A h (aw_sync_all A h)) (\<lambda>h.
      io_bind (aw_commit A h) (\<lambda>_. sync_parent_directory q))) (update_ends d0 p bytes)"
    if "target h = p" "contents h = bytes" for h
    by (rule runs_bind[OF atomic_step_runs[OF C ok, where written = bytes] failed pure[OF commit_runs[OF C ok]]])
      (use that in \<open>auto dest: atomic_contractD(4)[OF C]\<close>)
  have flush: "runs ?S ?K (io_bind (atomic_step A h (aw_flush A h)) (\<lambda>h.
      io_bind (atomic_step A h (aw_sync_all A h)) (\<lambda>h.
      io_bind (aw_commit A h) (\<lambda>_. sync_parent_directory q)))) (update_ends d0 p bytes)"
    if "target h = p" "contents h = bytes" for h
    by (rule runs_bind[OF atomic_step_runs[OF C ok, where written = bytes] failed pure[OF sync]])
      (use that in \<open>auto dest: atomic_contractD(3)[OF C]\<close>)
  have "runs ?S ?K (io_bind (atomic_step A h (aw_write_all A h bytes)) (\<lambda>h.
      io_bind (atomic_step A h (aw_flush A h)) (\<lambda>h.
      io_bind (atomic_step A h (aw_sync_all A h)) (\<lambda>h.
      io_bind (aw_commit A h) (\<lambda>_. sync_parent_directory q))))) (update_ends d0 p bytes)"
    if "target h = p" "contents h = []" for h
    by (rule runs_bind[OF atomic_step_runs[OF C ok, where written = bytes] failed pure[OF flush]])
      (use that in \<open>auto dest: atomic_contractD(2)[OF C]\<close>)
  note written = this
  have opened: "runs ?S ?K (aw_open A p) (?F [])"
    by (rule runs_shows_only[OF ok]) (auto dest: atomic_contractD(1)[OF C])
  show ?thesis
    by (rule runs_bind[OF opened failed pure[OF written]])
qed

lemma store_update_runs:
  assumes "atomic_contract A target contents" "disk_ok d0"
  shows "runs (old_or_new d0 p bytes) (\<lambda>d. d = d0) (store_update A p bytes)
    (\<lambda>r d. update_ends d0 p bytes r d
       \<and> (is_ok r \<or> \<not> keeps_paths d0 d \<longrightarrow> (\<exists>i. dk_node d0 p = Some (RegularFile i))))"
    (is "runs ?S _ _ ?E")
proof -
  have same: "keeps_paths d0 d0"
    by (simp add: keeps_paths_def keeps_path_def)
  have metadata: "runs ?S (\<lambda>d. d = d0) (sys_symlink_metadata p)
      (\<lambda>m d. d = d0 \<and> (\<forall>i. m = Inr (RegularFile i) \<longrightarrow> dk_node d0 p = Some (RegularFile i)))"
    unfolding sys_symlink_metadata_def
    by (rule runs_syscall) (auto simp: disk_metadata_def old_or_new_def same split: option.split)
  show ?thesis
    unfolding store_update_def
  proof (rule runs_bind[OF metadata])
    fix n
    show "runs ?S (\<lambda>d. d = d0 \<and> (\<forall>i. Inr n = Inr (RegularFile i) \<longrightarrow> dk_node d0 p = Some (RegularFile i)))
        (case n of RegularFile _ \<Rightarrow>
           io_bind (aw_open A p) (\<lambda>h.
           io_bind (atomic_step A h (aw_write_all A h bytes)) (\<lambda>h.
           io_bind (atomic_step A h (aw_flush A h)) (\<lambda>h.
           io_bind (atomic_step A h (aw_sync_all A h)) (\<lambda>h.
           io_bind (aw_commit A h) (\<lambda>_.
           sync_parent_directory (usable_parent p))))))
         | _ \<Rightarrow> io_fail IoInvalidInput) ?E"
    proof (cases n)
      case (RegularFile i)
      show ?thesis
      proof (cases "dk_node d0 p = Some (RegularFile i)")
        case True
        then show ?thesis
          unfolding RegularFile node.case
          using replace_runs[OF assms, of p bytes "usable_parent p"]
          by (elim runs_weaken) (auto simp: same)
      qed (simp add: runs_def RegularFile)
    qed (auto intro!: runs_fail simp: update_ends_def old_or_new_def same)
  qed (auto simp: update_ends_def old_or_new_def same)
qed


text \<open>
  A writer that buffers the contents and replaces the file in one call, for evaluating the model.
\<close>

definition sample_atomic_writer :: "(file_path \<times> string) atomic_writer" where
  "sample_atomic_writer = \<lparr>
     aw_open = (\<lambda>p. io_return (p, [])),
     aw_write_all = (\<lambda>(p, written) bytes. io_return (p, written @ bytes)),
     aw_flush = io_return, aw_sync_all = io_return,
     aw_commit = (\<lambda>(p, written). syscall (\<lambda>d.
       ((set_content (dk_next d) written (set_entry p (Some (RegularFile (dk_next d))) d))\<lparr>dk_next := dk_next d + 1\<rparr>, Inr ()))),
     aw_drop = (\<lambda>_ w. w)\<rparr>"


lemma shows_only_refl: "shows_only keeps_paths w w"
  by (simp add: shows_only_def keeps_paths_def keeps_path_def)

lemma file_contents_cong:
  assumes "dk_node d' q = dk_node d q"
    and "\<And>i. dk_node d q = Some (RegularFile i) \<or> dk_node d q = Some (LinkToFile i) \<Longrightarrow> dk_files d' i = dk_files d i"
  shows "file_contents d' q = file_contents d q"
  using assms by (auto simp: file_contents_def Let_def split: option.split node.split)

lemma sample_replaces:
  assumes "disk_ok d"
  shows "replaces_path d ((set_content (dk_next d) bytes (set_entry p (Some (RegularFile (dk_next d))) d))\<lparr>dk_next := dk_next d + 1\<rparr>) p bytes"
proof -
  have fresh: "dk_node d q \<noteq> Some (RegularFile (dk_next d))" "dk_node d q \<noteq> Some (LinkToFile (dk_next d))" for q
    using assms by (auto simp: disk_ok_def dk_node_def)
  have files: "dk_files (set_entry p n d) = dk_files d" for n
    by (simp add: set_entry_def)
  show ?thesis
    using fresh
    by (auto simp: replaces_path_def keeps_path_def dk_node_simps dk_files_set_content files intro!: file_contents_cong)
      (simp add: file_contents_def dk_node_simps dk_files_set_content)
qed

lemma sample_atomic_contract: "atomic_contract sample_atomic_writer fst snd"
proof -
  have commit: "if is_ok r
      then shows_only (\<lambda>d0 d. keeps_paths d0 d \<or> replaces_path d0 d p bytes) w w' \<and> replaces_path (fw_disk w) (fw_disk w') p bytes
      else shows_only keeps_paths w w'"
    if "disk_ok (fw_disk w)" "aw_commit sample_atomic_writer (p, bytes) w = (w', r)" for p bytes w w' r
    using that sample_replaces[OF that(1), of bytes p]
    by (auto simp: sample_atomic_writer_def syscall_def show_disk_def shows_only_def keeps_paths_def keeps_path_def
        split: prod.splits option.splits dest!: take_refusal_same)
  show ?thesis
    unfolding atomic_contract_def
    using commit by (auto simp: shows_only_refl) (auto simp: sample_atomic_writer_def io_return_def shows_only_refl)
qed


end
