(* ===== verification/ProfileKeyStore.thy ===== *)
theory ProfileKeyStore
  imports ControllerConfig FileSafety
begin

text \<open>
  \<open>src/runtime/transport/profile_key_store.rs\<close>: the bond store that the Bluetooth backend reads and writes through
  the pairing profile.  \<open>BluetoothAddress\<close>, \<open>ClassicBond\<close> and \<open>BondStoreError\<close> are types of the crate
  \<open>swbt-bumble-backend\<close>; \<open>backend_values\<close> has the functions on them that the code calls.  \<open>S\<close> is the store of the
  profile files; in the program it is the file store.
\<close>

datatype bond_store_error = LoadFailed | ListFailed | UpsertFailed

record ('a, 'b) backend_values =
  bv_le_bytes :: "'a \<Rightarrow> u8 list"               \<comment> \<open>\<open>BluetoothAddress::as_le_bytes\<close>\<close>
  bv_parse_public :: "string \<Rightarrow> 'a option"      \<comment> \<open>\<open>BluetoothAddress::parse(_, AddressKind::Public)\<close>\<close>
  bv_bond_new :: "u8 list \<Rightarrow> u8 \<Rightarrow> bool \<Rightarrow> 'b"    \<comment> \<open>\<open>ClassicBond::new\<close> and its accessors\<close>
  bv_link_key :: "'b \<Rightarrow> u8 list"
  bv_link_key_type :: "'b \<Rightarrow> u8"
  bv_authenticated :: "'b \<Rightarrow> bool"

definition format_address :: "('a, 'b) backend_values \<Rightarrow> 'a \<Rightarrow> string" where
  "format_address B address =
     (let bytes = bv_le_bytes B address in
      hex_byte (bytes ! 5) @ '':'' @ hex_byte (bytes ! 4) @ '':'' @ hex_byte (bytes ! 3) @ '':''
      @ hex_byte (bytes ! 2) @ '':'' @ hex_byte (bytes ! 1) @ '':'' @ hex_byte (bytes ! 0))"

definition format_public_peer :: "('a, 'b) backend_values \<Rightarrow> 'a \<Rightarrow> string" where
  "format_public_peer B address = format_address B address @ ''/P''"

definition to_backend_bond :: "('a, 'b) backend_values \<Rightarrow> stored_classic_bond \<Rightarrow> 'b" where
  "to_backend_bond B v = bv_bond_new B (link_key v) (link_key_type v) (authenticated v)"

text \<open>\<open>SwbtProfileKeyStore<M>\<close>; \<open>M\<close> is \<open>ks_model\<close>.\<close>

record profile_key_store =
  ks_path :: string
  ks_model :: controller_kind
  ks_namespace :: "string option"

definition profile_key_store_new :: "controller_kind \<Rightarrow> string \<Rightarrow> profile_key_store" where
  "profile_key_store_new m path = \<lparr>ks_path = path, ks_model = m, ks_namespace = None\<rparr>"

definition ks_namespace_or :: "profile_key_store \<Rightarrow> bond_store_error \<Rightarrow> (string, bond_store_error) result" where
  "ks_namespace_or ks e = (case ks_namespace ks of None \<Rightarrow> Inl e | Some namespace \<Rightarrow> Inr namespace)"

definition ks_read_profile ::
  "json_codec \<Rightarrow> 'fs profile_store \<Rightarrow> profile_key_store \<Rightarrow> bond_store_error \<Rightarrow> 'fs
   \<Rightarrow> 'fs \<times> (profile_document, bond_store_error) result" where
  "ks_read_profile J S ks e fs =
     (case ps_read S (ks_path ks) fs of
        (fs, r) \<Rightarrow> (fs, bind_result (map_err (\<lambda>_. e) r)
                          (\<lambda>bytes. map_err (\<lambda>_. e) (pairing_profile_from_json J (ks_model ks) bytes))))"

definition ks_commit ::
  "json_codec \<Rightarrow> 'fs profile_store \<Rightarrow> profile_key_store \<Rightarrow> profile_document \<Rightarrow> 'fs
   \<Rightarrow> 'fs \<times> (unit, bond_store_error) result" where
  "ks_commit J S ks profile fs =
     (case document_to_json_bytes J profile of
        Inl _ \<Rightarrow> (fs, Inl UpsertFailed)
      | Inr replacement \<Rightarrow>
          (case ps_update S (ks_path ks) replacement fs of (fs, r) \<Rightarrow> (fs, map_err (\<lambda>_. UpsertFailed) r)))"

definition select_local_address ::
  "('a, 'b) backend_values \<Rightarrow> 'a \<Rightarrow> profile_key_store \<Rightarrow> profile_key_store \<times> (unit, bond_store_error) result" where
  "select_local_address B local_address ks =
     (ks\<lparr>ks_namespace := Some (format_address B local_address)\<rparr>, Inr ())"

definition bond_load ::
  "('a, 'b) backend_values \<Rightarrow> json_codec \<Rightarrow> 'fs profile_store \<Rightarrow> 'a \<Rightarrow> profile_key_store \<Rightarrow> 'fs
   \<Rightarrow> 'fs \<times> ('b option, bond_store_error) result" where
  "bond_load B J S peer ks fs =
     (case ks_namespace_or ks LoadFailed of
        Inl e \<Rightarrow> (fs, Inl e)
      | Inr namespace \<Rightarrow>
          (case ks_read_profile J S ks LoadFailed fs of
             (fs, r) \<Rightarrow> (fs, map_ok (\<lambda>profile.
                map_option (to_backend_bond B) (document_pairing_keys profile namespace (format_public_peer B peer))) r)))"

text \<open>The entries in order; the first peer that does not parse fails the whole.\<close>

fun listed_bonds ::
  "('a, 'b) backend_values \<Rightarrow> (string \<times> stored_classic_bond) list \<Rightarrow> (('a \<times> 'b) list, bond_store_error) result" where
  "listed_bonds B [] = Inr []"
| "listed_bonds B ((peer, v) # rest) =
     (case strip_suffix peer ''/P'' of
        None \<Rightarrow> Inl ListFailed
      | Some raw_peer \<Rightarrow>
          (case bv_parse_public B raw_peer of
             None \<Rightarrow> Inl ListFailed
           | Some address \<Rightarrow> map_ok (\<lambda>listed. (address, to_backend_bond B v) # listed) (listed_bonds B rest)))"

definition bond_load_all ::
  "('a, 'b) backend_values \<Rightarrow> json_codec \<Rightarrow> 'fs profile_store \<Rightarrow> profile_key_store \<Rightarrow> 'fs
   \<Rightarrow> 'fs \<times> (('a \<times> 'b) list, bond_store_error) result" where
  "bond_load_all B J S ks fs =
     (case ks_namespace_or ks ListFailed of
        Inl e \<Rightarrow> (fs, Inl e)
      | Inr namespace \<Rightarrow>
          (case ks_read_profile J S ks ListFailed fs of
             (fs, r) \<Rightarrow> (fs, bind_result r (\<lambda>profile.
                listed_bonds B (document_all_pairing_keys profile namespace)))))"

definition bond_upsert ::
  "('a, 'b) backend_values \<Rightarrow> json_codec \<Rightarrow> 'fs profile_store \<Rightarrow> 'a \<Rightarrow> 'b \<Rightarrow> profile_key_store \<Rightarrow> 'fs
   \<Rightarrow> 'fs \<times> (unit, bond_store_error) result" where
  "bond_upsert B J S peer bond ks fs =
     (case ks_namespace_or ks UpsertFailed of
        Inl e \<Rightarrow> (fs, Inl e)
      | Inr namespace \<Rightarrow>
          (case ks_read_profile J S ks UpsertFailed fs of
             (fs, Inl e) \<Rightarrow> (fs, Inl e)
           | (fs, Inr profile) \<Rightarrow>
               (case map_err (\<lambda>_. UpsertFailed)
                   (document_replace_pairing_keys profile namespace (format_public_peer B peer)
                     \<lparr>link_key = bv_link_key B bond, link_key_type = bv_link_key_type B bond,
                      authenticated = bv_authenticated B bond\<rparr>) of
                  Inl e \<Rightarrow> (fs, Inl e)
                | Inr profile \<Rightarrow> ks_commit J S ks profile fs)))"

section \<open>Addresses as keys\<close>

text \<open>
  What the backend documents of its values: an address has six bytes and is read back from its notation, a bond returns
  what it was made of, and a link key has sixteen bytes.
\<close>

definition backend_values_ok :: "('a, 'b) backend_values \<Rightarrow> bool" where
  "backend_values_ok B =
     ((\<forall>a. length (bv_le_bytes B a) = 6)
      \<and> (\<forall>a. \<exists>a'. bv_parse_public B (format_address B a) = Some a' \<and> bv_le_bytes B a' = bv_le_bytes B a)
      \<and> (\<forall>k t u. length k = 16 \<longrightarrow> bv_link_key B (bv_bond_new B k t u) = k
          \<and> bv_link_key_type B (bv_bond_new B k t u) = t \<and> bv_authenticated B (bv_bond_new B k t u) = u)
      \<and> (\<forall>b. length (bv_link_key B b) = 16))"

lemma hex_digit_classes:
  assumes "n < 16"
  shows "is_ascii_hexdigit (hex_digit n)" "\<not> is_ascii_lowercase (hex_digit n)"
proof -
  have upper: "list_all (\<lambda>n. \<not> is_ascii_lowercase (hex_digit (of_nat n))) [0..<16]"
    by code_simp
  have "unat n \<in> set [0..<16]"
    using assms by (simp add: word_less_nat_alt)
  with upper have "\<not> is_ascii_lowercase (hex_digit (of_nat (unat n)))"
    unfolding list_all_iff by blast
  then show "\<not> is_ascii_lowercase (hex_digit n)"
    by simp
  show "is_ascii_hexdigit (hex_digit n)"
    by (simp add: is_ascii_hexdigit_def hex_nibble_digit[OF assms])
qed

lemma hex_byte_classes: "list_all is_ascii_hexdigit (hex_byte b)" "\<not> list_ex is_ascii_lowercase (hex_byte b)"
  by (simp_all add: hex_byte_def hex_digit_classes nibble_bound)

lemma colon_separated_octets:
  assumes "list_all is_ascii_hexdigit [a, b, c, d, e, f, g, h, i, j, k, l]"
  shows "is_bluetooth_address [a, b, CHR '':'', c, d, CHR '':'', e, f, CHR '':'', g, h, CHR '':'', i, j, CHR '':'', k, l]"
  using assms by (simp add: is_bluetooth_address_def separator_indices_def upt_rec numeral_eq_Suc)

lemma canonical_octets:
  "is_canonical_bluetooth_address
     (hex_byte a @ '':'' @ hex_byte b @ '':'' @ hex_byte c @ '':'' @ hex_byte d @ '':'' @ hex_byte e @ '':'' @ hex_byte f)"
proof -
  have "is_bluetooth_address
     (hex_byte a @ '':'' @ hex_byte b @ '':'' @ hex_byte c @ '':'' @ hex_byte d @ '':'' @ hex_byte e @ '':'' @ hex_byte f)"
    unfolding hex_byte_def append.simps
    by (rule colon_separated_octets) (simp add: hex_digit_classes nibble_bound)
  moreover have "\<not> is_ascii_lowercase CHR '':''"
    by code_simp
  ultimately show ?thesis
    by (simp add: is_canonical_bluetooth_address_def hex_byte_classes)
qed

lemma format_address_keys:
  "bluetooth_address_key_parse (format_address B a) = Inr (format_address B a)"
  "classic_peer_key_parse (format_public_peer B a) = Inr (format_public_peer B a)"
  "strip_suffix (format_public_peer B a) ''/P'' = Some (format_address B a)"
proof -
  have c: "is_canonical_bluetooth_address (format_address B a)"
    by (simp only: format_address_def Let_def canonical_octets)
  show strip: "strip_suffix (format_public_peer B a) ''/P'' = Some (format_address B a)"
    by (simp add: strip_suffix_def format_public_peer_def)
  show "bluetooth_address_key_parse (format_address B a) = Inr (format_address B a)"
    "classic_peer_key_parse (format_public_peer B a) = Inr (format_public_peer B a)"
    using c by (simp_all add: bluetooth_address_key_parse_def classic_peer_key_parse_def strip)
qed

lemma hex_byte_inject: "hex_byte a = hex_byte b \<longleftrightarrow> a = b"
  by (metis hex_byte_nibbles nibbles_of_byte option.inject)

lemma format_address_inject:
  assumes "length (bv_le_bytes B a) = 6" "length (bv_le_bytes B b) = 6"
  shows "format_address B a = format_address B b \<longleftrightarrow> bv_le_bytes B a = bv_le_bytes B b"
proof -
  obtain a0 a1 a2 a3 a4 a5 where a: "bv_le_bytes B a = [a0, a1, a2, a3, a4, a5]"
    using list6[OF assms(1)] .
  obtain b0 b1 b2 b3 b4 b5 where b: "bv_le_bytes B b = [b0, b1, b2, b3, b4, b5]"
    using list6[OF assms(2)] .
  show ?thesis
    using hex_byte_inject[of a0 b0] hex_byte_inject[of a1 b1] hex_byte_inject[of a2 b2]
      hex_byte_inject[of a3 b3] hex_byte_inject[of a4 b4] hex_byte_inject[of a5 b5]
    by (simp add: format_address_def a b Let_def) (auto simp: hex_byte_def)
qed

section \<open>The bond store on the file store\<close>

definition profile_readable :: "json_codec \<Rightarrow> controller_kind \<Rightarrow> file_path \<Rightarrow> disk \<Rightarrow> bool" where
  "profile_readable J m p d =
     (case file_contents d p of Inl _ \<Rightarrow> False | Inr bytes \<Rightarrow> is_ok (pairing_profile_from_json J m bytes))"

text \<open>What a bond becomes on its way through the profile.\<close>

definition stored_copy :: "('a, 'b) backend_values \<Rightarrow> 'b \<Rightarrow> 'b" where
  "stored_copy B bond = bv_bond_new B (bv_link_key B bond) (bv_link_key_type B bond) (bv_authenticated B bond)"

definition same_bond :: "('a, 'b) backend_values \<Rightarrow> 'b \<Rightarrow> 'b \<Rightarrow> bool" where
  "same_bond B b c = (bv_link_key B b = bv_link_key B c \<and> bv_link_key_type B b = bv_link_key_type B c
     \<and> bv_authenticated B b = bv_authenticated B c)"

text \<open>A result that only a refusal of the operating system takes away.\<close>

definition unless_refused :: "fs_world \<Rightarrow> 'e \<Rightarrow> ('c, 'e) result \<Rightarrow> ('c, 'e) result \<Rightarrow> bool" where
  "unless_refused w e expected r = (r = expected \<or> fw_refusals w \<noteq> [] \<and> r = Inl e)"

lemma ps_update_file: "ps_update (file_profile_store A) path = store_update A (parse_path path)"
  by (simp add: file_profile_store_def)

lemma file_contents_node: "file_contents d p = Inr bytes \<Longrightarrow> dk_node d p \<noteq> None"
  by (cases "dk_node d p") (auto simp: file_contents_def)

lemma store_read_cases:
  assumes "store_read p w = (w', r)"
  shows "fw_disk w' = fw_disk w"
    and "\<exists>shown. fw_trace w' = fw_trace w @ shown \<and> set shown \<subseteq> {fw_disk w}"
    and "r = file_contents (fw_disk w) p \<or> fw_refusals w \<noteq> [] \<and> (\<exists>e. r = Inl e)"
  using assms
  by (auto simp: store_read_def syscall_def show_disk_def take_refusal_def split: prod.splits option.splits list.splits)

lemma ks_read_cases:
  assumes "ks_read_profile J (file_profile_store A) ks e w = (w', r)"
  shows "fw_disk w' = fw_disk w"
    and "\<exists>shown. fw_trace w' = fw_trace w @ shown \<and> set shown \<subseteq> {fw_disk w}"
    and "unless_refused w e (bind_result (map_err (\<lambda>_. e) (file_contents (fw_disk w) (parse_path (ks_path ks))))
           (\<lambda>bytes. map_err (\<lambda>_. e) (pairing_profile_from_json J (ks_model ks) bytes))) r"
proof -
  obtain w1 r1 where read: "store_read (parse_path (ks_path ks)) w = (w1, r1)"
    by (cases "store_read (parse_path (ks_path ks)) w")
  have "w' = w1" and r: "r = bind_result (map_err (\<lambda>_. e) r1)
      (\<lambda>bytes. map_err (\<lambda>_. e) (pairing_profile_from_json J (ks_model ks) bytes))"
    using assms by (simp_all add: ks_read_profile_def file_profile_store_def read)
  then show "fw_disk w' = fw_disk w" "\<exists>shown. fw_trace w' = fw_trace w @ shown \<and> set shown \<subseteq> {fw_disk w}"
    using store_read_cases(1,2)[OF read] by simp_all
  show "unless_refused w e (bind_result (map_err (\<lambda>_. e) (file_contents (fw_disk w) (parse_path (ks_path ks))))
      (\<lambda>bytes. map_err (\<lambda>_. e) (pairing_profile_from_json J (ks_model ks) bytes))) r"
    using store_read_cases(3)[OF read] by (auto simp: unless_refused_def r)
qed

text \<open>Looking up bonds in a file that holds a profile.\<close>

lemma loads_of_profile:
  assumes "ks_namespace ks = Some ns" "file_contents (fw_disk v) (parse_path (ks_path ks)) = Inr bytes"
    and "pairing_profile_from_json J (ks_model ks) bytes = Inr d"
  shows "unless_refused v LoadFailed
      (Inr (map_option (to_backend_bond B) (document_pairing_keys d ns (format_public_peer B other))))
      (snd (bond_load B J (file_profile_store A) other ks v))"
    and "unless_refused v ListFailed (listed_bonds B (document_all_pairing_keys d ns))
      (snd (bond_load_all B J (file_profile_store A) ks v))"
proof -
  have read: "unless_refused v e (Inr d) (snd (ks_read_profile J (file_profile_store A) ks e v))" for e
    using ks_read_cases(3)[of J A ks e v] assms(2,3)
    by (cases "ks_read_profile J (file_profile_store A) ks e v") simp
  show "unless_refused v LoadFailed
      (Inr (map_option (to_backend_bond B) (document_pairing_keys d ns (format_public_peer B other))))
      (snd (bond_load B J (file_profile_store A) other ks v))"
    using read[of LoadFailed] by (auto simp: bond_load_def ks_namespace_or_def assms(1) unless_refused_def split: prod.split)
  show "unless_refused v ListFailed (listed_bonds B (document_all_pairing_keys d ns))
      (snd (bond_load_all B J (file_profile_store A) ks v))"
    using read[of ListFailed] by (auto simp: bond_load_all_def ks_namespace_or_def assms(1) unless_refused_def split: prod.split)
qed

lemma old_or_new_readable:
  assumes "old_or_new d0 p replacement d" "profile_readable J m p d0" "is_ok (pairing_profile_from_json J m replacement)"
  shows "profile_readable J m p d"
  using assms(1)
proof (unfold old_or_new_def, elim disjE)
  assume "keeps_paths d0 d"
  then have "dk_node d0 p = None \<or> file_contents d p = file_contents d0 p"
    by (auto simp: keeps_paths_def keeps_path_def)
  moreover have "dk_node d0 p \<noteq> None"
    using assms(2) file_contents_node[of d0 p] by (auto simp: profile_readable_def split: sum.splits)
  ultimately show ?thesis
    using assms(2) by (simp add: profile_readable_def)
qed (use assms(3) in \<open>simp add: profile_readable_def replaces_path_def\<close>)

text \<open>
  Storing a bond either fails without touching the disk, or replaces the file by the profile with the bond, as
  \<open>update\<close> does.
\<close>

definition upsert_touches_nothing :: "fs_world \<Rightarrow> fs_world \<Rightarrow> bool" where
  "upsert_touches_nothing w w' =
     (fw_disk w' = fw_disk w \<and> (\<exists>shown. fw_trace w' = fw_trace w @ shown \<and> set shown \<subseteq> {fw_disk w}))"

definition upsert_rewrites ::
  "('a, 'b) backend_values \<Rightarrow> json_codec \<Rightarrow> profile_key_store \<Rightarrow> string \<Rightarrow> 'a \<Rightarrow> 'b \<Rightarrow> fs_world \<Rightarrow> fs_world
   \<Rightarrow> (unit, bond_store_error) result \<Rightarrow> string \<Rightarrow> profile_document \<Rightarrow> string \<Rightarrow> profile_document \<Rightarrow> bool" where
  "upsert_rewrites B J ks ns peer bond w w' r bytes d replacement d' =
     (let p = parse_path (ks_path ks) in
      file_contents (fw_disk w) p = Inr bytes \<and> pairing_profile_from_json J (ks_model ks) bytes = Inr d
      \<and> document_replace_pairing_keys d ns (format_public_peer B peer)
          \<lparr>link_key = bv_link_key B bond, link_key_type = bv_link_key_type B bond,
           authenticated = bv_authenticated B bond\<rparr> = Inr d'
      \<and> document_to_json_bytes J d' = Inr replacement
      \<and> (\<exists>shown. fw_trace w' = fw_trace w @ shown \<and> (\<forall>x \<in> set shown. old_or_new (fw_disk w) p replacement x))
      \<and> old_or_new (fw_disk w) p replacement (fw_disk w')
      \<and> (r = Inr () \<longrightarrow> file_contents (fw_disk w') p = Inr replacement))"

lemma upsert_cases:
  assumes A: "atomic_contract A target contents" and ok: "disk_ok (fw_disk w)" and ns: "ks_namespace ks = Some ns"
    and run: "bond_upsert B J (file_profile_store A) peer bond ks w = (w', r)"
  shows "(\<exists>e. r = Inl e) \<and> upsert_touches_nothing w w'
    \<or> (\<exists>bytes d replacement d'. upsert_rewrites B J ks ns peer bond w w' r bytes d replacement d')"
proof -
  let ?p = "parse_path (ks_path ks)"
  obtain w1 r1 where read: "ks_read_profile J (file_profile_store A) ks UpsertFailed w = (w1, r1)"
    by (cases "ks_read_profile J (file_profile_store A) ks UpsertFailed w")
  note read_facts = ks_read_cases[OF read]
  then have same: "upsert_touches_nothing w w1"
    by (simp add: upsert_touches_nothing_def)
  show ?thesis
  proof (cases r1)
    case (Inl e)
    then show ?thesis
      using run same by (auto simp: bond_upsert_def ks_namespace_or_def ns read)
  next
    case (Inr d)
    then obtain bytes where bytes: "file_contents (fw_disk w) ?p = Inr bytes"
      "pairing_profile_from_json J (ks_model ks) bytes = Inr d"
      using read_facts(3) by (auto simp: unless_refused_def map_err_def split: sum.splits)
    let ?b = "\<lparr>link_key = bv_link_key B bond, link_key_type = bv_link_key_type B bond,
      authenticated = bv_authenticated B bond\<rparr>"
    show ?thesis
    proof (cases "bind_result (document_replace_pairing_keys d ns (format_public_peer B peer) ?b) (document_to_json_bytes J)")
      case (Inl e)
      then show ?thesis
        using run same
        by (auto simp: bond_upsert_def ks_namespace_or_def ns read Inr ks_commit_def bind_result_Inl_iff
            split: sum.splits prod.splits)
    next
      case (Inr replacement)
      then obtain d' where d': "document_replace_pairing_keys d ns (format_public_peer B peer) ?b = Inr d'"
        "document_to_json_bytes J d' = Inr replacement"
        by (auto simp: bind_result_Inr_iff)
      obtain w2 r2 where update: "store_update A ?p replacement w1 = (w2, r2)"
        by (cases "store_update A ?p replacement w1")
      have "w' = w2" and r: "r = map_err (\<lambda>_. UpsertFailed) r2"
        using run by (simp_all add: bond_upsert_def ks_namespace_or_def ns read \<open>r1 = Inr d\<close> d' ks_commit_def
            ps_update_file update)
      have "(\<exists>shown. fw_trace w' = fw_trace w1 @ shown \<and> (\<forall>x \<in> set shown. old_or_new (fw_disk w) ?p replacement x))"
        and "update_ends (fw_disk w) ?p replacement r2 (fw_disk w')"
        using runsD[OF store_update_runs[OF A ok, of ?p replacement] read_facts(1) update] \<open>w' = w2\<close> by simp_all
      moreover have "old_or_new (fw_disk w) ?p replacement (fw_disk w)"
        by (simp add: old_or_new_def keeps_paths_def keeps_path_def)
      ultimately have "upsert_rewrites B J ks ns peer bond w w' r bytes d replacement d'"
        using read_facts(2) bytes d' r
        by (force simp: upsert_rewrites_def Let_def update_ends_def replaces_path_def map_err_def split: sum.splits)
      then show ?thesis
        by blast
    qed
  qed
qed

lemma upsert_keeps_readable:
  assumes B: "backend_values_ok B" and J: "json_reads_back J"
    and rewritten: "upsert_rewrites B J ks ns peer bond w w' r bytes d replacement d'"
  shows "pairing_profile_from_json J (ks_model ks) replacement = Inr d'" and "valid_document d"
proof -
  have d: "valid_document d" "doc_controller_kind d = ks_model ks"
    using load_valid rewritten by (auto simp: upsert_rewrites_def Let_def)
  show "valid_document d"
    by (rule d)
  have replace: "document_replace_pairing_keys d ns (format_public_peer B peer)
      \<lparr>link_key = bv_link_key B bond, link_key_type = bv_link_key_type B bond, authenticated = bv_authenticated B bond\<rparr> = Inr d'"
    and render: "document_to_json_bytes J d' = Inr replacement"
    using rewritten by (auto simp: upsert_rewrites_def Let_def)
  have "length (bv_link_key B bond) = 16"
    using B by (simp add: backend_values_ok_def)
  then have "valid_document d'"
    using replace_valid[OF d(1) _ replace] by simp
  moreover have "doc_controller_kind d' = ks_model ks"
    using replace_lookup(5)[OF d(1) replace] d(2) by simp
  ultimately show "pairing_profile_from_json J (ks_model ks) replacement = Inr d'"
    using load_saved[OF J _ render, of "ks_model ks"] by simp
qed

lemma stored_copy_same:
  assumes "backend_values_ok B"
  shows "same_bond B bond (stored_copy B bond)"
  using assms by (simp add: same_bond_def stored_copy_def backend_values_ok_def)

lemma listed_current_peer:
  assumes "backend_values_ok B"
  shows "\<exists>address. bv_le_bytes B address = bv_le_bytes B peer
    \<and> listed_bonds B [(format_public_peer B peer, v)] = Inr [(address, to_backend_bond B v)]"
proof -
  obtain address where "bv_parse_public B (format_address B peer) = Some address" "bv_le_bytes B address = bv_le_bytes B peer"
    using assms unfolding backend_values_ok_def by blast
  then show ?thesis
    by (simp add: format_address_keys)
qed

lemma format_public_peer_inject:
  assumes "backend_values_ok B"
  shows "format_public_peer B a = format_public_peer B b \<longleftrightarrow> bv_le_bytes B a = bv_le_bytes B b"
  using assms format_address_inject[of B a b] by (simp add: format_public_peer_def backend_values_ok_def)

lemma loads_after_rewrite:
  assumes B: "backend_values_ok B" and J: "json_reads_back J" and ns: "ks_namespace ks = Some ns"
    and rewritten: "upsert_rewrites B J ks ns peer bond w w' (Inr ()) bytes d replacement d'"
    and v: "fw_disk v = fw_disk w'"
  shows "unless_refused v LoadFailed
      (Inr (if bv_le_bytes B other = bv_le_bytes B peer then Some (stored_copy B bond) else None))
      (snd (bond_load B J (file_profile_store A) other ks v))"
    and "\<exists>address. bv_le_bytes B address = bv_le_bytes B peer
      \<and> unless_refused v ListFailed (Inr [(address, stored_copy B bond)])
          (snd (bond_load_all B J (file_profile_store A) ks v))"
proof -
  have replace: "document_replace_pairing_keys d ns (format_public_peer B peer)
      \<lparr>link_key = bv_link_key B bond, link_key_type = bv_link_key_type B bond, authenticated = bv_authenticated B bond\<rparr> = Inr d'"
    and present: "file_contents (fw_disk v) (parse_path (ks_path ks)) = Inr replacement"
    using rewritten v by (auto simp: upsert_rewrites_def Let_def)
  note look = replace_lookup[OF upsert_keeps_readable(2)[OF B J rewritten] replace]
  note loads = loads_of_profile[OF ns present upsert_keeps_readable(1)[OF B J rewritten], of B, where A = A]
  have copy: "to_backend_bond B \<lparr>link_key = bv_link_key B bond, link_key_type = bv_link_key_type B bond,
      authenticated = bv_authenticated B bond\<rparr> = stored_copy B bond"
    by (simp add: to_backend_bond_def stored_copy_def)
  show "unless_refused v LoadFailed
      (Inr (if bv_le_bytes B other = bv_le_bytes B peer then Some (stored_copy B bond) else None))
      (snd (bond_load B J (file_profile_store A) other ks v))"
    using loads(1)[of other] format_public_peer_inject[OF B, of other peer]
    by (simp add: look(2) copy split: if_splits)
  show "\<exists>address. bv_le_bytes B address = bv_le_bytes B peer
      \<and> unless_refused v ListFailed (Inr [(address, stored_copy B bond)])
          (snd (bond_load_all B J (file_profile_store A) ks v))"
    using loads(2) listed_current_peer[OF B, of peer "\<lparr>link_key = bv_link_key B bond,
      link_key_type = bv_link_key_type B bond, authenticated = bv_authenticated B bond\<rparr>"]
    unfolding look(1) copy by metis
qed

lemma other_namespace_kept:
  assumes B: "backend_values_ok B" and J: "json_reads_back J"
    and rewritten: "upsert_rewrites B J ks ns peer bond w w' (Inr ()) bytes d replacement d'"
    and v: "fw_disk v = fw_disk w'" and ks': "ks' = ks\<lparr>ks_namespace := Some ns'\<rparr>" "ns' \<noteq> ns"
  shows "\<exists>found. unless_refused w LoadFailed found (snd (bond_load B J (file_profile_store A) other ks' w))
    \<and> unless_refused v LoadFailed found (snd (bond_load B J (file_profile_store A) other ks' v))"
proof -
  have replace: "document_replace_pairing_keys d ns (format_public_peer B peer)
      \<lparr>link_key = bv_link_key B bond, link_key_type = bv_link_key_type B bond, authenticated = bv_authenticated B bond\<rparr> = Inr d'"
    and old: "file_contents (fw_disk w) (parse_path (ks_path ks')) = Inr bytes"
      "pairing_profile_from_json J (ks_model ks') bytes = Inr d"
    and present: "file_contents (fw_disk v) (parse_path (ks_path ks')) = Inr replacement"
    and new: "pairing_profile_from_json J (ks_model ks') replacement = Inr d'"
    and ns': "ks_namespace ks' = Some ns'"
    using rewritten v ks' upsert_keeps_readable(1)[OF B J rewritten] by (auto simp: upsert_rewrites_def Let_def)
  have "document_pairing_keys d' ns' p = document_pairing_keys d ns' p" for p
    using replace_lookup(4)[OF upsert_keeps_readable(2)[OF B J rewritten] replace] ks'(2) by blast
  then show ?thesis
    using loads_of_profile(1)[OF ns' old, of B other A] loads_of_profile(1)[OF ns' present new, of B other A] by auto
qed

text \<open>
  C27: the bond store keeps the current peer and never loses a profile.  At every moment of storing a bond, whatever
  calls fail, a profile that could be read can be read.  After success, loading the bond of an address gives the stored
  one for the peer and none for any other, the list of bonds is the peer's alone, and under another local address
  the bond of each peer is what it was; only a refused read fails a load.
\<close>

theorem bond_store_keeps_current_peer:
  assumes B: "backend_values_ok B" and J: "json_reads_back J" and A: "atomic_contract A target contents"
    and ok: "disk_ok (fw_disk w)" and ks: "ks = fst (select_local_address B local ks0)"
    and run: "bond_upsert B J (file_profile_store A) peer bond ks w = (w', r)"
  shows "(\<exists>shown. fw_trace w' = fw_trace w @ shown
      \<and> (profile_readable J (ks_model ks) (parse_path (ks_path ks)) (fw_disk w) \<longrightarrow>
          (\<forall>d \<in> set (shown @ [fw_disk w']). profile_readable J (ks_model ks) (parse_path (ks_path ks)) d)))
    \<and> same_bond B bond (stored_copy B bond)
    \<and> (\<forall>v. r = Inr () \<and> fw_disk v = fw_disk w' \<longrightarrow>
        (\<forall>other. unless_refused v LoadFailed
           (Inr (if bv_le_bytes B other = bv_le_bytes B peer then Some (stored_copy B bond) else None))
           (snd (bond_load B J (file_profile_store A) other ks v)))
        \<and> (\<exists>address. bv_le_bytes B address = bv_le_bytes B peer
            \<and> unless_refused v ListFailed (Inr [(address, stored_copy B bond)])
                (snd (bond_load_all B J (file_profile_store A) ks v)))
        \<and> (\<forall>local' other. bv_le_bytes B local' \<noteq> bv_le_bytes B local \<longrightarrow>
            (\<exists>found. unless_refused w LoadFailed found
                 (snd (bond_load B J (file_profile_store A) other (fst (select_local_address B local' ks0)) w))
               \<and> unless_refused v LoadFailed found
                 (snd (bond_load B J (file_profile_store A) other (fst (select_local_address B local' ks0)) v)))))"
proof -
  let ?ns = "format_address B local" and ?p = "parse_path (ks_path ks)"
  have ns: "ks_namespace ks = Some ?ns"
    by (simp add: ks select_local_address_def)
  consider (failed) "\<exists>e. r = Inl e" "upsert_touches_nothing w w'"
    | (rewritten) bytes d replacement d' where "upsert_rewrites B J ks ?ns peer bond w w' r bytes d replacement d'"
    using upsert_cases[OF A ok ns run] by blast
  then show ?thesis
  proof cases
    case failed
    then show ?thesis
      using stored_copy_same[OF B] by (fastforce simp: upsert_touches_nothing_def)
  next
    case rewritten
    have shown: "\<exists>shown. fw_trace w' = fw_trace w @ shown
        \<and> (profile_readable J (ks_model ks) ?p (fw_disk w) \<longrightarrow>
            (\<forall>d \<in> set (shown @ [fw_disk w']). profile_readable J (ks_model ks) ?p d))"
      using rewritten old_or_new_readable[where m = "ks_model ks" and J = J and p = ?p and replacement = replacement]
        upsert_keeps_readable(1)[OF B J rewritten]
      by (fastforce simp: upsert_rewrites_def Let_def)
    have elsewhere: "\<exists>found. unless_refused w LoadFailed found
          (snd (bond_load B J (file_profile_store A) other (fst (select_local_address B local' ks0)) w))
        \<and> unless_refused v LoadFailed found
          (snd (bond_load B J (file_profile_store A) other (fst (select_local_address B local' ks0)) v))"
      if "r = Inr ()" "fw_disk v = fw_disk w'" "bv_le_bytes B local' \<noteq> bv_le_bytes B local" for v other local'
    proof (rule other_namespace_kept[OF B J rewritten[unfolded that(1)] that(2)])
      show "fst (select_local_address B local' ks0) = ks\<lparr>ks_namespace := Some (format_address B local')\<rparr>"
        by (simp add: select_local_address_def ks)
      show "format_address B local' \<noteq> ?ns"
        using that(3) format_address_inject[of B local' local] B by (simp add: backend_values_ok_def)
    qed
    have later: "r = Inr () \<Longrightarrow> upsert_rewrites B J ks ?ns peer bond w w' (Inr ()) bytes d replacement d'"
      using rewritten by simp
    show ?thesis
      using shown stored_copy_same[OF B] elsewhere loads_after_rewrite[OF B J ns later] by blast
  qed
qed

text \<open>
  The backend's values as plain data, a codec that knows two documents, and a disk with the first one, for evaluating
  the model.
\<close>

definition plain_backend_values :: "(u8 \<times> u8 \<times> u8 \<times> u8 \<times> u8 \<times> u8, u8 list \<times> u8 \<times> bool) backend_values" where
  "plain_backend_values = \<lparr>
     bv_le_bytes = (\<lambda>(a, b, c, d, e, f). [a, b, c, d, e, f]),
     bv_parse_public = (\<lambda>s.
       case decode_hex_pairs (filter (\<lambda>c. c \<noteq> CHR '':'') s) of
         Some [f, e, d, c, b, a] \<Rightarrow> Some (a, b, c, d, e, f)
       | _ \<Rightarrow> None),
     bv_bond_new = (\<lambda>k t u. (k, t, u)),
     bv_link_key = (\<lambda>(k, _). take 16 (k @ replicate 16 0)),
     bv_link_key_type = (\<lambda>(_, t, _). t), bv_authenticated = (\<lambda>(_, _, u). u)\<rparr>"

lemma hex_digit_no_colon: "n < 16 \<Longrightarrow> hex_digit n \<noteq> CHR '':''"
proof -
  have "hex_nibble CHR '':'' = None"
    by code_simp
  then show "n < 16 \<Longrightarrow> hex_digit n \<noteq> CHR '':''"
    using hex_digit_classes(1)[of n] by (auto simp: is_ascii_hexdigit_def)
qed

lemma plain_backend_values_ok: "backend_values_ok plain_backend_values"
proof -
  have hex: "filter (\<lambda>c. c \<noteq> CHR '':'') (hex_byte b) = hex_byte b" for b
    by (simp add: hex_byte_def hex_digit_no_colon nibble_bound)
  have "\<exists>a'. bv_parse_public plain_backend_values (format_address plain_backend_values a) = Some a'
      \<and> bv_le_bytes plain_backend_values a' = bv_le_bytes plain_backend_values a" for a
  proof -
    obtain a0 a1 a2 a3 a4 a5 where a: "a = (a0, a1, a2, a3, a4, a5)"
      by (cases a) auto
    have "filter (\<lambda>c. c \<noteq> CHR '':'') (format_address plain_backend_values a) = encode_hex [a5, a4, a3, a2, a1, a0]"
      by (simp add: format_address_def plain_backend_values_def a hex encode_hex_def)
    then show ?thesis
      by (simp add: plain_backend_values_def decode_hex_pairs_encode a)
  qed
  then show ?thesis
    by (auto simp: backend_values_ok_def plain_backend_values_def)
qed

definition sample_bond :: "u8 list \<times> u8 \<times> bool" where
  "sample_bond = (replicate 16 7, 4, True)"

definition sample_bonded_document :: profile_document where
  "sample_bonded_document = (document_empty Pro AdapterDefault)\<lparr>doc_namespaces :=
     [(''00:11:22:33:44:AB'', [(''AA:BB:CC:DD:EE:FF/P'',
        from_stored_bond \<lparr>link_key = replicate 16 7, link_key_type = 4, authenticated = True\<rparr>)])]\<rparr>"

definition two_document_codec :: json_codec where
  "two_document_codec = \<lparr>
     json_render = (\<lambda>r. if r = to_raw (document_empty Pro AdapterDefault) then Some ''{}''
       else if r = to_raw sample_bonded_document then Some ''{1}'' else None),
     json_read = (\<lambda>bytes. if bytes = ''{}'' @ [CHR 0x0A] then Some (to_raw (document_empty Pro AdapterDefault))
       else if bytes = ''{1}'' @ [CHR 0x0A] then Some (to_raw sample_bonded_document) else None)\<rparr>"

definition sample_profile_world :: fs_world where
  "sample_profile_world = empty_world\<lparr>fw_disk :=
     (set_content 0 (''{}'' @ [CHR 0x0A])
        (set_entry (parse_path ''pro.json'') (Some (RegularFile 0)) empty_disk))\<lparr>dk_next := 1\<rparr>\<rparr>"

definition sample_key_store :: profile_key_store where
  "sample_key_store = fst (select_local_address plain_backend_values (0xAB, 0x44, 0x33, 0x22, 0x11, 0x00)
     (profile_key_store_new Pro ''pro.json''))"

definition sample_upsert :: "fs_world \<times> (unit, bond_store_error) result" where
  "sample_upsert = bond_upsert plain_backend_values two_document_codec (file_profile_store sample_atomic_writer)
     (0xFF, 0xEE, 0xDD, 0xCC, 0xBB, 0xAA) sample_bond sample_key_store sample_profile_world"

theorem bond_store_keeps_current_peer_witness:
  "snd sample_upsert = Inr () \<and> fw_refusals (fst sample_upsert) = []
   \<and> snd (bond_load plain_backend_values two_document_codec (file_profile_store sample_atomic_writer)
        (0xFF, 0xEE, 0xDD, 0xCC, 0xBB, 0xAA) sample_key_store (fst sample_upsert)) = Inr (Some sample_bond)"
proof -
  have J: "json_reads_back two_document_codec"
    by (auto simp: json_reads_back_def two_document_codec_def split: if_splits)
  have ok: "disk_ok (fw_disk sample_profile_world)"
    by (simp add: disk_ok_def sample_profile_world_def empty_world_def empty_disk_def set_entry_def set_content_def)
  have evaluated: "snd sample_upsert = Inr ()" "fw_refusals (fst sample_upsert) = []"
    by code_simp+
  have run: "bond_upsert plain_backend_values two_document_codec (file_profile_store sample_atomic_writer)
      (0xFF, 0xEE, 0xDD, 0xCC, 0xBB, 0xAA) sample_bond sample_key_store sample_profile_world = (fst sample_upsert, Inr ())"
    using evaluated(1) by (simp add: sample_upsert_def prod_eq_iff)
  have copy: "stored_copy plain_backend_values sample_bond = sample_bond"
    by code_simp
  let ?peer = "(0xFF, 0xEE, 0xDD, 0xCC, 0xBB, 0xAA)"
  have "unless_refused (fst sample_upsert) LoadFailed
      (Inr (if bv_le_bytes plain_backend_values ?peer = bv_le_bytes plain_backend_values ?peer
        then Some (stored_copy plain_backend_values sample_bond) else None))
      (snd (bond_load plain_backend_values two_document_codec (file_profile_store sample_atomic_writer) ?peer
        sample_key_store (fst sample_upsert)))"
    using bond_store_keeps_current_peer[OF plain_backend_values_ok J sample_atomic_contract ok
        sample_key_store_def run] by blast
  then show ?thesis
    using evaluated copy by (simp add: unless_refused_def)
qed

end
