(* ===== verification/Bumble.thy ===== *)
theory Bumble
  imports ProfileKeyStore
begin

text \<open>
  \<open>src/runtime/transport/bumble.rs\<close>: the transport of the program, one session of the Bluetooth backend behind the
  \<open>TransportPort\<close> interface.

  The crate \<open>swbt-bumble-backend\<close> is a parameter: \<open>bumble_backend\<close> has the functions of it that the code calls, on
  session handles \<open>'s\<close> and a world \<open>'w\<close>.  Of its enums the constructors that the code names are kept; \<open>Be_Other\<close> and
  \<open>Bk_Other\<close> stand for what a later version of the crate may add (both enums are non-exhaustive).  Dropping a
  session is a call as well (\<open>bb_drop\<close>).  The activity notifier has no counterpart.
\<close>

section \<open>The backend\<close>

datatype backend_channel = Bc_Control | Bc_Interrupt

datatype backend_event =
    Be_Connected
  | Be_ChannelOpened backend_channel
  | Be_HidOutput backend_channel "u8 list"
  | Be_Disconnected "u8 option"
  | Be_Other

datatype backend_error_kind =
    Bk_InvalidConfiguration | Bk_OpenFailed | Bk_InvalidControllerIdentity | Bk_IdentityMismatch
  | Bk_AdapterIdentityRecoveryRequired | Bk_UnsupportedController | Bk_InvalidBondStore | Bk_NoBond | Bk_Closed
  | Bk_SendRejected | Bk_DrainTimedOut | Bk_EventQueueOverflow | Bk_SourceTerminated | Bk_ProtocolViolation
  | Bk_CloseFailed | Bk_Other

datatype 'a backend_identity = Bi_AdapterDefault | Bi_Explicit 'a

text \<open>The bond store of a session: a fresh \<open>VolatileBondStore\<close> or the one of the profile.\<close>

datatype ('a, 'b) bond_store = VolatileBonds "('a \<times> 'b) list" | ProfileBonds profile_key_store

text \<open>\<open>backend::HidSdpPolicy\<close>, a struct of public fields; \<open>'c\<close> is \<open>SessionConfig\<close>.\<close>

record backend_sdp_policy =
  bsp_service_name :: string
  bsp_service_description :: "string option"
  bsp_provider_name :: "string option"
  bsp_device_release_number :: "u16 option"
  bsp_bluetooth_profile_version :: u16
  bsp_parser_version :: u16
  bsp_device_subclass :: u8
  bsp_country_code :: u8
  bsp_virtual_cable :: bool
  bsp_reconnect_initiate :: bool
  bsp_remote_wake :: "bool option"
  bsp_profile_version :: u16
  bsp_supervision_timeout :: u16
  bsp_normally_connectable :: bool
  bsp_boot_device :: bool
  bsp_ssr_host_max_latency :: u16
  bsp_ssr_host_min_timeout :: u16

record ('a, 'c) open_options =
  oo_adapter :: string
  oo_session_config :: 'c
  oo_local_identity :: "'a backend_identity"

record ('a, 'b, 'c, 's, 'w) bumble_backend =
  bb_values :: "('a, 'b) backend_values"
  bb_from_le_bytes :: "u8 list \<Rightarrow> 'a"      \<comment> \<open>\<open>BluetoothAddress::from_le_bytes(_, AddressKind::Public)\<close>\<close>
  bb_session_config :: "string \<Rightarrow> u32 \<Rightarrow> u8 list \<Rightarrow> backend_sdp_policy \<Rightarrow> ('c, backend_error_kind) result"
  bb_open :: "('a, 'c) open_options \<Rightarrow> ('a, 'b) bond_store \<Rightarrow> 'w \<Rightarrow> 'w \<times> ('s, backend_error_kind) result"
  bb_local_address :: "'s \<Rightarrow> 'w \<Rightarrow> 'a"     \<comment> \<open>\<open>capabilities().local_address()\<close>\<close>
  bb_start_pairing :: "'s \<Rightarrow> 'w \<Rightarrow> 'w \<times> (unit, backend_error_kind) result"
  bb_start_reconnect :: "'s \<Rightarrow> 'w \<Rightarrow> 'w \<times> (unit, backend_error_kind) result"
  bb_poll :: "'s \<Rightarrow> duration \<Rightarrow> 'w \<Rightarrow> 'w \<times> (backend_event list, backend_error_kind) result"
  bb_capacity_available :: "'s \<Rightarrow> 'w \<Rightarrow> bool"
  bb_send_interrupt :: "'s \<Rightarrow> u8 list \<Rightarrow> 'w \<Rightarrow> 'w \<times> (unit, backend_error_kind) result"
  bb_drain_interrupt :: "'s \<Rightarrow> duration \<Rightarrow> 'w \<Rightarrow> 'w \<times> (unit, backend_error_kind) result"
  bb_disconnect :: "'s \<Rightarrow> 'w \<Rightarrow> 'w \<times> (unit, backend_error_kind) result"
  bb_close :: "'s \<Rightarrow> 'w \<Rightarrow> 'w \<times> (unit, backend_error_kind) result"
  bb_drop :: "'s \<Rightarrow> 'w \<Rightarrow> 'w"

section \<open>Mapping values\<close>

fun map_backend_channel :: "backend_channel \<Rightarrow> hid_channel" where
  "map_backend_channel Bc_Control = Control"
| "map_backend_channel Bc_Interrupt = Interrupt"

fun map_backend_event :: "backend_event \<Rightarrow> (transport_event, transport_error) result" where
  "map_backend_event Be_Connected = Inr Connected"
| "map_backend_event (Be_ChannelOpened channel) = Inr (HidChannelOpened (map_backend_channel channel))"
| "map_backend_event (Be_HidOutput channel payload) = Inr (HidOutput (map_backend_channel channel) payload)"
| "map_backend_event (Be_Disconnected reason) = Inr (Disconnected reason)"
| "map_backend_event Be_Other = Inl Te_SourceTerminated"

fun map_backend_error_kind :: "backend_error_kind \<Rightarrow> transport_error" where
  "map_backend_error_kind Bk_InvalidConfiguration = Te_OpenFailed"
| "map_backend_error_kind Bk_OpenFailed = Te_OpenFailed"
| "map_backend_error_kind Bk_InvalidControllerIdentity = Te_InvalidControllerIdentity"
| "map_backend_error_kind Bk_IdentityMismatch = Te_IdentityMismatch"
| "map_backend_error_kind Bk_AdapterIdentityRecoveryRequired = Te_AdapterIdentityRecoveryRequired"
| "map_backend_error_kind Bk_UnsupportedController = Te_UnsupportedController"
| "map_backend_error_kind Bk_InvalidBondStore = Te_InvalidKeyStore"
| "map_backend_error_kind Bk_NoBond = Te_NoBond"
| "map_backend_error_kind Bk_Closed = Te_Closed"
| "map_backend_error_kind Bk_SendRejected = Te_SendRejected"
| "map_backend_error_kind Bk_DrainTimedOut = Te_DrainTimedOut"
| "map_backend_error_kind Bk_EventQueueOverflow = Te_EventQueueOverflow"
| "map_backend_error_kind Bk_SourceTerminated = Te_SourceTerminated"
| "map_backend_error_kind Bk_ProtocolViolation = Te_SourceTerminated"
| "map_backend_error_kind Bk_CloseFailed = Te_CloseFailed"
| "map_backend_error_kind Bk_Other = Te_SourceTerminated"

definition map_backend_error :: "('x, backend_error_kind) result \<Rightarrow> ('x, transport_error) result" where
  "map_backend_error r = map_err map_backend_error_kind r"

text \<open>Collecting the events of a poll: the first that has no counterpart fails the whole.\<close>

fun map_backend_events :: "backend_event list \<Rightarrow> (transport_event list, transport_error) result" where
  "map_backend_events [] = Inr []"
| "map_backend_events (e # es) =
     bind_result (map_backend_event e) (\<lambda>event. map_ok (\<lambda>events. event # events) (map_backend_events es))"

definition capabilities_from_backend ::
  "('a, 'b) backend_values \<Rightarrow> 'a \<Rightarrow> (transport_capabilities, transport_error) result" where
  "capabilities_from_backend B address =
     (let bytes = bv_le_bytes B address in
      capabilities_from_validated_classic_controller
        [bytes ! 5, bytes ! 4, bytes ! 3, bytes ! 2, bytes ! 1, bytes ! 0])"

fun map_profile_identity :: "(u8 list \<Rightarrow> 'a) \<Rightarrow> profile_identity \<Rightarrow> 'a backend_identity" where
  "map_profile_identity from_le AdapterDefault = Bi_AdapterDefault"
| "map_profile_identity from_le (LocalAddress display) =
     Bi_Explicit (from_le [display ! 5, display ! 4, display ! 3, display ! 2, display ! 1, display ! 0])"

section \<open>The sessions of the backend\<close>

text \<open>\<open>BackendSessionAdapter\<close>, an implementation of \<open>BackendSessionPort\<close>.\<close>

type_synonym ('w, 'x) session_call = "'w \<Rightarrow> 'w \<times> ('x, transport_error) result"

definition with_backend_error :: "('w \<Rightarrow> 'w \<times> ('x, backend_error_kind) result) \<Rightarrow> ('w, 'x) session_call" where
  "with_backend_error f w = (case f w of (w, r) \<Rightarrow> (w, map_backend_error r))"

definition session_capabilities ::
  "('a, 'b, 'c, 's, 'w) bumble_backend \<Rightarrow> 's \<Rightarrow> 'w \<Rightarrow> (transport_capabilities, transport_error) result" where
  "session_capabilities K s w = capabilities_from_backend (bb_values K) (bb_local_address K s w)"

definition session_start_pairing :: "('a, 'b, 'c, 's, 'w) bumble_backend \<Rightarrow> 's \<Rightarrow> ('w, unit) session_call" where
  "session_start_pairing K s = with_backend_error (bb_start_pairing K s)"

definition session_start_reconnect :: "('a, 'b, 'c, 's, 'w) bumble_backend \<Rightarrow> 's \<Rightarrow> ('w, unit) session_call" where
  "session_start_reconnect K s = with_backend_error (bb_start_reconnect K s)"

definition session_poll ::
  "('a, 'b, 'c, 's, 'w) bumble_backend \<Rightarrow> 's \<Rightarrow> duration \<Rightarrow> ('w, transport_event list) session_call" where
  "session_poll K s timeout w =
     (case bb_poll K s timeout w of (w, r) \<Rightarrow> (w, bind_result (map_backend_error r) map_backend_events))"

definition session_send_interrupt ::
  "('a, 'b, 'c, 's, 'w) bumble_backend \<Rightarrow> 's \<Rightarrow> u8 list \<Rightarrow> ('w, unit) session_call" where
  "session_send_interrupt K s payload = with_backend_error (bb_send_interrupt K s payload)"

definition session_drain_interrupt ::
  "('a, 'b, 'c, 's, 'w) bumble_backend \<Rightarrow> 's \<Rightarrow> duration \<Rightarrow> ('w, unit) session_call" where
  "session_drain_interrupt K s timeout = with_backend_error (bb_drain_interrupt K s timeout)"

definition session_disconnect :: "('a, 'b, 'c, 's, 'w) bumble_backend \<Rightarrow> 's \<Rightarrow> ('w, unit) session_call" where
  "session_disconnect K s = with_backend_error (bb_disconnect K s)"

definition session_close :: "('a, 'b, 'c, 's, 'w) bumble_backend \<Rightarrow> 's \<Rightarrow> ('w, unit) session_call" where
  "session_close K s = with_backend_error (bb_close K s)"

text \<open>\<open>VolatileBondStore\<close>: the entries of its map, of which there is at most one.\<close>

definition volatile_load :: "'a \<Rightarrow> ('a \<times> 'b) list \<Rightarrow> ('b option, bond_store_error) result" where
  "volatile_load peer bonds = Inr (map_of bonds peer)"

definition volatile_load_all :: "('a \<times> 'b) list \<Rightarrow> (('a \<times> 'b) list, bond_store_error) result" where
  "volatile_load_all bonds = Inr bonds"

definition volatile_upsert ::
  "'a \<Rightarrow> 'b \<Rightarrow> ('a \<times> 'b) list \<Rightarrow> ('a \<times> 'b) list \<times> (unit, bond_store_error) result" where
  "volatile_upsert peer bond bonds = ([(peer, bond)], Inr ())"

section \<open>The port\<close>

record ('s, 'w) bumble_port =
  bp_selector :: string
  bp_config :: transport_config
  bp_identity :: profile_identity
  bp_profile_key_store :: "profile_key_store option"   \<comment> \<open>what the factory creates\<close>
  bp_session :: "'s option"
  bp_world :: 'w

definition bumble_with_profile_key_store ::
  "string \<Rightarrow> transport_config \<Rightarrow> profile_identity \<Rightarrow> profile_key_store option \<Rightarrow> 'w \<Rightarrow> ('s, 'w) bumble_port" where
  "bumble_with_profile_key_store selector config identity key_store world =
     \<lparr>bp_selector = selector, bp_config = config, bp_identity = identity, bp_profile_key_store = key_store,
      bp_session = None, bp_world = world\<rparr>"

definition backend_open_options ::
  "('a, 'b, 'c, 's, 'w) bumble_backend \<Rightarrow> string \<Rightarrow> transport_config \<Rightarrow> profile_identity
   \<Rightarrow> (('a, 'c) open_options, transport_error) result" where
  "backend_open_options K selector config identity =
     (let source_policy = hid_sdp_policy_of (tc_hid_service config);
          sdp_policy = \<lparr>bsp_service_name = sdp_service_name source_policy,
        bsp_service_description = sdp_service_description source_policy,
        bsp_provider_name = sdp_provider_name source_policy,
        bsp_device_release_number = sdp_device_release_number source_policy,
        bsp_bluetooth_profile_version = sdp_bluetooth_profile_version source_policy,
        bsp_parser_version = sdp_parser_version source_policy,
        bsp_device_subclass = sdp_device_subclass source_policy,
        bsp_country_code = sdp_country_code source_policy,
        bsp_virtual_cable = sdp_virtual_cable source_policy,
        bsp_reconnect_initiate = sdp_reconnect_initiate source_policy,
        bsp_remote_wake = sdp_remote_wake source_policy,
        bsp_profile_version = sdp_profile_version source_policy,
        bsp_supervision_timeout = sdp_supervision_timeout source_policy,
        bsp_normally_connectable = sdp_normally_connectable source_policy,
        bsp_boot_device = sdp_boot_device source_policy,
        bsp_ssr_host_max_latency = sdp_ssr_host_max_latency source_policy,
        bsp_ssr_host_min_timeout = sdp_ssr_host_min_timeout source_policy\<rparr>
      in bind_result
        (map_backend_error (bb_session_config K (tc_local_name config) (tc_class_of_device config)
          (hid_report_descriptor_bytes (tc_hid_service config)) sdp_policy))
        (\<lambda>session_config. Inr \<lparr>oo_adapter = selector, oo_session_config = session_config,
          oo_local_identity = map_profile_identity (bb_from_le_bytes K) identity\<rparr>))"

text \<open>A session whose capabilities are refused goes out of scope and is dropped.\<close>

definition bumble_open ::
  "('a, 'b, 'c, 's, 'w) bumble_backend \<Rightarrow> ('s, 'w) bumble_port
   \<Rightarrow> ('s, 'w) bumble_port \<times> (transport_capabilities, transport_error) result" where
  "bumble_open K p =
     (case bp_session p of
        Some s \<Rightarrow> (p, session_capabilities K s (bp_world p))
      | None \<Rightarrow>
          (case backend_open_options K (bp_selector p) (bp_config p) (bp_identity p) of
             Inl e \<Rightarrow> (p, Inl e)
           | Inr options \<Rightarrow>
               let bonds = (case bp_profile_key_store p of None \<Rightarrow> VolatileBonds [] | Some ks \<Rightarrow> ProfileBonds ks) in
               (case bb_open K options bonds (bp_world p) of
                  (w, Inl e) \<Rightarrow> (p\<lparr>bp_world := w\<rparr>, Inl (map_backend_error_kind e))
                | (w, Inr s) \<Rightarrow>
                    (case session_capabilities K s w of
                       Inl e \<Rightarrow> (p\<lparr>bp_world := bb_drop K s w\<rparr>, Inl e)
                     | Inr capabilities \<Rightarrow> (p\<lparr>bp_session := Some s, bp_world := w\<rparr>, Inr capabilities)))))"

text \<open>A call on the session, and what to answer without one: \<open>session_mut\<close> answers that the transport is closed.\<close>

definition on_session ::
  "('x, transport_error) result \<Rightarrow> ('s \<Rightarrow> ('w, 'x) session_call) \<Rightarrow> ('s, 'w) bumble_port
   \<Rightarrow> ('s, 'w) bumble_port \<times> ('x, transport_error) result" where
  "on_session absent f p =
     (case bp_session p of
        None \<Rightarrow> (p, absent)
      | Some s \<Rightarrow> (case f s (bp_world p) of (w, r) \<Rightarrow> (p\<lparr>bp_world := w\<rparr>, r)))"

definition session_mut ::
  "('s \<Rightarrow> ('w, 'x) session_call) \<Rightarrow> ('s, 'w) bumble_port \<Rightarrow> ('s, 'w) bumble_port \<times> ('x, transport_error) result" where
  "session_mut f p = on_session (Inl Te_Closed) f p"

definition bumble_start_pairing ::
  "('a, 'b, 'c, 's, 'w) bumble_backend \<Rightarrow> ('s, 'w) bumble_port \<Rightarrow> ('s, 'w) bumble_port \<times> (unit, transport_error) result" where
  "bumble_start_pairing K p = session_mut (session_start_pairing K) p"

definition bumble_start_reconnect ::
  "('a, 'b, 'c, 's, 'w) bumble_backend \<Rightarrow> ('s, 'w) bumble_port \<Rightarrow> ('s, 'w) bumble_port \<times> (unit, transport_error) result" where
  "bumble_start_reconnect K p = session_mut (session_start_reconnect K) p"

definition bumble_poll ::
  "('a, 'b, 'c, 's, 'w) bumble_backend \<Rightarrow> duration \<Rightarrow> ('s, 'w) bumble_port
   \<Rightarrow> ('s, 'w) bumble_port \<times> (transport_event list, transport_error) result" where
  "bumble_poll K timeout p = session_mut (\<lambda>s. session_poll K s timeout) p"

definition bumble_capacity_available :: "('a, 'b, 'c, 's, 'w) bumble_backend \<Rightarrow> ('s, 'w) bumble_port \<Rightarrow> bool" where
  "bumble_capacity_available K p =
     (case bp_session p of None \<Rightarrow> False | Some s \<Rightarrow> bb_capacity_available K s (bp_world p))"

definition bumble_send_interrupt ::
  "('a, 'b, 'c, 's, 'w) bumble_backend \<Rightarrow> u8 list \<Rightarrow> ('s, 'w) bumble_port
   \<Rightarrow> ('s, 'w) bumble_port \<times> (send_acceptance, transport_error) result" where
  "bumble_send_interrupt K payload p = session_mut (\<lambda>s. session_send_interrupt K s payload) p"

definition bumble_drain_interrupt ::
  "('a, 'b, 'c, 's, 'w) bumble_backend \<Rightarrow> duration \<Rightarrow> ('s, 'w) bumble_port
   \<Rightarrow> ('s, 'w) bumble_port \<times> (unit, transport_error) result" where
  "bumble_drain_interrupt K timeout p = on_session (Inr ()) (\<lambda>s. session_drain_interrupt K s timeout) p"

definition bumble_disconnect ::
  "('a, 'b, 'c, 's, 'w) bumble_backend \<Rightarrow> ('s, 'w) bumble_port \<Rightarrow> ('s, 'w) bumble_port \<times> (unit, transport_error) result" where
  "bumble_disconnect K p = on_session (Inr ()) (session_disconnect K) p"

text \<open>The session is taken out first, closed, and dropped whatever its close returned.\<close>

definition bumble_close ::
  "('a, 'b, 'c, 's, 'w) bumble_backend \<Rightarrow> ('s, 'w) bumble_port \<Rightarrow> ('s, 'w) bumble_port \<times> (unit, transport_error) result" where
  "bumble_close K p =
     (case bp_session p of
        None \<Rightarrow> (p, Inr ())
      | Some s \<Rightarrow>
          (case session_close K s (bp_world p) of
             (w, r) \<Rightarrow> (p\<lparr>bp_session := None, bp_world := bb_drop K s w\<rparr>, r)))"

definition bumble_drop :: "('a, 'b, 'c, 's, 'w) bumble_backend \<Rightarrow> ('s, 'w) bumble_port \<Rightarrow> 'w" where
  "bumble_drop K p =
     (case bp_session p of
        None \<Rightarrow> bp_world p
      | Some s \<Rightarrow> bb_drop K s (fst (session_close K s (bp_world p))))"

definition bumble_transport :: "('a, 'b, 'c, 's, 'w) bumble_backend \<Rightarrow> ('s, 'w) bumble_port transport_port" where
  "bumble_transport K = \<lparr>
     t_open = bumble_open K, t_start_pairing = bumble_start_pairing K, t_start_reconnect = bumble_start_reconnect K,
     t_poll = bumble_poll K, t_capacity_available = bumble_capacity_available K,
     t_send_interrupt = bumble_send_interrupt K, t_drain_interrupt = bumble_drain_interrupt K,
     t_disconnect = bumble_disconnect K, t_close = bumble_close K\<rparr>"

section \<open>The discipline of sessions\<close>

text \<open>
  What the port does to the backend's sessions, as a log.  A log follows the discipline when it goes through the
  phases: a session is opened when there is none, used while it is open, closed once, and dropped before the next
  one is opened; no handle is ever used after its close.
\<close>

datatype 's backend_use = Opened 's | Used 's | Closed 's | Dropped 's

datatype 's session_phase = NoSession | OpenSession 's | ClosedSession 's

fun session_log :: "'s session_phase \<Rightarrow> 's backend_use list \<Rightarrow> 's session_phase option" where
  "session_log phase [] = Some phase"
| "session_log NoSession (Opened s # log) = session_log (OpenSession s) log"
| "session_log (OpenSession s) (Used t # log) = (if s = t then session_log (OpenSession s) log else None)"
| "session_log (OpenSession s) (Closed t # log) = (if s = t then session_log (ClosedSession s) log else None)"
| "session_log (OpenSession s) (Dropped t # log) = (if s = t then session_log NoSession log else None)"
| "session_log (ClosedSession s) (Dropped t # log) = (if s = t then session_log NoSession log else None)"
| "session_log phase log = None"

definition noted :: "'u \<Rightarrow> ('w \<Rightarrow> 'w \<times> 'x) \<Rightarrow> 'w \<times> 'u list \<Rightarrow> ('w \<times> 'u list) \<times> 'x" where
  "noted u f = (\<lambda>(w, log). case f w of (w, x) \<Rightarrow> ((w, log @ [u]), x))"

definition logged ::
  "('a, 'b, 'c, 's, 'w) bumble_backend \<Rightarrow> ('a, 'b, 'c, 's, 'w \<times> 's backend_use list) bumble_backend" where
  "logged K = \<lparr>
     bb_values = bb_values K, bb_from_le_bytes = bb_from_le_bytes K, bb_session_config = bb_session_config K,
     bb_open = (\<lambda>options bonds (w, log).
       case bb_open K options bonds w of
         (w, Inl e) \<Rightarrow> ((w, log), Inl e)
       | (w, Inr s) \<Rightarrow> ((w, log @ [Opened s]), Inr s)),
     bb_local_address = (\<lambda>s (w, _). bb_local_address K s w),
     bb_start_pairing = (\<lambda>s. noted (Used s) (bb_start_pairing K s)),
     bb_start_reconnect = (\<lambda>s. noted (Used s) (bb_start_reconnect K s)),
     bb_poll = (\<lambda>s timeout. noted (Used s) (bb_poll K s timeout)),
     bb_capacity_available = (\<lambda>s (w, _). bb_capacity_available K s w),
     bb_send_interrupt = (\<lambda>s payload. noted (Used s) (bb_send_interrupt K s payload)),
     bb_drain_interrupt = (\<lambda>s timeout. noted (Used s) (bb_drain_interrupt K s timeout)),
     bb_disconnect = (\<lambda>s. noted (Used s) (bb_disconnect K s)),
     bb_close = (\<lambda>s. noted (Closed s) (bb_close K s)),
     bb_drop = (\<lambda>s (w, log). (bb_drop K s w, log @ [Dropped s]))\<rparr>"

definition session_phase_of :: "'s option \<Rightarrow> 's session_phase" where
  "session_phase_of session = (case session of None \<Rightarrow> NoSession | Some s \<Rightarrow> OpenSession s)"

definition disciplined :: "('s, 'w \<times> 's backend_use list) bumble_port \<Rightarrow> bool" where
  "disciplined p = (session_log NoSession (snd (bp_world p)) = Some (session_phase_of (bp_session p)))"

lemma session_log_append:
  "session_log phase (log @ log') = Option.bind (session_log phase log) (\<lambda>phase. session_log phase log')"
  by (induction phase log rule: session_log.induct) auto

lemmas discipline_simps = disciplined_def session_phase_of_def session_log_append

lemma disciplined_on_session:
  assumes "disciplined p" "\<And>s w log. \<exists>w' r. f s (w, log) = ((w', log @ [Used s]), r)"
  shows "disciplined (fst (on_session absent f p))"
proof (cases "bp_session p")
  case (Some s)
  obtain w log where world: "bp_world p = (w, log)"
    by (cases "bp_world p")
  obtain w' r where "f s (w, log) = ((w', log @ [Used s]), r)"
    using assms(2) by blast
  then show ?thesis
    using assms(1) Some world by (simp add: on_session_def discipline_simps)
qed (use assms(1) in \<open>simp add: on_session_def\<close>)

lemma logged_calls:
  "\<exists>w' r. session_start_pairing (logged K) s (w, log) = ((w', log @ [Used s]), r)"
  "\<exists>w' r. session_start_reconnect (logged K) s (w, log) = ((w', log @ [Used s]), r)"
  "\<exists>w' r. session_poll (logged K) s timeout (w, log) = ((w', log @ [Used s]), r)"
  "\<exists>w' r. session_send_interrupt (logged K) s payload (w, log) = ((w', log @ [Used s]), r)"
  "\<exists>w' r. session_drain_interrupt (logged K) s timeout (w, log) = ((w', log @ [Used s]), r)"
  "\<exists>w' r. session_disconnect (logged K) s (w, log) = ((w', log @ [Used s]), r)"
  "\<exists>w' r. session_close (logged K) s (w, log) = ((w', log @ [Closed s]), r)"
  by (simp_all add: session_start_pairing_def session_start_reconnect_def session_poll_def session_send_interrupt_def
      session_drain_interrupt_def session_disconnect_def session_close_def with_backend_error_def logged_def noted_def
      split: prod.split)

lemma disciplined_calls:
  assumes "disciplined p"
  shows "disciplined (fst (bumble_start_pairing (logged K) p))"
    and "disciplined (fst (bumble_start_reconnect (logged K) p))"
    and "disciplined (fst (bumble_poll (logged K) timeout p))"
    and "disciplined (fst (bumble_send_interrupt (logged K) payload p))"
    and "disciplined (fst (bumble_drain_interrupt (logged K) timeout p))"
    and "disciplined (fst (bumble_disconnect (logged K) p))"
  unfolding bumble_start_pairing_def bumble_start_reconnect_def bumble_poll_def bumble_send_interrupt_def
    bumble_drain_interrupt_def bumble_disconnect_def session_mut_def
  by (rule disciplined_on_session[OF assms] logged_calls)+

lemma disciplined_close:
  assumes "disciplined p"
  shows "disciplined (fst (bumble_close (logged K) p))" and "bp_session (fst (bumble_close (logged K) p)) = None"
proof -
  obtain w log where world: "bp_world p = (w, log)"
    by (cases "bp_world p")
  have closed: "\<exists>w' r. session_close (logged K) s (w, log) = ((w', log @ [Closed s]), r)" for s
    by (rule logged_calls)
  show "bp_session (fst (bumble_close (logged K) p)) = None"
    by (simp add: bumble_close_def split: option.split prod.split)
  show "disciplined (fst (bumble_close (logged K) p))"
  proof (cases "bp_session p")
    case (Some s)
    obtain w' r where "session_close (logged K) s (w, log) = ((w', log @ [Closed s]), r)"
      using closed by blast
    then show ?thesis
      using assms Some by (simp add: bumble_close_def discipline_simps world) (simp add: logged_def discipline_simps)
  qed (use assms in \<open>simp add: bumble_close_def\<close>)
qed

lemma bumble_drop_close: "bumble_drop K p = bp_world (fst (bumble_close K p))"
  by (simp add: bumble_drop_def bumble_close_def split: option.split prod.split)

lemma disciplined_open:
  assumes "disciplined p"
  shows "disciplined (fst (bumble_open (logged K) p))"
proof -
  obtain w log where world: "bp_world p = (w, log)"
    by (cases "bp_world p")
  show ?thesis
    using assms
    by (auto simp: bumble_open_def discipline_simps world Let_def split: option.splits sum.splits prod.splits)
       (auto simp: logged_def discipline_simps split: sum.splits prod.splits)
qed

lemma disciplined_start: "disciplined (bumble_with_profile_key_store selector config identity key_store (w, []))"
  by (simp add: bumble_with_profile_key_store_def discipline_simps)

text \<open>The log changes nothing: without it, the logged backend is the backend.\<close>

definition unlogged :: "('s, 'w \<times> 'u list) bumble_port \<Rightarrow> ('s, 'w) bumble_port" where
  "unlogged p = \<lparr>bp_selector = bp_selector p, bp_config = bp_config p, bp_identity = bp_identity p,
     bp_profile_key_store = bp_profile_key_store p, bp_session = bp_session p, bp_world = fst (bp_world p)\<rparr>"

lemma unlogged_fields [simp]:
  "bp_selector (unlogged p) = bp_selector p" "bp_config (unlogged p) = bp_config p"
  "bp_identity (unlogged p) = bp_identity p" "bp_profile_key_store (unlogged p) = bp_profile_key_store p"
  "bp_session (unlogged p) = bp_session p" "bp_world (unlogged p) = fst (bp_world p)"
  "unlogged (p\<lparr>bp_world := w\<rparr>) = (unlogged p)\<lparr>bp_world := fst w\<rparr>"
  "unlogged (p\<lparr>bp_session := session\<rparr>) = (unlogged p)\<lparr>bp_session := session\<rparr>"
  by (simp_all add: unlogged_def)

lemma unlogged_on_session:
  assumes "\<And>s w. map_prod fst id (f s w) = g s (fst w)"
  shows "map_prod unlogged id (on_session absent f p) = on_session absent g (unlogged p)"
proof (cases "bp_session p")
  case (Some s)
  show ?thesis
    using assms[of s "bp_world p"] Some
    by (cases "f s (bp_world p)"; cases "g s (fst (bp_world p))") (simp add: on_session_def)
qed (simp add: on_session_def)

lemma unlogged_session_calls:
  "map_prod fst id (session_start_pairing (logged K) s w) = session_start_pairing K s (fst w)"
  "map_prod fst id (session_start_reconnect (logged K) s w) = session_start_reconnect K s (fst w)"
  "map_prod fst id (session_poll (logged K) s timeout w) = session_poll K s timeout (fst w)"
  "map_prod fst id (session_send_interrupt (logged K) s payload w) = session_send_interrupt K s payload (fst w)"
  "map_prod fst id (session_drain_interrupt (logged K) s timeout w) = session_drain_interrupt K s timeout (fst w)"
  "map_prod fst id (session_disconnect (logged K) s w) = session_disconnect K s (fst w)"
  "map_prod fst id (session_close (logged K) s w) = session_close K s (fst w)"
  "session_capabilities (logged K) s w = session_capabilities K s (fst w)"
  by (cases w; simp add: session_start_pairing_def session_start_reconnect_def session_poll_def
      session_send_interrupt_def session_drain_interrupt_def session_disconnect_def session_close_def
      session_capabilities_def with_backend_error_def logged_def noted_def split: prod.split)+

lemma unlogged_open:
  "map_prod unlogged id (bumble_open (logged K) p) = bumble_open K (unlogged p)"
proof -
  have options: "backend_open_options (logged K) = backend_open_options K"
    by (rule ext)+ (simp add: backend_open_options_def logged_def)
  show ?thesis
    by (cases "bp_world p")
      (auto simp: bumble_open_def options unlogged_session_calls Let_def logged_def[of K, THEN arg_cong[where f = bb_open]]
        logged_def[of K, THEN arg_cong[where f = bb_drop]] split: option.splits sum.splits prod.splits)
qed

lemma unlogged_close: "map_prod unlogged id (bumble_close (logged K) p) = bumble_close K (unlogged p)"
proof (cases "bp_session p")
  case (Some s)
  have drop: "fst (bb_drop (logged K) s w) = bb_drop K s (fst w)" for w
    by (cases w) (simp add: logged_def)
  show ?thesis
    using unlogged_session_calls(7)[of K s "bp_world p"] Some
    by (cases "session_close (logged K) s (bp_world p)"; cases "session_close K s (fst (bp_world p))")
      (simp add: bumble_close_def drop)
qed (simp add: bumble_close_def)

lemma unlogged_calls:
  "map_prod unlogged id (bumble_start_pairing (logged K) p) = bumble_start_pairing K (unlogged p)"
  "map_prod unlogged id (bumble_start_reconnect (logged K) p) = bumble_start_reconnect K (unlogged p)"
  "map_prod unlogged id (bumble_poll (logged K) timeout p) = bumble_poll K timeout (unlogged p)"
  "map_prod unlogged id (bumble_send_interrupt (logged K) payload p) = bumble_send_interrupt K payload (unlogged p)"
  "map_prod unlogged id (bumble_drain_interrupt (logged K) timeout p) = bumble_drain_interrupt K timeout (unlogged p)"
  "map_prod unlogged id (bumble_disconnect (logged K) p) = bumble_disconnect K (unlogged p)"
  unfolding bumble_start_pairing_def bumble_start_reconnect_def bumble_poll_def bumble_send_interrupt_def
    bumble_drain_interrupt_def bumble_disconnect_def session_mut_def
  by (rule unlogged_on_session, rule unlogged_session_calls)+

text \<open>The ports that the transport's operations can lead to, in any order and whatever the backend answers.\<close>

inductive port_used ::
  "('a, 'b, 'c, 's, 'w) bumble_backend \<Rightarrow> ('s, 'w \<times> 's backend_use list) bumble_port \<Rightarrow> bool"
  for K :: "('a, 'b, 'c, 's, 'w) bumble_backend" where
  made: "port_used K (bumble_with_profile_key_store selector config identity key_store (w, []))"
| opened: "port_used K p \<Longrightarrow> port_used K (fst (t_open (bumble_transport (logged K)) p))"
| pairing: "port_used K p \<Longrightarrow> port_used K (fst (t_start_pairing (bumble_transport (logged K)) p))"
| reconnecting: "port_used K p \<Longrightarrow> port_used K (fst (t_start_reconnect (bumble_transport (logged K)) p))"
| polled: "port_used K p \<Longrightarrow> port_used K (fst (t_poll (bumble_transport (logged K)) timeout p))"
| sent: "port_used K p \<Longrightarrow> port_used K (fst (t_send_interrupt (bumble_transport (logged K)) payload p))"
| drained: "port_used K p \<Longrightarrow> port_used K (fst (t_drain_interrupt (bumble_transport (logged K)) timeout p))"
| disconnected: "port_used K p \<Longrightarrow> port_used K (fst (t_disconnect (bumble_transport (logged K)) p))"
| closed: "port_used K p \<Longrightarrow> port_used K (fst (t_close (bumble_transport (logged K)) p))"

lemma port_used_disciplined: "port_used K p \<Longrightarrow> disciplined p"
  by (induction rule: port_used.induct)
    (simp_all add: bumble_transport_def disciplined_start disciplined_open disciplined_calls disciplined_close(1))

fun opens :: "'s backend_use \<Rightarrow> bool" where
  "opens (Opened s) = True"
| "opens u = False"

fun drops :: "'s backend_use \<Rightarrow> bool" where
  "drops (Dropped s) = True"
| "drops u = False"

lemma session_log_balance:
  "session_log phase log = Some phase' \<Longrightarrow>
     length (filter opens log) + (if phase = NoSession then 0 else 1)
       = length (filter drops log) + (if phase' = NoSession then 0 else 1)"
  by (induction phase log rule: session_log.induct) (auto split: if_splits)

text \<open>
  C28: the sessions of the Bluetooth backend are bracketed.  Whatever operations of the transport are called, in any
  order, and whatever the backend answers, sessions are opened one at a time, used only while open, closed at most once
  and never used again; the port holds the one that is open.  Closing the port, and dropping it, releases every session
  that was ever opened.
\<close>

theorem bumble_sessions_are_bracketed:
  assumes "port_used K p"
  shows "session_log NoSession (snd (bp_world p)) = Some (session_phase_of (bp_session p))
    \<and> (let dropped = snd (bumble_drop (logged K) p) in
        session_log NoSession dropped = Some NoSession
        \<and> length (filter opens dropped) = length (filter drops dropped))
    \<and> (let p' = fst (t_close (bumble_transport (logged K)) p) in
        bp_session p' = None \<and> bp_world p' = bumble_drop (logged K) p
        \<and> (bp_session p = None \<longrightarrow> p' = p \<and> snd (t_poll (bumble_transport (logged K)) timeout p) = Inl Te_Closed
            \<and> snd (t_send_interrupt (bumble_transport (logged K)) payload p) = Inl Te_Closed))"
proof -
  have p: "disciplined p" and close: "disciplined (fst (bumble_close (logged K) p))"
      "bp_session (fst (bumble_close (logged K) p)) = None"
    using port_used_disciplined[OF assms] disciplined_close by blast+
  then have released: "session_log NoSession (snd (bumble_drop (logged K) p)) = Some NoSession"
    by (simp add: bumble_drop_close disciplined_def session_phase_of_def)
  have absent: "bp_session p = None \<Longrightarrow> fst (bumble_close (logged K) p) = p
      \<and> snd (bumble_poll (logged K) timeout p) = Inl Te_Closed
      \<and> snd (bumble_send_interrupt (logged K) payload p) = Inl Te_Closed"
    by (simp add: bumble_close_def bumble_poll_def bumble_send_interrupt_def session_mut_def on_session_def)
  show ?thesis
    using p close(2) released session_log_balance[OF released] absent
    by (simp add: disciplined_def bumble_drop_close bumble_transport_def Let_def)
qed

text \<open>A backend with one address that accepts everything, for evaluating the model; its sessions are numbered.\<close>

definition sample_backend :: "(u8 list, unit, unit, nat, nat) bumble_backend" where
  "sample_backend = \<lparr>
     bb_values = \<lparr>bv_le_bytes = (\<lambda>a. a), bv_parse_public = (\<lambda>_. None), bv_bond_new = (\<lambda>_ _ _. ()),
       bv_link_key = (\<lambda>_. []), bv_link_key_type = (\<lambda>_. 0), bv_authenticated = (\<lambda>_. False)\<rparr>,
     bb_from_le_bytes = (\<lambda>a. a), bb_session_config = (\<lambda>_ _ _ _. Inr ()),
     bb_open = (\<lambda>_ _ w. (w + 1, Inr w)), bb_local_address = (\<lambda>_ _. [0x7D, 0x9F, 0xF9, 0xDC, 0x1B, 0x00]),
     bb_start_pairing = (\<lambda>_ w. (w, Inr ())), bb_start_reconnect = (\<lambda>_ w. (w, Inl Bk_NoBond)),
     bb_poll = (\<lambda>_ _ w. (w, Inr [])), bb_capacity_available = (\<lambda>_ _. True),
     bb_send_interrupt = (\<lambda>_ _ w. (w, Inr ())), bb_drain_interrupt = (\<lambda>_ _ w. (w, Inr ())),
     bb_disconnect = (\<lambda>_ w. (w, Inr ())), bb_close = (\<lambda>_ w. (w, Inr ())), bb_drop = (\<lambda>_ w. w)\<rparr>"

definition sample_port :: "(nat, nat \<times> nat backend_use list) bumble_port" where
  "sample_port = fst (t_start_pairing (bumble_transport (logged sample_backend))
     (fst (t_open (bumble_transport (logged sample_backend))
       (bumble_with_profile_key_store ''usb:0'' (transport_config_for_model Pro) AdapterDefault None (0, [])))))"

lemma sample_port_used: "port_used sample_backend sample_port"
  unfolding sample_port_def by (intro port_used.intros)

lemma sample_port_log: "snd (bp_world sample_port) = [Opened 0, Used 0]" "bp_session sample_port = Some 0"
  by code_simp+

theorem bumble_sessions_are_bracketed_witness:
  "port_used sample_backend sample_port \<and> bp_session sample_port = Some 0
   \<and> session_log NoSession (snd (bumble_drop (logged sample_backend) sample_port)) = Some NoSession"
  using bumble_sessions_are_bracketed[OF sample_port_used] sample_port_used sample_port_log by (simp add: Let_def)

text \<open>
  The ports that keep the discipline, as a type of their own: what is run over this transport keeps it by
  construction, the worker included.
\<close>

typedef ('s, 'w) managed_port = "{p :: ('s, 'w \<times> 's backend_use list) bumble_port. disciplined p}"
  unfolding mem_Collect_eq by (rule exI) (rule disciplined_start)

setup_lifting type_definition_managed_port

lemma pred_prod_fst: "P (fst x) \<Longrightarrow> pred_prod P top x"
  by (cases x) simp

lift_definition managed_new ::
  "string \<Rightarrow> transport_config \<Rightarrow> profile_identity \<Rightarrow> profile_key_store option \<Rightarrow> 'w \<Rightarrow> ('s, 'w) managed_port"
  is "\<lambda>selector config identity key_store w. bumble_with_profile_key_store selector config identity key_store (w, [])"
  by (rule disciplined_start)

lift_definition managed_open ::
  "('a, 'b, 'c, 's, 'w) bumble_backend \<Rightarrow> ('s, 'w) managed_port
   \<Rightarrow> ('s, 'w) managed_port \<times> (transport_capabilities, transport_error) result"
  is "\<lambda>K. bumble_open (logged K)"
  by (rule pred_prod_fst, rule disciplined_open)

lift_definition managed_start_pairing ::
  "('a, 'b, 'c, 's, 'w) bumble_backend \<Rightarrow> ('s, 'w) managed_port
   \<Rightarrow> ('s, 'w) managed_port \<times> (unit, transport_error) result"
  is "\<lambda>K. bumble_start_pairing (logged K)"
  by (rule pred_prod_fst, rule disciplined_calls(1))

lift_definition managed_start_reconnect ::
  "('a, 'b, 'c, 's, 'w) bumble_backend \<Rightarrow> ('s, 'w) managed_port
   \<Rightarrow> ('s, 'w) managed_port \<times> (unit, transport_error) result"
  is "\<lambda>K. bumble_start_reconnect (logged K)"
  by (rule pred_prod_fst, rule disciplined_calls(2))

lift_definition managed_poll ::
  "('a, 'b, 'c, 's, 'w) bumble_backend \<Rightarrow> duration \<Rightarrow> ('s, 'w) managed_port
   \<Rightarrow> ('s, 'w) managed_port \<times> (transport_event list, transport_error) result"
  is "\<lambda>K. bumble_poll (logged K)"
  by (rule pred_prod_fst, rule disciplined_calls(3))

lift_definition managed_send_interrupt ::
  "('a, 'b, 'c, 's, 'w) bumble_backend \<Rightarrow> u8 list \<Rightarrow> ('s, 'w) managed_port
   \<Rightarrow> ('s, 'w) managed_port \<times> (send_acceptance, transport_error) result"
  is "\<lambda>K. bumble_send_interrupt (logged K)"
  by (rule pred_prod_fst, rule disciplined_calls(4))

lift_definition managed_drain_interrupt ::
  "('a, 'b, 'c, 's, 'w) bumble_backend \<Rightarrow> duration \<Rightarrow> ('s, 'w) managed_port
   \<Rightarrow> ('s, 'w) managed_port \<times> (unit, transport_error) result"
  is "\<lambda>K. bumble_drain_interrupt (logged K)"
  by (rule pred_prod_fst, rule disciplined_calls(5))

lift_definition managed_disconnect ::
  "('a, 'b, 'c, 's, 'w) bumble_backend \<Rightarrow> ('s, 'w) managed_port
   \<Rightarrow> ('s, 'w) managed_port \<times> (unit, transport_error) result"
  is "\<lambda>K. bumble_disconnect (logged K)"
  by (rule pred_prod_fst, rule disciplined_calls(6))

lift_definition managed_close ::
  "('a, 'b, 'c, 's, 'w) bumble_backend \<Rightarrow> ('s, 'w) managed_port
   \<Rightarrow> ('s, 'w) managed_port \<times> (unit, transport_error) result"
  is "\<lambda>K. bumble_close (logged K)"
  by (rule pred_prod_fst, rule disciplined_close(1))

lift_definition managed_capacity_available :: "('a, 'b, 'c, 's, 'w) bumble_backend \<Rightarrow> ('s, 'w) managed_port \<Rightarrow> bool"
  is "\<lambda>K. bumble_capacity_available (logged K)" .

lift_definition managed_session :: "('s, 'w) managed_port \<Rightarrow> 's option" is bp_session .

lift_definition managed_log :: "('s, 'w) managed_port \<Rightarrow> 's backend_use list" is "\<lambda>p. snd (bp_world p)" .

definition managed_transport :: "('a, 'b, 'c, 's, 'w) bumble_backend \<Rightarrow> ('s, 'w) managed_port transport_port" where
  "managed_transport K = \<lparr>
     t_open = managed_open K, t_start_pairing = managed_start_pairing K, t_start_reconnect = managed_start_reconnect K,
     t_poll = managed_poll K, t_capacity_available = managed_capacity_available K,
     t_send_interrupt = managed_send_interrupt K, t_drain_interrupt = managed_drain_interrupt K,
     t_disconnect = managed_disconnect K, t_close = managed_close K\<rparr>"

lemma managed_discipline: "session_log NoSession (managed_log p) = Some (session_phase_of (managed_session p))"
  by transfer (simp add: disciplined_def)

lemma managed_open_result: "snd (managed_open K p) = snd (bumble_open (logged K) (Rep_managed_port p))"
  by transfer simp

lemma managed_close_session: "managed_session (fst (managed_close K p)) = None"
  by transfer (simp add: disciplined_close(2))

end
