(* ===== verification/ReportingLaws.thy ===== *)
theory ReportingLaws
  imports Reporting
begin

text \<open>
  The contract between the worker core and a reporting mode, and the proof that both modes keep it.
  The core's invariants are proved once from these laws.
\<close>

locale reporting_laws =
  fixes R :: "('c, 'r, 't) worker_reporting"
    and E :: "'t env"
  assumes begin_session:
      "rp_begin_session R r s cx = (r', s', cx', sid) \<Longrightarrow>
         sid = prepare_next s \<and> s' = issue s
         \<and> rp_has_pending R r' = rp_has_pending R r
         \<and> (\<forall>x. context_ok x cx \<longrightarrow> context_ok x cx')
         \<and> cx_input cx' = input_neutral \<and> snd_committed (cx_sender cx') = sender_commit_default
         \<and> counters_shown cx'
         \<and> status_frame (cx_status cx) (cx_status cx')"
    and begin_handshake: "hs_session_id (rp_begin_handshake R sid) = sid"
    and handle_command:
      "rp_handle_command R E r c ready now cx = (r', cx', p) \<Longrightarrow> \<not> rp_has_pending R r \<Longrightarrow>
         (rp_has_pending R r' \<longleftrightarrow> p = CommandPending) \<and> (rp_has_pending R r' \<longrightarrow> ready)
         \<and> status_frame (cx_status cx) (cx_status cx')
         \<and> (\<forall>x. context_ok x cx \<and> (ready \<longrightarrow> x \<noteq> None) \<longrightarrow> context_ok x cx')"
    and handle_event:
      "rp_handle_event R E r ev cx = (r', cx', e) \<Longrightarrow>
         status_frame (cx_status cx) (cx_status cx')
         \<and> (\<forall>x. context_ok (Some x) cx \<longrightarrow> context_ok (Some x) cx')
         \<and> (case e of
              Passthrough ev' \<Rightarrow> ev' = ev \<and> cx' = cx \<and> rp_has_pending R r' = rp_has_pending R r
                \<and> ((\<exists>reason. ev = Disconnected reason) \<longrightarrow> \<not> rp_has_pending R r)
            | EventOutput _ \<Rightarrow> rp_has_pending R r' = rp_has_pending R r
            | EventDisconnected reason completion \<Rightarrow> ev = Disconnected reason \<and> \<not> rp_has_pending R r'
                \<and> (completion \<noteq> None \<longleftrightarrow> rp_has_pending R r))"
    and record_output:
      "rp_record_output R r t completion = (r', recorded) \<Longrightarrow> rp_has_pending R r' = rp_has_pending R r"
    and evaluate_readiness:
      "rp_evaluate_readiness R r now s h sender g = (r', h', g', res) \<Longrightarrow> gate_ok g \<Longrightarrow>
         rp_has_pending R r' = rp_has_pending R r \<and> gate_ok g'
         \<and> gate_session_id g' = gate_session_id g
         \<and> gate_operation_deadline g' = gate_operation_deadline g \<and> (h' = h \<or> h' = None)
         \<and> (\<forall>sid. res = Inr (ReadinessReady sid) \<longrightarrow>
              sid = gate_session_id g \<and> protocol_ready (sender_session sender))"
    and run_due:
      "rp_run_due R E r now cx = (r', cx', due) \<Longrightarrow>
         status_frame (cx_status cx) (cx_status cx')
         \<and> (\<forall>x. context_ok (Some x) cx \<longrightarrow> context_ok (Some x) cx')
         \<and> (case due_completion due of
              None \<Rightarrow> rp_has_pending R r' = rp_has_pending R r
            | Some p \<Rightarrow> rp_has_pending R r \<and> \<not> rp_has_pending R r' \<and> p \<noteq> CommandPending)"
    and cancel_for_shutdown:
      "rp_cancel_for_shutdown R E r cx = (r', cx', w) \<Longrightarrow>
         cx' = cx \<and> \<not> rp_has_pending R r' \<and> (w \<noteq> None \<longleftrightarrow> rp_has_pending R r)"
    and stop_session: "\<not> rp_has_pending R (rp_stop_session R r)"

section \<open>Periodic keeps the contract\<close>

lemma complete_input_candidate_frame:
  assumes "complete_input_candidate c cx = (cx', p)"
  shows "p \<noteq> CommandPending \<and> status_frame (cx_status cx) (cx_status cx')
    \<and> (\<forall>x. context_ok x cx \<longrightarrow> context_ok x cx')"
  using assms by (auto simp: complete_input_candidate_def split: sum.splits)

lemma periodic_begin_tap_frame:
  assumes "periodic_begin_tap E ready plan now cx = (cx', r)"
  shows "status_frame (cx_status cx) (cx_status cx') \<and> (is_ok r \<longrightarrow> ready)
    \<and> (\<forall>x. context_ok x cx \<and> (ready \<longrightarrow> x \<noteq> None) \<longrightarrow> context_ok x cx')"
proof -
  obtain pressed released d where plan: "plan = (pressed, released, d)"
    by (cases plan) auto
  have "cx' = (if ready then fst (commit_and_send_candidate E pressed now cx) else cx)"
    using assms fst_periodic_begin_tap[of E ready pressed released d now cx] by (simp add: plan)
  moreover have "is_ok r \<longrightarrow> ready"
    using assms by (auto simp: periodic_begin_tap_def split: if_splits)
  ultimately show ?thesis
    using commit_and_send_fields[of E pressed now cx] by auto
qed

lemma periodic_handle_command_law:
  assumes "periodic_handle_command E r c ready now cx = (r', cx', p)" "\<not> periodic_has_pending r"
  shows "(periodic_has_pending r' \<longleftrightarrow> p = CommandPending) \<and> (periodic_has_pending r' \<longrightarrow> ready)
    \<and> status_frame (cx_status cx) (cx_status cx')
    \<and> (\<forall>x. context_ok x cx \<and> (ready \<longrightarrow> x \<noteq> None) \<longrightarrow> context_ok x cx')"
proof (cases "\<exists>bs d. c = PeriodicCommon (Tap bs d)")
  case True
  then obtain bs d where c: "c = PeriodicCommon (Tap bs d)" by blast
  show ?thesis
  proof (cases "tap_plan (env_model E) (cx_input cx) bs d")
    case (Inl e)
    then show ?thesis
      using assms by (auto simp: periodic_handle_command_def c)
  next
    case (Inr plan)
    obtain cx1 res where tap: "periodic_begin_tap E ready plan (protocol_timestamp now) cx = (cx1, res)"
      by fastforce
    show ?thesis
      using assms periodic_begin_tap_frame[OF tap]
      by (auto simp: periodic_handle_command_def c Inr periodic_tap_times_def Let_def tap
          periodic_has_pending_def split: sum.splits)
  qed
next
  case False
  then show ?thesis
    using assms complete_input_candidate_frame
    by (auto simp: periodic_handle_command_def split: periodic_command.splits common_command.splits)
qed

lemma periodic_run_due_law:
  assumes "periodic_run_due E r now cx = (r', cx', due)"
  shows "status_frame (cx_status cx) (cx_status cx')
    \<and> (\<forall>x. context_ok (Some x) cx \<longrightarrow> context_ok (Some x) cx')
    \<and> (case due_completion due of
         None \<Rightarrow> periodic_has_pending r' = periodic_has_pending r
       | Some p \<Rightarrow> periodic_has_pending r \<and> \<not> periodic_has_pending r' \<and> p \<noteq> CommandPending)"
proof -
  have automatic: ?thesis if "periodic_send_automatic E r now cx = (r', cx', due)"
  proof -
    obtain p cx1 res where send: "send_due E (pr_policy r) now cx = (p, cx1, res)"
      by (cases "send_due E (pr_policy r) now cx") auto
    have frame: "sent_frame cx cx1" "\<forall>x. context_ok (Some x) cx \<longrightarrow> context_ok (Some x) cx1"
      using send_due_frame[of cx E "pr_policy r" now] send_due_ok[of _ cx E "pr_policy r" now]
      by (simp_all add: send)
    have "cx' = cx1" "due_completion due = None" "periodic_has_pending r' = periodic_has_pending r"
      using that by (auto simp: periodic_send_automatic_def send due_none_def periodic_has_pending_def
          split: sum.splits automatic_input.splits)
    then show ?thesis
      using frame by (simp add: sent_frame_def)
  qed
  show ?thesis
  proof (cases "pr_pending_tap r")
    case None
    then show ?thesis
      using assms automatic by (simp add: periodic_run_due_def)
  next
    case (Some pending)
    show ?thesis
    proof (cases "spt_release_at pending \<le> now")
      case False
      then show ?thesis
        using assms automatic Some by (simp add: periodic_run_due_def)
    next
      case True
      obtain cx1 res where finish: "periodic_tap_finish E (spt_tap pending) (protocol_timestamp now) cx = (cx1, res)"
        by fastforce
      have "cx1 = fst (commit_and_send_candidate E (ppt_released (spt_tap pending)) (protocol_timestamp now) cx)"
        using fst_periodic_tap_finish[of E "spt_tap pending" "protocol_timestamp now" cx] by (simp add: finish)
      then show ?thesis
        using assms True commit_and_send_fields[of E "ppt_released (spt_tap pending)" "protocol_timestamp now" cx]
        by (auto simp: periodic_run_due_def Some finish due_none_def periodic_has_pending_def)
    qed
  qed
qed

interpretation periodic_laws: reporting_laws periodic_reporting E for E :: "'t env"
proof (unfold_locales, goal_cases)
  case (1 r s cx r' s' cx' sid)
  then show ?case
    by (auto simp: periodic_reporting_fields periodic_begin_session_def begin_periodic_def issue_def Let_def
        periodic_has_pending_def case_prod_beta)
next
  case (3 r c ready now cx r' cx' p)
  then show ?case
    unfolding periodic_reporting_fields by (rule periodic_handle_command_law)
next
  case (4 r ev cx r' cx' e)
  then show ?case
    by (cases ev) (auto simp: periodic_reporting_fields periodic_handle_event_def periodic_has_pending_def)
next
  case (6 r now s h sender g r' h' g' res)
  obtain g1 h1 p1 res1 where eval: "evaluate_periodic g now s h sender (pr_policy r) = (g1, h1, p1, res1)"
    by (cases "evaluate_periodic g now s h sender (pr_policy r)") auto
  have same: "g' = g1" "h' = h1" "res = res1" "pr_pending_tap r' = pr_pending_tap r"
    using 6(1) by (auto simp: periodic_reporting_fields periodic_evaluate_readiness_def eval)
  have "protocol_ready (sender_session sender)" if "res1 = Inr (ReadinessReady sid)" for sid
    using eval that by (auto simp: evaluate_periodic_def split: sum.splits bool.splits prod.splits
        if_splits periodic_start.splits)
  then show ?case
    using evaluate_periodic_fields[OF eval 6(2)] same
    by (simp add: periodic_reporting_fields periodic_has_pending_def)
next
  case (7 r now cx r' cx' due)
  then show ?case
    unfolding periodic_reporting_fields by (rule periodic_run_due_law)
qed (auto simp: periodic_reporting_fields handshake_new_def with_completion_condition_def
    periodic_record_output_def periodic_has_pending_def periodic_cancel_for_shutdown_def
    periodic_stop_session_def split: prod.splits)

section \<open>Direct keeps the contract\<close>

lemma complete_direct_send_frame:
  assumes "complete_direct_send E c ready now cx = (cx', p)"
  shows "p \<noteq> CommandPending \<and> status_frame (cx_status cx) (cx_status cx')
    \<and> (\<forall>x. context_ok x cx \<and> (ready \<longrightarrow> x \<noteq> None) \<longrightarrow> context_ok x cx')"
proof -
  have "p \<noteq> CommandPending \<and> cx' = (if ready then fst (send_direct E c (protocol_timestamp now) cx) else cx)"
    using assms by (cases "send_direct E c (protocol_timestamp now) cx")
      (auto simp: complete_direct_send_def split: if_splits)
  then show ?thesis
    using send_direct_frame[of cx E c "protocol_timestamp now"] by auto
qed

lemma complete_direct_candidate_frame:
  assumes "complete_direct_candidate E c ready now cx = (cx', p)"
  shows "p \<noteq> CommandPending \<and> status_frame (cx_status cx) (cx_status cx')
    \<and> (\<forall>x. context_ok x cx \<and> (ready \<longrightarrow> x \<noteq> None) \<longrightarrow> context_ok x cx')"
proof (cases c)
  case (Inr state)
  then have "complete_direct_send E state ready now cx = (cx', p)"
    using assms by (simp add: complete_direct_candidate_def)
  then show ?thesis
    by (rule complete_direct_send_frame)
qed (use assms in \<open>auto simp: complete_direct_candidate_def\<close>)

lemma direct_begin_tap_frame:
  assumes "direct_begin_tap E ready plan now cx = (cx', r)"
  shows "status_frame (cx_status cx) (cx_status cx') \<and> (is_ok r \<longrightarrow> ready)
    \<and> (\<forall>x. context_ok x cx \<and> (ready \<longrightarrow> x \<noteq> None) \<longrightarrow> context_ok x cx')"
proof -
  obtain pressed released d where plan: "plan = (pressed, released, d)"
    by (cases plan) auto
  have "cx' = (if ready then fst (send_direct E pressed (protocol_timestamp now) cx) else cx)"
    using assms fst_direct_begin_tap[of E ready pressed released d now cx] by (simp add: plan)
  moreover have "is_ok r \<longrightarrow> ready"
    using assms by (auto simp: direct_begin_tap_def split: if_splits)
  ultimately show ?thesis
    using send_direct_frame[of cx E pressed "protocol_timestamp now"] by auto
qed

lemma direct_handle_command_law:
  assumes "direct_handle_command E r c ready now cx = (r', cx', p)" "\<not> direct_has_pending r"
  shows "(direct_has_pending r' \<longleftrightarrow> p = CommandPending) \<and> (direct_has_pending r' \<longrightarrow> ready)
    \<and> status_frame (cx_status cx) (cx_status cx')
    \<and> (\<forall>x. context_ok x cx \<and> (ready \<longrightarrow> x \<noteq> None) \<longrightarrow> context_ok x cx')"
proof (cases "ready \<and> (\<exists>bs d. c = DirectCommon (Tap bs d))")
  case True
  then obtain bs d where c: "c = DirectCommon (Tap bs d)" by blast
  show ?thesis
  proof (cases "tap_plan (env_model E) (cx_input cx) bs d")
    case (Inl e)
    then show ?thesis
      using assms True by (auto simp: direct_handle_command_def c)
  next
    case (Inr plan)
    obtain cx1 res where tap: "direct_begin_tap E True plan now cx = (cx1, res)"
      by fastforce
    show ?thesis
      using assms True direct_begin_tap_frame[OF tap]
      by (auto simp: direct_handle_command_def c Inr tap direct_has_pending_def split: sum.splits)
  qed
next
  case False
  then show ?thesis
    using assms complete_direct_send_frame complete_direct_candidate_frame
    by (fastforce simp: direct_handle_command_def split: direct_command.splits common_command.splits if_splits)
qed

lemma direct_tap_step_output:
  "direct_tap_step E tap (StimulusTransport (HidOutput channel payload)) cx =
     (fst (handle_output E channel payload cx), TapPending tap (Some (snd (handle_output E channel payload cx))))"
  by (simp add: direct_tap_step_def case_prod_beta)

lemma direct_handle_event_law:
  assumes "direct_handle_event E r ev cx = (r', cx', e)"
  shows "status_frame (cx_status cx) (cx_status cx')
    \<and> (\<forall>x. context_ok (Some x) cx \<longrightarrow> context_ok (Some x) cx')
    \<and> (case e of
         Passthrough ev' \<Rightarrow> ev' = ev \<and> cx' = cx \<and> direct_has_pending r' = direct_has_pending r
           \<and> ((\<exists>reason. ev = Disconnected reason) \<longrightarrow> \<not> direct_has_pending r)
       | EventOutput _ \<Rightarrow> direct_has_pending r' = direct_has_pending r
       | EventDisconnected reason completion \<Rightarrow> ev = Disconnected reason \<and> \<not> direct_has_pending r'
           \<and> (completion \<noteq> None \<longleftrightarrow> direct_has_pending r))"
proof (cases "dr_pending_tap r")
  case None
  then show ?thesis
    using assms by (auto simp: direct_handle_event_def direct_has_pending_def)
next
  case (Some tap)
  show ?thesis
  proof (cases ev)
    case (HidOutput channel payload)
    have "r' = r\<lparr>dr_pending_tap := Some tap\<rparr>" "cx' = fst (handle_output E channel payload cx)"
      "e = EventOutput (snd (handle_output E channel payload cx))"
      using assms by (auto simp: direct_handle_event_def Some HidOutput direct_tap_step_output Let_def)
    then show ?thesis
      using handle_output_frame[of cx E channel payload] Some
      by (simp add: direct_has_pending_def output_frame_def)
  next
    case (Disconnected reason)
    then show ?thesis
      using assms Some
      by (auto simp: direct_handle_event_def direct_tap_step_def direct_has_pending_def Let_def)
  qed (use assms Some in \<open>auto simp: direct_handle_event_def direct_has_pending_def Let_def\<close>)
qed

lemma direct_run_due_law:
  assumes "direct_run_due E r now cx = (r', cx', due)"
  shows "status_frame (cx_status cx) (cx_status cx')
    \<and> (\<forall>x. context_ok (Some x) cx \<longrightarrow> context_ok (Some x) cx')
    \<and> (case due_completion due of
         None \<Rightarrow> direct_has_pending r' = direct_has_pending r
       | Some p \<Rightarrow> direct_has_pending r \<and> \<not> direct_has_pending r' \<and> p \<noteq> CommandPending)"
proof (cases "dr_pending_tap r")
  case None
  then show ?thesis
    using assms by (auto simp: direct_run_due_def due_none_def)
next
  case (Some tap)
  show ?thesis
    using assms send_direct_frame[of cx E "pdt_released tap" "protocol_timestamp now"]
      fst_direct_tap_finish[of E tap now cx]
    by (auto simp: direct_run_due_def Some due_none_def direct_has_pending_def split: if_splits prod.splits)
qed

interpretation direct_laws: reporting_laws direct_reporting E for E :: "'t env"
proof (unfold_locales, goal_cases)
  case (1 r s cx r' s' cx' sid)
  then show ?case
    by (auto simp: direct_reporting_fields direct_begin_session_def begin_direct_def issue_def Let_def
        direct_has_pending_def case_prod_beta)
next
  case (3 r c ready now cx r' cx' p)
  then show ?case
    unfolding direct_reporting_fields by (rule direct_handle_command_law)
next
  case (4 r ev cx r' cx' e)
  then show ?case
    unfolding direct_reporting_fields by (rule direct_handle_event_law)
next
  case (6 r now s h sender g r' h' g' res)
  obtain g1 h1 res1 where eval: "evaluate_direct g now s h sender = (g1, h1, res1)"
    by (cases "evaluate_direct g now s h sender") auto
  have same: "g' = g1" "h' = h1" "res = res1" "r' = r"
    using 6(1) by (auto simp: direct_reporting_fields direct_evaluate_readiness_def eval)
  have "protocol_ready (sender_session sender)" if "res1 = Inr (ReadinessReady sid)" for sid
    using eval that by (auto simp: evaluate_direct_def split: sum.splits bool.splits prod.splits if_splits)
  then show ?case
    using evaluate_direct_fields[OF eval 6(2)] same by simp
next
  case (7 r now cx r' cx' due)
  then show ?case
    unfolding direct_reporting_fields by (rule direct_run_due_law)
next
  case (8 r cx r' cx' w)
  then show ?case
    by (auto simp: direct_reporting_fields direct_cancel_for_shutdown_def direct_tap_step_def
        direct_has_pending_def Let_def split: option.splits)
qed (auto simp: direct_reporting_fields handshake_until_protocol_ready_def with_completion_condition_def
    direct_record_output_def direct_has_pending_def direct_stop_session_def)

end
