(* ===== verification/Worker.thy ===== *)
theory Worker
  imports ReportingLaws
begin

text \<open>
  \<open>WorkerCore\<close> of \<open>src/runtime/worker.rs\<close>: the controller's state machine and its single-step function.

  A step reads the clock and asks for a shutdown request several times; the model draws the answers
  from two streams, \<open>ss_clock\<close> and \<open>ss_shutdown\<close>, one element per call, so a statement for all streams
  covers every interleaving with time and with the controller's threads.  The command the source would
  hand out is an argument.  \<open>assert!\<close> on a second command result in one step is the latch
  \<open>pg_panicked\<close>, proved never to be set.
\<close>

definition explicit_close_drain_timeout :: duration where
  "explicit_close_drain_timeout = from_secs 1"

record step_progress =
  pg_commands :: nat
  pg_hci_events :: nat
  pg_due_actions :: nat
  pg_skipped_deadlines :: u64
  pg_immediate :: bool
  pg_next_deadline :: "duration option"
  pg_command_result :: "command_result option"
  pg_operation_errors :: "worker_operation_error list"
  pg_panicked :: bool

definition step_progress_new :: step_progress where
  "step_progress_new = \<lparr>
     pg_commands = 0, pg_hci_events = 0, pg_due_actions = 0, pg_skipped_deadlines = 0,
     pg_immediate = False, pg_next_deadline = None, pg_command_result = None,
     pg_operation_errors = [], pg_panicked = False\<rparr>"

datatype wait_request = WaitActivity | WaitActivityOrDeadline duration

definition step_wait_request :: "step_progress \<Rightarrow> duration \<Rightarrow> wait_request option" where
  "step_wait_request pg now =
     (if pg_immediate pg \<or> (case pg_next_deadline pg of None \<Rightarrow> False | Some d \<Rightarrow> d \<le> now) then None
      else Some (case pg_next_deadline pg of None \<Rightarrow> WaitActivity | Some d \<Rightarrow> WaitActivityOrDeadline d))"

definition record_command_progress :: "worker_command_progress \<Rightarrow> step_progress \<Rightarrow> step_progress" where
  "record_command_progress p pg =
     (case p of
        CommandPending \<Rightarrow> pg
      | CommandComplete result \<Rightarrow>
          pg\<lparr>pg_command_result := Some result,
             pg_panicked := pg_panicked pg \<or> pg_command_result pg \<noteq> None\<rparr>)"

definition push_operation_error :: "worker_operation_error \<Rightarrow> step_progress \<Rightarrow> step_progress" where
  "push_operation_error e pg = pg\<lparr>pg_operation_errors := pg_operation_errors pg @ [e]\<rparr>"

section \<open>Terminal and non-terminal errors\<close>

datatype periodic_error_disposition =
    NonTerminal periodic_error
  | Terminal transport_error periodic_error   \<comment> \<open>error, completion\<close>

fun classify_periodic_error :: "periodic_error \<Rightarrow> periodic_error_disposition" where
  "classify_periodic_error (PeriodicTransport e (Some later_terminal)) =
     Terminal later_terminal (PeriodicTransport e None)"
| "classify_periodic_error (PeriodicTransport e None) =
     (if e \<noteq> Te_SendRejected then Terminal e (PeriodicTransport e None)
      else NonTerminal (PeriodicTransport e None))"
| "classify_periodic_error e = NonTerminal e"

text \<open>\<open>Inl (error, completion)\<close> is the source's \<open>OperationTermination\<close> or \<open>CommandTermination\<close>.\<close>

definition nonterminal_operation_error ::
  "worker_operation_error \<Rightarrow> (worker_operation_error, worker_core_error \<times> worker_operation_error) result" where
  "nonterminal_operation_error e =
     (case e of
        OperationOutput (OutputTransport t) \<Rightarrow>
          if t \<noteq> Te_SendRejected then Inl (CoreTransport t, OperationOutput (OutputTransport t)) else Inr e
      | OperationPeriodic p \<Rightarrow>
          (case classify_periodic_error p of
             NonTerminal p \<Rightarrow> Inr (OperationPeriodic p)
           | Terminal t completion \<Rightarrow> Inl (CoreTransport t, OperationPeriodic completion))
      | _ \<Rightarrow> Inr e)"

definition nonterminal_command_progress ::
  "worker_command_progress
   \<Rightarrow> (worker_command_progress, worker_core_error \<times> worker_command_progress) result" where
  "nonterminal_command_progress p =
     (case p of
        CommandComplete (Inl (CommandDirect (DirectTransport t))) \<Rightarrow>
          if t \<noteq> Te_SendRejected
          then Inl (CoreTransport t, CommandComplete (Inl (CommandDirect (DirectTransport t)))) else Inr p
      | CommandComplete (Inl (CommandPeriodic e)) \<Rightarrow>
          (case classify_periodic_error e of
             NonTerminal e \<Rightarrow> Inr (CommandComplete (Inl (CommandPeriodic e)))
           | Terminal t completion \<Rightarrow>
               Inl (CoreTransport t, CommandComplete (Inl (CommandPeriodic completion))))
      | _ \<Rightarrow> Inr p)"

definition record_operation_error ::
  "worker_operation_error \<Rightarrow> step_progress \<Rightarrow> step_progress \<times> (unit, worker_core_error) result" where
  "record_operation_error e pg =
     (case nonterminal_operation_error e of
        Inr e \<Rightarrow> (push_operation_error e pg, Inr ())
      | Inl (error, completion) \<Rightarrow> (push_operation_error completion pg, Inl error))"

section \<open>The worker\<close>

record connection_work =
  cw_session_id :: session_id
  cw_handshake :: "handshake option"
  cw_readiness :: readiness_gate

text \<open>\<open>WorkerBudget\<close> is its positive number of poll batches.\<close>

record ('r, 't) worker_core =
  wk_lifecycle :: runtime_state
  wk_reporting :: 'r
  wk_sessions :: connection_sessions
  wk_connection :: "connection_work option"
  wk_connection_command_pending :: "connection_command_kind option"
  wk_connected :: bool
  wk_poll_batches :: nat
  wk_cx :: "'t runtime_context"

definition from_open_transport ::
  "'t \<Rightarrow> 'r \<Rightarrow> nat \<Rightarrow> status_projection \<Rightarrow> ('r, 't) worker_core" where
  "from_open_transport transport reporting budget status = \<lparr>
     wk_lifecycle = lifecycle_new, wk_reporting = reporting, wk_sessions = sessions_new,
     wk_connection = None, wk_connection_command_pending = None, wk_connected = False,
     wk_poll_batches = budget,
     wk_cx = \<lparr>cx_input = input_neutral, cx_observed = observed_default, cx_sender = report_sender_new,
       cx_status = set_lifecycle Lc_Open status, cx_transport = transport, cx_outputs = []\<rparr>\<rparr>"

definition begin_connection ::
  "('c, 'r, 't) worker_reporting \<Rightarrow> duration \<Rightarrow> duration \<Rightarrow> ('r, 't) worker_core
   \<Rightarrow> ('r, 't) worker_core \<times> (session_id, worker_core_error) result" where
  "begin_connection R now timeout w =
     (let operation_deadline = deadline_after now timeout in
      case lifecycle_begin_connection (wk_lifecycle w) of
        (False, _) \<Rightarrow> (w, Inl InvalidLifecycle)
      | (True, lifecycle) \<Rightarrow>
          (case rp_begin_session R (wk_reporting w) (wk_sessions w) (wk_cx w) of
             (r, s, cx, sid) \<Rightarrow>
               (w\<lparr>wk_lifecycle := lifecycle, wk_reporting := r, wk_sessions := s,
                  wk_connection := Some \<lparr>cw_session_id = sid, cw_handshake = Some (rp_begin_handshake R sid),
                    cw_readiness = readiness_gate_new sid operation_deadline\<rparr>,
                  wk_connected := False,
                  wk_cx := cx\<lparr>cx_status := status_begin_session sid (lifecycle_state_of lifecycle)
                             (cx_input cx) (cx_status cx)\<rparr>\<rparr>,
                Inr sid)))"

text \<open>The worker with the progress of the current step; most methods update both.\<close>

type_synonym ('r, 't) work = "('r, 't) worker_core \<times> step_progress"

definition complete_connection_command :: "command_result \<Rightarrow> ('r, 't) work \<Rightarrow> ('r, 't) work" where
  "complete_connection_command result wp =
     (case wp of (w, pg) \<Rightarrow>
        if wk_connection_command_pending w \<noteq> None
        then (w\<lparr>wk_connection_command_pending := None\<rparr>,
              (record_command_progress (CommandComplete result) pg)\<lparr>pg_immediate := True\<rparr>)
        else (w, pg))"

definition complete_connection_failure ::
  "connection_command_failure \<Rightarrow> ('r, 't) work \<Rightarrow> ('r, 't) work" where
  "complete_connection_failure failure wp =
     (case wk_connection_command_pending (fst wp) of
        None \<Rightarrow> wp
      | Some command \<Rightarrow>
          complete_connection_command
            (Inl (CommandConnection \<lparr>cce_command = command, cce_failure = failure\<rparr>)) wp)"

definition wk_handle_output ::
  "'t env \<Rightarrow> hid_channel \<Rightarrow> u8 list \<Rightarrow> ('r, 't) worker_core \<Rightarrow> ('r, 't) worker_core \<times> output_completion" where
  "wk_handle_output E channel payload w =
     (case handle_output E channel payload (wk_cx w) of (cx, r) \<Rightarrow> (w\<lparr>wk_cx := cx\<rparr>, r))"

definition record_output ::
  "('c, 'r, 't) worker_reporting \<Rightarrow> duration \<Rightarrow> output_completion \<Rightarrow> ('r, 't) work
   \<Rightarrow> ('r, 't) work \<times> (unit, worker_core_error) result" where
  "record_output R completed_at completion wp =
     (case wp of (w, pg) \<Rightarrow>
        (case rp_record_output R (wk_reporting w) completed_at completion of
           (r, recorded) \<Rightarrow>
             let w = w\<lparr>wk_reporting := r\<rparr> in
             (case (case recorded of Inl e \<Rightarrow> record_operation_error e pg | Inr _ \<Rightarrow> (pg, Inr ())) of
                (pg, Inl e) \<Rightarrow> ((w, pg), Inl e)
              | (pg, Inr _) \<Rightarrow>
                  (case completion of
                     Inl e \<Rightarrow>
                       (case record_operation_error (OperationOutput e) pg of (pg, result) \<Rightarrow> ((w, pg), result))
                   | Inr _ \<Rightarrow> ((w, pg), Inr ())))))"

text \<open>The common tail of \<open>end_connection\<close> and \<open>abort_connection\<close>.\<close>

definition leave_connection ::
  "('c, 'r, 't) worker_reporting \<Rightarrow> u8 option \<Rightarrow> ('r, 't) worker_core \<Rightarrow> ('r, 't) worker_core" where
  "leave_connection R reason w =
     (let lifecycle = snd (mark_connection_ended (wk_lifecycle w)) in
      w\<lparr>wk_sessions := end_any_session (wk_sessions w), wk_connected := False,
        wk_reporting := rp_stop_session R (wk_reporting w), wk_lifecycle := lifecycle,
        wk_cx := (wk_cx w)\<lparr>cx_status := status_end_session (lifecycle_state_of lifecycle) reason
                   (cx_status (wk_cx w))\<rparr>\<rparr>)"

definition end_connection ::
  "('c, 'r, 't) worker_reporting \<Rightarrow> u8 option \<Rightarrow> worker_command_error option \<Rightarrow> ('r, 't) work \<Rightarrow> ('r, 't) work" where
  "end_connection R reason completion wp =
     (let wp = (case completion of
                  None \<Rightarrow> wp
                | Some e \<Rightarrow> (fst wp, (record_command_progress (CommandComplete (Inl e)) (snd wp))\<lparr>pg_immediate := True\<rparr>));
          wp = (case wk_connection (fst wp) of
                  None \<Rightarrow> wp
                | Some connection \<Rightarrow>
                    let (_, e) = readiness_abort (cw_handshake connection) (ReadinessDisconnected reason);
                        wp = ((fst wp)\<lparr>wk_connection := None\<rparr>, snd wp);
                        wp = complete_connection_failure (ReadinessFailure e) wp
                    in (fst wp, push_operation_error OperationReadiness (snd wp)))
      in (leave_connection R reason (fst wp), snd wp))"

text \<open>Called with the connection already taken out of the worker.\<close>

definition abort_connection ::
  "('c, 'r, 't) worker_reporting \<Rightarrow> connection_work \<Rightarrow> readiness_error \<Rightarrow> ('r, 't) work \<Rightarrow> ('r, 't) work" where
  "abort_connection R connection e wp =
     (let (_, e) = readiness_abort (cw_handshake connection) e;
          wp = complete_connection_failure (ReadinessFailure e) wp;
          wp = (fst wp, push_operation_error OperationReadiness (snd wp))
      in (leave_connection R None (fst wp), snd wp))"

text \<open>
  One drive of a connection attempt: the deadline and session check, a handshake step, the readiness
  gate.  The connection is taken out of the worker and put back unless the attempt has ended.
\<close>

definition drive_handshake ::
  "'t env \<Rightarrow> duration \<Rightarrow> connection_work \<Rightarrow> ('r, 't) work
   \<Rightarrow> connection_work \<times> ('r, 't) work \<times> (nat, worker_core_error) result" where
  "drive_handshake E now connection wp =
     (case cw_handshake connection of
        None \<Rightarrow> (connection, wp, Inr 0)
      | Some h \<Rightarrow>
          (case wp of (w, pg) \<Rightarrow>
            (case handshake_step E h (cw_session_id connection) now (wk_cx w) of
               (h, cx, result) \<Rightarrow>
                 let connection = connection\<lparr>cw_handshake := Some h\<rparr>;
                     w = w\<lparr>wk_cx := cx\<rparr>
                 in case result of
                      Inl e \<Rightarrow> (connection, (w, pg), Inl (CoreHandshake e))
                    | Inr (HsWaitingUntil deadline) \<Rightarrow>
                        (connection,
                         (w, pg\<lparr>pg_next_deadline := minimum_deadline (pg_next_deadline pg) (Some deadline)\<rparr>), Inr 0)
                    | Inr (HsBootstrapAttempted sent skipped) \<Rightarrow>
                        let pg = pg\<lparr>pg_skipped_deadlines :=
                               saturating_add_u64 (pg_skipped_deadlines pg) (of_nat skipped)\<rparr> in
                        (case sent of
                           Inr _ \<Rightarrow> (connection, (w, pg), Inr 1)
                         | Inl e \<Rightarrow>
                             if e = Te_SendRejected
                             then (connection, (w, push_operation_error (OperationOutput (OutputTransport e)) pg), Inr 1)
                             else (connection, (w, pg), Inl (CoreTransport e)))
                    | Inr HsStaleSession \<Rightarrow> (connection, (w, pg), Inr 0)
                    | Inr HsWaitingForTopology \<Rightarrow> (connection, (w, pg), Inr 0)
                    | Inr HsSubcommandObserved \<Rightarrow> (connection, (w, pg), Inr 0))))"

definition put_connection :: "connection_work \<Rightarrow> ('r, 't) work \<Rightarrow> ('r, 't) work" where
  "put_connection connection wp = ((fst wp)\<lparr>wk_connection := Some connection\<rparr>, snd wp)"

definition drive_readiness ::
  "('c, 'r, 't) worker_reporting \<Rightarrow> duration \<Rightarrow> connection_work \<Rightarrow> nat \<Rightarrow> ('r, 't) work
   \<Rightarrow> ('r, 't) work \<times> (nat, worker_core_error) result" where
  "drive_readiness R now connection actions wp =
     (case rp_evaluate_readiness R (wk_reporting (fst wp)) now (wk_sessions (fst wp))
             (cw_handshake connection) (cx_sender (wk_cx (fst wp))) (cw_readiness connection) of
        (r, h, g, result) \<Rightarrow>
          let connection = connection\<lparr>cw_handshake := h, cw_readiness := g\<rparr>;
              wp = ((fst wp)\<lparr>wk_reporting := r\<rparr>, snd wp)
          in case result of
               Inr (ReadinessPending _) \<Rightarrow> (put_connection connection wp, Inr actions)
             | Inr (ReadinessReady ready) \<Rightarrow>
                 (case mark_ready (wk_lifecycle (fst wp)) of
                    (marked, lifecycle) \<Rightarrow>
                      if ready \<noteq> cw_session_id connection \<or> \<not> marked
                      then (put_connection connection wp, Inl InvalidLifecycle)
                      else let w = (fst wp)\<lparr>wk_lifecycle := lifecycle,
                                     wk_cx := (wk_cx (fst wp))\<lparr>cx_status :=
                                       set_lifecycle (lifecycle_state_of lifecycle) (cx_status (wk_cx (fst wp)))\<rparr>\<rparr>
                           in (complete_connection_command (Inr ()) (w, snd wp), Inr (actions + 1)))
             | Inl e \<Rightarrow> (abort_connection R connection e wp, Inr actions))"

definition drive_connection ::
  "('c, 'r, 't) worker_reporting \<Rightarrow> 't env \<Rightarrow> duration \<Rightarrow> ('r, 't) work
   \<Rightarrow> ('r, 't) work \<times> (nat, worker_core_error) result" where
  "drive_connection R E now wp =
     (case wk_connection (fst wp) of
        None \<Rightarrow> (wp, Inr 0)
      | Some connection \<Rightarrow>
          let wp = ((fst wp)\<lparr>wk_connection := None\<rparr>, snd wp) in
          case ensure_active (cw_readiness connection) now (wk_sessions (fst wp)) of
            Inl e \<Rightarrow> (abort_connection R connection e wp, Inr 0)
          | Inr _ \<Rightarrow>
              (case drive_handshake E now connection wp of
                 (connection, wp, Inl e) \<Rightarrow> (put_connection connection wp, Inl e)
               | (connection, wp, Inr actions) \<Rightarrow> drive_readiness R now connection actions wp))"

definition worker_next_deadline ::
  "('c, 'r, 't) worker_reporting \<Rightarrow> ('r, 't) worker_core \<Rightarrow> duration option" where
  "worker_next_deadline R w =
     (let deadline = rp_next_deadline R (wk_reporting w) in
      case wk_connection w of
        None \<Rightarrow> deadline
      | Some connection \<Rightarrow>
          minimum_deadline
            (minimum_deadline deadline (Some (gate_operation_deadline (cw_readiness connection))))
            (Option.bind (cw_handshake connection) handshake_next_deadline))"

section \<open>Closing and failing\<close>

datatype worker_outcome =
    StepContinue
  | StepClosed close_completion "worker_command_error option"   \<comment> \<open>completion, interrupted\<close>
  | StepFailed worker_core_error

fun cleanup_for_request :: "shutdown_request \<Rightarrow> cleanup_sequence" where
  "cleanup_for_request (ShutdownExplicit mode) = cleanup_sequence_new mode explicit_close_drain_timeout"
| "cleanup_for_request ShutdownDropped = cleanup_for_drop"

definition worker_close ::
  "('c, 'r, 't) worker_reporting \<Rightarrow> 't env \<Rightarrow> shutdown_request \<Rightarrow> duration \<Rightarrow> ('r, 't) work
   \<Rightarrow> ('r, 't) work \<times> worker_outcome" where
  "worker_close R E request now wp =
     (let wp = complete_connection_command (Inl CommandShutdown) wp in
      case wp of (w, pg) \<Rightarrow>
        (case rp_cancel_for_shutdown R E (wk_reporting w) (wk_cx w) of
           (r, cx, interrupted) \<Rightarrow>
             let r = rp_stop_session R r;
                 now_ns = protocol_timestamp now
             in case cleanup_run E (cleanup_for_request request) (wk_connected w) now_ns True (wk_lifecycle w) cx of
                  (lifecycle, cx, completion) \<Rightarrow>
                    ((w\<lparr>wk_lifecycle := lifecycle, wk_reporting := r, wk_connected := False,
                        wk_connection := None, wk_sessions := end_any_session (wk_sessions w),
                        wk_cx := cx\<lparr>cx_status := status_close Lc_Closed (cx_status cx)\<rparr>\<rparr>, pg),
                     StepClosed completion interrupted)))"

definition core_failure_category :: "worker_core_error \<Rightarrow> worker_failure_category" where
  "core_failure_category e = (case e of CoreTransport _ \<Rightarrow> TransportFailure | _ \<Rightarrow> InternalFailure)"

definition worker_fail :: "worker_core_error \<Rightarrow> ('r, 't) work \<Rightarrow> ('r, 't) work \<times> worker_outcome" where
  "worker_fail e wp =
     (let failure = (if e = CoreTransport Te_InvalidKeyStore then KeyStoreFailure else WorkerFailedFailure);
          (w, pg) = complete_connection_failure failure wp
      in ((w\<lparr>wk_lifecycle := mark_failed (wk_lifecycle w), wk_connected := False,
            wk_cx := (wk_cx w)\<lparr>cx_status :=
              status_fail (status_message e) (core_failure_category e) (cx_status (wk_cx w))\<rparr>\<rparr>, pg),
          StepFailed e))"

text \<open>
  \<open>cleanup_after_failure_without_neutral\<close>: the thread's cleanup of a failed worker.  The status
  projection already shows the failure and is not touched.
\<close>

definition cleanup_after_failure_without_neutral ::
  "('c, 'r, 't) worker_reporting \<Rightarrow> 't env \<Rightarrow> duration \<Rightarrow> ('r, 't) worker_core
   \<Rightarrow> ('r, 't) worker_core \<times> close_completion" where
  "cleanup_after_failure_without_neutral R E now w =
     (let r = rp_stop_session R (wk_reporting w) in
      case cleanup_run E (cleanup_sequence_new WithoutNeutral explicit_close_drain_timeout) (wk_connected w)
             (protocol_timestamp now) False (wk_lifecycle w) (wk_cx w) of
        (lifecycle, cx, completion) \<Rightarrow>
          (w\<lparr>wk_lifecycle := lifecycle, wk_reporting := r, wk_connected := False, wk_connection := None,
             wk_sessions := end_any_session (wk_sessions w), wk_cx := cx\<rparr>, completion))"

definition cleanup_unspawned_without_neutral ::
  "('c, 'r, 't) worker_reporting \<Rightarrow> 't env \<Rightarrow> duration \<Rightarrow> ('r, 't) worker_core
   \<Rightarrow> ('r, 't) worker_core \<times> worker_outcome" where
  "cleanup_unspawned_without_neutral R E now w =
     (case worker_close R E (ShutdownExplicit WithoutNeutral) now (w, step_progress_new) of
        ((w, _), outcome) \<Rightarrow> (w, outcome))"

section \<open>The step\<close>

record ('r, 't) step_state =
  ss_worker :: "('r, 't) worker_core"
  ss_progress :: step_progress
  ss_clock :: "nat \<Rightarrow> duration"
  ss_shutdown :: "nat \<Rightarrow> shutdown_request option"

definition clock_now :: "('r, 't) step_state \<Rightarrow> duration \<times> ('r, 't) step_state" where
  "clock_now ss = (ss_clock ss 0, ss\<lparr>ss_clock := (\<lambda>n. ss_clock ss (Suc n))\<rparr>)"

definition shutdown_take :: "('r, 't) step_state \<Rightarrow> shutdown_request option \<times> ('r, 't) step_state" where
  "shutdown_take ss = (ss_shutdown ss 0, ss\<lparr>ss_shutdown := (\<lambda>n. ss_shutdown ss (Suc n))\<rparr>)"

definition ss_work :: "('r, 't) step_state \<Rightarrow> ('r, 't) work" where
  "ss_work ss = (ss_worker ss, ss_progress ss)"

definition set_work :: "('r, 't) work \<Rightarrow> ('r, 't) step_state \<Rightarrow> ('r, 't) step_state" where
  "set_work wp ss = ss\<lparr>ss_worker := fst wp, ss_progress := snd wp\<rparr>"

text \<open>A phase returns the outcome of an early return, or \<open>None\<close> to go on.\<close>

type_synonym ('r, 't) phase = "('r, 't) step_state \<times> worker_outcome option"

definition and_then ::
  "('r, 't) phase \<Rightarrow> (('r, 't) step_state \<Rightarrow> ('r, 't) phase) \<Rightarrow> ('r, 't) phase" where
  "and_then p f = (case p of (ss, Some outcome) \<Rightarrow> (ss, Some outcome) | (ss, None) \<Rightarrow> f ss)"

definition close_phase ::
  "('c, 'r, 't) worker_reporting \<Rightarrow> 't env \<Rightarrow> shutdown_request \<Rightarrow> ('r, 't) step_state \<Rightarrow> ('r, 't) phase" where
  "close_phase R E request ss =
     (case clock_now ss of (now, ss) \<Rightarrow>
        (case worker_close R E request now (ss_work ss) of (wp, outcome) \<Rightarrow> (set_work wp ss, Some outcome)))"

text \<open>\<open>if let Some(request) = shutdown.take() { return self.close(..) }\<close>\<close>

definition check_shutdown ::
  "('c, 'r, 't) worker_reporting \<Rightarrow> 't env \<Rightarrow> ('r, 't) step_state \<Rightarrow> ('r, 't) phase" where
  "check_shutdown R E ss =
     (case shutdown_take ss of
        (Some request, ss) \<Rightarrow> close_phase R E request ss
      | (None, ss) \<Rightarrow> (ss, None))"

text \<open>An error path: a pending shutdown still wins over the failure.\<close>

definition shutdown_or_fail ::
  "('c, 'r, 't) worker_reporting \<Rightarrow> 't env \<Rightarrow> worker_core_error \<Rightarrow> ('r, 't) step_state \<Rightarrow> ('r, 't) phase" where
  "shutdown_or_fail R E e ss =
     and_then (check_shutdown R E ss) (\<lambda>ss.
       case worker_fail e (ss_work ss) of (wp, outcome) \<Rightarrow> (set_work wp ss, Some outcome))"

definition start_connection ::
  "('c, 'r, 't) worker_reporting \<Rightarrow> connection_command_kind \<Rightarrow> duration
   \<Rightarrow> ('t \<Rightarrow> 't \<times> (unit, transport_error) result) \<Rightarrow> ('r, 't) step_state
   \<Rightarrow> ('r, 't) step_state \<times> worker_command_progress" where
  "start_connection R kind timeout start ss =
     (let failed = (\<lambda>e. CommandComplete (Inl (CommandConnection \<lparr>cce_command = kind, cce_failure = BeginFailure e\<rparr>)))
      in case call_transport start (wk_cx (ss_worker ss)) of
           (cx, Inl e) \<Rightarrow> (ss\<lparr>ss_worker := (ss_worker ss)\<lparr>wk_cx := cx\<rparr>\<rparr>, failed (CoreTransport e))
         | (cx, Inr _) \<Rightarrow>
             (case clock_now (ss\<lparr>ss_worker := (ss_worker ss)\<lparr>wk_cx := cx\<rparr>\<rparr>) of
                (now, ss) \<Rightarrow>
                  (case begin_connection R now timeout (ss_worker ss) of
                     (w, Inl e) \<Rightarrow> (ss\<lparr>ss_worker := w\<rparr>, failed e)
                   | (w, Inr _) \<Rightarrow>
                       (ss\<lparr>ss_worker := w\<lparr>wk_connection_command_pending := Some kind\<rparr>\<rparr>, CommandPending))))"

definition run_command ::
  "('c, 'r, 't) worker_reporting \<Rightarrow> 't env \<Rightarrow> 'c runtime_command \<Rightarrow> ('r, 't) step_state
   \<Rightarrow> ('r, 't) step_state \<times> worker_command_progress" where
  "run_command R E command ss =
     (case command of
        Pair timeout \<Rightarrow> start_connection R PairCommand timeout (t_start_pairing (env_transport E)) ss
      | Reconnect timeout \<Rightarrow> start_connection R ReconnectCommand timeout (t_start_reconnect (env_transport E)) ss
      | InputCommand c \<Rightarrow>
          (case ensure_input_command (wk_lifecycle (ss_worker ss)) of
             Inl e \<Rightarrow> (ss, CommandComplete (Inl (CommandLifecycle e)))
           | Inr _ \<Rightarrow>
               (case clock_now ss of (now, ss) \<Rightarrow>
                  let w = ss_worker ss in
                  (case rp_handle_command R E (wk_reporting w) c
                          (lifecycle_state_of (wk_lifecycle w) = Lc_Ready) now (wk_cx w) of
                     (r, cx, progress) \<Rightarrow>
                       (ss\<lparr>ss_worker := w\<lparr>wk_reporting := r, wk_cx := cx\<rparr>\<rparr>, progress)))))"

definition idle :: "('c, 'r, 't) worker_reporting \<Rightarrow> ('r, 't) worker_core \<Rightarrow> bool" where
  "idle R w = (wk_connection_command_pending w = None \<and> \<not> rp_has_pending R (wk_reporting w))"

definition update_progress :: "(step_progress \<Rightarrow> step_progress) \<Rightarrow> ('r, 't) step_state \<Rightarrow> ('r, 't) step_state" where
  "update_progress f ss = ss\<lparr>ss_progress := f (ss_progress ss)\<rparr>"

definition command_phase ::
  "('c, 'r, 't) worker_reporting \<Rightarrow> 't env \<Rightarrow> 'c runtime_command option \<Rightarrow> ('r, 't) step_state \<Rightarrow> ('r, 't) phase" where
  "command_phase R E next_command ss =
     (and_then
       (if idle R (ss_worker ss)
        then case next_command of
          None \<Rightarrow> (ss, None)
        | Some command \<Rightarrow>
            let ss = update_progress (\<lambda>pg. pg\<lparr>pg_commands := pg_commands pg + 1\<rparr>) ss in
            (case run_command R E command ss of
               (ss, result) \<Rightarrow>
                 let (result, terminal) =
                       (case nonterminal_command_progress result of
                          Inr result \<Rightarrow> (result, None)
                        | Inl (e, completion) \<Rightarrow> (completion, Some e));
                     ss = update_progress (record_command_progress result) ss
                 in and_then (check_shutdown R E ss) (\<lambda>ss.
                      case terminal of
                        None \<Rightarrow> (ss, None)
                      | Some e \<Rightarrow>
                          (case worker_fail e (ss_work ss) of (wp, outcome) \<Rightarrow> (set_work wp ss, Some outcome))))
        else (ss, None))
       (\<lambda>ss. (if pg_commands (ss_progress ss) = 1 \<and> idle R (ss_worker ss)
              then update_progress (\<lambda>pg. pg\<lparr>pg_immediate := True\<rparr>) ss else ss, None)))"

text \<open>\<open>handle_event\<close> of the worker: whether the topology changed, or a terminal error.\<close>

definition worker_handle_event ::
  "('c, 'r, 't) worker_reporting \<Rightarrow> 't env \<Rightarrow> session_event \<Rightarrow> ('r, 't) step_state
   \<Rightarrow> ('r, 't) step_state \<times> (bool, worker_core_error) result" where
  "worker_handle_event R E tagged ss =
     (case take_current (wk_sessions (ss_worker ss)) tagged of
        None \<Rightarrow> (ss, Inr False)
      | Some event \<Rightarrow>
          (case rp_handle_event R E (wk_reporting (ss_worker ss)) event (wk_cx (ss_worker ss)) of
             (r, cx, event) \<Rightarrow>
               let w = (ss_worker ss)\<lparr>wk_reporting := r, wk_cx := cx\<rparr>;
                   ss = ss\<lparr>ss_worker := w\<rparr>
               in case event of
                    Passthrough Connected \<Rightarrow>
                      (ss\<lparr>ss_worker := w\<lparr>wk_connected := True,
                          wk_cx := cx\<lparr>cx_status := set_connected True (cx_status cx)\<rparr>,
                          wk_connection := map_option (\<lambda>c. c\<lparr>cw_handshake :=
                            map_option (observe_link (cw_session_id c)) (cw_handshake c)\<rparr>) (wk_connection w)\<rparr>\<rparr>,
                       Inr True)
                  | Passthrough (HidChannelOpened channel) \<Rightarrow>
                      (ss\<lparr>ss_worker := w\<lparr>
                          wk_connection := map_option (\<lambda>c. c\<lparr>cw_handshake :=
                            map_option (observe_channel (cw_session_id c) channel) (cw_handshake c)\<rparr>) (wk_connection w)\<rparr>\<rparr>,
                       Inr True)
                  | Passthrough (HidOutput channel payload) \<Rightarrow>
                      (case wk_handle_output E channel payload w of
                         (w, completion) \<Rightarrow>
                           (case clock_now (ss\<lparr>ss_worker := w\<rparr>) of
                              (now, ss) \<Rightarrow>
                                (case record_output R now completion (ss_work ss) of
                                   (wp, Inl e) \<Rightarrow> (set_work wp ss, Inl e)
                                 | (wp, Inr _) \<Rightarrow> (set_work wp ss, Inr False))))
                  | Passthrough (Disconnected reason) \<Rightarrow>
                      (set_work (end_connection R reason None (ss_work ss)) ss, Inr False)
                  | EventDisconnected reason completion \<Rightarrow>
                      (set_work (end_connection R reason completion (ss_work ss)) ss, Inr False)
                  | EventOutput completion \<Rightarrow>
                      (case clock_now ss of
                         (now, ss) \<Rightarrow>
                           (case record_output R now completion (ss_work ss) of
                              (wp, Inl e) \<Rightarrow> (set_work wp ss, Inl e)
                            | (wp, Inr _) \<Rightarrow> (set_work wp ss, Inr False)))))"

definition drive_phase ::
  "('c, 'r, 't) worker_reporting \<Rightarrow> 't env \<Rightarrow> ('r, 't) step_state \<Rightarrow> ('r, 't) phase" where
  "drive_phase R E ss =
     (case clock_now ss of (now, ss) \<Rightarrow>
        (case drive_connection R E now (ss_work ss) of
           (wp, Inl e) \<Rightarrow> shutdown_or_fail R E e (set_work wp ss)
         | (wp, Inr actions) \<Rightarrow>
             check_shutdown R E
               (update_progress (\<lambda>pg. pg\<lparr>pg_due_actions := pg_due_actions pg + actions\<rparr>) (set_work wp ss))))"

definition event_phase ::
  "('c, 'r, 't) worker_reporting \<Rightarrow> 't env \<Rightarrow> session_event option \<Rightarrow> ('r, 't) step_state \<Rightarrow> ('r, 't) phase" where
  "event_phase R E event ss =
     (let ss = update_progress (\<lambda>pg. pg\<lparr>pg_hci_events := pg_hci_events pg + 1\<rparr>) ss in
      case (case event of None \<Rightarrow> (ss, Inr False) | Some tagged \<Rightarrow> worker_handle_event R E tagged ss) of
        (ss, Inl e) \<Rightarrow> shutdown_or_fail R E e ss
      | (ss, Inr topology_changed) \<Rightarrow>
          and_then (check_shutdown R E ss) (\<lambda>ss. if topology_changed then drive_phase R E ss else (ss, None)))"

fun events_phase ::
  "('c, 'r, 't) worker_reporting \<Rightarrow> 't env \<Rightarrow> session_event option list \<Rightarrow> ('r, 't) step_state \<Rightarrow> ('r, 't) phase" where
  "events_phase R E [] ss = (ss, None)"
| "events_phase R E (event # events) ss =
     and_then (event_phase R E event ss) (\<lambda>ss. events_phase R E events ss)"

text \<open>The poll loop: the argument counts the batches left; a batch is tagged as a whole when received.\<close>

fun poll_phase ::
  "('c, 'r, 't) worker_reporting \<Rightarrow> 't env \<Rightarrow> nat \<Rightarrow> ('r, 't) step_state \<Rightarrow> ('r, 't) phase" where
  "poll_phase R E 0 ss = (ss, None)"
| "poll_phase R E (Suc batches) ss =
     (case t_poll (env_transport E) 0 (cx_transport (wk_cx (ss_worker ss))) of
        (t, result) \<Rightarrow>
          let ss = ss\<lparr>ss_worker := (ss_worker ss)\<lparr>wk_cx := (wk_cx (ss_worker ss))\<lparr>cx_transport := t\<rparr>\<rparr>\<rparr> in
          (case result of
             Inl e \<Rightarrow> shutdown_or_fail R E (CoreTransport e) ss
           | Inr events \<Rightarrow>
               if events = [] then (ss, None)
               else and_then (events_phase R E (map (tag_current (wk_sessions (ss_worker ss))) events) ss) (\<lambda>ss.
                      poll_phase R E batches
                        (if batches = 0 then update_progress (\<lambda>pg. pg\<lparr>pg_immediate := True\<rparr>) ss else ss))))"

definition run_due_errors ::
  "worker_operation_error list \<Rightarrow> step_progress \<times> worker_core_error option
   \<Rightarrow> step_progress \<times> worker_core_error option" where
  "run_due_errors errors acc =
     fold (\<lambda>e (pg, terminal).
        case nonterminal_operation_error e of
          Inr e \<Rightarrow> (push_operation_error e pg, terminal)
        | Inl (error, completion) \<Rightarrow>
            (push_operation_error completion pg, (case terminal of None \<Rightarrow> Some error | Some t \<Rightarrow> Some t)))
       errors acc"

definition due_phase ::
  "('c, 'r, 't) worker_reporting \<Rightarrow> 't env \<Rightarrow> ('r, 't) step_state \<Rightarrow> ('r, 't) phase" where
  "due_phase R E ss =
     (let w = ss_worker ss in
      if lifecycle_state_of (wk_lifecycle w) = Lc_Ready
         \<or> (lifecycle_state_of (wk_lifecycle w) = Lc_Connecting
            \<and> rp_automatic_due_before_ready R (wk_reporting w))
      then case clock_now ss of (now, ss) \<Rightarrow>
        (case rp_run_due R E (wk_reporting w) now (wk_cx w) of
           (r, cx, due) \<Rightarrow>
             let ss = ss\<lparr>ss_worker := w\<lparr>wk_reporting := r, wk_cx := cx\<rparr>\<rparr>;
                 pg = (ss_progress ss)\<lparr>pg_due_actions := pg_due_actions (ss_progress ss) + due_actions due,
                        pg_immediate := pg_immediate (ss_progress ss) \<or> due_immediate due\<rparr>;
                 (pg, terminal) =
                   (case due_completion due of
                      None \<Rightarrow> (pg, None)
                    | Some completion \<Rightarrow>
                        (case nonterminal_command_progress completion of
                           Inr completion \<Rightarrow> (record_command_progress completion pg, None)
                         | Inl (e, completion) \<Rightarrow> (record_command_progress completion pg, Some e)));
                 (pg, terminal) = run_due_errors (due_errors due) (pg, terminal);
                 ss = ss\<lparr>ss_progress := pg\<rparr>
             in and_then (check_shutdown R E ss) (\<lambda>ss.
                  case terminal of
                    None \<Rightarrow> (ss, None)
                  | Some e \<Rightarrow>
                      (case worker_fail e (ss_work ss) of (wp, outcome) \<Rightarrow> (set_work wp ss, Some outcome))))
      else (ss, None))"

definition finish_phase ::
  "('c, 'r, 't) worker_reporting \<Rightarrow> ('r, 't) step_state \<Rightarrow> ('r, 't) phase" where
  "finish_phase R ss =
     (update_progress (\<lambda>pg. pg\<lparr>pg_next_deadline :=
         minimum_deadline (pg_next_deadline pg) (worker_next_deadline R (ss_worker ss))\<rparr>) ss, Some StepContinue)"

definition step_runtime ::
  "('c, 'r, 't) worker_reporting \<Rightarrow> 't env \<Rightarrow> 'c runtime_command option \<Rightarrow> ('r, 't) step_state \<Rightarrow> ('r, 't) phase" where
  "step_runtime R E next_command ss =
     (let ss = ss\<lparr>ss_progress := step_progress_new\<rparr> in
      and_then (check_shutdown R E ss) (\<lambda>ss.
      and_then (command_phase R E next_command ss) (\<lambda>ss.
      and_then (poll_phase R E (wk_poll_batches (ss_worker ss)) ss) (\<lambda>ss.
      and_then (drive_phase R E ss) (\<lambda>ss.
      and_then (due_phase R E ss) (\<lambda>ss.
      finish_phase R ss))))))"

end
