(* ===== verification/WorkerInvariant.thy ===== *)
theory WorkerInvariant
  imports Worker
begin

text \<open>
  The invariant of \<open>WorkerCore\<close> between the phases of a step, and the account of commands and answers
  during one.  Everything is proved from the contract \<open>reporting_laws\<close>, so it holds for both modes.
\<close>

section \<open>The shared context\<close>

lemma context_ok_set_lifecycle [simp]:
  "context_ok s cx \<Longrightarrow> context_ok s (cx\<lparr>cx_status := set_lifecycle lc (cx_status cx)\<rparr>)"
  by (auto simp: context_ok_parts) (auto simp: status_defs split: option.splits if_splits)

lemma context_ok_set_connected [simp]:
  "context_ok s cx \<Longrightarrow> context_ok s (cx\<lparr>cx_status := set_connected c (cx_status cx)\<rparr>)"
  by (auto simp: context_ok_parts) (auto simp: status_defs)

lemma context_ok_end_session [simp]:
  "context_ok s cx \<Longrightarrow> context_ok None (cx\<lparr>cx_status := status_end_session lc r (cx_status cx)\<rparr>)"
  by (auto simp: context_ok_parts) (auto simp: status_defs split: option.splits)

lemma context_ok_close [simp]:
  "context_ok s cx \<Longrightarrow> context_ok None (cx\<lparr>cx_status := status_close lc (cx_status cx)\<rparr>)"
  by (auto simp: context_ok_parts) (auto simp: status_defs split: option.splits)

lemma context_ok_fail [simp]:
  "context_ok s cx \<Longrightarrow> st_worker_failure (cx_status cx) = None
   \<Longrightarrow> context_ok None (cx\<lparr>cx_status := status_fail msg k (cx_status cx)\<rparr>)"
  by (auto simp: context_ok_parts) (auto simp: status_defs split: option.splits)

lemma context_ok_begin_session [simp]:
  "context_ok s cx \<Longrightarrow> snd_committed (cx_sender cx) = sender_commit_default \<Longrightarrow> counters_shown cx
   \<Longrightarrow> context_ok (Some sid) (cx\<lparr>cx_status := status_begin_session sid lc (cx_input cx) (cx_status cx)\<rparr>)"
  by (auto simp: context_ok_parts)
    (auto simp: status_defs sender_commit_default_def protocol_session_default_def report_mode_def)

lemma status_shown_fields [simp]:
  "st_lifecycle (status_end_session lc r st) = lc" "\<not> st_connected (status_end_session lc r st)"
  "st_worker_failure (status_end_session lc r st) = st_worker_failure st"
  "st_lifecycle (status_begin_session sid lc s st) = lc" "\<not> st_connected (status_begin_session sid lc s st)"
  "st_worker_failure (status_begin_session sid lc s st) = None"
  "st_lifecycle (status_close lc st) = lc" "\<not> st_connected (status_close lc st)"
  "st_worker_failure (status_close lc st) = st_worker_failure st"
  "st_lifecycle (set_lifecycle lc st) = lc" "st_connected (set_lifecycle lc st) = st_connected st"
  "st_worker_failure (set_lifecycle lc st) = st_worker_failure st"
  "st_lifecycle (set_connected c st) = st_lifecycle st" "st_connected (set_connected c st) = c"
  "st_worker_failure (set_connected c st) = st_worker_failure st"
  "st_session_id (status_end_session lc r st) = None" "st_session_id (status_close lc st) = None"
  by (auto simp: status_end_session_def status_begin_session_def status_close_def set_lifecycle_def
      set_connected_def emit_in_session_def emit_def split: option.splits)

section \<open>The invariant\<close>

definition connection_ok :: "connection_work \<Rightarrow> session_id option \<Rightarrow> bool" where
  "connection_ok c sid \<longleftrightarrow>
     sid = Some (cw_session_id c) \<and> gate_session_id (cw_readiness c) = cw_session_id c
     \<and> gate_ok (cw_readiness c)
     \<and> (\<forall>h. cw_handshake c = Some h \<longrightarrow> hs_session_id h = cw_session_id c)"

definition status_shows :: "('r, 't) worker_core \<Rightarrow> bool" where
  "status_shows w \<longleftrightarrow>
     st_lifecycle (cx_status (wk_cx w)) = lifecycle_state_of (wk_lifecycle w)
     \<and> st_connected (cx_status (wk_cx w)) = wk_connected w
     \<and> st_worker_failure (cx_status (wk_cx w)) = None"

text \<open>
  The invariant with the connection attempt as an argument: \<open>drive_connection\<close> takes it out of the
  worker while it works on it.
\<close>

definition attached :: "('c, 'r, 't) worker_reporting \<Rightarrow> connection_work option \<Rightarrow> ('r, 't) worker_core \<Rightarrow> bool" where
  "attached R conn w \<longleftrightarrow>
     wk_lifecycle w \<in> {Rs_Open, Rs_Connecting, Rs_Ready}
     \<and> (conn \<noteq> None \<longleftrightarrow> wk_lifecycle w = Rs_Connecting)
     \<and> (wk_connection_command_pending w \<noteq> None \<longleftrightarrow> wk_lifecycle w = Rs_Connecting)
     \<and> (current_session (wk_sessions w) = None \<longleftrightarrow> wk_lifecycle w = Rs_Open)
     \<and> (rp_has_pending R (wk_reporting w) \<longrightarrow> wk_lifecycle w = Rs_Ready)
     \<and> (wk_connected w \<longrightarrow> wk_lifecycle w \<noteq> Rs_Open)
     \<and> context_ok (current_session (wk_sessions w)) (wk_cx w)
     \<and> status_shows w
     \<and> (\<forall>c. conn = Some c \<longrightarrow> connection_ok c (current_session (wk_sessions w)))"

definition worker_inv :: "('c, 'r, 't) worker_reporting \<Rightarrow> ('r, 't) worker_core \<Rightarrow> bool" where
  "worker_inv R w = attached R (wk_connection w) w"

lemma attached_connection [simp]: "attached R conn (w\<lparr>wk_connection := x\<rparr>) = attached R conn w"
  by (simp add: attached_def status_shows_def)

lemma worker_inv_put [simp]: "worker_inv R (w\<lparr>wk_connection := conn\<rparr>) = attached R conn w"
  by (simp add: worker_inv_def)

text \<open>Replacing the context by one of the same session keeps the invariant.\<close>

lemma attached_cx:
  assumes "attached R conn w" "status_frame (cx_status (wk_cx w)) (cx_status cx)"
    and "context_ok (current_session (wk_sessions w)) cx"
    and "rp_has_pending R r = rp_has_pending R (wk_reporting w)"
  shows "attached R conn (w\<lparr>wk_reporting := r, wk_cx := cx\<rparr>)"
  using assms by (simp add: attached_def status_shows_def status_frame_def)

text \<open>The commands that the worker still has to answer: at most one.\<close>

definition owed :: "('c, 'r, 't) worker_reporting \<Rightarrow> ('r, 't) worker_core \<Rightarrow> nat" where
  "owed R w = (if wk_connection_command_pending w \<noteq> None then 1 else 0)
     + (if rp_has_pending R (wk_reporting w) then 1 else 0)"

lemma owed_le_1: "attached R conn w \<Longrightarrow> owed R w \<le> 1"
  by (auto simp: attached_def owed_def)

lemma idle_iff: "idle R w \<longleftrightarrow> owed R w = 0"
  by (auto simp: idle_def owed_def)

text \<open>
  The account of a step that began owing \<open>k\<close> answers: what was owed and taken is answered in the
  progress or still owed, and the assertion on a second answer has not failed.
\<close>

definition answers :: "step_progress \<Rightarrow> nat" where
  "answers pg = (if pg_command_result pg = None then 0 else 1)"

definition account :: "nat \<Rightarrow> nat \<Rightarrow> step_progress \<Rightarrow> bool" where
  "account k open_commands pg \<longleftrightarrow>
     \<not> pg_panicked pg \<and> open_commands + answers pg = k + pg_commands pg \<and> k + pg_commands pg \<le> 1"

definition work_ok :: "('c, 'r, 't) worker_reporting \<Rightarrow> nat \<Rightarrow> ('r, 't) work \<Rightarrow> bool" where
  "work_ok R k wp \<longleftrightarrow> worker_inv R (fst wp) \<and> account k (owed R (fst wp)) (snd wp)"

lemma account_answer:
  "account k (Suc n) pg \<Longrightarrow> account k n (record_command_progress (CommandComplete r) pg)"
  by (auto simp: account_def answers_def record_command_progress_def split: if_splits)

lemma account_frame [simp]:
  "account k n (pg\<lparr>pg_immediate := b\<rparr>) = account k n pg"
  "account k n (pg\<lparr>pg_hci_events := i\<rparr>) = account k n pg"
  "account k n (pg\<lparr>pg_due_actions := i\<rparr>) = account k n pg"
  "account k n (pg\<lparr>pg_skipped_deadlines := u\<rparr>) = account k n pg"
  "account k n (pg\<lparr>pg_next_deadline := d\<rparr>) = account k n pg"
  "account k n (push_operation_error e pg) = account k n pg"
  by (simp_all add: account_def answers_def push_operation_error_def)

section \<open>Ending a connection attempt\<close>

definition pending_taken :: "('r, 't) worker_core \<Rightarrow> ('r, 't) worker_core" where
  "pending_taken w = w\<lparr>wk_connection_command_pending := None\<rparr>"

lemma pending_taken_fields [simp]:
  "wk_lifecycle (pending_taken w) = wk_lifecycle w" "wk_reporting (pending_taken w) = wk_reporting w"
  "wk_sessions (pending_taken w) = wk_sessions w" "wk_connection (pending_taken w) = wk_connection w"
  "wk_connection_command_pending (pending_taken w) = None" "wk_connected (pending_taken w) = wk_connected w"
  "wk_poll_batches (pending_taken w) = wk_poll_batches w" "wk_cx (pending_taken w) = wk_cx w"
  by (simp_all add: pending_taken_def)

lemma pending_taken_id [simp]: "wk_connection_command_pending w = None \<Longrightarrow> pending_taken w = w"
  by (simp add: pending_taken_def)

lemma complete_connection_command_account:
  assumes "account k (owed R (fst wp)) (snd wp)" "complete_connection_command r wp = (w', pg')"
  shows "w' = pending_taken (fst wp) \<and> account k (owed R (pending_taken (fst wp))) pg'"
  using assms
  by (auto simp: complete_connection_command_def pending_taken_def owed_def split: prod.splits if_splits
      intro: account_answer)

lemma complete_connection_failure_account:
  assumes "account k (owed R (fst wp)) (snd wp)" "complete_connection_failure f wp = (w', pg')"
  shows "w' = pending_taken (fst wp) \<and> account k (owed R (pending_taken (fst wp))) pg'"
proof (cases "wk_connection_command_pending (fst wp)")
  case None
  then show ?thesis
    using assms by (cases wp) (auto simp: complete_connection_failure_def)
next
  case (Some command)
  have "complete_connection_command
      (Inl (CommandConnection \<lparr>cce_command = command, cce_failure = f\<rparr>)) wp = (w', pg')"
    using assms(2) by (simp add: complete_connection_failure_def Some)
  then show ?thesis
    by (rule complete_connection_command_account[OF assms(1)])
qed

text \<open>The account only depends on what is owed; leaving a connection drops nothing that is owed.\<close>

lemma leave_connection_attached:
  assumes "wk_lifecycle w \<in> {Rs_Connecting, Rs_Ready}" "wk_connection_command_pending w = None"
    and "context_ok s (wk_cx w)" "status_shows w" "\<not> rp_has_pending R (rp_stop_session R (wk_reporting w))"
  shows "attached R None (leave_connection R reason w)"
  using assms
  by (auto simp: attached_def leave_connection_def mark_connection_ended_def status_shows_def
      Let_def)

section \<open>Ending and aborting\<close>

context reporting_laws
begin

lemma leave_connection_ok:
  assumes "attached R conn w" "wk_lifecycle w \<noteq> Rs_Open" "\<not> rp_has_pending R (wk_reporting w)"
    and "account k (owed R (pending_taken w)) pg"
  shows "attached R None (leave_connection R reason (pending_taken w))
    \<and> account k (owed R (leave_connection R reason (pending_taken w))) pg"
proof
  show "attached R None (leave_connection R reason (pending_taken w))"
    by (rule leave_connection_attached[where s = "current_session (wk_sessions w)"])
      (use assms stop_session in \<open>auto simp: attached_def status_shows_def\<close>)
  show "account k (owed R (leave_connection R reason (pending_taken w))) pg"
    using assms stop_session by (simp add: owed_def leave_connection_def Let_def)
qed

lemma abort_connection_ok:
  assumes "attached R (Some connection) w" "account k (owed R w) pg" "wk_connection w = None"
  shows "work_ok R k (abort_connection R connection e (w, pg))"
proof -
  obtain w1 pg1 where fin: "complete_connection_failure (ReadinessFailure e) (w, pg) = (w1, pg1)"
    by fastforce
  have w1: "w1 = pending_taken w" "account k (owed R (pending_taken w)) pg1"
    using complete_connection_failure_account[where R = R and k = k, OF _ fin] assms by simp_all
  have lc: "wk_lifecycle w = Rs_Connecting" "\<not> rp_has_pending R (wk_reporting w)"
    using assms(1) by (auto simp: attached_def)
  show ?thesis
    using leave_connection_ok[OF assms(1), where k = k and pg = pg1 and reason = None] w1 lc assms(3)
    by (simp add: abort_connection_def readiness_abort_def fin work_ok_def worker_inv_def)
      (simp add: leave_connection_def Let_def)
qed

lemma end_connection_ok:
  assumes "attached R (wk_connection w) w" "wk_lifecycle w \<noteq> Rs_Open" "\<not> rp_has_pending R (wk_reporting w)"
    and "account k (owed R w + (if completion = None then 0 else 1)) pg"
  shows "work_ok R k (end_connection R reason completion (w, pg))"
proof -
  define pg1 where "pg1 = (case completion of None \<Rightarrow> pg
     | Some e \<Rightarrow> (record_command_progress (CommandComplete (Inl e)) pg)\<lparr>pg_immediate := True\<rparr>)"
  have acc1: "account k (owed R w) pg1"
    using assms(4) account_answer by (auto simp: pg1_def split: option.splits)
  have eq: "end_connection R reason completion (w, pg) =
      (let wp = (case wk_connection w of None \<Rightarrow> (w, pg1)
                | Some connection \<Rightarrow>
                    (let wp = complete_connection_failure (ReadinessFailure (ReadinessDisconnected reason))
                                (w\<lparr>wk_connection := None\<rparr>, pg1)
                     in (fst wp, push_operation_error OperationReadiness (snd wp))))
       in (leave_connection R reason (fst wp), snd wp))"
    by (cases completion; cases "wk_connection w")
      (simp_all add: end_connection_def pg1_def readiness_abort_def Let_def)
  have conn_None: "wk_connection (leave_connection R reason v) = wk_connection v" for v
    by (simp add: leave_connection_def Let_def)
  show ?thesis
  proof (cases "wk_connection w")
    case None
    then have "wk_connection_command_pending w = None"
      using assms(1) by (auto simp: attached_def)
    then have same: "pending_taken w = w"
      by (simp add: pending_taken_def)
    show ?thesis
      using leave_connection_ok[OF assms(1-3), where k = k and pg = pg1 and reason = reason] acc1 None
      unfolding eq by (simp add: same work_ok_def worker_inv_def conn_None)
  next
    case (Some connection)
    let ?w = "w\<lparr>wk_connection := None\<rparr>"
    obtain w1 pg2 where fin: "complete_connection_failure (ReadinessFailure (ReadinessDisconnected reason))
        (?w, pg1) = (w1, pg2)"
      by fastforce
    have "account k (owed R ?w) pg1"
      using acc1 by (simp add: owed_def)
    then have w1: "w1 = pending_taken ?w" "account k (owed R (pending_taken ?w)) pg2"
      using complete_connection_failure_account[where R = R and k = k, OF _ fin] by simp_all
    have att: "attached R (wk_connection w) ?w"
      using assms(1) by simp
    show ?thesis
      using leave_connection_ok[OF att, where k = k and pg = pg2 and reason = reason] assms(2,3) w1
      unfolding eq by (simp add: Some fin work_ok_def worker_inv_def conn_None)
  qed
qed

section \<open>Driving the attempt\<close>

lemma drive_handshake_ok:
  assumes "attached R (Some connection) w" "account k (owed R w) pg"
    and "drive_handshake E now connection (w, pg) = (connection', (w', pg'), result)"
  shows "attached R (Some connection') w' \<and> account k (owed R w') pg' \<and> wk_connection w' = wk_connection w"
proof (cases "cw_handshake connection")
  case None
  then show ?thesis
    using assms by (auto simp: drive_handshake_def)
next
  case (Some h)
  obtain h1 cx r where step: "handshake_step E h (cw_session_id connection) now (wk_cx w) = (h1, cx, r)"
    by (cases "handshake_step E h (cw_session_id connection) now (wk_cx w)") auto
  have conn: "connection_ok connection (current_session (wk_sessions w))"
    using assms(1) by (simp add: attached_def)
  then have sid: "current_session (wk_sessions w) = Some (cw_session_id connection)"
    by (simp add: connection_ok_def)
  have frame: "status_frame (cx_status (wk_cx w)) (cx_status cx)"
    using handshake_step_frame[of "wk_cx w" E h "cw_session_id connection" now]
    by (simp add: step sent_frame_def)
  have ok: "context_ok (current_session (wk_sessions w)) cx"
    using assms(1) handshake_step_ok[of "cw_session_id connection" "wk_cx w" E h "cw_session_id connection" now]
    by (simp add: step attached_def sid)
  let ?w = "w\<lparr>wk_cx := cx\<rparr>" and ?c = "connection\<lparr>cw_handshake := Some h1\<rparr>"
  have "hs_session_id h1 = hs_session_id h"
    using handshake_step_session[of E h "cw_session_id connection" now "wk_cx w"] by (simp add: step)
  then have "connection_ok ?c (current_session (wk_sessions w))"
    using conn Some by (auto simp: connection_ok_def)
  then have att: "attached R (Some ?c) ?w"
    using attached_cx[OF assms(1) frame ok refl] by (auto simp: attached_def status_shows_def)
  have owed: "owed R ?w = owed R w"
    by (simp add: owed_def)
  have "w' = ?w \<and> connection' = ?c \<and> account k (owed R w) pg'"
    using assms(2,3)
    by (auto simp: drive_handshake_def Some step Let_def
        split: sum.splits handshake_progress.splits if_splits)
  then show ?thesis
    using att owed by simp
qed

lemma drive_readiness_ok:
  assumes "attached R (Some connection) w" "account k (owed R w) pg" "wk_connection w = None"
    and "drive_readiness R now connection actions (w, pg) = (wp, result)"
  shows "work_ok R k wp"
proof -
  obtain r h g res where eval: "rp_evaluate_readiness R (wk_reporting w) now (wk_sessions w)
      (cw_handshake connection) (cx_sender (wk_cx w)) (cw_readiness connection) = (r, h, g, res)"
    by (cases "rp_evaluate_readiness R (wk_reporting w) now (wk_sessions w)
      (cw_handshake connection) (cx_sender (wk_cx w)) (cw_readiness connection)") auto
  have conn: "connection_ok connection (current_session (wk_sessions w))"
    using assms(1) by (simp add: attached_def)
  note laws = evaluate_readiness[OF eval]
  let ?c = "connection\<lparr>cw_handshake := h, cw_readiness := g\<rparr>" and ?w = "w\<lparr>wk_reporting := r\<rparr>"
  have "connection_ok ?c (current_session (wk_sessions w))"
    using conn laws by (auto simp: connection_ok_def)
  then have att: "attached R (Some ?c) ?w"
    using assms(1) laws conn by (auto simp: attached_def status_shows_def connection_ok_def)
  have acc: "account k (owed R ?w) pg"
    using assms(2) laws conn by (simp add: owed_def connection_ok_def)
  have lc: "wk_lifecycle w = Rs_Connecting"
    using assms(1) by (auto simp: attached_def)
  have put: "work_ok R k (put_connection ?c (?w, pg))"
    using att acc by (simp add: put_connection_def work_ok_def owed_def)
  show ?thesis
  proof (cases res)
    case (Inl e)
    have "wp = abort_connection R ?c e (?w, pg)"
      using assms(4) by (simp add: drive_readiness_def eval Inl Let_def)
    then show ?thesis
      using abort_connection_ok[OF att acc] assms(3) by simp
  next
    case (Inr p)
    show ?thesis
    proof (cases p)
      case (ReadinessPending wait)
      then show ?thesis
        using assms(4) put by (simp add: drive_readiness_def eval Inr Let_def)
    next
      case (ReadinessReady ready)
      have ready: "ready = cw_session_id connection"
        using laws conn by (simp add: Inr ReadinessReady connection_ok_def)
      let ?w2 = "?w\<lparr>wk_lifecycle := Rs_Ready, wk_cx := (wk_cx w)\<lparr>cx_status :=
          set_lifecycle Lc_Ready (cx_status (wk_cx w))\<rparr>\<rparr>"
      have "account k (owed R ?w2) pg"
        using acc by (simp add: owed_def)
      moreover obtain w3 pg3 where fin: "complete_connection_command (Inr ()) (?w2, pg) = (w3, pg3)"
        by fastforce
      ultimately have w3: "w3 = pending_taken ?w2" "account k (owed R (pending_taken ?w2)) pg3"
        using complete_connection_command_account[where R = R and k = k, OF _ fin] by simp_all
      have "wp = (w3, pg3)"
        using assms(4) ready lc
        by (simp add: drive_readiness_def eval Inr ReadinessReady Let_def mark_ready_def fin)
      moreover have "worker_inv R w3"
        using att assms(3) conn lc
        by (auto simp: w3 worker_inv_def attached_def status_shows_def connection_ok_def)
      ultimately show ?thesis
        using w3 by (simp add: work_ok_def)
    qed
  qed
qed

lemma drive_connection_ok:
  assumes "work_ok R k wp" "drive_connection R E now wp = (wp', result)"
  shows "work_ok R k wp'"
proof -
  obtain w pg where wp: "wp = (w, pg)" by (cases wp)
  show ?thesis
  proof (cases "wk_connection w")
    case None
    then show ?thesis
      using assms by (simp add: drive_connection_def wp)
  next
    case (Some connection)
    let ?w = "w\<lparr>wk_connection := None\<rparr>"
    have att: "attached R (Some connection) ?w" and acc: "account k (owed R ?w) pg"
      using assms(1) Some by (simp_all add: work_ok_def worker_inv_def wp owed_def)
    show ?thesis
    proof (cases "ensure_active (cw_readiness connection) now (wk_sessions w)")
      case (Inl e)
      then show ?thesis
        using assms(2) abort_connection_ok[OF att acc]
        by (auto simp: drive_connection_def wp Some Let_def)
    next
      case (Inr u)
      obtain c1 w1 pg1 res where hs: "drive_handshake E now connection (?w, pg) = (c1, (w1, pg1), res)"
        by (cases "drive_handshake E now connection (?w, pg)") auto
      note ok = drive_handshake_ok[OF att acc hs]
      show ?thesis
      proof (cases res)
        case (Inl e)
        then show ?thesis
          using assms(2) ok Inr
          by (auto simp: drive_connection_def wp Some Let_def hs put_connection_def work_ok_def owed_def)
      next
        case (Inr actions)
        then show ?thesis
          using assms(2) ok drive_readiness_ok[of c1 w1 k pg1 now actions wp' result]
            \<open>ensure_active (cw_readiness connection) now (wk_sessions w) = Inr u\<close>
          by (simp add: drive_connection_def wp Some Let_def hs)
      qed
    qed
  qed
qed

end

end
