(* ===== verification/WorkerStep.thy ===== *)
theory WorkerStep
  imports WorkerInvariant
begin

text \<open>
  The phases of \<open>step_runtime\<close> keep the invariant and the account, and every early return leaves the
  worker closed or failed with its answers given.
\<close>

section \<open>Outcomes\<close>

definition closed_ok :: "('c, 'r, 't) worker_reporting \<Rightarrow> ('r, 't) worker_core \<Rightarrow> bool" where
  "closed_ok R w \<longleftrightarrow>
     wk_lifecycle w = Rs_Closing \<and> wk_connection w = None \<and> owed R w = 0 \<and> \<not> wk_connected w
     \<and> current_session (wk_sessions w) = None \<and> context_ok None (wk_cx w)
     \<and> st_lifecycle (cx_status (wk_cx w)) = Lc_Closed \<and> \<not> st_connected (cx_status (wk_cx w))
     \<and> st_worker_failure (cx_status (wk_cx w)) = None"

definition failed_ok :: "worker_core_error \<Rightarrow> ('r, 't) worker_core \<Rightarrow> bool" where
  "failed_ok e w \<longleftrightarrow>
     wk_lifecycle w = Rs_Failed \<and> wk_connection_command_pending w = None \<and> \<not> wk_connected w
     \<and> context_ok None (wk_cx w) \<and> st_lifecycle (cx_status (wk_cx w)) = Lc_Failed
     \<and> \<not> st_connected (cx_status (wk_cx w))
     \<and> st_worker_failure (cx_status (wk_cx w)) = Some (status_message e)"

text \<open>The answers outside the progress: a closed step hands the interrupted command back separately.\<close>

fun outcome_answers :: "worker_outcome \<Rightarrow> nat" where
  "outcome_answers (StepClosed _ interrupted) = (if interrupted = None then 0 else 1)"
| "outcome_answers _ = 0"

fun worker_after :: "('c, 'r, 't) worker_reporting \<Rightarrow> worker_outcome \<Rightarrow> ('r, 't) worker_core \<Rightarrow> bool" where
  "worker_after R StepContinue w = worker_inv R w"
| "worker_after R (StepClosed completion _) w = (closed_ok R w \<and> cc_performed completion)"
| "worker_after R (StepFailed e) w = failed_ok e w"

definition outcome_ok ::
  "('c, 'r, 't) worker_reporting \<Rightarrow> nat \<Rightarrow> ('r, 't) work \<Rightarrow> worker_outcome \<Rightarrow> bool" where
  "outcome_ok R k wp outcome \<longleftrightarrow>
     worker_after R outcome (fst wp)
     \<and> account k (owed R (fst wp) + outcome_answers outcome) (snd wp)"

fun phase_ok :: "('c, 'r, 't) worker_reporting \<Rightarrow> nat \<Rightarrow> ('r, 't) phase \<Rightarrow> bool" where
  "phase_ok R k (ss, None) = work_ok R k (ss_work ss)"
| "phase_ok R k (ss, Some outcome) = outcome_ok R k (ss_work ss) outcome"

lemma and_then_ok:
  assumes "phase_ok R k p" "\<And>ss. work_ok R k (ss_work ss) \<Longrightarrow> phase_ok R k (f ss)"
  shows "phase_ok R k (and_then p f)"
  using assms by (cases p; cases "snd p") (auto simp: and_then_def)

lemma step_state_fields [simp]:
  "ss_work (snd (clock_now ss)) = ss_work ss" "ss_worker (snd (clock_now ss)) = ss_worker ss"
  "ss_progress (snd (clock_now ss)) = ss_progress ss" "ss_work (snd (shutdown_take ss)) = ss_work ss"
  "ss_work (set_work wp ss) = wp" "ss_worker (set_work wp ss) = fst wp"
  "ss_progress (set_work wp ss) = snd wp"
  "ss_work (update_progress f ss) = (fst (ss_work ss), f (snd (ss_work ss)))"
  "ss_worker (update_progress f ss) = ss_worker ss" "ss_progress (update_progress f ss) = f (ss_progress ss)"
  "fst (ss_work ss) = ss_worker ss" "snd (ss_work ss) = ss_progress ss"
  by (simp_all add: clock_now_def shutdown_take_def ss_work_def set_work_def update_progress_def)

lemma work_ok_frame [simp]:
  "work_ok R k (w, pg\<lparr>pg_immediate := b\<rparr>) = work_ok R k (w, pg)"
  "work_ok R k (w, pg\<lparr>pg_hci_events := i\<rparr>) = work_ok R k (w, pg)"
  "work_ok R k (w, pg\<lparr>pg_due_actions := i\<rparr>) = work_ok R k (w, pg)"
  "work_ok R k (w, pg\<lparr>pg_next_deadline := d\<rparr>) = work_ok R k (w, pg)"
  by (simp_all add: work_ok_def)

lemma ss_work_pair: "ss_work ss = (ss_worker ss, ss_progress ss)"
  by (simp add: ss_work_def)

section \<open>Closing and failing\<close>

lemma cleanup_run_ok:
  assumes "context_ok s cx" "connected \<longrightarrow> s \<noteq> None" "lifecycle \<noteq> Rs_Closing"
    and "cleanup_run E sq connected now True lifecycle cx = (lifecycle', cx', completion)"
  shows "lifecycle' = Rs_Closing \<and> cc_performed completion \<and> context_ok None cx'
    \<and> st_worker_failure (cx_status cx') = st_worker_failure (cx_status cx)"
proof -
  have request: "request_close lifecycle = (BeginCleanup, Rs_Closing)"
    using assms(3) by (cases lifecycle) auto
  let ?cx = "cx\<lparr>cx_status := set_lifecycle Lc_Closing (cx_status cx)\<rparr>"
  obtain cx1 f where stages: "cleanup_stages E sq connected now ?cx = (cx1, f)"
    by fastforce
  have "context_ok s cx1"
    using assms(1,2) cleanup_stages_ok[of _ ?cx E sq connected now]
      cleanup_stages_ok_silent[of s ?cx connected E sq now] stages
    by (cases s) auto
  moreover have "st_worker_failure (cx_status cx1) = st_worker_failure (cx_status cx)"
    using cleanup_stages_frame[of ?cx E sq connected now] by (simp add: stages sent_frame_def status_frame_def)
  ultimately show ?thesis
    using assms(4) by (auto simp: cleanup_run_def request Let_def stages)
qed

lemma worker_fail_ok:
  assumes "work_ok R k wp" "worker_fail e wp = (wp', outcome)"
  shows "outcome_ok R k wp' outcome"
proof -
  let ?f = "if e = CoreTransport Te_InvalidKeyStore then KeyStoreFailure else WorkerFailedFailure"
  obtain w pg where wp: "wp = (w, pg)" by (cases wp)
  obtain w1 pg1 where fin: "complete_connection_failure ?f wp = (w1, pg1)"
    by fastforce
  have w1: "w1 = pending_taken w" "account k (owed R (pending_taken w)) pg1"
    using complete_connection_failure_account[where R = R and k = k, OF _ fin] assms(1)
    by (simp_all add: work_ok_def wp)
  have inv: "worker_inv R w"
    using assms(1) by (simp add: work_ok_def wp)
  have fail: "st_lifecycle (status_fail m c st) = Lc_Failed" "\<not> st_connected (status_fail m c st)"
    "st_worker_failure (status_fail m c st) = Some m" if "st_worker_failure st = None" for m c st
    using that by (simp_all add: status_fail_def)
  have "failed_ok e (fst wp')"
    using assms(2) inv fail
    by (auto simp: worker_fail_def fin w1 failed_ok_def worker_inv_def attached_def status_shows_def
        mark_failed_def split: if_splits)
  moreover have "account k (owed R (fst wp')) (snd wp')" and "outcome = StepFailed e"
    using assms(2) w1 by (auto simp: worker_fail_def fin owed_def split: if_splits)
  ultimately show ?thesis
    by (simp add: outcome_ok_def)
qed

context reporting_laws
begin

lemma worker_close_ok:
  assumes "work_ok R k wp" "worker_close R E request now wp = (wp', outcome)"
  shows "outcome_ok R k wp' outcome"
proof -
  obtain w pg where wp: "wp = (w, pg)" by (cases wp)
  obtain w1 pg1 where fin: "complete_connection_command (Inl CommandShutdown) wp = (w1, pg1)"
    by fastforce
  have w1: "w1 = pending_taken w" "account k (owed R (pending_taken w)) pg1"
    using complete_connection_command_account[where R = R and k = k, OF _ fin] assms(1)
    by (simp_all add: work_ok_def wp)
  have inv: "attached R (wk_connection w) w"
    using assms(1) by (simp add: work_ok_def wp worker_inv_def)
  obtain r cx interrupted where cancel: "rp_cancel_for_shutdown R E (wk_reporting w) (wk_cx w) = (r, cx, interrupted)"
    by (cases "rp_cancel_for_shutdown R E (wk_reporting w) (wk_cx w)") auto
  obtain lifecycle cx1 completion where run:
    "cleanup_run E (cleanup_for_request request) (wk_connected w) (protocol_timestamp now) True (wk_lifecycle w) cx
       = (lifecycle, cx1, completion)"
    by (cases "cleanup_run E (cleanup_for_request request) (wk_connected w) (protocol_timestamp now) True
      (wk_lifecycle w) cx") auto
  note laws = cancel_for_shutdown[OF cancel]
  have done_run: "lifecycle = Rs_Closing" "cc_performed completion" "context_ok None cx1"
    "st_worker_failure (cx_status cx1) = None"
    using cleanup_run_ok[OF _ _ _ run, where s = "current_session (wk_sessions w)"] inv laws
    by (auto simp: attached_def status_shows_def)
  let ?w = "(pending_taken w)\<lparr>wk_lifecycle := lifecycle, wk_reporting := rp_stop_session R r,
      wk_connected := False, wk_connection := None, wk_sessions := end_any_session (wk_sessions w),
      wk_cx := cx1\<lparr>cx_status := status_close Lc_Closed (cx_status cx1)\<rparr>\<rparr>"
  have eq: "wp' = (?w, pg1)" "outcome = StepClosed completion interrupted"
    using assms(2) by (simp_all add: worker_close_def fin w1(1) cancel run Let_def)
  have "closed_ok R ?w"
    using done_run stop_session by (simp add: closed_ok_def owed_def)
  moreover have "account k (outcome_answers outcome) pg1"
    using w1(2) laws by (cases "interrupted = None") (auto simp: eq(2) owed_def)
  ultimately show ?thesis
    using done_run by (simp add: eq outcome_ok_def closed_ok_def)
qed

section \<open>Events\<close>

lemma attached_reporting:
  "attached R conn w \<Longrightarrow> rp_has_pending R r = rp_has_pending R (wk_reporting w)
   \<Longrightarrow> attached R conn (w\<lparr>wk_reporting := r\<rparr>)"
  by (simp add: attached_def status_shows_def)

lemma owed_fields [simp]:
  "owed R (w\<lparr>wk_cx := cx\<rparr>) = owed R w" "owed R (w\<lparr>wk_connection := c\<rparr>) = owed R w"
  "owed R (w\<lparr>wk_connected := b\<rparr>) = owed R w" "owed R (w\<lparr>wk_lifecycle := lc\<rparr>) = owed R w"
  "owed R (w\<lparr>wk_sessions := s\<rparr>) = owed R w"
  by (simp_all add: owed_def)

lemma record_operation_error_account [simp]:
  "account k n (fst (record_operation_error e pg)) = account k n pg"
  by (auto simp: record_operation_error_def split: sum.splits)

lemma record_output_ok:
  assumes "work_ok R k wp" "record_output R t completion wp = (wp', result)"
  shows "work_ok R k wp'"
proof -
  obtain w pg where wp: "wp = (w, pg)" by (cases wp)
  obtain r recorded where rec: "rp_record_output R (wk_reporting w) t completion = (r, recorded)"
    by fastforce
  have same: "rp_has_pending R r = rp_has_pending R (wk_reporting w)"
    by (rule record_output[OF rec])
  have noted: "account k n pg' = account k n pg"
    if "record_operation_error e pg = (pg', res)" for e pg pg' res n
    using record_operation_error_account[of k n e pg] that by simp
  obtain pg1 res1 where first:
    "(case recorded of Inl e \<Rightarrow> record_operation_error e pg | Inr _ \<Rightarrow> (pg, Inr ())) = (pg1, res1)"
    by fastforce
  have pg1: "account k n pg1 = account k n pg" for n
    using first noted by (auto split: sum.splits)
  have eq: "record_output R t completion wp =
      (case res1 of Inl e \<Rightarrow> ((w\<lparr>wk_reporting := r\<rparr>, pg1), Inl e)
       | Inr _ \<Rightarrow> (case completion of
           Inl e \<Rightarrow> (case record_operation_error (OperationOutput e) pg1 of
                      (pg, result) \<Rightarrow> ((w\<lparr>wk_reporting := r\<rparr>, pg), result))
         | Inr _ \<Rightarrow> ((w\<lparr>wk_reporting := r\<rparr>, pg1), Inr ())))"
    by (simp add: record_output_def wp rec Let_def first)
  have "fst wp' = w\<lparr>wk_reporting := r\<rparr> \<and> (\<forall>n. account k n (snd wp') = account k n pg)"
    using assms(2) pg1 noted unfolding eq
    by (auto split: sum.splits prod.splits)
  moreover have "worker_inv R (w\<lparr>wk_reporting := r\<rparr>)"
    using assms(1) attached_reporting[OF _ same] by (simp add: work_ok_def worker_inv_def wp)
  moreover have "owed R (w\<lparr>wk_reporting := r\<rparr>) = owed R w"
    by (simp add: owed_def same)
  ultimately show ?thesis
    using assms(1) by (simp add: work_ok_def wp)
qed

text \<open>The part of an event that the worker does after the reporting mode has seen it.\<close>

lemma attempt_observes_ok:
  assumes "attached R (wk_connection w) w" "\<And>h. hs_session_id (f h) = hs_session_id h"
  shows "attached R (map_option (\<lambda>c. c\<lparr>cw_handshake := map_option f (cw_handshake c)\<rparr>) (wk_connection w)) w"
  using assms by (auto simp: attached_def connection_ok_def)

lemma handle_connected_ok:
  assumes "attached R (wk_connection w) w" "wk_lifecycle w \<noteq> Rs_Open"
  shows "worker_inv R (w\<lparr>wk_connected := True,
      wk_cx := (wk_cx w)\<lparr>cx_status := set_connected True (cx_status (wk_cx w))\<rparr>,
      wk_connection := map_option (\<lambda>c. c\<lparr>cw_handshake :=
        map_option (observe_link (cw_session_id c)) (cw_handshake c)\<rparr>) (wk_connection w)\<rparr>)"
  using assms by (auto simp: worker_inv_def attached_def connection_ok_def status_shows_def)

lemma handle_channel_ok:
  assumes "attached R (wk_connection w) w"
  shows "worker_inv R (w\<lparr>wk_connection := map_option (\<lambda>c. c\<lparr>cw_handshake :=
        map_option (observe_channel (cw_session_id c) channel) (cw_handshake c)\<rparr>) (wk_connection w)\<rparr>)"
  using assms by (auto simp: worker_inv_def attached_def connection_ok_def status_shows_def)

lemma handle_output_work_ok:
  assumes "work_ok R k (w, pg)" "wk_handle_output E channel payload w = (w', completion)"
    and "current_session (wk_sessions w) = Some sid"
  shows "work_ok R k (w', pg)"
proof -
  have w': "w' = w\<lparr>wk_cx := fst (handle_output E channel payload (wk_cx w))\<rparr>"
    using assms(2) by (auto simp: wk_handle_output_def split: prod.splits)
  have "worker_inv R w'"
    using attached_cx[of R "wk_connection w" w "fst (handle_output E channel payload (wk_cx w))" "wk_reporting w"]
      handle_output_frame[of "wk_cx w" E channel payload] assms(1,3)
    by (auto simp: w' work_ok_def worker_inv_def output_frame_def attached_def status_shows_def)
  then show ?thesis
    using assms(1) by (simp add: work_ok_def w')
qed

text \<open>The invariant right after the reporting mode has handled an event that leaves its command pending.\<close>

lemma event_context_ok:
  assumes "work_ok R k (ss_work ss)" "current_session (wk_sessions (ss_worker ss)) = Some sid"
    and "status_frame (cx_status (wk_cx (ss_worker ss))) (cx_status cx)"
    and "context_ok (Some sid) (wk_cx (ss_worker ss)) \<Longrightarrow> context_ok (Some sid) cx"
    and "rp_has_pending R r = rp_has_pending R (wk_reporting (ss_worker ss))"
  shows "work_ok R k ((ss_worker ss)\<lparr>wk_reporting := r, wk_cx := cx\<rparr>, ss_progress ss)"
proof -
  let ?w = "ss_worker ss"
  have inv: "attached R (wk_connection ?w) ?w" and acc: "account k (owed R ?w) (ss_progress ss)"
    using assms(1) by (simp_all add: work_ok_def worker_inv_def)
  have "context_ok (current_session (wk_sessions ?w)) cx"
    using inv assms(2,4) by (simp add: attached_def)
  then have "attached R (wk_connection ?w) (?w\<lparr>wk_reporting := r, wk_cx := cx\<rparr>)"
    by (rule attached_cx[OF inv assms(3) _ assms(5)])
  then show ?thesis
    using acc assms(5) by (simp add: work_ok_def worker_inv_def owed_def)
qed

lemma recorded_output_ok:
  assumes "work_ok R k (ss_work ss)"
    and "(case clock_now ss of (now, ss) \<Rightarrow>
          (case record_output R now completion (ss_work ss) of
             (wp, Inl e) \<Rightarrow> (set_work wp ss, Inl e)
           | (wp, Inr _) \<Rightarrow> (set_work wp ss, Inr False))) = (ss', res)"
  shows "work_ok R k (ss_work ss')"
proof -
  obtain wp out where rec: "record_output R (fst (clock_now ss)) completion (ss_work ss) = (wp, out)"
    by fastforce
  show ?thesis
    using assms(2) record_output_ok[OF assms(1) rec] rec
    by (auto simp: case_prod_beta split: sum.splits)
qed

text \<open>An event of the current session, by what the reporting mode makes of it.\<close>

lemma current_event_session:
  assumes "work_ok R k (ss_work ss)" "take_current (wk_sessions (ss_worker ss)) tagged = Some event"
  obtains sid where "current_session (wk_sessions (ss_worker ss)) = Some sid"
    and "attached R (wk_connection (ss_worker ss)) (ss_worker ss)" "wk_lifecycle (ss_worker ss) \<noteq> Rs_Open"
proof -
  obtain sid where sid: "current_session (wk_sessions (ss_worker ss)) = Some sid"
    using assms(2) by (auto simp: take_current_def split: if_splits) metis
  moreover have "attached R (wk_connection (ss_worker ss)) (ss_worker ss)"
    using assms(1) by (simp add: work_ok_def worker_inv_def)
  ultimately show thesis
    using that[OF sid] by (auto simp: attached_def)
qed

lemma passthrough_ok:
  assumes ok: "work_ok R k (ss_work ss)" and current: "take_current (wk_sessions (ss_worker ss)) tagged = Some event"
    and handle: "rp_handle_event R E (wk_reporting (ss_worker ss)) event (wk_cx (ss_worker ss)) = (r, cx, Passthrough ev)"
    and step: "worker_handle_event R E tagged ss = (ss', result)"
  shows "work_ok R k (ss_work ss')"
proof -
  let ?v = "ss_worker ss"
  let ?w = "?v\<lparr>wk_reporting := r, wk_cx := cx\<rparr>" and ?pg = "ss_progress ss"
  let ?ss = "ss\<lparr>ss_worker := ?w\<rparr>"
  obtain sid where sid: "current_session (wk_sessions ?v) = Some sid" and lc: "wk_lifecycle ?v \<noteq> Rs_Open"
    by (rule current_event_session[OF ok current])
  note laws = handle_event[OF handle]
  have kept: "work_ok R k (?w, ?pg)"
    by (rule event_context_ok[OF ok sid]) (use laws in simp_all)
  then have inv: "attached R (wk_connection ?w) ?w" and acc: "account k (owed R ?w) ?pg"
    by (simp_all add: work_ok_def worker_inv_def)
  show ?thesis
  proof (cases ev)
    case Connected
    then show ?thesis
      using step handle_connected_ok[OF inv] lc acc
      by (auto simp: worker_handle_event_def current handle Let_def ss_work_def work_ok_def)
  next
    case (HidChannelOpened channel)
    then show ?thesis
      using step handle_channel_ok[OF inv, of channel] acc
      by (auto simp: worker_handle_event_def current handle Let_def ss_work_def work_ok_def)
  next
    case (HidOutput channel payload)
    obtain w2 completion where out: "wk_handle_output E channel payload ?w = (w2, completion)"
      by fastforce
    have "work_ok R k (ss_work (?ss\<lparr>ss_worker := w2\<rparr>))"
      using handle_output_work_ok[OF kept out] sid by (simp add: ss_work_def)
    then show ?thesis
      using step recorded_output_ok[of k "?ss\<lparr>ss_worker := w2\<rparr>" completion ss' result]
      by (simp add: worker_handle_event_def current handle Let_def HidOutput out)
  next
    case (Disconnected reason)
    have "\<not> rp_has_pending R r"
      using laws Disconnected by auto
    then have "work_ok R k (end_connection R reason None (?w, ?pg))"
      using end_connection_ok[OF inv, where completion = None and k = k and pg = ?pg and reason = reason] lc acc
      by simp
    then show ?thesis
      using step by (auto simp: worker_handle_event_def current handle Let_def Disconnected ss_work_def)
  qed
qed

lemma event_disconnected_ok:
  assumes ok: "work_ok R k (ss_work ss)" and current: "take_current (wk_sessions (ss_worker ss)) tagged = Some event"
    and handle: "rp_handle_event R E (wk_reporting (ss_worker ss)) event (wk_cx (ss_worker ss))
        = (r, cx, EventDisconnected reason completion)"
    and step: "worker_handle_event R E tagged ss = (ss', result)"
  shows "work_ok R k (ss_work ss')"
proof -
  let ?v = "ss_worker ss"
  let ?w = "?v\<lparr>wk_reporting := r, wk_cx := cx\<rparr>" and ?pg = "ss_progress ss"
  obtain sid where sid: "current_session (wk_sessions ?v) = Some sid"
    and inv: "attached R (wk_connection ?v) ?v" and lc: "wk_lifecycle ?v \<noteq> Rs_Open"
    by (rule current_event_session[OF ok current])
  note laws = handle_event[OF handle]
  have gone: "\<not> rp_has_pending R r" "completion \<noteq> None \<longleftrightarrow> rp_has_pending R (wk_reporting ?v)"
    using laws by simp_all
  have "context_ok (Some sid) cx" "status_frame (cx_status (wk_cx ?v)) (cx_status cx)"
    using laws inv sid by (simp_all add: attached_def)
  then have "attached R (wk_connection ?w) ?w"
    using inv gone sid by (auto simp: attached_def status_shows_def status_frame_def)
  moreover have "owed R ?w + (if completion = None then 0 else 1) = owed R ?v"
    using gone by (auto simp: owed_def)
  then have "account k (owed R ?w + (if completion = None then 0 else 1)) ?pg"
    using ok by (simp add: work_ok_def)
  ultimately have "work_ok R k (end_connection R reason completion (?w, ?pg))"
    using end_connection_ok[where w = ?w and k = k and pg = ?pg and reason = reason and completion = completion]
      lc gone by simp
  then show ?thesis
    using step by (auto simp: worker_handle_event_def current handle Let_def ss_work_def)
qed

lemma worker_handle_event_ok:
  assumes "work_ok R k (ss_work ss)" "worker_handle_event R E tagged ss = (ss', result)"
  shows "work_ok R k (ss_work ss')"
proof (cases "take_current (wk_sessions (ss_worker ss)) tagged")
  case None
  then show ?thesis
    using assms by (simp add: worker_handle_event_def)
next
  case (Some event)
  obtain r cx e where handle: "rp_handle_event R E (wk_reporting (ss_worker ss)) event (wk_cx (ss_worker ss)) = (r, cx, e)"
    by (cases "rp_handle_event R E (wk_reporting (ss_worker ss)) event (wk_cx (ss_worker ss))") auto
  show ?thesis
  proof (cases e)
    case (Passthrough ev)
    show ?thesis
      by (rule passthrough_ok[OF assms(1) Some handle[unfolded Passthrough] assms(2)])
  next
    case (EventOutput completion)
    let ?w = "(ss_worker ss)\<lparr>wk_reporting := r, wk_cx := cx\<rparr>"
    obtain sid where sid: "current_session (wk_sessions (ss_worker ss)) = Some sid"
      by (rule current_event_session[OF assms(1) Some])
    have "work_ok R k (?w, ss_progress ss)"
      by (rule event_context_ok[OF assms(1) sid]) (use handle_event[OF handle] EventOutput in simp_all)
    then have "work_ok R k (ss_work (ss\<lparr>ss_worker := ?w\<rparr>))"
      by (simp add: ss_work_def)
    then show ?thesis
      using assms(2) recorded_output_ok[of k "ss\<lparr>ss_worker := ?w\<rparr>" completion ss' result]
      by (simp add: worker_handle_event_def Some handle Let_def EventOutput)
  next
    case (EventDisconnected reason completion)
    show ?thesis
      by (rule event_disconnected_ok[OF assms(1) Some handle[unfolded EventDisconnected] assms(2)])
  qed
qed

end

end
