(* ===== verification/WorkerPhases.thy ===== *)
theory WorkerPhases
  imports WorkerStep
begin

text \<open>
  The phases of \<open>step_runtime\<close> and their composition: the step keeps the invariant and the account on
  every path.
\<close>

lemma nonterminal_command_progress_shape:
  "case nonterminal_command_progress p of
     Inr q \<Rightarrow> (q = CommandPending \<longleftrightarrow> p = CommandPending)
   | Inl (e, q) \<Rightarrow> p \<noteq> CommandPending \<and> q \<noteq> CommandPending"
  by (auto simp: nonterminal_command_progress_def
      split: worker_command_progress.splits sum.splits worker_command_error.splits direct_tap_error.splits
        periodic_error_disposition.splits)

lemma account_command_progress:
  assumes "account k (Suc 0) pg" "p \<noteq> CommandPending"
  shows "account k 0 (record_command_progress p pg)"
  using assms account_answer by (cases p) auto

lemma issue_current [simp]: "current_session (issue s) = Some (prepare_next s)"
  by (simp add: issue_def)

lemma account_taken:
  "k = 0 \<Longrightarrow> account 0 (Suc 0) (step_progress_new\<lparr>pg_commands := Suc 0\<rparr>)"
  by (simp add: account_def answers_def step_progress_new_def)

context reporting_laws
begin

section \<open>Shutdown and failure\<close>

lemma close_phase_ok:
  assumes "work_ok R k (ss_work ss)"
  shows "phase_ok R k (close_phase R E request ss)"
proof -
  obtain wp outcome where close: "worker_close R E request (fst (clock_now ss)) (ss_work ss) = (wp, outcome)"
    by fastforce
  show ?thesis
    using worker_close_ok[OF assms close] close by (simp add: close_phase_def case_prod_beta)
qed

lemma check_shutdown_ok:
  assumes "work_ok R k (ss_work ss)"
  shows "phase_ok R k (check_shutdown R E ss)"
proof (cases "fst (shutdown_take ss)")
  case None
  then obtain ss1 where take: "shutdown_take ss = (None, ss1)" "ss_work ss1 = ss_work ss"
    by (auto simp: shutdown_take_def ss_work_def)
  then show ?thesis
    using assms by (simp add: check_shutdown_def)
next
  case (Some request)
  have "work_ok R k (ss_work (snd (shutdown_take ss)))"
    using assms by simp
  then show ?thesis
    using close_phase_ok[of k "snd (shutdown_take ss)" request] Some
    by (cases "shutdown_take ss") (simp add: check_shutdown_def)
qed

lemma check_shutdown_passes:
  "check_shutdown R E ss = (ss', None) \<Longrightarrow> ss_work ss' = ss_work ss"
  by (auto simp: check_shutdown_def close_phase_def shutdown_take_def ss_work_def clock_now_def Let_def
      split: option.splits prod.splits)

lemma fail_phase_ok:
  assumes "work_ok R k (ss_work ss)"
  shows "phase_ok R k (case worker_fail e (ss_work ss) of (wp, outcome) \<Rightarrow> (set_work wp ss, Some outcome))"
proof -
  obtain wp outcome where fail: "worker_fail e (ss_work ss) = (wp, outcome)"
    by fastforce
  show ?thesis
    using worker_fail_ok[OF assms fail] by (simp add: fail)
qed

lemma shutdown_or_fail_ok:
  "work_ok R k (ss_work ss) \<Longrightarrow> phase_ok R k (shutdown_or_fail R E e ss)"
  unfolding shutdown_or_fail_def
  by (rule and_then_ok[OF check_shutdown_ok]) (simp_all add: fail_phase_ok)

lemma shutdown_then_terminal_ok:
  "work_ok R k (ss_work ss) \<Longrightarrow>
     phase_ok R k (and_then (check_shutdown R E ss) (\<lambda>ss.
       case terminal of
         None \<Rightarrow> (ss, None)
       | Some e \<Rightarrow> (case worker_fail e (ss_work ss) of (wp, outcome) \<Rightarrow> (set_work wp ss, Some outcome))))"
  by (rule and_then_ok[OF check_shutdown_ok]) (cases terminal; simp add: fail_phase_ok)+

section \<open>Driving and polling\<close>

lemma drive_phase_ok:
  assumes "work_ok R k (ss_work ss)"
  shows "phase_ok R k (drive_phase R E ss)"
proof -
  obtain wp result where drive: "drive_connection R E (fst (clock_now ss)) (ss_work ss) = (wp, result)"
    by fastforce
  have ok: "work_ok R k wp"
    by (rule drive_connection_ok[OF assms drive])
  show ?thesis
    using shutdown_or_fail_ok[of k "set_work wp (snd (clock_now ss))"] ok drive
      check_shutdown_ok[of k "update_progress f (set_work wp (snd (clock_now ss)))" for f]
    by (cases wp; cases result) (auto simp: drive_phase_def case_prod_beta)
qed

lemma event_phase_ok:
  assumes "work_ok R k (ss_work ss)"
  shows "phase_ok R k (event_phase R E event ss)"
proof -
  let ?ss = "update_progress (\<lambda>pg. pg\<lparr>pg_hci_events := pg_hci_events pg + 1\<rparr>) ss"
  have start: "work_ok R k (ss_work ?ss)"
    using assms by (simp add: ss_work_pair)
  obtain ss1 result where handled:
    "(case event of None \<Rightarrow> (?ss, Inr False) | Some tagged \<Rightarrow> worker_handle_event R E tagged ?ss) = (ss1, result)"
    by fastforce
  have ok: "work_ok R k (ss_work ss1)"
    using handled start worker_handle_event_ok[OF start] by (cases event) auto
  show ?thesis
    using shutdown_or_fail_ok[OF ok] and_then_ok[OF check_shutdown_ok[OF ok]] drive_phase_ok
    unfolding event_phase_def Let_def handled by (cases result) simp_all
qed

lemma events_phase_ok:
  "work_ok R k (ss_work ss) \<Longrightarrow> phase_ok R k (events_phase R E events ss)"
proof (induction events arbitrary: ss)
  case (Cons event events)
  then show ?case
    by (simp add: and_then_ok[OF event_phase_ok])
qed simp

lemma work_ok_transport:
  "work_ok R k (ss_work ss) \<Longrightarrow>
     work_ok R k (ss_work (ss\<lparr>ss_worker := (ss_worker ss)\<lparr>wk_cx := (wk_cx (ss_worker ss))\<lparr>cx_transport := t\<rparr>\<rparr>\<rparr>))"
  by (simp add: work_ok_def ss_work_def worker_inv_def attached_def status_shows_def)

lemma poll_phase_ok:
  "work_ok R k (ss_work ss) \<Longrightarrow> phase_ok R k (poll_phase R E batches ss)"
proof (induction batches arbitrary: ss)
  case (Suc batches)
  obtain t result where poll: "t_poll (env_transport E) 0 (cx_transport (wk_cx (ss_worker ss))) = (t, result)"
    by fastforce
  let ?ss = "ss\<lparr>ss_worker := (ss_worker ss)\<lparr>wk_cx := (wk_cx (ss_worker ss))\<lparr>cx_transport := t\<rparr>\<rparr>\<rparr>"
  have ok: "work_ok R k (ss_work ?ss)"
    by (rule work_ok_transport[OF Suc.prems])
  have rest: "phase_ok R k (poll_phase R E batches
      (if batches = 0 then update_progress (\<lambda>pg. pg\<lparr>pg_immediate := True\<rparr>) ss' else ss'))"
    if "work_ok R k (ss_work ss')" for ss'
    by (rule Suc.IH) (use that in \<open>simp add: ss_work_pair\<close>)
  show ?case
    using shutdown_or_fail_ok[OF ok] ok and_then_ok[OF events_phase_ok[OF ok] rest]
    by (auto simp: poll Let_def simp del: poll_phase.simps(1) split: sum.splits)
qed simp

section \<open>Commands\<close>

lemma begin_connection_ok:
  assumes "worker_inv R w" "begin_connection R now timeout w = (w', result)"
  shows "case result of
      Inl e \<Rightarrow> w' = w \<and> e = InvalidLifecycle
    | Inr sid \<Rightarrow> worker_inv R (w'\<lparr>wk_connection_command_pending := Some kind\<rparr>)
        \<and> owed R (w'\<lparr>wk_connection_command_pending := Some kind\<rparr>) = 1"
proof (cases "wk_lifecycle w = Rs_Open")
  case False
  then show ?thesis
    using assms(2) by (auto simp: begin_connection_def lifecycle_begin_connection_def)
next
  case True
  obtain r s cx sid where started: "rp_begin_session R (wk_reporting w) (wk_sessions w) (wk_cx w) = (r, s, cx, sid)"
    by (cases "rp_begin_session R (wk_reporting w) (wk_sessions w) (wk_cx w)") auto
  note laws = begin_session[OF started]
  have "context_ok None cx" "status_frame (cx_status (wk_cx w)) (cx_status cx)"
    using laws assms(1) True by (auto simp: worker_inv_def attached_def)
  then have "context_ok (Some sid') (cx\<lparr>cx_status := status_begin_session sid' lc input_neutral (cx_status cx)\<rparr>)"
    for sid' lc
    using context_ok_begin_session[of None cx sid' lc] laws by simp
  then show ?thesis
    using assms True laws begin_handshake
    by (auto simp: begin_connection_def lifecycle_begin_connection_def started Let_def worker_inv_def attached_def
        connection_ok_def status_shows_def readiness_gate_new_def gate_ok_def owed_def)
qed

lemma run_input_ok:
  assumes "worker_inv R (ss_worker ss)" "owed R (ss_worker ss) = 0"
    and "run_command R E (InputCommand c) ss = (ss', p)"
  shows "worker_inv R (ss_worker ss') \<and> ss_progress ss' = ss_progress ss
    \<and> owed R (ss_worker ss') = (if p = CommandPending then 1 else 0)"
proof (cases "ensure_input_command (wk_lifecycle (ss_worker ss))")
  case (Inl e)
  then show ?thesis
    using assms by (auto simp: run_command_def)
next
  case (Inr u)
  let ?w = "ss_worker ss" and ?ready = "lifecycle_state_of (wk_lifecycle (ss_worker ss)) = Lc_Ready"
  obtain r cx p1 where handle: "rp_handle_command R E (wk_reporting ?w) c ?ready
      (fst (clock_now ss)) (wk_cx ?w) = (r, cx, p1)"
    by (cases "rp_handle_command R E (wk_reporting ?w) c ?ready (fst (clock_now ss)) (wk_cx ?w)") auto
  have idle: "\<not> rp_has_pending R (wk_reporting ?w)" "wk_connection_command_pending ?w = None"
    using assms(2) by (auto simp: owed_def split: if_splits)
  have ready: "?ready \<longleftrightarrow> wk_lifecycle ?w = Rs_Ready"
    by (cases "wk_lifecycle ?w") auto
  note laws = handle_command[OF handle idle(1)]
  have inv: "attached R (wk_connection ?w) ?w"
    using assms(1) by (simp add: worker_inv_def)
  have "context_ok (current_session (wk_sessions ?w)) cx"
    using laws inv ready by (auto simp: attached_def)
  then have "worker_inv R (?w\<lparr>wk_reporting := r, wk_cx := cx\<rparr>)"
    using laws inv ready idle by (auto simp: worker_inv_def attached_def status_shows_def status_frame_def)
  moreover have "owed R (?w\<lparr>wk_reporting := r, wk_cx := cx\<rparr>) = (if p1 = CommandPending then 1 else 0)"
    using laws idle by (simp add: owed_def)
  moreover have "ss_worker ss' = ?w\<lparr>wk_reporting := r, wk_cx := cx\<rparr>" "p = p1"
      "ss_progress ss' = ss_progress ss"
    using assms(3) handle by (auto simp: run_command_def Inr Let_def case_prod_beta)
  ultimately show ?thesis
    by simp
qed

lemma start_connection_ok:
  assumes "worker_inv R (ss_worker ss)" "owed R (ss_worker ss) = 0"
    and "start_connection R kind timeout start ss = (ss', p)"
  shows "worker_inv R (ss_worker ss') \<and> ss_progress ss' = ss_progress ss
    \<and> owed R (ss_worker ss') = (if p = CommandPending then 1 else 0)"
proof -
  obtain t result where call: "start (cx_transport (wk_cx (ss_worker ss))) = (t, result)"
    by fastforce
  let ?w = "(ss_worker ss)\<lparr>wk_cx := (wk_cx (ss_worker ss))\<lparr>cx_transport := t\<rparr>\<rparr>"
  have inv: "worker_inv R ?w" and owed: "owed R ?w = 0"
    using assms(1,2) by (simp_all add: worker_inv_def attached_def status_shows_def)
  show ?thesis
  proof (cases result)
    case (Inl e)
    then show ?thesis
      using assms(3) inv owed by (auto simp: start_connection_def call_transport_def call)
  next
    case (Inr u)
    obtain w1 res where started: "begin_connection R (fst (clock_now (ss\<lparr>ss_worker := ?w\<rparr>))) timeout ?w = (w1, res)"
      by fastforce
    show ?thesis
      using assms(3) begin_connection_ok[OF inv started, of kind] inv owed started
      by (cases res) (auto simp: start_connection_def call_transport_def call Inr Let_def case_prod_beta)
  qed
qed

lemma run_command_ok:
  assumes "worker_inv R (ss_worker ss)" "owed R (ss_worker ss) = 0" "run_command R E command ss = (ss', p)"
  shows "worker_inv R (ss_worker ss') \<and> ss_progress ss' = ss_progress ss
    \<and> owed R (ss_worker ss') = (if p = CommandPending then 1 else 0)"
proof (cases command)
  case (InputCommand c)
  then show ?thesis
    using assms run_input_ok by blast
next
  case (Pair timeout)
  then show ?thesis
    using assms start_connection_ok[of ss PairCommand timeout "t_start_pairing (env_transport E)" ss' p]
    by (simp add: run_command_def)
next
  case (Reconnect timeout)
  then show ?thesis
    using assms start_connection_ok[of ss ReconnectCommand timeout "t_start_reconnect (env_transport E)" ss' p]
    by (simp add: run_command_def)
qed

lemma command_phase_ok:
  assumes "work_ok R k (ss_work ss)" "ss_progress ss = step_progress_new"
  shows "phase_ok R k (command_phase R E next_command ss)"
proof -
  have last: "phase_ok R k (if pg_commands (ss_progress ss) = 1 \<and> idle R (ss_worker ss)
      then update_progress (\<lambda>pg. pg\<lparr>pg_immediate := True\<rparr>) ss else ss, None)"
    if "work_ok R k (ss_work ss)" for ss
    using that by (simp add: ss_work_pair)
  have first: "phase_ok R k (if idle R (ss_worker ss)
        then case next_command of
          None \<Rightarrow> (ss, None)
        | Some command \<Rightarrow>
            let ss = update_progress (\<lambda>pg. pg\<lparr>pg_commands := pg_commands pg + 1\<rparr>) ss in
            (case run_command R E command ss of
               (ss, result) \<Rightarrow>
                 let (result, terminal) =
                       (case nonterminal_command_progress result of
                          Inr result \<Rightarrow> (result, None)
                        | Inl (e, completion) \<Rightarrow> (completion, Some e));
                     ss = update_progress (record_command_progress result) ss
                 in and_then (check_shutdown R E ss) (\<lambda>ss.
                      case terminal of
                        None \<Rightarrow> (ss, None)
                      | Some e \<Rightarrow>
                          (case worker_fail e (ss_work ss) of (wp, outcome) \<Rightarrow> (set_work wp ss, Some outcome))))
        else (ss, None))"
  proof (cases "idle R (ss_worker ss) \<and> next_command \<noteq> None")
    case False
    then show ?thesis
      using assms(1) by auto
  next
    case True
    then obtain command where command: "next_command = Some command" and idle: "owed R (ss_worker ss) = 0"
      by (auto simp: idle_iff)
    let ?ss = "update_progress (\<lambda>pg. pg\<lparr>pg_commands := pg_commands pg + 1\<rparr>) ss"
    have k: "k = 0" and inv: "worker_inv R (ss_worker ss)"
      using assms idle by (auto simp: work_ok_def account_def answers_def step_progress_new_def)
    obtain ss1 p where run: "run_command R E command ?ss = (ss1, p)"
      by fastforce
    note ran = run_command_ok[OF _ _ run, simplified, OF inv idle]
    have acc: "account 0 (Suc 0) (ss_progress ss1)"
      using ran assms(2) by (simp add: account_taken) (simp add: account_def answers_def step_progress_new_def)
    obtain q terminal where split: "(case nonterminal_command_progress p of
        Inr result \<Rightarrow> (result, None) | Inl (e, completion) \<Rightarrow> (completion, Some e)) = (q, terminal)"
      by fastforce
    have q: "q = CommandPending \<longleftrightarrow> p = CommandPending"
      using nonterminal_command_progress_shape[of p] split by (auto split: sum.splits)
    have "work_ok R k (ss_work (update_progress (record_command_progress q) ss1))"
    proof (cases "q = CommandPending")
      case True
      then show ?thesis
        using ran q acc k by (simp add: work_ok_def record_command_progress_def)
    next
      case False
      then show ?thesis
        using ran q acc k account_command_progress[OF acc False] by (simp add: work_ok_def)
    qed
    from shutdown_then_terminal_ok[OF this, of terminal] show ?thesis
      unfolding if_P[OF True[THEN conjunct1]] command option.case Let_def run prod.case split .
  qed
  show ?thesis
    unfolding command_phase_def by (rule and_then_ok[OF first]) (rule last)
qed

section \<open>Due actions\<close>

lemma run_due_errors_account:
  "account k n (fst (run_due_errors errors acc)) = account k n (fst acc)"
proof (induction errors arbitrary: acc)
  case (Cons e errors)
  then show ?case
    by (cases acc) (auto simp: run_due_errors_def split: sum.splits)
qed (simp add: run_due_errors_def)

lemma due_completion_account:
  assumes "account k (owed R w) pg" "rp_run_due R E (wk_reporting w) now (wk_cx w) = (r, cx, due)"
    and "(case due_completion due of
            None \<Rightarrow> (pg, None)
          | Some completion \<Rightarrow>
              (case nonterminal_command_progress completion of
                 Inr completion \<Rightarrow> (record_command_progress completion pg, None)
               | Inl (e, completion) \<Rightarrow> (record_command_progress completion pg, Some e))) = (pg', terminal)"
  shows "account k (owed R (w\<lparr>wk_reporting := r, wk_cx := cx\<rparr>)) pg'"
proof (cases "due_completion due")
  case None
  then show ?thesis
    using assms run_due[OF assms(2)] by (simp add: owed_def)
next
  case (Some p)
  have laws: "rp_has_pending R (wk_reporting w)" "\<not> rp_has_pending R r" "p \<noteq> CommandPending"
    using run_due[OF assms(2)] Some by simp_all
  then have acc: "account k (Suc (owed R (w\<lparr>wk_reporting := r, wk_cx := cx\<rparr>))) pg"
    using assms(1) by (simp add: owed_def split: if_splits)
  have "\<exists>q. q \<noteq> CommandPending \<and> pg' = record_command_progress q pg"
    using assms(3) Some nonterminal_command_progress_shape[of p] laws(3)
    by (auto split: sum.splits prod.splits)
  then obtain result where "pg' = record_command_progress (CommandComplete result) pg"
    by (metis worker_command_progress.exhaust)
  then show ?thesis
    using account_answer[OF acc] by simp
qed

lemma due_phase_ok:
  assumes "work_ok R k (ss_work ss)"
  shows "phase_ok R k (due_phase R E ss)"
proof (cases "lifecycle_state_of (wk_lifecycle (ss_worker ss)) = Lc_Ready
         \<or> (lifecycle_state_of (wk_lifecycle (ss_worker ss)) = Lc_Connecting
            \<and> rp_automatic_due_before_ready R (wk_reporting (ss_worker ss)))")
  case False
  then show ?thesis
    using assms unfolding due_phase_def Let_def by (subst if_not_P) auto
next
  case True
  let ?w = "ss_worker ss"
  have inv: "attached R (wk_connection ?w) ?w" and acc: "account k (owed R ?w) (ss_progress ss)"
    using assms by (simp_all add: work_ok_def worker_inv_def)
  have lc: "wk_lifecycle ?w \<noteq> Rs_Open"
    using True by auto
  obtain r cx due where run: "rp_run_due R E (wk_reporting ?w) (fst (clock_now ss)) (wk_cx ?w) = (r, cx, due)"
    by (cases "rp_run_due R E (wk_reporting ?w) (fst (clock_now ss)) (wk_cx ?w)") auto
  note laws = run_due[OF run]
  let ?w1 = "?w\<lparr>wk_reporting := r, wk_cx := cx\<rparr>"
  have "context_ok (current_session (wk_sessions ?w)) cx"
    using laws inv lc by (cases "current_session (wk_sessions ?w)") (auto simp: attached_def)
  moreover have "rp_has_pending R r \<longrightarrow> rp_has_pending R (wk_reporting ?w)"
    using laws by (auto split: option.splits)
  ultimately have inv1: "worker_inv R ?w1"
    using inv laws by (auto simp: worker_inv_def attached_def status_shows_def status_frame_def)
  let ?pg = "(ss_progress ss)\<lparr>pg_due_actions := pg_due_actions (ss_progress ss) + due_actions due,
      pg_immediate := pg_immediate (ss_progress ss) \<or> due_immediate due\<rparr>"
  obtain pg1 terminal1 where answered: "(case due_completion due of
            None \<Rightarrow> (?pg, None)
          | Some completion \<Rightarrow>
              (case nonterminal_command_progress completion of
                 Inr completion \<Rightarrow> (record_command_progress completion ?pg, None)
               | Inl (e, completion) \<Rightarrow> (record_command_progress completion ?pg, Some e))) = (pg1, terminal1)"
    by fastforce
  obtain pg2 terminal where errors: "run_due_errors (due_errors due) (pg1, terminal1) = (pg2, terminal)"
    by fastforce
  have "account k (owed R ?w1) pg1"
    by (rule due_completion_account[OF _ run answered]) (use acc in simp)
  then have "account k (owed R ?w1) pg2"
    using run_due_errors_account[of k "owed R ?w1" "due_errors due" "(pg1, terminal1)"] errors by simp
  then have "work_ok R k (ss_work ((snd (clock_now ss))\<lparr>ss_worker := ?w1, ss_progress := pg2\<rparr>))"
    using inv1 by (simp add: work_ok_def ss_work_def)
  from shutdown_then_terminal_ok[OF this, of terminal] show ?thesis
    using True answered errors
    by (simp add: due_phase_def case_prod_beta[of _ "clock_now ss"] run)
qed

section \<open>The step\<close>

theorem step_runtime_ok:
  assumes "worker_inv R (ss_worker ss)"
  shows "phase_ok R (owed R (ss_worker ss)) (step_runtime R E next_command ss)"
proof -
  let ?k = "owed R (ss_worker ss)"
  let ?ss = "ss\<lparr>ss_progress := step_progress_new\<rparr>"
  have start: "work_ok R ?k (ss_work ?ss)"
    using assms owed_le_1[of R "wk_connection (ss_worker ss)" "ss_worker ss"]
    by (simp add: work_ok_def ss_work_def account_def answers_def step_progress_new_def worker_inv_def)
  have rest: "phase_ok R ?k (and_then (command_phase R E next_command ss1) (\<lambda>ss.
      and_then (poll_phase R E (wk_poll_batches (ss_worker ss)) ss) (\<lambda>ss.
      and_then (drive_phase R E ss) (\<lambda>ss.
      and_then (due_phase R E ss) (\<lambda>ss.
      finish_phase R ss)))))"
    if "work_ok R ?k (ss_work ss1)" "ss_progress ss1 = step_progress_new" for ss1
    by (intro and_then_ok command_phase_ok that poll_phase_ok drive_phase_ok due_phase_ok)
      (simp_all add: finish_phase_def outcome_ok_def ss_work_pair work_ok_def)
  show ?thesis
  proof (cases "check_shutdown R E ?ss")
    case (Pair ss1 outcome)
    then show ?thesis
      using check_shutdown_ok[OF start] check_shutdown_passes[of ?ss ss1] rest[of ss1] start
      by (cases outcome) (auto simp: step_runtime_def and_then_def ss_work_def)
  qed
qed

end

end
