(* ===== verification/WorkerShutdown.thy ===== *)
theory WorkerShutdown
  imports WorkerPhases
begin

text \<open>
  How a step uses the shutdown channel: every poll that found nothing goes on, the first one that finds a
  request closes the worker, and no request that was taken is ignored.
\<close>

text \<open>\<open>polled m a b\<close>: from \<open>a\<close> to \<open>b\<close> the channel was polled at least \<open>m\<close> times, always in vain.\<close>

definition polled :: "nat \<Rightarrow> ('r, 't) step_state \<Rightarrow> ('r, 't) step_state \<Rightarrow> bool" where
  "polled m a b \<longleftrightarrow>
     (\<exists>n \<ge> m. ss_shutdown b = (\<lambda>i. ss_shutdown a (n + i)) \<and> (\<forall>i < n. ss_shutdown a i = None))"

text \<open>\<open>took a b request\<close>: after some vain polls, the last one took \<open>request\<close>.\<close>

definition took :: "('r, 't) step_state \<Rightarrow> ('r, 't) step_state \<Rightarrow> shutdown_request \<Rightarrow> bool" where
  "took a b request \<longleftrightarrow>
     (\<exists>n. ss_shutdown b = (\<lambda>i. ss_shutdown a (Suc n + i)) \<and> (\<forall>i < n. ss_shutdown a i = None)
        \<and> ss_shutdown a n = Some request)"

lemma polled_same: "ss_shutdown b = ss_shutdown a \<Longrightarrow> polled 0 a b"
  by (auto simp: polled_def intro!: exI[of _ 0])

lemma polled_mono: "polled m a b \<Longrightarrow> k \<le> m \<Longrightarrow> polled k a b"
  by (auto simp: polled_def intro: order_trans)

lemma polled_trans:
  assumes "polled m a b" "polled k b c"
  shows "polled (m + k) a c"
proof -
  from assms obtain p q where
    p: "m \<le> p" "ss_shutdown b = (\<lambda>i. ss_shutdown a (p + i))" "\<forall>i < p. ss_shutdown a i = None" and
    q: "k \<le> q" "ss_shutdown c = (\<lambda>i. ss_shutdown b (q + i))" "\<forall>i < q. ss_shutdown b i = None"
    unfolding polled_def by blast
  have "ss_shutdown a i = None" if "i < p + q" for i
    using p q that by (cases "i < p") (auto dest: spec[of _ "i - p"])
  then show ?thesis
    unfolding polled_def using p q by (intro exI[of _ "p + q"]) (auto simp: add.assoc)
qed

lemma polled_took:
  assumes "polled m a b" "took b c request"
  shows "took a c request"
proof -
  from assms obtain p q where
    p: "m \<le> p" "ss_shutdown b = (\<lambda>i. ss_shutdown a (p + i))" "\<forall>i < p. ss_shutdown a i = None" and
    q: "ss_shutdown c = (\<lambda>i. ss_shutdown b (Suc q + i))" "\<forall>i < q. ss_shutdown b i = None"
       "ss_shutdown b q = Some request"
    unfolding polled_def took_def by blast
  have "ss_shutdown a i = None" if "i < p + q" for i
    using p q that by (cases "i < p") (auto dest: spec[of _ "i - p"])
  then show ?thesis
    unfolding took_def using p q by (intro exI[of _ "p + q"]) (auto simp: add.assoc)
qed

text \<open>A closed outcome is the answer to a request that was taken; any other outcome took none.\<close>

fun phase_polled :: "nat \<Rightarrow> ('r, 't) step_state \<Rightarrow> ('r, 't) phase \<Rightarrow> bool" where
  "phase_polled m a (b, Some (StepClosed completion interrupted)) = (\<exists>request. took a b request)"
| "phase_polled m a (b, _) = polled m a b"

lemma phase_polled_cases:
  "phase_polled m a (b, out) \<longleftrightarrow>
     (if \<exists>completion interrupted. out = Some (StepClosed completion interrupted)
      then \<exists>request. took a b request else polled m a b)"
  by (cases "(m, a, (b, out))" rule: phase_polled.cases) auto

lemma phase_polled_after:
  assumes "polled m a b" "phase_polled k b p"
  shows "phase_polled (m + k) a p"
  using assms by (cases p) (auto simp: phase_polled_cases intro: polled_trans, metis polled_took)

lemma phase_polled_mono: "phase_polled m a p \<Longrightarrow> k \<le> m \<Longrightarrow> phase_polled k a p"
  by (cases p) (auto simp: phase_polled_cases intro: polled_mono)

lemma phase_polled_same:
  assumes "ss_shutdown b = ss_shutdown a" "phase_polled k b p"
  shows "phase_polled k a p"
  using phase_polled_after[OF polled_same[OF assms(1)] assms(2)] by simp

lemma and_then_polled:
  assumes "phase_polled m a p" "\<And>b. phase_polled 0 b (f b)"
  shows "phase_polled m a (and_then p f)"
proof (cases p)
  case (Pair b out)
  show ?thesis
  proof (cases out)
    case None
    then show ?thesis
      using assms(1) phase_polled_after[of m a b 0 "f b"] assms(2)[of b]
      by (simp add: Pair and_then_def)
  qed (use assms(1) in \<open>simp add: Pair and_then_def\<close>)
qed

lemma set_work_polled [simp]: "ss_shutdown (set_work wp ss) = ss_shutdown ss"
  by (simp add: set_work_def)

lemma update_progress_polled [simp]: "ss_shutdown (update_progress f ss) = ss_shutdown ss"
  by (simp add: update_progress_def)

lemma clock_now_polled [simp]: "ss_shutdown (snd (clock_now ss)) = ss_shutdown ss"
  by (simp add: clock_now_def)

lemma close_outcome: "\<exists>completion interrupted. snd (worker_close R E request now wp) = StepClosed completion interrupted"
  by (auto simp: worker_close_def Let_def split: prod.splits)

lemma fail_outcome: "snd (worker_fail e wp) = StepFailed e"
  by (auto simp: worker_fail_def Let_def split: prod.splits)

lemma check_shutdown_polls: "phase_polled 1 a (check_shutdown R E a)"
proof (cases "ss_shutdown a 0")
  case None
  then show ?thesis
    by (auto simp: check_shutdown_def shutdown_take_def polled_def intro!: exI[of _ 1])
next
  case (Some request)
  obtain completion interrupted where
    "snd (worker_close R E request (ss_clock a 0) (ss_work a)) = StepClosed completion interrupted"
    using close_outcome by blast
  moreover have "took a (set_work wp (snd (clock_now (snd (shutdown_take a))))) request" for wp
    using Some by (auto simp: took_def shutdown_take_def intro!: exI[of _ 0])
  ultimately show ?thesis
    using Some
    by (auto simp: check_shutdown_def shutdown_take_def close_phase_def clock_now_def ss_work_def
        split: prod.splits) metis
qed

lemma check_shutdown_polled: "phase_polled 0 a (check_shutdown R E a)"
  by (rule phase_polled_mono[OF check_shutdown_polls]) simp

section \<open>The phases\<close>

lemma fail_phase_polled:
  "ss_shutdown b = ss_shutdown a \<Longrightarrow>
     phase_polled 0 a (case worker_fail e wp of (wp, outcome) \<Rightarrow> (set_work wp b, Some outcome))"
  using fail_outcome[of e wp] by (simp add: case_prod_beta phase_polled_cases polled_same)

lemma shutdown_or_fail_polled: "phase_polled 0 a (shutdown_or_fail R E e a)"
  unfolding shutdown_or_fail_def
  by (rule and_then_polled[OF check_shutdown_polled]) (rule fail_phase_polled, simp)

lemma shutdown_then_terminal_polled:
  "phase_polled 0 a (and_then (check_shutdown R E a) (\<lambda>ss.
       case terminal of
         None \<Rightarrow> (ss, None)
       | Some e \<Rightarrow> (case worker_fail e (ss_work ss) of (wp, outcome) \<Rightarrow> (set_work wp ss, Some outcome))))"
  by (rule and_then_polled[OF check_shutdown_polled])
    (cases terminal; simp add: fail_phase_polled polled_same)

lemma start_connection_polled:
  "ss_shutdown (fst (start_connection R kind timeout start ss)) = ss_shutdown ss"
  by (auto simp: start_connection_def Let_def clock_now_def split: prod.splits sum.splits)

lemma run_command_polled: "ss_shutdown (fst (run_command R E command ss)) = ss_shutdown ss"
  by (auto simp: run_command_def Let_def start_connection_polled clock_now_def
      split: runtime_command.splits sum.splits prod.splits)

lemma command_phase_polled: "phase_polled 0 a (command_phase R E next_command a)"
proof -
  have "phase_polled 0 a
     (let ss = update_progress (\<lambda>pg. pg\<lparr>pg_commands := pg_commands pg + 1\<rparr>) a in
            (case run_command R E command ss of
               (ss, result) \<Rightarrow>
                 let (result, terminal) =
                       (case nonterminal_command_progress result of
                          Inr result \<Rightarrow> (result, None)
                        | Inl (e, completion) \<Rightarrow> (completion, Some e));
                     ss = update_progress (record_command_progress result) ss
                 in and_then (check_shutdown R E ss) (\<lambda>ss.
                      case terminal of
                        None \<Rightarrow> (ss, None)
                      | Some e \<Rightarrow>
                          (case worker_fail e (ss_work ss) of (wp, outcome) \<Rightarrow> (set_work wp ss, Some outcome)))))"
    for command
    unfolding Let_def case_prod_beta
    by (rule phase_polled_same[OF _ shutdown_then_terminal_polled[unfolded case_prod_beta]])
      (simp add: run_command_polled)
  then show ?thesis
    unfolding command_phase_def
    by (intro and_then_polled) (auto split: option.splits intro: polled_same)
qed

lemma worker_handle_event_polled:
  "ss_shutdown (fst (worker_handle_event R E tagged ss)) = ss_shutdown ss"
  by (auto simp: worker_handle_event_def Let_def clock_now_def set_work_def
      split: option.splits prod.splits sum.splits reporting_event.splits transport_event.splits)

lemma drive_phase_polled: "phase_polled 0 a (drive_phase R E a)"
proof -
  obtain wp result where drive: "drive_connection R E (fst (clock_now a)) (ss_work (snd (clock_now a))) = (wp, result)"
    by fastforce
  show ?thesis
    using phase_polled_same[OF _ shutdown_or_fail_polled, of "set_work wp (snd (clock_now a))" a]
      phase_polled_same[OF _ check_shutdown_polled, of "update_progress f (set_work wp (snd (clock_now a)))" a for f]
    by (cases result) (simp_all add: drive_phase_def case_prod_beta[of _ "clock_now a"] drive del: step_state_fields)
qed

lemma event_phase_polled: "phase_polled 0 a (event_phase R E event a)"
proof -
  let ?a = "update_progress (\<lambda>pg. pg\<lparr>pg_hci_events := pg_hci_events pg + 1\<rparr>) a"
  obtain b result where handled:
    "(case event of None \<Rightarrow> (?a, Inr False) | Some tagged \<Rightarrow> worker_handle_event R E tagged ?a) = (b, result)"
    by fastforce
  have same: "ss_shutdown b = ss_shutdown a"
    using handled by (cases event) (auto, metis fst_conv worker_handle_event_polled update_progress_polled)
  have "phase_polled 0 b (and_then (check_shutdown R E b) (\<lambda>ss. if changed then drive_phase R E ss else (ss, None)))"
    for changed
    by (rule and_then_polled[OF check_shutdown_polled]) (simp add: drive_phase_polled polled_same)
  then show ?thesis
    unfolding event_phase_def Let_def handled
    using phase_polled_same[OF same, of 0] shutdown_or_fail_polled[of b R E] by (cases result) simp_all
qed

lemma events_phase_polled: "phase_polled 0 a (events_phase R E events a)"
  by (induction events arbitrary: a) (simp_all add: polled_same and_then_polled event_phase_polled)

lemma poll_phase_polled: "phase_polled 0 a (poll_phase R E batches a)"
proof (induction batches arbitrary: a)
  case (Suc batches)
  obtain t result where poll: "t_poll (env_transport E) 0 (cx_transport (wk_cx (ss_worker a))) = (t, result)"
    by fastforce
  let ?a = "a\<lparr>ss_worker := (ss_worker a)\<lparr>wk_cx := (wk_cx (ss_worker a))\<lparr>cx_transport := t\<rparr>\<rparr>\<rparr>"
  have "phase_polled 0 ?a (and_then (events_phase R E events ?a) (\<lambda>ss. poll_phase R E batches
      (if batches = 0 then update_progress (\<lambda>pg. pg\<lparr>pg_immediate := True\<rparr>) ss else ss)))" for events
    by (rule and_then_polled[OF events_phase_polled]) (rule phase_polled_same[OF _ Suc.IH], simp)
  then show ?case
    using phase_polled_same[of ?a a] shutdown_or_fail_polled[of ?a R E]
    by (auto simp: poll Let_def polled_same simp del: poll_phase.simps(1) split: sum.splits)
qed (simp add: polled_same)

lemma due_phase_polled: "phase_polled 0 a (due_phase R E a)"
  unfolding due_phase_def Let_def case_prod_beta
  by (auto intro!: phase_polled_same[OF _ shutdown_then_terminal_polled[unfolded case_prod_beta]] polled_same)

theorem step_runtime_polled: "phase_polled 1 ss (step_runtime R E next_command ss)"
proof -
  let ?a = "ss\<lparr>ss_progress := step_progress_new\<rparr>"
  let ?rest = "\<lambda>ss. and_then (command_phase R E next_command ss) (\<lambda>ss.
      and_then (poll_phase R E (wk_poll_batches (ss_worker ss)) ss) (\<lambda>ss.
      and_then (drive_phase R E ss) (\<lambda>ss.
      and_then (due_phase R E ss) (\<lambda>ss. finish_phase R ss))))"
  have rest: "phase_polled 0 b (?rest b)" for b
    by (intro and_then_polled command_phase_polled poll_phase_polled drive_phase_polled due_phase_polled)
      (simp add: finish_phase_def polled_same)
  have "phase_polled 1 ?a (step_runtime R E next_command ss)"
    using and_then_polled[OF check_shutdown_polls rest] by (simp add: step_runtime_def)
  then show ?thesis
    by (rule phase_polled_same[rotated]) simp
qed

end
