(* ===== verification/Command.thy ===== *)
theory Command
  imports Reporting
begin

text \<open>
  \<open>src/runtime/command.rs\<close>: the bounded command channel between the controller and the worker.

  A request travels with the sender of its own response channel; the model names that channel by a
  ticket, the number of the request.  \<open>ch_slot\<close> is the channel of capacity one, \<open>ch_responses\<close> collects
  what was sent on the response channels, in order, and \<open>ch_activity\<close> is the wake-up token of
  \<open>ActivityNotifier\<close> (\<open>src/runtime/transport/mod.rs\<close>).  A response whose sender is dropped unsent is
  seen by the client as a disconnect.
\<close>

datatype command_enqueue_error = EnqueueInvariantViolation | EnqueueDisconnected

datatype command_response_error = ResponseWorkerFailed

datatype command_delivery_error = MissingResponse

type_synonym ticket = nat

record 'c command_request =
  req_command :: 'c
  req_completion :: ticket

record 'c command_channel =
  ch_slot :: "'c command_request option"
  ch_in_flight :: "ticket option"
  ch_responses :: "(ticket \<times> command_result) list"
  ch_issued :: nat
  ch_receiver_alive :: bool
  ch_activity :: bool

definition command_channel_new :: "'c command_channel" where
  "command_channel_new = \<lparr>ch_slot = None, ch_in_flight = None, ch_responses = [], ch_issued = 0,
     ch_receiver_alive = True, ch_activity = False\<rparr>"

definition notify :: "'c command_channel \<Rightarrow> 'c command_channel" where
  "notify ch = ch\<lparr>ch_activity := True\<rparr>"

definition completion_respond :: "ticket \<Rightarrow> command_result \<Rightarrow> 'c command_channel \<Rightarrow> 'c command_channel" where
  "completion_respond t result ch = ch\<lparr>ch_responses := ch_responses ch @ [(t, result)]\<rparr>"

definition try_enqueue :: "'c \<Rightarrow> 'c command_channel \<Rightarrow> 'c command_channel \<times> (ticket, command_enqueue_error) result" where
  "try_enqueue command ch =
     (let t = ch_issued ch; request = \<lparr>req_command = command, req_completion = t\<rparr> in
      if \<not> ch_receiver_alive ch then (ch, Inl EnqueueDisconnected)
      else if ch_slot ch \<noteq> None then (ch, Inl EnqueueInvariantViolation)
      else (notify (ch\<lparr>ch_slot := Some request, ch_issued := t + 1\<rparr>), Inr t))"

definition try_next :: "'c command_channel \<Rightarrow> 'c command_channel \<times> 'c option" where
  "try_next ch =
     (if ch_in_flight ch \<noteq> None then (ch, None)
      else case ch_slot ch of
        None \<Rightarrow> (ch, None)
      | Some request \<Rightarrow>
          (ch\<lparr>ch_slot := None, ch_in_flight := Some (req_completion request)\<rparr>, Some (req_command request)))"

fun deliver ::
  "worker_command_progress list \<Rightarrow> 'c command_channel \<Rightarrow> 'c command_channel \<times> (unit, command_delivery_error) result" where
  "deliver [] ch = (ch, Inr ())"
| "deliver (CommandPending # results) ch =
     (if ch_in_flight ch = None then (ch, Inl MissingResponse) else deliver results ch)"
| "deliver (CommandComplete result # results) ch =
     (case ch_in_flight ch of
        None \<Rightarrow> (ch, Inl MissingResponse)
      | Some t \<Rightarrow> deliver results (completion_respond t result (ch\<lparr>ch_in_flight := None\<rparr>)))"

definition deliver_completion ::
  "command_result \<Rightarrow> 'c command_channel \<Rightarrow> 'c command_channel \<times> (unit, command_delivery_error) result" where
  "deliver_completion result ch = deliver [CommandComplete result] ch"

text \<open>\<open>deliver_progress\<close> takes the result out of the step's progress; the argument is what it takes.\<close>

definition deliver_progress ::
  "command_result option \<Rightarrow> 'c command_channel \<Rightarrow> 'c command_channel \<times> (unit, command_delivery_error) result" where
  "deliver_progress taken ch =
     (case taken of None \<Rightarrow> (ch, Inr ()) | Some result \<Rightarrow> deliver_completion result ch)"

text \<open>Dropping the receiver drops the request in the slot and the one in flight with their response senders.\<close>

definition drop_receiver :: "'c command_channel \<Rightarrow> 'c command_channel" where
  "drop_receiver ch = ch\<lparr>ch_receiver_alive := False, ch_slot := None, ch_in_flight := None\<rparr>"

definition awaited :: "'c command_channel \<Rightarrow> ticket set" where
  "awaited ch = set_option (ch_in_flight ch) \<union> req_completion ` set_option (ch_slot ch)"

text \<open>\<open>recv\<close>: \<open>None\<close> while the answer may still come (the client blocks).\<close>

definition response_recv :: "ticket \<Rightarrow> 'c command_channel \<Rightarrow> (command_result, command_response_error) result option" where
  "response_recv t ch =
     (case map_of (ch_responses ch) t of
        Some result \<Rightarrow> Some (Inr result)
      | None \<Rightarrow> if t \<in> awaited ch then None else Some (Inl ResponseWorkerFailed))"

section \<open>Requests are answered in order\<close>

text \<open>
  While the receiver lives, the answered requests, the one in flight and the one in the slot are, in
  this order, all that were ever issued.
\<close>

definition pending_tickets :: "'c command_channel \<Rightarrow> ticket list" where
  "pending_tickets ch =
     (case ch_in_flight ch of None \<Rightarrow> [] | Some t \<Rightarrow> [t])
     @ (case ch_slot ch of None \<Rightarrow> [] | Some request \<Rightarrow> [req_completion request])"

definition channel_ok :: "'c command_channel \<Rightarrow> bool" where
  "channel_ok ch \<longleftrightarrow> ch_receiver_alive ch \<and> map fst (ch_responses ch) @ pending_tickets ch = [0..<ch_issued ch]"

lemma channel_ok_new [simp]: "channel_ok command_channel_new"
  by (simp add: channel_ok_def command_channel_new_def pending_tickets_def)

lemma channel_ok_enqueue: "channel_ok ch \<Longrightarrow> channel_ok (fst (try_enqueue command ch))"
  by (auto simp: channel_ok_def try_enqueue_def notify_def pending_tickets_def Let_def split: option.splits)

lemma channel_ok_next: "channel_ok ch \<Longrightarrow> channel_ok (fst (try_next ch))"
  by (auto simp: channel_ok_def try_next_def pending_tickets_def split: option.splits)

lemma channel_ok_complete:
  assumes "channel_ok ch" "ch_in_flight ch \<noteq> None"
  shows "channel_ok (fst (deliver_completion result ch)) \<and> snd (deliver_completion result ch) = Inr ()
    \<and> ch_in_flight (fst (deliver_completion result ch)) = None"
  using assms
  by (auto simp: channel_ok_def deliver_completion_def completion_respond_def pending_tickets_def
      split: option.splits)

lemma deliver_progress_None [simp]: "deliver_progress None ch = (ch, Inr ())"
  by (simp add: deliver_progress_def)

lemma deliver_progress_Some [simp]: "deliver_progress (Some r) ch = deliver_completion r ch"
  by (simp add: deliver_progress_def)

text \<open>The operations of both ends, for statements about every interleaving of them.\<close>

datatype 'c channel_call =
    Enqueue 'c
  | TakeNext
  | Respond command_result
  | DropReceiver

fun channel_run :: "'c channel_call \<Rightarrow> 'c command_channel \<Rightarrow> 'c command_channel" where
  "channel_run (Enqueue command) ch = fst (try_enqueue command ch)"
| "channel_run TakeNext ch = (if ch_receiver_alive ch then fst (try_next ch) else ch)"
| "channel_run (Respond result) ch = (if ch_receiver_alive ch then fst (deliver_completion result ch) else ch)"
| "channel_run DropReceiver ch = drop_receiver ch"

definition channel_wf :: "'c command_channel \<Rightarrow> bool" where
  "channel_wf ch \<longleftrightarrow> channel_ok ch
     \<or> \<not> ch_receiver_alive ch \<and> pending_tickets ch = []
       \<and> (\<exists>n \<le> ch_issued ch. map fst (ch_responses ch) = [0..<n])"

lemma channel_ok_prefix:
  assumes "channel_ok ch"
  shows "\<exists>n \<le> ch_issued ch. map fst (ch_responses ch) = [0..<n]"
proof -
  let ?n = "length (ch_responses ch)"
  have split: "map fst (ch_responses ch) @ pending_tickets ch = [0..<ch_issued ch]"
    using assms by (simp add: channel_ok_def)
  then have "map fst (ch_responses ch) = take ?n [0..<ch_issued ch]"
    by (metis append_eq_conv_conj length_map)
  moreover have "?n \<le> ch_issued ch"
    using arg_cong[OF split, of length] by simp
  ultimately show ?thesis
    by (intro exI[of _ ?n]) (simp add: take_upt)
qed

lemma channel_wf_run: "channel_wf ch \<Longrightarrow> channel_wf (channel_run call ch)"
proof (cases call)
  case (Enqueue command)
  then show "channel_wf ch \<Longrightarrow> ?thesis"
    using channel_ok_enqueue[of ch command] by (auto simp: channel_wf_def try_enqueue_def Let_def)
next
  case TakeNext
  then show "channel_wf ch \<Longrightarrow> ?thesis"
    using channel_ok_next[of ch] by (auto simp: channel_wf_def channel_ok_def)
next
  case (Respond result)
  have "deliver_completion result ch = (ch, Inl MissingResponse)" if "ch_in_flight ch = None"
    using that by (simp add: deliver_completion_def)
  then show "channel_wf ch \<Longrightarrow> ?thesis"
    using channel_ok_complete[of ch result] Respond
    by (cases "ch_in_flight ch = None") (auto simp: channel_wf_def channel_ok_def)
next
  case DropReceiver
  assume wf: "channel_wf ch"
  then have "\<exists>n \<le> ch_issued ch. map fst (ch_responses ch) = [0..<n]"
    using channel_ok_prefix by (auto simp: channel_wf_def)
  then show ?thesis
    by (simp add: DropReceiver channel_wf_def drop_receiver_def pending_tickets_def)
qed

lemma channel_wf_history: "channel_wf (fold channel_run calls command_channel_new)"
proof -
  have "channel_wf (fold channel_run calls ch)" if "channel_wf ch" for ch
    using that by (induction calls arbitrary: ch) (simp_all add: channel_wf_run)
  then show ?thesis
    by (simp add: channel_wf_def)
qed

text \<open>
  C35: no client waits in vain and none is answered twice.  Whatever the client and the worker do with
  the channel, answers leave in the order the commands were accepted and at most one per command; a client
  blocks on its response only while its command is in the slot or in flight; and once the worker has
  dropped its end, every accepted command is answered or reported as a failed worker.
\<close>

theorem responses_in_order:
  "(let ch = fold channel_run calls (command_channel_new :: 'c command_channel) in
     (\<exists>n \<le> ch_issued ch. map fst (ch_responses ch) = [0..<n])
     \<and> (response_recv t ch = None \<longleftrightarrow> t \<in> awaited ch)
     \<and> (response_recv t (drop_receiver ch) =
          Some (case map_of (ch_responses ch) t of None \<Rightarrow> Inl ResponseWorkerFailed | Some result \<Rightarrow> Inr result)))"
proof -
  define ch where "ch = fold channel_run calls (command_channel_new :: 'c command_channel)"
  have wf: "channel_wf ch"
    unfolding ch_def by (rule channel_wf_history)
  then have prefix: "\<exists>n \<le> ch_issued ch. map fst (ch_responses ch) = [0..<n]"
    using channel_ok_prefix by (auto simp: channel_wf_def)
  have "map_of (ch_responses ch) t = None" if "t \<in> awaited ch"
  proof -
    have t: "t \<in> set (pending_tickets ch)"
      using that by (auto simp: awaited_def pending_tickets_def elem_set)
    then have "channel_ok ch"
      using wf by (auto simp: channel_wf_def)
    then have "distinct (map fst (ch_responses ch) @ pending_tickets ch)"
      by (simp add: channel_ok_def)
    then show ?thesis
      using t by (auto simp: map_of_eq_None_iff)
  qed
  then show ?thesis
    unfolding ch_def[symmetric] Let_def using prefix
    by (auto simp: response_recv_def drop_receiver_def awaited_def split: option.splits)
qed

end
