(* ===== verification/ShutdownChannel.thy ===== *)
theory ShutdownChannel
  imports Reporting
begin

text \<open>
  The priority shutdown channel of \<open>src/runtime/worker_thread.rs\<close>.  Both ends hold the same mutex for the
  whole of each operation, so every operation is one atomic step of \<open>shutdown_state\<close>.
\<close>

datatype shutdown_state = SdRunning | SdRequested shutdown_request | SdTaken

text \<open>\<open>PriorityShutdownClient::request\<close>: the new state and whether it changed (and the worker was woken).\<close>

fun request_shutdown :: "shutdown_request \<Rightarrow> shutdown_state \<Rightarrow> shutdown_state \<times> bool" where
  "request_shutdown request SdRunning = (SdRequested request, True)"
| "request_shutdown ShutdownDropped (SdRequested (ShutdownExplicit mode)) = (SdRequested ShutdownDropped, True)"
| "request_shutdown request (SdRequested ShutdownDropped) = (SdRequested ShutdownDropped, False)"
| "request_shutdown (ShutdownExplicit mode') (SdRequested (ShutdownExplicit mode)) =
     (SdRequested (ShutdownExplicit mode), False)"
| "request_shutdown request SdTaken = (SdTaken, False)"

text \<open>\<open>PriorityShutdownReceiver::take\<close>\<close>

fun take_shutdown :: "shutdown_state \<Rightarrow> shutdown_state \<times> shutdown_request option" where
  "take_shutdown (SdRequested request) = (SdTaken, Some request)"
| "take_shutdown SdRunning = (SdRunning, None)"
| "take_shutdown SdTaken = (SdTaken, None)"

section \<open>What the channel promises\<close>

text \<open>
  The abstract channel keeps every request made so far.  A drop outranks an explicit close; among
  explicit closes the first counts.
\<close>

datatype abstract_shutdown = Asked "shutdown_request list" | Answered

definition outranking :: "shutdown_request list \<Rightarrow> shutdown_request" where
  "outranking rs = (if ShutdownDropped \<in> set rs then ShutdownDropped else hd rs)"

fun abstract_request :: "shutdown_request \<Rightarrow> abstract_shutdown \<Rightarrow> abstract_shutdown" where
  "abstract_request r (Asked rs) = Asked (rs @ [r])"
| "abstract_request r Answered = Answered"

fun abstract_take :: "abstract_shutdown \<Rightarrow> abstract_shutdown \<times> shutdown_request option" where
  "abstract_take (Asked rs) = (if rs = [] then (Asked [], None) else (Answered, Some (outranking rs)))"
| "abstract_take Answered = (Answered, None)"

fun shutdown_of :: "abstract_shutdown \<Rightarrow> shutdown_state" where
  "shutdown_of (Asked rs) = (if rs = [] then SdRunning else SdRequested (outranking rs))"
| "shutdown_of Answered = SdTaken"

lemma outranking_snoc:
  "rs \<noteq> [] \<Longrightarrow> outranking (rs @ [r]) = (if r = ShutdownDropped then ShutdownDropped else outranking rs)"
  by (auto simp: outranking_def)

lemma outranking_single [simp]: "outranking [r] = r"
  by (auto simp: outranking_def)

lemma request_shutdown_eq:
  "request_shutdown r s =
     (case s of
        SdRunning \<Rightarrow> (SdRequested r, True)
      | SdRequested q \<Rightarrow> if r = ShutdownDropped \<and> q \<noteq> ShutdownDropped then (SdRequested r, True) else (s, False)
      | SdTaken \<Rightarrow> (s, False))"
  by (cases "(r, s)" rule: request_shutdown.cases) auto

text \<open>
  C36: the shutdown channel refines the record of all requests.  Each operation of the one-cell channel
  does to the abstract channel what the specification says: a request is remembered, a take hands out
  the outranking one exactly once and nothing before or after, and the client is told of a change (and
  the worker woken) exactly when the answer of the next take has changed.
\<close>

theorem shutdown_channel_refines_history:
  "(fst (request_shutdown r (shutdown_of a)) = shutdown_of (abstract_request r a))
   \<and> (take_shutdown (shutdown_of a) = (shutdown_of (fst (abstract_take a)), snd (abstract_take a)))
   \<and> (snd (request_shutdown r (shutdown_of a)) \<longleftrightarrow>
        snd (abstract_take (abstract_request r a)) \<noteq> snd (abstract_take a))"
  by (cases a) (auto simp: request_shutdown_eq outranking_snoc)

end
