(* ===== verification/WorkerThread.thy ===== *)
theory WorkerThread
  imports WorkerShutdown Command ShutdownChannel
begin

text \<open>
  \<open>src/runtime/worker_thread.rs\<close>: the loop of the worker thread, the end of the thread and what its owner
  makes of it.

  The loop is a function of what it meets: the clock and shutdown streams of the step state, the waiter's
  answers \<open>th_waits\<close> (one per wait; \<open>False\<close> is a disconnected waiter) and, per iteration, the commands that
  clients have enqueued since the last one.  \<open>try_next\<close> is offered to the step as the command it would
  return; whether the step took it shows in \<open>pg_commands\<close>.  The loop runs on fuel, one unit per
  iteration; a shutdown bounds the fuel it needs.  The panics of a worker, and the blocks of
  \<open>run_started_worker\<close> that catch them, are in WorkerPanic.
\<close>

datatype worker_failure_cause =
    CauseCore worker_core_error
  | CauseWait
  | CauseCommandDelivery command_delivery_error
  | CausePanicked
  | CauseCompletionDisconnected

datatype worker_terminal =
    TerminalClosed close_completion
  | TerminalFailed worker_failure_cause "cleanup_failure option"

record worker_completion =
  wc_terminal :: worker_terminal
  wc_delivery_error :: "command_delivery_error option"

definition worker_failure_status :: "worker_failure_cause \<Rightarrow> string" where
  "worker_failure_status cause =
     (case cause of
        CauseCore e \<Rightarrow> status_message e
      | CauseWait \<Rightarrow> ''worker wait failed''
      | CauseCommandDelivery _ \<Rightarrow> ''worker command delivery failed''
      | CausePanicked \<Rightarrow> ''worker panicked''
      | CauseCompletionDisconnected \<Rightarrow> ''worker completion disconnected'')"

definition thread_failure_category :: "worker_failure_cause \<Rightarrow> worker_failure_category" where
  "thread_failure_category cause =
     (case cause of
        CauseCore (CoreTransport _) \<Rightarrow> TransportFailure
      | CauseCore _ \<Rightarrow> InternalFailure
      | CauseWait \<Rightarrow> WaitFailure
      | CauseCommandDelivery _ \<Rightarrow> CommandDeliveryFailure
      | CausePanicked \<Rightarrow> PanickedFailure
      | CauseCompletionDisconnected \<Rightarrow> CompletionDisconnectedFailure)"

record ('c, 'r, 't) thread_state =
  th_step :: "('r, 't) step_state"
  th_commands :: "'c runtime_command command_channel"
  th_waits :: "nat \<Rightarrow> bool"
  th_clients :: "nat \<Rightarrow> 'c runtime_command list"

definition finish_cleanup_without_join :: "close_completion \<Rightarrow> (unit, cleanup_failure) result" where
  "finish_cleanup_without_join completion =
     (case finish_with_join completion (Inr () :: (unit, unit) result) of
        Inl (CloseCleanup failure) \<Rightarrow> Inl failure
      | _ \<Rightarrow> Inr ())"

definition complete_worker_failure ::
  "('c, 'r, 't) worker_reporting \<Rightarrow> 't env \<Rightarrow> worker_failure_cause \<Rightarrow> command_delivery_error option
   \<Rightarrow> ('c, 'r, 't) thread_state \<Rightarrow> ('c, 'r, 't) thread_state \<times> worker_completion option" where
  "complete_worker_failure R E cause delivery_error th =
     (let ss = th_step th;
          w = ss_worker ss;
          w = w\<lparr>wk_cx := (wk_cx w)\<lparr>cx_status := status_fail (worker_failure_status cause)
                (thread_failure_category cause) (cx_status (wk_cx w))\<rparr>\<rparr>
      in case clock_now ss of (now, ss) \<Rightarrow>
         (case cleanup_after_failure_without_neutral R E now w of
            (w, completion) \<Rightarrow>
              (th\<lparr>th_step := ss\<lparr>ss_worker := w\<rparr>\<rparr>,
               Some \<lparr>wc_terminal = TerminalFailed cause (err_of (finish_cleanup_without_join completion)),
                 wc_delivery_error = delivery_error\<rparr>)))"

definition wait_for_next_iteration ::
  "step_progress \<Rightarrow> ('c, 'r, 't) thread_state \<Rightarrow> ('c, 'r, 't) thread_state \<times> (unit, unit) result" where
  "wait_for_next_iteration pg th =
     (case clock_now (th_step th) of
        (now, ss) \<Rightarrow>
          let th = th\<lparr>th_step := ss\<rparr> in
          (case step_wait_request pg now of
             None \<Rightarrow> (th, Inr ())
           | Some request \<Rightarrow>
               (th\<lparr>th_waits := (\<lambda>n. th_waits th (Suc n))\<rparr>, if th_waits th 0 then Inr () else Inl ())))"

text \<open>What the clients did since the last iteration.\<close>

definition client_turn :: "('c, 'r, 't) thread_state \<Rightarrow> ('c, 'r, 't) thread_state" where
  "client_turn th =
     th\<lparr>th_commands := fold (\<lambda>c ch. fst (try_enqueue c ch)) (th_clients th 0) (th_commands th),
        th_clients := (\<lambda>n. th_clients th (Suc n))\<rparr>"

text \<open>The step, offered the command that the receiver would hand out.\<close>

definition thread_step ::
  "('c, 'r, 't) worker_reporting \<Rightarrow> 't env \<Rightarrow> ('c, 'r, 't) thread_state
   \<Rightarrow> ('c, 'r, 't) thread_state \<times> worker_outcome" where
  "thread_step R E th =
     (case try_next (th_commands th) of
        (taken, next_command) \<Rightarrow>
          (case step_runtime R E next_command (th_step th) of
             (ss, outcome) \<Rightarrow>
               (th\<lparr>th_step := ss,
                  th_commands := (if pg_commands (ss_progress ss) = 0 then th_commands th else taken)\<rparr>,
                the outcome)))"

definition loop_iteration ::
  "('c, 'r, 't) worker_reporting \<Rightarrow> 't env \<Rightarrow> ('c, 'r, 't) thread_state
   \<Rightarrow> ('c, 'r, 't) thread_state \<times> worker_completion option" where
  "loop_iteration R E th =
     (case thread_step R E (client_turn th) of
        (th, outcome) \<Rightarrow>
          let pg = ss_progress (th_step th) in
          (case deliver_progress (pg_command_result pg) (th_commands th) of
             (commands, delivered) \<Rightarrow>
               let th = th\<lparr>th_commands := commands\<rparr> in
               (case outcome of
                  StepContinue \<Rightarrow>
                    (case delivered of
                       Inl e \<Rightarrow> complete_worker_failure R E (CauseCommandDelivery e) None th
                     | Inr _ \<Rightarrow>
                         (case wait_for_next_iteration pg th of
                            (th, Inl _) \<Rightarrow> complete_worker_failure R E CauseWait None th
                          | (th, Inr _) \<Rightarrow> (th, None)))
                | StepClosed completion interrupted \<Rightarrow>
                    (case (case (delivered, interrupted) of
                             (Inl e, _) \<Rightarrow> (commands, Inl e)
                           | (Inr _, None) \<Rightarrow> (commands, Inr ())
                           | (Inr _, Some e) \<Rightarrow> deliver_completion (Inl e) commands) of
                       (commands, delivered) \<Rightarrow>
                         (th\<lparr>th_commands := commands\<rparr>,
                          Some \<lparr>wc_terminal = TerminalClosed completion, wc_delivery_error = err_of delivered\<rparr>))
                | StepFailed e \<Rightarrow> complete_worker_failure R E (CauseCore e) (err_of delivered) th)))"

text \<open>The loop: \<open>None\<close> while it runs.\<close>

fun run_worker_loop ::
  "('c, 'r, 't) worker_reporting \<Rightarrow> 't env \<Rightarrow> nat \<Rightarrow> ('c, 'r, 't) thread_state
   \<Rightarrow> ('c, 'r, 't) thread_state \<times> worker_completion option" where
  "run_worker_loop R E 0 th = (th, None)"
| "run_worker_loop R E (Suc fuel) th =
     (case loop_iteration R E th of
        (th, Some completion) \<Rightarrow> (th, Some completion)
      | (th, None) \<Rightarrow> run_worker_loop R E fuel th)"

text \<open>
  The end of \<open>run_started_worker\<close>: the failure is shown again after the teardown, and the receiver is dropped last.
\<close>

definition thread_exit ::
  "worker_completion \<Rightarrow> ('c, 'r, 't) thread_state \<Rightarrow> ('c, 'r, 't) thread_state" where
  "thread_exit completion th =
     (let th = (case wc_terminal completion of
              TerminalFailed cause _ \<Rightarrow>
                th\<lparr>th_step := (th_step th)\<lparr>ss_worker := (ss_worker (th_step th))\<lparr>wk_cx :=
                  (wk_cx (ss_worker (th_step th)))\<lparr>cx_status := status_fail (worker_failure_status cause)
                    (thread_failure_category cause) (cx_status (wk_cx (ss_worker (th_step th))))\<rparr>\<rparr>\<rparr>\<rparr>
            | TerminalClosed _ \<Rightarrow> th)
      in th\<lparr>th_commands := drop_receiver (th_commands th)\<rparr>)"

definition run_started_worker ::
  "('c, 'r, 't) worker_reporting \<Rightarrow> 't env \<Rightarrow> nat \<Rightarrow> ('c, 'r, 't) thread_state
   \<Rightarrow> ('c, 'r, 't) thread_state \<times> worker_completion option" where
  "run_started_worker R E fuel th =
     (case run_worker_loop R E fuel th of
        (th, None) \<Rightarrow> (th, None)
      | (th, Some completion) \<Rightarrow> (thread_exit completion th, Some completion))"

section \<open>Joining the thread\<close>

datatype worker_join_error = JoinPanicked

datatype worker_thread_outcome =
    ThreadClosed "(unit, worker_join_error explicit_close_error) result" "command_delivery_error option"
  | ThreadFailed worker_failure_cause "command_delivery_error option" "cleanup_failure option"
      "worker_join_error option"

definition finish_completed ::
  "worker_completion \<Rightarrow> (unit, worker_join_error) result \<Rightarrow> worker_thread_outcome" where
  "finish_completed completion join =
     (case wc_terminal completion of
        TerminalClosed close \<Rightarrow>
          ThreadClosed (if cc_performed close then finish_with_join close join else map_err CloseJoin join)
            (wc_delivery_error completion)
      | TerminalFailed cause cleanup_error \<Rightarrow>
          ThreadFailed cause (wc_delivery_error completion) cleanup_error (err_of join))"

definition finish_disconnected :: "(unit, worker_join_error) result \<Rightarrow> worker_thread_outcome" where
  "finish_disconnected join = ThreadFailed CauseCompletionDisconnected None None (err_of join)"

text \<open>\<open>WorkerThread::finish\<close>: \<open>None\<close> is a completion channel dropped without a message.\<close>

definition finish_thread ::
  "worker_completion option \<Rightarrow> (unit, worker_join_error) result \<Rightarrow> worker_thread_outcome" where
  "finish_thread received join =
     (case received of None \<Rightarrow> finish_disconnected join | Some completion \<Rightarrow> finish_completed completion join)"

end
