(* ===== verification/ErrorMap.thy ===== *)
theory ErrorMap
  imports WorkerThread
begin

text \<open>
  \<open>src/runtime/error_map.rs\<close>: from the errors of the runtime to the public \<open>Error\<close>.  As in Errors, an
  error is its kind and its chain of related errors.
\<close>

definition map_enqueue_error :: "command_enqueue_error \<Rightarrow> error" where
  "map_enqueue_error e =
     (case e of EnqueueInvariantViolation \<Rightarrow> new_error Internal | EnqueueDisconnected \<Rightarrow> new_error WorkerFailed)"

definition map_response_error :: "command_response_error \<Rightarrow> error" where
  "map_response_error e = (case e of ResponseWorkerFailed \<Rightarrow> new_error WorkerFailed)"

definition map_worker_core_error :: "worker_core_error \<Rightarrow> error" where
  "map_worker_core_error e =
     (case e of
        InvalidLifecycle \<Rightarrow> new_error WorkerFailed
      | CoreHandshake _ \<Rightarrow> new_error WorkerFailed
      | CoreTransport source \<Rightarrow>
          if source = Te_InvalidKeyStore then new_error InvalidKeyStore else new_error WorkerFailed)"

text \<open>Both commands map a readiness error to the same kind; only the message differs.\<close>

definition map_connection_readiness_error :: "connection_command_kind \<Rightarrow> readiness_error \<Rightarrow> error" where
  "map_connection_readiness_error command e =
     (case (command, e) of
        (PairCommand, ReadinessTimedOut) \<Rightarrow> new_error ConnectionTimeout
      | (ReconnectCommand, ReadinessTimedOut) \<Rightarrow> new_error ConnectionTimeout
      | (PairCommand, ReadinessDisconnected _) \<Rightarrow> new_error ConnectionFailed
      | (ReconnectCommand, ReadinessDisconnected _) \<Rightarrow> new_error ConnectionFailed
      | (PairCommand, ReadinessStaleSession _ _) \<Rightarrow> new_error Protocol
      | (PairCommand, HandshakeSessionMismatch _ _) \<Rightarrow> new_error Protocol
      | (ReconnectCommand, ReadinessStaleSession _ _) \<Rightarrow> new_error Protocol
      | (ReconnectCommand, HandshakeSessionMismatch _ _) \<Rightarrow> new_error Protocol
      | (PairCommand, ReadinessScheduler _) \<Rightarrow> new_error ConnectionFailed
      | (ReconnectCommand, ReadinessScheduler _) \<Rightarrow> new_error ConnectionFailed)"

definition map_connection_error :: "connection_command_error \<Rightarrow> error" where
  "map_connection_error e =
     (case cce_failure e of
        BeginFailure core \<Rightarrow>
          if core = CoreTransport Te_NoBond \<and> cce_command e = ReconnectCommand then new_error NoBond
          else map_worker_core_error core
      | ReadinessFailure r \<Rightarrow> map_connection_readiness_error (cce_command e) r
      | KeyStoreFailure \<Rightarrow> new_error InvalidKeyStore
      | WorkerFailedFailure \<Rightarrow>
          (case cce_command e of PairCommand \<Rightarrow> new_error WorkerFailed | ReconnectCommand \<Rightarrow> new_error WorkerFailed))"

definition map_command_error :: "worker_command_error \<Rightarrow> error" where
  "map_command_error e =
     (case e of
        CommandInput error \<Rightarrow> error
      | CommandLifecycle LifecycleShutdown \<Rightarrow> new_error Shutdown
      | CommandShutdown \<Rightarrow> new_error Shutdown
      | CommandDirect (DirectInterrupted TapShutdown) \<Rightarrow> new_error Shutdown
      | CommandConnection error \<Rightarrow> map_connection_error error
      | CommandDirect DirectNotReady \<Rightarrow> new_error TransportClosed
      | CommandPeriodic PeriodicNotReady \<Rightarrow> new_error TransportClosed
      | CommandDirect _ \<Rightarrow> new_error Internal
      | CommandPeriodic _ \<Rightarrow> new_error Internal
      | CommandLifecycle LifecycleFailed \<Rightarrow> new_error WorkerFailed
      | CommandDisconnected \<Rightarrow> new_error Internal)"

definition map_join_error :: "worker_join_error \<Rightarrow> error" where
  "map_join_error e = (case e of JoinPanicked \<Rightarrow> new_error WorkerFailed)"

definition map_delivery_error :: "command_delivery_error \<Rightarrow> error" where
  "map_delivery_error e = (case e of MissingResponse \<Rightarrow> new_error WorkerFailed)"

definition map_cleanup_error :: "cleanup_failure \<Rightarrow> error" where
  "map_cleanup_error e = new_error WorkerFailed"

definition map_worker_failure :: "worker_failure_cause \<Rightarrow> error" where
  "map_worker_failure cause =
     (case cause of
        CauseCore e \<Rightarrow> map_worker_core_error e
      | CauseWait \<Rightarrow> new_error WorkerFailed
      | CauseCommandDelivery e \<Rightarrow> map_delivery_error e
      | CausePanicked \<Rightarrow> new_error WorkerFailed
      | CauseCompletionDisconnected \<Rightarrow> new_error WorkerFailed)"

definition option_list :: "'a option \<Rightarrow> 'a list" where
  "option_list x = (case x of None \<Rightarrow> [] | Some a \<Rightarrow> [a])"

definition map_worker_outcome :: "worker_thread_outcome \<Rightarrow> (unit, error) result" where
  "map_worker_outcome outcome =
     (case outcome of
        ThreadClosed result delivery_error \<Rightarrow>
          (case (case result of
                   Inr _ \<Rightarrow> (None, None)
                 | Inl (CloseCleanup cleanup) \<Rightarrow> (Some cleanup, None)
                 | Inl (CloseJoin join) \<Rightarrow> (None, Some join)
                 | Inl (CloseCleanupAndJoin cleanup join) \<Rightarrow> (Some cleanup, Some join)) of
             (cleanup_error, join_error) \<Rightarrow>
               (case option_list (map_option map_cleanup_error cleanup_error)
                     @ option_list (map_option map_delivery_error delivery_error)
                     @ option_list (map_option map_join_error join_error) of
                  [] \<Rightarrow> Inr ()
                | first # errors \<Rightarrow> Inl (foldl with_related first errors)))
      | ThreadFailed cause delivery_error cleanup_error join_error \<Rightarrow>
          let error = map_worker_failure cause;
              error = (case delivery_error of None \<Rightarrow> error | Some d \<Rightarrow> with_related error (map_delivery_error d));
              error = (case cleanup_error of None \<Rightarrow> error | Some c \<Rightarrow> with_related error (map_cleanup_error c));
              error = (case join_error of None \<Rightarrow> error | Some j \<Rightarrow> with_related error (map_join_error j))
          in Inl error)"

section \<open>What a close reports\<close>

lemma error_chain_map [simp]:
  "error_chain (map_delivery_error d) = [WorkerFailed]" "error_chain (map_cleanup_error c) = [WorkerFailed]"
  "error_chain (map_join_error j) = [WorkerFailed]"
  by (cases d; simp add: map_delivery_error_def) (simp add: map_cleanup_error_def, cases j, simp add: map_join_error_def)

text \<open>
  The failures of a finished thread, in the order they are reported: for a close, the first failed
  cleanup stage, a lost answer and a panic found by the join; for a failed worker, the cause first and
  then the lost answer, the cleanup and the join.
\<close>

definition reported_failures :: "worker_completion option \<Rightarrow> (unit, worker_join_error) result \<Rightarrow> error_kind list" where
  "reported_failures received join =
     (let joined = (case join of Inl _ \<Rightarrow> [WorkerFailed] | Inr _ \<Rightarrow> []) in
      case received of
        None \<Rightarrow> WorkerFailed # joined
      | Some c \<Rightarrow>
          (let lost = (case wc_delivery_error c of None \<Rightarrow> [] | Some _ \<Rightarrow> [WorkerFailed]) in
           case wc_terminal c of
             TerminalClosed close \<Rightarrow>
               (if cc_performed close \<and> cc_first_failure close \<noteq> None then [WorkerFailed] else []) @ lost @ joined
           | TerminalFailed cause cleanup \<Rightarrow>
               (if cause = CauseCore (CoreTransport Te_InvalidKeyStore) then InvalidKeyStore else WorkerFailed)
               # lost @ (case cleanup of None \<Rightarrow> [] | Some _ \<Rightarrow> [WorkerFailed]) @ joined))"

lemma error_chain_worker_failure:
  "error_chain (map_worker_failure cause) =
     [if cause = CauseCore (CoreTransport Te_InvalidKeyStore) then InvalidKeyStore else WorkerFailed]"
  by (auto simp: map_worker_failure_def map_worker_core_error_def map_delivery_error_def
      split: worker_failure_cause.split worker_core_error.split command_delivery_error.split)

lemma finish_failures:
  "(case map_worker_outcome (finish_thread received join) of
      Inr _ \<Rightarrow> reported_failures received join = []
    | Inl e \<Rightarrow> error_chain e = reported_failures received join)"
proof (cases received)
  case None
  then show ?thesis
    by (cases join) (simp_all add: finish_thread_def finish_disconnected_def map_worker_outcome_def
        reported_failures_def map_worker_failure_def err_of_def)
next
  case (Some c)
  show ?thesis
  proof (cases "wc_terminal c")
    case (TerminalClosed close)
    then show ?thesis
      using Some
      by (cases join; cases "wc_delivery_error c"; cases "cc_performed close"; cases "cc_first_failure close")
        (simp_all add: finish_thread_def finish_completed_def map_worker_outcome_def reported_failures_def
          finish_with_join_def option_list_def map_err_def)
  next
    case (TerminalFailed cause cleanup)
    then show ?thesis
      using Some
      by (cases join; cases "wc_delivery_error c"; cases cleanup)
        (simp_all add: finish_thread_def finish_completed_def map_worker_outcome_def reported_failures_def
          error_chain_worker_failure err_of_def)
  qed
qed


end
