(* ===== verification/WorkerCommands.thy ===== *)
theory WorkerCommands
  imports WorkerShutdown
begin

text \<open>A step counts at most one command, and counts none that it was not offered.\<close>

lemma record_command_progress_commands [simp]: "pg_commands (record_command_progress p pg) = pg_commands pg"
  by (simp add: record_command_progress_def split: worker_command_progress.splits)

lemma push_operation_error_commands [simp]: "pg_commands (push_operation_error e pg) = pg_commands pg"
  by (simp add: push_operation_error_def)

lemma record_operation_error_commands [simp]: "pg_commands (fst (record_operation_error e pg)) = pg_commands pg"
  by (simp add: record_operation_error_def split: sum.splits prod.splits)

lemma complete_connection_commands [simp]:
  "pg_commands (snd (complete_connection_command r wp)) = pg_commands (snd wp)"
  "pg_commands (snd (complete_connection_failure f wp)) = pg_commands (snd wp)"
  by (auto simp: complete_connection_failure_def complete_connection_command_def split: option.splits prod.splits)

lemma record_output_commands [simp]:
  "pg_commands (snd (fst (record_output R t completion wp))) = pg_commands (snd wp)"
proof -
  have noted: "pg_commands pg' = pg_commands pg" if "record_operation_error e pg = (pg', res)" for e pg pg' res
    using record_operation_error_commands[of e pg] that by simp
  show ?thesis
    by (auto simp: record_output_def Let_def noted split: prod.splits sum.splits)
qed

lemma connection_end_commands [simp]:
  "pg_commands (snd (end_connection R reason completion wp)) = pg_commands (snd wp)"
  "pg_commands (snd (abort_connection R connection e wp)) = pg_commands (snd wp)"
  by (auto simp: end_connection_def abort_connection_def Let_def split: option.splits prod.splits)

lemma drive_handshake_commands [simp]:
  "pg_commands (snd (fst (snd (drive_handshake E now connection wp)))) = pg_commands (snd wp)"
  by (auto simp: drive_handshake_def Let_def split: option.splits prod.splits sum.splits handshake_progress.splits)

lemma drive_readiness_commands [simp]:
  "pg_commands (snd (fst (drive_readiness R now connection actions wp))) = pg_commands (snd wp)"
  by (auto simp: drive_readiness_def put_connection_def Let_def
      split: prod.splits sum.splits readiness_progress.splits)

lemma drive_connection_commands [simp]:
  "pg_commands (snd (fst (drive_connection R E now wp))) = pg_commands (snd wp)"
proof (cases "wk_connection (fst wp)")
  case (Some connection)
  let ?wp = "((fst wp)\<lparr>wk_connection := None\<rparr>, snd wp)"
  obtain c wp1 res where hs: "drive_handshake E now connection ?wp = (c, wp1, res)"
    by (cases "drive_handshake E now connection ?wp") auto
  have "pg_commands (snd wp1) = pg_commands (snd wp)"
    using drive_handshake_commands[of E now connection ?wp] hs by simp
  then show ?thesis
    by (auto simp: drive_connection_def Some Let_def hs put_connection_def split: sum.splits)
qed (simp add: drive_connection_def)

lemma worker_close_commands [simp]: "pg_commands (snd (fst (worker_close R E request now wp))) = pg_commands (snd wp)"
proof -
  obtain w pg where fin: "complete_connection_command (Inl CommandShutdown) wp = (w, pg)"
    by fastforce
  show ?thesis
    using complete_connection_commands(1)[of "Inl CommandShutdown" wp] fin
    by (auto simp: worker_close_def Let_def split: prod.splits)
qed

lemma worker_fail_commands [simp]: "pg_commands (snd (fst (worker_fail e wp))) = pg_commands (snd wp)"
  using complete_connection_commands(2)[of _ wp] by (auto simp: worker_fail_def Let_def case_prod_beta)

lemma and_then_commands:
  assumes "pg_commands (ss_progress (fst p)) = n"
    and "\<And>ss. pg_commands (ss_progress ss) = n \<Longrightarrow> pg_commands (ss_progress (fst (f ss))) = n"
  shows "pg_commands (ss_progress (fst (and_then p f))) = n"
  using assms by (cases p; cases "snd p") (auto simp: and_then_def)

lemma check_shutdown_commands [simp]: "pg_commands (ss_progress (fst (check_shutdown R E ss))) = pg_commands (ss_progress ss)"
proof -
  have "pg_commands (ss_progress (fst (close_phase R E request ss'))) = pg_commands (ss_progress ss')" for request ss'
    using worker_close_commands[of R E request "fst (clock_now ss')" "ss_work ss'"]
    by (simp add: close_phase_def case_prod_beta)
  then show ?thesis
    by (auto simp: check_shutdown_def shutdown_take_def split: option.splits)
qed

lemma fail_phase_commands:
  "pg_commands (ss_progress (fst (case worker_fail e (ss_work ss) of (wp, outcome) \<Rightarrow> (set_work wp ss, Some outcome))))
     = pg_commands (ss_progress ss)"
  using worker_fail_commands[of e "ss_work ss"] by (simp add: case_prod_beta)

lemma shutdown_or_fail_commands [simp]:
  "pg_commands (ss_progress (fst (shutdown_or_fail R E e ss))) = pg_commands (ss_progress ss)"
  unfolding shutdown_or_fail_def by (rule and_then_commands) (simp_all add: fail_phase_commands)

lemma shutdown_then_terminal_commands:
  "pg_commands (ss_progress (fst (and_then (check_shutdown R E ss) (\<lambda>ss.
       case terminal of
         None \<Rightarrow> (ss, None)
       | Some e \<Rightarrow> (case worker_fail e (ss_work ss) of (wp, outcome) \<Rightarrow> (set_work wp ss, Some outcome))))))
     = pg_commands (ss_progress ss)"
  by (rule and_then_commands) (cases terminal; simp add: fail_phase_commands)+

lemma drive_phase_commands [simp]: "pg_commands (ss_progress (fst (drive_phase R E ss))) = pg_commands (ss_progress ss)"
proof -
  obtain wp result where drive: "drive_connection R E (fst (clock_now ss)) (ss_work ss) = (wp, result)"
    by fastforce
  have "pg_commands (snd wp) = pg_commands (ss_progress ss)"
    using drive_connection_commands[of R E "fst (clock_now ss)" "ss_work ss"] drive by simp
  then show ?thesis
    using drive by (cases result) (simp_all add: drive_phase_def case_prod_beta)
qed

lemma worker_handle_event_commands [simp]:
  "pg_commands (ss_progress (fst (worker_handle_event R E tagged ss))) = pg_commands (ss_progress ss)"
proof -
  have recorded: "pg_commands (snd wp') = pg_commands (snd wp)"
    if "record_output R now completion wp = (wp', result)" for now completion wp wp' result
    using record_output_commands[of R now completion wp] that by simp
  have noted: "pg_commands (ss_progress (set_work wp' ss')) = pg_commands (snd wp')" for wp' ss'
    by (simp add: set_work_def)
  show ?thesis
    by (auto simp: worker_handle_event_def Let_def clock_now_def noted ss_work_pair dest!: recorded
        split: option.splits prod.splits sum.splits reporting_event.splits transport_event.splits)
qed

lemma event_phase_commands [simp]: "pg_commands (ss_progress (fst (event_phase R E event ss))) = pg_commands (ss_progress ss)"
proof -
  let ?ss = "update_progress (\<lambda>pg. pg\<lparr>pg_hci_events := pg_hci_events pg + 1\<rparr>) ss"
  obtain ss' result where handled:
    "(case event of None \<Rightarrow> (?ss, Inr False) | Some tagged \<Rightarrow> worker_handle_event R E tagged ?ss) = (ss', result)"
    by fastforce
  have "pg_commands (ss_progress ?ss) = pg_commands (ss_progress ss)"
    by (simp add: update_progress_def)
  moreover have "ss' = fst (case event of None \<Rightarrow> (?ss, Inr False) | Some tagged \<Rightarrow> worker_handle_event R E tagged ?ss)"
    using handled by simp
  ultimately have same: "pg_commands (ss_progress ss') = pg_commands (ss_progress ss)"
    by (cases event) (simp_all only: option.case worker_handle_event_commands fst_conv)
  have "pg_commands (ss_progress (fst (and_then (check_shutdown R E ss') (\<lambda>ss. if changed then drive_phase R E ss else (ss, None)))))
      = pg_commands (ss_progress ss')" for changed
    by (rule and_then_commands) simp_all
  then show ?thesis
    unfolding event_phase_def Let_def handled using same by (cases result) simp_all
qed

lemma events_phase_commands [simp]:
  "pg_commands (ss_progress (fst (events_phase R E events ss))) = pg_commands (ss_progress ss)"
  by (induction events arbitrary: ss) (simp_all add: and_then_commands)

lemma poll_phase_commands [simp]:
  "pg_commands (ss_progress (fst (poll_phase R E batches ss))) = pg_commands (ss_progress ss)"
proof (induction batches arbitrary: ss)
  case (Suc batches)
  obtain t result where poll: "t_poll (env_transport E) 0 (cx_transport (wk_cx (ss_worker ss))) = (t, result)"
    by fastforce
  let ?ss = "ss\<lparr>ss_worker := (ss_worker ss)\<lparr>wk_cx := (wk_cx (ss_worker ss))\<lparr>cx_transport := t\<rparr>\<rparr>\<rparr>"
  have "pg_commands (ss_progress (fst (and_then (events_phase R E events ?ss) (\<lambda>ss. poll_phase R E batches
      (if batches = 0 then update_progress (\<lambda>pg. pg\<lparr>pg_immediate := True\<rparr>) ss else ss)))))
      = pg_commands (ss_progress ss)" for events
    by (rule and_then_commands) (simp_all add: Suc.IH update_progress_def)
  then show ?case
    by (cases result) (simp_all add: poll Let_def del: poll_phase.simps(1))
qed simp

lemma run_due_errors_commands [simp]: "pg_commands (fst (run_due_errors errors acc)) = pg_commands (fst acc)"
  by (induction errors arbitrary: acc) (auto simp: run_due_errors_def case_prod_beta split: sum.splits)

lemma due_phase_commands [simp]: "pg_commands (ss_progress (fst (due_phase R E ss))) = pg_commands (ss_progress ss)"
  unfolding due_phase_def Let_def case_prod_beta
  by (auto simp: shutdown_then_terminal_commands[unfolded case_prod_beta] clock_now_def
      split: option.splits sum.splits)

lemma finish_phase_commands [simp]: "pg_commands (ss_progress (fst (finish_phase R ss))) = pg_commands (ss_progress ss)"
  by (simp add: finish_phase_def update_progress_def)

lemma command_phase_none [simp]:
  "pg_commands (ss_progress (fst (command_phase R E None ss))) = pg_commands (ss_progress ss)"
  by (auto simp: command_phase_def and_then_def update_progress_def)

theorem step_takes_only_offered: "pg_commands (ss_progress (fst (step_runtime R E None ss))) = 0"
proof -
  have "pg_commands (ss_progress (ss\<lparr>ss_progress := step_progress_new\<rparr>)) = 0"
    by (simp add: step_progress_new_def)
  then show ?thesis
    unfolding step_runtime_def Let_def by (intro and_then_commands) simp_all
qed

end
