(* ===== verification/ThreadInvariant.thy ===== *)
theory ThreadInvariant
  imports WorkerCommands WorkerThread
begin

text \<open>
  The worker thread's loop: the command channel and the worker agree on what is owed, so no answer is
  lost or made up, and a request to shut down bounds the number of iterations.
\<close>

definition debt :: "'c command_channel \<Rightarrow> nat" where
  "debt ch = (if ch_in_flight ch = None then 0 else 1)"

definition thread_ok :: "('c, 'r, 't) worker_reporting \<Rightarrow> ('c, 'r, 't) thread_state \<Rightarrow> bool" where
  "thread_ok R th \<longleftrightarrow>
     worker_inv R (ss_worker (th_step th)) \<and> channel_ok (th_commands th)
     \<and> debt (th_commands th) = owed R (ss_worker (th_step th))"

section \<open>The channel\<close>

lemma debt_enqueue [simp]: "debt (fst (try_enqueue c ch)) = debt ch"
  by (simp add: debt_def try_enqueue_def notify_def Let_def)

lemma enqueue_all:
  "channel_ok ch \<Longrightarrow> channel_ok (fold (\<lambda>c ch. fst (try_enqueue c ch)) cs ch)
     \<and> debt (fold (\<lambda>c ch. fst (try_enqueue c ch)) cs ch) = debt ch"
  by (induction cs arbitrary: ch) (simp_all add: channel_ok_enqueue)

lemma client_turn_ok:
  assumes "thread_ok R th"
  shows "thread_ok R (client_turn th) \<and> th_step (client_turn th) = th_step th"
  using assms enqueue_all[of "th_commands th" "th_clients th 0"] by (simp add: thread_ok_def client_turn_def)

lemma deliver_progress_ok:
  assumes "channel_ok ch" "debt ch = n + (if result = None then 0 else 1)"
  shows "channel_ok (fst (deliver_progress result ch)) \<and> snd (deliver_progress result ch) = Inr ()
    \<and> debt (fst (deliver_progress result ch)) = n"
proof (cases result)
  case (Some r)
  then have "ch_in_flight ch \<noteq> None" "n = 0"
    using assms(2) by (auto simp: debt_def split: if_splits)
  then show ?thesis
    using channel_ok_complete[OF assms(1), of r] by (simp add: Some debt_def)
qed (use assms in simp)

section \<open>One step of the thread\<close>

lemma and_then_returns: "(\<And>ss. snd (f ss) \<noteq> None) \<Longrightarrow> snd (and_then p f) \<noteq> None"
  by (cases p; cases "snd p") (auto simp: and_then_def)

lemma step_returns: "snd (step_runtime R E next_command ss) \<noteq> None"
  unfolding step_runtime_def Let_def by (intro and_then_returns) (simp add: finish_phase_def)

text \<open>What \<open>try_next\<close> hands out, and when: only a worker that owes nothing is offered a command.\<close>

lemma try_next_cases:
  assumes "channel_ok ch" "try_next ch = (taken, next_command)"
  shows "channel_ok taken \<and> (next_command \<noteq> None \<longrightarrow> debt ch = 0 \<and> debt taken = 1)
    \<and> (next_command = None \<longrightarrow> taken = ch)"
  using assms channel_ok_next[OF assms(1)]
  by (auto simp: try_next_def debt_def split: if_splits option.splits)

context reporting_laws
begin

lemma thread_step_ok:
  assumes "thread_ok R th" "thread_step R E th = (th', outcome)"
  shows "channel_ok (th_commands th') \<and> worker_after R outcome (ss_worker (th_step th'))
    \<and> debt (th_commands th') =
        owed R (ss_worker (th_step th')) + outcome_answers outcome + answers (ss_progress (th_step th'))"
proof -
  let ?ch = "th_commands th" and ?k = "owed R (ss_worker (th_step th))"
  obtain taken next_command where offered: "try_next ?ch = (taken, next_command)"
    by fastforce
  obtain ss out where step: "step_runtime R E next_command (th_step th) = (ss, Some out)"
    using step_returns[of R E next_command "th_step th"]
    by (cases "step_runtime R E next_command (th_step th)") auto
  have ok: "outcome_ok R ?k (ss_work ss) out"
    using step_runtime_ok[of "th_step th" next_command] assms(1) by (simp add: thread_ok_def step)
  have acc: "owed R (ss_worker ss) + outcome_answers out + answers (ss_progress ss) = ?k + pg_commands (ss_progress ss)"
    "?k + pg_commands (ss_progress ss) \<le> 1"
    using ok by (simp_all add: outcome_ok_def account_def ss_work_pair)
  have th': "th_step th' = ss" "outcome = out"
    "th_commands th' = (if pg_commands (ss_progress ss) = 0 then ?ch else taken)"
    using assms(2) by (auto simp: thread_step_def offered step)
  have ch: "channel_ok ?ch" "debt ?ch = ?k"
    using assms(1) by (simp_all add: thread_ok_def)
  note next_ok = try_next_cases[OF ch(1) offered]
  show ?thesis
  proof (cases "pg_commands (ss_progress ss) = 0")
    case True
    then show ?thesis
      using ok acc ch by (simp add: th' outcome_ok_def ss_work_pair)
  next
    case False
    then have "next_command \<noteq> None"
      using step_takes_only_offered[of R E "th_step th"] step by (cases next_command) auto
    then show ?thesis
      using False ok acc ch next_ok by (simp add: th' outcome_ok_def ss_work_pair)
  qed
qed

end

section \<open>One iteration\<close>

text \<open>What the status shows, and the worker is, once a failed worker has been torn down.\<close>

definition torn_down :: "worker_failure_cause \<Rightarrow> ('r, 't) worker_core \<Rightarrow> bool" where
  "torn_down cause w \<longleftrightarrow>
     wk_lifecycle w = Rs_Closing \<and> \<not> wk_connected w \<and> wk_connection w = None
     \<and> current_session (wk_sessions w) = None
     \<and> st_lifecycle (cx_status (wk_cx w)) = Lc_Failed \<and> \<not> st_connected (cx_status (wk_cx w))
     \<and> st_session_id (cx_status (wk_cx w)) = None
     \<and> st_worker_failure (cx_status (wk_cx w)) = Some (worker_failure_status cause)"

lemma status_fail_fresh:
  "st_worker_failure st = None \<Longrightarrow>
     st_lifecycle (status_fail m k st) = Lc_Failed \<and> \<not> st_connected (status_fail m k st)
     \<and> st_session_id (status_fail m k st) = None \<and> st_worker_failure (status_fail m k st) = Some m"
  by (simp add: status_fail_def emit_in_session_def emit_def split: option.splits)

lemma status_fail_again: "st_worker_failure st = Some m' \<Longrightarrow> status_fail m k st = st"
  by (simp add: status_fail_def)

text \<open>A worker that \<open>complete_worker_failure\<close> may be called on: failed by the core, or still running.\<close>

definition failing :: "('c, 'r, 't) worker_reporting \<Rightarrow> worker_failure_cause \<Rightarrow> ('r, 't) worker_core \<Rightarrow> bool" where
  "failing R cause w \<longleftrightarrow> worker_inv R w \<or> (\<exists>e. cause = CauseCore e \<and> failed_ok e w)"

lemma complete_worker_failure_ok:
  assumes "failing R cause (ss_worker (th_step th))" "complete_worker_failure R E cause d th = (th', result)"
  shows "th_commands th' = th_commands th \<and> torn_down cause (ss_worker (th_step th'))
    \<and> (\<exists>cleanup. result = Some \<lparr>wc_terminal = TerminalFailed cause cleanup, wc_delivery_error = d\<rparr>)"
proof -
  let ?w = "ss_worker (th_step th)"
  let ?st = "status_fail (worker_failure_status cause) (thread_failure_category cause) (cx_status (wk_cx ?w))"
  let ?cx = "(wk_cx ?w)\<lparr>cx_status := ?st\<rparr>"
  have shown: "st_lifecycle ?st = Lc_Failed \<and> \<not> st_connected ?st \<and> st_session_id ?st = None
      \<and> st_worker_failure ?st = Some (worker_failure_status cause)"
    using assms(1) status_fail_fresh status_fail_again
    by (auto simp: failing_def worker_inv_def attached_def status_shows_def failed_ok_def context_ok_def
        worker_failure_status_def Let_def)
  have lifecycle: "wk_lifecycle ?w \<noteq> Rs_Closing"
    using assms(1) by (auto simp: failing_def worker_inv_def attached_def failed_ok_def)
  obtain l cx c where run: "cleanup_run E (cleanup_sequence_new WithoutNeutral explicit_close_drain_timeout)
      (wk_connected ?w) (protocol_timestamp (ss_clock (th_step th) 0)) False (wk_lifecycle ?w) ?cx = (l, cx, c)"
    by (cases "cleanup_run E (cleanup_sequence_new WithoutNeutral explicit_close_drain_timeout)
      (wk_connected ?w) (protocol_timestamp (ss_clock (th_step th) 0)) False (wk_lifecycle ?w) ?cx") auto
  have "l = Rs_Closing \<and> status_frame ?st (cx_status cx)"
    using run lifecycle cleanup_stages_frame[of ?cx E]
    by (auto simp: cleanup_run_def request_close_eq Let_def case_prod_beta sent_frame_def)
  then show ?thesis
    using assms(2) shown
    by (auto simp: complete_worker_failure_def cleanup_after_failure_without_neutral_def clock_now_def Let_def
        run torn_down_def status_frame_def)
qed

text \<open>
  How an iteration ends: it goes on with the invariant, or the worker closed with every command
  answered, or it failed for a reason that is no lost answer.
\<close>

definition iteration_ok ::
  "('c, 'r, 't) worker_reporting \<Rightarrow> ('c, 'r, 't) thread_state \<Rightarrow> worker_completion option \<Rightarrow> bool" where
  "iteration_ok R th result \<longleftrightarrow> channel_ok (th_commands th)
     \<and> (case result of
          None \<Rightarrow> thread_ok R th
        | Some completion \<Rightarrow> wc_delivery_error completion = None
            \<and> (case wc_terminal completion of
                 TerminalClosed close \<Rightarrow> cc_performed close \<and> debt (th_commands th) = 0
                   \<and> closed_ok R (ss_worker (th_step th))
               | TerminalFailed cause _ \<Rightarrow> (cause = CauseWait \<or> (\<exists>e. cause = CauseCore e))
                   \<and> torn_down cause (ss_worker (th_step th))))"

lemma wait_keeps:
  "wait_for_next_iteration pg th = (th', r) \<Longrightarrow>
     th_commands th' = th_commands th \<and> ss_worker (th_step th') = ss_worker (th_step th)"
  by (auto simp: wait_for_next_iteration_def clock_now_def Let_def split: option.splits if_splits)

lemma closed_delivery_ok:
  assumes "channel_ok ch" "debt ch = 1" "deliver_completion (Inl e) ch = (ch', r)"
  shows "channel_ok ch' \<and> r = Inr () \<and> debt ch' = 0"
  using assms channel_ok_complete[OF assms(1), of "Inl e"] by (auto simp: debt_def split: if_splits)

text \<open>The five ways an iteration leaves the loop's body, with the thread it leaves from.\<close>

lemma loop_iteration_cases:
  assumes "loop_iteration R E th = (th', result)" "thread_step R E (client_turn th) = (th1, outcome)"
    and "deliver_progress (pg_command_result (ss_progress (th_step th1))) (th_commands th1) = (commands, delivered)"
  obtains
    (undelivered) e where "outcome = StepContinue" "delivered = Inl e"
      "complete_worker_failure R E (CauseCommandDelivery e) None (th1\<lparr>th_commands := commands\<rparr>) = (th', result)"
  | (unwaited) th2 u where "outcome = StepContinue" "is_ok delivered"
      "wait_for_next_iteration (ss_progress (th_step th1)) (th1\<lparr>th_commands := commands\<rparr>) = (th2, Inl u)"
      "complete_worker_failure R E CauseWait None th2 = (th', result)"
  | (continued) u where "outcome = StepContinue" "is_ok delivered"
      "wait_for_next_iteration (ss_progress (th_step th1)) (th1\<lparr>th_commands := commands\<rparr>) = (th', Inr u)"
      "result = None"
  | (closed) completion interrupted commands' last where "outcome = StepClosed completion interrupted"
      "(case (delivered, interrupted) of
          (Inl e, _) \<Rightarrow> (commands, Inl e)
        | (Inr _, None) \<Rightarrow> (commands, Inr ())
        | (Inr _, Some e) \<Rightarrow> deliver_completion (Inl e) commands) = (commands', last)"
      "th' = th1\<lparr>th_commands := commands'\<rparr>"
      "result = Some \<lparr>wc_terminal = TerminalClosed completion, wc_delivery_error = err_of last\<rparr>"
  | (failed) e where "outcome = StepFailed e"
      "complete_worker_failure R E (CauseCore e) (err_of delivered) (th1\<lparr>th_commands := commands\<rparr>) = (th', result)"
  using assms by (auto simp: loop_iteration_def Let_def split: worker_outcome.splits sum.splits prod.splits)

context reporting_laws
begin

lemma loop_iteration_ok:
  assumes "thread_ok R th" "loop_iteration R E th = (th', result)"
  shows "iteration_ok R th' result"
proof -
  obtain th1 outcome where step: "thread_step R E (client_turn th) = (th1, outcome)"
    by fastforce
  let ?pg = "ss_progress (th_step th1)" and ?w = "ss_worker (th_step th1)"
  note after = thread_step_ok[OF conjunct1[OF client_turn_ok[OF assms(1)]] step]
  obtain commands delivered where
    delivered: "deliver_progress (pg_command_result ?pg) (th_commands th1) = (commands, delivered)"
    by fastforce
  have commands: "channel_ok commands" "delivered = Inr ()" "debt commands = owed R ?w + outcome_answers outcome"
    using deliver_progress_ok[of "th_commands th1" "owed R ?w + outcome_answers outcome" "pg_command_result ?pg"] after
    by (simp_all add: answers_def delivered)
  from assms(2) step delivered show ?thesis
  proof (cases rule: loop_iteration_cases)
    case undelivered
    with commands show ?thesis
      by simp
  next
    case (unwaited th2 u)
    have "failing R CauseWait (ss_worker (th_step th2))"
      using after unwaited(1) wait_keeps[OF unwaited(3)] by (simp add: failing_def)
    from complete_worker_failure_ok[OF this unwaited(4)] show ?thesis
      using wait_keeps[OF unwaited(3)] commands unfolding iteration_ok_def by fastforce
  next
    case (continued u)
    then show ?thesis
      using after wait_keeps[OF continued(3)] commands by (simp add: iteration_ok_def thread_ok_def)
  next
    case (closed completion interrupted commands' last)
    have "closed_ok R ?w" "cc_performed completion" "owed R ?w = 0"
      using after closed(1) by (simp_all add: closed_ok_def)
    moreover have "channel_ok commands' \<and> last = Inr () \<and> debt commands' = 0"
      using closed(1,2) commands calculation closed_delivery_ok by (cases interrupted) auto
    ultimately show ?thesis
      using closed(3,4) by (simp add: iteration_ok_def)
  next
    case (failed e)
    have "failing R (CauseCore e) (ss_worker (th_step (th1\<lparr>th_commands := commands\<rparr>)))"
      using after failed(1) by (simp add: failing_def)
    from complete_worker_failure_ok[OF this failed(2)] show ?thesis
      using commands unfolding iteration_ok_def by fastforce
  qed
qed

lemma run_worker_loop_ok:
  assumes "thread_ok R th" "run_worker_loop R E fuel th = (th', result)"
  shows "iteration_ok R th' result"
  using assms
proof (induction fuel arbitrary: th)
  case 0
  then show ?case
    by (simp add: iteration_ok_def thread_ok_def)
next
  case (Suc fuel)
  obtain th1 r where it: "loop_iteration R E th = (th1, r)"
    by fastforce
  have ok: "iteration_ok R th1 r"
    by (rule loop_iteration_ok[OF Suc.prems(1) it])
  show ?case
    using Suc ok by (cases r) (auto simp: it iteration_ok_def)
qed

end

section \<open>Termination\<close>

text \<open>An iteration that goes on has polled the shutdown channel at least once, in vain.\<close>

lemma loop_iteration_polled:
  assumes "loop_iteration R E th = (th', None)"
  shows "polled 1 (th_step th) (th_step th')"
proof -
  obtain th1 outcome where step: "thread_step R E (client_turn th) = (th1, outcome)"
    by fastforce
  obtain commands delivered where
    delivered: "deliver_progress (pg_command_result (ss_progress (th_step th1))) (th_commands th1) = (commands, delivered)"
    by fastforce
  have goes_on: "outcome = StepContinue \<and> (\<exists>waited.
      wait_for_next_iteration (ss_progress (th_step th1)) (th1\<lparr>th_commands := commands\<rparr>) = (th', waited))"
    using assms
    by (auto simp: loop_iteration_def step delivered Let_def complete_worker_failure_def
        split: worker_outcome.splits sum.splits prod.splits option.splits)
  then have same: "ss_shutdown (th_step th') = ss_shutdown (th_step th1)"
    by (auto simp: wait_for_next_iteration_def clock_now_def Let_def split: option.splits if_splits)
  obtain taken next_command where offered: "try_next (th_commands (client_turn th)) = (taken, next_command)"
    by fastforce
  obtain ss out where run: "step_runtime R E next_command (th_step th) = (ss, Some out)"
    using step_returns[of R E next_command "th_step th"]
    by (cases "step_runtime R E next_command (th_step th)") auto
  moreover have "th_step (client_turn th) = th_step th"
    by (simp add: client_turn_def)
  ultimately have "step_runtime R E next_command (th_step th) = (th_step th1, Some StepContinue)"
    using step goes_on by (auto simp: thread_step_def offered)
  then have "polled 1 (th_step th) (th_step th1)"
    using step_runtime_polled[of "th_step th" R E next_command] by simp
  then show ?thesis
    using same by (simp add: polled_def)
qed

lemma run_worker_loop_ends:
  assumes "ss_shutdown (th_step th) k = Some request" "k < fuel"
  shows "snd (run_worker_loop R E fuel th) \<noteq> None"
  using assms
proof (induction fuel arbitrary: th k)
  case (Suc fuel)
  obtain th1 r where it: "loop_iteration R E th = (th1, r)"
    by fastforce
  show ?case
  proof (cases r)
    case None
    then obtain n where n: "1 \<le> n" "ss_shutdown (th_step th1) = (\<lambda>i. ss_shutdown (th_step th) (n + i))"
        "\<forall>i < n. ss_shutdown (th_step th) i = None"
      using loop_iteration_polled[of R E th th1] it by (auto simp: polled_def)
    have "n \<le> k"
      using n Suc.prems(1) by (metis linorder_not_less option.distinct(1))
    then show ?thesis
      using Suc.IH[of th1 "k - n"] Suc.prems n it None by simp
  qed (simp add: it)
qed simp

section \<open>The thread from start to end\<close>

definition thread_start :: "('r, 't) worker_core \<Rightarrow> (nat \<Rightarrow> duration) \<Rightarrow> (nat \<Rightarrow> shutdown_request option)
    \<Rightarrow> (nat \<Rightarrow> bool) \<Rightarrow> (nat \<Rightarrow> 'c runtime_command list) \<Rightarrow> ('c, 'r, 't) thread_state" where
  "thread_start w clock shutdown waits clients =
     \<lparr>th_step = \<lparr>ss_worker = w, ss_progress = step_progress_new, ss_clock = clock, ss_shutdown = shutdown\<rparr>,
      th_commands = command_channel_new, th_waits = waits, th_clients = clients\<rparr>"

text \<open>
  How a thread ends: every accepted command has its answer or a failed worker, and the worker is closed
  or torn down, as the completion says.
\<close>

definition thread_ended ::
  "('c, 'r, 't) worker_reporting \<Rightarrow> ('c, 'r, 't) thread_state \<Rightarrow> worker_completion \<Rightarrow> bool" where
  "thread_ended R th completion \<longleftrightarrow>
     wc_delivery_error completion = None
     \<and> (\<exists>n \<le> ch_issued (th_commands th). map fst (ch_responses (th_commands th)) = [0..<n])
     \<and> (\<forall>t. response_recv t (th_commands th) \<noteq> None)
     \<and> (case wc_terminal completion of
          TerminalClosed close \<Rightarrow> cc_performed close \<and> closed_ok R (ss_worker (th_step th))
        | TerminalFailed cause _ \<Rightarrow> (cause = CauseWait \<or> (\<exists>e. cause = CauseCore e))
            \<and> torn_down cause (ss_worker (th_step th)))"

lemma worker_inv_start:
  assumes "\<not> rp_has_pending R reporting" "status_settled status"
  shows "worker_inv R (from_open_transport transport reporting budget status)
    \<and> owed R (from_open_transport transport reporting budget status) = 0"
proof -
  have "set_lifecycle Lc_Open status = status\<lparr>st_lifecycle := Lc_Open\<rparr>"
    using assms(2) by (simp add: status_settled_def set_lifecycle_def emit_in_session_def)
  then show ?thesis
    using assms
    by (simp add: worker_inv_def attached_def from_open_transport_def lifecycle_new_def sessions_new_def
        status_shows_def context_ok_parts owed_def report_sender_new_def status_settled_def)
      (simp add: log_ok_def)
qed

lemma thread_ok_start:
  "\<not> rp_has_pending R reporting \<Longrightarrow> status_settled status \<Longrightarrow>
     thread_ok R (thread_start (from_open_transport transport reporting budget status) clock shutdown waits clients)"
  using worker_inv_start[of R reporting status transport budget]
  by (simp add: thread_ok_def thread_start_def debt_def) (simp add: command_channel_new_def)

context reporting_laws
begin

lemma thread_exit_ok:
  assumes "iteration_ok R th (Some completion)"
  shows "thread_ended R (thread_exit completion th) completion"
proof -
  obtain n where n: "n \<le> ch_issued (th_commands th)" "map fst (ch_responses (th_commands th)) = [0..<n]"
    using assms channel_ok_prefix by (auto simp: iteration_ok_def)
  have channel: "th_commands (thread_exit completion th) = drop_receiver (th_commands th)"
    by (simp add: thread_exit_def Let_def split: worker_terminal.splits)
  have shown: "ss_worker (th_step (thread_exit completion th)) = ss_worker (th_step th)"
    using assms
    by (auto simp: thread_exit_def Let_def iteration_ok_def torn_down_def status_fail_again
        split: worker_terminal.splits)
  have answered: "response_recv t (drop_receiver ch) \<noteq> None" for t and ch :: "'c runtime_command command_channel"
    by (simp add: response_recv_def drop_receiver_def awaited_def split: option.split)
  show ?thesis
    using assms n shown answered
    by (auto simp: thread_ended_def channel iteration_ok_def drop_receiver_def split: worker_terminal.splits)
qed

lemma run_started_worker_ok:
  assumes "thread_ok R th" "run_started_worker R E fuel th = (th', Some completion)"
  shows "thread_ended R th' completion"
proof -
  obtain th1 where loop: "run_worker_loop R E fuel th = (th1, Some completion)" and th': "th' = thread_exit completion th1"
    using assms(2) by (auto simp: run_started_worker_def split: prod.splits option.splits)
  show ?thesis
    unfolding th' by (rule thread_exit_ok) (rule run_worker_loop_ok[OF assms(1) loop])
qed

end

lemma run_started_worker_ends:
  assumes "ss_shutdown (th_step th) k = Some request" "k < fuel"
  shows "\<exists>th' completion. run_started_worker R E fuel th = (th', Some completion)"
  using run_worker_loop_ends[OF assms, of R E]
  by (cases "run_worker_loop R E fuel th"; cases "snd (run_worker_loop R E fuel th)")
    (auto simp: run_started_worker_def Let_def)

end
