(* ===== verification/Owner.thy ===== *)
theory Owner
  imports ErrorMap ThreadInvariant
begin

text \<open>
  The controller's end of a worker: \<open>WorkerOwner\<close> of \<open>src/runtime/worker_thread.rs\<close> and the guards of
  \<open>src/controller/runtime.rs\<close>, composed with the running thread.

  The client side is synchronous (\<open>Controller\<close> is not \<open>Sync\<close> and every call blocks), so the state of the
  pair is one value: the thread's state, the shutdown cell both ends share, the message in the completion
  channel, and whether the client still holds its command sender.  While the client does something else
  the worker may run any number of iterations (\<open>worker_runs\<close>); while the client waits for a response it
  runs until the response is there (\<open>await_response\<close>, on fuel); and when the client asks for a shutdown,
  \<open>delay\<close> says how many more polls of the cell the worker makes before it sees the request.
\<close>

record ('c, 'r, 't) worker_owner =
  ow_commands :: bool
  ow_shutdown :: shutdown_state
  ow_thread :: "('c, 'r, 't) thread_state"
  ow_completion :: "worker_completion option"

text \<open>What the next polls of the cell answer when its present content becomes visible after \<open>delay\<close> of them.\<close>

definition shutdown_polls :: "shutdown_state \<Rightarrow> nat \<Rightarrow> nat \<Rightarrow> shutdown_request option" where
  "shutdown_polls s delay n = (case s of SdRequested r \<Rightarrow> if n = delay then Some r else None | _ \<Rightarrow> None)"

lemma shutdown_polls_take:
  "shutdown_polls s 0 0 = snd (take_shutdown s)"
  "(\<lambda>n. shutdown_polls s 0 (Suc n)) = shutdown_polls (fst (take_shutdown s)) 0"
  "shutdown_polls s (Suc d) 0 = None" "(\<lambda>n. shutdown_polls s (Suc d) (Suc n)) = shutdown_polls s d"
  by (cases s; simp add: shutdown_polls_def fun_eq_iff)+

definition owner_start :: "('r, 't) worker_core \<Rightarrow> (nat \<Rightarrow> duration) \<Rightarrow> (nat \<Rightarrow> bool) \<Rightarrow> ('c, 'r, 't) worker_owner" where
  "owner_start w clock waits =
     \<lparr>ow_commands = True, ow_shutdown = SdRunning,
      ow_thread = \<lparr>th_step = \<lparr>ss_worker = w, ss_progress = step_progress_new, ss_clock = clock,
           ss_shutdown = shutdown_polls SdRunning 0\<rparr>,
         th_commands = command_channel_new, th_waits = waits, th_clients = (\<lambda>_. [])\<rparr>,
      ow_completion = None\<rparr>"

text \<open>One iteration of a thread that still runs.\<close>

definition worker_runs_once ::
  "('c, 'r, 't) worker_reporting \<Rightarrow> 't env \<Rightarrow> ('c, 'r, 't) worker_owner \<Rightarrow> ('c, 'r, 't) worker_owner" where
  "worker_runs_once R E ow =
     (if ow_completion ow \<noteq> None then ow
      else case loop_iteration R E (ow_thread ow) of
        (th, None) \<Rightarrow> ow\<lparr>ow_thread := th\<rparr>
      | (th, Some completion) \<Rightarrow> ow\<lparr>ow_thread := thread_exit completion th, ow_completion := Some completion\<rparr>)"

definition worker_runs ::
  "('c, 'r, 't) worker_reporting \<Rightarrow> 't env \<Rightarrow> nat \<Rightarrow> ('c, 'r, 't) worker_owner \<Rightarrow> ('c, 'r, 't) worker_owner" where
  "worker_runs R E n = (worker_runs_once R E ^^ n)"

definition owner_try_enqueue ::
  "'c runtime_command \<Rightarrow> ('c, 'r, 't) worker_owner
   \<Rightarrow> ('c, 'r, 't) worker_owner \<times> (ticket, command_enqueue_error) result" where
  "owner_try_enqueue command ow =
     (if \<not> ow_commands ow then (ow, Inl EnqueueDisconnected)
      else case try_enqueue command (th_commands (ow_thread ow)) of
        (ch, result) \<Rightarrow> (ow\<lparr>ow_thread := (ow_thread ow)\<lparr>th_commands := ch\<rparr>\<rparr>, result))"

text \<open>A blocked \<open>recv\<close>: \<open>None\<close> when the fuel ends before the response.\<close>

fun await_response ::
  "('c, 'r, 't) worker_reporting \<Rightarrow> 't env \<Rightarrow> nat \<Rightarrow> ticket \<Rightarrow> ('c, 'r, 't) worker_owner
   \<Rightarrow> ('c, 'r, 't) worker_owner \<times> (command_result, command_response_error) result option" where
  "await_response R E fuel t ow =
     (case response_recv t (th_commands (ow_thread ow)) of
        Some response \<Rightarrow> (ow, Some response)
      | None \<Rightarrow>
          (case fuel of
             0 \<Rightarrow> (ow, None)
           | Suc fuel' \<Rightarrow> await_response R E fuel' t (worker_runs_once R E ow)))"

declare await_response.simps [simp del]

text \<open>
  \<open>WorkerThread::finish\<close> on the pair: the completion is received when the thread has published it, then
  the thread is joined; \<open>join\<close> is what the join returns.  \<open>None\<close> when the fuel ends first.
\<close>

definition finish_owner_thread ::
  "('c, 'r, 't) worker_reporting \<Rightarrow> 't env \<Rightarrow> nat \<Rightarrow> (unit, worker_join_error) result \<Rightarrow> ('c, 'r, 't) worker_owner
   \<Rightarrow> ('c, 'r, 't) worker_owner \<times> worker_thread_outcome option" where
  "finish_owner_thread R E fuel join ow =
     (case ow_completion ow of
        Some completion \<Rightarrow> (ow, Some (finish_thread (Some completion) join))
      | None \<Rightarrow>
          (case run_started_worker R E fuel (ow_thread ow) of
             (th, None) \<Rightarrow> (ow\<lparr>ow_thread := th\<rparr>, None)
           | (th, Some completion) \<Rightarrow>
               (ow\<lparr>ow_thread := th, ow_completion := Some completion\<rparr>, Some (finish_thread (Some completion) join))))"

definition owner_request_shutdown ::
  "shutdown_request \<Rightarrow> nat \<Rightarrow> ('c, 'r, 't) worker_owner \<Rightarrow> ('c, 'r, 't) worker_owner" where
  "owner_request_shutdown request delay ow =
     (let s = fst (request_shutdown request (ow_shutdown ow)) in
      ow\<lparr>ow_commands := False, ow_shutdown := s,
         ow_thread := (ow_thread ow)\<lparr>th_step := (th_step (ow_thread ow))\<lparr>ss_shutdown := shutdown_polls s delay\<rparr>\<rparr>\<rparr>)"

definition finish_explicit ::
  "('c, 'r, 't) worker_reporting \<Rightarrow> 't env \<Rightarrow> nat \<Rightarrow> nat \<Rightarrow> (unit, worker_join_error) result \<Rightarrow> close_mode
   \<Rightarrow> ('c, 'r, 't) worker_owner \<Rightarrow> ('c, 'r, 't) worker_owner \<times> worker_thread_outcome option" where
  "finish_explicit R E fuel delay join mode ow =
     finish_owner_thread R E fuel join (owner_request_shutdown (ShutdownExplicit mode) delay ow)"

definition finish_terminal ::
  "('c, 'r, 't) worker_reporting \<Rightarrow> 't env \<Rightarrow> nat \<Rightarrow> (unit, worker_join_error) result
   \<Rightarrow> ('c, 'r, 't) worker_owner \<Rightarrow> ('c, 'r, 't) worker_owner \<times> worker_thread_outcome option" where
  "finish_terminal R E fuel join ow = finish_owner_thread R E fuel join (ow\<lparr>ow_commands := False\<rparr>)"

text \<open>
  \<open>Drop\<close>: the request is made and the completion awaited for a bounded time.  The worker makes \<open>runs\<close>
  iterations in that time; the thread is joined if it has completed by then and is left to itself otherwise.
\<close>

definition drop_owner ::
  "('c, 'r, 't) worker_reporting \<Rightarrow> 't env \<Rightarrow> nat \<Rightarrow> nat \<Rightarrow> ('c, 'r, 't) worker_owner \<Rightarrow> ('c, 'r, 't) worker_owner" where
  "drop_owner R E runs delay ow = worker_runs R E runs (owner_request_shutdown ShutdownDropped delay ow)"

section \<open>The invariant between client calls\<close>

text \<open>
  Between two calls of the client nothing is pending in the command channel, no shutdown has been asked
  for, and the thread runs or has failed.
\<close>

definition quiet :: "('c, 'r, 't) thread_state \<Rightarrow> bool" where
  "quiet th \<longleftrightarrow> ss_shutdown (th_step th) = (\<lambda>_. None) \<and> th_clients th = (\<lambda>_. [])"

definition owner_running :: "('c, 'r, 't) worker_reporting \<Rightarrow> ('c, 'r, 't) worker_owner \<Rightarrow> bool" where
  "owner_running R ow \<longleftrightarrow>
     ow_commands ow \<and> ow_shutdown ow = SdRunning \<and> quiet (ow_thread ow)
     \<and> (case ow_completion ow of
          None \<Rightarrow> thread_ok R (ow_thread ow)
        | Some completion \<Rightarrow> thread_ended R (ow_thread ow) completion \<and> \<not> ch_receiver_alive (th_commands (ow_thread ow))
            \<and> pending_tickets (th_commands (ow_thread ow)) = []
            \<and> (\<exists>cause cleanup. wc_terminal completion = TerminalFailed cause cleanup))"

definition owner_ok :: "('c, 'r, 't) worker_reporting \<Rightarrow> ('c, 'r, 't) worker_owner \<Rightarrow> bool" where
  "owner_ok R ow \<longleftrightarrow> owner_running R ow \<and> pending_tickets (th_commands (ow_thread ow)) = []"

lemma client_turn_quiet: "quiet th \<Longrightarrow> client_turn th = th"
  by (simp add: quiet_def client_turn_def)

text \<open>Delivering and taking commands issues no ticket.\<close>

lemma channel_issued [simp]:
  "ch_issued (fst (try_next ch)) = ch_issued ch"
  "ch_issued (fst (deliver results ch)) = ch_issued ch"
  "ch_issued (fst (deliver_completion result ch)) = ch_issued ch"
  "ch_issued (fst (deliver_progress taken ch)) = ch_issued ch"
proof -
  show deliver: "ch_issued (fst (deliver results ch)) = ch_issued ch" for results ch
    by (induction results ch rule: deliver.induct) (auto simp: completion_respond_def split: option.split)
  show "ch_issued (fst (deliver_completion result ch)) = ch_issued ch" for result
    by (simp add: deliver_completion_def deliver del: deliver.simps)
  then show "ch_issued (fst (deliver_progress taken ch)) = ch_issued ch"
    by (simp add: deliver_progress_def split: option.split)
  show "ch_issued (fst (try_next ch)) = ch_issued ch"
    by (simp add: try_next_def split: option.split)
qed

lemma thread_step_quiet:
  assumes "thread_step R E th = (th', outcome)" "quiet th"
  shows "quiet th' \<and> (\<forall>completion interrupted. outcome \<noteq> StepClosed completion interrupted)
    \<and> ch_issued (th_commands th') = ch_issued (th_commands th)"
proof -
  obtain taken next_command where offered: "try_next (th_commands th) = (taken, next_command)"
    by fastforce
  obtain ss out where run: "step_runtime R E next_command (th_step th) = (ss, Some out)"
    using step_returns[of R E next_command "th_step th"]
    by (cases "step_runtime R E next_command (th_step th)") auto
  have th': "th' = th\<lparr>th_step := ss, th_commands := (if pg_commands (ss_progress ss) = 0 then th_commands th else taken)\<rparr>"
    "outcome = out"
    using assms(1) by (auto simp: thread_step_def offered run)
  have "phase_polled 1 (th_step th) (ss, Some out)"
    using step_runtime_polled[of "th_step th" R E next_command] by (simp add: run)
  then have "ss_shutdown ss = (\<lambda>_. None) \<and> (\<forall>completion interrupted. out \<noteq> StepClosed completion interrupted)"
    using assms(2) by (auto simp: phase_polled_cases took_def polled_def quiet_def split: if_splits)
  then show ?thesis
    using assms(2) channel_issued(1)[of "th_commands th"] by (simp add: th' quiet_def offered)
qed

lemma complete_worker_failure_quiet:
  assumes "complete_worker_failure R E cause d th = (th', result)" "quiet th"
  shows "quiet th' \<and> th_commands th' = th_commands th
    \<and> (\<exists>cleanup. result = Some \<lparr>wc_terminal = TerminalFailed cause cleanup, wc_delivery_error = d\<rparr>)"
  using assms by (auto simp: complete_worker_failure_def clock_now_def quiet_def Let_def split: prod.splits)

lemma wait_quiet:
  assumes "wait_for_next_iteration pg th = (th', result)" "quiet th"
  shows "quiet th' \<and> th_commands th' = th_commands th"
  using assms by (auto simp: wait_for_next_iteration_def clock_now_def quiet_def Let_def split: option.splits if_splits)

lemma loop_iteration_quiet:
  assumes "loop_iteration R E th = (th', result)" "quiet th"
  shows "quiet th' \<and> ch_issued (th_commands th') = ch_issued (th_commands th)
    \<and> (\<forall>completion close. result = Some completion \<longrightarrow> wc_terminal completion \<noteq> TerminalClosed close)"
proof -
  obtain th1 outcome where "thread_step R E th = (th1, outcome)"
    by fastforce
  then have step: "thread_step R E (client_turn th) = (th1, outcome)" and
    quiet1: "quiet th1" "ch_issued (th_commands th1) = ch_issued (th_commands th)"
      "\<forall>close interrupted. outcome \<noteq> StepClosed close interrupted"
    using thread_step_quiet[OF _ assms(2)] client_turn_quiet[OF assms(2)] by auto
  obtain commands delivered where
    delivered: "deliver_progress (pg_command_result (ss_progress (th_step th1))) (th_commands th1) = (commands, delivered)"
    by fastforce
  let ?th = "th1\<lparr>th_commands := commands\<rparr>"
  have quiet2: "quiet ?th" "ch_issued commands = ch_issued (th_commands th)"
    using quiet1 channel_issued(4)[of "pg_command_result (ss_progress (th_step th1))" "th_commands th1"] delivered
    by (auto simp: quiet_def)
  from assms(1) step delivered show ?thesis
  proof (cases rule: loop_iteration_cases)
    case (undelivered e)
    then show ?thesis
      using complete_worker_failure_quiet[OF undelivered(3) quiet2(1)] quiet2(2) by auto
  next
    case (unwaited th2 u)
    then show ?thesis
      using complete_worker_failure_quiet[OF unwaited(4)] wait_quiet[OF unwaited(3) quiet2(1)] quiet2(2) by auto
  next
    case (continued u)
    then show ?thesis
      using wait_quiet[OF continued(3) quiet2(1)] quiet2(2) by simp
  next
    case (failed e)
    then show ?thesis
      using complete_worker_failure_quiet[OF failed(2) quiet2(1)] quiet2(2) by auto
  qed (use quiet1 in simp)
qed

lemma thread_exit_quiet [simp]:
  "quiet (thread_exit completion th) = quiet th"
  "ch_issued (th_commands (thread_exit completion th)) = ch_issued (th_commands th)"
  "\<not> ch_receiver_alive (th_commands (thread_exit completion th))"
  "pending_tickets (th_commands (thread_exit completion th)) = []"
  by (simp_all add: thread_exit_def quiet_def Let_def drop_receiver_def pending_tickets_def split: worker_terminal.split)

context reporting_laws
begin

lemma worker_runs_once_ok:
  assumes "owner_running R ow"
  shows "owner_running R (worker_runs_once R E ow)
    \<and> ch_issued (th_commands (ow_thread (worker_runs_once R E ow))) = ch_issued (th_commands (ow_thread ow))"
proof (cases "ow_completion ow")
  case None
  obtain th result where it: "loop_iteration R E (ow_thread ow) = (th, result)"
    by fastforce
  have running: "thread_ok R (ow_thread ow)" "quiet (ow_thread ow)"
    using assms None by (simp_all add: owner_running_def)
  note ok = loop_iteration_ok[OF running(1) it] and quiet = loop_iteration_quiet[OF it running(2)]
  show ?thesis
  proof (cases result)
    case None
    then show ?thesis
      using assms ok quiet \<open>ow_completion ow = None\<close>
      by (simp add: worker_runs_once_def it owner_running_def iteration_ok_def)
  next
    case (Some completion)
    then show ?thesis
      using assms thread_exit_ok[of th completion] ok quiet \<open>ow_completion ow = None\<close>
      by (cases "wc_terminal completion") (auto simp: worker_runs_once_def it owner_running_def)
  qed
qed (use assms in \<open>simp add: worker_runs_once_def\<close>)


lemma worker_runs_ok: "owner_running R ow \<Longrightarrow> owner_running R (worker_runs R E n ow)"
  by (induction n) (simp_all add: worker_runs_def worker_runs_once_ok)

lemma owner_try_enqueue_ok:
  assumes "owner_ok R ow" "owner_try_enqueue command ow = (ow', result)"
  shows "result \<noteq> Inl EnqueueInvariantViolation \<and> (result = Inl EnqueueDisconnected \<longleftrightarrow> ow_completion ow \<noteq> None)
    \<and> (result = Inl EnqueueDisconnected \<longrightarrow> ow' = ow)
    \<and> (\<forall>t. result = Inr t \<longrightarrow> owner_running R ow' \<and> ch_issued (th_commands (ow_thread ow')) = Suc t)"
proof -
  let ?ch = "th_commands (ow_thread ow)"
  have running: "owner_running R ow" and empty: "ch_slot ?ch = None" "ch_in_flight ?ch = None"
    using assms(1) by (auto simp: owner_ok_def pending_tickets_def split: option.splits)
  show ?thesis
  proof (cases "ow_completion ow")
    case None
    then have ok: "thread_ok R (ow_thread ow)" "ch_receiver_alive ?ch"
      using running by (auto simp: owner_running_def thread_ok_def channel_ok_def)
    obtain ch result' where enqueue: "try_enqueue command ?ch = (ch, result')"
      by fastforce
    have "ow' = ow\<lparr>ow_thread := (ow_thread ow)\<lparr>th_commands := ch\<rparr>\<rparr>" "result = result'"
      using assms(2) running by (simp_all add: owner_try_enqueue_def owner_running_def enqueue)
    moreover have "result' = Inr (ch_issued ?ch)" "ch_issued ch = Suc (ch_issued ?ch)"
      using enqueue ok(2) empty by (auto simp: try_enqueue_def notify_def Let_def)
    moreover have "thread_ok R ((ow_thread ow)\<lparr>th_commands := ch\<rparr>)"
      using ok(1) channel_ok_enqueue[of ?ch command] debt_enqueue[of command ?ch] enqueue by (simp add: thread_ok_def)
    ultimately show ?thesis
      using running None by (auto simp: owner_running_def quiet_def)
  next
    case (Some completion)
    then show ?thesis
      using running assms(2)
      by (auto simp: owner_running_def owner_try_enqueue_def try_enqueue_def Let_def)
  qed
qed

lemma answered_last:
  assumes "channel_ok ch" "ch_issued ch = Suc t" "response_recv t ch = Some response"
  shows "pending_tickets ch = []"
proof (rule ccontr)
  assume "pending_tickets ch \<noteq> []"
  moreover have split: "map fst (ch_responses ch) @ pending_tickets ch = [0..<Suc t]"
    using assms(1,2) by (simp add: channel_ok_def)
  ultimately have "last (pending_tickets ch) = t"
    by (metis last_appendR last_snoc upt_Suc_append zero_le)
  then have pending: "t \<in> set (pending_tickets ch)"
    using \<open>pending_tickets ch \<noteq> []\<close> last_in_set by metis
  moreover have "distinct (map fst (ch_responses ch) @ pending_tickets ch)"
    unfolding split by simp
  ultimately have "map_of (ch_responses ch) t = None"
    by (auto simp: map_of_eq_None_iff)
  moreover have "t \<in> awaited ch"
    using pending by (auto simp: awaited_def pending_tickets_def split: option.splits)
  ultimately show False
    using assms(3) by (simp add: response_recv_def)
qed

lemma await_response_ok:
  assumes "owner_running R ow" "ch_issued (th_commands (ow_thread ow)) = Suc t"
    and "await_response R E fuel t ow = (ow', Some response)"
  shows "owner_ok R ow'"
  using assms
proof (induction fuel arbitrary: ow)
  case 0
  then show ?case
    using answered_last[of "th_commands (ow_thread ow)" t response]
    by (auto simp: await_response.simps[of R E 0] owner_ok_def owner_running_def thread_ok_def split: option.splits)
next
  case (Suc fuel)
  show ?case
  proof (cases "response_recv t (th_commands (ow_thread ow))")
    case None
    then show ?thesis
      using Suc.IH[of "worker_runs_once R E ow"] Suc.prems worker_runs_once_ok[OF Suc.prems(1)]
      by (simp add: await_response.simps[of R E "Suc fuel"])
  next
    case (Some r)
    then show ?thesis
      using Suc.prems answered_last[of "th_commands (ow_thread ow)" t r]
      by (auto simp: await_response.simps[of R E "Suc fuel"] owner_ok_def owner_running_def thread_ok_def
          split: option.splits)
  qed
qed

section \<open>Finishing\<close>

text \<open>A worker asked to stop ends within \<open>delay + 1\<close> iterations and leaves its account.\<close>

lemma owner_request_shutdown_fields:
  assumes "owner_running R ow"
  shows "ow_completion (owner_request_shutdown (ShutdownExplicit mode) delay ow) = ow_completion ow"
    "th_commands (ow_thread (owner_request_shutdown (ShutdownExplicit mode) delay ow)) = th_commands (ow_thread ow)"
    "ss_worker (th_step (ow_thread (owner_request_shutdown (ShutdownExplicit mode) delay ow)))
       = ss_worker (th_step (ow_thread ow))"
    "ss_shutdown (th_step (ow_thread (owner_request_shutdown (ShutdownExplicit mode) delay ow))) delay
       = Some (ShutdownExplicit mode)"
  using assms by (simp_all add: owner_request_shutdown_def owner_running_def shutdown_polls_def Let_def)

text \<open>Whatever fuel it took, a finish that returns has ended the thread.\<close>

lemma finish_explicit_ends:
  assumes "owner_running R ow" "finish_explicit R E fuel delay join mode ow = (ow', Some outcome)"
  shows "\<exists>completion. outcome = finish_thread (Some completion) join
    \<and> ow_completion ow' = Some completion \<and> thread_ended R (ow_thread ow') completion"
proof -
  let ?ow = "owner_request_shutdown (ShutdownExplicit mode) delay ow"
  note fields = owner_request_shutdown_fields[OF assms(1), of mode delay]
  show ?thesis
  proof (cases "ow_completion ow")
    case None
    then have ok: "thread_ok R (ow_thread ?ow)"
      using assms(1) fields by (simp add: owner_running_def thread_ok_def)
    obtain th result where run: "run_started_worker R E fuel (ow_thread ?ow) = (th, result)"
      by fastforce
    then obtain completion where "result = Some completion"
      using assms(2) fields(1) None by (cases result) (auto simp: finish_explicit_def finish_owner_thread_def)
    then show ?thesis
      using assms(2) fields(1) None run run_started_worker_ok[OF ok, of fuel th completion]
      by (auto simp: finish_explicit_def finish_owner_thread_def)
  next
    case (Some completion)
    then show ?thesis
      using assms fields by (auto simp: finish_explicit_def finish_owner_thread_def owner_running_def thread_ended_def)
  qed
qed

lemma finish_explicit_ok:
  assumes "owner_running R ow" "delay < fuel"
  shows "\<exists>ow' completion. finish_explicit R E fuel delay join mode ow = (ow', Some (finish_thread (Some completion) join))
    \<and> ow_completion ow' = Some completion \<and> thread_ended R (ow_thread ow') completion"
proof -
  let ?ow = "owner_request_shutdown (ShutdownExplicit mode) delay ow"
  obtain th completion where "run_started_worker R E fuel (ow_thread ?ow) = (th, Some completion)"
    using run_started_worker_ends[OF owner_request_shutdown_fields(4)[OF assms(1)] assms(2), of R E] by blast
  then obtain ow' outcome where "finish_explicit R E fuel delay join mode ow = (ow', Some outcome)"
    by (cases "ow_completion ?ow") (auto simp: finish_explicit_def finish_owner_thread_def)
  then show ?thesis
    using finish_explicit_ends[OF assms(1)] by blast
qed

end

lemma owner_start_ok:
  assumes "\<not> rp_has_pending R reporting" "status_settled status"
  shows "owner_ok R (owner_start (from_open_transport transport reporting budget status) clock waits)"
proof -
  let ?w = "from_open_transport transport reporting budget status"
  have "thread_ok R (thread_start ?w clock (\<lambda>_. None) waits (\<lambda>_. []))"
    by (rule thread_ok_start[OF assms])
  then show ?thesis
    by (simp add: owner_ok_def owner_running_def owner_start_def quiet_def thread_ok_def thread_start_def
        shutdown_polls_def fun_eq_iff) (simp add: command_channel_new_def pending_tickets_def)
qed

end
