(* ===== verification/Controller.thy ===== *)
theory Controller
  imports ControllerConfig Owner
begin

text \<open>
  The public controller: opening and tearing down a runtime (\<open>src/controller/runtime.rs\<close>), blocking
  requests (\<open>ControllerRuntime\<close> in \<open>create.rs\<close>), profile creation and the operations of \<open>Controller\<close>
  (\<open>src/controller/mod.rs\<close>).

  \<open>platform\<close> holds what the surroundings decide: the transport that a factory returns, its operations,
  IEEE arithmetic, the clock and the waiter of the worker, whether the operating system can start the
  thread, what a join returns, how long the worker needs to see a shutdown (\<open>pf_delay\<close>) and how many
  iterations a blocking call is followed for (\<open>pf_fuel\<close>); an operation that needs more returns \<open>None\<close>.
  The status projection is shared by the controller and its worker; it is the worker's while one exists.
\<close>

record factory_config =
  fc_selector :: string
  fc_transport :: transport_config
  fc_profile_key_store :: "string option"   \<comment> \<open>the persistent path of \<open>ProfileKeyStoreFactory::for_model\<close>\<close>
  fc_identity :: profile_identity

record 't platform =
  pf_floats :: f64_ops
  pf_transport :: "'t transport_port"
  pf_factory :: "factory_config \<Rightarrow> ('t, error) result"
  pf_clock :: "nat \<Rightarrow> duration"
  pf_waits :: "nat \<Rightarrow> bool"
  pf_spawns :: bool
  pf_join :: "(unit, worker_join_error) result"
  pf_delay :: nat
  pf_fuel :: nat

definition factory_config_from_controller :: "controller_kind \<Rightarrow> 'g controller_config \<Rightarrow> factory_config" where
  "factory_config_from_controller m config =
     \<lparr>fc_selector = cf_adapter config, fc_transport = transport_config_for_model m,
      fc_profile_key_store = persistent_path (cf_profile config),
      fc_identity = profile_config_identity (cf_profile config)\<rparr>"

section \<open>Opening\<close>

definition with_cleanup_error :: "error \<Rightarrow> (unit, error) result \<Rightarrow> error" where
  "with_cleanup_error primary cleanup =
     (case cleanup of Inr _ \<Rightarrow> primary | Inl cleanup \<Rightarrow> with_related primary cleanup)"

definition map_transport_open_error :: "transport_error \<Rightarrow> error" where
  "map_transport_open_error source =
     (if source = Te_AdapterIdentityRecoveryRequired then new_error AdapterIdentityRecoveryRequired
      else new_error TransportOpen)"

definition map_worker_spawn_error :: "cleanup_failure option \<Rightarrow> error" where
  "map_worker_spawn_error cleanup =
     (let error = new_error WorkerFailed in
      case cleanup of None \<Rightarrow> error | Some cleanup \<Rightarrow> with_related error (map_cleanup_error cleanup))"

definition unowned_drain_timeout :: duration where "unowned_drain_timeout = from_secs 1"

definition poll_batch_budget :: nat where "poll_batch_budget = 4"

definition cleanup_unowned_transport :: "'t transport_port \<Rightarrow> 't \<Rightarrow> 't \<times> (unit, error) result" where
  "cleanup_unowned_transport T t =
     (case t_drain_interrupt T unowned_drain_timeout t of
        (t, drained) \<Rightarrow>
          (case t_disconnect T t of
             (t, disconnected) \<Rightarrow>
               (case t_close T t of
                  (t, closed) \<Rightarrow>
                    let failure = record_first_failure None PhaseDrainInterrupt drained;
                        failure = record_first_failure failure PhaseDisconnect disconnected;
                        failure = record_first_failure failure PhaseTransportClose closed
                    in (t, case failure of None \<Rightarrow> Inr () | Some failure \<Rightarrow> Inl (map_cleanup_error failure)))))"

text \<open>A running worker with the environment its steps use.\<close>

record ('c, 'r, 't) runtime =
  rt_env :: "'t env"
  rt_owner :: "('c, 'r, 't) worker_owner"

text \<open>
  How opening ends: the status projection, and the runtime or the error with the transport as it was left
  (when one had been made).
\<close>

record ('c, 'r, 't) opened_runtime =
  op_status :: status_projection
  op_left :: "'t option"
  op_result :: "(('c, 'r, 't) runtime, error) result"

text \<open>\<open>spawn_worker_thread\<close> when the operating system refuses the thread.\<close>

definition spawn_failed ::
  "('c, 'r, 't) worker_reporting \<Rightarrow> 't env \<Rightarrow> duration \<Rightarrow> ('r, 't) worker_core \<Rightarrow> ('c, 'r, 't) opened_runtime" where
  "spawn_failed R E now w =
     (case cleanup_unspawned_without_neutral R E now w of
        (w, outcome) \<Rightarrow>
          let cleanup = (case outcome of StepClosed completion _ \<Rightarrow> err_of (finish_cleanup_without_join completion) | _ \<Rightarrow> None)
          in \<lparr>op_status = status_fail ''worker spawn failed'' InternalFailure (cx_status (wk_cx w)),
              op_left = Some (cx_transport (wk_cx w)), op_result = Inl (map_worker_spawn_error cleanup)\<rparr>)"

text \<open>\<open>None\<close> is the panic of \<open>build_worker\<close>.\<close>

definition open_runtime_owner ::
  "('c, 'r, 't) worker_reporting \<Rightarrow> ('o, 'g, 'c, 'r) reporting_mode \<Rightarrow> 't platform \<Rightarrow> controller_kind
   \<Rightarrow> 'g controller_config \<Rightarrow> status_projection \<Rightarrow> ('c, 'r, 't) opened_runtime option" where
  "open_runtime_owner R mode P m config status =
     (case pf_factory P (factory_config_from_controller m config) of
        Inl e \<Rightarrow> Some \<lparr>op_status = status, op_left = None, op_result = Inl e\<rparr>
      | Inr t \<Rightarrow>
          (case t_open (pf_transport P) t of
             (t, Inl source) \<Rightarrow>
               (case cleanup_unowned_transport (pf_transport P) t of
                  (t, cleanup) \<Rightarrow>
                    Some \<lparr>op_status = status, op_left = Some t,
                      op_result = Inl (with_cleanup_error (map_transport_open_error source) cleanup)\<rparr>)
           | (t, Inr capabilities) \<Rightarrow>
               if \<not> cap_classic_capable capabilities
               then (case cleanup_unowned_transport (pf_transport P) t of
                  (t, cleanup) \<Rightarrow>
                    Some \<lparr>op_status = status, op_left = Some t,
                      op_result = Inl (with_cleanup_error (new_error TransportOpen) cleanup)\<rparr>)
               else
                 let E = \<lparr>env_floats = pf_floats P, env_model = m,
                            env_protocol = switch_hid_protocol_new m (Some (cf_colors config))
                              (cap_local_address capabilities),
                            env_transport = pf_transport P\<rparr>
                 in map_option (\<lambda>reporting.
                      let w = from_open_transport t reporting poll_batch_budget status in
                      if pf_spawns P
                      then \<lparr>op_status = cx_status (wk_cx w), op_left = None,
                            op_result = Inr \<lparr>rt_env = E, rt_owner = owner_start w (pf_clock P) (pf_waits P)\<rparr>\<rparr>
                      else spawn_failed R E (pf_clock P 0) w)
                    (md_build_state mode (cf_mode config))))"

section \<open>Requests\<close>

definition runtime_status :: "('c, 'r, 't) runtime \<Rightarrow> status_projection" where
  "runtime_status rt = cx_status (wk_cx (ss_worker (th_step (ow_thread (rt_owner rt)))))"

text \<open>Enqueue, block on the response, and map what comes back.\<close>

definition runtime_exchange ::
  "('c, 'r, 't) worker_reporting \<Rightarrow> 't platform \<Rightarrow> 'c runtime_command \<Rightarrow> ('c, 'r, 't) runtime
   \<Rightarrow> ('c, 'r, 't) runtime \<times> (unit, error) result option" where
  "runtime_exchange R P command rt =
     (case owner_try_enqueue command (rt_owner rt) of
        (ow, Inl e) \<Rightarrow> (rt\<lparr>rt_owner := ow\<rparr>, Some (Inl (map_enqueue_error e)))
      | (ow, Inr t) \<Rightarrow>
          (case await_response R (rt_env rt) (pf_fuel P) t ow of
             (ow, None) \<Rightarrow> (rt\<lparr>rt_owner := ow\<rparr>, None)
           | (ow, Some (Inl e)) \<Rightarrow> (rt\<lparr>rt_owner := ow\<rparr>, Some (Inl (map_response_error e)))
           | (ow, Some (Inr result)) \<Rightarrow> (rt\<lparr>rt_owner := ow\<rparr>, Some (map_err map_command_error result))))"

definition runtime_request ::
  "('c, 'r, 't) worker_reporting \<Rightarrow> 't platform \<Rightarrow> 'c \<Rightarrow> ('c, 'r, 't) runtime
   \<Rightarrow> ('c, 'r, 't) runtime \<times> (unit, error) result option" where
  "runtime_request R P command rt = runtime_exchange R P (InputCommand command) rt"

definition runtime_pair ::
  "('c, 'r, 't) worker_reporting \<Rightarrow> 't platform \<Rightarrow> duration \<Rightarrow> ('c, 'r, 't) runtime
   \<Rightarrow> ('c, 'r, 't) runtime \<times> (unit, error) result option" where
  "runtime_pair R P timeout rt =
     (case validate_connection_timeout timeout of
        Inl e \<Rightarrow> (rt, Some (Inl e))
      | Inr _ \<Rightarrow> runtime_exchange R P (Pair timeout) rt)"

definition runtime_reconnect ::
  "('c, 'r, 't) worker_reporting \<Rightarrow> 't platform \<Rightarrow> duration \<Rightarrow> ('c, 'r, 't) runtime
   \<Rightarrow> ('c, 'r, 't) runtime \<times> (unit, error) result option" where
  "runtime_reconnect R P timeout rt =
     (case validate_connection_timeout timeout of
        Inl e \<Rightarrow> (rt, Some (Inl e))
      | Inr _ \<Rightarrow> runtime_exchange R P (Reconnect timeout) rt)"

definition runtime_close ::
  "('c, 'r, 't) worker_reporting \<Rightarrow> 't platform \<Rightarrow> close_mode \<Rightarrow> ('c, 'r, 't) runtime
   \<Rightarrow> ('c, 'r, 't) runtime \<times> (unit, error) result option" where
  "runtime_close R P mode rt =
     (case finish_explicit R (rt_env rt) (pf_fuel P) (pf_delay P) (pf_join P) mode (rt_owner rt) of
        (ow, outcome) \<Rightarrow> (rt\<lparr>rt_owner := ow\<rparr>, map_option map_worker_outcome outcome))"

section \<open>The guard of a runtime that is being created\<close>

text \<open>
  \<open>finish_terminal_owner\<close>: the worker has ended on its own; its outcome is the better error.  The owner is
  consumed, which the flag of the result of \<open>pair_to_ready\<close> records.
\<close>

definition finish_terminal_owner ::
  "('c, 'r, 't) worker_reporting \<Rightarrow> 't platform \<Rightarrow> ('c, 'r, 't) runtime \<Rightarrow> error
   \<Rightarrow> ('c, 'r, 't) runtime \<times> (unit, error) result option" where
  "finish_terminal_owner R P rt fallback =
     (case finish_terminal R (rt_env rt) (pf_fuel P) (pf_join P) (rt_owner rt) of
        (ow, outcome) \<Rightarrow>
          (rt\<lparr>rt_owner := ow\<rparr>,
           map_option (\<lambda>outcome. case map_worker_outcome outcome of Inr _ \<Rightarrow> Inl fallback | Inl e \<Rightarrow> Inl e) outcome))"

definition pair_to_ready ::
  "('c, 'r, 't) worker_reporting \<Rightarrow> 't platform \<Rightarrow> duration \<Rightarrow> ('c, 'r, 't) runtime
   \<Rightarrow> (('c, 'r, 't) runtime \<times> bool) \<times> (unit, error) result option" where
  "pair_to_ready R P timeout rt =
     (case validate_connection_timeout timeout of
        Inl e \<Rightarrow> ((rt, True), Some (Inl e))
      | Inr _ \<Rightarrow>
          (case owner_try_enqueue (Pair timeout) (rt_owner rt) of
             (ow, Inl EnqueueDisconnected) \<Rightarrow>
               (case finish_terminal_owner R P (rt\<lparr>rt_owner := ow\<rparr>) (map_enqueue_error EnqueueDisconnected) of
                  (rt, result) \<Rightarrow> ((rt, False), result))
           | (ow, Inl e) \<Rightarrow> ((rt\<lparr>rt_owner := ow\<rparr>, True), Some (Inl (map_enqueue_error e)))
           | (ow, Inr t) \<Rightarrow>
               (case await_response R (rt_env rt) (pf_fuel P) t ow of
                  (ow, response) \<Rightarrow>
                    let rt = rt\<lparr>rt_owner := ow\<rparr> in
                    (case response of
                       None \<Rightarrow> ((rt, True), None)
                     | Some (Inl e) \<Rightarrow>
                         (case finish_terminal_owner R P rt (map_response_error e) of
                            (rt, result) \<Rightarrow> ((rt, False), result))
                     | Some (Inr (Inl (CommandConnection connection))) \<Rightarrow>
                         if is_worker_failed connection
                         then (case finish_terminal_owner R P rt (map_command_error (CommandConnection connection)) of
                            (rt, result) \<Rightarrow> ((rt, False), result))
                         else ((rt, True), Some (Inl (map_command_error (CommandConnection connection))))
                     | Some (Inr result) \<Rightarrow> ((rt, True), Some (map_err map_command_error result))))))"

text \<open>\<open>cleanup_without_neutral\<close>; the flag says whether the guard still owns the worker.\<close>

definition cleanup_without_neutral ::
  "('c, 'r, 't) worker_reporting \<Rightarrow> 't platform \<Rightarrow> ('c, 'r, 't) runtime \<times> bool
   \<Rightarrow> ('c, 'r, 't) runtime \<times> (unit, error) result option" where
  "cleanup_without_neutral R P guard =
     (case guard of
        (rt, True) \<Rightarrow> runtime_close R P WithoutNeutral rt
      | (rt, False) \<Rightarrow> (rt, Some (Inr ())))"

text \<open>\<open>create_controller_runtime\<close>: \<open>None\<close> when the fuel ends or \<open>build_worker\<close> panics.\<close>

definition create_controller_runtime ::
  "('c, 'r, 't) worker_reporting \<Rightarrow> ('o, 'g, 'c, 'r) reporting_mode \<Rightarrow> 't platform \<Rightarrow> controller_kind
   \<Rightarrow> 'g controller_config \<Rightarrow> status_projection \<Rightarrow> duration \<Rightarrow> (('c, 'r, 't) runtime, error) result option" where
  "create_controller_runtime R mode P m config status timeout =
     Option.bind (open_runtime_owner R mode P m config status) (\<lambda>opened_runtime.
       case op_result opened_runtime of
         Inl e \<Rightarrow> Some (Inl e)
       | Inr rt \<Rightarrow>
           (case pair_to_ready R P timeout rt of
              (guard, None) \<Rightarrow> None
            | (guard, Some (Inr _)) \<Rightarrow> Some (Inr (fst guard))
            | (guard, Some (Inl primary)) \<Rightarrow>
                map_option (\<lambda>cleanup. Inl (with_cleanup_error primary cleanup))
                  (snd (cleanup_without_neutral R P guard))))"

section \<open>The controller\<close>

record ('g, 'c, 'r, 't) controller =
  ctl_runtime :: "('c, 'r, 't) runtime option"
  ctl_config :: "'g controller_config"
  ctl_status :: status_projection   \<comment> \<open>while no worker holds it\<close>

definition controller_from_config :: "'g controller_config \<Rightarrow> ('g, 'c, 'r, 't) controller" where
  "controller_from_config config = \<lparr>ctl_runtime = None, ctl_config = config, ctl_status = status_configured\<rparr>"

definition controller_status :: "('g, 'c, 'r, 't) controller \<Rightarrow> status_projection" where
  "controller_status c = (case ctl_runtime c of None \<Rightarrow> ctl_status c | Some rt \<Rightarrow> runtime_status rt)"

definition update_controller_status ::
  "(status_projection \<Rightarrow> status_projection) \<Rightarrow> ('g, 'c, 'r, 't) controller \<Rightarrow> ('g, 'c, 'r, 't) controller" where
  "update_controller_status f c =
     (case ctl_runtime c of
        None \<Rightarrow> c\<lparr>ctl_status := f (ctl_status c)\<rparr>
      | Some rt \<Rightarrow>
          let ow = rt_owner rt; th = ow_thread ow; ss = th_step th; w = ss_worker ss; cx = wk_cx w in
          c\<lparr>ctl_runtime := Some (rt\<lparr>rt_owner := ow\<lparr>ow_thread := th\<lparr>th_step := ss\<lparr>ss_worker := w\<lparr>wk_cx :=
             cx\<lparr>cx_status := f (cx_status cx)\<rparr>\<rparr>\<rparr>\<rparr>\<rparr>\<rparr>)\<rparr>)"

text \<open>\<open>Controller::button\<close>: an unsupported button is also reported to the diagnostics.\<close>

definition controller_button ::
  "controller_kind \<Rightarrow> button_kind \<Rightarrow> ('g, 'c, 'r, 't) controller \<Rightarrow> ('g, 'c, 'r, 't) controller \<times> (button_kind, error) result" where
  "controller_button m kind c =
     (case button_try_from m kind of
        Inr b \<Rightarrow> (c, Inr b)
      | Inl e \<Rightarrow> (update_controller_status (record_unsupported_button kind) c, Inl e))"

text \<open>\<open>open_with\<close>; \<open>None\<close> is the panic of \<open>build_worker\<close>.\<close>

definition controller_open ::
  "('c, 'r, 't) worker_reporting \<Rightarrow> ('o, 'g, 'c, 'r) reporting_mode \<Rightarrow> 't platform \<Rightarrow> controller_kind
   \<Rightarrow> ('g, 'c, 'r, 't) controller \<Rightarrow> ('g, 'c, 'r, 't) controller \<times> (unit, error) result option" where
  "controller_open R mode P m c =
     (case ctl_runtime c of
        Some _ \<Rightarrow> (c, Some (Inr ()))
      | None \<Rightarrow>
          (case open_runtime_owner R mode P m (ctl_config c) (ctl_status c) of
             None \<Rightarrow> (c, None)
           | Some opened_runtime \<Rightarrow>
               (case op_result opened_runtime of
                  Inl e \<Rightarrow> (c\<lparr>ctl_status := op_status opened_runtime\<rparr>, Some (Inl e))
                | Inr rt \<Rightarrow> (c\<lparr>ctl_runtime := Some rt, ctl_status := op_status opened_runtime\<rparr>, Some (Inr ())))))"

text \<open>\<open>runtime_mut\<close> and the call on it.\<close>

definition with_runtime ::
  "(('c, 'r, 't) runtime \<Rightarrow> ('c, 'r, 't) runtime \<times> (unit, error) result option)
   \<Rightarrow> ('g, 'c, 'r, 't) controller \<Rightarrow> ('g, 'c, 'r, 't) controller \<times> (unit, error) result option" where
  "with_runtime call c =
     (case ctl_runtime c of
        None \<Rightarrow> (c, Some (Inl (new_error TransportClosed)))
      | Some rt \<Rightarrow> (case call rt of (rt, result) \<Rightarrow> (c\<lparr>ctl_runtime := Some rt\<rparr>, result)))"

definition controller_pair ::
  "('c, 'r, 't) worker_reporting \<Rightarrow> 't platform \<Rightarrow> duration
   \<Rightarrow> ('g, 'c, 'r, 't) controller \<Rightarrow> ('g, 'c, 'r, 't) controller \<times> (unit, error) result option" where
  "controller_pair R P timeout = with_runtime (runtime_pair R P timeout)"

definition controller_reconnect ::
  "('c, 'r, 't) worker_reporting \<Rightarrow> 't platform \<Rightarrow> duration
   \<Rightarrow> ('g, 'c, 'r, 't) controller \<Rightarrow> ('g, 'c, 'r, 't) controller \<times> (unit, error) result option" where
  "controller_reconnect R P timeout = with_runtime (runtime_reconnect R P timeout)"

definition controller_connect ::
  "('c, 'r, 't) worker_reporting \<Rightarrow> 't platform \<Rightarrow> connect_options
   \<Rightarrow> ('g, 'c, 'r, 't) controller \<Rightarrow> ('g, 'c, 'r, 't) controller \<times> (connection_path, error) result option" where
  "controller_connect R P options c =
     (case controller_reconnect R P (co_timeout options) c of
        (c, None) \<Rightarrow> (c, None)
      | (c, Some (Inr _)) \<Rightarrow> (c, Some (Inr Reconnected))
      | (c, Some (Inl e)) \<Rightarrow>
          if err_kind e = NoBond \<and> co_allow_pairing options
          then (case controller_pair R P (co_timeout options) c of
             (c, result) \<Rightarrow> (c, map_option (map_ok (\<lambda>_. Paired)) result))
          else (c, Some (Inl e)))"

definition request_common ::
  "('c, 'r, 't) worker_reporting \<Rightarrow> ('o, 'g, 'c, 'r) reporting_mode \<Rightarrow> 't platform \<Rightarrow> common_command
   \<Rightarrow> ('g, 'c, 'r, 't) controller \<Rightarrow> ('g, 'c, 'r, 't) controller \<times> (unit, error) result option" where
  "request_common R mode P command = with_runtime (runtime_request R P (md_common mode command))"

definition controller_press ::
  "('c, 'r, 't) worker_reporting \<Rightarrow> ('o, 'g, 'c, 'r) reporting_mode \<Rightarrow> 't platform \<Rightarrow> button_kind list
   \<Rightarrow> ('g, 'c, 'r, 't) controller \<Rightarrow> ('g, 'c, 'r, 't) controller \<times> (unit, error) result option" where
  "controller_press R mode P buttons = request_common R mode P (Press buttons)"

definition controller_release ::
  "('c, 'r, 't) worker_reporting \<Rightarrow> ('o, 'g, 'c, 'r) reporting_mode \<Rightarrow> 't platform \<Rightarrow> button_kind list
   \<Rightarrow> ('g, 'c, 'r, 't) controller \<Rightarrow> ('g, 'c, 'r, 't) controller \<times> (unit, error) result option" where
  "controller_release R mode P buttons = request_common R mode P (Release buttons)"

definition controller_tap ::
  "('c, 'r, 't) worker_reporting \<Rightarrow> ('o, 'g, 'c, 'r) reporting_mode \<Rightarrow> 't platform \<Rightarrow> button_kind list \<Rightarrow> duration
   \<Rightarrow> ('g, 'c, 'r, 't) controller \<Rightarrow> ('g, 'c, 'r, 't) controller \<times> (unit, error) result option" where
  "controller_tap R mode P buttons d = request_common R mode P (Tap buttons d)"

definition controller_neutral ::
  "('c, 'r, 't) worker_reporting \<Rightarrow> ('o, 'g, 'c, 'r) reporting_mode \<Rightarrow> 't platform
   \<Rightarrow> ('g, 'c, 'r, 't) controller \<Rightarrow> ('g, 'c, 'r, 't) controller \<times> (unit, error) result option" where
  "controller_neutral R mode P = request_common R mode P NeutralCommand"

definition controller_apply ::
  "'t platform \<Rightarrow> input_state \<Rightarrow> (duration, periodic_command, periodic_runtime, 't) controller
   \<Rightarrow> (duration, periodic_command, periodic_runtime, 't) controller \<times> (unit, error) result option" where
  "controller_apply P state = with_runtime (runtime_request periodic_reporting P (Apply state))"

definition controller_send ::
  "'t platform \<Rightarrow> input_state \<Rightarrow> (unit, direct_command, direct_runtime, 't) controller
   \<Rightarrow> (unit, direct_command, direct_runtime, 't) controller \<times> (unit, error) result option" where
  "controller_send P state = with_runtime (runtime_request direct_reporting P (SendState state))"

definition close_with_mode ::
  "('c, 'r, 't) worker_reporting \<Rightarrow> 't platform \<Rightarrow> close_mode
   \<Rightarrow> ('g, 'c, 'r, 't) controller \<Rightarrow> ('g, 'c, 'r, 't) controller \<times> (unit, error) result option" where
  "close_with_mode R P mode c =
     (case ctl_runtime c of
        None \<Rightarrow> (c\<lparr>ctl_status := set_lifecycle Lc_Closed (ctl_status c)\<rparr>, Some (Inr ()))
      | Some rt \<Rightarrow>
          (case runtime_close R P mode rt of
             (rt, result) \<Rightarrow> (c\<lparr>ctl_runtime := None, ctl_status := runtime_status rt\<rparr>, result)))"

definition controller_close ::
  "('c, 'r, 't) worker_reporting \<Rightarrow> 't platform
   \<Rightarrow> ('g, 'c, 'r, 't) controller \<Rightarrow> ('g, 'c, 'r, 't) controller \<times> (unit, error) result option" where
  "controller_close R P = close_with_mode R P WithNeutral"

definition controller_close_without_neutral ::
  "('c, 'r, 't) worker_reporting \<Rightarrow> 't platform
   \<Rightarrow> ('g, 'c, 'r, 't) controller \<Rightarrow> ('g, 'c, 'r, 't) controller \<times> (unit, error) result option" where
  "controller_close_without_neutral R P = close_with_mode R P WithoutNeutral"

text \<open>\<open>create_profile_with\<close>: validate, persist, open and pair, in this order.\<close>

definition create_profile_with ::
  "('c, 'r, 't) worker_reporting \<Rightarrow> ('o, 'g, 'c, 'r) reporting_mode \<Rightarrow> 't platform \<Rightarrow> json_codec
   \<Rightarrow> 'fs profile_store \<Rightarrow> controller_kind \<Rightarrow> 'o controller_builder \<Rightarrow> create_profile_options \<Rightarrow> 'fs
   \<Rightarrow> 'fs \<times> (('g, 'c, 'r, 't) controller, error) result option" where
  "create_profile_with R mode P J S m b options fs =
     (case validate_create_profile mode b options of
        Inl e \<Rightarrow> (fs, Some (Inl e))
      | Inr plan \<Rightarrow>
          (case persist_and_configure J S m plan fs of
             (fs, Inl e) \<Rightarrow> (fs, Some (Inl e))
           | (fs, Inr (config, timeout)) \<Rightarrow>
               (fs, map_option (map_ok (\<lambda>rt.
                  \<lparr>ctl_runtime = Some rt, ctl_config = config, ctl_status = runtime_status rt\<rparr>))
                  (create_controller_runtime R mode P m config status_configured timeout))))"

end
