(* ===== verification/WorkerProperties.thy ===== *)
theory WorkerProperties
  imports ThreadInvariant
begin

text \<open>
  What the worker and its thread promise, for both reporting modes: the laws of \<open>reporting_laws\<close> are
  discharged by the two implementations, so the statements below are about the code's modes.
\<close>

section \<open>Reachable workers\<close>

text \<open>The workers that a thread steps: a freshly opened one and what continued steps make of it.\<close>

inductive worker_reachable ::
  "('c, 'r, 't) worker_reporting \<Rightarrow> 't env \<Rightarrow> 'r \<Rightarrow> ('r, 't) worker_core \<Rightarrow> bool"
  for R :: "('c, 'r, 't) worker_reporting" and E :: "'t env" and r :: 'r where
  opened: "status_settled status \<Longrightarrow> worker_reachable R E r (from_open_transport transport r budget status)"
| stepped: "worker_reachable R E r (ss_worker ss) \<Longrightarrow>
     step_runtime R E next_command ss = (ss', Some StepContinue) \<Longrightarrow> worker_reachable R E r (ss_worker ss')"

context reporting_laws
begin

lemma worker_reachable_inv:
  assumes "worker_reachable R E r w" "\<not> rp_has_pending R r"
  shows "worker_inv R w"
  using assms(1)
proof induction
  case (stepped ss next_command ss')
  then show ?case
    using step_runtime_ok[of ss next_command] by (simp add: outcome_ok_def ss_work_pair)
qed (simp add: worker_inv_start assms(2))

lemma step_account:
  assumes "worker_inv R (ss_worker ss)" "step_runtime R E next_command ss = (ss', Some outcome)"
  shows "\<not> pg_panicked (ss_progress ss')
    \<and> owed R (ss_worker ss) + pg_commands (ss_progress ss') =
        answers (ss_progress ss') + outcome_answers outcome + owed R (ss_worker ss')
    \<and> owed R (ss_worker ss) + pg_commands (ss_progress ss') \<le> 1
    \<and> worker_after R outcome (ss_worker ss')"
  using step_runtime_ok[OF assms(1), of next_command] assms(2)
  by (auto simp: outcome_ok_def account_def ss_work_pair)

end

lemma periodic_runtime_idle: "periodic_runtime_new period = Inr r \<Longrightarrow> \<not> rp_has_pending periodic_reporting r"
  by (auto simp: periodic_runtime_new_def bind_result_def periodic_reporting_fields periodic_has_pending_def
      split: sum.splits)

lemma direct_runtime_idle: "\<not> rp_has_pending direct_reporting direct_runtime_new"
  by (simp add: direct_reporting_fields direct_has_pending_def direct_runtime_new_def)

text \<open>The consistency of a worker between two steps, written over the fields of the core and of its status.\<close>

definition consistent :: "('c, 'r, 't) worker_reporting \<Rightarrow> ('r, 't) worker_core \<Rightarrow> bool" where
  "consistent R w \<longleftrightarrow>
     (let lc = wk_lifecycle w; session = current_session (wk_sessions w); st = cx_status (wk_cx w);
          s = cx_sender (wk_cx w) in
      lc \<in> {Rs_Open, Rs_Connecting, Rs_Ready}
      \<and> (session = None \<longleftrightarrow> lc = Rs_Open)
      \<and> (wk_connection w \<noteq> None \<longleftrightarrow> lc = Rs_Connecting)
      \<and> (wk_connection_command_pending w \<noteq> None \<longleftrightarrow> lc = Rs_Connecting)
      \<and> (rp_has_pending R (wk_reporting w) \<longrightarrow> lc = Rs_Ready)
      \<and> (case wk_connection w of None \<Rightarrow> True | Some c \<Rightarrow>
           session = Some (cw_session_id c) \<and> gate_session_id (cw_readiness c) = cw_session_id c)
      \<and> st_lifecycle st = lifecycle_state_of lc \<and> st_session_id st = session \<and> st_connected st = wk_connected w
      \<and> st_worker_failure st = None \<and> \<not> st_panicked st
      \<and> (counters_shown (wk_cx w) \<or> session = None \<and> nothing_sent s)
      \<and> (st_snapshot st = cx_input (wk_cx w) \<or> session = None \<and> cx_input (wk_cx w) = input_neutral))"

lemma worker_inv_consistent: "worker_inv R w \<Longrightarrow> consistent R w"
  by (auto simp: worker_inv_def attached_def consistent_def status_shows_def context_ok_def connection_ok_def
      Let_def split: option.splits)

text \<open>
  C2: the worker's state stays consistent.  Whatever sequence of commands, transport events, clock
  readings and vain shutdown polls drives a worker of either reporting mode from its opening on a settled status, between two
  steps its lifecycle, its session, the connection attempt and the pending connection command agree; a
  pending input operation exists only while ready; and the published status shows exactly this state, the accepted-report
  counters and the input, except that before its first session a worker still shows an earlier one's
  counters and input while it has itself sent nothing and is neutral.
\<close>

theorem worker_state_consistent:
  assumes "periodic_runtime_new period = Inr r" "worker_reachable periodic_reporting E r w"
    and "worker_reachable direct_reporting E direct_runtime_new v"
  shows "consistent periodic_reporting w \<and> consistent direct_reporting v"
  using assms periodic_laws.worker_reachable_inv periodic_runtime_idle
    direct_laws.worker_reachable_inv direct_runtime_idle worker_inv_consistent by metis

text \<open>A worker of each mode for the witnesses, and the first step of the direct one: a pairing command.\<close>

definition sample_periodic :: periodic_runtime where
  "sample_periodic = \<lparr>pr_policy = \<lparr>pol_period = 8000000, pol_scheduler = None, pol_reply_holdoff_until = None\<rparr>,
     pr_pending_tap = None\<rparr>"

definition sample_worker :: "'r \<Rightarrow> ('r, scripted_port) worker_core" where
  "sample_worker r = from_open_transport scripted_start r (Suc 0) status_configured"

definition sample_step_state :: "'r \<Rightarrow> (nat \<Rightarrow> shutdown_request option) \<Rightarrow> ('r, scripted_port) step_state" where
  "sample_step_state r shutdown = \<lparr>ss_worker = sample_worker r, ss_progress = step_progress_new,
     ss_clock = (\<lambda>n. n), ss_shutdown = shutdown\<rparr>"

definition sample_step :: "(direct_runtime, scripted_port) phase" where
  "sample_step = step_runtime direct_reporting sample_env (Some (Pair 5))
     (sample_step_state direct_runtime_new (\<lambda>_. None))"

lemma sample_periodic: "periodic_runtime_new 8000000 = Inr sample_periodic"
  by (simp add: sample_periodic_def periodic_runtime_new_def periodic_policy_new_def)

lemmas sample_step_evaluation =
  step_runtime_def and_then_def check_shutdown_def command_phase_def poll_phase.simps drive_phase_def
  due_phase_def finish_phase_def sample_step_state_def sample_worker_def shutdown_take_def idle_def
  from_open_transport_def run_command_def update_progress_def clock_now_def ss_work_def set_work_def
  drive_connection_def scripted_transport_def scripted_poll_def scripted_call_def scripted_start_def sample_env_def
  lifecycle_new_def step_progress_new_def start_connection_def call_transport_def begin_connection_def
  direct_begin_session_def handshake_until_protocol_ready_def with_completion_condition_def
  direct_reporting_fields direct_has_pending_def direct_runtime_new_def
  lifecycle_begin_connection_def begin_direct_def sessions_commit_def prepare_next_def sessions_new_def
  readiness_gate_new_def ensure_active_def ensure_current_def ensure_before_timeout_def bind_result_def
  drive_handshake_def handshake_step_def topology_ready_def put_connection_def drive_readiness_def
  direct_evaluate_readiness_def evaluate_direct_def collect_handshake_def handshake_completion_def
  deadline_after_def duration_saturating_add_def duration_max_def
  sender_reset_for_new_session_def input_reset_to_neutral_def direct_automatic_due_before_ready_def
  nonterminal_command_progress_def record_command_progress_def Let_def

lemma sample_step: "snd sample_step = Some StepContinue \<and> wk_lifecycle (ss_worker (fst sample_step)) = Rs_Connecting"
  by (simp add: sample_step_def sample_step_evaluation)

lemma sample_opened: "worker_reachable R E r (sample_worker r)"
  unfolding sample_worker_def by (rule opened) simp

lemma sample_stepped: "worker_reachable direct_reporting sample_env direct_runtime_new (ss_worker (fst sample_step))"
proof (rule stepped)
  show "worker_reachable direct_reporting sample_env direct_runtime_new
      (ss_worker (sample_step_state direct_runtime_new (\<lambda>_. None)))"
    using sample_opened by (simp add: sample_step_state_def)
  show "step_runtime direct_reporting sample_env (Some (Pair 5)) (sample_step_state direct_runtime_new (\<lambda>_. None))
      = (fst sample_step, Some StepContinue)"
    using sample_step by (simp add: sample_step_def prod_eq_iff)
qed

theorem worker_state_consistent_witness:
  "periodic_runtime_new 8000000 = Inr sample_periodic
   \<and> worker_reachable periodic_reporting sample_env sample_periodic (sample_worker sample_periodic)
   \<and> worker_reachable direct_reporting sample_env direct_runtime_new (ss_worker (fst sample_step))
   \<and> wk_lifecycle (ss_worker (fst sample_step)) = Rs_Connecting
   \<and> consistent periodic_reporting (sample_worker sample_periodic)
   \<and> consistent direct_reporting (ss_worker (fst sample_step))"
  using sample_periodic sample_opened sample_stepped sample_step
    worker_state_consistent[OF sample_periodic sample_opened sample_stepped] by simp

section \<open>Commands and answers\<close>

text \<open>
  The books of a step: the commands the worker owed an answer and the one it took against the answers in
  the progress, the one handed back by a close and what it owes afterwards.
\<close>

definition balanced ::
  "('c, 'r, 't) worker_reporting \<Rightarrow> ('r, 't) step_state \<Rightarrow> ('r, 't) step_state \<Rightarrow> worker_outcome \<Rightarrow> bool" where
  "balanced R ss ss' outcome \<longleftrightarrow>
     owed R (ss_worker ss) + pg_commands (ss_progress ss') =
       answers (ss_progress ss') + outcome_answers outcome + owed R (ss_worker ss')
     \<and> owed R (ss_worker ss) + pg_commands (ss_progress ss') \<le> 1
     \<and> \<not> pg_panicked (ss_progress ss')
     \<and> (case outcome of StepClosed completion _ \<Rightarrow> owed R (ss_worker ss') = 0 \<and> cc_performed completion | _ \<Rightarrow> True)"

lemma balancedI:
  "\<not> pg_panicked (ss_progress ss') \<Longrightarrow>
    owed R (ss_worker ss) + pg_commands (ss_progress ss') =
        answers (ss_progress ss') + outcome_answers outcome + owed R (ss_worker ss') \<Longrightarrow>
    owed R (ss_worker ss) + pg_commands (ss_progress ss') \<le> 1 \<Longrightarrow>
    worker_after R outcome (ss_worker ss') \<Longrightarrow> balanced R ss ss' outcome"
  by (cases outcome) (simp_all add: balanced_def closed_ok_def)

text \<open>
  C3: a step loses no command and answers none twice.  From every reachable worker of either mode, what
  it owed plus the command it took equals the answers it gave plus what it still owes; it never owes more
  than one answer and never takes a command while it owes one; a closing step leaves nothing owed and
  has performed the cleanup; and the assertion against a second answer in one step never fails.
\<close>

theorem steps_answer_every_command:
  assumes "periodic_runtime_new period = Inr r"
    and "worker_reachable periodic_reporting E r (ss_worker ss)"
    and "step_runtime periodic_reporting E command ss = (ss', Some outcome)"
    and "worker_reachable direct_reporting E direct_runtime_new (ss_worker tt)"
    and "step_runtime direct_reporting E command' tt = (tt', Some outcome')"
  shows "balanced periodic_reporting ss ss' outcome \<and> balanced direct_reporting tt tt' outcome'"
proof
  show "balanced periodic_reporting ss ss' outcome"
    using periodic_laws.step_account[OF periodic_laws.worker_reachable_inv[OF assms(2) periodic_runtime_idle[OF assms(1)]] assms(3)]
    by (intro balancedI) simp_all
  show "balanced direct_reporting tt tt' outcome'"
    using direct_laws.step_account[OF direct_laws.worker_reachable_inv[OF assms(4) direct_runtime_idle] assms(5)]
    by (intro balancedI) simp_all
qed

lemma sample_periodic_step:
  "\<exists>ss. step_runtime periodic_reporting sample_env None (sample_step_state sample_periodic (\<lambda>_. None)) = (ss, Some StepContinue)"
  by (simp add: sample_step_evaluation periodic_reporting_fields periodic_has_pending_def sample_periodic_def)

theorem steps_answer_every_command_witness:
  "\<exists>ss. balanced periodic_reporting (sample_step_state sample_periodic (\<lambda>_. None)) ss StepContinue
     \<and> balanced direct_reporting (sample_step_state direct_runtime_new (\<lambda>_. None)) (fst sample_step) StepContinue
     \<and> owed direct_reporting (ss_worker (fst sample_step)) = 1"
proof -
  obtain ss where ss: "step_runtime periodic_reporting sample_env None (sample_step_state sample_periodic (\<lambda>_. None))
      = (ss, Some StepContinue)"
    using sample_periodic_step by blast
  have starts: "worker_reachable R sample_env r (ss_worker (sample_step_state r shutdown))" for R r shutdown
    using sample_opened by (simp add: sample_step_state_def)
  have tt: "step_runtime direct_reporting sample_env (Some (Pair 5)) (sample_step_state direct_runtime_new (\<lambda>_. None))
      = (fst sample_step, Some StepContinue)"
    using sample_step by (simp add: sample_step_def prod_eq_iff)
  have "owed direct_reporting (ss_worker (fst sample_step)) = 1"
    by (simp add: sample_step_def sample_step_evaluation owed_def)
  with steps_answer_every_command[OF sample_periodic starts ss starts tt] show ?thesis
    by blast
qed

section \<open>The worker thread\<close>

text \<open>
  C1: the thread ends when asked, and nobody is left waiting.  Whatever the clock, the host, the waiter
  and the clients do, a thread of either mode, opened on a settled status, whose \<open>k\<close>-th poll of the shutdown channel finds a request
  returns within \<open>k + 1\<close> iterations.  By then the answers have left in the order of the commands, every
  client has its answer or an error (none blocks), no answer was lost on the way, and the worker is closed
  after a performed cleanup, or torn down after a failure of the core or of the waiter that the status shows.
\<close>

theorem thread_ends_and_answers_all:
  assumes "shutdown k = Some request" "k < fuel" "periodic_runtime_new period = Inr r" "status_settled status"
  shows "(\<exists>th completion. run_started_worker periodic_reporting E fuel
        (thread_start (from_open_transport transport r budget status) clock shutdown waits clients)
          = (th, Some completion) \<and> thread_ended periodic_reporting th completion)
    \<and> (\<exists>th completion. run_started_worker direct_reporting E fuel
        (thread_start (from_open_transport transport direct_runtime_new budget status) clock shutdown waits
          clients') = (th, Some completion) \<and> thread_ended direct_reporting th completion)"
proof (intro conjI)
  let ?p = "thread_start (from_open_transport transport r budget status) clock shutdown waits clients"
  let ?d = "thread_start (from_open_transport transport direct_runtime_new budget status) clock shutdown
      waits clients'"
  have polls: "ss_shutdown (th_step ?p) k = Some request" "ss_shutdown (th_step ?d) k = Some request"
    using assms(1) by (simp_all add: thread_start_def)
  show "\<exists>th completion. run_started_worker periodic_reporting E fuel ?p = (th, Some completion)
      \<and> thread_ended periodic_reporting th completion"
    using run_started_worker_ends[OF polls(1) assms(2), of periodic_reporting E]
      periodic_laws.run_started_worker_ok[OF thread_ok_start[OF periodic_runtime_idle[OF assms(3)] assms(4)]] by metis
  show "\<exists>th completion. run_started_worker direct_reporting E fuel ?d = (th, Some completion)
      \<and> thread_ended direct_reporting th completion"
    using run_started_worker_ends[OF polls(2) assms(2), of direct_reporting E]
      direct_laws.run_started_worker_ok[OF thread_ok_start[OF direct_runtime_idle assms(4)]] by metis
qed

theorem thread_ends_and_answers_all_witness:
  "\<exists>th completion. run_started_worker direct_reporting sample_env 3
     (thread_start (from_open_transport scripted_start direct_runtime_new 2 status_configured) id
       (\<lambda>i. if i = 2 then Some ShutdownDropped else None) (\<lambda>_. True)
       (\<lambda>i. if i = 0 then [Pair 5] else []))
     = (th, Some completion) \<and> thread_ended direct_reporting th completion"
proof -
  let ?shutdown = "\<lambda>i::nat. if i = 2 then Some ShutdownDropped else None"
  have "?shutdown 2 = Some ShutdownDropped" "(2::nat) < 3"
    by simp_all
  from conjunct2[OF thread_ends_and_answers_all[of ?shutdown, OF this sample_periodic status_settled_configured]] show ?thesis .
qed

lemma run_worker_loop_more:
  "run_worker_loop R E fuel th = (th', Some completion) \<Longrightarrow>
     run_worker_loop R E (fuel + surplus) th = (th', Some completion)"
  by (induction fuel arbitrary: th) (auto split: prod.splits option.splits)

text \<open>
  C34: the loop terminates.  For every reporting mode and environment, a loop whose shutdown channel
  answers its \<open>k\<close>-th poll returns with \<open>k + 1\<close> iterations of fuel, and more fuel changes nothing: the fuel
  is a bound on the iterations and not part of the behaviour.
\<close>

theorem worker_loop_terminates:
  assumes "ss_shutdown (th_step th) k = Some request"
  shows "\<exists>th' completion. \<forall>surplus. run_started_worker R E (k + 1 + surplus) th = (th', Some completion)"
proof -
  obtain th1 completion where loop: "run_worker_loop R E (k + 1) th = (th1, Some completion)"
    using run_worker_loop_ends[OF assms, of "k + 1" R E] by (cases "run_worker_loop R E (k + 1) th") auto
  have "run_started_worker R E (k + 1 + surplus) th = run_started_worker R E (k + 1) th" for surplus
    using run_worker_loop_more[OF loop, of surplus] loop by (simp only: run_started_worker_def)
  moreover have "\<exists>th'. run_started_worker R E (k + 1) th = (th', Some completion)"
    by (simp only: run_started_worker_def loop prod.case option.case Let_def) simp
  ultimately show ?thesis
    by metis
qed

theorem worker_loop_terminates_witness:
  "\<exists>th' completion. \<forall>surplus. run_started_worker periodic_reporting sample_env (2 + 1 + surplus)
     (thread_start (sample_worker sample_periodic) id (\<lambda>i. if i = 2 then Some ShutdownDropped else None) (\<lambda>_. True)
       (\<lambda>_. [])) = (th', Some completion)"
  by (rule worker_loop_terminates) (simp add: thread_start_def)

text \<open>
  C4: a shutdown is never overlooked and comes first.  Every step polls the shutdown channel; it reports a
  closed worker exactly when its last poll found a request, all earlier polls having found none; and when
  the very first poll finds one, the step takes no command and handles no event or due action.
\<close>

theorem shutdown_has_priority:
  fixes ss :: "('r, 't) step_state"
  shows "case step_runtime R E command ss of (ss', outcome) \<Rightarrow>
     (\<exists>n. ss_shutdown ss' = (\<lambda>i. ss_shutdown ss (Suc n + i)) \<and> (\<forall>i \<in> {..<n}. ss_shutdown ss i = None)
        \<and> (ss_shutdown ss n \<noteq> None \<longleftrightarrow> (\<exists>completion interrupted. outcome = Some (StepClosed completion interrupted))))
     \<and> (ss_shutdown ss 0 \<noteq> None \<longrightarrow>
          pg_commands (ss_progress ss') = 0 \<and> pg_hci_events (ss_progress ss') = 0
          \<and> pg_due_actions (ss_progress ss') = 0)"
proof -
  obtain ss' outcome where step: "step_runtime R E command ss = (ss', outcome)"
    by fastforce
  have polls: "phase_polled 1 ss (ss', outcome)"
    using step_runtime_polled[of ss R E command] by (simp add: step)
  have first: "\<exists>n. ss_shutdown ss' = (\<lambda>i. ss_shutdown ss (Suc n + i)) \<and> (\<forall>i \<in> {..<n}. ss_shutdown ss i = None)
        \<and> (ss_shutdown ss n \<noteq> None \<longleftrightarrow> (\<exists>completion interrupted. outcome = Some (StepClosed completion interrupted)))"
  proof (cases "\<exists>completion interrupted. outcome = Some (StepClosed completion interrupted)")
    case True
    then obtain request where "took ss ss' request"
      using polls by (auto simp: phase_polled_cases)
    then obtain n where "ss_shutdown ss' = (\<lambda>i. ss_shutdown ss (Suc n + i))" "\<forall>i < n. ss_shutdown ss i = None"
        "ss_shutdown ss n = Some request"
      by (auto simp: took_def)
    then show ?thesis
      using True by (intro exI[of _ n]) auto
  next
    case False
    then obtain n where "1 \<le> n" "ss_shutdown ss' = (\<lambda>i. ss_shutdown ss (n + i))" "\<forall>i < n. ss_shutdown ss i = None"
      using polls by (auto simp: phase_polled_cases polled_def)
    then show ?thesis
      using False by (intro exI[of _ "n - 1"]) auto
  qed
  have untouched: "pg_commands (ss_progress ss') = 0 \<and> pg_hci_events (ss_progress ss') = 0
      \<and> pg_due_actions (ss_progress ss') = 0" if "ss_shutdown ss 0 = Some request" for request
  proof -
    let ?ss = "snd (shutdown_take (ss\<lparr>ss_progress := step_progress_new\<rparr>))"
    have "step_runtime R E command ss = close_phase R E request ?ss"
      using that by (simp add: step_runtime_def and_then_def check_shutdown_def shutdown_take_def close_phase_def
          clock_now_def case_prod_beta Let_def)
    then have "ss' = set_work (fst (worker_close R E request (ss_clock ss 0) (ss_worker ss, step_progress_new)))
        (snd (clock_now ?ss))"
      using step by (auto simp: close_phase_def clock_now_def shutdown_take_def ss_work_def split: prod.splits)
    then show ?thesis
      by (simp add: worker_close_def complete_connection_command_def record_command_progress_def
          step_progress_new_def Let_def case_prod_beta split: option.split)
  qed
  show ?thesis
    using first untouched by (auto simp: step)
qed

theorem shutdown_has_priority_witness:
  "case step_runtime periodic_reporting sample_env (Some (Pair 5))
       (sample_step_state sample_periodic (\<lambda>_. Some ShutdownDropped)) of
     (ss', outcome) \<Rightarrow> pg_commands (ss_progress ss') = 0"
  using shutdown_has_priority[of "sample_step_state sample_periodic (\<lambda>_. Some ShutdownDropped)"
      periodic_reporting sample_env "Some (Pair 5)"]
  by (simp add: case_prod_beta sample_step_state_def)

section \<open>Becoming ready\<close>

context reporting_laws
begin

lemma drive_readiness_ready:
  assumes "drive_readiness R now connection actions (w, pg) = (wp, result)"
    and "wk_lifecycle w = Rs_Connecting" "wk_lifecycle (fst wp) = Rs_Ready"
    and "gate_ok (cw_readiness connection)" "wk_connection_command_pending w \<noteq> None"
  shows "protocol_ready (sender_session (cx_sender (wk_cx (fst wp))))
    \<and> wk_connection_command_pending (fst wp) = None \<and> pg_command_result (snd wp) = Some (Inr ())"
proof -
  obtain r h g res where eval: "rp_evaluate_readiness R (wk_reporting w) now (wk_sessions w)
      (cw_handshake connection) (cx_sender (wk_cx w)) (cw_readiness connection) = (r, h, g, res)"
    by (cases "rp_evaluate_readiness R (wk_reporting w) now (wk_sessions w)
      (cw_handshake connection) (cx_sender (wk_cx w)) (cw_readiness connection)") auto
  let ?c = "connection\<lparr>cw_handshake := h, cw_readiness := g\<rparr>"
  have aborted: "wk_lifecycle (fst (abort_connection R ?c e (w\<lparr>wk_reporting := r\<rparr>, pg))) \<noteq> Rs_Ready" for e
    using assms(2)
    by (auto simp: abort_connection_def complete_connection_failure_def complete_connection_command_def
        leave_connection_def mark_connection_ended_def readiness_abort_def Let_def split: option.splits)
  show ?thesis
  proof (cases res)
    case (Inl e)
    then show ?thesis
      using assms(1,3) aborted by (auto simp: drive_readiness_def eval Let_def)
  next
    case (Inr progress)
    show ?thesis
    proof (cases progress)
      case (ReadinessReady sid)
      then have "protocol_ready (sender_session (cx_sender (wk_cx w)))"
        using evaluate_readiness[OF eval assms(4)] by (simp add: Inr)
      then show ?thesis
        using assms
        by (auto simp: drive_readiness_def eval Inr ReadinessReady Let_def mark_ready_def put_connection_def
            complete_connection_command_def record_command_progress_def split: if_splits)
    qed (use assms in \<open>auto simp: drive_readiness_def eval Inr Let_def put_connection_def\<close>)
  qed
qed

lemma drive_connection_ready:
  assumes "worker_inv R w" "drive_connection R E now (w, pg) = (wp, result)"
    and "wk_lifecycle w \<noteq> Rs_Ready" "wk_lifecycle (fst wp) = Rs_Ready"
  shows "protocol_ready (sender_session (cx_sender (wk_cx (fst wp))))
    \<and> wk_connection_command_pending (fst wp) = None \<and> pg_command_result (snd wp) = Some (Inr ())
    \<and> (\<exists>connection command. wk_connection w = Some connection \<and> wk_connection_command_pending w = Some command
        \<and> now < gate_operation_deadline (cw_readiness connection))"
proof -
  obtain connection where conn: "wk_connection w = Some connection"
    using assms(2-4) by (cases "wk_connection w") (auto simp: drive_connection_def)
  have inv: "wk_lifecycle w = Rs_Connecting" "wk_connection_command_pending w \<noteq> None"
    "connection_ok connection (current_session (wk_sessions w))"
    using assms(1) conn by (auto simp: worker_inv_def attached_def)
  let ?w = "w\<lparr>wk_connection := None\<rparr>"
  have aborted: "wk_lifecycle (fst (abort_connection R connection e (?w, pg))) \<noteq> Rs_Ready" for e
    using inv(1)
    by (auto simp: abort_connection_def complete_connection_failure_def complete_connection_command_def
        leave_connection_def mark_connection_ended_def readiness_abort_def Let_def split: option.splits)
  have active: "ensure_active (cw_readiness connection) now (wk_sessions w) = Inr ()"
    using assms(2,4) aborted
    by (cases "ensure_active (cw_readiness connection) now (wk_sessions w)")
      (auto simp: drive_connection_def conn Let_def)
  obtain c1 w1 pg1 res where hs: "drive_handshake E now connection (?w, pg) = (c1, (w1, pg1), res)"
    by (cases "drive_handshake E now connection (?w, pg)") auto
  have w1: "wk_lifecycle w1 = wk_lifecycle w" "wk_connection_command_pending w1 = wk_connection_command_pending w"
    "gate_ok (cw_readiness c1)"
    using hs inv(3)
    by (auto simp: drive_handshake_def connection_ok_def Let_def
        split: option.splits sum.splits prod.splits handshake_progress.splits if_splits)
  obtain actions where "res = Inr actions"
    using assms(2,4) w1 inv active by (cases res) (auto simp: drive_connection_def conn Let_def hs put_connection_def)
  then have "drive_readiness R now c1 actions (w1, pg1) = (wp, result)"
    using assms(2) active by (simp add: drive_connection_def conn Let_def hs)
  from drive_readiness_ready[OF this _ assms(4)] show ?thesis
    using w1 inv active
    by (auto simp: conn ensure_active_def ensure_before_timeout_def bind_result_def split: sum.splits if_splits)
qed

end

definition ready_justified :: "('r, 't) worker_core \<Rightarrow> duration \<Rightarrow> ('r, 't) work \<Rightarrow> bool" where
  "ready_justified w now wp \<longleftrightarrow>
     (let s = sender_session (cx_sender (wk_cx (fst wp))) in
      report_mode s = Some 0x30 \<and> ps_player_lights s \<notin> {None, Some 0})
     \<and> wk_connection_command_pending (fst wp) = None \<and> pg_command_result (snd wp) = Some (Inr ())
     \<and> (\<exists>connection command. wk_connection w = Some connection \<and> wk_connection_command_pending w = Some command
        \<and> now < gate_operation_deadline (cw_readiness connection))"

lemma protocol_ready_shown: "protocol_ready s \<Longrightarrow> report_mode s = Some 0x30 \<and> ps_player_lights s \<notin> {None, Some 0}"
  by (auto simp: protocol_ready_iff report_mode_def supported_input_report_mode_def)

text \<open>
  C8: ready means the host has asked for it.  Driving the connection attempt of a worker (every state
  between two phases of a step keeps \<open>worker_inv\<close>) makes it ready, in either mode, only if the host has
  requested report mode 0x30 and lit a player lamp, the operation's deadline has not passed, and the
  connection command that began the attempt is answered with success by this very call.
\<close>

theorem ready_after_protocol_setup:
  assumes "worker_inv periodic_reporting w" "drive_connection periodic_reporting E now (w, pg) = (wp, result)"
    and "wk_lifecycle w \<noteq> Rs_Ready" "wk_lifecycle (fst wp) = Rs_Ready"
    and "worker_inv direct_reporting v" "drive_connection direct_reporting E now (v, pg) = (vp, result')"
    and "wk_lifecycle v \<noteq> Rs_Ready" "wk_lifecycle (fst vp) = Rs_Ready"
  shows "ready_justified w now wp \<and> ready_justified v now vp"
  using periodic_laws.drive_connection_ready[OF assms(1-4)] direct_laws.drive_connection_ready[OF assms(5-8)]
    protocol_ready_shown
  by (simp add: ready_justified_def Let_def)

text \<open>A worker whose attempt has all it needs to become ready.\<close>

definition sample_waiting :: "'r \<Rightarrow> ('r, scripted_port) worker_core" where
  "sample_waiting r = (sample_worker r)
     \<lparr>wk_lifecycle := Rs_Connecting, wk_sessions := \<lparr>last_issued = 1, current_session = Some 1\<rparr>,
      wk_connection := Some \<lparr>cw_session_id = 1, cw_handshake = None,
        cw_readiness = \<lparr>gate_session_id = 1, gate_operation_deadline = 10, gate_handshake = Some 1\<rparr>\<rparr>,
      wk_connection_command_pending := Some PairCommand,
      wk_cx := publish_sender (sample_context\<lparr>cx_sender := report_sender_new\<lparr>snd_committed := sender_commit_default
        \<lparr>commit_session := with_player_lights (with_report_mode protocol_session_default 0x30) 1\<rparr>\<rparr>\<rparr>)\<rparr>"

lemma sample_waiting_inv:
  assumes "\<not> rp_has_pending R r"
  shows "worker_inv R (sample_waiting r)"
proof -
  let ?cx = "sample_context\<lparr>cx_sender := report_sender_new\<lparr>snd_committed := sender_commit_default
        \<lparr>commit_session := with_player_lights (with_report_mode protocol_session_default 0x30) 1\<rparr>\<rparr>\<rparr>"
  have "context_ok (Some 1) (publish_sender ?cx)"
    by (rule publish_sender_ok) (use sample_context_ok in \<open>simp_all add: context_ok_parts\<close>)
  moreover have "status_frame (cx_status ?cx) (cx_status (publish_sender ?cx))"
    by (rule publish_sender_fields)
  ultimately show ?thesis
    using assms
    by (simp add: worker_inv_def attached_def sample_waiting_def connection_ok_def gate_ok_def status_shows_def
        status_frame_def sample_context_def sample_worker_def from_open_transport_def status_configured_def)
qed

lemma sample_waiting_ready:
  "protocol_ready (sender_session (cx_sender (wk_cx (sample_waiting r))))"
  by (simp add: sample_waiting_def protocol_ready_iff with_player_lights_def with_report_mode_def
      report_mode_from_requested_def supported_input_report_mode_def)

lemma sample_waiting_mode: "report_mode (sender_session (cx_sender (wk_cx (sample_waiting r)))) = Some 0x30"
  by (rule conjunct1[OF protocol_ready_shown[OF sample_waiting_ready]])

lemmas sample_drive_evaluation =
  drive_connection_def ensure_active_def ensure_current_def ensure_before_timeout_def bind_result_def
  drive_handshake_def drive_readiness_def evaluate_direct_def evaluate_periodic_def collect_handshake_def
  take_ready_session_def mark_ready_def complete_connection_command_def sample_waiting_def sample_worker_def
  from_open_transport_def

lemma sample_drive:
  "\<exists>vp result. drive_connection direct_reporting sample_env 3 (sample_waiting direct_runtime_new, step_progress_new)
     = (vp, result) \<and> wk_lifecycle (fst vp) = Rs_Ready"
  "\<exists>wp result. drive_connection periodic_reporting sample_env 3 (sample_waiting sample_periodic, step_progress_new)
     = (wp, result) \<and> wk_lifecycle (fst wp) = Rs_Ready"
proof -
  note ready = sample_waiting_ready[unfolded sample_waiting_def sample_worker_def from_open_transport_def] sample_waiting_mode[unfolded sample_waiting_def sample_worker_def from_open_transport_def]
  show "\<exists>vp result. drive_connection direct_reporting sample_env 3 (sample_waiting direct_runtime_new, step_progress_new)
     = (vp, result) \<and> wk_lifecycle (fst vp) = Rs_Ready"
    using ready
    by (simp add: sample_drive_evaluation direct_reporting_fields direct_evaluate_readiness_def Let_def)
  show "\<exists>wp result. drive_connection periodic_reporting sample_env 3 (sample_waiting sample_periodic, step_progress_new)
     = (wp, result) \<and> wk_lifecycle (fst wp) = Rs_Ready"
    using ready
    by (simp add: sample_drive_evaluation periodic_reporting_fields
        periodic_evaluate_readiness_def sample_periodic_def start_when_unheld_def held_off_def
        scheduler_start_def duration_checked_add_def duration_max_def Let_def)
qed

theorem ready_after_protocol_setup_witness:
  "\<exists>wp result vp result'.
     drive_connection periodic_reporting sample_env 3 (sample_waiting sample_periodic, step_progress_new) = (wp, result)
     \<and> drive_connection direct_reporting sample_env 3 (sample_waiting direct_runtime_new, step_progress_new) = (vp, result')
     \<and> ready_justified (sample_waiting sample_periodic) 3 wp \<and> ready_justified (sample_waiting direct_runtime_new) 3 vp"
proof -
  obtain wp result vp result' where
    runs: "drive_connection periodic_reporting sample_env 3 (sample_waiting sample_periodic, step_progress_new) = (wp, result)"
      "drive_connection direct_reporting sample_env 3 (sample_waiting direct_runtime_new, step_progress_new) = (vp, result')"
    and ready: "wk_lifecycle (fst wp) = Rs_Ready" "wk_lifecycle (fst vp) = Rs_Ready"
    using sample_drive by blast
  have before: "wk_lifecycle (sample_waiting direct_runtime_new) \<noteq> Rs_Ready"
    "wk_lifecycle (sample_waiting sample_periodic) \<noteq> Rs_Ready"
    by (simp_all add: sample_waiting_def)
  show ?thesis
    using ready_after_protocol_setup[OF sample_waiting_inv[OF periodic_runtime_idle[OF sample_periodic]] runs(1)
        before(2) ready(1) sample_waiting_inv[OF direct_runtime_idle] runs(2) before(1) ready(2)] runs
    by blast
qed

end
