(* ===== verification/ControllerProperties.thy ===== *)
theory ControllerProperties
  imports Controller WorkerProperties
begin

text \<open>
  What a caller of the controller may rely on, for both reporting modes: blocking calls leave the command
  channel empty, and a close always comes back.
\<close>

section \<open>Calls keep the owner's invariant\<close>

lemma button_frame: "status_frame st (record_unsupported_button b st)"
  by (auto simp: status_frame_def record_unsupported_button_def emit_in_session_def split: option.splits)

lemma context_ok_button:
  "context_ok s cx \<Longrightarrow> context_ok s (cx\<lparr>cx_status := record_unsupported_button b (cx_status cx)\<rparr>)"
  by (auto simp: context_ok_parts)
    (auto simp: record_unsupported_button_def emit_in_session_def split: option.splits)

lemma worker_inv_button:
  assumes "worker_inv R w"
  shows "worker_inv R (w\<lparr>wk_cx := (wk_cx w)\<lparr>cx_status := record_unsupported_button b (cx_status (wk_cx w))\<rparr>\<rparr>)"
  using assms button_frame[of "cx_status (wk_cx w)" b] context_ok_button[of _ "wk_cx w" b]
  by (simp add: worker_inv_def attached_def status_shows_def status_frame_def)

text \<open>Changing the status of a runtime in place.\<close>

definition runtime_with_status ::
  "(status_projection \<Rightarrow> status_projection) \<Rightarrow> ('c, 'r, 't) worker_owner \<Rightarrow> ('c, 'r, 't) worker_owner" where
  "runtime_with_status f ow =
     (let th = ow_thread ow; ss = th_step th; w = ss_worker ss; cx = wk_cx w in
      ow\<lparr>ow_thread := th\<lparr>th_step := ss\<lparr>ss_worker := w\<lparr>wk_cx := cx\<lparr>cx_status := f (cx_status cx)\<rparr>\<rparr>\<rparr>\<rparr>\<rparr>)"

lemma owner_ok_button:
  assumes "owner_ok R ow"
  shows "owner_ok R (runtime_with_status (record_unsupported_button b) ow)"
proof (cases "ow_completion ow")
  case None
  then show ?thesis
    using assms worker_inv_button[of R "ss_worker (th_step (ow_thread ow))" b]
    by (simp add: owner_ok_def owner_running_def runtime_with_status_def Let_def quiet_def thread_ok_def owed_def)
next
  case (Some completion)
  obtain cause cleanup where terminal: "wc_terminal completion = TerminalFailed cause cleanup"
    using assms Some by (auto simp: owner_ok_def owner_running_def)
  then have "torn_down cause (ss_worker (th_step (ow_thread ow)))"
    using assms Some by (simp add: owner_ok_def owner_running_def thread_ended_def)
  then have "torn_down cause ((ss_worker (th_step (ow_thread ow)))\<lparr>wk_cx := (wk_cx (ss_worker (th_step (ow_thread ow))))
      \<lparr>cx_status := record_unsupported_button b (cx_status (wk_cx (ss_worker (th_step (ow_thread ow)))))\<rparr>\<rparr>)"
    by (simp add: torn_down_def record_unsupported_button_def emit_in_session_def)
  then show ?thesis
    using assms Some terminal
    by (auto simp: owner_ok_def owner_running_def runtime_with_status_def Let_def quiet_def thread_ended_def)
qed

context reporting_laws
begin

lemma runtime_exchange_ok:
  assumes "owner_ok R (rt_owner rt)" "rt_env rt = E"
    and "runtime_exchange R P command rt = (rt', Some result)"
  shows "owner_ok R (rt_owner rt') \<and> rt_env rt' = E"
proof -
  obtain ow enqueued where enqueue: "owner_try_enqueue command (rt_owner rt) = (ow, enqueued)"
    by fastforce
  note enqueued_ok = owner_try_enqueue_ok[OF assms(1) enqueue]
  show ?thesis
  proof (cases enqueued)
    case (Inl e)
    then have "ow = rt_owner rt"
      using enqueued_ok by (cases e) auto
    then show ?thesis
      using assms enqueue Inl by (auto simp: runtime_exchange_def)
  next
    case (Inr t)
    obtain ow' response where await: "await_response R E (pf_fuel P) t ow = (ow', response)"
      by fastforce
    then obtain r where r: "response = Some r"
      using assms(2,3) enqueue Inr by (cases response) (auto simp: runtime_exchange_def)
    have "owner_ok R ow'"
      using await_response_ok[of ow t "pf_fuel P" ow' r] enqueued_ok await Inr r by simp
    then show ?thesis
      using assms(2,3) enqueue Inr await r
      by (cases r) (auto simp: runtime_exchange_def)
  qed
qed

text \<open>A worker that owes nothing leaves an empty channel alone.\<close>

lemma idle_iteration:
  assumes "thread_ok R th" "quiet th" "pending_tickets (th_commands th) = []"
    and "loop_iteration R E th = (th', result)"
  shows "th_commands th' = th_commands th"
proof -
  let ?ch = "th_commands th"
  have empty: "ch_slot ?ch = None" "ch_in_flight ?ch = None"
    using assms(3) by (auto simp: pending_tickets_def split: option.splits)
  obtain th1 outcome where step: "thread_step R E th = (th1, outcome)"
    by fastforce
  have same: "th_commands th1 = ?ch"
    using step by (auto simp: thread_step_def try_next_def empty split: prod.splits)
  have "debt (th_commands th1) = 0"
    by (simp add: same debt_def empty)
  then have none: "pg_command_result (ss_progress (th_step th1)) = None"
    using thread_step_ok[OF assms(1) step] by (auto simp: answers_def split: if_splits)
  have failed: "th_commands th2 = th_commands th3" if "complete_worker_failure R E cause d th3 = (th2, r)"
    for cause d th2 th3 r
    using that by (auto simp: complete_worker_failure_def clock_now_def Let_def split: prod.splits)
  have waited: "th_commands th2 = th_commands th3" if "wait_for_next_iteration pg th3 = (th2, r)" for pg th2 th3 r
    using that by (auto simp: wait_for_next_iteration_def clock_now_def Let_def split: option.splits if_splits)
  have "\<And>completion interrupted. outcome \<noteq> StepClosed completion interrupted"
    using thread_step_quiet[OF step assms(2)] by simp
  then show ?thesis
    using assms(4) same
    by (cases outcome)
      (auto simp: loop_iteration_def client_turn_quiet[OF assms(2)] step none Let_def dest!: failed waited
        split: sum.splits prod.splits)
qed

lemma worker_runs_owner_ok:
  assumes "owner_ok R ow"
  shows "owner_ok R (worker_runs R E n ow)"
proof (induction n)
  case 0
  then show ?case
    using assms by (simp add: worker_runs_def)
next
  case (Suc n)
  let ?ow = "worker_runs R E n ow"
  have running: "owner_running R ?ow" "pending_tickets (th_commands (ow_thread ?ow)) = []"
    using Suc.IH by (simp_all add: owner_ok_def)
  have "pending_tickets (th_commands (ow_thread (worker_runs_once R E ?ow))) = []"
  proof (cases "ow_completion ?ow")
    case None
    obtain th result where it: "loop_iteration R E (ow_thread ?ow) = (th, result)"
      by fastforce
    have "th_commands th = th_commands (ow_thread ?ow)"
      by (rule idle_iteration[OF _ _ running(2) it]) (use running(1) None in \<open>simp_all add: owner_running_def\<close>)
    then show ?thesis
      using running(2) None by (simp add: worker_runs_once_def it split: option.split)
  qed (use running in \<open>simp add: worker_runs_once_def\<close>)
  moreover have "worker_runs R E (Suc n) ow = worker_runs_once R E ?ow"
    by (simp add: worker_runs_def)
  ultimately show ?case
    using worker_runs_once_ok[OF running(1)] by (simp add: owner_ok_def)
qed

end

section \<open>Reachable controllers\<close>

text \<open>
  A controller after any calls that returned, with the worker running on its own in between for as long as
  it likes: made from a configuration or by creating a profile, opened, closed and opened again.  It is
  opened only while its status shows no failure; what happens otherwise is in Reopening.
\<close>

inductive controller_reachable ::
  "('c, 'r, 't) worker_reporting \<Rightarrow> ('o, 'g, 'c, 'r) reporting_mode \<Rightarrow> 't platform \<Rightarrow> controller_kind
   \<Rightarrow> ('g, 'c, 'r, 't) controller \<Rightarrow> bool"
  for R :: "('c, 'r, 't) worker_reporting" and mode :: "('o, 'g, 'c, 'r) reporting_mode"
    and P :: "'t platform" and m :: controller_kind where
  configured: "controller_reachable R mode P m (controller_from_config config)"
| created: "create_controller_runtime R mode P m config status_configured timeout = Some (Inr rt) \<Longrightarrow>
     controller_reachable R mode P m \<lparr>ctl_runtime = Some rt, ctl_config = config, ctl_status = runtime_status rt\<rparr>"
| called_open: "controller_reachable R mode P m c \<Longrightarrow> st_worker_failure (ctl_status c) = None \<Longrightarrow>
     controller_open R mode P m c = (c', Some result) \<Longrightarrow> controller_reachable R mode P m c'"
| called_close: "controller_reachable R mode P m c \<Longrightarrow> close_with_mode R P close_mode c = (c', Some result) \<Longrightarrow>
     controller_reachable R mode P m c'"
| called_pair: "controller_reachable R mode P m c \<Longrightarrow> controller_pair R P timeout c = (c', Some result) \<Longrightarrow>
     controller_reachable R mode P m c'"
| called_reconnect: "controller_reachable R mode P m c \<Longrightarrow> controller_reconnect R P timeout c = (c', Some result) \<Longrightarrow>
     controller_reachable R mode P m c'"
| called_connect: "controller_reachable R mode P m c \<Longrightarrow> controller_connect R P options c = (c', Some path) \<Longrightarrow>
     controller_reachable R mode P m c'"
| called_request: "controller_reachable R mode P m c \<Longrightarrow>
     with_runtime (runtime_request R P command) c = (c', Some result) \<Longrightarrow> controller_reachable R mode P m c'"
| called_button: "controller_reachable R mode P m c \<Longrightarrow> controller_button m kind c = (c', button) \<Longrightarrow>
     controller_reachable R mode P m c'"
| worker_ran: "controller_reachable R mode P m c \<Longrightarrow> ctl_runtime c = Some rt \<Longrightarrow>
     controller_reachable R mode P m
       (c\<lparr>ctl_runtime := Some (rt\<lparr>rt_owner := worker_runs R (rt_env rt) n (rt_owner rt)\<rparr>)\<rparr>)"

definition runtime_ok :: "('c, 'r, 't) worker_reporting \<Rightarrow> ('c, 'r, 't) runtime option \<Rightarrow> bool" where
  "runtime_ok R rt \<longleftrightarrow> (case rt of None \<Rightarrow> True | Some rt \<Rightarrow> owner_ok R (rt_owner rt))"

definition starts_idle :: "('c, 'r, 't) worker_reporting \<Rightarrow> ('o, 'g, 'c, 'r) reporting_mode \<Rightarrow> bool" where
  "starts_idle R mode \<longleftrightarrow> (\<forall>g r. md_build_state mode g = Some r \<longrightarrow> \<not> rp_has_pending R r)"

lemma starts_idle_modes: "starts_idle periodic_reporting periodic_mode" "starts_idle direct_reporting direct_mode"
  using periodic_runtime_idle direct_runtime_idle
  by (auto simp: starts_idle_def periodic_mode_def direct_mode_def periodic_build_state_def split: sum.splits)

lemma open_runtime_ok:
  assumes "starts_idle R mode" "open_runtime_owner R mode P m config status = Some outcome" "status_settled status"
  shows "runtime_ok R (case op_result outcome of Inl _ \<Rightarrow> None | Inr rt \<Rightarrow> Some rt)"
  using assms
  by (auto simp: owner_start_ok open_runtime_owner_def runtime_ok_def starts_idle_def spawn_failed_def Let_def
      split: sum.splits prod.splits if_splits)

text \<open>A failed opening leaves a settled status as it was, or with a failure.\<close>

lemma failed_open_status:
  assumes "open_runtime_owner R mode P m config status = Some outcome" "op_result outcome = Inl e"
  shows "op_status outcome = status \<or> st_worker_failure (op_status outcome) \<noteq> None"
proof -
  have "st_worker_failure (op_status (spawn_failed R E now w)) \<noteq> None" for E now w
    by (simp add: spawn_failed_def status_fail_def emit_in_session_def Let_def split: prod.splits option.splits)
  then show ?thesis
    using assms by (auto simp: open_runtime_owner_def Let_def split: sum.splits prod.splits if_splits)
qed

lemma status_settled_button:
  "status_settled st \<Longrightarrow> record_unsupported_button b st = st"
  by (simp add: status_settled_def record_unsupported_button_def emit_in_session_def)

lemma status_settled_set_lifecycle: "status_settled st \<Longrightarrow> status_settled (set_lifecycle lc st)"
  by (auto simp: status_settled_def set_lifecycle_def emit_in_session_def log_ok_def split: option.splits)

text \<open>A runtime that pairing made ready has answered one request.\<close>

lemma finish_terminal_owner_fails:
  "finish_terminal_owner R P rt fallback = (rt', Some result) \<Longrightarrow> \<not> is_ok result"
proof -
  have "\<not> is_ok (case r of Inr _ \<Rightarrow> Inl fallback | Inl e \<Rightarrow> Inl e)" for r :: "(unit, error) result"
    by (cases r) simp_all
  then show "finish_terminal_owner R P rt fallback = (rt', Some result) \<Longrightarrow> \<not> is_ok result"
    by (auto simp: finish_terminal_owner_def split: prod.splits)
qed

lemma pair_to_ready_exchange:
  assumes "pair_to_ready R P timeout rt = (guard, Some (Inr u))"
  shows "\<exists>command. runtime_exchange R P command rt = (fst guard, Some (Inr u))"
proof -
  have "finish_terminal_owner R P rt1 fallback \<noteq> (rt2, Some (Inr v))" for rt1 fallback rt2 v
    using finish_terminal_owner_fails[of R P rt1 fallback rt2 "Inr v"] by auto
  then have "runtime_exchange R P (Pair timeout) rt = (fst guard, Some (Inr u))"
    using assms
    by (auto simp: pair_to_ready_def runtime_exchange_def Let_def split: sum.splits prod.splits option.splits
        command_enqueue_error.splits worker_command_error.splits if_splits)
  then show ?thesis ..
qed

lemma created_runtime:
  assumes "create_controller_runtime R mode P m config status timeout = Some (Inr rt)"
  shows "\<exists>outcome rt0 guard u. open_runtime_owner R mode P m config status = Some outcome
    \<and> op_result outcome = Inr rt0 \<and> pair_to_ready R P timeout rt0 = (guard, Some (Inr u)) \<and> rt = fst guard"
proof -
  obtain outcome where outcome: "open_runtime_owner R mode P m config status = Some outcome"
    using assms by (auto simp: create_controller_runtime_def bind_eq_Some_conv)
  obtain rt0 where opens: "open_runtime_owner R mode P m config status = Some outcome" "op_result outcome = Inr rt0"
    using assms outcome by (cases "op_result outcome") (auto simp: create_controller_runtime_def)
  obtain rt1 owned result where pairs: "pair_to_ready R P timeout rt0 = ((rt1, owned), result)"
    by (metis surj_pair)
  show ?thesis
    using assms
    by (cases result; cases "the result") (auto simp: create_controller_runtime_def opens pairs)
qed

text \<open>
  What holds of every runtime that opens on a settled status, is kept by requests, by the report of an
  unsupported button and by the worker running on, and leaves a settled status or a failure behind when
  it is closed, holds of every reachable one.
\<close>

definition controller_inv ::
  "(('c, 'r, 't) runtime \<Rightarrow> bool) \<Rightarrow> ('g, 'c, 'r, 't) controller \<Rightarrow> bool" where
  "controller_inv I c \<longleftrightarrow>
     (case ctl_runtime c of
        None \<Rightarrow> st_worker_failure (ctl_status c) = None \<longrightarrow> status_settled (ctl_status c)
      | Some rt \<Rightarrow> I rt)"

lemma controller_inv_call:
  assumes "controller_inv I c" "with_runtime call c = (c', Some result)"
    and "\<And>rt rt' result. I rt \<Longrightarrow> call rt = (rt', Some result) \<Longrightarrow> I rt'"
  shows "controller_inv I c'"
  using assms by (auto simp: controller_inv_def with_runtime_def split: option.splits prod.splits)

locale runtime_invariant =
  fixes R :: "('c, 'r, 't) worker_reporting" and mode :: "('o, 'g, 'c, 'r) reporting_mode"
    and P :: "'t platform" and m :: controller_kind and I :: "('c, 'r, 't) runtime \<Rightarrow> bool"
  assumes opens: "open_runtime_owner R mode P m config status = Some outcome \<Longrightarrow> status_settled status \<Longrightarrow>
        op_result outcome = Inr rt \<Longrightarrow> I rt"
    and exchanges: "I rt \<Longrightarrow> runtime_exchange R P command rt = (rt', Some result) \<Longrightarrow> I rt'"
    and buttons: "I rt \<Longrightarrow> I (rt\<lparr>rt_owner := runtime_with_status (record_unsupported_button b) (rt_owner rt)\<rparr>)"
    and runs: "I rt \<Longrightarrow> I (rt\<lparr>rt_owner := worker_runs R (rt_env rt) n (rt_owner rt)\<rparr>)"
    and closes: "I rt \<Longrightarrow> runtime_close R P close_mode rt = (rt', Some result) \<Longrightarrow>
        st_worker_failure (runtime_status rt') = None \<Longrightarrow> status_settled (runtime_status rt')"
begin

lemma pair_keeps: "I rt \<Longrightarrow> runtime_pair R P timeout rt = (rt', Some result) \<Longrightarrow> I rt'"
  using exchanges by (auto simp: runtime_pair_def split: sum.splits)

lemma reconnect_keeps: "I rt \<Longrightarrow> runtime_reconnect R P timeout rt = (rt', Some result) \<Longrightarrow> I rt'"
  using exchanges by (auto simp: runtime_reconnect_def split: sum.splits)

lemma connect_keeps:
  assumes "controller_inv I c" "controller_connect R P options c = (c', Some path)"
  shows "controller_inv I c'"
proof -
  obtain c1 r where first: "controller_reconnect R P (co_timeout options) c = (c1, Some r)"
    using assms(2)
    by (cases "controller_reconnect R P (co_timeout options) c"; cases "snd (controller_reconnect R P (co_timeout options) c)")
      (auto simp: controller_connect_def)
  then have first_ok: "controller_inv I c1"
    using controller_inv_call[OF assms(1), of "runtime_reconnect R P (co_timeout options)" c1 r] reconnect_keeps
    unfolding controller_reconnect_def by blast
  show ?thesis
  proof (cases "\<exists>e. r = Inl e \<and> err_kind e = NoBond \<and> co_allow_pairing options")
    case True
    then obtain r2 where "controller_pair R P (co_timeout options) c1 = (c', Some r2)"
      using assms(2) first by (auto simp: controller_connect_def split: prod.splits)
    then show ?thesis
      using controller_inv_call[OF first_ok, of "runtime_pair R P (co_timeout options)" c' r2] pair_keeps
      unfolding controller_pair_def by blast
  next
    case False
    then have "c' = c1"
      using assms(2) first by (auto simp: controller_connect_def split: sum.splits if_splits)
    then show ?thesis
      using first_ok by simp
  qed
qed

lemma open_keeps:
  assumes "controller_inv I c" "st_worker_failure (ctl_status c) = None"
    and "controller_open R mode P m c = (c', Some result)"
  shows "controller_inv I c'"
proof (cases "ctl_runtime c")
  case None
  then have settled: "status_settled (ctl_status c)"
    using assms(1,2) by (simp add: controller_inv_def)
  then show ?thesis
    using assms(3) None opens[OF _ settled] failed_open_status[of R mode P m "ctl_config c" "ctl_status c"]
    by (fastforce simp: controller_open_def controller_inv_def split: option.splits sum.splits)
qed (use assms in \<open>simp add: controller_open_def\<close>)

lemma close_keeps:
  assumes "controller_inv I c" "close_with_mode R P close_mode c = (c', Some result)"
  shows "controller_inv I c'"
  using assms closes status_settled_set_lifecycle[of "ctl_status c" Lc_Closed]
  by (auto simp: close_with_mode_def controller_inv_def split: option.splits prod.splits)

lemma button_keeps:
  assumes "controller_inv I c"
  shows "controller_inv I (update_controller_status (record_unsupported_button b) c)"
proof (cases "ctl_runtime c")
  case None
  have "st_worker_failure (record_unsupported_button b st) = st_worker_failure st" for st
    by (simp add: record_unsupported_button_def)
  then show ?thesis
    using assms None by (auto simp: controller_inv_def update_controller_status_def status_settled_button)
next
  case (Some rt)
  have "ctl_runtime (update_controller_status f c) = Some (rt\<lparr>rt_owner := runtime_with_status f (rt_owner rt)\<rparr>)" for f
    by (simp add: update_controller_status_def runtime_with_status_def Let_def Some)
  then show ?thesis
    using assms Some buttons by (simp add: controller_inv_def)
qed

lemma controller_reachable_inv: "controller_reachable R mode P m c \<Longrightarrow> controller_inv I c"
proof (induction rule: controller_reachable.induct)
  case (configured config)
  show ?case
    by (simp add: controller_inv_def controller_from_config_def)
next
  case (created config timeout rt)
  then obtain outcome rt0 guard u where creation: "open_runtime_owner R mode P m config status_configured = Some outcome"
    "op_result outcome = Inr rt0" "pair_to_ready R P timeout rt0 = (guard, Some (Inr u))" "rt = fst guard"
    using created_runtime by blast
  have "I rt0"
    by (rule opens[OF creation(1) status_settled_configured creation(2)])
  then show ?case
    using pair_to_ready_exchange[OF creation(3)] exchanges creation(4) by (auto simp: controller_inv_def)
next
  case (called_pair c timeout c' result)
  then show ?case
    using controller_inv_call[of I c "runtime_pair R P timeout" c' result] pair_keeps
    unfolding controller_pair_def by blast
next
  case (called_reconnect c timeout c' result)
  then show ?case
    using controller_inv_call[of I c "runtime_reconnect R P timeout" c' result] reconnect_keeps
    unfolding controller_reconnect_def by blast
next
  case (called_request c command c' result)
  then show ?case
    using controller_inv_call[of I c "runtime_request R P command" c' result] exchanges
    unfolding runtime_request_def by blast
next
  case (called_button c kind c' button)
  then show ?case
    using button_keeps by (auto simp: controller_button_def split: sum.splits)
next
  case (worker_ran c rt n)
  then show ?case
    using runs by (simp add: controller_inv_def)
next
  case (called_open c c' result)
  show ?case by (rule open_keeps[OF called_open.IH called_open.hyps(2,3)])
next
  case (called_close c close_mode c' result)
  show ?case by (rule close_keeps[OF called_close.IH called_close.hyps(2)])
next
  case (called_connect c options c' path)
  show ?case by (rule connect_keeps[OF called_connect.IH called_connect.hyps(2)])
qed

end

text \<open>The laws hold in every environment.\<close>

locale reporting_laws_everywhere =
  fixes R :: "('c, 'r, 't) worker_reporting"
  assumes laws: "reporting_laws R E"
begin

lemma runtime_close_status:
  assumes "owner_ok R (rt_owner rt)" "runtime_close R P close_mode rt = (rt', Some result)"
    and "st_worker_failure (runtime_status rt') = None"
  shows "status_settled (runtime_status rt')"
proof -
  have running: "owner_running R (rt_owner rt)"
    using assms(1) by (simp add: owner_ok_def)
  obtain ow outcome where fin: "finish_explicit R (rt_env rt) (pf_fuel P) (pf_delay P) (pf_join P) close_mode (rt_owner rt)
      = (ow, Some outcome)" "rt' = rt\<lparr>rt_owner := ow\<rparr>"
    using assms(2) by (auto simp: runtime_close_def split: prod.splits)
  then obtain completion where "thread_ended R (ow_thread ow) completion"
    using reporting_laws.finish_explicit_ends[OF laws running fin(1)] by blast
  then have "closed_ok R (ss_worker (th_step (ow_thread ow)))"
    using assms(3) fin(2) by (auto simp: thread_ended_def torn_down_def runtime_status_def split: worker_terminal.splits)
  then show ?thesis
    using assms(3) fin(2) by (auto simp: closed_ok_def context_ok_def status_settled_def runtime_status_def Let_def)
qed

lemma owner_invariant:
  assumes "starts_idle R mode"
  shows "runtime_invariant R mode P m (\<lambda>rt. owner_ok R (rt_owner rt))"
proof
  show "owner_ok R (rt_owner rt)"
    if "open_runtime_owner R mode P m config status = Some outcome" "status_settled status" "op_result outcome = Inr rt"
    for config status outcome rt
    using open_runtime_ok[OF assms that(1,2)] that(3) by (simp add: runtime_ok_def)
  show "owner_ok R (rt_owner rt')"
    if "owner_ok R (rt_owner rt)" "runtime_exchange R P command rt = (rt', Some result)" for rt command rt' result
    using reporting_laws.runtime_exchange_ok[OF laws that(1) HOL.refl that(2)] by blast
  show "owner_ok R (rt_owner (rt\<lparr>rt_owner := worker_runs R (rt_env rt) n (rt_owner rt)\<rparr>))"
    if "owner_ok R (rt_owner rt)" for rt n
    using reporting_laws.worker_runs_owner_ok[OF laws that] by simp
qed (simp_all add: owner_ok_button runtime_close_status)

lemma controller_reachable_ok:
  assumes "controller_reachable R mode P m c" "starts_idle R mode" "ctl_runtime c = Some rt"
  shows "owner_ok R (rt_owner rt)"
  using runtime_invariant.controller_reachable_inv[OF owner_invariant[OF assms(2)] assms(1)] assms(3)
  by (simp add: controller_inv_def)

end

interpretation periodic_everywhere: reporting_laws_everywhere periodic_reporting
  by unfold_locales

interpretation direct_everywhere: reporting_laws_everywhere direct_reporting
  by unfold_locales

interpretation periodic_owner: runtime_invariant periodic_reporting periodic_mode P m
    "\<lambda>rt. owner_ok periodic_reporting (rt_owner rt)" for P :: "'t platform" and m
  by (rule periodic_everywhere.owner_invariant[OF starts_idle_modes(1)])

interpretation direct_owner: runtime_invariant direct_reporting direct_mode P m
    "\<lambda>rt. owner_ok direct_reporting (rt_owner rt)" for P :: "'t platform" and m
  by (rule direct_everywhere.owner_invariant[OF starts_idle_modes(2)])

section \<open>What a caller relies on\<close>

text \<open>The state of a runtime between two calls, and what its next request meets.\<close>

definition serves_next :: "('c, 'r, 't) runtime \<Rightarrow> bool" where
  "serves_next rt \<longleftrightarrow>
     (let ow = rt_owner rt; ch = th_commands (ow_thread ow); st = runtime_status rt in
      ch_slot ch = None \<and> ch_in_flight ch = None
      \<and> (\<forall>command. case snd (owner_try_enqueue command ow) of
           Inr t \<Rightarrow> ow_completion ow = None \<and> t = ch_issued ch
         | Inl e \<Rightarrow> e = EnqueueDisconnected \<and> ow_completion ow \<noteq> None
             \<and> st_lifecycle st = Lc_Failed \<and> st_worker_failure st \<noteq> None))"

lemma owner_ok_serves:
  assumes "owner_ok R (rt_owner rt)"
  shows "serves_next rt"
proof -
  let ?ow = "rt_owner rt" and ?ch = "th_commands (ow_thread (rt_owner rt))"
  have empty: "ch_slot ?ch = None" "ch_in_flight ?ch = None"
    using assms by (auto simp: owner_ok_def pending_tickets_def split: option.splits)
  have failed: "st_lifecycle (runtime_status rt) = Lc_Failed \<and> st_worker_failure (runtime_status rt) \<noteq> None"
    if "ow_completion ?ow = Some completion" for completion
    using assms that by (auto simp: owner_ok_def owner_running_def thread_ended_def torn_down_def runtime_status_def)
  have alive: "ch_receiver_alive ?ch \<longleftrightarrow> ow_completion ?ow = None" "ow_commands ?ow"
    using assms by (auto simp: owner_ok_def owner_running_def thread_ok_def channel_ok_def split: option.splits)
  have "snd (owner_try_enqueue command ?ow) =
      (if ow_completion ?ow = None then Inr (ch_issued ?ch) else Inl EnqueueDisconnected)" for command
    using alive empty by (simp add: owner_try_enqueue_def try_enqueue_def Let_def)
  then show ?thesis
    using empty failed by (auto simp: serves_next_def Let_def)
qed


definition closes_well ::
  "('c, 'r, 't) worker_reporting \<Rightarrow> 't platform \<Rightarrow> close_mode \<Rightarrow> ('g, 'c, 'r, 't) controller \<Rightarrow> bool" where
  "closes_well R P close_mode c \<longleftrightarrow>
     (\<exists>c' result completion. close_with_mode R P close_mode c = (c', Some result) \<and> ctl_runtime c' = None
        \<and> (case result of
             Inr _ \<Rightarrow> reported_failures (Some completion) (pf_join P) = []
           | Inl e \<Rightarrow> error_chain e = reported_failures (Some completion) (pf_join P))
        \<and> (case wc_terminal completion of
             TerminalClosed close \<Rightarrow> cc_performed close \<and> st_lifecycle (ctl_status c') = Lc_Closed
               \<and> st_worker_failure (ctl_status c') = None
           | TerminalFailed cause _ \<Rightarrow> st_lifecycle (ctl_status c') = Lc_Failed
               \<and> st_worker_failure (ctl_status c') = Some (worker_failure_status cause))
        \<and> st_session_id (ctl_status c') = None \<and> \<not> st_connected (ctl_status c'))"

context reporting_laws_everywhere
begin

lemma owner_closes:
  assumes "owner_ok R (rt_owner rt)" "ctl_runtime c = Some rt" "pf_delay P < pf_fuel P"
  shows "closes_well R P close_mode c"
proof -
  have running: "owner_running R (rt_owner rt)"
    using assms(1) by (simp add: owner_ok_def)
  obtain ow completion where fin: "finish_explicit R (rt_env rt) (pf_fuel P) (pf_delay P) (pf_join P) close_mode (rt_owner rt)
      = (ow, Some (finish_thread (Some completion) (pf_join P)))"
    and ended: "thread_ended R (ow_thread ow) completion"
    using reporting_laws.finish_explicit_ok[OF laws[of "rt_env rt"] running assms(3), of "pf_join P" close_mode] by blast
  let ?c = "c\<lparr>ctl_runtime := None, ctl_status := runtime_status (rt\<lparr>rt_owner := ow\<rparr>)\<rparr>"
  have close: "close_with_mode R P close_mode c =
      (?c, Some (map_worker_outcome (finish_thread (Some completion) (pf_join P))))"
    by (simp add: close_with_mode_def assms(2) runtime_close_def fin)
  show ?thesis
    unfolding closes_well_def
    using finish_failures[of "Some completion" "pf_join P"] ended close
    by (intro exI[of _ ?c] exI[of _ "map_worker_outcome (finish_thread (Some completion) (pf_join P))"]
        exI[of _ completion])
      (auto simp: thread_ended_def runtime_status_def closed_ok_def torn_down_def context_ok_def Let_def
        split: worker_terminal.splits)
qed

end


text \<open>Two controllers on the scripted transport.\<close>

definition sample_platform :: "scripted_port platform" where
  "sample_platform = \<lparr>pf_floats = sample_floats, pf_transport = scripted_transport,
     pf_factory = (\<lambda>_. Inr scripted_start), pf_clock = (\<lambda>n. n), pf_waits = (\<lambda>_. True), pf_spawns = True,
     pf_join = Inr (), pf_delay = 2, pf_fuel = 3\<rparr>"

definition sample_config :: "'g \<Rightarrow> 'g controller_config" where
  "sample_config g = \<lparr>cf_adapter = ''usb:0'', cf_profile = Ephemeral, cf_colors = default_colors (protocol_spec Pro),
     cf_mode = g\<rparr>"

definition sample_open ::
  "('c, 'r, scripted_port) worker_reporting \<Rightarrow> ('o, 'g, 'c, 'r) reporting_mode \<Rightarrow> 'g
   \<Rightarrow> ('g, 'c, 'r, scripted_port) controller" where
  "sample_open R mode g = fst (controller_open R mode sample_platform Pro (controller_from_config (sample_config g)))"

lemma sample_open:
  assumes "md_build_state mode g = Some r"
  shows "controller_reachable R mode sample_platform Pro (sample_open R mode g)
    \<and> (\<exists>rt. ctl_runtime (sample_open R mode g) = Some rt)"
proof -
  have capable: "capabilities_from_validated_classic_controller [0, 27, 220, 249, 159, 125] =
      Inr \<lparr>cap_local_address = [0, 27, 220, 249, 159, 125], cap_classic_capable = True\<rparr>"
  proof -
    have "replicate 6 (0 :: u8) = [0, 0, 0, 0, 0, 0]"
      by (simp add: eval_nat_numeral)
    then show ?thesis
      by (simp add: capabilities_from_validated_classic_controller_def)
  qed
  obtain c result where run: "controller_open R mode sample_platform Pro (controller_from_config (sample_config g))
      = (c, Some result)" "\<exists>rt. ctl_runtime c = Some rt"
    using assms
    by (simp add: controller_open_def controller_from_config_def open_runtime_owner_def sample_platform_def
        sample_config_def scripted_transport_def capable Let_def)
  then show ?thesis
    using called_open[OF configured _ run(1)]
    by (simp add: sample_open_def controller_from_config_def status_configured_def)
qed

lemma sample_builds: "md_build_state periodic_mode 8000000 \<noteq> None" "md_build_state direct_mode () \<noteq> None"
  by (simp_all add: periodic_mode_def direct_mode_def periodic_build_state_def sample_periodic)



end
