(* ===== verification/WorkerEndings.thy ===== *)
theory WorkerEndings
  imports WorkerShutdown
begin

text \<open>
  How a step ends early: only by closing or by failing the worker.  The locale \<open>step_endings\<close> takes what these two
  guarantee, as a property of the outcome and the worker, and gives it for every early end of every phase.
\<close>

definition ends_with :: "(worker_outcome \<Rightarrow> ('r, 't) worker_core \<Rightarrow> bool) \<Rightarrow> ('r, 't) phase \<Rightarrow> bool" where
  "ends_with G p = (\<forall>outcome. snd p = Some outcome \<longrightarrow> G outcome (ss_worker (fst p)))"

lemma ends_with_none [simp]: "ends_with G (ss, None)"
  by (simp add: ends_with_def)

lemma ends_with_and_then: "ends_with G p \<Longrightarrow> (\<And>ss. ends_with G (f ss)) \<Longrightarrow> ends_with G (and_then p f)"
  by (cases p; cases "snd p") (auto simp: and_then_def ends_with_def)

locale step_endings =
  fixes R :: "('c, 'r, 't) worker_reporting" and E :: "'t env"
    and G :: "worker_outcome \<Rightarrow> ('r, 't) worker_core \<Rightarrow> bool"
  assumes closes: "worker_close R E request now wp = (wp', outcome) \<Longrightarrow> G outcome (fst wp')"
    and fails: "worker_fail e wp = (wp', outcome) \<Longrightarrow> G outcome (fst wp')"
begin

lemma fail_ends [simp]:
  "ends_with G (case worker_fail e wp of (wp, outcome) \<Rightarrow> (set_work wp ss, Some outcome))"
  using fails[of e wp] by (simp add: case_prod_beta ends_with_def set_work_def)

lemma check_shutdown_ends [simp]: "ends_with G (check_shutdown R E ss)"
  using closes
  by (auto simp: check_shutdown_def close_phase_def ends_with_def ss_work_def set_work_def
      split: prod.splits option.splits)

lemma shutdown_or_fail_ends [simp]: "ends_with G (shutdown_or_fail R E e ss)"
  unfolding shutdown_or_fail_def by (rule ends_with_and_then) simp_all

lemma shutdown_then_terminal_ends [simp]:
  "ends_with G (and_then (check_shutdown R E a) (\<lambda>ss.
       case terminal of
         None \<Rightarrow> (ss, None)
       | Some e \<Rightarrow> (case worker_fail e (ss_work ss) of (wp, outcome) \<Rightarrow> (set_work wp ss, Some outcome))))"
  by (rule ends_with_and_then) (cases terminal; simp)+

lemma command_phase_ends [simp]: "ends_with G (command_phase R E next_command ss)"
  unfolding command_phase_def Let_def
  by (rule ends_with_and_then) (auto split: option.splits prod.splits)

lemma drive_phase_ends [simp]: "ends_with G (drive_phase R E ss)"
  by (auto simp: drive_phase_def split: prod.splits sum.splits)

lemma event_phase_ends [simp]: "ends_with G (event_phase R E event ss)"
  unfolding event_phase_def Let_def
  by (auto split: prod.splits sum.splits intro!: ends_with_and_then)

lemma events_phase_ends [simp]: "ends_with G (events_phase R E events ss)"
  by (induction events arbitrary: ss) (simp_all add: ends_with_and_then)

lemma poll_phase_ends [simp]: "ends_with G (poll_phase R E batches ss)"
  by (induction batches arbitrary: ss)
    (auto simp: Let_def split: prod.splits sum.splits intro!: ends_with_and_then)

lemma due_phase_ends [simp]: "ends_with G (due_phase R E ss)"
  by (auto simp: due_phase_def Let_def split: prod.splits)

text \<open>A step ends early with \<open>G\<close>, or goes on through its last phase.\<close>

lemma and_then_cases:
  assumes "and_then p f = (ss', Some outcome)" "ends_with G p"
  shows "G outcome (ss_worker ss') \<or> (\<exists>ss. f ss = (ss', Some outcome))"
  using assms by (cases p; cases "snd p") (auto simp: and_then_def ends_with_def)

lemma step_cases:
  assumes "step_runtime R E next_command ss = (ss', Some outcome)"
  shows "G outcome (ss_worker ss') \<or> (\<exists>ss. finish_phase R ss = (ss', Some outcome))"
proof -
  have last: "G outcome (ss_worker ss') \<or> (\<exists>ss. g ss = (ss', Some outcome))"
    if "G outcome (ss_worker ss') \<or> (\<exists>ss. and_then (p ss) g = (ss', Some outcome))" "\<And>ss. ends_with G (p ss)" for p g
    using that and_then_cases by blast
  have "G outcome (ss_worker ss') \<or> (\<exists>ss. and_then (check_shutdown R E ss) (\<lambda>ss.
      and_then (command_phase R E next_command ss) (\<lambda>ss.
      and_then (poll_phase R E (wk_poll_batches (ss_worker ss)) ss) (\<lambda>ss.
      and_then (drive_phase R E ss) (\<lambda>ss.
      and_then (due_phase R E ss) (\<lambda>ss.
      finish_phase R ss))))) = (ss', Some outcome))"
    using assms by (auto simp: step_runtime_def Let_def)
  note last[OF this check_shutdown_ends]
  note last[OF this command_phase_ends]
  note last[OF this poll_phase_ends]
  note last[OF this drive_phase_ends]
  note last[OF this due_phase_ends]
  then show ?thesis .
qed

end

section \<open>No phase but the last goes on\<close>

interpretation not_continue: step_endings R E "\<lambda>outcome _. outcome \<noteq> StepContinue"
  for R :: "('c, 'r, 't) worker_reporting" and E :: "'t env"
proof
  show "outcome \<noteq> StepContinue" if "worker_close R E request now wp = (wp', outcome)" for request now wp wp' outcome
    using close_outcome[of R E request now wp] that by auto
  show "outcome \<noteq> StepContinue" if "worker_fail e wp = (wp', outcome)" for e and wp wp' :: "('r, 't) work" and outcome
    using fail_outcome[of e wp] that by auto
qed

lemma step_continues:
  assumes "step_runtime R E next_command ss = (ss', Some StepContinue)"
  shows "\<exists>ss. finish_phase R ss = (ss', Some StepContinue)"
  using not_continue.step_cases[OF assms] by blast

section \<open>A closed worker has closed its transport\<close>

definition transport_closed :: "'t env \<Rightarrow> 't runtime_context \<Rightarrow> bool" where
  "transport_closed E cx = (\<exists>t. cx_transport cx = fst (t_close (env_transport E) t))"

lemma cleanup_run_closes:
  assumes "cleanup_run E sq connected now with_status lifecycle cx = (lifecycle', cx', completion)" "cc_performed completion"
  shows "transport_closed E cx'"
proof -
  have "transport_closed E (fst (cleanup_stages E sq connected now cx))" for cx
    by (auto simp: cleanup_stages_def Let_def call_transport_def transport_closed_def split: prod.splits)
      (metis fst_conv)+
  then show ?thesis
    using assms
    by (auto simp: cleanup_run_def not_performed_def transport_closed_def Let_def split: prod.splits if_splits)
      (metis fst_conv)+
qed

interpretation closing: step_endings R E
    "\<lambda>outcome w. \<forall>completion interrupted. outcome = StepClosed completion interrupted \<and> cc_performed completion
       \<longrightarrow> transport_closed E (wk_cx w)"
  for R :: "('c, 'r, 't) worker_reporting" and E :: "'t env"
proof
  show "\<forall>completion interrupted. outcome = StepClosed completion interrupted \<and> cc_performed completion
      \<longrightarrow> transport_closed E (wk_cx (fst wp'))" if "worker_close R E request now wp = (wp', outcome)"
    for request now wp wp' outcome
    using that
    by (auto simp: worker_close_def Let_def split: prod.splits dest!: cleanup_run_closes)
      (simp add: transport_closed_def)
  show "\<forall>completion interrupted. outcome = StepClosed completion interrupted \<and> cc_performed completion
      \<longrightarrow> transport_closed E (wk_cx (fst wp'))" if "worker_fail e wp = (wp', outcome)"
    for e and wp wp' :: "('r, 't) work" and outcome
    using fail_outcome[of e wp] that by auto
qed

lemma step_closed_transport:
  assumes "step_runtime R E next_command ss = (ss', Some (StepClosed completion interrupted))" "cc_performed completion"
  shows "transport_closed E (wk_cx (ss_worker ss'))"
  using closing.step_cases[OF assms(1)] assms(2) by (auto simp: finish_phase_def)

end
