(* ===== verification/TransportRelease.thy ===== *)
theory TransportRelease
  imports ControllerProperties WorkerEndings
begin

text \<open>
  A worker that has ended has closed its transport, whatever ended it; so has a controller that was closed or that
  failed to open.
\<close>

section \<open>Threads\<close>

abbreviation thread_context :: "('c, 'r, 't) thread_state \<Rightarrow> 't runtime_context" where
  "thread_context th \<equiv> wk_cx (ss_worker (th_step th))"

lemma open_cleanup_closes:
  assumes "cleanup_run E sq connected now with_status lifecycle cx = (lifecycle', cx', completion)" "lifecycle \<noteq> Rs_Closing"
  shows "transport_closed E cx'"
proof -
  have "cc_performed completion"
    using assms by (auto simp: cleanup_run_def request_close_eq Let_def split: prod.splits)
  then show ?thesis
    by (rule cleanup_run_closes[OF assms(1)])
qed

lemma failure_cleanup_closes:
  assumes "complete_worker_failure R E cause d th = (th', result)" "wk_lifecycle (ss_worker (th_step th)) \<noteq> Rs_Closing"
  shows "transport_closed E (thread_context th')"
  using assms
  by (auto simp: complete_worker_failure_def clock_now_def cleanup_after_failure_without_neutral_def Let_def
      split: prod.splits dest!: open_cleanup_closes)

lemma thread_exit_transport [simp]:
  "transport_closed E (thread_context (thread_exit completion th)) = transport_closed E (thread_context th)"
  by (simp add: thread_exit_def transport_closed_def Let_def split: worker_terminal.split)

context reporting_laws
begin

lemma loop_iteration_closes:
  assumes "thread_ok R th" "loop_iteration R E th = (th', Some completion)"
  shows "transport_closed E (thread_context th')"
proof -
  obtain th1 outcome where step: "thread_step R E (client_turn th) = (th1, outcome)"
    by fastforce
  note after = thread_step_ok[OF conjunct1[OF client_turn_ok[OF assms(1)]] step]
  have closed: "transport_closed E (thread_context th1)" if "outcome = StepClosed close interrupted" for close interrupted
  proof -
    obtain taken next_command where offered: "try_next (th_commands (client_turn th)) = (taken, next_command)"
      by fastforce
    obtain ss out where run: "step_runtime R E next_command (th_step (client_turn th)) = (ss, Some out)"
      using step_returns[of R E next_command "th_step (client_turn th)"]
      by (cases "step_runtime R E next_command (th_step (client_turn th))") auto
    have "out = StepClosed close interrupted" "th_step th1 = ss" "cc_performed close"
      using step after that by (auto simp: thread_step_def offered run)
    then show ?thesis
      using step_closed_transport[of R E next_command _ ss close interrupted] run by simp
  qed
  have failing: "wk_lifecycle (ss_worker (th_step th1)) \<noteq> Rs_Closing" if "\<nexists>close interrupted. outcome = StepClosed close interrupted"
    using after that by (cases outcome) (auto simp: worker_inv_def failed_ok_def attached_def)
  show ?thesis
    using assms(2) closed failing
    by (auto simp: loop_iteration_def step Let_def split: prod.splits worker_outcome.splits sum.splits
        dest!: failure_cleanup_closes wait_keeps)
qed

lemma run_worker_loop_closes:
  assumes "thread_ok R th" "run_worker_loop R E fuel th = (th', Some completion)"
  shows "transport_closed E (thread_context th')"
  using assms
proof (induction fuel arbitrary: th)
  case (Suc fuel)
  obtain th1 result where it: "loop_iteration R E th = (th1, result)"
    by fastforce
  show ?case
  proof (cases result)
    case None
    then show ?thesis
      using Suc.IH[of th1] Suc.prems(2) loop_iteration_ok[OF Suc.prems(1) it] it by (simp add: iteration_ok_def)
  next
    case (Some c)
    then show ?thesis
      using loop_iteration_closes[OF Suc.prems(1)] Suc.prems(2) it by auto
  qed
qed simp

lemma run_started_worker_closes:
  assumes "thread_ok R th" "run_started_worker R E fuel th = (th', Some completion)"
  shows "transport_closed E (thread_context th')"
  using assms run_worker_loop_closes[OF assms(1)]
  by (auto simp: run_started_worker_def split: prod.splits option.splits)

end

section \<open>Owners\<close>

text \<open>A thread that has ended has closed the transport.\<close>

definition owner_closed :: "'t env \<Rightarrow> ('c, 'r, 't) worker_owner \<Rightarrow> bool" where
  "owner_closed E ow = (ow_completion ow \<noteq> None \<longrightarrow> transport_closed E (thread_context (ow_thread ow)))"

context reporting_laws
begin

lemma worker_runs_once_closed:
  assumes "owner_running R ow" "owner_closed E ow"
  shows "owner_closed E (worker_runs_once R E ow)"
proof (cases "ow_completion ow")
  case None
  obtain th result where it: "loop_iteration R E (ow_thread ow) = (th, result)"
    by fastforce
  have "thread_ok R (ow_thread ow)"
    using assms(1) None by (simp add: owner_running_def)
  then show ?thesis
    using None it loop_iteration_closes[of "ow_thread ow" th]
    by (auto simp: worker_runs_once_def owner_closed_def split: option.split)
qed (use assms in \<open>simp add: worker_runs_once_def\<close>)

lemma worker_runs_closed:
  "owner_running R ow \<Longrightarrow> owner_closed E ow \<Longrightarrow> owner_closed E (worker_runs R E n ow)"
proof (induction n)
  case (Suc n)
  then show ?case
    using worker_runs_once_closed[of "worker_runs R E n ow"] worker_runs_ok[of ow n] by (simp add: worker_runs_def)
qed (simp add: worker_runs_def)

lemma await_response_closed:
  assumes "owner_running R ow" "owner_closed E ow" "await_response R E fuel t ow = (ow', response)"
  shows "owner_closed E ow'"
  using assms
proof (induction fuel arbitrary: ow)
  case 0
  then show ?case
    by (auto simp: await_response.simps[of R E 0] split: option.splits)
next
  case (Suc fuel)
  then show ?case
    using Suc.IH[of "worker_runs_once R E ow"] worker_runs_once_ok[OF Suc.prems(1)]
      worker_runs_once_closed[OF Suc.prems(1,2)]
    by (auto simp: await_response.simps[of R E "Suc fuel"] split: option.splits)
qed

lemma runtime_exchange_closed:
  assumes "owner_ok R (rt_owner rt)" "owner_closed E (rt_owner rt)" "rt_env rt = E"
    and "runtime_exchange R P command rt = (rt', Some result)"
  shows "owner_closed E (rt_owner rt')"
proof -
  obtain ow enqueued where enqueue: "owner_try_enqueue command (rt_owner rt) = (ow, enqueued)"
    by fastforce
  have same: "owner_closed E ow"
    using enqueue assms(2) by (auto simp: owner_try_enqueue_def owner_closed_def split: if_splits prod.splits)
  show ?thesis
  proof (cases enqueued)
    case (Inl e)
    then show ?thesis
      using assms(4) enqueue same by (auto simp: runtime_exchange_def)
  next
    case (Inr t)
    obtain ow' response where await: "await_response R E (pf_fuel P) t ow = (ow', response)"
      by fastforce
    have "owner_closed E ow'"
      using await_response_closed[OF _ same await] owner_try_enqueue_ok[OF assms(1) enqueue] Inr by simp
    then show ?thesis
      using assms(3,4) enqueue Inr await by (auto simp: runtime_exchange_def split: option.splits sum.splits)
  qed
qed

lemma finish_explicit_closed:
  assumes "owner_running R ow" "owner_closed E ow" "finish_explicit R E fuel delay join mode ow = (ow', Some outcome)"
  shows "transport_closed E (thread_context (ow_thread ow'))"
proof -
  let ?ow = "owner_request_shutdown (ShutdownExplicit mode) delay ow"
  have fields: "ow_completion ?ow = ow_completion ow" "thread_context (ow_thread ?ow) = thread_context (ow_thread ow)"
    by (simp_all add: owner_request_shutdown_def Let_def)
  show ?thesis
  proof (cases "ow_completion ow")
    case None
    then have "thread_ok R (ow_thread ?ow)"
      using assms(1) by (simp add: owner_running_def owner_request_shutdown_def Let_def thread_ok_def)
    then show ?thesis
      using assms(3) None fields run_started_worker_closes[of "ow_thread ?ow" fuel]
      by (auto simp: finish_explicit_def finish_owner_thread_def split: prod.splits option.splits)
  next
    case (Some completion)
    then show ?thesis
      using assms(2,3) fields by (auto simp: finish_explicit_def finish_owner_thread_def owner_closed_def)
  qed
qed

end

section \<open>Controllers\<close>

definition left_by_close :: "'t transport_port \<Rightarrow> 't \<Rightarrow> bool" where
  "left_by_close T t = (\<exists>before. t = fst (t_close T before))"

lemma cleanup_unowned_closes:
  "cleanup_unowned_transport T t = (t', cleanup) \<Longrightarrow> left_by_close T t'"
  by (auto simp: cleanup_unowned_transport_def Let_def case_prod_beta left_by_close_def)

lemma open_close_closes:
  assumes "wk_lifecycle w \<noteq> Rs_Closing"
  shows "transport_closed E (wk_cx (fst (fst (worker_close R E request now (w, pg)))))"
proof -
  have "wk_lifecycle (fst (complete_connection_command result (w, pg))) = wk_lifecycle w" for result
    by (auto simp: complete_connection_command_def Let_def split: option.splits)
  then show ?thesis
    using assms
    by (auto simp: worker_close_def transport_closed_def Let_def split: prod.splits)
      (metis fst_conv open_cleanup_closes transport_closed_def)
qed

text \<open>Opening: what is left of a transport when it fails.\<close>

lemma open_failure_closes:
  assumes "open_runtime_owner R mode P m config status = Some outcome" "op_result outcome = Inl e"
  shows "(case op_left outcome of
      None \<Rightarrow> pf_factory P (factory_config_from_controller m config) = Inl e
    | Some t \<Rightarrow> left_by_close (pf_transport P) t)"
proof -
  have spawn: "left_by_close (env_transport E) (cx_transport (wk_cx w))"
    if "cleanup_unspawned_without_neutral R E now (from_open_transport t r n st) = (w, o')" for E now t r n st w o'
    using that open_close_closes[of "from_open_transport t r n st" E R "ShutdownExplicit WithoutNeutral" now step_progress_new]
    by (auto simp: cleanup_unspawned_without_neutral_def from_open_transport_def lifecycle_new_def transport_closed_def
        left_by_close_def split: prod.splits)
  show ?thesis
    using assms
    by (auto simp: open_runtime_owner_def spawn_failed_def Let_def split: sum.splits prod.splits if_splits
        dest!: spawn cleanup_unowned_closes)
qed


text \<open>Running and closing.\<close>

definition runtime_closed :: "'t transport_port \<Rightarrow> ('c, 'r, 't) runtime \<Rightarrow> bool" where
  "runtime_closed T rt = (env_transport (rt_env rt) = T \<and> owner_closed (rt_env rt) (rt_owner rt))"

definition runtime_transport :: "('c, 'r, 't) runtime \<Rightarrow> 't" where
  "runtime_transport rt = cx_transport (thread_context (ow_thread (rt_owner rt)))"

lemma open_runtime_closed:
  assumes "open_runtime_owner R mode P m config status = Some outcome" "op_result outcome = Inr rt"
  shows "runtime_closed (pf_transport P) rt"
  using assms
  by (auto simp: open_runtime_owner_def spawn_failed_def runtime_closed_def owner_closed_def owner_start_def Let_def
      split: sum.splits prod.splits if_splits)

lemma runtime_closed_with_status [simp]:
  "runtime_closed T (rt\<lparr>rt_owner := runtime_with_status f (rt_owner rt)\<rparr>) = runtime_closed T rt"
  by (simp add: runtime_closed_def owner_closed_def runtime_with_status_def transport_closed_def Let_def)

lemma runtime_exchange_env: "runtime_exchange R P command rt = (rt', result) \<Longrightarrow> rt_env rt' = rt_env rt"
  by (auto simp: runtime_exchange_def split: prod.splits sum.splits option.splits)

context reporting_laws_everywhere
begin

lemma closed_invariant:
  assumes "starts_idle R mode"
  shows "runtime_invariant R mode P m (\<lambda>rt. owner_ok R (rt_owner rt) \<and> runtime_closed (pf_transport P) rt)"
proof
  show "owner_ok R (rt_owner rt) \<and> runtime_closed (pf_transport P) rt"
    if "open_runtime_owner R mode P m config status = Some outcome" "status_settled status" "op_result outcome = Inr rt"
    for config status outcome rt
    using open_runtime_ok[OF assms that(1,2)] open_runtime_closed[OF that(1,3)] that(3) by (simp add: runtime_ok_def)
  show "owner_ok R (rt_owner rt') \<and> runtime_closed (pf_transport P) rt'"
    if "owner_ok R (rt_owner rt) \<and> runtime_closed (pf_transport P) rt" "runtime_exchange R P command rt = (rt', Some result)"
    for rt command rt' result
    using that reporting_laws.runtime_exchange_ok[OF laws _ HOL.refl that(2)] runtime_exchange_env[OF that(2)]
      reporting_laws.runtime_exchange_closed[OF laws _ _ HOL.refl that(2)]
    by (simp add: runtime_closed_def)
  show "owner_ok R (rt_owner (rt\<lparr>rt_owner := worker_runs R (rt_env rt) n (rt_owner rt)\<rparr>))
      \<and> runtime_closed (pf_transport P) (rt\<lparr>rt_owner := worker_runs R (rt_env rt) n (rt_owner rt)\<rparr>)"
    if "owner_ok R (rt_owner rt) \<and> runtime_closed (pf_transport P) rt" for rt n
    using that reporting_laws.worker_runs_owner_ok[OF laws] reporting_laws.worker_runs_closed[OF laws]
    by (simp add: runtime_closed_def owner_ok_def)
  show "owner_ok R (rt_owner (rt\<lparr>rt_owner := runtime_with_status (record_unsupported_button b) (rt_owner rt)\<rparr>))
      \<and> runtime_closed (pf_transport P) (rt\<lparr>rt_owner := runtime_with_status (record_unsupported_button b) (rt_owner rt)\<rparr>)"
    if "owner_ok R (rt_owner rt) \<and> runtime_closed (pf_transport P) rt" for rt b
    using that by (simp add: owner_ok_button)
qed (blast intro: runtime_close_status)

lemma controller_reachable_closed:
  assumes "controller_reachable R mode P m c" "starts_idle R mode" "ctl_runtime c = Some rt"
  shows "owner_ok R (rt_owner rt) \<and> runtime_closed (pf_transport P) rt"
  using runtime_invariant.controller_reachable_inv[OF closed_invariant[OF assms(2)] assms(1)] assms(3)
  by (simp add: controller_inv_def)

lemma close_leaves_transport:
  assumes "controller_reachable R mode P m c" "starts_idle R mode" "ctl_runtime c = Some rt" "pf_delay P < pf_fuel P"
  shows "\<exists>rt' result. runtime_close R P close_mode rt = (rt', Some result)
    \<and> left_by_close (pf_transport P) (runtime_transport rt')"
proof -
  have ok: "owner_running R (rt_owner rt)" "owner_closed (rt_env rt) (rt_owner rt)" "env_transport (rt_env rt) = pf_transport P"
    using controller_reachable_closed[OF assms(1-3)] by (simp_all add: owner_ok_def runtime_closed_def)
  obtain ow outcome where fin: "finish_explicit R (rt_env rt) (pf_fuel P) (pf_delay P) (pf_join P) close_mode (rt_owner rt)
      = (ow, Some outcome)"
    using reporting_laws.finish_explicit_ok[OF laws[of "rt_env rt"] ok(1) assms(4), of "pf_join P" close_mode] by blast
  show ?thesis
    using reporting_laws.finish_explicit_closed[OF laws ok(1,2) fin] ok(3)
    by (simp add: runtime_close_def fin runtime_transport_def transport_closed_def left_by_close_def)
qed

end

end
