(* ===== verification/BumbleController.thy ===== *)
theory BumbleController
  imports Bumble TransportRelease
begin

text \<open>
  The controller over the Bluetooth transport: \<open>bumble_runtime_components\<close> of \<open>src/controller/runtime.rs\<close> makes a port
  for each opening, and no session of the backend outlives the controller that opened it.
\<close>

definition bumble_runtime_components :: "controller_kind \<Rightarrow> 'w \<Rightarrow> factory_config \<Rightarrow> ('s, 'w) bumble_port" where
  "bumble_runtime_components m world config =
     bumble_with_profile_key_store (fc_selector config) (fc_transport config) (fc_identity config)
       (map_option (profile_key_store_new m) (fc_profile_key_store config)) world"

text \<open>A platform whose transport is such a port, with the log of its sessions.\<close>

definition on_bumble ::
  "('a, 'b, 'c, 's, 'w) bumble_backend \<Rightarrow> controller_kind \<Rightarrow> 'w \<Rightarrow> ('s, 'w) managed_port platform \<Rightarrow> bool" where
  "on_bumble K m world P =
     (pf_transport P = managed_transport K
      \<and> (\<forall>config. \<exists>p. pf_factory P config = Inr p \<and> Rep_managed_port p = bumble_runtime_components m (world, []) config))"

definition no_session_left :: "('s, 'w) managed_port \<Rightarrow> bool" where
  "no_session_left p = (managed_session p = None \<and> session_log NoSession (managed_log p) = Some NoSession
     \<and> length (filter opens (managed_log p)) = length (filter drops (managed_log p)))"

lemma managed_close_leaves_none: "left_by_close (managed_transport K) p \<Longrightarrow> no_session_left p"
  using managed_discipline[of p] managed_close_session[of K] session_log_balance[of NoSession "managed_log p" NoSession]
  by (auto simp: left_by_close_def managed_transport_def no_session_left_def session_phase_of_def)

lemma managed_closed [simp]: "no_session_left (fst (t_close (managed_transport K) p))"
  by (rule managed_close_leaves_none) (auto simp: left_by_close_def)

definition opening_releases ::
  "('c, 'r, ('s, 'w) managed_port) worker_reporting \<Rightarrow> ('o, 'g, 'c, 'r) reporting_mode \<Rightarrow> ('s, 'w) managed_port platform
   \<Rightarrow> controller_kind \<Rightarrow> bool" where
  "opening_releases R mode P m =
     (\<forall>config status outcome e. open_runtime_owner R mode P m config status = Some outcome \<and> op_result outcome = Inl e
        \<longrightarrow> (\<exists>p. op_left outcome = Some p \<and> no_session_left p))"

definition closing_releases ::
  "('c, 'r, ('s, 'w) managed_port) worker_reporting \<Rightarrow> ('s, 'w) managed_port platform
   \<Rightarrow> ('c, 'r, ('s, 'w) managed_port) runtime \<Rightarrow> bool" where
  "closing_releases R P rt =
     (\<forall>close_mode. \<exists>rt' result. runtime_close R P close_mode rt = (rt', Some result) \<and> no_session_left (runtime_transport rt'))"

definition ended_released :: "('c, 'r, ('s, 'w) managed_port) runtime \<Rightarrow> bool" where
  "ended_released rt = (ow_completion (rt_owner rt) \<noteq> None \<longrightarrow> no_session_left (runtime_transport rt))"

lemma bumble_opening_releases:
  assumes "on_bumble K m world P"
  shows "opening_releases R mode P m"
  unfolding opening_releases_def
proof (intro allI impI, elim conjE)
  fix config status outcome e
  assume run: "open_runtime_owner R mode P m config status = Some outcome" "op_result outcome = Inl e"
  have T: "pf_transport P = managed_transport K" "pf_factory P c \<noteq> Inl e'" for c e'
    using assms by (auto simp: on_bumble_def) (metis Inl_Inr_False)
  show "\<exists>p. op_left outcome = Some p \<and> no_session_left p"
    using open_failure_closes[OF run] T managed_close_leaves_none[of K] by (cases "op_left outcome") simp_all
qed

lemma reachable_releases:
  assumes "reporting_laws_everywhere R" "on_bumble K m world P" "pf_delay P < pf_fuel P"
    and "controller_reachable R mode P m c" "starts_idle R mode" "ctl_runtime c = Some rt"
  shows "closing_releases R P rt \<and> ended_released rt"
proof
  have T: "pf_transport P = managed_transport K"
    using assms(2) by (simp add: on_bumble_def)
  show "closing_releases R P rt"
    unfolding closing_releases_def
  proof
    fix close_mode
    from reporting_laws_everywhere.close_leaves_transport[OF assms(1,4-6,3), where close_mode = close_mode, unfolded T]
    obtain rt' result where "runtime_close R P close_mode rt = (rt', Some result)"
      "left_by_close (managed_transport K) (runtime_transport rt')"
      by (elim exE conjE)
    then show "\<exists>rt' result. runtime_close R P close_mode rt = (rt', Some result) \<and> no_session_left (runtime_transport rt')"
      using managed_close_leaves_none[of K "runtime_transport rt'"] by simp
  qed
  show "ended_released rt"
    using reporting_laws_everywhere.controller_reachable_closed[OF assms(1,4-6)] T
    by (auto simp: ended_released_def runtime_closed_def owner_closed_def transport_closed_def runtime_transport_def)
qed


text \<open>Two controllers on the sample backend.\<close>

definition sample_bumble_platform :: "(nat, nat) managed_port platform" where
  "sample_bumble_platform = \<lparr>pf_floats = sample_floats, pf_transport = managed_transport sample_backend,
     pf_factory = (\<lambda>config. Inr (managed_new (fc_selector config) (fc_transport config) (fc_identity config)
       (map_option (profile_key_store_new Pro) (fc_profile_key_store config)) 0)),
     pf_clock = (\<lambda>n. n), pf_waits = (\<lambda>_. True), pf_spawns = True, pf_join = Inr (), pf_delay = 2, pf_fuel = 3\<rparr>"

lemma sample_bumble_opens:
  assumes "md_build_state mode g = Some r"
  shows "\<exists>c rt. controller_reachable R mode sample_bumble_platform Pro c \<and> ctl_runtime c = Some rt"
proof -
  have zero: "replicate 6 (0 :: u8) = [0, 0, 0, 0, 0, 0]"
    by (simp add: eval_nat_numeral)
  have session: "snd (bumble_open (logged sample_backend) (bumble_with_profile_key_store selector config identity key_store (0, []))) =
      Inr \<lparr>cap_local_address = [0x00, 0x1B, 0xDC, 0xF9, 0x9F, 0x7D], cap_classic_capable = True\<rparr>"
    for selector config identity key_store
    using zero by (simp add: bumble_open_def bumble_with_profile_key_store_def backend_open_options_def map_backend_error_def
        session_capabilities_def capabilities_from_backend_def capabilities_from_validated_classic_controller_def
        logged_def sample_backend_def Let_def split: option.split)
  have opens: "\<exists>p'. managed_open sample_backend (managed_new selector config identity key_store 0) =
      (p', Inr \<lparr>cap_local_address = [0x00, 0x1B, 0xDC, 0xF9, 0x9F, 0x7D], cap_classic_capable = True\<rparr>)"
    for selector config identity key_store
    using managed_open_result[of sample_backend "managed_new selector config identity key_store 0"] session
    by (cases "managed_open sample_backend (managed_new selector config identity key_store 0)")
      (simp add: managed_new.rep_eq)
  let ?config = "\<lparr>cf_adapter = ''usb:0'', cf_profile = Ephemeral, cf_colors = default_colors (protocol_spec Pro), cf_mode = g\<rparr>"
  let ?f = "factory_config_from_controller Pro ?config"
  obtain p' where "managed_open sample_backend (managed_new (fc_selector ?f) (fc_transport ?f) (fc_identity ?f)
        (map_option (profile_key_store_new Pro) (fc_profile_key_store ?f)) 0) =
      (p', Inr \<lparr>cap_local_address = [0x00, 0x1B, 0xDC, 0xF9, 0x9F, 0x7D], cap_classic_capable = True\<rparr>)"
    using opens by blast
  then obtain c result where run: "controller_open R mode sample_bumble_platform Pro (controller_from_config ?config)
      = (c, Some result)" "\<exists>rt. ctl_runtime c = Some rt"
    using assms
    by (simp add: controller_open_def controller_from_config_def open_runtime_owner_def sample_bumble_platform_def
        managed_transport_def Let_def)
  then show ?thesis
    using called_open[OF configured _ run(1)]
    by (fastforce simp: controller_from_config_def status_configured_def)
qed


end
