(* ===== verification/CommandLine.thy ===== *)
theory CommandLine
  imports Prelude
begin

text \<open>
  What the two command-line tools share: an \<open>OsString\<close> is its bytes (as on Unix), \<open>to_str\<close> checks that they
  are UTF-8, and \<open>str::parse\<close> reads an unsigned integer.
\<close>

section \<open>Text\<close>

definition continuation :: "nat \<Rightarrow> nat \<Rightarrow> char \<Rightarrow> bool" where
  "continuation lo hi c \<longleftrightarrow> lo \<le> of_char c \<and> of_char c \<le> hi"

text \<open>The well-formed byte sequences, by their first byte.\<close>

fun utf8_valid :: "string \<Rightarrow> bool" where
  "utf8_valid [] = True"
| "utf8_valid (a # s) =
     (let n = of_char a :: nat; tail = continuation 0x80 0xBF in
      if n < 0x80 then utf8_valid s
      else if 0xC2 \<le> n \<and> n \<le> 0xDF then
        (case s of b # s \<Rightarrow> tail b \<and> utf8_valid s | [] \<Rightarrow> False)
      else if 0xE0 \<le> n \<and> n \<le> 0xEF then
        (case s of
           b # c # s \<Rightarrow>
             continuation (if n = 0xE0 then 0xA0 else 0x80) (if n = 0xED then 0x9F else 0xBF) b \<and> tail c \<and> utf8_valid s
         | _ \<Rightarrow> False)
      else if 0xF0 \<le> n \<and> n \<le> 0xF4 then
        (case s of
           b # c # d # s \<Rightarrow>
             continuation (if n = 0xF0 then 0x90 else 0x80) (if n = 0xF4 then 0x8F else 0xBF) b
             \<and> tail c \<and> tail d \<and> utf8_valid s
         | _ \<Rightarrow> False)
      else False)"

definition to_str :: "string \<Rightarrow> string option" where
  "to_str s = (if utf8_valid s then Some s else None)"

lemma to_str_Some: "to_str s = Some t \<longleftrightarrow> s = t \<and> utf8_valid t"
  by (auto simp: to_str_def)

lemma utf8_valid_ascii: "list_all (\<lambda>c. of_char c < (0x80 :: nat)) s \<Longrightarrow> utf8_valid s"
  by (induction s) (simp_all add: Let_def)

section \<open>Numbers\<close>

definition digit_value :: "char \<Rightarrow> nat option" where
  "digit_value c = (let n = of_char c :: nat in if 48 \<le> n \<and> n \<le> 57 then Some (n - 48) else None)"

definition decimal_value :: "string \<Rightarrow> nat" where
  "decimal_value s = fold (\<lambda>c n. 10 * n + the (digit_value c)) s 0"

text \<open>\<open>str::parse\<close> of an unsigned type with \<open>bound\<close> values: one sign is allowed, and at least one digit needed.\<close>

definition parse_unsigned :: "nat \<Rightarrow> string \<Rightarrow> nat option" where
  "parse_unsigned bound s =
     (let digits = (case s of c # t \<Rightarrow> if c = CHR ''+'' then t else s | [] \<Rightarrow> []) in
      if digits \<noteq> [] \<and> list_all (\<lambda>c. digit_value c \<noteq> None) digits \<and> decimal_value digits < bound
      then Some (decimal_value digits) else None)"

lemma digit_of_index: "i < 10 \<Longrightarrow> digit_value (''0123456789'' ! i) = Some i \<and> ''0123456789'' ! i \<noteq> CHR ''+''
    \<and> of_char (''0123456789'' ! i) < (0x80 :: nat)"
proof -
  assume "i < 10"
  then have "i \<in> {0, 1, 2, 3, 4, 5, 6, 7, 8, 9}"
    by auto
  then show ?thesis
    by (auto simp: digit_value_def)
qed

lemma decimal_value_snoc: "decimal_value (s @ [c]) = 10 * decimal_value s + the (digit_value c)"
  by (simp add: decimal_value_def)

lemma decimal_digits:
  "list_all (\<lambda>c. digit_value c \<noteq> None \<and> c \<noteq> CHR ''+'' \<and> of_char c < (0x80 :: nat)) (decimal n) \<and> decimal_value (decimal n) = n"
proof (induction n rule: decimal.induct)
  case (1 n)
  show ?case
  proof (cases "n < 10")
    case True
    then show ?thesis
      using digit_of_index[of n] by (subst (1 2) decimal.simps) (simp add: decimal_value_def)
  next
    case False
    then have "decimal n = decimal (n div 10) @ [''0123456789'' ! (n mod 10)]"
      by (subst decimal.simps) simp
    then show ?thesis
      using 1[OF False] digit_of_index[of "n mod 10"] by (simp add: decimal_value_snoc)
  qed
qed

lemma parse_decimal: "n < bound \<Longrightarrow> parse_unsigned bound (decimal n) = Some n"
  using decimal_digits[of n] length_decimal_pos[of n]
  by (cases "decimal n") (auto simp: parse_unsigned_def Let_def list_all_iff)

lemma parse_unsigned_less: "parse_unsigned bound s = Some n \<Longrightarrow> n < bound"
  by (auto simp: parse_unsigned_def Let_def split: if_splits)

section \<open>Flags and values\<close>

text \<open>\<open>chunks_exact(2)\<close>, and the arguments that a list of pairs stands for.\<close>

fun chunk_pairs :: "'a list \<Rightarrow> ('a \<times> 'a) list" where
  "chunk_pairs (a # b # rest) = (a, b) # chunk_pairs rest"
| "chunk_pairs rest = []"

definition flatten_pairs :: "('a \<times> 'a) list \<Rightarrow> 'a list" where
  "flatten_pairs pairs = concat (map (\<lambda>(a, b). [a, b]) pairs)"

lemma flatten_pairs_simps [simp]:
  "flatten_pairs [] = []" "flatten_pairs ((a, b) # pairs) = a # b # flatten_pairs pairs"
  by (simp_all add: flatten_pairs_def)

lemma chunk_flatten [simp]: "chunk_pairs (flatten_pairs pairs) = pairs"
  by (induction pairs) auto

lemma length_flatten [simp]: "length (flatten_pairs pairs) = 2 * length pairs"
  by (induction pairs) auto

lemma flatten_chunk: "even (length args) \<Longrightarrow> flatten_pairs (chunk_pairs args) = args"
  by (induction args rule: chunk_pairs.induct) auto

lemma even_flatten: "even (length args) \<longleftrightarrow> (\<exists>pairs. args = flatten_pairs pairs)"
  using flatten_chunk[of args] by (metis dvd_triv_left length_flatten)

end
