(* ===== verification/Json.thy ===== *)
theory Json
  imports ProfileDocument ImuEncoding
begin

text \<open>
  JSON values as \<open>serde_json::Value\<close> represents them: a number is an unsigned integer, a negative integer or a
  finite \<open>f64\<close>, and a \<open>Map\<close> is an association list with increasing keys, as in \<open>ProfileDocument\<close>.  Writing a
  value as text and reading it is the work of \<open>serde_json\<close>.
\<close>

section \<open>Values and objects\<close>

datatype json_value =
    JsonNull
  | JsonBool bool
  | JsonNumber nat
  | JsonNegative int
  | JsonFloat f64
  | JsonString string
  | JsonArray "json_value list"
  | JsonObject "(string \<times> json_value) list"

type_synonym json_object = "(string \<times> json_value) list"

text \<open>\<open>json!\<close> of an integer and of an optional integer.\<close>

definition json_number :: "'a::len word \<Rightarrow> json_value" where
  "json_number w = JsonNumber (unat w)"

definition json_optional :: "'a::len word option \<Rightarrow> json_value" where
  "json_optional v = (case v of None \<Rightarrow> JsonNull | Some w \<Rightarrow> json_number w)"

text \<open>\<open>Map::extend\<close> and \<open>collect\<close> insert one field after the other, replacing what a key had.\<close>

definition extend_object :: "json_object \<Rightarrow> (string \<times> json_value) list \<Rightarrow> json_object" where
  "extend_object object entries = fold (\<lambda>(k, v). btree_insert k v) entries object"

definition json_fields :: "(string \<times> json_value) list \<Rightarrow> json_object" where
  "json_fields entries = extend_object [] entries"

text \<open>\<open>Map::entry(..).or_insert(..)\<close>, \<open>Map::remove\<close>, \<open>Value::as_str\<close> and \<open>Value::as_u64\<close>.\<close>

definition or_insert :: "string \<Rightarrow> json_value \<Rightarrow> json_object \<Rightarrow> json_object" where
  "or_insert k v object = (if map_of object k = None then btree_insert k v object else object)"

definition remove_field :: "string \<Rightarrow> json_object \<Rightarrow> json_object" where
  "remove_field k object = filter (\<lambda>(k', v). k' \<noteq> k) object"

fun as_str :: "json_value \<Rightarrow> string option" where
  "as_str (JsonString s) = Some s"
| "as_str v = None"

fun as_u64 :: "json_value \<Rightarrow> nat option" where
  "as_u64 (JsonNumber n) = Some n"
| "as_u64 v = None"

section \<open>Looking fields up\<close>

lemma btree_ok_json_fields [simp]: "btree_ok (json_fields entries)"
  unfolding json_fields_def extend_object_def by (rule btree.well_formed_collect) simp

lemma map_of_rev_btree:
  assumes "btree_ok m"
  shows "map_of (rev m) = map_of m"
proof -
  have "distinct (map fst m)"
    using assms by (auto simp: btree_ok_def strict_sorted_iff)
  then show ?thesis
    by (metis map_of_inject_set distinct_rev rev_map set_rev)
qed

lemma map_of_json_fields: "map_of (json_fields entries) k = map_of (rev entries) k"
  unfolding json_fields_def extend_object_def
  by (simp add: btree.find_collect split: option.splits)

lemma json_number_inject [simp]: "json_number v = json_number w \<longleftrightarrow> v = w"
  by (simp add: json_number_def word_unat_eq_iff)

lemma json_optional_inject [simp]: "json_optional v = json_optional w \<longleftrightarrow> v = w"
  by (auto simp: json_optional_def json_number_def word_unat_eq_iff split: option.splits)

end
