(* ===== verification/DiagnosticsRecord.thy ===== *)
theory DiagnosticsRecord
  imports Status Json
begin

text \<open>
  The external form of a diagnostic event, \<open>to_value\<close> of \<open>src/diagnostics/event.rs\<close>: one flat object
  whose base fields name the schema, the event, the controller and the session.

  The two constants of a worker's diagnostic context, which \<open>diagnostic_event\<close> leaves out, are the arguments
  \<open>controller\<close> and \<open>reporting\<close>.  Writing the object as text and handing it to \<open>tracing\<close> is left to those
  crates; what a subscriber does with it is in \<open>ProbeTrace\<close>.
\<close>

section \<open>The records\<close>

datatype reporting_kind = PeriodicKind | DirectKind

fun worker_failure_category_name :: "worker_failure_category \<Rightarrow> string" where
  "worker_failure_category_name TransportFailure = ''transport''"
| "worker_failure_category_name WaitFailure = ''wait''"
| "worker_failure_category_name CommandDeliveryFailure = ''command_delivery''"
| "worker_failure_category_name PanickedFailure = ''panicked''"
| "worker_failure_category_name CompletionDisconnectedFailure = ''completion_disconnected''"
| "worker_failure_category_name InternalFailure = ''internal''"

fun reporting_name :: "reporting_kind \<Rightarrow> string" where
  "reporting_name PeriodicKind = ''periodic''"
| "reporting_name DirectKind = ''direct''"

fun lifecycle_name :: "lifecycle_state \<Rightarrow> string" where
  "lifecycle_name Lc_Configured = ''configured''"
| "lifecycle_name Lc_Open = ''open''"
| "lifecycle_name Lc_Connecting = ''connecting''"
| "lifecycle_name Lc_Ready = ''ready''"
| "lifecycle_name Lc_Closing = ''closing''"
| "lifecycle_name Lc_Closed = ''closed''"
| "lifecycle_name Lc_Failed = ''failed''"

fun button_name :: "button_kind \<Rightarrow> string" where
  "button_name Btn_A = ''a''"
| "button_name Btn_B = ''b''"
| "button_name Btn_X = ''x''"
| "button_name Btn_Y = ''y''"
| "button_name Btn_L = ''l''"
| "button_name Btn_R = ''r''"
| "button_name Btn_ZL = ''zl''"
| "button_name Btn_ZR = ''zr''"
| "button_name Btn_Plus = ''plus''"
| "button_name Btn_Minus = ''minus''"
| "button_name Btn_Home = ''home''"
| "button_name Btn_Capture = ''capture''"
| "button_name Btn_LeftStick = ''left_stick''"
| "button_name Btn_RightStick = ''right_stick''"
| "button_name Btn_SL = ''sl''"
| "button_name Btn_SR = ''sr''"
| "button_name Btn_DpadUp = ''dpad_up''"
| "button_name Btn_DpadDown = ''dpad_down''"
| "button_name Btn_DpadLeft = ''dpad_left''"
| "button_name Btn_DpadRight = ''dpad_right''"

definition diagnostics_schema :: string where
  "diagnostics_schema = ''swbt.diagnostics''"

definition diagnostics_schema_version :: nat where
  "diagnostics_schema_version = 1"

definition diagnostic_record ::
  "controller_kind \<Rightarrow> reporting_kind \<Rightarrow> u64 \<Rightarrow> string \<Rightarrow> json_object \<Rightarrow> json_object" where
  "diagnostic_record controller reporting session event extra =
     extend_object
       (json_fields
         [(''schema'', JsonString diagnostics_schema),
          (''schema_version'', JsonNumber diagnostics_schema_version),
          (''event'', JsonString event),
          (''controller_kind'', JsonString (controller_kind_name controller)),
          (''reporting_kind'', JsonString (reporting_name reporting)),
          (''session_id'', json_number session)])
       extra"

fun event_to_value :: "controller_kind \<Rightarrow> reporting_kind \<Rightarrow> diagnostic_event \<Rightarrow> json_object" where
  "event_to_value c r (SessionStarted s) = diagnostic_record c r s ''session_started'' []"
| "event_to_value c r (LifecycleChanged s lifecycle) =
     diagnostic_record c r s ''lifecycle_changed''
       (json_fields [(''lifecycle'', JsonString (lifecycle_name lifecycle))])"
| "event_to_value c r (SubcommandObserved s subcommand_id) =
     diagnostic_record c r s ''subcommand_observed''
       (json_fields [(''subcommand_id'', json_number subcommand_id)])"
| "event_to_value c r (ReportTxAccepted s mode imu inputs) =
     diagnostic_record c r s ''report_tx_accepted''
       (json_fields
         [(''report_mode'', json_optional mode),
          (''imu_mode'', json_number imu),
          (''input_reports_accepted'', json_number inputs)])"
| "event_to_value c r (ReplyTxAccepted s mode imu replies) =
     diagnostic_record c r s ''reply_tx_accepted''
       (json_fields
         [(''report_mode'', json_optional mode),
          (''imu_mode'', json_number imu),
          (''replies_accepted'', json_number replies)])"
| "event_to_value c r (SessionEnded s lifecycle disconnect_reason) =
     diagnostic_record c r s ''session_ended''
       (json_fields
         [(''lifecycle'', JsonString (lifecycle_name lifecycle)),
          (''disconnect_reason'', json_optional disconnect_reason)])"
| "event_to_value c r (WorkerFailedEvent s failure_category) =
     diagnostic_record c r s ''worker_failed''
       (json_fields
         [(''failure_category'', JsonString (worker_failure_category_name failure_category))])"
| "event_to_value c r (UnsupportedButtonEvent s button_kind) =
     diagnostic_record c r s ''unsupported_button''
       (json_fields [(''button_kind'', JsonString (button_name button_kind))])"

section \<open>What a record says\<close>

text \<open>
  Looking a key up in a record built from fields finds the last value given for it, so the base fields
  are seen through any extra field of another name.
\<close>

lemma btree_ok_diagnostic_record [simp]: "btree_ok (diagnostic_record c r s event extra)"
  unfolding diagnostic_record_def extend_object_def
  by (rule btree.well_formed_collect) simp

lemma map_of_diagnostic_record:
  assumes "btree_ok extra"
  shows "map_of (diagnostic_record c r s event extra) k =
    (case map_of extra k of
       Some v \<Rightarrow> Some v
     | None \<Rightarrow> map_of
         [(''schema'', JsonString diagnostics_schema),
          (''schema_version'', JsonNumber diagnostics_schema_version),
          (''event'', JsonString event),
          (''controller_kind'', JsonString (controller_kind_name c)),
          (''reporting_kind'', JsonString (reporting_name r)),
          (''session_id'', json_number s)] k)"
  using map_of_rev_btree[OF assms]
  by (simp add: diagnostic_record_def extend_object_def btree.find_collect map_of_json_fields
           split: option.splits)

text \<open>Every name stands for one value.\<close>

lemma names_inject [simp]:
  "reporting_name r = reporting_name r' \<longleftrightarrow> r = r'"
  "lifecycle_name l = lifecycle_name l' \<longleftrightarrow> l = l'"
  "worker_failure_category_name f = worker_failure_category_name f' \<longleftrightarrow> f = f'"
  "controller_kind_name c = controller_kind_name c' \<longleftrightarrow> c = c'"
     apply (cases r; cases r'; simp)
    apply (cases l; cases l'; simp)
   apply (cases f; cases f'; simp)
  by (cases c; cases c'; simp)

lemma button_name_inject [simp]: "button_name b = button_name b' \<longleftrightarrow> b = b'"
proof
  show "button_name b = button_name b' \<Longrightarrow> b = b'"
    by (cases b; cases b'; simp)
qed simp

text \<open>The name of an event, and the fields it adds to the base ones.\<close>

fun event_name :: "diagnostic_event \<Rightarrow> string" where
  "event_name (SessionStarted _) = ''session_started''"
| "event_name (LifecycleChanged _ _) = ''lifecycle_changed''"
| "event_name (SubcommandObserved _ _) = ''subcommand_observed''"
| "event_name (ReportTxAccepted _ _ _ _) = ''report_tx_accepted''"
| "event_name (ReplyTxAccepted _ _ _ _) = ''reply_tx_accepted''"
| "event_name (SessionEnded _ _ _) = ''session_ended''"
| "event_name (WorkerFailedEvent _ _) = ''worker_failed''"
| "event_name (UnsupportedButtonEvent _ _) = ''unsupported_button''"

lemma base_fields:
  "map_of (event_to_value c r e) ''schema'' = Some (JsonString ''swbt.diagnostics'')"
  "map_of (event_to_value c r e) ''schema_version'' = Some (JsonNumber 1)"
  "map_of (event_to_value c r e) ''event'' = Some (JsonString (event_name e))"
  "map_of (event_to_value c r e) ''controller_kind'' = Some (JsonString (controller_kind_name c))"
  "map_of (event_to_value c r e) ''reporting_kind'' = Some (JsonString (reporting_name r))"
  "map_of (event_to_value c r e) ''session_id'' = Some (json_number (event_session e))"
  by (cases e; simp add: map_of_diagnostic_record map_of_json_fields diagnostics_schema_def
        diagnostics_schema_version_def)+

lemmas extra_fields = map_of_diagnostic_record map_of_json_fields

lemma same_event_record:
  assumes "event_to_value c r e = event_to_value c' r' e'"
  shows "e = e'"
proof -
  have fields: "map_of (event_to_value c r e) k = map_of (event_to_value c' r' e') k" for k
    using assms by simp
  have same: "event_name e = event_name e'" "event_session e = event_session e'"
    using fields[of "''event''"] fields[of "''session_id''"] by (simp_all add: base_fields)
  show ?thesis
  proof (cases e)
    case (SessionStarted s)
    then show ?thesis using same by (cases e') simp_all
  next
    case (LifecycleChanged s lifecycle)
    then show ?thesis
      using same fields[of "''lifecycle''"] by (cases e') (simp_all add: extra_fields)
  next
    case (SubcommandObserved s i)
    then show ?thesis
      using same fields[of "''subcommand_id''"] by (cases e') (simp_all add: extra_fields)
  next
    case (ReportTxAccepted s mode imu inputs)
    then show ?thesis
      using same fields[of "''report_mode''"] fields[of "''imu_mode''"]
        fields[of "''input_reports_accepted''"]
      by (cases e') (simp_all add: extra_fields)
  next
    case (ReplyTxAccepted s mode imu replies)
    then show ?thesis
      using same fields[of "''report_mode''"] fields[of "''imu_mode''"]
        fields[of "''replies_accepted''"]
      by (cases e') (simp_all add: extra_fields)
  next
    case (SessionEnded s lifecycle reason)
    then show ?thesis
      using same fields[of "''lifecycle''"] fields[of "''disconnect_reason''"]
      by (cases e') (simp_all add: extra_fields)
  next
    case (WorkerFailedEvent s category)
    then show ?thesis
      using same fields[of "''failure_category''"] by (cases e') (simp_all add: extra_fields)
  next
    case (UnsupportedButtonEvent s b)
    then show ?thesis
      using same fields[of "''button_kind''"] by (cases e') (simp_all add: extra_fields)
  qed
qed

text \<open>
  A record always carries the six base fields with the values of its context, has no key twice,
  and no two different events, of whichever controller, have the same record.
\<close>

theorem records_identify_their_event:
  "btree_ok (event_to_value c r e)
   \<and> map_of (event_to_value c r e) ''schema'' = Some (JsonString ''swbt.diagnostics'')
   \<and> map_of (event_to_value c r e) ''schema_version'' = Some (JsonNumber 1)
   \<and> map_of (event_to_value c r e) ''event'' = Some (JsonString (event_name e))
   \<and> map_of (event_to_value c r e) ''controller_kind'' = Some (JsonString (controller_kind_name c))
   \<and> map_of (event_to_value c r e) ''reporting_kind'' = Some (JsonString (reporting_name r))
   \<and> map_of (event_to_value c r e) ''session_id'' = Some (json_number (event_session e))
   \<and> (event_to_value c r e = event_to_value c' r' e' \<longleftrightarrow> c = c' \<and> r = r' \<and> e = e')"
proof -
  have "c = c'" "r = r'" if "event_to_value c r e = event_to_value c' r' e'"
    using base_fields(4,5)[of c r e] base_fields(4,5)[of c' r' e'] that by simp_all
  moreover have "btree_ok (event_to_value c r e)"
    by (cases e) simp_all
  ultimately show ?thesis
    using same_event_record[of c r e c' r' e'] by (auto simp: base_fields)
qed

end
