(* ===== verification/FakeTransport.thy ===== *)
theory FakeTransport
  imports Transport
begin

text \<open>
  \<open>src/runtime/transport/fake.rs\<close>: the transport that the repository's runtime tests stand on, a bounded queue
  of events with a script of send outcomes.

  The transport and its control handle share their state behind locks, which every method takes for its whole
  body, so each is one step on one record; \<open>fk_open\<close> stands for the flags of both handles, which are set
  together.  A poll that waits sees what the queue holds when it wakes.  The channel's ends are dropped with
  the transport, so a disconnected channel is not met.  Waking the worker is counted in \<open>fk_notified\<close>.
\<close>

section \<open>The transport\<close>

datatype scripted_outcome =
    SendAccepted
  | SendRejected
  | SendClosed
  | AcceptedThenDisconnect "u8 option"
  | AcceptedThenEvent transport_event

datatype fake_terminal = TerminalByClose | TerminalByOverflow | TerminalBySource

datatype queued_event = QueuedEvent transport_event | QueuedTerminal

record fake_counters =
  fc_open :: nat
  fc_start_pairing :: nat
  fc_disconnect :: nat
  fc_close :: nat

record fake_transport =
  fk_queue :: "queued_event list"
  fk_event_capacity :: nat
  fk_max_poll_batch :: nat
  fk_capabilities :: transport_capabilities
  fk_open :: bool
  fk_terminal_observed :: bool
  fk_send_script :: "scripted_outcome list"
  fk_send_capacity :: bool
  fk_accepted :: "u8 list list"
  fk_counters :: fake_counters
  fk_terminal :: "fake_terminal option"
  fk_notified :: nat

text \<open>\<open>with_capabilities\<close> asserts positive limits: \<open>None\<close> is the panic.\<close>

definition fake_with_capabilities :: "nat \<Rightarrow> nat \<Rightarrow> transport_capabilities \<Rightarrow> fake_transport option" where
  "fake_with_capabilities event_capacity max_poll_batch capabilities =
     (if event_capacity = 0 \<or> max_poll_batch = 0 then None
      else Some \<lparr>fk_queue = [], fk_event_capacity = event_capacity, fk_max_poll_batch = max_poll_batch,
        fk_capabilities = capabilities, fk_open = False, fk_terminal_observed = False, fk_send_script = [],
        fk_send_capacity = True, fk_accepted = [],
        fk_counters = \<lparr>fc_open = 0, fc_start_pairing = 0, fc_disconnect = 0, fc_close = 0\<rparr>,
        fk_terminal = None, fk_notified = 0\<rparr>)"

definition terminal_error :: "fake_terminal option \<Rightarrow> transport_error" where
  "terminal_error terminal =
     (case terminal of
        Some TerminalByClose \<Rightarrow> Te_Closed
      | Some TerminalByOverflow \<Rightarrow> Te_EventQueueOverflow
      | Some TerminalBySource \<Rightarrow> Te_SourceTerminated
      | None \<Rightarrow> Te_SourceTerminated)"

text \<open>\<open>ensure_active\<close>, and the same two checks at the head of the other methods of \<open>Shared\<close>.\<close>

definition ensure_fake_active :: "fake_transport \<Rightarrow> (unit, transport_error) result" where
  "ensure_fake_active t =
     (if \<not> fk_open t then Inl Te_Closed
      else if fk_terminal t \<noteq> None then Inl (terminal_error (fk_terminal t))
      else Inr ())"

definition fake_notify :: "fake_transport \<Rightarrow> fake_transport" where
  "fake_notify t = (if fk_open t then t\<lparr>fk_notified := fk_notified t + 1\<rparr> else t)"

text \<open>\<open>try_send\<close> on the bounded channel and what follows it: a full queue is a terminal overflow.\<close>

definition fake_enqueue :: "transport_event \<Rightarrow> fake_transport \<Rightarrow> fake_transport" where
  "fake_enqueue event t =
     fake_notify
       (if length (fk_queue t) < fk_event_capacity t then t\<lparr>fk_queue := fk_queue t @ [QueuedEvent event]\<rparr>
        else t\<lparr>fk_terminal := Some TerminalByOverflow\<rparr>)"

definition enqueue_if_open ::
  "transport_event \<Rightarrow> fake_transport \<Rightarrow> fake_transport \<times> (unit, transport_error) result" where
  "enqueue_if_open event t =
     (case ensure_fake_active t of
        Inl e \<Rightarrow> (t, Inl e)
      | Inr _ \<Rightarrow> (fake_enqueue event t, Inr ()))"

definition terminate_if_open :: "fake_transport \<Rightarrow> fake_transport \<times> (unit, transport_error) result" where
  "terminate_if_open t =
     (case ensure_fake_active t of
        Inl e \<Rightarrow> (t, Inl e)
      | Inr _ \<Rightarrow>
          (fake_notify (t\<lparr>fk_terminal := Some TerminalBySource,
             fk_queue := (if length (fk_queue t) < fk_event_capacity t then fk_queue t @ [QueuedTerminal]
                          else fk_queue t)\<rparr>), Inr ()))"

definition fake_send_interrupt ::
  "u8 list \<Rightarrow> fake_transport \<Rightarrow> fake_transport \<times> (send_acceptance, transport_error) result" where
  "fake_send_interrupt payload t =
     (case ensure_fake_active t of
        Inl e \<Rightarrow> (t, Inl e)
      | Inr _ \<Rightarrow>
          let outcome = (case fk_send_script t of [] \<Rightarrow> SendAccepted | outcome # _ \<Rightarrow> outcome);
              t = t\<lparr>fk_send_script := tl (fk_send_script t)\<rparr>;
              accepted = t\<lparr>fk_accepted := fk_accepted t @ [payload]\<rparr>
          in (case outcome of
                SendRejected \<Rightarrow> (t, Inl Te_SendRejected)
              | SendClosed \<Rightarrow> (fake_notify (t\<lparr>fk_terminal := Some TerminalByClose\<rparr>), Inl Te_Closed)
              | SendAccepted \<Rightarrow> (accepted, Inr ())
              | AcceptedThenDisconnect reason \<Rightarrow> (fake_enqueue (Disconnected reason) accepted, Inr ())
              | AcceptedThenEvent event \<Rightarrow> (fake_enqueue event accepted, Inr ())))"

definition fake_open :: "fake_transport \<Rightarrow> fake_transport \<times> (transport_capabilities, transport_error) result" where
  "fake_open t =
     (if fk_open t
      then case ensure_fake_active t of Inl e \<Rightarrow> (t, Inl e) | Inr _ \<Rightarrow> (t, Inr (fk_capabilities t))
      else if fk_terminal t \<noteq> None then (t, Inl (terminal_error (fk_terminal t)))
      else (t\<lparr>fk_open := True, fk_terminal_observed := False,
              fk_counters := (fk_counters t)\<lparr>fc_open := fc_open (fk_counters t) + 1\<rparr>\<rparr>,
            Inr (fk_capabilities t)))"

definition fake_start_pairing :: "fake_transport \<Rightarrow> fake_transport \<times> (unit, transport_error) result" where
  "fake_start_pairing t =
     (case ensure_fake_active t of
        Inl e \<Rightarrow> (t, Inl e)
      | Inr _ \<Rightarrow>
          (t\<lparr>fk_counters := (fk_counters t)\<lparr>fc_start_pairing := fc_start_pairing (fk_counters t) + 1\<rparr>\<rparr>, Inr ()))"

definition fake_disconnect :: "fake_transport \<Rightarrow> fake_transport \<times> (unit, transport_error) result" where
  "fake_disconnect t =
     (case ensure_fake_active t of
        Inl e \<Rightarrow> (t, Inl e)
      | Inr _ \<Rightarrow> (t\<lparr>fk_counters := (fk_counters t)\<lparr>fc_disconnect := fc_disconnect (fk_counters t) + 1\<rparr>\<rparr>, Inr ()))"

definition fake_drain_interrupt :: "duration \<Rightarrow> fake_transport \<Rightarrow> fake_transport \<times> (unit, transport_error) result" where
  "fake_drain_interrupt timeout t = (t, ensure_fake_active t)"

definition fake_capacity_available :: "fake_transport \<Rightarrow> bool" where
  "fake_capacity_available t = (fk_open t \<and> fk_send_capacity t)"

definition fake_close :: "fake_transport \<Rightarrow> fake_transport \<times> (unit, transport_error) result" where
  "fake_close t =
     (if \<not> fk_open t then (t, Inr ())
      else (t\<lparr>fk_open := False, fk_counters := (fk_counters t)\<lparr>fc_close := fc_close (fk_counters t) + 1\<rparr>\<rparr>, Inr ()))"

text \<open>
  The loop of \<open>poll\<close> after the first event: how many more events fit, the queue, and the events received so far.
  The flag says that the source's end was met.
\<close>

fun fake_receive ::
  "nat \<Rightarrow> fake_terminal option \<Rightarrow> queued_event list \<Rightarrow> transport_event list
   \<Rightarrow> queued_event list \<times> transport_event list \<times> bool" where
  "fake_receive 0 terminal queue events = (queue, events, False)"
| "fake_receive (Suc room) terminal [] events =
     ([], events, terminal = Some TerminalByClose \<or> terminal = Some TerminalBySource)"
| "fake_receive (Suc room) terminal (QueuedTerminal # queue) events = (queue, events, True)"
| "fake_receive (Suc room) terminal (QueuedEvent event # queue) events =
     fake_receive room terminal queue (events @ [event])"

definition fake_poll :: "duration \<Rightarrow> fake_transport \<Rightarrow> fake_transport \<times> (transport_event list, transport_error) result" where
  "fake_poll timeout t =
     (if \<not> fk_open t then (t, Inl Te_Closed)
      else if fk_terminal t = Some TerminalByOverflow \<or> fk_terminal_observed t
      then (t, Inl (terminal_error (fk_terminal t)))
      else case fk_queue t of
        [] \<Rightarrow>
          if fk_terminal t \<noteq> None
          then (t\<lparr>fk_terminal_observed := True\<rparr>, Inl (terminal_error (fk_terminal t)))
          else (t, Inr [])
      | QueuedTerminal # queue \<Rightarrow>
          (t\<lparr>fk_queue := queue, fk_terminal_observed := True\<rparr>, Inl (terminal_error (fk_terminal t)))
      | QueuedEvent first # queue \<Rightarrow>
          (case fake_receive (fk_max_poll_batch t - 1) (fk_terminal t) queue [first] of
             (queue, events, ended) \<Rightarrow>
               (t\<lparr>fk_queue := queue, fk_terminal_observed := ended\<rparr>, Inr events)))"

definition fake_port :: "fake_transport transport_port" where
  "fake_port = \<lparr>
     t_open = fake_open, t_start_pairing = fake_start_pairing, t_start_reconnect = default_start_reconnect,
     t_poll = fake_poll, t_capacity_available = fake_capacity_available,
     t_send_interrupt = fake_send_interrupt, t_drain_interrupt = fake_drain_interrupt,
     t_disconnect = fake_disconnect, t_close = fake_close\<rparr>"

section \<open>Events arrive in order\<close>

text \<open>
  A history of calls on both handles, with the events that a call announced as accepted (an injection that
  succeeded, a scripted event after an accepted send) and the events that polls have returned.
\<close>

datatype fake_call =
    FakeInject transport_event
  | FakeTerminate
  | FakeScript "scripted_outcome list"
  | FakeSetCapacity bool
  | FakeOpen
  | FakePair
  | FakePoll duration
  | FakeSend "u8 list"
  | FakeDisconnect
  | FakeClose

definition scripted_event :: "fake_transport \<Rightarrow> transport_event list" where
  "scripted_event t =
     (case fk_send_script t of
        AcceptedThenDisconnect reason # _ \<Rightarrow> [Disconnected reason]
      | AcceptedThenEvent event # _ \<Rightarrow> [event]
      | _ \<Rightarrow> [])"

type_synonym fake_history = "fake_transport \<times> transport_event list \<times> transport_event list"

fun fake_run :: "fake_call \<Rightarrow> fake_history \<Rightarrow> fake_history" where
  "fake_run (FakeInject event) (t, announced, delivered) =
     (case enqueue_if_open event t of
        (t', Inr _) \<Rightarrow> (t', announced @ [event], delivered)
      | (t', Inl _) \<Rightarrow> (t', announced, delivered))"
| "fake_run FakeTerminate (t, announced, delivered) = (fst (terminate_if_open t), announced, delivered)"
| "fake_run (FakeScript outcomes) (t, announced, delivered) =
     (t\<lparr>fk_send_script := fk_send_script t @ outcomes\<rparr>, announced, delivered)"
| "fake_run (FakeSetCapacity available) (t, announced, delivered) =
     (t\<lparr>fk_send_capacity := available\<rparr>, announced, delivered)"
| "fake_run FakeOpen (t, announced, delivered) = (fst (fake_open t), announced, delivered)"
| "fake_run FakePair (t, announced, delivered) = (fst (fake_start_pairing t), announced, delivered)"
| "fake_run (FakePoll timeout) (t, announced, delivered) =
     (case fake_poll timeout t of
        (t', Inr events) \<Rightarrow> (t', announced, delivered @ events)
      | (t', Inl _) \<Rightarrow> (t', announced, delivered))"
| "fake_run (FakeSend payload) (t, announced, delivered) =
     (case fake_send_interrupt payload t of
        (t', Inr _) \<Rightarrow> (t', announced @ scripted_event t, delivered)
      | (t', Inl _) \<Rightarrow> (t', announced, delivered))"
| "fake_run FakeDisconnect (t, announced, delivered) = (fst (fake_disconnect t), announced, delivered)"
| "fake_run FakeClose (t, announced, delivered) = (fst (fake_close t), announced, delivered)"

text \<open>A queue of events, closed by the source's end if there is one.\<close>

definition queue_of :: "transport_event list \<Rightarrow> bool \<Rightarrow> queued_event list" where
  "queue_of events ended = map QueuedEvent events @ (if ended then [QueuedTerminal] else [])"

fun queued_events :: "queued_event list \<Rightarrow> transport_event list" where
  "queued_events [] = []"
| "queued_events (QueuedEvent event # queue) = event # queued_events queue"
| "queued_events (QueuedTerminal # queue) = queued_events queue"

lemma queued_events_queue_of [simp]: "queued_events (queue_of events ended) = events"
  by (induction events) (simp_all add: queue_of_def)

lemma queue_of_simps [simp]:
  "length (queue_of events ended) = length events + (if ended then 1 else 0)"
  "queue_of events ended = [] \<longleftrightarrow> events = [] \<and> \<not> ended"
  "queue_of (event # events) ended = QueuedEvent event # queue_of events ended"
  "queue_of [] ended = (if ended then [QueuedTerminal] else [])"
  "queue_of events False @ [QueuedEvent event] = queue_of (events @ [event]) False"
  "queue_of events False @ [QueuedTerminal] = queue_of events True"
  by (simp_all add: queue_of_def)

definition fake_history_ok :: "nat \<Rightarrow> fake_history \<Rightarrow> bool" where
  "fake_history_ok capacity h \<longleftrightarrow>
     (case h of (t, announced, delivered) \<Rightarrow>
       fk_event_capacity t = capacity \<and> length (fk_queue t) \<le> capacity
       \<and> (\<exists>ended. fk_queue t = queue_of (queued_events (fk_queue t)) ended
            \<and> (ended \<longrightarrow> fk_terminal t = Some TerminalBySource))
       \<and> (fk_terminal_observed t \<longrightarrow> fk_queue t = [] \<and> fk_terminal t \<noteq> None)
       \<and> (\<exists>lost. announced = delivered @ queued_events (fk_queue t) @ lost
            \<and> (lost \<noteq> [] \<longrightarrow> fk_terminal t = Some TerminalByOverflow)))"

lemma fake_receive_queue:
  "fake_receive room terminal (queue_of events ended) received =
     (if room \<le> length events then queue_of (drop room events) ended else [],
      received @ take room events,
      length events < room \<and> (ended \<or> terminal = Some TerminalByClose \<or> terminal = Some TerminalBySource))"
proof (induction room arbitrary: events received)
  case (Suc room)
  then show ?case by (cases events) auto
qed simp

lemma fake_notify_fields [simp]:
  "fk_event_capacity (fake_notify t) = fk_event_capacity t" "fk_queue (fake_notify t) = fk_queue t"
  "fk_terminal (fake_notify t) = fk_terminal t" "fk_terminal_observed (fake_notify t) = fk_terminal_observed t"
  by (simp_all add: fake_notify_def)

text \<open>The invariant reads four fields of the transport.\<close>

lemma fake_history_ok_cong:
  assumes "fk_event_capacity t' = fk_event_capacity t" "fk_queue t' = fk_queue t" "fk_terminal t' = fk_terminal t"
    and "fk_terminal_observed t' \<longrightarrow> fk_terminal_observed t"
    and "fake_history_ok capacity (t, announced, delivered)"
  shows "fake_history_ok capacity (t', announced, delivered)"
  using assms by (auto simp: fake_history_ok_def)

lemma fake_enqueue_ok:
  assumes "fake_history_ok capacity (t, announced, delivered)" "fk_terminal t = None"
  shows "fake_history_ok capacity (fake_enqueue event t, announced @ [event], delivered)"
proof -
  obtain events where queue: "fk_queue t = queue_of events False" "announced = delivered @ events"
    using assms by (auto simp: fake_history_ok_def)
  show ?thesis
  proof (cases "length (fk_queue t) < fk_event_capacity t")
    case True
    then have "fk_queue (fake_enqueue event t) = queue_of (events @ [event]) False"
      by (simp add: fake_enqueue_def queue)
    then show ?thesis
      using assms True queue by (auto simp: fake_history_ok_def fake_enqueue_def)
  next
    case False
    then show ?thesis
      using assms queue by (auto simp: fake_history_ok_def fake_enqueue_def)
  qed
qed

lemma ensure_fake_active_Inr: "ensure_fake_active t = Inr u \<longleftrightarrow> fk_open t \<and> fk_terminal t = None"
  by (simp add: ensure_fake_active_def)

lemma fake_terminate_ok:
  assumes "fake_history_ok capacity (t, announced, delivered)"
  shows "fake_history_ok capacity (fst (terminate_if_open t), announced, delivered)"
proof (cases "ensure_fake_active t")
  case (Inr u)
  then have active: "fk_terminal t = None"
    by (simp add: ensure_fake_active_Inr)
  obtain events where queue: "fk_queue t = queue_of events False" "announced = delivered @ events"
    using assms active by (auto simp: fake_history_ok_def)
  show ?thesis
    using assms active queue by (auto simp: fake_history_ok_def terminate_if_open_def Inr)
qed (use assms in \<open>simp add: terminate_if_open_def\<close>)

lemma fake_poll_ok:
  assumes "fake_history_ok capacity (t, announced, delivered)" "fake_poll timeout t = (t', result)"
  shows "fake_history_ok capacity (t', announced, delivered @ (case result of Inl _ \<Rightarrow> [] | Inr events \<Rightarrow> events))"
proof (cases "fk_open t \<and> fk_terminal t \<noteq> Some TerminalByOverflow \<and> \<not> fk_terminal_observed t")
  case True
  obtain events ended where queue: "fk_queue t = queue_of events ended" "announced = delivered @ events"
    "ended \<longrightarrow> fk_terminal t = Some TerminalBySource"
    using assms(1) True by (auto simp: fake_history_ok_def)
  show ?thesis
  proof (cases events)
    case Nil
    then show ?thesis
      using assms True queue by (auto simp: fake_poll_def fake_history_ok_def split: if_splits)
  next
    case (Cons first rest)
    let ?room = "fk_max_poll_batch t - 1"
    have poll: "t' = t\<lparr>fk_queue := (if ?room \<le> length rest then queue_of (drop ?room rest) ended else []),
          fk_terminal_observed := length rest < ?room
            \<and> (ended \<or> fk_terminal t = Some TerminalByClose \<or> fk_terminal t = Some TerminalBySource)\<rparr>"
      "result = Inr (first # take ?room rest)"
      using assms(2) True by (auto simp: fake_poll_def queue Cons fake_receive_queue)
    have "drop ?room rest = []" "take ?room rest = rest" if "\<not> ?room \<le> length rest"
      using that by simp_all
    then show ?thesis
      using assms(1) queue Cons poll by (auto simp: fake_history_ok_def intro!: exI[of _ "[]"])
  qed
next
  case False
  then have "t' = t" "\<exists>e. result = Inl e"
    using assms(2) by (auto simp: fake_poll_def split: if_splits)
  then show ?thesis
    using assms(1) by auto
qed

lemma fake_send_ok:
  assumes "fake_history_ok capacity (t, announced, delivered)" "fake_send_interrupt payload t = (t', result)"
  shows "fake_history_ok capacity
    (t', announced @ (case result of Inl _ \<Rightarrow> [] | Inr _ \<Rightarrow> scripted_event t), delivered)"
proof (cases "ensure_fake_active t")
  case (Inl e)
  then have "t' = t" "result = Inl e"
    using assms(2) by (simp_all add: fake_send_interrupt_def)
  then show ?thesis
    using assms(1) by simp
next
  case (Inr u)
  then have active: "fk_terminal t = None"
    by (simp add: ensure_fake_active_Inr)
  define sent where "sent = t\<lparr>fk_send_script := tl (fk_send_script t), fk_accepted := fk_accepted t @ [payload]\<rparr>"
  have sent: "fake_history_ok capacity (sent, announced, delivered)" "fk_terminal sent = None"
    using assms(1) active by (auto simp: fake_history_ok_def sent_def)
  have rejected: "fake_history_ok capacity (t\<lparr>fk_send_script := tl (fk_send_script t)\<rparr>, announced, delivered)"
    using assms(1) by (auto simp: fake_history_ok_def)
  have closed: "fake_history_ok capacity
      (fake_notify (t\<lparr>fk_send_script := tl (fk_send_script t), fk_terminal := Some TerminalByClose\<rparr>), announced, delivered)"
    using assms(1) active by (auto simp: fake_history_ok_def)
  show ?thesis
    using assms(2) fake_enqueue_ok[OF sent] sent rejected closed
    by (cases "fk_send_script t"; cases "hd (fk_send_script t)")
      (auto simp: fake_send_interrupt_def Inr scripted_event_def sent_def Let_def)
qed

lemma fake_run_ok:
  assumes "fake_history_ok capacity h"
  shows "fake_history_ok capacity (fake_run call h)"
proof -
  obtain t announced delivered where h: "h = (t, announced, delivered)"
    by (cases h)
  note ok = assms[unfolded h]
  note same = fake_history_ok_cong[OF _ _ _ _ ok]
  show ?thesis
  proof (cases call)
    case (FakeInject event)
    then show ?thesis
      using ok fake_enqueue_ok[OF ok, of event] ensure_fake_active_Inr[of t]
      by (cases "ensure_fake_active t") (simp_all add: h enqueue_if_open_def)
  next
    case FakeTerminate
    then show ?thesis
      using fake_terminate_ok[OF ok] by (simp add: h)
  next
    case (FakePoll timeout)
    obtain t' result where poll: "fake_poll timeout t = (t', result)"
      by fastforce
    show ?thesis
      using fake_poll_ok[OF ok poll] by (cases result) (simp_all add: h FakePoll poll)
  next
    case (FakeSend payload)
    obtain t' result where send: "fake_send_interrupt payload t = (t', result)"
      by fastforce
    show ?thesis
      using fake_send_ok[OF ok send] by (cases result) (simp_all add: h FakeSend send)
  qed (auto simp: h fake_open_def fake_start_pairing_def fake_disconnect_def fake_close_def
      split: sum.split intro!: same)
qed

lemma fake_fold_ok: "fake_history_ok capacity h \<Longrightarrow> fake_history_ok capacity (fold fake_run calls h)"
  by (induction calls arbitrary: h) (simp_all add: fake_run_ok)

text \<open>
  The transport of the runtime tests is a bounded first-in first-out queue.  Whatever is called on its two
  handles in whatever order, the events that polls have returned, followed by those still queued, are the
  announced events in their order; only an overflow loses any, and then the transport is terminal.  The queue
  never exceeds its capacity, and once a poll has met the end of the source nothing is left undelivered.
\<close>

theorem fake_transport_is_a_bounded_fifo:
  assumes "fake_with_capabilities capacity batch capabilities = Some new"
    and "fold fake_run calls (new, [], []) = (t, announced, delivered)"
  shows "(\<exists>lost. announced = delivered @ queued_events (fk_queue t) @ lost
            \<and> (lost \<noteq> [] \<longrightarrow> fk_terminal t = Some TerminalByOverflow))
    \<and> length (fk_queue t) \<le> capacity
    \<and> (fk_terminal_observed t \<longrightarrow> queued_events (fk_queue t) = [])"
proof -
  have "fake_history_ok capacity (new, [], [])"
    using assms(1) by (auto simp: fake_with_capabilities_def fake_history_ok_def split: if_splits)
  then have "fake_history_ok capacity (fold fake_run calls (new, [], []))"
    by (rule fake_fold_ok)
  then show ?thesis
    unfolding assms(2) by (auto simp: fake_history_ok_def)
qed

text \<open>A queue of two events, overflown by the third.\<close>

definition sample_fake_calls :: "fake_call list" where
  "sample_fake_calls = [FakeOpen, FakeScript [AcceptedThenEvent (Disconnected None)], FakeInject Connected,
     FakeSend [0xA1], FakePoll 0, FakeInject Connected, FakeInject (HidChannelOpened Interrupt),
     FakeInject Connected, FakePoll 0]"

lemma sample_fake_run:
  "\<exists>new t. fake_with_capabilities 2 1 \<lparr>cap_local_address = [0, 27, 220, 249, 159, 125], cap_classic_capable = True\<rparr>
      = Some new
     \<and> fold fake_run sample_fake_calls (new, [], [])
         = (t, [Connected, Disconnected None, Connected, HidChannelOpened Interrupt], [Connected])
     \<and> fk_terminal t = Some TerminalByOverflow"
  by (simp add: sample_fake_calls_def fake_with_capabilities_def fake_open_def enqueue_if_open_def ensure_fake_active_def
      fake_enqueue_def fake_notify_def fake_send_interrupt_def scripted_event_def fake_poll_def)

theorem fake_transport_is_a_bounded_fifo_witness:
  "\<exists>(t :: fake_transport) lost. [Connected, Disconnected None, Connected, HidChannelOpened Interrupt]
       = [Connected] @ queued_events (fk_queue t) @ lost
     \<and> fk_terminal t = Some TerminalByOverflow \<and> length (fk_queue t) \<le> 2"
proof -
  obtain new t where run: "fake_with_capabilities 2 1
      \<lparr>cap_local_address = [0, 27, 220, 249, 159, 125], cap_classic_capable = True\<rparr> = Some new"
    "fold fake_run sample_fake_calls (new, [], [])
       = (t, [Connected, Disconnected None, Connected, HidChannelOpened Interrupt], [Connected])"
    "fk_terminal t = Some TerminalByOverflow"
    using sample_fake_run by blast
  note fifo = fake_transport_is_a_bounded_fifo[OF run(1,2)]
  obtain lost where lost: "[Connected, Disconnected None, Connected, HidChannelOpened Interrupt]
      = [Connected] @ queued_events (fk_queue t) @ lost"
    by (rule exE[OF conjunct1[OF fifo]]) (rule that, erule conjunct1)
  show ?thesis
    by (rule exI[of _ t], rule exI[of _ lost]) (rule conjI[OF lost conjI[OF run(3) conjunct1[OF conjunct2[OF fifo]]]])
qed

end
