(* ===== verification/Ieee.thy ===== *)
theory Ieee
  imports Complex_Main Prelude
begin

text \<open>
  The IEEE 754 arithmetic of \<open>f32\<close> and \<open>f64\<close> that the unit conversions of sticks and IMU frames use:
  rounding a rational to the nearest representable value (ties to even), multiplication and division by
  a nonzero constant, comparison, \<open>round_ties_even\<close> and the saturating cast \<open>as\<close> to an integer.

  A float is its value.  The two zeros are one value: no operation the conversions use tells them apart
  (they are never divided by).
\<close>

record float_format =
  ff_precision :: nat      \<comment> \<open>bits of the significand\<close>
  ff_min_exponent :: int   \<comment> \<open>of the least normal number\<close>
  ff_max_exponent :: int

definition binary32 :: float_format where
  "binary32 = \<lparr>ff_precision = 24, ff_min_exponent = -126, ff_max_exponent = 127\<rparr>"

definition binary64 :: float_format where
  "binary64 = \<lparr>ff_precision = 53, ff_min_exponent = -1022, ff_max_exponent = 1023\<rparr>"

datatype float_value = Finite rat | Infinite bool | NaN   \<comment> \<open>\<open>Infinite True\<close> is negative\<close>

section \<open>Rounding\<close>

definition ties_even :: "rat \<Rightarrow> int" where
  "ties_even x =
     (let n = \<lfloor>x\<rfloor>; d = x - of_int n in
      if d < 1 / 2 then n else if 1 / 2 < d then n + 1 else if even n then n else n + 1)"

definition two_to :: "int \<Rightarrow> rat" where
  "two_to e = (if 0 \<le> e then 2 ^ nat e else 1 / 2 ^ nat (- e))"

function bit_length :: "int \<Rightarrow> int" where
  "bit_length n = (if n \<le> 0 then 0 else bit_length (n div 2) + 1)"
  by auto

termination bit_length
  by (relation "measure nat") auto

declare bit_length.simps [simp del]

text \<open>The exponent \<open>e\<close> with \<open>2 powi e \<le> x < 2 powi (e + 1)\<close> of a positive \<open>x\<close>.\<close>

definition binade :: "rat \<Rightarrow> int" where
  "binade x =
     (let (n, d) = quotient_of x; e = bit_length n - bit_length d
      in if two_to e \<le> x then e else e - 1)"

definition rounding_unit :: "float_format \<Rightarrow> rat \<Rightarrow> rat" where
  "rounding_unit f x = two_to (max (binade \<bar>x\<bar>) (ff_min_exponent f) - int (ff_precision f) + 1)"

text \<open>Rounding with an unbounded exponent range, and with overflow to an infinity.\<close>

definition nearest :: "float_format \<Rightarrow> rat \<Rightarrow> rat" where
  "nearest f x = (if x = 0 then 0 else of_int (ties_even (x / rounding_unit f x)) * rounding_unit f x)"

definition round_to :: "float_format \<Rightarrow> rat \<Rightarrow> float_value" where
  "round_to f x =
     (if \<bar>nearest f x\<bar> < two_to (ff_max_exponent f + 1) then Finite (nearest f x) else Infinite (x < 0))"

section \<open>Operations\<close>

text \<open>Multiplication and division by a finite nonzero \<open>c\<close>, addition of finite values.\<close>

fun float_mul :: "float_format \<Rightarrow> float_value \<Rightarrow> rat \<Rightarrow> float_value" where
  "float_mul f (Finite x) c = round_to f (x * c)"
| "float_mul f (Infinite neg) c = Infinite (neg \<noteq> (c < 0))"
| "float_mul f NaN c = NaN"

definition float_div :: "float_format \<Rightarrow> float_value \<Rightarrow> rat \<Rightarrow> float_value" where
  "float_div f v c = float_mul f v (1 / c)"

fun float_add :: "float_format \<Rightarrow> float_value \<Rightarrow> rat \<Rightarrow> float_value" where
  "float_add f (Finite x) c = round_to f (x + c)"
| "float_add f v c = v"

fun float_is_finite :: "float_value \<Rightarrow> bool" where
  "float_is_finite (Finite x) = True"
| "float_is_finite v = False"

fun float_less :: "float_value \<Rightarrow> float_value \<Rightarrow> bool" where
  "float_less (Finite x) (Finite y) = (x < y)"
| "float_less (Finite x) (Infinite neg) = (\<not> neg)"
| "float_less (Infinite neg) (Finite y) = neg"
| "float_less (Infinite n) (Infinite m) = (n \<and> \<not> m)"
| "float_less v w = False"

fun float_less_eq :: "float_value \<Rightarrow> float_value \<Rightarrow> bool" where
  "float_less_eq (Finite x) (Finite y) = (x \<le> y)"
| "float_less_eq (Finite x) (Infinite neg) = (\<not> neg)"
| "float_less_eq (Infinite neg) (Finite y) = neg"
| "float_less_eq (Infinite n) (Infinite m) = (n \<or> \<not> m)"
| "float_less_eq v w = False"

fun float_round_ties_even :: "float_value \<Rightarrow> float_value" where
  "float_round_ties_even (Finite x) = Finite (of_int (ties_even x))"
| "float_round_ties_even v = v"

definition truncated :: "rat \<Rightarrow> int" where
  "truncated x = (if x < 0 then \<lceil>x\<rceil> else \<lfloor>x\<rfloor>)"

text \<open>The cast \<open>as\<close> to an integer type with bounds \<open>lo\<close> and \<open>hi\<close>.\<close>

fun float_to_int :: "int \<Rightarrow> int \<Rightarrow> float_value \<Rightarrow> int" where
  "float_to_int lo hi (Finite x) = max lo (min hi (truncated x))"
| "float_to_int lo hi (Infinite neg) = (if neg then lo else hi)"
| "float_to_int lo hi NaN = 0"

section \<open>Rounding to an integer\<close>

lemma ties_even_of_int [simp]: "ties_even (of_int n) = n"
  by (simp add: ties_even_def)

lemma ties_even_0 [simp]: "ties_even 0 = 0"
  using ties_even_of_int[of 0] by simp

lemma ties_even_error: "\<bar>of_int (ties_even x) - x\<bar> \<le> 1 / 2"
proof -
  have "of_int \<lfloor>x\<rfloor> \<le> x" "x < of_int \<lfloor>x\<rfloor> + 1"
    by linarith+
  then show ?thesis
    by (auto simp: ties_even_def Let_def abs_le_iff)
qed

lemma ties_even_mono:
  assumes "x \<le> y"
  shows "ties_even x \<le> ties_even y"
proof (cases "\<lfloor>x\<rfloor> = \<lfloor>y\<rfloor>")
  case True
  with assms show ?thesis
    by (auto simp: ties_even_def Let_def)
next
  case False
  then have "\<lfloor>x\<rfloor> + 1 \<le> \<lfloor>y\<rfloor>"
    using floor_mono[OF assms] by linarith
  moreover have "ties_even x \<le> \<lfloor>x\<rfloor> + 1" "\<lfloor>y\<rfloor> \<le> ties_even y"
    by (simp_all add: ties_even_def Let_def)
  ultimately show ?thesis
    by linarith
qed

lemma ties_even_uminus: "ties_even (- x) = - ties_even x"
proof (cases "x = of_int \<lfloor>x\<rfloor>")
  case True
  then show ?thesis
    by (metis of_int_minus ties_even_of_int)
next
  case False
  then have "of_int \<lfloor>x\<rfloor> < x" "x < of_int \<lfloor>x\<rfloor> + 1"
    by linarith+
  then have "\<lfloor>- x\<rfloor> = - \<lfloor>x\<rfloor> - 1"
    by (simp add: floor_eq_iff)
  then show ?thesis
    by (auto simp: ties_even_def Let_def)
qed

lemma ties_even_close: "\<bar>x - of_int n\<bar> < 1 / 2 \<Longrightarrow> ties_even x = n"
proof -
  assume close: "\<bar>x - of_int n\<bar> < 1 / 2"
  then have "\<bar>of_int (ties_even x) - of_int n :: rat\<bar> < 1"
    using ties_even_error[of x] by linarith
  then show ?thesis
    by linarith
qed

section \<open>Powers of two and binades\<close>

lemma two_to_powi: "two_to e = 2 powi e"
  by (simp add: two_to_def power_int_def power_one_over inverse_eq_divide)

lemma two_to_pos [simp]: "0 < two_to e"
  by (simp add: two_to_def)

lemma two_to_nonzero [simp]: "two_to e \<noteq> 0"
  using two_to_pos[of e] by linarith

lemma two_to_add: "two_to (a + b) = two_to a * two_to b"
  by (simp add: two_to_powi power_int_add)

lemma two_to_nat: "two_to (int n) = 2 ^ n"
  by (simp add: two_to_def)

lemma two_to_Suc: "two_to (e + 1) = 2 * two_to e"
  by (simp add: two_to_add two_to_def[of 1])

lemma two_to_mono: "a \<le> b \<Longrightarrow> two_to a \<le> two_to b"
  by (simp add: two_to_powi power_int_increasing)

lemma two_to_less_iff: "two_to a < two_to b \<longleftrightarrow> a < b"
  using two_to_mono[of b a] by (auto simp: two_to_powi power_int_strict_increasing not_less[symmetric])

lemma two_to_split: "a \<le> b \<Longrightarrow> two_to b = 2 ^ nat (b - a) * two_to a"
  using two_to_add[of "b - a" a] by (simp add: two_to_def)

lemma bit_length_int_bounds:
  "0 < n \<Longrightarrow> 0 < bit_length n \<and> 2 ^ nat (bit_length n - 1) \<le> n \<and> n < 2 ^ nat (bit_length n)"
proof (induction n rule: bit_length.induct)
  case (1 n)
  show ?case
  proof (cases "n = 1")
    case True
    then show ?thesis
      by (simp add: bit_length.simps)
  next
    case False
    with 1 have IH: "0 < bit_length (n div 2)" "2 ^ nat (bit_length (n div 2) - 1) \<le> n div 2"
      "n div 2 < 2 ^ nat (bit_length (n div 2))"
      by auto
    define k where "k = nat (bit_length (n div 2) - 1)"
    with IH have k: "bit_length (n div 2) = int k + 1"
      by simp
    have "2 ^ k \<le> n div 2" "n div 2 < 2 * 2 ^ k"
      using IH by (simp_all add: k nat_add_distrib)
    then have "2 * 2 ^ k \<le> n" "n < 2 * (2 * 2 ^ k)"
      by linarith+
    moreover have "bit_length n = int k + 2"
      using 1 k bit_length.simps[of n] by simp
    ultimately show ?thesis
      by (simp add: nat_add_distrib numeral_2_eq_2)
  qed
qed

lemma bit_length_bounds:
  assumes "0 < n"
  shows "two_to (bit_length n - 1) \<le> of_int n" "of_int n < two_to (bit_length n)"
proof -
  have "0 < bit_length n" "(of_int (2 ^ nat (bit_length n - 1)) :: rat) \<le> of_int n"
    "(of_int n :: rat) < of_int (2 ^ nat (bit_length n))"
    using bit_length_int_bounds[OF assms] by (simp_all only: of_int_le_iff of_int_less_iff)
  then show "two_to (bit_length n - 1) \<le> of_int n" "of_int n < two_to (bit_length n)"
    by (simp_all add: two_to_def)
qed

lemma binade_bounds:
  assumes "0 < x"
  shows "two_to (binade x) \<le> x" and "x < two_to (binade x + 1)"
proof -
  obtain n d where q: "quotient_of x = (n, d)"
    by (cases "quotient_of x")
  then have d: "0 < d" and x: "x = of_int n / of_int d"
    using quotient_of_denom_pos quotient_of_div by auto
  with assms have n: "0 < n"
    by (simp add: zero_less_divide_iff)
  note n' = bit_length_bounds[OF n]
  note d' = bit_length_bounds[OF d]
  define i where "i = bit_length n"
  define j where "j = bit_length d"
  note n' = n'[folded i_def] and d' = d'[folded j_def]
  let ?e = "i - j"
  have low: "two_to (?e - 1) \<le> x"
  proof -
    have "two_to (?e - 1) * of_int d \<le> two_to (?e - 1) * two_to j"
      using d' by (intro mult_left_mono) (auto intro: less_imp_le)
    also have "\<dots> = two_to (i - 1)"
      by (simp flip: two_to_add)
    also have "\<dots> \<le> of_int n"
      by (rule n')
    finally show ?thesis
      using d by (simp add: x pos_le_divide_eq)
  qed
  have high: "x < two_to (?e + 1)"
  proof -
    have "of_int n < two_to i"
      by (rule n')
    also have "\<dots> = two_to (?e + 1) * two_to (j - 1)"
      by (simp flip: two_to_add)
    also have "\<dots> \<le> two_to (?e + 1) * of_int d"
      using d' by (intro mult_left_mono) (auto intro: less_imp_le)
    finally show ?thesis
      using d by (simp add: x pos_divide_less_eq)
  qed
  have "binade x = (if two_to ?e \<le> x then ?e else ?e - 1)"
    by (simp add: binade_def q i_def j_def Let_def)
  then show "two_to (binade x) \<le> x" "x < two_to (binade x + 1)"
    using low high by (auto simp: not_le)
qed

lemma binade_mono:
  assumes "0 < x" "x \<le> y"
  shows "binade x \<le> binade y"
proof -
  have "two_to (binade x) < two_to (binade y + 1)"
    using binade_bounds[of x] binade_bounds[of y] assms by linarith
  then show ?thesis
    by (simp add: two_to_less_iff)
qed

lemma rounding_unit_pos [simp]: "0 < rounding_unit f x"
  by (simp add: rounding_unit_def)

lemma rounding_unit_nonneg [simp]: "0 \<le> rounding_unit f x"
  by (rule less_imp_le) simp

lemma rounding_unit_uminus [simp]: "rounding_unit f (- x) = rounding_unit f x"
  by (simp add: rounding_unit_def)

lemma nearest_uminus: "nearest f (- x) = - nearest f x"
  by (simp add: nearest_def ties_even_uminus)

lemma nearest_0 [simp]: "nearest f 0 = 0"
  by (simp add: nearest_def)

lemma nearest_nonneg: "0 \<le> x \<Longrightarrow> 0 \<le> nearest f x"
  using ties_even_mono[of 0 "x / rounding_unit f x"] by (simp add: nearest_def)

text \<open>The exponent used for a positive value, and the two ends of its binade as multiples of the unit.\<close>

definition used_exponent :: "float_format \<Rightarrow> rat \<Rightarrow> int" where
  "used_exponent f x = max (binade \<bar>x\<bar>) (ff_min_exponent f)"

lemma rounding_unit_eq: "rounding_unit f x = two_to (used_exponent f x - int (ff_precision f) + 1)"
  by (simp add: rounding_unit_def used_exponent_def)

lemma nearest_le_next:
  assumes "0 < x" "0 < ff_precision f"
  shows "nearest f x \<le> two_to (used_exponent f x + 1)"
proof -
  have "x \<le> two_to (used_exponent f x + 1)"
    using binade_bounds(2)[OF assms(1)] two_to_mono[of "binade x + 1" "used_exponent f x + 1"] assms(1)
    by (simp add: used_exponent_def)
  also have eq: "\<dots> = of_int (2 ^ ff_precision f) * rounding_unit f x"
    by (simp add: rounding_unit_eq flip: two_to_nat two_to_add)
  finally have "ties_even (x / rounding_unit f x) \<le> 2 ^ ff_precision f"
    using ties_even_mono[of "x / rounding_unit f x" "of_int (2 ^ ff_precision f)"]
    by (simp add: pos_divide_le_eq del: of_int_power)
  then have "of_int (ties_even (x / rounding_unit f x)) \<le> (of_int (2 ^ ff_precision f) :: rat)"
    by (simp only: of_int_le_iff)
  then show ?thesis
    using assms unfolding eq by (simp add: nearest_def del: of_int_power)
qed

lemma nearest_ge_binade:
  assumes "two_to (used_exponent f x) \<le> x" "0 < ff_precision f"
  shows "two_to (used_exponent f x) \<le> nearest f x"
proof -
  have pos: "0 < x"
    using assms(1) two_to_pos[of "used_exponent f x"] by linarith
  have eq: "two_to (used_exponent f x) = of_int (2 ^ (ff_precision f - 1)) * rounding_unit f x"
    using assms(2) by (simp add: rounding_unit_eq of_nat_diff flip: two_to_nat two_to_add)
  have "2 ^ (ff_precision f - 1) \<le> ties_even (x / rounding_unit f x)"
    using ties_even_mono[of "of_int (2 ^ (ff_precision f - 1))" "x / rounding_unit f x"] assms(1)
    unfolding eq by (simp add: pos_le_divide_eq del: of_int_power)
  then have "(of_int (2 ^ (ff_precision f - 1)) :: rat) \<le> of_int (ties_even (x / rounding_unit f x))"
    by (simp only: of_int_le_iff)
  then show ?thesis
    using pos unfolding eq by (simp add: nearest_def del: of_int_power)
qed

lemma nearest_mono_pos:
  assumes "0 < x" "x \<le> y" "0 < ff_precision f"
  shows "nearest f x \<le> nearest f y"
proof (cases "used_exponent f x = used_exponent f y")
  case True
  then have "rounding_unit f x = rounding_unit f y"
    by (simp add: rounding_unit_eq)
  moreover have "ties_even (x / rounding_unit f x) \<le> ties_even (y / rounding_unit f x)"
    using assms by (intro ties_even_mono divide_right_mono) simp_all
  ultimately show ?thesis
    using assms by (simp add: nearest_def)
next
  case False
  then have less: "used_exponent f x + 1 \<le> used_exponent f y" and norm: "used_exponent f y = binade y"
    using binade_mono[OF assms(1,2)] assms by (auto simp: used_exponent_def max_def split: if_splits)
  have "nearest f x \<le> two_to (used_exponent f x + 1)"
    using assms by (intro nearest_le_next)
  also have "\<dots> \<le> two_to (used_exponent f y)"
    by (rule two_to_mono[OF less])
  also have "\<dots> \<le> nearest f y"
    using binade_bounds(1)[of y] assms norm by (intro nearest_ge_binade) simp_all
  finally show ?thesis .
qed

lemma nearest_mono:
  assumes "x \<le> y" "0 < ff_precision f"
  shows "nearest f x \<le> nearest f y"
proof -
  consider "0 < x" | "x \<le> 0" "0 \<le> y" | "y < 0"
    using assms(1) by linarith
  then show ?thesis
  proof cases
    case 1
    then show ?thesis using nearest_mono_pos assms by blast
  next
    case 2
    then have "nearest f x \<le> 0" "0 \<le> nearest f y"
      using nearest_nonneg[of y f] nearest_nonneg[of "- x" f] by (simp_all add: nearest_uminus)
    then show ?thesis by linarith
  next
    case 3
    then show ?thesis
      using nearest_mono_pos[of "- y" "- x" f] assms by (simp add: nearest_uminus)
  qed
qed

section \<open>Exact and bounded results\<close>

text \<open>A multiple of a power of two that the significand holds is not rounded.\<close>

lemma nearest_exact:
  assumes "\<bar>m\<bar> < 2 ^ ff_precision f" "ff_min_exponent f - int (ff_precision f) + 1 \<le> k"
  shows "nearest f (of_int m * two_to k) = of_int m * two_to k"
proof (cases "m = 0")
  case False
  let ?x = "of_int m * two_to k"
  have "\<bar>?x\<bar> = of_int \<bar>m\<bar> * two_to k"
    by (simp add: abs_mult less_imp_le)
  also have "\<dots> < of_int (2 ^ ff_precision f) * two_to k"
    using assms(1) by (intro mult_strict_right_mono) (simp_all only: of_int_less_iff two_to_pos)
  also have "\<dots> = two_to (int (ff_precision f) + k)"
    by (simp add: two_to_add two_to_nat)
  finally have "two_to (binade \<bar>?x\<bar>) < two_to (int (ff_precision f) + k)"
    using binade_bounds(1)[of "\<bar>?x\<bar>"] False by simp
  then have "used_exponent f ?x - int (ff_precision f) + 1 \<le> k"
    using assms(2) by (simp add: two_to_less_iff used_exponent_def)
  then obtain n where "two_to k = 2 ^ n * rounding_unit f ?x"
    using two_to_split[of "used_exponent f ?x - int (ff_precision f) + 1" k] rounding_unit_eq by metis
  then have "?x / rounding_unit f ?x = of_int (m * 2 ^ n)"
    using rounding_unit_pos[of f ?x] by (simp add: less_imp_neq[symmetric] field_simps)
  then have "of_int (ties_even (?x / rounding_unit f ?x)) * rounding_unit f ?x = ?x"
    using rounding_unit_pos[of f ?x]
    by (metis less_imp_neq nonzero_divide_eq_eq ties_even_of_int)
  then show ?thesis
    by (simp add: nearest_def)
qed simp

lemma nearest_int:
  assumes "\<bar>m\<bar> < 2 ^ ff_precision f" "ff_min_exponent f - int (ff_precision f) + 1 \<le> 0"
  shows "nearest f (of_int m) = of_int m"
  using nearest_exact[OF assms] by (simp add: two_to_def)

text \<open>In the normal range the relative error is at most half a unit of the last place.\<close>

lemma nearest_relative_error:
  assumes "two_to (ff_min_exponent f) \<le> x"
  shows "\<bar>nearest f x - x\<bar> \<le> x / 2 ^ ff_precision f"
proof -
  have pos: "0 < x"
    using assms two_to_pos[of "ff_min_exponent f"] by linarith
  have "ff_min_exponent f \<le> binade x"
  proof -
    have "two_to (ff_min_exponent f) < two_to (binade x + 1)"
      using assms binade_bounds(2)[OF pos] by linarith
    then show ?thesis by (simp add: two_to_less_iff)
  qed
  then have unit: "rounding_unit f x * 2 ^ ff_precision f = 2 * two_to (binade x)"
    using pos by (simp add: rounding_unit_def two_to_Suc flip: two_to_nat two_to_add)
  have "nearest f x - x = (of_int (ties_even (x / rounding_unit f x)) - x / rounding_unit f x) * rounding_unit f x"
    using pos rounding_unit_pos[of f x] by (simp add: nearest_def field_simps less_imp_neq[symmetric])
  then have "\<bar>nearest f x - x\<bar> \<le> 1 / 2 * rounding_unit f x"
    using ties_even_error[of "x / rounding_unit f x"] rounding_unit_pos[of f x]
    by (simp only: abs_mult) (intro mult_mono; simp)
  also have "\<dots> = two_to (binade x) / 2 ^ ff_precision f"
    using unit by (simp add: field_simps)
  also have "\<dots> \<le> x / 2 ^ ff_precision f"
    using binade_bounds(1)[OF pos] by (intro divide_right_mono) simp_all
  finally show ?thesis .
qed

lemma nearest_error: "\<bar>nearest f x - x\<bar> \<le> rounding_unit f x / 2"
proof (cases "x = 0")
  case False
  have "nearest f x - x = (of_int (ties_even (x / rounding_unit f x)) - x / rounding_unit f x) * rounding_unit f x"
    using False rounding_unit_pos[of f x] by (simp add: nearest_def field_simps less_imp_neq[symmetric])
  then have "\<bar>nearest f x - x\<bar> \<le> 1 / 2 * rounding_unit f x"
    using ties_even_error[of "x / rounding_unit f x"] rounding_unit_pos[of f x]
    by (simp only: abs_mult) (intro mult_mono; simp)
  then show ?thesis by simp
qed simp

text \<open>Rounding stays within any bound that is itself representable, and then does not overflow.\<close>

lemma nearest_bounded:
  assumes "\<bar>x\<bar> \<le> of_int m" "m < 2 ^ ff_precision f" "ff_min_exponent f - int (ff_precision f) + 1 \<le> 0"
    "0 < ff_precision f"
  shows "\<bar>nearest f x\<bar> \<le> of_int m"
proof -
  have "0 \<le> (of_int m :: rat)"
    using assms(1) abs_ge_zero[of x] by linarith
  then have "nearest f (of_int m) = of_int m"
    using assms by (intro nearest_int) simp_all
  then show ?thesis
    using nearest_mono[of x "of_int m" f] nearest_mono[of "- x" "of_int m" f] assms
    by (simp add: abs_le_iff nearest_uminus)
qed

lemma round_to_finite:
  assumes "\<bar>x\<bar> \<le> of_int m" "m < 2 ^ ff_precision f" "ff_min_exponent f - int (ff_precision f) + 1 \<le> 0"
    "0 < ff_precision f" "of_int m < two_to (ff_max_exponent f + 1)"
  shows "round_to f x = Finite (nearest f x)"
  using nearest_bounded[OF assms(1-4)] assms(5) by (simp add: round_to_def)

lemma binary_formats [simp]:
  "ff_precision binary32 = 24" "ff_min_exponent binary32 = - 126" "ff_max_exponent binary32 = 127"
  "ff_precision binary64 = 53" "ff_min_exponent binary64 = - 1022" "ff_max_exponent binary64 = 1023"
  by (simp_all add: binary32_def binary64_def)

lemma round_to_binary32: "\<bar>x\<bar> \<le> 2 ^ 23 \<Longrightarrow> round_to binary32 x = Finite (nearest binary32 x)"
  by (rule round_to_finite[where m = "2 ^ 23"]) (simp_all add: two_to_def)

lemma round_to_binary64: "\<bar>x\<bar> \<le> 2 ^ 52 \<Longrightarrow> round_to binary64 x = Finite (nearest binary64 x)"
proof (rule round_to_finite[where m = "2 ^ 52"])
  have "two_to 53 \<le> two_to (1023 + 1)"
    by (rule two_to_mono) simp
  then show "of_int (2 ^ 52) < two_to (ff_max_exponent binary64 + 1)"
    by (simp add: two_to_def)
qed simp_all

end
