(* ===== verification/Float64.thy ===== *)
theory Float64
  imports Ieee ImuEncoding
begin

text \<open>
  The primitive type \<open>f64\<close> as the quaternion encoder of \<open>crates/swbt-core/src/protocol/imu.rs\<close> uses it: IEEE 754
  arithmetic on 64-bit patterns, with the rounding of \<open>Ieee\<close> and the signs of zeros and infinities.  The standard
  library documents the results of \<open>sin\<close> and \<open>cos\<close> only up to an unspecified error, so they stay arguments of
  \<open>ieee_floats\<close>, the instance of \<open>f64_ops\<close>.  The pattern of a NaN is unspecified too; here it is the canonical one.
\<close>

section \<open>Patterns\<close>

definition f64_negative :: "f64 \<Rightarrow> bool" where "f64_negative w = bit w 63"
definition f64_exponent :: "f64 \<Rightarrow> nat" where "f64_exponent w = unat (take_bit 11 (drop_bit 52 w))"
definition f64_fraction :: "f64 \<Rightarrow> nat" where "f64_fraction w = unat (take_bit 52 w)"

definition f64_value :: "f64 \<Rightarrow> float_value" where
  "f64_value w =
     (let s = (if f64_negative w then -1 else 1); m = of_nat (f64_fraction w)
      in if f64_exponent w = 2047 then (if f64_fraction w = 0 then Infinite (f64_negative w) else NaN)
         else if f64_exponent w = 0 then Finite (s * m * two_to (-1074))
         else Finite (s * (2 ^ 52 + m) * two_to (int (f64_exponent w) - 1075)))"

lemma f64_fields:
  "f64_exponent w = unat w div 2 ^ 52 mod 2 ^ 11" "f64_fraction w = unat w mod 2 ^ 52"
  by (simp_all only: f64_exponent_def f64_fraction_def unsigned_take_bit_eq unsigned_drop_bit_eq)
    (use unsigned_less[of w, where ?'a = nat] in \<open>simp_all add: take_bit_eq_mod drop_bit_eq_div\<close>)

text \<open>The pattern of a sign, a biased exponent and a fraction.\<close>

definition f64_pattern :: "bool \<Rightarrow> nat \<Rightarrow> nat \<Rightarrow> f64" where
  "f64_pattern negative e m = (if negative then push_bit 63 1 else 0) OR push_bit 52 (of_nat e) OR of_nat m"

text \<open>The pattern of a value; \<open>negative\<close> is the sign of a zero.  Every finite argument is representable.\<close>

fun f64_encode :: "bool \<Rightarrow> float_value \<Rightarrow> f64" where
  "f64_encode negative NaN = f64_pattern False 2047 (2 ^ 51)"
| "f64_encode negative (Infinite neg) = f64_pattern neg 2047 0"
| "f64_encode negative (Finite x) =
     (if x = 0 then f64_pattern negative 0 0
      else let e = max (binade \<bar>x\<bar>) (-1022); m = nat \<lfloor>\<bar>x\<bar> / two_to (e - 52)\<rfloor>
           in if m < 2 ^ 52 then f64_pattern (x < 0) 0 m
              else f64_pattern (x < 0) (nat (e + 1023)) (m - 2 ^ 52))"

declare f64_encode.simps(3) [simp del]

lemma encode_zero [simp]: "f64_encode s (Finite 0) = f64_pattern s 0 0"
  by (simp add: f64_encode.simps(3))

section \<open>Operations\<close>

definition f64_neg :: "f64 \<Rightarrow> f64" where "f64_neg w = w XOR push_bit 63 1"
definition f64_abs :: "f64 \<Rightarrow> f64" where "f64_abs w = take_bit 63 w"

definition f64_add :: "f64 \<Rightarrow> f64 \<Rightarrow> f64" where
  "f64_add a b =
     f64_encode (f64_negative a \<and> f64_negative b)
       (case (f64_value a, f64_value b) of
          (Finite x, Finite y) \<Rightarrow> round_to binary64 (x + y)
        | (Finite _, v) \<Rightarrow> v
        | (Infinite s, Infinite t) \<Rightarrow> if s = t then Infinite s else NaN
        | (Infinite s, Finite _) \<Rightarrow> Infinite s
        | _ \<Rightarrow> NaN)"

definition f64_sub :: "f64 \<Rightarrow> f64 \<Rightarrow> f64" where "f64_sub a b = f64_add a (f64_neg b)"

definition f64_mul :: "f64 \<Rightarrow> f64 \<Rightarrow> f64" where
  "f64_mul a b =
     (let negative = (f64_negative a \<noteq> f64_negative b) in
      f64_encode negative
        (case (f64_value a, f64_value b) of
           (Finite x, Finite y) \<Rightarrow> round_to binary64 (x * y)
         | (Finite x, Infinite _) \<Rightarrow> if x = 0 then NaN else Infinite negative
         | (Infinite _, Finite y) \<Rightarrow> if y = 0 then NaN else Infinite negative
         | (Infinite _, Infinite _) \<Rightarrow> Infinite negative
         | _ \<Rightarrow> NaN))"

definition f64_div :: "f64 \<Rightarrow> f64 \<Rightarrow> f64" where
  "f64_div a b =
     (let negative = (f64_negative a \<noteq> f64_negative b) in
      f64_encode negative
        (case (f64_value a, f64_value b) of
           (Finite x, Finite y) \<Rightarrow>
             if y = 0 then (if x = 0 then NaN else Infinite negative) else round_to binary64 (x / y)
         | (Finite _, Infinite _) \<Rightarrow> Finite 0
         | (Infinite _, Finite _) \<Rightarrow> Infinite negative
         | _ \<Rightarrow> NaN))"

text \<open>The integer square root, and with it the correctly rounded root of a positive value.\<close>

function isqrt :: "int \<Rightarrow> int" where
  "isqrt n =
     (if n \<le> 0 then 0
      else let r = 2 * isqrt (n div 4) in if (r + 1) * (r + 1) \<le> n then r + 1 else r)"
  by auto

termination isqrt
  by (relation "measure nat") auto

declare isqrt.simps [simp del]

lemma isqrt_bounds:
  assumes "0 \<le> n"
  shows "0 \<le> isqrt n \<and> isqrt n * isqrt n \<le> n \<and> n < (isqrt n + 1) * (isqrt n + 1)"
  using assms
proof (induction n rule: isqrt.induct)
  case (1 n)
  show ?case
  proof (cases "n \<le> 0")
    case False
    define q r where "q = n div 4" and "r = isqrt q"
    have "0 \<le> r" "r * r \<le> q" "q < (r + 1) * (r + 1)"
      using 1 False by (simp_all add: q_def r_def)
    moreover have "4 * q \<le> n" "n < 4 * q + 4"
      unfolding q_def by linarith+
    ultimately have "2 * r * (2 * r) \<le> n" "n < (2 * r + 2) * (2 * r + 2)"
      by (simp_all add: algebra_simps)
    then show ?thesis
      using False \<open>0 \<le> r\<close> isqrt.simps[of n] by (simp add: Let_def r_def q_def algebra_simps)
  qed (use 1 in \<open>simp add: isqrt.simps\<close>)
qed

text \<open>
  \<open>x * 4 powi k\<close> is an integer of at least 121 bits, its root has at least 61, and the half that stands for a
  remainder is below the last of the 53 bits that rounding keeps.
\<close>

definition sqrt_approximation :: "rat \<Rightarrow> rat" where
  "sqrt_approximation x =
     (let k = 60 - binade x div 2; n = \<lfloor>x * two_to (2 * k)\<rfloor>; r = isqrt n
      in (if r * r = n then of_int r else of_int r + 1 / 2) * two_to (- k))"

definition f64_sqrt :: "f64 \<Rightarrow> f64" where
  "f64_sqrt w =
     f64_encode (f64_negative w)
       (case f64_value w of
          Finite x \<Rightarrow>
            if x < 0 then NaN else if x = 0 then Finite 0 else round_to binary64 (sqrt_approximation x)
        | Infinite neg \<Rightarrow> if neg then NaN else Infinite False
        | NaN \<Rightarrow> NaN)"

fun float_eq :: "float_value \<Rightarrow> float_value \<Rightarrow> bool" where
  "float_eq (Finite x) (Finite y) = (x = y)"
| "float_eq (Infinite s) (Infinite t) = (s = t)"
| "float_eq v w = False"

definition f64_of_int :: "int \<Rightarrow> f64" where
  "f64_of_int n = f64_encode False (round_to binary64 (of_int n))"

definition f64_to_i64 :: "f64 \<Rightarrow> u64" where
  "f64_to_i64 w = of_int (float_to_int (- (2 ^ 63)) (2 ^ 63 - 1) (f64_value w))"

text \<open>\<open>PI / 180.0\<close>, and the neutral element \<open>-0.0\<close> that \<open>Iterator::sum\<close> starts from.\<close>

definition f64_rads_per_deg :: f64 where "f64_rads_per_deg = 0x3F91DF46A2529D39"
definition f64_minus_zero :: f64 where "f64_minus_zero = 0x8000000000000000"

definition ieee_floats :: "(f64 \<Rightarrow> f64) \<Rightarrow> (f64 \<Rightarrow> f64) \<Rightarrow> f64_ops" where
  "ieee_floats sine cosine = \<lparr>
     f_add = f64_add, f_sub = f64_sub, f_mul = f64_mul, f_div = f64_div, f_sqrt = f64_sqrt,
     f_sin = sine, f_cos = cosine, f_abs = f64_abs,
     f_to_radians = \<lambda>w. f64_mul w f64_rads_per_deg,
     f_sum = \<lambda>ws. fold (\<lambda>w total. f64_add total w) ws f64_minus_zero,
     f_eq = \<lambda>v w. float_eq (f64_value v) (f64_value w),
     f_less = \<lambda>v w. float_less (f64_value v) (f64_value w),
     f_of_int = f64_of_int, f_to_i64 = f64_to_i64\<rparr>"

section \<open>A pattern holds its value\<close>

lemma bit_of_nat_below:
  assumes "m < 2 ^ n" "n \<le> i"
  shows "\<not> bit (of_nat m :: f64) i"
proof -
  have "(of_nat m :: f64) = take_bit n (of_nat m)"
    using assms(1) by (simp add: take_bit_of_nat take_bit_nat_eq_self)
  then show ?thesis
    using assms(2) by (metis bit_take_bit_iff linorder_not_less)
qed

lemma bit_pattern:
  assumes "e < 2048" "m < 2 ^ 52"
  shows "bit (f64_pattern s e m) i \<longleftrightarrow>
    i = 63 \<and> s \<or> 52 \<le> i \<and> i < 63 \<and> bit (of_nat e :: f64) (i - 52) \<or> i < 52 \<and> bit (of_nat m :: f64) i"
proof -
  have m: "bit (of_nat m :: f64) i \<Longrightarrow> i < 52" for i
    using bit_of_nat_below[OF assms(2), of i] by (meson linorder_not_less)
  have e: "bit (of_nat e :: f64) i \<Longrightarrow> i < 11" for i
    using bit_of_nat_below[of e 11 i] assms(1) by (auto simp flip: linorder_not_less)
  show ?thesis
  proof (cases "i < 64")
    case True
    then show ?thesis
      using m[of i] e[of "i - 52"]
      by (auto simp: f64_pattern_def bit_simps simp del: push_bit_of_1 bit_of_nat_iff)
  next
    case False
    then show ?thesis
      using bit_imp_le_length[of "f64_pattern s e m" i] m[of i] by auto
  qed
qed

lemma pattern_fields:
  assumes "e < 2048" "m < 2 ^ 52"
  shows "f64_negative (f64_pattern s e m) = s" "f64_exponent (f64_pattern s e m) = e" "f64_fraction (f64_pattern s e m) = m"
proof -
  have m: "bit (of_nat m :: f64) i \<Longrightarrow> i < 52" for i
    using bit_of_nat_below[OF assms(2), of i] by (meson linorder_not_less)
  have e: "bit (of_nat e :: f64) i \<Longrightarrow> i < 11" for i
    using bit_of_nat_below[of e 11 i] assms(1) by (auto simp flip: linorder_not_less)
  show "f64_negative (f64_pattern s e m) = s"
    by (simp add: f64_negative_def bit_pattern[OF assms])
  have "take_bit 11 (drop_bit 52 (f64_pattern s e m)) = of_nat e"
    by (rule bit_word_eqI)
      (use e in \<open>auto simp: bit_pattern[OF assms] bit_take_bit_iff bit_drop_bit_eq simp del: bit_of_nat_iff\<close>)
  then show "f64_exponent (f64_pattern s e m) = e"
    using assms(1) by (simp add: f64_exponent_def unat_of_nat)
  have "take_bit 52 (f64_pattern s e m) = of_nat m"
    by (rule bit_word_eqI) (use m in \<open>auto simp: bit_pattern[OF assms] bit_take_bit_iff simp del: bit_of_nat_iff\<close>)
  then show "f64_fraction (f64_pattern s e m) = m"
    using assms(2) by (simp add: f64_fraction_def unat_of_nat)
qed

text \<open>Comparing multiples of one power of two.\<close>

lemma two_to_scale:
  "of_int m * two_to k \<le> of_int n * two_to k \<longleftrightarrow> m \<le> n"
  "of_int m * two_to k < of_int n * two_to k \<longleftrightarrow> m < n"
  by (simp_all add: mult_le_cancel_right_pos mult_less_cancel_right_pos)

lemma two_to_shift: "two_to e = of_int (2 ^ 52) * two_to (e - 52)" "two_to (e + 1) = of_int (2 ^ 53) * two_to (e - 52)"
  using two_to_add[of 52 "e - 52"] two_to_add[of 53 "e - 52"] two_to_nat[of 52] two_to_nat[of 53] by (simp_all add: add.commute)

lemma value_of_pattern:
  "0 < e \<Longrightarrow> e < 2047 \<Longrightarrow> m < 2 ^ 52 \<Longrightarrow>
     f64_value (f64_pattern s e m) = Finite ((if s then -1 else 1) * (2 ^ 52 + of_nat m) * two_to (int e - 1075))"
  "m < 2 ^ 52 \<Longrightarrow> f64_value (f64_pattern s 0 m) = Finite ((if s then -1 else 1) * of_nat m * two_to (- 1074))"
  "f64_value (f64_pattern s 2047 0) = Infinite s"
  "f64_value (f64_pattern s 2047 (2 ^ 51)) = NaN"
  by (simp_all add: f64_value_def pattern_fields Let_def)

lemma binade_unique: "two_to e \<le> x \<Longrightarrow> x < two_to (e + 1) \<Longrightarrow> binade x = e"
  using binade_bounds[of x] two_to_pos[of e] two_to_less_iff
  by (smt (verit, best) order_le_less_trans order_less_le_trans)

text \<open>A rounded value is a significand of at most 53 bits times a power of two.\<close>

lemma nearest_parts:
  assumes "0 < x" "nearest binary64 x \<noteq> 0"
  obtains m e where "nearest binary64 x = of_int m * two_to (e - 52)" "-1022 \<le> e" "0 < m" "m < 2 ^ 53"
    "2 ^ 52 \<le> m \<or> e = -1022"
proof -
  let ?e = "used_exponent binary64 x" and ?m = "ties_even (x / rounding_unit binary64 x)"
  have e: "-1022 \<le> ?e"
    by (simp add: used_exponent_def)
  have y: "nearest binary64 x = of_int ?m * two_to (?e - 52)"
    using assms(1) by (simp add: nearest_def rounding_unit_eq)
  have "of_int ?m * two_to (?e - 52) \<le> two_to (?e + 1)"
    using nearest_le_next[of x binary64] assms(1) y by simp
  also have "\<dots> = of_int (2 ^ 53) * two_to (?e - 52)"
    by (rule two_to_shift)
  finally have high: "?m \<le> 2 ^ 53"
    by (simp only: two_to_scale)
  have "0 \<le> nearest binary64 x"
    using assms(1) by (intro nearest_nonneg) simp
  then have "of_int 0 * two_to (?e - 52) < of_int ?m * two_to (?e - 52)"
    using y assms(2) by (simp add: order_less_le)
  then have low: "0 < ?m"
    by (simp only: two_to_scale)
  have normal: "2 ^ 52 \<le> ?m \<or> ?e = -1022"
  proof (cases "?e = -1022")
    case False
    then have "?e = binade x"
      using assms(1) by (simp add: used_exponent_def max_def split: if_splits)
    then have "two_to ?e \<le> of_int ?m * two_to (?e - 52)"
      using nearest_ge_binade[of binary64 x] binade_bounds(1)[OF assms(1)] y by simp
    then have "2 ^ 52 \<le> ?m"
      unfolding two_to_shift(1)[of ?e] by (simp only: two_to_scale)
    then show ?thesis ..
  qed simp
  show thesis
  proof (cases "?m = 2 ^ 53")
    case True
    have "nearest binary64 x = of_int (2 ^ 52) * two_to (?e + 1 - 52)"
      unfolding y True using two_to_Suc[of "?e - 52"] by (simp add: algebra_simps)
    then show thesis
      using that[of "2 ^ 52" "?e + 1"] e by simp
  next
    case False
    then show thesis
      using that[OF y e low _ normal] high by simp
  qed
qed

lemma value_of_parts:
  assumes "-1022 \<le> e" "e \<le> 1023" "0 < m" "m < 2 ^ 53" "2 ^ 52 \<le> m \<or> e = -1022"
    and x: "x = (if negative then -1 else 1) * (of_int m * two_to (e - 52))"
  shows "f64_value (f64_encode s (Finite x)) = Finite x \<and> f64_negative (f64_encode s (Finite x)) = negative"
proof -
  have pos: "0 < of_int m * two_to (e - 52)"
    using assms(3) by simp
  then have abs: "\<bar>x\<bar> = of_int m * two_to (e - 52)" and sign: "(x < 0) = negative" and nonzero: "x \<noteq> 0"
    by (auto simp: x)
  have quotient: "nat \<lfloor>\<bar>x\<bar> / two_to (e - 52)\<rfloor> = nat m"
    by (simp add: abs)
  show ?thesis
  proof (cases "2 ^ 52 \<le> m")
    case True
    then have "two_to e \<le> \<bar>x\<bar>" "\<bar>x\<bar> < two_to (e + 1)"
      using assms(4) unfolding abs two_to_shift(1)[of e] two_to_shift(2)[of e] by (simp_all only: two_to_scale)
    then have "max (binade \<bar>x\<bar>) (- 1022) = e"
      using assms(1) by (simp add: binade_unique)
    then have encode: "f64_encode s (Finite x) = f64_pattern negative (nat (e + 1023)) (nat m - 2 ^ 52)"
      using True nonzero quotient by (simp add: sign Let_def f64_encode.simps(3))
    have m: "nat m - 2 ^ 52 < 2 ^ 52" "2 ^ 52 \<le> nat m"
      using assms(3,4) True by (simp_all add: nat_less_iff less_diff_conv2 nat_diff_distrib' flip: zless_nat_eq_int_zless)
    then have "(2 ^ 52 + of_nat (nat m - 2 ^ 52) :: rat) = of_int m"
      using assms(3) by (simp add: of_nat_diff)
    moreover have "0 < nat (e + 1023)" "nat (e + 1023) < 2047" "int (nat (e + 1023)) - 1075 = e - 52"
      using assms(1,2) by auto
    ultimately have "f64_value (f64_pattern negative (nat (e + 1023)) (nat m - 2 ^ 52)) = Finite x"
      using value_of_pattern(1)[of "nat (e + 1023)" "nat m - 2 ^ 52" negative] m(1) unfolding x by (metis mult.assoc)
    moreover have "f64_negative (f64_pattern negative (nat (e + 1023)) (nat m - 2 ^ 52)) = negative"
      using assms(1,2) m(1) by (intro pattern_fields) auto
    ultimately show ?thesis
      unfolding encode ..
  next
    case False
    then have e: "e = -1022" and m: "nat m < 2 ^ 52"
      using assms(3,5) by (auto simp: nat_less_iff)
    have "\<bar>x\<bar> < of_int (2 ^ 52) * two_to (e - 52)"
      using False unfolding abs by (simp only: two_to_scale)
    then have "two_to (binade \<bar>x\<bar>) < two_to e"
      using binade_bounds(1)[of "\<bar>x\<bar>"] nonzero unfolding two_to_shift(1)[of e] by simp
    then have "max (binade \<bar>x\<bar>) (- 1022) = e"
      by (simp add: two_to_less_iff e)
    then have "f64_encode s (Finite x) = f64_pattern negative 0 (nat m)"
      using m nonzero quotient by (simp add: sign Let_def f64_encode.simps(3))
    then show ?thesis
      using value_of_pattern(2)[OF m] pattern_fields(1)[of 0 "nat m" negative] m assms(3) by (simp only: x e) simp
  qed
qed

text \<open>Encoding a rounded value and reading the pattern loses nothing.\<close>

theorem encode_rounded:
  "f64_value (f64_encode s (round_to binary64 x)) = round_to binary64 x"
proof -
  consider "\<not> \<bar>nearest binary64 x\<bar> < two_to 1024" | "nearest binary64 x = 0"
    | "\<bar>nearest binary64 x\<bar> < two_to 1024" "nearest binary64 x \<noteq> 0"
    by blast
  then show ?thesis
  proof cases
    case 1
    then show ?thesis
      by (simp add: round_to_def value_of_pattern)
  next
    case 2
    then show ?thesis
      by (simp add: round_to_def value_of_pattern)
  next
    case 3
    let ?negative = "x < 0"
    have x: "x \<noteq> 0"
      using 3(2) by auto
    have split: "nearest binary64 x = (if ?negative then -1 else 1) * nearest binary64 \<bar>x\<bar>"
      by (simp add: nearest_uminus)
    then obtain m e where parts: "nearest binary64 \<bar>x\<bar> = of_int m * two_to (e - 52)" "-1022 \<le> e" "0 < m"
      "m < 2 ^ 53" "2 ^ 52 \<le> m \<or> e = -1022"
      using nearest_parts[of "\<bar>x\<bar>"] x 3(2) by (metis mult_zero_right zero_less_abs_iff)
    have "e \<le> 1023"
    proof (rule ccontr)
      assume "\<not> e \<le> 1023"
      then have "two_to 1024 \<le> two_to e" "2 ^ 52 \<le> m"
        using parts(5) by (auto intro: two_to_mono)
      then have "two_to 1024 \<le> of_int m * two_to (e - 52)"
        using two_to_scale(1)[of "2 ^ 52" "e - 52" m] two_to_shift(1)[of e] by linarith
      then show False
        using 3(1) parts(1) split abs_of_pos[OF two_to_pos, of "e - 52"] parts(3) by (simp add: abs_mult split: if_splits)
    qed
    then have "f64_value (f64_encode s (Finite (nearest binary64 x))) = Finite (nearest binary64 x)"
      using value_of_parts[of e m "nearest binary64 x" ?negative s] parts(2-5) split unfolding parts(1) by blast
    moreover have "round_to binary64 x = Finite (nearest binary64 x)"
      using 3(1) by (simp add: round_to_def)
    ultimately show ?thesis
      by (simp only:)
  qed
qed

section \<open>A resting controller\<close>

lemma zero_pattern [simp]:
  "f64_value (f64_pattern s 0 0) = Finite 0" "f64_negative (f64_pattern s 0 0) = s" "f64_pattern False 0 0 = f64_zero"
  by (simp_all add: value_of_pattern pattern_fields) (simp add: f64_pattern_def f64_zero_def)

lemma round_to_0 [simp]: "round_to f 0 = Finite 0"
  by (simp add: round_to_def)

definition f64_is_zero :: "f64 \<Rightarrow> bool" where "f64_is_zero w \<longleftrightarrow> f64_value w = Finite 0"

lemma zero_times:
  assumes "f64_is_zero a" "f64_value b = Finite y"
  shows "f64_is_zero (f64_mul a b)" "f64_is_zero (f64_mul b a)"
  using assms by (simp_all add: f64_is_zero_def f64_mul_def Let_def)

lemma square_of_zero:
  assumes "f64_is_zero w"
  shows "f64_mul w w = f64_zero"
  using assms by (simp add: f64_is_zero_def f64_mul_def Let_def)

lemma zero_patterns:
  "f64_value f64_zero = Finite 0" "\<not> f64_negative f64_zero"
  "f64_value f64_minus_zero = Finite 0" "f64_negative f64_minus_zero"
  by (simp_all add: f64_value_def f64_exponent_def f64_fraction_def f64_negative_def f64_zero_def f64_minus_zero_def)

lemma sum_of_zeros: "f64_add f64_minus_zero f64_zero = f64_zero" "f64_add f64_zero f64_zero = f64_zero"
  by (simp_all add: f64_add_def zero_patterns)

lemma finite_constants:
  "\<exists>x. f64_value gyro_dps_per_raw = Finite x" "\<exists>x. f64_value f64_rads_per_deg = Finite x"
proof -
  have "f64_exponent gyro_dps_per_raw = 1019" "f64_exponent f64_rads_per_deg = 1017"
    by (simp_all add: f64_fields gyro_dps_per_raw_def f64_rads_per_deg_def)
  then show "\<exists>x. f64_value gyro_dps_per_raw = Finite x" "\<exists>x. f64_value f64_rads_per_deg = Finite x"
    by (simp_all add: f64_value_def Let_def)
qed

text \<open>A fraction of a \<open>u64\<close> number of nanoseconds is a finite number of seconds.\<close>

lemma round_to_finite_below:
  assumes "\<bar>x\<bar> \<le> 2 ^ n" "n \<le> 1000"
  shows "\<exists>y. round_to binary64 x = Finite y \<and> \<bar>y\<bar> \<le> 2 ^ n"
proof -
  have exact: "nearest binary64 (2 ^ n) = 2 ^ n"
    using nearest_exact[of 1 binary64 "int n"] by (simp add: two_to_nat)
  have "\<bar>nearest binary64 x\<bar> \<le> 2 ^ n"
    using nearest_mono[of x "2 ^ n" binary64] nearest_mono[of "- x" "2 ^ n" binary64] assms(1) exact
    by (simp add: abs_le_iff nearest_uminus)
  moreover have "(2 ^ n :: rat) < two_to 1024"
    using assms(2) two_to_less_iff[of "int n" 1024] by (simp add: two_to_nat)
  ultimately show ?thesis
    by (simp add: round_to_def)
qed

lemma finite_value:
  "f64_value f64_billion = Finite (10 ^ 9)" "f64_value (f64_of_int 3) = Finite 3"
proof -
  have "f64_exponent f64_billion = 1052" "f64_fraction f64_billion = 3885008372629504" "\<not> f64_negative f64_billion"
    by (simp_all add: f64_fields f64_negative_def f64_billion_def)
  then show "f64_value f64_billion = Finite (10 ^ 9)"
    by (simp add: f64_value_def Let_def two_to_def)
  show "f64_value (f64_of_int 3) = Finite 3"
    using nearest_int[of 3 binary64] round_to_binary64[of 3] encode_rounded[of False 3] by (simp add: f64_of_int_def)
qed

lemma value_of_quotient:
  "f64_value a = Finite x \<Longrightarrow> f64_value b = Finite y \<Longrightarrow> y \<noteq> 0 \<Longrightarrow>
     f64_value (f64_div a b) = round_to binary64 (x / y)"
  by (simp add: f64_div_def Let_def encode_rounded)

lemma seconds_finite:
  fixes ns :: u64
  shows "\<exists>s. f64_value (f64_div (f64_div (f64_of_int (uint ns)) f64_billion) (f64_of_int 3)) = Finite s"
proof -
  have "\<bar>of_int (uint ns) :: rat\<bar> \<le> of_int (2 ^ 64)"
    using uint_lt2p[of ns] by (simp only: of_int_abs[symmetric] of_int_le_iff) simp
  then obtain a where a: "f64_value (f64_of_int (uint ns)) = Finite a" "\<bar>a\<bar> \<le> 2 ^ 64"
    using round_to_finite_below[of "of_int (uint ns)" 64] by (auto simp: f64_of_int_def encode_rounded)
  then have "\<bar>a / 10 ^ 9\<bar> \<le> 2 ^ 64"
    by (simp add: abs_divide)
  then obtain b where b: "round_to binary64 (a / 10 ^ 9) = Finite b" "\<bar>b\<bar> \<le> 2 ^ 64"
    using round_to_finite_below[of _ 64] by fastforce
  then have "\<bar>b / 3\<bar> \<le> 2 ^ 64"
    by (simp add: abs_divide)
  then obtain c where "round_to binary64 (b / 3) = Finite c"
    using round_to_finite_below[of _ 64] by fastforce
  then show ?thesis
    using a(1) b(1) by (simp add: value_of_quotient[OF _ finite_value(2)] value_of_quotient[OF _ finite_value(1)])
qed

lemma no_rotation:
  assumes "\<forall>rate \<in> set rates. f64_is_zero rate" "length rates = 3" "f64_value seconds = Finite s"
  shows "next_orientation (ieee_floats sine cosine) orient rates seconds = orient"
proof -
  obtain a b c where rates: "rates = [a, b, c]"
    using assms(2) by (auto simp: length_Suc_conv numeral_3_eq_3)
  have "f64_is_zero (f64_mul r seconds)" if "r \<in> {a, b, c}" for r
    using that assms(1,3) zero_times(1) by (auto simp: rates)
  then have "f64_mul (f64_mul r seconds) (f64_mul r seconds) = f64_zero" if "r \<in> {a, b, c}" for r
    using that square_of_zero by blast
  moreover have "float_eq (f64_value (f64_sqrt f64_zero)) (f64_value f64_zero)"
    by (simp add: f64_sqrt_def zero_patterns)
  ultimately show ?thesis
    by (simp add: next_orientation_def ieee_floats_def rates sum_of_zeros)
qed

lemma resting_rates:
  assumes "gyro frame = zero_raw cal"
  shows "\<forall>rate \<in> set (gyro_rates (ieee_floats sine cosine) frame cal). f64_is_zero rate"
    and "length (gyro_rates (ieee_floats sine cosine) frame cal) = 3"
proof -
  obtain g d where finite: "f64_value gyro_dps_per_raw = Finite g" "f64_value f64_rads_per_deg = Finite d"
    using finite_constants by blast
  have "f64_is_zero (f64_of_int 0)"
    by (simp add: f64_is_zero_def f64_of_int_def zero_patterns)
  then have "f64_is_zero (f64_mul (f64_mul (f64_of_int 0) gyro_dps_per_raw) f64_rads_per_deg)"
    using finite by (intro zero_times(1))
  then show "\<forall>rate \<in> set (gyro_rates (ieee_floats sine cosine) frame cal). f64_is_zero rate"
    using assms by (cases "zero_raw cal") (simp add: gyro_rates_def ieee_floats_def)
  show "length (gyro_rates (ieee_floats sine cosine) frame cal) = 3"
    by (simp add: gyro_rates_def)
qed

text \<open>
  A controller at rest keeps its orientation: when every frame's rotation is the calibration's zero, the quaternion
  encoder leaves the orientation exactly as it was, however much time has passed.
\<close>

theorem resting_controller_keeps_orientation:
  assumes "\<forall>frame \<in> set (triple_list frames). gyro frame = zero_raw cal"
  shows "orientation (imu_next_state (encode_quaternion_imu (ieee_floats sine cosine) st frames cal now)) = orientation st"
proof -
  let ?F = "ieee_floats sine cosine"
  have ops: "f_div ?F = f64_div" "f_of_int ?F = f64_of_int"
    by (simp_all add: ieee_floats_def)
  define seconds where "seconds = f64_div (f64_div (f64_of_int (uint (case previous_report_ns st of
    None \<Rightarrow> 0 | Some previous \<Rightarrow> saturating_sub_u64 now previous))) f64_billion) (f64_of_int 3)"
  obtain s where "f64_value seconds = Finite s"
    using seconds_finite unfolding seconds_def by blast
  then have "next_orientation ?F orient (gyro_rates ?F frame cal) seconds = orient"
    if "frame \<in> set (triple_list frames)" for frame orient
    using no_rotation resting_rates assms that by blast
  then show ?thesis
    by (cases frames) (simp add: encode_quaternion_imu_def Let_def ops flip: seconds_def)
qed

end
