(* ===== verification/ImuBlock.thy ===== *)
theory ImuBlock
  imports ImuEncoding
begin

text \<open>
  Reading the 36-byte IMU block of \<open>crates/swbt-core/src/protocol/imu.rs\<close> back: a reference decoder for the
  standard and the quaternion form, and that it recovers what the encoder put in.
\<close>

section \<open>Bits of a block\<close>

text \<open>Bit \<open>k\<close> of a block, least significant bit of each byte first, and the field of \<open>width\<close> bits at \<open>start\<close>.\<close>

definition block_bit :: "u8 list \<Rightarrow> nat \<Rightarrow> bool" where
  "block_bit block k = bit (block ! (k div 8)) (k mod 8)"

definition read_bits :: "u8 list \<Rightarrow> nat \<Rightarrow> nat \<Rightarrow> u64" where
  "read_bits block start width = horner_sum of_bool 2 (map (\<lambda>i. block_bit block (start + i)) [0..<width])"

lemma bit_read_bits:
  "bit (read_bits block start width) i \<longleftrightarrow> i < 64 \<and> i < width \<and> block_bit block (start + i)"
  by (auto simp: read_bits_def bit_horner_sum_bit_iff)

lemma read_bits_eqI:
  assumes "width \<le> 64" "\<And>i. i < width \<Longrightarrow> block_bit block (start + i) = bit v i"
  shows "read_bits block start width = take_bit width v"
  by (rule bit_word_eqI) (use assms in \<open>auto simp: bit_read_bits bit_take_bit_iff\<close>)

lemma block_bit_or_at:
  assumes "s < 8 * length block" "k < 8 * length block"
  shows "block_bit (or_at block (s div 8) (push_bit (s mod 8) 1)) k \<longleftrightarrow> block_bit block k \<or> k = s"
proof -
  have "k div 8 = s div 8 \<and> k mod 8 = s mod 8 \<longleftrightarrow> k = s"
    by (metis mult_div_mod_eq)
  moreover have "k div 8 < length block" "k mod 8 < 8"
    using assms by auto
  ultimately show ?thesis
    by (auto simp: block_bit_def nth_or_at bit_or_push_bit_one simp del: push_bit_of_1)
qed

lemma block_bit_put_bits:
  assumes "start + width \<le> 8 * length block" "k < 8 * length block" "width \<le> 64"
  shows "block_bit (put_bits block start width v) k \<longleftrightarrow>
    block_bit block k \<or> start \<le> k \<and> k < start + width \<and> bit v (k - start)"
  using assms
proof (induction width)
  case (Suc width)
  have "put_bits block start (Suc width) v =
      (if v AND push_bit width 1 \<noteq> 0
       then or_at (put_bits block start width v) ((start + width) div 8) (push_bit ((start + width) mod 8) 1)
       else put_bits block start width v)"
    by (simp add: put_bits_def)
  moreover have "v AND push_bit width 1 \<noteq> 0 \<longleftrightarrow> bit v width"
    using Suc.prems(3) by (simp add: word_and_push_bit_one_iff del: push_bit_of_1)
  ultimately show ?case
    using Suc block_bit_or_at[of "start + width" "put_bits block start width v" k]
    by (auto simp: less_Suc_eq simp del: push_bit_of_1)
qed (auto simp: put_bits_def)

text \<open>Little-endian values of sixteen bits are sixteen consecutive bits.\<close>

lemma bit_le16: "i < 2 \<Longrightarrow> k < 8 \<Longrightarrow> bit (le16 w ! i) k \<longleftrightarrow> bit w (8 * i + k)"
  by (auto simp: le16_def less_2_cases_iff bit_simps)

lemma block_bit_blit:
  assumes "off + 2 \<le> length block" "k < 8 * length block"
  shows "block_bit (blit block off (le16 w)) k \<longleftrightarrow>
    (if 8 * off \<le> k \<and> k < 8 * off + 16 then bit w (k - 8 * off) else block_bit block k)"
proof (cases "8 * off \<le> k \<and> k < 8 * off + 16")
  case True
  then have "off \<le> k div 8" "k div 8 < off + 2" "8 * (k div 8 - off) + k mod 8 = k - 8 * off"
    using mult_div_mod_eq[of 8 k] by linarith+
  then show ?thesis
    using True assms bit_le16[of "k div 8 - off" "k mod 8" w] by (auto simp: block_bit_def nth_blit)
next
  case False
  then have "\<not> (off \<le> k div 8 \<and> k div 8 < off + 2)"
    by linarith
  then show ?thesis
    using False assms by (auto simp: block_bit_def nth_blit)
qed

lemma block_bit_zeros [simp]: "k < 8 * n \<Longrightarrow> \<not> block_bit (replicate n 0) k"
  by (simp add: block_bit_def)

section \<open>Values of a frame\<close>

text \<open>The sixteen bits of the value \<open>i\<close> of frame \<open>f\<close> start at bit \<open>96 f + 16 i\<close>; nothing else is touched.\<close>

lemma block_bit_put_values:
  assumes "12 * f + 2 * length values \<le> length block" "k < 8 * length block"
  shows "block_bit (put_values f values block) k \<longleftrightarrow>
    (if 96 * f \<le> k \<and> k < 96 * f + 16 * length values
     then bit (values ! ((k - 96 * f) div 16)) ((k - 96 * f) mod 16) else block_bit block k)"
  using assms
proof (induction "values" rule: rev_induct)
  case (snoc v vs)
  let ?n = "length vs" and ?k = "k - 96 * f"
  have split: "put_values f (vs @ [v]) block = blit (put_values f vs block) (f * 12 + ?n * 2) (le16 v)"
    by (simp add: put_values_def enumerate_append_eq)
  have size: "length (put_values f vs block) = length block"
    using snoc.prems by (intro length_put_values) simp
  have last: "?k div 16 = ?n" "?k mod 16 = k - 8 * (f * 12 + ?n * 2)"
    if "8 * (f * 12 + ?n * 2) \<le> k" "k < 8 * (f * 12 + ?n * 2) + 16"
    using that by (auto simp: div_nat_eqI mod_nat_eqI algebra_simps)
  have earlier: "?k div 16 < ?n" if "k < 96 * f + 16 * ?n" "96 * f \<le> k"
    using that by (auto simp: div_less_iff_less_mult)
  show ?case
    using snoc block_bit_blit[of "f * 12 + ?n * 2" "put_values f vs block" k v] last earlier
    by (auto simp: split size nth_append)
qed (auto simp: put_values_def)

section \<open>The decoder\<close>

text \<open>The first \<open>n\<close> values of each frame, and the fields of the quaternion form.\<close>

definition read_frames :: "nat \<Rightarrow> u8 list \<Rightarrow> i16 list list" where
  "read_frames n block = map (\<lambda>f. map (\<lambda>i. ucast (read_bits block (96 * f + 16 * i) 16)) [0..<n]) [0..<3]"

record quaternion_fields =
  qf_accel :: "i16 list list"
  qf_mode :: u64
  qf_index :: u64
  qf_components :: "u64 list"
  qf_timestamp_ms :: u64
  qf_samples :: u64

definition read_quaternion_block :: "u8 list \<Rightarrow> quaternion_fields" where
  "read_quaternion_block block = \<lparr>
     qf_accel = read_frames 3 block,
     qf_mode = read_bits block 48 2,
     qf_index = read_bits block 50 2,
     qf_components = [read_bits block 52 21, read_bits block 73 21,
                      read_bits block 94 2 OR push_bit 2 (read_bits block 144 19)],
     qf_timestamp_ms = read_bits block 271 11,
     qf_samples = read_bits block 282 6\<rparr>"

text \<open>A block made of three frames of values, as the two encoders write them.\<close>

definition put_frames :: "i16 list list \<Rightarrow> u8 list \<Rightarrow> u8 list" where
  "put_frames frames block = put_values 2 (frames ! 2) (put_values 1 (frames ! 1) (put_values 0 (frames ! 0) block))"

lemma encoders_put_frames:
  "encode_standard_imu frames =
     put_frames (map (\<lambda>f. triple_list (accel f) @ triple_list (gyro f)) (triple_list frames)) (replicate 36 0)"
  "put_accel frames block = put_frames (map (\<lambda>f. triple_list (accel f)) (triple_list frames)) block"
proof -
  obtain a b c where frames: "frames = (a, b, c)"
    by (cases frames)
  have nth: "map g (triple_list frames) ! 0 = g a" "map g (triple_list frames) ! 1 = g b"
    "map g (triple_list frames) ! 2 = g c" for g :: "imu_frame \<Rightarrow> i16 list"
    by (simp_all add: frames)
  show "encode_standard_imu frames =
     put_frames (map (\<lambda>f. triple_list (accel f) @ triple_list (gyro f)) (triple_list frames)) (replicate 36 0)"
    unfolding encode_standard_imu_def put_frames_def nth unfolding frames enumerate_triple imu_block_size_def
    by (simp only: fold_simps split)
  show "put_accel frames block = put_frames (map (\<lambda>f. triple_list (accel f)) (triple_list frames)) block"
    unfolding put_accel_def put_frames_def nth unfolding frames enumerate_triple
    by (simp only: fold_simps split)
qed

lemma block_bit_put_frames:
  assumes "length frames = 3" "\<And>f. f < 3 \<Longrightarrow> length (frames ! f) = n" "n \<le> 6" "k < 288"
  shows "block_bit (put_frames frames (replicate 36 0)) k \<longleftrightarrow>
    (k mod 96 < 16 * n \<and> bit (frames ! (k div 96) ! (k mod 96 div 16)) (k mod 16))"
proof -
  have n: "length (frames ! 0) = n" "length (frames ! 1) = n" "length (frames ! 2) = n"
    using assms(2) by simp_all
  have sizes: "length (put_values 0 (frames ! 0) (replicate 36 0)) = 36"
    "length (put_values 1 (frames ! 1) (put_values 0 (frames ! 0) (replicate 36 0))) = 36"
    using n assms(3) by (simp_all add: length_put_values)
  define f j where "f = k div 96" and "j = k mod 96"
  then have k: "k = 96 * f + j" "j < 96" "k mod 96 = j" "k div 96 = f"
    by simp_all
  then have "f < 3"
    using assms(4) by linarith
  then consider "f = 0" | "f = 1" | "f = 2"
    by linarith
  moreover have "k mod 16 = j mod 16"
    using mod_mult_self4[of 16 "6 * f" j] k(1) by simp
  ultimately show ?thesis
    using assms(3,4) n sizes k by cases (simp_all add: put_frames_def block_bit_put_values)
qed

lemma read_put_frames:
  assumes "length frames = 3" "\<And>f. f < 3 \<Longrightarrow> length (frames ! f) = n" "n \<le> 6"
    and "\<And>k. k < 288 \<Longrightarrow> k mod 96 < 16 * n \<Longrightarrow>
      block_bit block k = block_bit (put_frames frames (replicate 36 0)) k"
  shows "read_frames n block = frames"
proof (rule nth_equalityI)
  fix f assume "f < length (read_frames n block)"
  then have f: "f < 3"
    by (simp add: read_frames_def)
  show "read_frames n block ! f = frames ! f"
  proof (rule nth_equalityI)
    fix i assume "i < length (read_frames n block ! f)"
    with f have i: "i < n"
      by (simp add: read_frames_def)
    have "block_bit block (96 * f + 16 * i + j) = bit (ucast (frames ! f ! i) :: u64) j" if "j < 16" for j
    proof -
      let ?r = "16 * i + j"
      have r: "?r < 96" "?r < 16 * n" "96 * f + ?r < 288" "?r div 16 = i"
        using that i assms(3) f by linarith+
      moreover have "?r mod 16 = j"
        using that by simp
      ultimately have "(96 * f + ?r) mod 96 = ?r" "(96 * f + ?r) div 96 = f" "(96 * f + ?r) mod 16 = j"
        using mod_mult_self4[of 16 "6 * f + i" j] that by (simp_all add: add.assoc)
      then show ?thesis
        using block_bit_put_frames[OF assms(1,2,3), of "96 * f + ?r"] assms(4)[of "96 * f + ?r"] r \<open>?r mod 16 = j\<close> that
        by (simp add: bit_ucast_iff add.assoc)
    qed
    then have "read_bits block (96 * f + 16 * i) 16 = take_bit 16 (ucast (frames ! f ! i))"
      by (intro read_bits_eqI) simp_all
    then have "(ucast (read_bits block (96 * f + 16 * i) 16) :: i16) = frames ! f ! i"
      by (auto intro!: bit_word_eqI simp: bit_simps)
    then show "read_frames n block ! f ! i = frames ! f ! i"
      using f i by (simp add: read_frames_def)
  qed (use assms f in \<open>simp add: read_frames_def\<close>)
qed (use assms in \<open>simp add: read_frames_def\<close>)

section \<open>The quaternion form\<close>

lemma next_orientation_length [simp]: "length orient = 4 \<Longrightarrow> length (next_orientation F orient rates s) = 4"
  by (simp add: next_orientation_def normalize_def hamilton_product_def Let_def)

lemma max_abs_index_bound: "length orient = 4 \<Longrightarrow> max_abs_index F orient < 4"
  by (simp add: max_abs_index_def upt_rec numeral_eq_Suc)

lemma read_field:
  assumes "start + width \<le> 288" "width \<le> 64" "length block = 36"
    and "\<And>k. start \<le> k \<Longrightarrow> k < start + width \<Longrightarrow> block_bit block k = bit v (k - start)"
  shows "read_bits block start width = take_bit width v"
  using assms(2,4) by (intro read_bits_eqI) simp_all

text \<open>The fields beside the accelerations, bit by bit.\<close>

definition field_bit :: "f64_ops \<Rightarrow> f64 list \<Rightarrow> u64 \<Rightarrow> nat \<Rightarrow> bool" where
  "field_bit F orient ts k \<longleftrightarrow>
     (let index = max_abs_index F orient; q = quaternion_components F orient index in
      48 \<le> k \<and> k < 50 \<and> bit (2 :: u64) (k - 48)
      \<or> 50 \<le> k \<and> k < 52 \<and> bit (of_nat index :: u64) (k - 50)
      \<or> 52 \<le> k \<and> k < 73 \<and> bit (q ! 0) (k - 52)
      \<or> 73 \<le> k \<and> k < 94 \<and> bit (q ! 1) (k - 73)
      \<or> 94 \<le> k \<and> k < 96 \<and> bit (q ! 2) (k - 94)
      \<or> 144 \<le> k \<and> k < 163 \<and> bit (signed_drop_bit 2 (q ! 2)) (k - 144)
      \<or> 271 \<le> k \<and> k < 282 \<and> bit ts (k - 271)
      \<or> 282 \<le> k \<and> k < 288 \<and> bit (3 :: u64) (k - 282))"

lemma pack_mode_2_bits:
  assumes "k < 288"
  shows "block_bit (pack_mode_2 F frames orient ts) k \<longleftrightarrow>
     block_bit (put_accel frames (replicate 36 0)) k \<or> field_bit F orient ts k"
proof -
  have "length (put_accel frames (replicate 36 (0 :: u8))) = 36"
    by simp
  moreover have "length (triple_list frames) = 3"
    by simp
  ultimately show ?thesis
    using assms unfolding pack_mode_2_def field_bit_def Let_def imu_block_size_def
    by (simp only: block_bit_put_bits length_put_bits) auto
qed

lemma field_bit_place: "field_bit F orient ts k \<Longrightarrow> 48 \<le> k \<and> k < 96 \<or> 144 \<le> k \<and> k < 163 \<or> 271 \<le> k \<and> k < 288"
  unfolding field_bit_def Let_def by auto

text \<open>The third component is stored in two parts.\<close>

lemma split_component:
  "take_bit 2 w OR push_bit 2 (take_bit 19 (signed_drop_bit 2 w)) = take_bit 21 (w :: u64)"
proof (rule bit_word_eqI)
  fix n assume n: "n < LENGTH(64)"
  show "bit (take_bit 2 w OR push_bit 2 (take_bit 19 (signed_drop_bit 2 w))) n = bit (take_bit 21 w) n"
  proof (cases "n < 2")
    case False
    then obtain m where "n = m + 2"
      by (metis add.commute le_Suc_ex linorder_not_less)
    with n show ?thesis
      by (auto simp: bit_simps)
  qed (use n in \<open>auto simp: bit_simps\<close>)
qed

text \<open>Which bits the fields take, and the three frames of acceleration beside them.\<close>

lemma put_accel_bits:
  assumes "48 \<le> k \<and> k < 96 \<or> 144 \<le> k \<and> k < 192 \<or> 240 \<le> k \<and> k < 288"
  shows "\<not> block_bit (put_accel frames (replicate 36 0)) k"
proof -
  have "\<not> k mod 96 < 48" "k < 288"
    using assms by (auto simp: le_mod_geq)
  then show ?thesis
    using block_bit_put_frames[of "map (\<lambda>f. triple_list (accel f)) (triple_list frames)" 3 k]
    by (simp add: encoders_put_frames(2))
qed

lemma read_pack_field:
  assumes "48 \<le> start \<and> start + width \<le> 96 \<or> 144 \<le> start \<and> start + width \<le> 192 \<or> 240 \<le> start \<and> start + width \<le> 288"
    and "\<And>k. start \<le> k \<Longrightarrow> k < start + width \<Longrightarrow> field_bit F orient ts k = bit v (k - start)"
  shows "read_bits (pack_mode_2 F frames orient ts) start width = take_bit width v"
proof (rule read_field)
  fix k assume k: "start \<le> k" "k < start + width"
  then have "48 \<le> k \<and> k < 96 \<or> 144 \<le> k \<and> k < 192 \<or> 240 \<le> k \<and> k < 288"
    using assms(1) by linarith
  then show "block_bit (pack_mode_2 F frames orient ts) k = bit v (k - start)"
    using pack_mode_2_bits[of k F frames orient ts] put_accel_bits[of k frames] assms(2)[OF k] by auto
qed (use assms(1) in auto)

lemma read_pack_mode_2:
  assumes "length orient = 4"
  shows "read_quaternion_block (pack_mode_2 F frames orient ts) = \<lparr>
     qf_accel = map (\<lambda>f. triple_list (accel f)) (triple_list frames),
     qf_mode = 2,
     qf_index = of_nat (max_abs_index F orient),
     qf_components = map (take_bit 21) (quaternion_components F orient (max_abs_index F orient)),
     qf_timestamp_ms = take_bit 11 ts,
     qf_samples = 3\<rparr>"
proof -
  let ?block = "pack_mode_2 F frames orient ts" and ?index = "max_abs_index F orient"
  let ?q = "quaternion_components F orient ?index"
  let ?frames = "map (\<lambda>f. triple_list (accel f)) (triple_list frames)"
  have index: "take_bit 2 (of_nat ?index :: u64) = of_nat ?index"
  proof -
    have "?index = 0 \<or> ?index = 1 \<or> ?index = 2 \<or> ?index = 3"
      using max_abs_index_bound[OF assms, of F] by linarith
    then show ?thesis
      by (elim disjE) (simp_all only: of_nat_0 of_nat_1 of_nat_numeral, simp_all)
  qed
  have frames: "read_frames 3 ?block = ?frames"
  proof (rule read_put_frames)
    fix k :: nat assume k: "k < 288" "k mod 96 < 16 * 3"
    then have "\<not> (48 \<le> k \<and> k < 96 \<or> 144 \<le> k \<and> k < 163 \<or> 271 \<le> k \<and> k < 288)"
      by (auto simp: le_mod_geq)
    then show "block_bit ?block k = block_bit (put_frames ?frames (replicate 36 0)) k"
      using pack_mode_2_bits[OF k(1), of F frames orient ts] field_bit_place[of F orient ts k]
      unfolding encoders_put_frames(2) by blast
  qed auto
  have mode: "read_bits ?block 48 2 = take_bit 2 2" and i: "read_bits ?block 50 2 = take_bit 2 (of_nat ?index)"
    and q0: "read_bits ?block 52 21 = take_bit 21 (?q ! 0)" and q1: "read_bits ?block 73 21 = take_bit 21 (?q ! 1)"
    and q2: "read_bits ?block 94 2 = take_bit 2 (?q ! 2)"
    "read_bits ?block 144 19 = take_bit 19 (signed_drop_bit 2 (?q ! 2))"
    and time: "read_bits ?block 271 11 = take_bit 11 ts" and samples: "read_bits ?block 282 6 = take_bit 6 3"
    by (rule read_pack_field; simp add: field_bit_def Let_def)+
  have "take_bit 2 (?q ! 2) OR push_bit 2 (take_bit 19 (signed_drop_bit 2 (?q ! 2))) = take_bit 21 (?q ! 2)"
    by (rule split_component)
  moreover have "map (take_bit 21) ?q = [take_bit 21 (?q ! 0), take_bit 21 (?q ! 1), take_bit 21 (?q ! 2)]"
    by (simp add: quaternion_components_def Let_def upt_rec)
  moreover have "take_bit 2 (2 :: u64) = 2" "take_bit 6 (3 :: u64) = 3"
    by simp_all
  ultimately show ?thesis
    unfolding read_quaternion_block_def frames mode i q0 q1 q2 time samples index by (simp only:)
qed

end
