(* ===== verification/ImuMotion.thy ===== *)
theory ImuMotion
  imports ImuBlock Float64
begin

text \<open>
  What a host reads in the IMU block of a report: the correctness of \<open>encode_imu_block\<close> of
  \<open>crates/swbt-core/src/protocol/imu.rs\<close> against the reference decoder of \<open>ImuBlock\<close>.
\<close>

section \<open>The block carries the motion\<close>

lemma orientation_length:
  "length (orientation st) = 4 \<Longrightarrow>
   length (orientation (imu_next_state (encode_quaternion_imu F st frames cal now))) = 4"
  by (cases frames) (simp add: encode_quaternion_imu_def Let_def)

lemma encode_quaternion_block:
  "imu_block (encode_quaternion_imu F st frames cal now) =
     pack_mode_2 F frames (orientation (imu_next_state (encode_quaternion_imu F st frames cal now))) (now div 1000000)"
  by (simp add: encode_quaternion_imu_def Let_def)

text \<open>
  C31: The IMU block carries the motion.  In standard form the host reads the three frames' acceleration and
  rotation back from the block.  In every quaternion form it reads back the three accelerations, the form's
  mark, the index of the left-out component, the low 21 bits of the three others, the timestamp in
  milliseconds modulo 2048 and the number of samples, all of the orientation that the encoder keeps for the
  next report; that orientation has four components again.  When the IMU is disabled the block is zero.
\<close>

theorem imu_block_carries_motion:
  fixes F :: f64_ops and st :: imu_encoding_state and mode :: imu_mode and frames :: imu_frames3
    and cal :: sensor_calibration and now :: u64
  assumes "length (orientation st) = 4"
  defines "result \<equiv> encode_imu_block F st mode frames cal now"
  defines "q \<equiv> orientation (imu_next_state result)"
  shows "length q = 4 \<and>
    (case mode of
       Imu_Disabled \<Rightarrow> imu_block result = replicate 36 0 \<and> imu_next_state result = imu_encoding_state_default
     | Imu_Standard \<Rightarrow>
         read_frames 6 (imu_block result) = map (\<lambda>f. triple_list (accel f) @ triple_list (gyro f)) (triple_list frames)
         \<and> imu_next_state result = imu_encoding_state_default
     | _ \<Rightarrow>
         read_quaternion_block (imu_block result) = \<lparr>
           qf_accel = map (\<lambda>f. triple_list (accel f)) (triple_list frames),
           qf_mode = 2,
           qf_index = of_nat (max_abs_index F q),
           qf_components = map (take_bit 21) (quaternion_components F q (max_abs_index F q)),
           qf_timestamp_ms = take_bit 11 (now div 1000000),
           qf_samples = 3\<rparr>
         \<and> previous_report_ns (imu_next_state result) = Some now)"
proof -
  let ?samples = "map (\<lambda>f. triple_list (accel f) @ triple_list (gyro f)) (triple_list frames)"
  have standard: "read_frames 6 (encode_standard_imu frames) = ?samples"
    unfolding encoders_put_frames(1) by (rule read_put_frames) auto
  have quaternion: "previous_report_ns (imu_next_state (encode_quaternion_imu F st frames cal now)) = Some now"
    by (simp add: encode_quaternion_imu_def Let_def)
  show ?thesis
    using standard quaternion orientation_length[OF assms(1)] encode_quaternion_block read_pack_mode_2
    by (cases mode)
      (simp_all add: result_def q_def encode_imu_block_def imu_encoding_state_default_def identity_quaternion_def
        imu_block_size_def)
qed

definition sample_frames :: imu_frames3 where
  "sample_frames = (\<lparr>accel = (1, 2, -3), gyro = (100, -200, 300)\<rparr>, \<lparr>accel = (4, 5, 6), gyro = (7, 8, 9)\<rparr>, imu_frame_neutral)"

definition sample_calibration :: sensor_calibration where
  "sample_calibration = \<lparr>zero_raw = (0, 0, 0), reference_raw = (1, 1, 1)\<rparr>"

definition sample_floats64 :: f64_ops where
  "sample_floats64 = ieee_floats (\<lambda>x. x) (\<lambda>x. f64_one)"

theorem imu_block_carries_motion_witness:
  "read_frames 6 (imu_block (encode_imu_block sample_floats64 imu_encoding_state_default Imu_Standard sample_frames
       sample_calibration 5000000))
     = [[1, 2, -3, 100, -200, 300], [4, 5, 6, 7, 8, 9], [0, 0, 0, 0, 0, 0]]
   \<and> qf_timestamp_ms (read_quaternion_block (imu_block (encode_imu_block sample_floats64 imu_encoding_state_default
       Imu_Quaternion2 sample_frames sample_calibration 5000000))) = 5"
  using imu_block_carries_motion[of imu_encoding_state_default sample_floats64 Imu_Standard sample_frames
      sample_calibration 5000000]
    imu_block_carries_motion[of imu_encoding_state_default sample_floats64 Imu_Quaternion2 sample_frames
      sample_calibration 5000000]
  by (simp add: imu_encoding_state_default_def identity_quaternion_def sample_frames_def imu_frame_neutral_def)

end
