(* ===== verification/ProbeArguments.thy ===== *)
theory ProbeArguments
  imports CommandLine Identity ControllerModel Clock "HOL-Library.Multiset"
begin

text \<open>
  The command line of \<open>swbt-probe\<close>: \<open>parse\<close> and what it calls in \<open>tools/swbt-probe/src/main.rs\<close>.  The error type
  of the source is \<open>()\<close>; a path is the bytes of the argument.
\<close>

section \<open>The command\<close>

datatype probe_operation = OpPair | OpReconnect

datatype controller_selection = SelectPro | SelectJoyConL | SelectJoyConR

datatype reporting_selection = SelectPeriodic | SelectDirect

record connection_request =
  cr_operation :: probe_operation
  cr_controller :: controller_selection
  cr_reporting :: reporting_selection
  cr_identity :: profile_identity
  cr_profile :: string
  cr_trace :: string
  cr_button :: "button_kind option"
  cr_imu_duration :: "duration option"

datatype probe_command =
    ProbeHelp
  | ProbeAdapters
  | ProbeOpen string
  | ProbeConnection connection_request
  | ProbeInspect string
  | ProbeVerify string

definition min_imu_run_secs :: nat where "min_imu_run_secs = 1"
definition max_imu_run_secs :: nat where "max_imu_run_secs = 3600"

section \<open>Values\<close>

definition parse_connection_operation :: "string \<Rightarrow> probe_operation option" where
  "parse_connection_operation arg =
     (if to_str arg = Some ''pair'' then Some OpPair
      else if to_str arg = Some ''reconnect'' then Some OpReconnect else None)"

definition parse_controller_selection :: "string \<Rightarrow> controller_selection option" where
  "parse_controller_selection v =
     (if v = ''pro'' then Some SelectPro
      else if v = ''joycon-l'' then Some SelectJoyConL
      else if v = ''joycon-r'' then Some SelectJoyConR else None)"

definition parse_reporting_selection :: "string \<Rightarrow> reporting_selection option" where
  "parse_reporting_selection v =
     (if v = ''periodic'' then Some SelectPeriodic else if v = ''direct'' then Some SelectDirect else None)"

definition button_arguments :: "(string \<times> button_kind) list" where
  "button_arguments =
     [(''a'', Btn_A), (''b'', Btn_B), (''x'', Btn_X), (''y'', Btn_Y), (''l'', Btn_L), (''r'', Btn_R),
      (''zl'', Btn_ZL), (''zr'', Btn_ZR), (''plus'', Btn_Plus), (''minus'', Btn_Minus), (''home'', Btn_Home),
      (''capture'', Btn_Capture), (''left-stick'', Btn_LeftStick), (''right-stick'', Btn_RightStick),
      (''sl'', Btn_SL), (''sr'', Btn_SR), (''dpad-up'', Btn_DpadUp), (''dpad-down'', Btn_DpadDown),
      (''dpad-left'', Btn_DpadLeft), (''dpad-right'', Btn_DpadRight)]"

definition parse_button_kind :: "string \<Rightarrow> button_kind option" where
  "parse_button_kind v = map_of button_arguments v"

definition parse_local_address :: "string \<Rightarrow> profile_identity option" where
  "parse_local_address v = (case local_address_parse v of Inl _ \<Rightarrow> None | Inr a \<Rightarrow> Some (LocalAddress a))"

definition parse_imu_seconds :: "string \<Rightarrow> duration option" where
  "parse_imu_seconds v =
     Option.bind (parse_unsigned (2 ^ 64) v) (\<lambda>seconds.
       if min_imu_run_secs \<le> seconds \<and> seconds \<le> max_imu_run_secs then Some (from_secs seconds) else None)"

section \<open>Options\<close>

record connection_slots =
  sl_controller :: "controller_selection option"
  sl_profile :: "string option"
  sl_trace :: "string option"
  sl_reporting :: "reporting_selection option"
  sl_identity :: "profile_identity option"
  sl_button :: "button_kind option"
  sl_imu_duration :: "duration option"

definition no_slots :: connection_slots where
  "no_slots = \<lparr>sl_controller = None, sl_profile = None, sl_trace = None, sl_reporting = None, sl_identity = None,
     sl_button = None, sl_imu_duration = None\<rparr>"

definition set_once :: "'a option \<Rightarrow> 'a \<Rightarrow> 'a option option" where
  "set_once slot v = (if slot \<noteq> None then None else Some (Some v))"

text \<open>One round of the loop over \<open>arguments.chunks_exact(2)\<close>.\<close>

definition read_option :: "string \<times> string \<Rightarrow> connection_slots \<Rightarrow> connection_slots option" where
  "read_option opt slots =
     (case opt of (name, v) \<Rightarrow>
        if to_str name = Some ''--controller'' then
          Option.bind (Option.bind (to_str v) parse_controller_selection) (\<lambda>x.
            map_option (\<lambda>s. slots\<lparr>sl_controller := s\<rparr>) (set_once (sl_controller slots) x))
        else if to_str name = Some ''--profile'' then
          map_option (\<lambda>s. slots\<lparr>sl_profile := s\<rparr>) (set_once (sl_profile slots) v)
        else if to_str name = Some ''--trace'' then
          map_option (\<lambda>s. slots\<lparr>sl_trace := s\<rparr>) (set_once (sl_trace slots) v)
        else if to_str name = Some ''--reporting'' then
          Option.bind (Option.bind (to_str v) parse_reporting_selection) (\<lambda>x.
            map_option (\<lambda>s. slots\<lparr>sl_reporting := s\<rparr>) (set_once (sl_reporting slots) x))
        else if to_str name = Some ''--local-address'' then
          Option.bind (Option.bind (to_str v) parse_local_address) (\<lambda>x.
            map_option (\<lambda>s. slots\<lparr>sl_identity := s\<rparr>) (set_once (sl_identity slots) x))
        else if to_str name = Some ''--button'' then
          Option.bind (Option.bind (to_str v) parse_button_kind) (\<lambda>x.
            map_option (\<lambda>s. slots\<lparr>sl_button := s\<rparr>) (set_once (sl_button slots) x))
        else if to_str name = Some ''--imu-seconds'' then
          Option.bind (Option.bind (to_str v) parse_imu_seconds) (\<lambda>x.
            map_option (\<lambda>s. slots\<lparr>sl_imu_duration := s\<rparr>) (set_once (sl_imu_duration slots) x))
        else None)"

fun read_options :: "(string \<times> string) list \<Rightarrow> connection_slots \<Rightarrow> connection_slots option" where
  "read_options [] slots = Some slots"
| "read_options (opt # opts) slots = Option.bind (read_option opt slots) (read_options opts)"

text \<open>What follows the loop: defaults, and what an operation does not take.\<close>

definition build_request :: "probe_operation \<Rightarrow> connection_slots \<Rightarrow> connection_request option" where
  "build_request op slots =
     Option.bind
       (case (op, sl_reporting slots) of
          (OpPair, None) \<Rightarrow> Some SelectPeriodic
        | (OpPair, Some _) \<Rightarrow> None
        | (OpReconnect, reporting) \<Rightarrow> Some (case reporting of None \<Rightarrow> SelectPeriodic | Some r \<Rightarrow> r))
       (\<lambda>reporting. Option.bind
         (case (op, sl_identity slots) of
            (OpPair, identity) \<Rightarrow> Some (case identity of None \<Rightarrow> AdapterDefault | Some i \<Rightarrow> i)
          | (OpReconnect, None) \<Rightarrow> Some AdapterDefault
          | (OpReconnect, Some _) \<Rightarrow> None)
         (\<lambda>identity. Option.bind (sl_controller slots) (\<lambda>controller.
           if sl_imu_duration slots \<noteq> None
              \<and> (op \<noteq> OpReconnect \<or> controller \<noteq> SelectPro \<or> reporting \<noteq> SelectPeriodic)
           then None
           else Option.bind (sl_profile slots) (\<lambda>profile. Option.bind (sl_trace slots) (\<lambda>trace.
             Some \<lparr>cr_operation = op, cr_controller = controller, cr_reporting = reporting, cr_identity = identity,
                cr_profile = profile, cr_trace = trace, cr_button = sl_button slots,
                cr_imu_duration = sl_imu_duration slots\<rparr>)))))"

definition parse_connection :: "probe_operation \<Rightarrow> string list \<Rightarrow> connection_request option" where
  "parse_connection op arguments =
     (if odd (length arguments) then None
      else Option.bind (read_options (chunk_pairs arguments) no_slots) (build_request op))"

definition probe_parse :: "string list \<Rightarrow> probe_command option" where
  "probe_parse arguments =
     (case (case arguments of [] \<Rightarrow> None | first # _ \<Rightarrow> parse_connection_operation first) of
        Some op \<Rightarrow> map_option ProbeConnection (parse_connection op (tl arguments))
      | None \<Rightarrow>
          (case arguments of
             [command] \<Rightarrow>
               if to_str command \<in> {Some ''help'', Some ''--help'', Some ''-h''} then Some ProbeHelp
               else if command = ''adapters'' then Some ProbeAdapters
               else None
           | [command, option, v] \<Rightarrow>
               if command = ''open'' \<and> option = ''--adapter'' then map_option ProbeOpen (to_str v)
               else if command = ''profile'' \<and> option = ''inspect'' then Some (ProbeInspect v)
               else if command = ''profile'' \<and> option = ''verify'' then Some (ProbeVerify v)
               else None
           | _ \<Rightarrow> None))"

section \<open>What is accepted\<close>

text \<open>The reference: options by name, in no order.\<close>

definition option_ok :: "string \<times> string \<Rightarrow> bool" where
  "option_ok opt \<longleftrightarrow>
     (case opt of (name, v) \<Rightarrow>
        name = ''--controller'' \<and> Option.bind (to_str v) parse_controller_selection \<noteq> None
        \<or> name = ''--profile'' \<or> name = ''--trace''
        \<or> name = ''--reporting'' \<and> Option.bind (to_str v) parse_reporting_selection \<noteq> None
        \<or> name = ''--local-address'' \<and> Option.bind (to_str v) parse_local_address \<noteq> None
        \<or> name = ''--button'' \<and> Option.bind (to_str v) parse_button_kind \<noteq> None
        \<or> name = ''--imu-seconds'' \<and> Option.bind (to_str v) parse_imu_seconds \<noteq> None)"

definition option_value :: "(string \<Rightarrow> 'a option) \<Rightarrow> string \<Rightarrow> (string \<times> string) list \<Rightarrow> 'a option" where
  "option_value parse name opts = Option.bind (map_of opts name) (\<lambda>v. Option.bind (to_str v) parse)"

definition slots_of :: "(string \<times> string) list \<Rightarrow> connection_slots" where
  "slots_of opts = \<lparr>
     sl_controller = option_value parse_controller_selection ''--controller'' opts,
     sl_profile = map_of opts ''--profile'',
     sl_trace = map_of opts ''--trace'',
     sl_reporting = option_value parse_reporting_selection ''--reporting'' opts,
     sl_identity = option_value parse_local_address ''--local-address'' opts,
     sl_button = option_value parse_button_kind ''--button'' opts,
     sl_imu_duration = option_value parse_imu_seconds ''--imu-seconds'' opts\<rparr>"

lemma utf8_names [simp]:
  "to_str name = Some ''--controller'' \<longleftrightarrow> name = ''--controller''"
  "to_str name = Some ''--reporting'' \<longleftrightarrow> name = ''--reporting''"
  "to_str name = Some ''--profile'' \<longleftrightarrow> name = ''--profile''"
  "to_str name = Some ''--trace'' \<longleftrightarrow> name = ''--trace''"
  "to_str name = Some ''--local-address'' \<longleftrightarrow> name = ''--local-address''"
  "to_str name = Some ''--button'' \<longleftrightarrow> name = ''--button''"
  "to_str name = Some ''--imu-seconds'' \<longleftrightarrow> name = ''--imu-seconds''"
  "to_str name = Some ''pair'' \<longleftrightarrow> name = ''pair''"
  "to_str name = Some ''reconnect'' \<longleftrightarrow> name = ''reconnect''"
  by (auto simp: to_str_Some utf8_valid_ascii)

text \<open>A slot is filled exactly when its option was among the ones read.\<close>

lemma option_value_None:
  assumes "list_all option_ok opts" "\<And>v. option_ok (name, v) \<Longrightarrow> Option.bind (to_str v) parse \<noteq> None"
  shows "option_value parse name opts = None \<longleftrightarrow> name \<notin> fst ` set opts"
proof (cases "map_of opts name")
  case (Some v)
  then have "(name, v) \<in> set opts"
    by (rule map_of_SomeD)
  moreover from this have "option_ok (name, v)"
    using assms(1) by (auto simp: list_all_iff)
  ultimately show ?thesis
    using Some assms(2) by (force simp: option_value_def)
next
  case None
  then show ?thesis
    by (simp add: option_value_def) (simp add: map_of_eq_None_iff)
qed

lemma slots_empty:
  assumes "list_all option_ok opts"
  shows "sl_controller (slots_of opts) = None \<longleftrightarrow> ''--controller'' \<notin> fst ` set opts"
    "sl_profile (slots_of opts) = None \<longleftrightarrow> ''--profile'' \<notin> fst ` set opts"
    "sl_trace (slots_of opts) = None \<longleftrightarrow> ''--trace'' \<notin> fst ` set opts"
    "sl_reporting (slots_of opts) = None \<longleftrightarrow> ''--reporting'' \<notin> fst ` set opts"
    "sl_identity (slots_of opts) = None \<longleftrightarrow> ''--local-address'' \<notin> fst ` set opts"
    "sl_button (slots_of opts) = None \<longleftrightarrow> ''--button'' \<notin> fst ` set opts"
    "sl_imu_duration (slots_of opts) = None \<longleftrightarrow> ''--imu-seconds'' \<notin> fst ` set opts"
  unfolding slots_of_def
  by (simp_all add: map_of_eq_None_iff)
    (rule option_value_None[OF assms], simp add: option_ok_def)+

text \<open>One more option of a new name changes that name's value only.\<close>

lemma map_of_one_more:
  "name \<noteq> k \<Longrightarrow> map_of (opts @ [(k, v)]) name = map_of opts name"
  "k \<notin> fst ` set opts \<Longrightarrow> map_of (opts @ [(k, v)]) k = Some v"
  by (simp_all add: map_add_def split: option.split) (metis map_of_eq_None_iff option.distinct(1))

lemma option_value_one_more:
  "name \<noteq> k \<Longrightarrow> option_value parse name (opts @ [(k, v)]) = option_value parse name opts"
  "k \<notin> fst ` set opts \<Longrightarrow> option_value parse k (opts @ [(k, v)]) = Option.bind (to_str v) parse"
  by (simp_all add: option_value_def map_of_one_more del: map_of_append)

lemma fill_slot:
  "map_option f (set_once slot x) = (if slot = None then Some (f (Some x)) else None)"
  "Option.bind w (\<lambda>x. if c then Some (g x) else None) = (if w \<noteq> None \<and> c then Some (g (the w)) else None)"
  by (simp_all add: set_once_def) (cases w; simp)

lemma eight_cases: "k = a \<or> k = b \<or> k = c \<or> k = d \<or> k = e \<or> k = f \<or> k = g \<or> k \<notin> {a, b, c, d, e, f, g}"
  by blast

lemma read_option_slots:
  assumes "list_all option_ok seen"
  shows "read_option (k, v) (slots_of seen) =
    (if option_ok (k, v) \<and> k \<notin> fst ` set seen then Some (slots_of (seen @ [(k, v)])) else None)"
proof -
  note empty = slots_empty[OF assms]
  from eight_cases[of k "''--controller''" "''--profile''" "''--trace''" "''--reporting''" "''--local-address''"
      "''--button''" "''--imu-seconds''"]
  show ?thesis
  proof (elim disjE)
    assume k: "k = ''--controller''"
    show ?thesis
      unfolding k by (simp add: read_option_def fill_slot empty option_ok_def del: map_of_append)
        (simp add: slots_of_def map_of_one_more option_value_one_more del: map_of_append)
  next
    assume k: "k = ''--profile''"
    show ?thesis
      unfolding k by (simp add: read_option_def fill_slot empty option_ok_def del: map_of_append)
        (simp add: slots_of_def map_of_one_more option_value_one_more del: map_of_append)
  next
    assume k: "k = ''--trace''"
    show ?thesis
      unfolding k by (simp add: read_option_def fill_slot empty option_ok_def del: map_of_append)
        (simp add: slots_of_def map_of_one_more option_value_one_more del: map_of_append)
  next
    assume k: "k = ''--reporting''"
    show ?thesis
      unfolding k by (simp add: read_option_def fill_slot empty option_ok_def del: map_of_append)
        (simp add: slots_of_def map_of_one_more option_value_one_more del: map_of_append)
  next
    assume k: "k = ''--local-address''"
    show ?thesis
      unfolding k by (simp add: read_option_def fill_slot empty option_ok_def del: map_of_append)
        (simp add: slots_of_def map_of_one_more option_value_one_more del: map_of_append)
  next
    assume k: "k = ''--button''"
    show ?thesis
      unfolding k by (simp add: read_option_def fill_slot empty option_ok_def del: map_of_append)
        (simp add: slots_of_def map_of_one_more option_value_one_more del: map_of_append)
  next
    assume k: "k = ''--imu-seconds''"
    show ?thesis
      unfolding k by (simp add: read_option_def fill_slot empty option_ok_def del: map_of_append)
        (simp add: slots_of_def map_of_one_more option_value_one_more del: map_of_append)
  next
    assume "k \<notin> {''--controller'', ''--profile'', ''--trace'', ''--reporting'', ''--local-address'', ''--button'',
      ''--imu-seconds''}"
    then show ?thesis
      by (simp add: read_option_def option_ok_def)
  qed
qed

lemma read_options_slots:
  "list_all option_ok seen \<Longrightarrow> distinct (map fst seen) \<Longrightarrow>
     read_options opts (slots_of seen) =
       (if list_all option_ok opts \<and> distinct (map fst (seen @ opts)) then Some (slots_of (seen @ opts)) else None)"
proof (induction opts arbitrary: seen)
  case (Cons opt opts)
  obtain k v where opt: "opt = (k, v)"
    by (cases opt)
  show ?case
  proof (cases "option_ok (k, v) \<and> k \<notin> fst ` set seen")
    case True
    then have "list_all option_ok (seen @ [(k, v)])" "distinct (map fst (seen @ [(k, v)]))"
      using Cons.prems by auto
    from Cons.IH[OF this] show ?thesis
      using True by (simp add: opt read_option_slots[OF Cons.prems(1)])
  next
    case False
    then have "\<not> (list_all option_ok (opt # opts) \<and> distinct (map fst (seen @ opt # opts)))"
      by (auto simp: opt)
    moreover have "read_options (opt # opts) (slots_of seen) = None"
      using False by (auto simp: opt read_option_slots[OF Cons.prems(1)])
    ultimately show ?thesis
      by simp
  qed
qed simp

lemma no_slots_eq: "no_slots = slots_of []"
  by (simp add: no_slots_def slots_of_def option_value_def)

text \<open>What an operation takes, and the request that a set of options stands for.\<close>

definition admissible :: "probe_operation \<Rightarrow> (string \<times> string) list \<Rightarrow> bool" where
  "admissible op opts \<longleftrightarrow>
     {''--controller'', ''--profile'', ''--trace''} \<subseteq> fst ` set opts
     \<and> (case op of
          OpPair \<Rightarrow> ''--reporting'' \<notin> fst ` set opts \<and> ''--imu-seconds'' \<notin> fst ` set opts
        | OpReconnect \<Rightarrow>
            ''--local-address'' \<notin> fst ` set opts
            \<and> (''--imu-seconds'' \<in> fst ` set opts \<longrightarrow>
                 sl_controller (slots_of opts) = Some SelectPro \<and> sl_reporting (slots_of opts) \<noteq> Some SelectDirect))"

definition request_of :: "probe_operation \<Rightarrow> (string \<times> string) list \<Rightarrow> connection_request" where
  "request_of op opts =
     (let slots = slots_of opts in
      \<lparr>cr_operation = op, cr_controller = the (sl_controller slots),
       cr_reporting = (case sl_reporting slots of None \<Rightarrow> SelectPeriodic | Some r \<Rightarrow> r),
       cr_identity = (case sl_identity slots of None \<Rightarrow> AdapterDefault | Some i \<Rightarrow> i),
       cr_profile = the (map_of opts ''--profile''), cr_trace = the (map_of opts ''--trace''),
       cr_button = sl_button slots, cr_imu_duration = sl_imu_duration slots\<rparr>)"

lemma build_request_slots:
  assumes "list_all option_ok opts"
  shows "build_request op (slots_of opts) = (if admissible op opts then Some (request_of op opts) else None)"
proof -
  define c r i p t b d where slots: "c = sl_controller (slots_of opts)" "r = sl_reporting (slots_of opts)"
    "i = sl_identity (slots_of opts)" "p = sl_profile (slots_of opts)" "t = sl_trace (slots_of opts)"
    "b = sl_button (slots_of opts)" "d = sl_imu_duration (slots_of opts)"
  have paths: "map_of opts ''--profile'' = p" "map_of opts ''--trace'' = t"
    by (simp_all add: slots slots_of_def)
  have admissible: "admissible op opts \<longleftrightarrow> c \<noteq> None \<and> p \<noteq> None \<and> t \<noteq> None
      \<and> (case op of OpPair \<Rightarrow> r = None \<and> d = None
         | OpReconnect \<Rightarrow> i = None \<and> (d \<noteq> None \<longrightarrow> c = Some SelectPro \<and> r \<noteq> Some SelectDirect))"
    using slots_empty[OF assms] by (simp add: admissible_def slots split: probe_operation.split)
  have request: "request_of op opts = \<lparr>cr_operation = op, cr_controller = the c,
       cr_reporting = (case r of None \<Rightarrow> SelectPeriodic | Some r \<Rightarrow> r),
       cr_identity = (case i of None \<Rightarrow> AdapterDefault | Some i \<Rightarrow> i),
       cr_profile = the p, cr_trace = the t, cr_button = b, cr_imu_duration = d\<rparr>"
    by (simp add: request_of_def slots paths Let_def)
  have "r = None \<or> r = Some SelectPeriodic \<or> r = Some SelectDirect"
    by (metis option.exhaust reporting_selection.exhaust)
  moreover have "build_request op (slots_of opts) = (if admissible op opts then Some (request_of op opts) else None)"
    if r: "r = None"
    unfolding build_request_def admissible request slots[symmetric] r
    by (cases op; cases c; cases i; cases d) (simp_all split: Option.bind_splits)
  moreover have "build_request op (slots_of opts) = (if admissible op opts then Some (request_of op opts) else None)"
    if r: "r = Some SelectPeriodic"
    unfolding build_request_def admissible request slots[symmetric] r
    by (cases op; cases c; cases i; cases d) (simp_all split: Option.bind_splits)
  moreover have "build_request op (slots_of opts) = (if admissible op opts then Some (request_of op opts) else None)"
    if r: "r = Some SelectDirect"
    unfolding build_request_def admissible request slots[symmetric] r
    by (cases op; cases c; cases i; cases d) (simp_all split: Option.bind_splits)
  ultimately show ?thesis
    by blast
qed

lemma parse_connection_exact:
  "parse_connection op args = Some req \<longleftrightarrow>
     (\<exists>opts. args = flatten_pairs opts \<and> distinct (map fst opts) \<and> list_all option_ok opts \<and> admissible op opts
        \<and> req = request_of op opts)"
  (is "_ \<longleftrightarrow> (\<exists>opts. ?accepts opts)")
proof (cases "even (length args)")
  case True
  then obtain opts where args: "args = flatten_pairs opts"
    using even_flatten by blast
  then have "opts' = opts" if "args = flatten_pairs opts'" for opts'
    using that chunk_flatten by metis
  then have "(\<exists>opts. ?accepts opts) \<longleftrightarrow> ?accepts opts"
    using args by blast
  moreover have "parse_connection op args = Some req \<longleftrightarrow> ?accepts opts"
    using read_options_slots[of "[]" opts] build_request_slots[of opts op]
    by (auto simp: parse_connection_def args no_slots_eq)
  ultimately show ?thesis
    by simp
qed (auto simp: parse_connection_def)

text \<open>The order of the options does not matter.\<close>

lemma permuted_options:
  assumes "mset opts = mset opts'"
  shows "parse_connection op (flatten_pairs opts) = parse_connection op (flatten_pairs opts')"
proof -
  have same: "set opts = set opts'" "list_all option_ok opts = list_all option_ok opts'"
    "distinct (map fst opts) = distinct (map fst opts')"
    if "mset opts = mset opts'" for opts opts' :: "(string \<times> string) list"
    using that mset_eq_setD[OF that] mset_eq_imp_distinct_iff[of "map fst opts" "map fst opts'"]
    by (auto simp: list_all_iff)
  have "parse_connection op (flatten_pairs opts') = Some req"
    if "parse_connection op (flatten_pairs opts) = Some req" "mset opts = mset opts'" for req opts opts'
  proof -
    obtain ps where "flatten_pairs opts = flatten_pairs ps" "distinct (map fst ps)" "list_all option_ok ps"
      "admissible op ps" "req = request_of op ps"
      using \<open>parse_connection op (flatten_pairs opts) = Some req\<close> unfolding parse_connection_exact by blast
    moreover from this have "ps = opts"
      by (metis chunk_flatten)
    ultimately have opts: "distinct (map fst opts)" "list_all option_ok opts" "admissible op opts" "req = request_of op opts"
      by simp_all
    then have "map_of opts = map_of opts'"
      using same[OF \<open>mset opts = mset opts'\<close>] map_of_inject_set by blast
    then have "admissible op opts' = admissible op opts" "request_of op opts' = request_of op opts"
      using same(1)[OF \<open>mset opts = mset opts'\<close>]
      by (cases op; simp add: admissible_def request_of_def slots_of_def option_value_def)+
    then show ?thesis
      using opts same[OF \<open>mset opts = mset opts'\<close>] unfolding parse_connection_exact by auto
  qed
  then show ?thesis
    using assms by (metis not_None_eq)
qed

definition operation_name :: "probe_operation \<Rightarrow> string" where
  "operation_name op = (case op of OpPair \<Rightarrow> ''pair'' | OpReconnect \<Rightarrow> ''reconnect'')"

lemma parse_operation_iff: "parse_connection_operation arg = Some op \<longleftrightarrow> arg = operation_name op"
  by (cases op) (auto simp: parse_connection_operation_def operation_name_def)

lemma other_commands:
  "(if a then Some ProbeHelp else if b then Some ProbeAdapters else None) \<noteq> Some (ProbeConnection req)"
  "(if a then map_option ProbeOpen o' else if b then Some (ProbeInspect v) else if c then Some (ProbeVerify v) else None)
     \<noteq> Some (ProbeConnection req)"
  by auto

lemma other_parse:
  "parse_connection_operation first = None \<Longrightarrow> probe_parse (first # rest) \<noteq> Some (ProbeConnection req)"
  unfolding probe_parse_def by (simp only: list.case option.case split: list.split) (simp only: other_commands, simp)

text \<open>
  C33: The probe accepts exactly the connection requests that make sense.  A command line is read as a request iff it
  is the operation's name followed by pairs of a known option and a value that the option takes, no option twice,
  with a controller, a profile and a trace; pairing takes no reporting mode and no IMU run; reconnecting takes no
  address, and an IMU run only for the periodic Pro controller.  The request is the one the options name, whatever
  their order: two command lines whose options are permuted give the same result.
\<close>

theorem probe_accepts_exactly:
  "(probe_parse args = Some (ProbeConnection req) \<longleftrightarrow>
      (\<exists>op opts. args = operation_name op # flatten_pairs opts \<and> distinct (map fst opts)
         \<and> list_all option_ok opts \<and> admissible op opts \<and> req = request_of op opts))
   \<and> (mset opts = mset opts' \<longrightarrow>
        probe_parse (command # flatten_pairs opts) = probe_parse (command # flatten_pairs opts'))"
proof
  show "probe_parse args = Some (ProbeConnection req) \<longleftrightarrow>
      (\<exists>op opts. args = operation_name op # flatten_pairs opts \<and> distinct (map fst opts)
         \<and> list_all option_ok opts \<and> admissible op opts \<and> req = request_of op opts)"
  proof (cases args)
    case (Cons first rest)
    show ?thesis
    proof (cases "parse_connection_operation first")
      case None
      moreover from this have "first \<noteq> operation_name op" for op
        using parse_operation_iff by (metis option.distinct(1))
      ultimately show ?thesis
        using other_parse[of first rest req] by (simp add: Cons)
    next
      case (Some op)
      then have "first = operation_name op' \<longleftrightarrow> op' = op" for op'
        using parse_operation_iff[of first op'] by auto
      then show ?thesis
        using Some by (simp add: probe_parse_def Cons parse_connection_exact)
    qed
  qed (simp add: probe_parse_def)
  show "mset opts = mset opts' \<longrightarrow> probe_parse (command # flatten_pairs opts) = probe_parse (command # flatten_pairs opts')"
  proof
    assume same: "mset opts = mset opts'"
    show "probe_parse (command # flatten_pairs opts) = probe_parse (command # flatten_pairs opts')"
    proof (cases "parse_connection_operation command")
      case None
      consider "length opts < 2" | "2 \<le> length opts"
        by linarith
      then show ?thesis
      proof cases
        case 1
        then have "opts = opts'"
          using same size_mset[of opts] size_mset[of opts'] by (cases opts; cases opts') auto
        then show ?thesis
          by simp
      next
        case 2
        then have "2 \<le> length opts'"
          using same by (metis size_mset)
        with 2 show ?thesis
          using None by (cases opts rule: chunk_pairs.cases; cases opts' rule: chunk_pairs.cases)
            (auto simp: probe_parse_def)
      qed
    qed (simp add: probe_parse_def permuted_options[OF same])
  qed
qed

theorem probe_accepts_exactly_witness:
  "probe_parse [''pair'', ''--trace'', ''t'', ''--controller'', ''joycon-l'', ''--profile'', ''p'']
     = probe_parse [''pair'', ''--controller'', ''joycon-l'', ''--profile'', ''p'', ''--trace'', ''t'']
   \<and> probe_parse [''pair'', ''--controller'', ''joycon-l'', ''--profile'', ''p'', ''--trace'', ''t''] \<noteq> None"
proof -
  let ?opts = "[(''--controller'', ''joycon-l''), (''--profile'', ''p''), (''--trace'', ''t'')]"
  have "mset [(''--trace'', ''t''), (''--controller'', ''joycon-l''), (''--profile'', ''p'')] = mset ?opts"
    by simp
  then have "probe_parse (''pair'' # flatten_pairs [(''--trace'', ''t''), (''--controller'', ''joycon-l''), (''--profile'', ''p'')])
      = probe_parse (''pair'' # flatten_pairs ?opts)"
    using probe_accepts_exactly[of "[]" undefined _ ?opts "''pair''"] by blast
  moreover have "list_all option_ok ?opts" "admissible OpPair ?opts"
    by code_simp+
  then have "probe_parse (operation_name OpPair # flatten_pairs ?opts) = Some (ProbeConnection (request_of OpPair ?opts))"
    by (intro iffD2[OF conjunct1[OF probe_accepts_exactly[where opts = "[]" and opts' = "[]" and command = "[]"]]]
        exI[of _ OpPair] exI[of _ ?opts] conjI) simp_all
  ultimately show ?thesis
    by (simp add: operation_name_def)
qed

end
