(* ===== verification/ProbeTrace.thy ===== *)
theory ProbeTrace
  imports DiagnosticsRecord Float64 Clock
begin

text \<open>
  The trace of a probe run, \<open>tools/swbt-probe/src/trace.rs\<close>: a \<open>tracing\<close> subscriber that checks every
  diagnostics record against the schema and appends it to a file, one line each.

  Reading and writing JSON text is \<open>serde_json\<close>'s work (\<open>te_parse\<close>, \<open>te_render\<close>); the clock, the lock of the
  output (poisoned by a panic elsewhere) and the outcome of the \<open>n\<close>-th write and of the last flush are the
  environment's.
\<close>

section \<open>The environment and the state\<close>

record trace_env =
  te_parse :: "string \<Rightarrow> json_value option"
  te_render :: "json_object \<Rightarrow> string option"
  te_elapsed :: "nat \<Rightarrow> duration"
  te_lock :: "nat \<Rightarrow> bool"
  te_write :: "nat \<Rightarrow> bool"

record trace_state =
  tr_lines :: "string list"
  tr_failed :: bool
  tr_moment :: nat

datatype trace_error = TraceError

text \<open>
  \<open>TraceSession::create\<close> and \<open>install\<close>: the file must be new, and no other subscriber may be the default.
\<close>

definition trace_create :: "bool \<Rightarrow> (trace_state, trace_error) result" where
  "trace_create created =
     (if created then Inr \<lparr>tr_lines = [], tr_failed = False, tr_moment = 0\<rparr> else Inl TraceError)"

definition trace_install :: "bool \<Rightarrow> bool \<Rightarrow> (trace_state, trace_error) result" where
  "trace_install created default_free =
     bind_result (trace_create created) (\<lambda>session. if default_free then Inr session else Inl TraceError)"

definition trace_fail :: "trace_state \<Rightarrow> trace_state" where
  "trace_fail tr = tr\<lparr>tr_failed := True\<rparr>"

definition saturated_nanos :: "duration \<Rightarrow> nat" where
  "saturated_nanos d = min d (2 ^ 64 - 1)"

text \<open>\<open>TraceState::write\<close>; a line whose write fails may be on the disk in part and is not counted.\<close>

definition trace_write :: "trace_env \<Rightarrow> json_object \<Rightarrow> trace_state \<Rightarrow> trace_state" where
  "trace_write E object tr =
     (let n = tr_moment tr; tr = tr\<lparr>tr_moment := n + 1\<rparr>;
          object = btree_insert ''trace_elapsed_ns'' (JsonNumber (saturated_nanos (te_elapsed E n))) object
      in case te_render E object of
           None \<Rightarrow> trace_fail tr
         | Some bytes \<Rightarrow>
             if \<not> te_lock E n then trace_fail tr
             else if te_write E n then tr\<lparr>tr_lines := tr_lines tr @ [bytes @ [CHR 0x0A]]\<rparr>
             else trace_fail tr)"

definition trace_finish :: "trace_env \<Rightarrow> trace_state \<Rightarrow> (unit, trace_error) result" where
  "trace_finish E tr =
     (if \<not> te_lock E (tr_moment tr) then Inl TraceError
      else if te_write E (tr_moment tr) \<and> \<not> tr_failed tr then Inr () else Inl TraceError)"

section \<open>The schema\<close>

definition exact_fields :: "json_object \<Rightarrow> string list \<Rightarrow> bool" where
  "exact_fields object expected \<longleftrightarrow>
     length object = length expected \<and> (\<forall>field \<in> set expected. map_of object field \<noteq> None)"

definition runtime_fields :: "string list \<Rightarrow> string list" where
  "runtime_fields extra =
     [''schema'', ''schema_version'', ''event'', ''controller_kind'', ''reporting_kind'', ''session_id''] @ extra"

definition environment_fields :: "string list" where
  "environment_fields =
     [''schema'', ''schema_version'', ''event'', ''controller_kind'', ''reporting_kind'', ''package_version'',
      ''target_os'', ''target_arch'']"

text \<open>\<open>normalize_and_validate\<close>, with the record it leaves; an absent optional field becomes \<open>null\<close>.\<close>

definition normalize_and_validate :: "json_object \<Rightarrow> json_object \<times> bool" where
  "normalize_and_validate object =
     (if Option.bind (map_of object ''schema'') as_str \<noteq> Some diagnostics_schema
         \<or> Option.bind (map_of object ''schema_version'') as_u64 \<noteq> Some diagnostics_schema_version
      then (object, False)
      else case Option.bind (map_of object ''event'') as_str of
        None \<Rightarrow> (object, False)
      | Some event \<Rightarrow>
          if event = ''environment'' then (object, exact_fields object environment_fields)
          else if event = ''session_started'' then (object, exact_fields object (runtime_fields []))
          else if event = ''lifecycle_changed'' then (object, exact_fields object (runtime_fields [''lifecycle'']))
          else if event = ''subcommand_observed'' then
            (object, exact_fields object (runtime_fields [''subcommand_id'']))
          else if event = ''report_tx_accepted'' then
            (let object = or_insert ''report_mode'' JsonNull object in
             (object, exact_fields object (runtime_fields [''report_mode'', ''imu_mode'', ''input_reports_accepted''])))
          else if event = ''reply_tx_accepted'' then
            (let object = or_insert ''report_mode'' JsonNull object in
             (object, exact_fields object (runtime_fields [''report_mode'', ''imu_mode'', ''replies_accepted''])))
          else if event = ''session_ended'' then
            (let object = or_insert ''disconnect_reason'' JsonNull object in
             (object, exact_fields object (runtime_fields [''lifecycle'', ''disconnect_reason''])))
          else if event = ''worker_failed'' then
            (object, exact_fields object (runtime_fields [''failure_category'']))
          else if event = ''unsupported_button'' then
            (object, exact_fields object (runtime_fields [''button_kind'']))
          else (object, False))"

section \<open>Events\<close>

text \<open>What an event records in the visitor, field by field.\<close>

datatype field_value =
    FieldF64 f64
  | FieldI64 int
  | FieldU64 u64
  | FieldI128 int
  | FieldU128 nat
  | FieldBool bool
  | FieldStr string
  | FieldDebug

record json_visitor =
  jv_fields :: json_object
  jv_invalid :: bool

definition visitor_insert :: "string \<Rightarrow> json_value \<Rightarrow> json_visitor \<Rightarrow> json_visitor" where
  "visitor_insert name v visitor =
     visitor\<lparr>jv_fields := btree_insert name v (jv_fields visitor),
             jv_invalid := jv_invalid visitor \<or> map_of (jv_fields visitor) name \<noteq> None\<rparr>"

definition integer_value :: "int \<Rightarrow> json_value" where
  "integer_value i = (if 0 \<le> i then JsonNumber (nat i) else JsonNegative i)"

fun visitor_record :: "string \<Rightarrow> field_value \<Rightarrow> json_visitor \<Rightarrow> json_visitor" where
  "visitor_record name (FieldF64 x) visitor =
     (if f64_exponent x = 2047 then visitor\<lparr>jv_invalid := True\<rparr> else visitor_insert name (JsonFloat x) visitor)"
| "visitor_record name (FieldI64 i) visitor = visitor_insert name (integer_value i) visitor"
| "visitor_record name (FieldU64 w) visitor = visitor_insert name (json_number w) visitor"
| "visitor_record name (FieldI128 i) visitor =
     (if - (2 ^ 63) \<le> i \<and> i < 2 ^ 63 then visitor_insert name (integer_value i) visitor
      else visitor\<lparr>jv_invalid := True\<rparr>)"
| "visitor_record name (FieldU128 n) visitor =
     (if n < 2 ^ 64 then visitor_insert name (JsonNumber n) visitor else visitor\<lparr>jv_invalid := True\<rparr>)"
| "visitor_record name (FieldBool b) visitor = visitor_insert name (JsonBool b) visitor"
| "visitor_record name (FieldStr s) visitor = visitor_insert name (JsonString s) visitor"
| "visitor_record name FieldDebug visitor = visitor\<lparr>jv_invalid := True\<rparr>"

text \<open>\<open>Subscriber::enabled\<close> and \<open>Subscriber::event\<close>.\<close>

definition trace_target :: string where "trace_target = ''swbt::diagnostics''"

definition trace_enabled :: "bool \<Rightarrow> string \<Rightarrow> bool" where
  "trace_enabled is_event target \<longleftrightarrow> is_event \<and> target = trace_target"

definition trace_event :: "trace_env \<Rightarrow> (string \<times> field_value) list \<Rightarrow> trace_state \<Rightarrow> trace_state" where
  "trace_event E values tr =
     (let visitor = fold (\<lambda>(name, v). visitor_record name v) values \<lparr>jv_fields = [], jv_invalid = False\<rparr>;
          rest = remove_field ''record'' (jv_fields visitor)
      in case map_of (jv_fields visitor) ''record'' of
           Some (JsonString encoded) \<Rightarrow>
             (case te_parse E encoded of
                Some (JsonObject object) \<Rightarrow>
                  if jv_invalid visitor \<or> rest \<noteq> [] then trace_fail tr
                  else (case normalize_and_validate object of
                          (object, valid) \<Rightarrow> if valid then trace_write E object tr else trace_fail tr)
              | _ \<Rightarrow> trace_fail tr)
         | _ \<Rightarrow> trace_fail tr)"

text \<open>
  What reaches the subscriber: \<open>DiagnosticEvent::emit\<close> of the library and \<open>emit_environment\<close> of the probe, both
  with one field that holds the record as text.
\<close>

definition emitted_fields :: "trace_env \<Rightarrow> json_object \<Rightarrow> (string \<times> field_value) list" where
  "emitted_fields E object = [(''record'', FieldStr (the (te_render E object)))]"

definition environment_record ::
  "controller_kind \<Rightarrow> reporting_kind \<Rightarrow> string \<Rightarrow> string \<Rightarrow> string \<Rightarrow> json_object" where
  "environment_record c r version os arch =
     json_fields
       [(''schema'', JsonString diagnostics_schema),
        (''schema_version'', JsonNumber diagnostics_schema_version),
        (''event'', JsonString ''environment''),
        (''controller_kind'', JsonString (controller_kind_name c)),
        (''reporting_kind'', JsonString (reporting_name r)),
        (''package_version'', JsonString version),
        (''target_os'', JsonString os),
        (''target_arch'', JsonString arch)]"

section \<open>The library's records are traced\<close>

text \<open>The codec reads back a flat object that it wrote.\<close>

fun scalar :: "json_value \<Rightarrow> bool" where
  "scalar (JsonArray vs) = False"
| "scalar (JsonObject object) = False"
| "scalar (JsonNegative i) = (i < 0)"
| "scalar v = True"

definition flat_object :: "json_object \<Rightarrow> bool" where
  "flat_object object \<longleftrightarrow> btree_ok object \<and> (\<forall>(k, v) \<in> set object. scalar v)"

definition reads_back :: "trace_env \<Rightarrow> bool" where
  "reads_back E \<longleftrightarrow>
     (\<forall>object. flat_object object \<longrightarrow> (\<exists>text. te_render E object = Some text \<and> te_parse E text = Some (JsonObject object)))"

definition trace_line :: "trace_env \<Rightarrow> nat \<Rightarrow> json_object \<Rightarrow> string" where
  "trace_line E n object =
     the (te_render E (btree_insert ''trace_elapsed_ns'' (JsonNumber (saturated_nanos (te_elapsed E n))) object)) @ [CHR 0x0A]"

lemma exact_fields_iff:
  assumes "btree_ok object" "distinct expected"
  shows "exact_fields object expected \<longleftrightarrow> dom (map_of object) = set expected"
proof -
  have keys: "distinct (map fst object)"
    using assms(1) by (auto simp: btree_ok_def strict_sorted_iff)
  then have size: "length object = card (dom (map_of object))" "finite (dom (map_of object))"
    by (simp_all add: dom_map_of_conv_image_fst distinct_card flip: set_map)
  have "length expected = card (set expected)"
    using assms(2) by (simp add: distinct_card)
  moreover have "(\<forall>field \<in> set expected. map_of object field \<noteq> None) \<longleftrightarrow> set expected \<subseteq> dom (map_of object)"
    by auto
  ultimately show ?thesis
    unfolding exact_fields_def using size card_subset_eq[OF size(2), of "set expected"] by auto
qed

lemma dom_diagnostic_record:
  "btree_ok extra \<Longrightarrow> dom (map_of (diagnostic_record c r s event extra)) = set (runtime_fields []) \<union> dom (map_of extra)"
  by (auto simp: map_of_diagnostic_record runtime_fields_def dom_def split: option.splits if_splits)

lemma dom_json_fields: "dom (map_of (json_fields entries)) = fst ` set entries"
proof -
  have "map_of (json_fields entries) = map_of (rev entries)"
    by (rule ext) (rule map_of_json_fields)
  then show ?thesis
    by (simp add: dom_map_of_conv_image_fst)
qed

lemma distinct_runtime_fields:
  "distinct (runtime_fields extra) \<longleftrightarrow> distinct extra \<and> set extra \<inter> set (runtime_fields []) = {}"
  by (auto simp: runtime_fields_def)

lemma runtime_fields_sets:
  "set (runtime_fields extra) = set (runtime_fields []) \<union> set extra"
  "set (runtime_fields []) =
     {''schema'', ''schema_version'', ''event'', ''controller_kind'', ''reporting_kind'', ''session_id''}"
  by (auto simp: runtime_fields_def)

lemma library_records_exact:
  assumes "map fst entries = names" "distinct names" "set names \<inter> set (runtime_fields []) = {}"
  shows "exact_fields (diagnostic_record c r s event (json_fields entries)) (runtime_fields names)"
proof -
  have "dom (map_of (diagnostic_record c r s event (json_fields entries))) = set (runtime_fields names)"
    using assms(1) by (simp add: dom_diagnostic_record dom_json_fields runtime_fields_sets(1)[of names] flip: set_map)
  then show ?thesis
    using assms(2,3) by (simp add: exact_fields_iff distinct_runtime_fields)
qed

lemma session_record_exact: "exact_fields (diagnostic_record c r s event []) (runtime_fields [])"
  using library_records_exact[of "[]" "[]"] by (simp add: json_fields_def extend_object_def)

lemma library_records_valid:
  "normalize_and_validate (event_to_value c r e) = (event_to_value c r e, True)"
proof -
  have base: "Option.bind (map_of (event_to_value c r e) ''schema'') as_str = Some diagnostics_schema"
    "Option.bind (map_of (event_to_value c r e) ''schema_version'') as_u64 = Some diagnostics_schema_version"
    "Option.bind (map_of (event_to_value c r e) ''event'') as_str = Some (event_name e)"
    by (simp_all add: base_fields diagnostics_schema_def diagnostics_schema_version_def)
  show ?thesis
    unfolding normalize_and_validate_def base
    by (cases e)
      (simp_all add: or_insert_def map_of_diagnostic_record map_of_json_fields library_records_exact
        session_record_exact runtime_fields_sets(2) Let_def)
qed

lemma environment_record_valid:
  "normalize_and_validate (environment_record c r version os arch) = (environment_record c r version os arch, True)"
proof -
  let ?object = "environment_record c r version os arch"
  have "map_of ?object ''schema'' = Some (JsonString diagnostics_schema)"
    "map_of ?object ''schema_version'' = Some (JsonNumber diagnostics_schema_version)"
    "map_of ?object ''event'' = Some (JsonString ''environment'')"
    by (simp_all add: environment_record_def map_of_json_fields)
  moreover have "exact_fields ?object environment_fields"
    unfolding environment_record_def
    by (subst exact_fields_iff) (simp_all add: dom_json_fields environment_fields_def insert_commute)
  ultimately show ?thesis
    by (simp add: normalize_and_validate_def)
qed

lemma set_btree_insert_subset: "set (btree_insert k v m) \<subseteq> insert (k, v) (set m)"
  by (induction k v m rule: btree_insert.induct) auto

lemma flat_insert: "flat_object object \<Longrightarrow> scalar v \<Longrightarrow> flat_object (btree_insert k v object)"
  using set_btree_insert_subset[of k v object] by (fastforce simp: flat_object_def btree_ok_insert)

lemma flat_extend: "flat_object object \<Longrightarrow> \<forall>(k, v) \<in> set entries. scalar v \<Longrightarrow> flat_object (extend_object object entries)"
  unfolding extend_object_def by (induction entries arbitrary: object) (auto simp: flat_insert)

lemma flat_json_fields: "\<forall>(k, v) \<in> set entries. scalar v \<Longrightarrow> flat_object (json_fields entries)"
  unfolding json_fields_def by (rule flat_extend) (simp_all add: flat_object_def)

lemma scalar_numbers [simp]: "scalar (json_number w)" "scalar (json_optional o')"
  by (simp_all add: json_number_def json_optional_def split: option.split)

lemma flat_library_records: "flat_object (event_to_value c r e)"
proof -
  have "flat_object (diagnostic_record c r s event extra)" if "flat_object extra" for s event extra
    unfolding diagnostic_record_def
    by (intro flat_extend flat_json_fields) (use that in \<open>auto simp: flat_object_def\<close>)
  moreover have "flat_object []"
    by (simp add: flat_object_def)
  ultimately show ?thesis
    by (cases e) (simp_all add: flat_json_fields)
qed

section \<open>The whole trace\<close>

text \<open>The bare invariant of every event, whatever fields it has: lines are only ever added, one for each success.\<close>

lemma trace_write_lines:
  "tr_failed (trace_write E object tr) \<or>
     length (tr_lines (trace_write E object tr)) = length (tr_lines tr) + 1 \<and> tr_failed (trace_write E object tr) = tr_failed tr"
  by (simp add: trace_write_def trace_fail_def Let_def split: option.splits)

lemma trace_event_lines:
  "tr_failed (trace_event E values tr) \<or>
     length (tr_lines (trace_event E values tr)) = length (tr_lines tr) + 1 \<and> tr_failed (trace_event E values tr) = tr_failed tr"
  using trace_write_lines[of E]
  by (simp add: trace_event_def trace_fail_def Let_def split: option.splits json_value.splits prod.splits)

lemma trace_failed_sticky: "tr_failed tr \<Longrightarrow> tr_failed (trace_event E values tr)"
  by (simp add: trace_event_def trace_write_def trace_fail_def Let_def split: option.splits json_value.splits prod.splits)

lemma unfailed_trace_complete:
  "\<not> tr_failed (fold (trace_event E) events tr) \<Longrightarrow>
     length (tr_lines (fold (trace_event E) events tr)) = length (tr_lines tr) + length events"
proof (induction events arbitrary: tr)
  case (Cons e events)
  have "\<not> tr_failed (trace_event E e tr)"
  proof
    assume "tr_failed (trace_event E e tr)"
    then have "tr_failed (fold (trace_event E) events (trace_event E e tr))"
      using trace_failed_sticky by (induction events arbitrary: tr rule: rev_induct) auto
    with Cons.prems show False
      by simp
  qed
  then show ?case
    using Cons.IH[of "trace_event E e tr"] Cons.prems trace_event_lines[of E e tr] by auto
qed simp

text \<open>A valid record in the codec's hands is written, unless the lock or the write fails.\<close>

definition io_works :: "trace_env \<Rightarrow> nat \<Rightarrow> bool" where
  "io_works E n \<longleftrightarrow> te_lock E n \<and> te_write E n"

lemma trace_event_valid:
  assumes "reads_back E" "flat_object object" "normalize_and_validate object = (object, True)"
  shows "trace_event E (emitted_fields E object) tr =
    (if io_works E (tr_moment tr)
     then tr\<lparr>tr_lines := tr_lines tr @ [trace_line E (tr_moment tr) object], tr_moment := tr_moment tr + 1\<rparr>
     else tr\<lparr>tr_failed := True, tr_moment := tr_moment tr + 1\<rparr>)"
proof -
  obtain written where written: "te_render E object = Some written" "te_parse E written = Some (JsonObject object)"
    using assms(1,2) unfolding reads_back_def by blast
  obtain line where line: "te_render E (btree_insert ''trace_elapsed_ns''
      (JsonNumber (saturated_nanos (te_elapsed E (tr_moment tr)))) object) = Some line"
    using assms(1) flat_insert[OF assms(2)] unfolding reads_back_def by (metis scalar.simps(6))
  show ?thesis
    using written line assms(3)
    by (simp add: trace_event_def emitted_fields_def visitor_insert_def remove_field_def trace_write_def
        trace_fail_def trace_line_def io_works_def Let_def)
qed

lemma trace_records:
  assumes "reads_back E" "\<forall>object \<in> set objects. flat_object object \<and> normalize_and_validate object = (object, True)"
  shows "tr_moment (fold (trace_event E) (map (emitted_fields E) objects) tr) = tr_moment tr + length objects"
    and "tr_failed (fold (trace_event E) (map (emitted_fields E) objects) tr) \<longleftrightarrow>
      tr_failed tr \<or> (\<exists>k < length objects. \<not> io_works E (tr_moment tr + k))"
    and "\<forall>k < length objects. io_works E (tr_moment tr + k) \<Longrightarrow>
      tr_lines (fold (trace_event E) (map (emitted_fields E) objects) tr) =
        tr_lines tr @ map (\<lambda>k. trace_line E (tr_moment tr + k) (objects ! k)) [0..<length objects]"
  using assms(2)
proof (induction objects arbitrary: tr)
  case (Cons object objects)
  have step: "trace_event E (emitted_fields E object) tr =
      (if io_works E (tr_moment tr)
       then tr\<lparr>tr_lines := tr_lines tr @ [trace_line E (tr_moment tr) object], tr_moment := tr_moment tr + 1\<rparr>
       else tr\<lparr>tr_failed := True, tr_moment := tr_moment tr + 1\<rparr>)"
    if "\<forall>object \<in> set (object # objects). flat_object object \<and> normalize_and_validate object = (object, True)" for tr
    using that by (intro trace_event_valid[OF assms(1)]) simp_all
  have shift: "(\<exists>k < Suc n. P k) \<longleftrightarrow> P 0 \<or> (\<exists>k < n. P (Suc k))" for n and P :: "nat \<Rightarrow> bool"
    by (auto simp: less_Suc_eq_0_disj)
  have upt: "[0..<Suc n] = 0 # map Suc [0..<n]" for n
    by (simp add: upt_conv_Cons map_Suc_upt)
  {
    case 1
    then show ?case using Cons.IH(1) 1 by (simp add: step[OF 1])
  next
    case 2
    then show ?case using Cons.IH(2) 2 by (auto simp: shift step[OF 2])
  next
    case 3
    then have "io_works E (tr_moment tr)" "\<forall>k < length objects. io_works E (Suc (tr_moment tr) + k)"
      by force+
    then show ?case using Cons.IH(3) 3(2) by (simp add: upt o_def step[OF 3(2)] del: upt_Suc)
  }
qed simp_all


section \<open>A codec that reads back\<close>

fun sample_string :: "string \<Rightarrow> string" where
  "sample_string [] = ''.''"
| "sample_string (c # s) = CHR ''+'' # c # sample_string s"

fun read_string :: "string \<Rightarrow> (string \<times> string) option" where
  "read_string [] = None"
| "read_string [d] = (if d = CHR ''.'' then Some ([], []) else None)"
| "read_string (d # c # s) =
     (if d = CHR ''.'' then Some ([], c # s) else map_option (\<lambda>(t, rest). (c # t, rest)) (read_string s))"

lemma read_sample_string [simp]: "read_string (sample_string s @ rest) = Some (s, rest)"
  by (induction s) (cases rest; simp)+

definition sample_count :: "nat \<Rightarrow> string" where "sample_count n = sample_string (replicate n CHR ''1'')"

fun sample_scalar :: "json_value \<Rightarrow> string" where
  "sample_scalar (JsonBool b) = (if b then ''t'' else ''f'')"
| "sample_scalar (JsonNumber n) = CHR ''u'' # sample_count n"
| "sample_scalar (JsonNegative i) = CHR ''i'' # sample_count (nat (- i))"
| "sample_scalar (JsonFloat w) = CHR ''d'' # sample_count (unat w)"
| "sample_scalar (JsonString s) = CHR ''s'' # sample_string s"
| "sample_scalar v = ''n''"

definition read_scalar :: "string \<Rightarrow> (json_value \<times> string) option" where
  "read_scalar s =
     (case s of
        [] \<Rightarrow> None
      | d # s \<Rightarrow>
          if d = CHR ''t'' then Some (JsonBool True, s)
          else if d = CHR ''f'' then Some (JsonBool False, s)
          else if d = CHR ''n'' then Some (JsonNull, s)
          else map_option (\<lambda>(t, rest).
            (if d = CHR ''u'' then JsonNumber (length t)
             else if d = CHR ''i'' then JsonNegative (- int (length t))
             else if d = CHR ''d'' then JsonFloat (of_nat (length t))
             else JsonString t, rest)) (read_string s))"

lemma read_sample_scalar [simp]: "scalar v \<Longrightarrow> read_scalar (sample_scalar v @ rest) = Some (v, rest)"
  by (cases v) (simp_all add: read_scalar_def sample_count_def)

fun sample_object :: "json_object \<Rightarrow> string" where
  "sample_object [] = ''.''"
| "sample_object ((k, v) # object) = CHR ''+'' # sample_string k @ sample_scalar v @ sample_object object"

fun read_object :: "nat \<Rightarrow> string \<Rightarrow> json_object option" where
  "read_object 0 s = None"
| "read_object (Suc n) s =
     (case s of
        [] \<Rightarrow> None
      | d # s \<Rightarrow>
          if d = CHR ''.'' then Some []
          else Option.bind (read_string s) (\<lambda>(k, s).
            Option.bind (read_scalar s) (\<lambda>(v, s). map_option (\<lambda>object. (k, v) # object) (read_object n s))))"

lemma read_sample_object:
  "\<forall>(k, v) \<in> set object. scalar v \<Longrightarrow> length object < n \<Longrightarrow> read_object n (sample_object object) = Some object"
proof (induction object arbitrary: n)
  case (Cons entry object)
  obtain k v where entry: "entry = (k, v)"
    by (cases entry)
  obtain m where "n = Suc m" "length object < m"
    using Cons.prems(2) by (cases n) auto
  then show ?case
    using Cons by (simp add: entry)
next
  case Nil
  then show ?case
    by (cases n) simp_all
qed

lemma length_sample_object: "length object < length (sample_object object)"
  by (induction object) auto

definition sample_trace_env :: trace_env where
  "sample_trace_env = \<lparr>te_parse = \<lambda>s. map_option JsonObject (read_object (length s) s),
     te_render = \<lambda>object. Some (sample_object object), te_elapsed = \<lambda>n. 1000 * n,
     te_lock = \<lambda>n. True, te_write = \<lambda>n. n < 3\<rparr>"

lemma sample_reads_back: "reads_back sample_trace_env"
  using read_sample_object length_sample_object
  by (fastforce simp: reads_back_def sample_trace_env_def flat_object_def)

definition sample_records :: "diagnostic_event list \<Rightarrow> json_object list" where
  "sample_records events = environment_record Pro DirectKind ''1'' ''linux'' ''x86_64''
     # map (event_to_value Pro DirectKind) events"


end
