(* ===== verification/WorkerPanic.thy ===== *)
theory WorkerPanic
  imports TransportRelease ErrorMap WorkerProperties
begin

text \<open>
  The body of \<open>run_started_worker\<close> in \<open>src/runtime/worker_thread.rs\<close> with its three \<open>catch_unwind\<close> blocks.

  A panic may interrupt the loop anywhere, so what \<open>catch_unwind\<close> returns for it is an argument,
  together with the thread state at that moment.  A cleanup that panics leaves a worker whose lifecycle,
  reporting and transport are whatever it had reached: it has no status publisher and sends no report,
  so it has touched nothing else.  The teardown drops the waiter, the shutdown receiver, the clock and
  the worker; all that is left of it is whether one of their destructors panicked.
\<close>

section \<open>The end of the thread\<close>

datatype 'a caught = Returned 'a | Unwound

record ('r, 't) unwinding =
  uw_cleanup :: "(runtime_state \<times> 'r \<times> 't) option"
  uw_teardown :: bool

definition thread_status :: "('c, 'r, 't) thread_state \<Rightarrow> status_projection" where
  "thread_status th = cx_status (wk_cx (ss_worker (th_step th)))"

definition set_thread_worker ::
  "('r, 't) worker_core \<Rightarrow> ('c, 'r, 't) thread_state \<Rightarrow> ('c, 'r, 't) thread_state" where
  "set_thread_worker w th = th\<lparr>th_step := (th_step th)\<lparr>ss_worker := w\<rparr>\<rparr>"

definition show_failure ::
  "worker_failure_cause \<Rightarrow> ('c, 'r, 't) thread_state \<Rightarrow> ('c, 'r, 't) thread_state" where
  "show_failure cause th =
     (let w = ss_worker (th_step th)
      in set_thread_worker
           (w\<lparr>wk_cx := (wk_cx w)\<lparr>cx_status := status_fail (worker_failure_status cause)
              (thread_failure_category cause) (cx_status (wk_cx w))\<rparr>\<rparr>) th)"

text \<open>The cleanup after a panic: its failure, if it returned one.\<close>

definition cleanup_after_panic ::
  "('c, 'r, 't) worker_reporting \<Rightarrow> 't env \<Rightarrow> ('r, 't) unwinding \<Rightarrow> ('c, 'r, 't) thread_state
   \<Rightarrow> ('c, 'r, 't) thread_state \<times> cleanup_failure option" where
  "cleanup_after_panic R E uw th =
     (case uw_cleanup uw of
        Some (lifecycle, r, t) \<Rightarrow>
          let w = ss_worker (th_step th)
          in (set_thread_worker (w\<lparr>wk_lifecycle := lifecycle, wk_reporting := r,
                wk_cx := (wk_cx w)\<lparr>cx_transport := t\<rparr>\<rparr>) th, None)
      | None \<Rightarrow>
          (case clock_now (th_step th) of
             (now, ss) \<Rightarrow>
               (case cleanup_after_failure_without_neutral R E now (ss_worker ss) of
                  (w, completion) \<Rightarrow>
                    (set_thread_worker w (th\<lparr>th_step := ss\<rparr>),
                     err_of (finish_cleanup_without_join completion)))))"

definition finish_started_worker ::
  "('c, 'r, 't) worker_reporting \<Rightarrow> 't env \<Rightarrow> ('r, 't) unwinding \<Rightarrow> worker_completion caught
   \<Rightarrow> ('c, 'r, 't) thread_state
   \<Rightarrow> ('c, 'r, 't) thread_state \<times> worker_completion \<times> (unit, worker_join_error) result" where
  "finish_started_worker R E uw caught th =
     (case (case caught of
              Returned completion \<Rightarrow> (th, completion, False)
            | Unwound \<Rightarrow>
                (case cleanup_after_panic R E uw (show_failure CausePanicked th) of
                   (th, cleanup) \<Rightarrow>
                     (th, \<lparr>wc_terminal = TerminalFailed CausePanicked cleanup, wc_delivery_error = None\<rparr>, True))) of
        (th, completion, panicked) \<Rightarrow>
          let th = (if uw_teardown uw then show_failure CausePanicked th
                    else case wc_terminal completion of
                           TerminalFailed cause _ \<Rightarrow> show_failure cause th
                         | TerminalClosed _ \<Rightarrow> th)
          in (th\<lparr>th_commands := drop_receiver (th_commands th)\<rparr>, completion,
              if panicked \<or> uw_teardown uw then Inl JoinPanicked else Inr ()))"

section \<open>Without a panic\<close>

lemma set_thread_worker_fields [simp]:
  "ss_worker (th_step (set_thread_worker w th)) = w"
  "th_commands (set_thread_worker w th) = th_commands th"
  "thread_status (set_thread_worker w th) = cx_status (wk_cx w)"
  "thread_context (set_thread_worker w th) = wk_cx w"
  by (simp_all add: set_thread_worker_def thread_status_def)

lemma show_failure_fields [simp]:
  "th_commands (show_failure cause th) = th_commands th"
  "thread_status (show_failure cause th) =
     status_fail (worker_failure_status cause) (thread_failure_category cause) (thread_status th)"
  "wk_lifecycle (ss_worker (th_step (show_failure cause th))) = wk_lifecycle (ss_worker (th_step th))"
  "cx_transport (thread_context (show_failure cause th)) = cx_transport (thread_context th)"
  by (simp_all add: show_failure_def Let_def) (simp_all add: thread_status_def)

text \<open>A worker that never panics ends as \<open>thread_exit\<close> says, and its join succeeds.\<close>

lemma finish_without_panic:
  "\<not> uw_teardown uw
   \<Longrightarrow> finish_started_worker R E uw (Returned completion) th = (thread_exit completion th, completion, Inr ())"
  by (simp add: finish_started_worker_def thread_exit_def show_failure_def set_thread_worker_def Let_def
      split: worker_terminal.split)

lemma run_started_worker_eq:
  "\<not> uw_teardown uw
   \<Longrightarrow> run_started_worker R E fuel th =
     (case run_worker_loop R E fuel th of
        (th, None) \<Rightarrow> (th, None)
      | (th, Some completion) \<Rightarrow>
          (case finish_started_worker R E uw (Returned completion) th of (th, completion, _) \<Rightarrow> (th, Some completion)))"
  by (simp add: run_started_worker_def finish_without_panic split: prod.split option.split)

section \<open>With one\<close>

text \<open>A failure that the status already shows stays.\<close>

lemma status_fail_twice [simp]:
  "status_fail m k (status_fail m' k' st) = status_fail m' k' st"
  by (cases "st_worker_failure st") (simp_all add: status_fail_again status_fail_fresh)

lemma status_fail_shown: "st_worker_failure (status_fail m k st) \<noteq> None"
  by (cases "st_worker_failure st") (simp_all add: status_fail_again status_fail_fresh)

text \<open>The cleanup leaves the commands and the status alone, and closes the transport when it returns.\<close>

lemma cleanup_run_status:
  "cleanup_run E (cleanup_sequence_new WithoutNeutral d) connected now False l cx = (l', cx', completion)
   \<Longrightarrow> cx_status cx' = cx_status cx"
  by (auto simp: cleanup_run_def cleanup_stages_def cleanup_sequence_new_def call_transport_def Let_def
      split: prod.splits if_splits)

lemma cleanup_after_panic_frame:
  "cleanup_after_panic R E uw th = (th', cleanup)
   \<Longrightarrow> th_commands th' = th_commands th \<and> thread_status th' = thread_status th"
  by (auto simp: cleanup_after_panic_def clock_now_def cleanup_after_failure_without_neutral_def Let_def
      thread_status_def split: option.splits prod.splits dest: cleanup_run_status)

lemma cleanup_after_panic_closes:
  "cleanup_after_panic R E uw th = (th', cleanup) \<Longrightarrow> uw_cleanup uw = None
   \<Longrightarrow> wk_lifecycle (ss_worker (th_step th)) \<noteq> Rs_Closing \<Longrightarrow> transport_closed E (thread_context th')"
  by (auto simp: cleanup_after_panic_def clock_now_def cleanup_after_failure_without_neutral_def Let_def
      split: prod.splits dest!: open_cleanup_closes)

lemma transport_closed_show_failure [simp]:
  "transport_closed E (thread_context (show_failure cause th)) = transport_closed E (thread_context th)"
  by (simp add: transport_closed_def)

text \<open>What the caller of a close or of a drop learns from a failed join.\<close>

lemma panicked_join_reported:
  "\<exists>e. map_worker_outcome (finish_thread (Some completion) (Inl JoinPanicked)) = Inl e
     \<and> last (error_chain e) = WorkerFailed"
proof -
  have "reported_failures (Some completion) (Inl JoinPanicked) \<noteq> []
      \<and> last (reported_failures (Some completion) (Inl JoinPanicked)) = WorkerFailed"
    by (cases "wc_terminal completion") (simp_all add: reported_failures_def Let_def)
  then show ?thesis
    using finish_failures[of "Some completion" "Inl JoinPanicked"] by (auto split: sum.splits)
qed


text \<open>A first step of the loop that panics, and a teardown that panics after it.\<close>

definition sample_thread :: "(direct_command, direct_runtime, scripted_port) thread_state" where
  "sample_thread = thread_start (sample_worker direct_runtime_new) id (\<lambda>_. None) (\<lambda>_. True) (\<lambda>_. [])"


end
