(* ===== verification/Reopening.thy ===== *)
theory Reopening
  imports WorkerPanic
begin

text \<open>
  Opening a controller again (\<open>Controller::open\<close> after a close).  The configuration and the status projection
  stay, the worker is new.  What a second opening carries over is stated here: the failure text of the
  earlier worker, which hides the failure of the new one as long as no session has begun, and counters
  that begin again at zero.
\<close>

section \<open>The failure of the earlier worker\<close>

text \<open>A successful opening shows \<open>Open\<close> and leaves every other field of the projection alone.\<close>

lemma opened_status:
  assumes "open_runtime_owner R mode P m config status = Some opened_now" "op_result opened_now = Inr rt"
  shows "op_status opened_now = set_lifecycle Lc_Open status \<and> runtime_status rt = set_lifecycle Lc_Open status"
proof -
  have failed: "op_result (spawn_failed R E now w) \<noteq> Inr rt" for E now w
    by (simp add: spawn_failed_def split: prod.splits)
  show ?thesis
    using assms failed
    by (auto simp: open_runtime_owner_def from_open_transport_def runtime_status_def owner_start_def thread_start_def
        Let_def split: sum.splits prod.splits if_splits)
qed

text \<open>
  Reopening after a failure: the status says \<open>Open\<close> and still carries the earlier failure, and a failure of
  the new worker, whatever its cause, changes nothing of what the controller shows.
\<close>

lemma reopening_keeps_the_failure:
  assumes "ctl_runtime c = None" "st_worker_failure (ctl_status c) = Some earlier"
    and "controller_open R mode P m c = (c', Some (Inr ()))"
  shows "st_lifecycle (controller_status c') = Lc_Open \<and> st_worker_failure (controller_status c') = Some earlier"
proof -
  obtain opened_now rt where opened_now: "open_runtime_owner R mode P m (ctl_config c) (ctl_status c) = Some opened_now"
    "op_result opened_now = Inr rt" "c' = c\<lparr>ctl_runtime := Some rt, ctl_status := op_status opened_now\<rparr>"
    using assms(1,3) by (auto simp: controller_open_def split: option.splits sum.splits)
  then have "controller_status c' = set_lifecycle Lc_Open (ctl_status c)"
    using opened_status[OF opened_now(1,2)] by (simp add: controller_status_def)
  then show ?thesis
    using assms(2) by simp
qed

lemma shown_failure_hides_another:
  assumes "st_worker_failure (thread_status th) = Some earlier"
    and "complete_worker_failure R E cause d th = (th', result)"
  shows "thread_status th' = thread_status th"
  using assms
  by (auto simp: complete_worker_failure_def clock_now_def cleanup_after_failure_without_neutral_def Let_def
      thread_status_def status_fail_again split: prod.splits dest!: cleanup_run_status)

text \<open>The thread of a controller that failed, was closed and is open again; its waiter is disconnected.\<close>

definition reopened_thread :: "(direct_command, direct_runtime, scripted_port) thread_state" where
  "reopened_thread =
     thread_start
       (from_open_transport scripted_start direct_runtime_new poll_batch_budget
         (status_fail ''worker wait failed'' WaitFailure (set_lifecycle Lc_Open status_configured)))
       id (\<lambda>_. None) (\<lambda>_. False) (\<lambda>_. [])"

lemma reopened_step:
  "case step_runtime direct_reporting sample_env None (th_step (client_turn reopened_thread)) of
     (ss, outcome) \<Rightarrow> outcome = Some StepContinue
       \<and> pg_command_result (ss_progress ss) = None \<and> pg_commands (ss_progress ss) = 0
       \<and> step_wait_request (ss_progress ss) (ss_clock ss 0) \<noteq> None
       \<and> cx_status (wk_cx (ss_worker ss)) = thread_status reopened_thread"
  by (simp add: sample_step_evaluation reopened_thread_def thread_start_def thread_status_def poll_batch_budget_def
      client_turn_def step_wait_request_def worker_next_deadline_def eval_nat_numeral
      minimum_deadline_def direct_next_deadline_def)

text \<open>
  C39: the failure of a reopened worker can stay hidden.  The controller's first worker failed on its wait, so
  its status carries that failure; after the second opening the status says \<open>Open\<close>.  The second worker fails
  as well and its thread ends with that failure, but since the first failure was never cleared the status is
  left as it is and still says \<open>Open\<close>, although the worker has terminated.
\<close>

theorem reopened_failure_is_hidden:
  "\<exists>th completion cleanup. run_started_worker direct_reporting sample_env 1 reopened_thread = (th, Some completion)
     \<and> wc_terminal completion = TerminalFailed CauseWait cleanup
     \<and> st_lifecycle (thread_status th) = Lc_Open"
proof -
  obtain ss where step: "step_runtime direct_reporting sample_env None (th_step (client_turn reopened_thread))
      = (ss, Some StepContinue)" "pg_command_result (ss_progress ss) = None" "pg_commands (ss_progress ss) = 0"
    "step_wait_request (ss_progress ss) (ss_clock ss 0) \<noteq> None"
    and status: "cx_status (wk_cx (ss_worker ss)) = thread_status reopened_thread"
    using reopened_step by (auto split: prod.splits)
  have shown: "st_worker_failure (thread_status reopened_thread) = Some ''worker wait failed''
      \<and> st_lifecycle (thread_status reopened_thread) = Lc_Open"
    by (simp add: reopened_thread_def thread_start_def thread_status_def from_open_transport_def status_configured_def
        status_fail_def)
  have commands: "th_commands (client_turn reopened_thread) = command_channel_new"
    "th_waits (client_turn reopened_thread) 0 = False"
    by (simp_all add: client_turn_def reopened_thread_def thread_start_def)
  obtain th where iteration: "loop_iteration direct_reporting sample_env reopened_thread
      = complete_worker_failure direct_reporting sample_env CauseWait None th"
    "thread_status th = thread_status reopened_thread"
    using step commands status
    by (auto simp: loop_iteration_def thread_step_def try_next_def command_channel_new_def deliver_progress_def
        wait_for_next_iteration_def clock_now_def thread_status_def Let_def)
  obtain th' result where failed:
    "complete_worker_failure direct_reporting sample_env CauseWait None th = (th', result)"
    by fastforce
  then obtain completion cleanup where result: "result = Some completion"
    "wc_terminal completion = TerminalFailed CauseWait cleanup"
    by (auto simp: complete_worker_failure_def clock_now_def Let_def split: prod.splits)
  have "thread_status th' = thread_status reopened_thread"
    using shown_failure_hides_another[OF _ failed] iteration(2) shown by simp
  moreover have "thread_status (thread_exit completion th') = thread_status th'"
    using shown calculation by (simp add: thread_exit_def result thread_status_def status_fail_again Let_def)
  ultimately show ?thesis
    using shown result by (auto simp: run_started_worker_def iteration(1) failed)
qed

section \<open>Counters\<close>

text \<open>
  The first session of a reopened controller sets the accepted-report counters back to zero, whatever they
  were: the new worker has a new sender.
\<close>

lemma new_sender_counters:
  "st_input_reports_accepted (cx_status (sender_reset_for_new_session cx))
     = snd_input_reports_accepted (cx_sender cx)
   \<and> st_replies_accepted (cx_status (sender_reset_for_new_session cx)) = snd_replies_accepted (cx_sender cx)"
  by (simp add: sender_reset_for_new_session_def publish_sender_def set_sender_state_def Let_def split: option.split)

lemma reopening_restarts_the_counters:
  assumes "begin_connection direct_reporting now timeout (from_open_transport t r budget status) = (w, Inr sid)"
  shows "st_input_reports_accepted (cx_status (wk_cx w)) = 0 \<and> st_replies_accepted (cx_status (wk_cx w)) = 0"
  using assms
  by (auto simp: begin_connection_def from_open_transport_def direct_reporting_fields direct_begin_session_def
      begin_direct_def status_begin_session_def report_sender_new_def lifecycle_begin_connection_def lifecycle_new_def
      sessions_commit_def input_reset_eq input_commit_def set_snapshot_def new_sender_counters Let_def)

end
