(* ===== verification/RunnerArguments.thy ===== *)
theory RunnerArguments
  imports CommandLine ProfileDocument FileStore Clock
begin

text \<open>
  The command lines of \<open>swbt-hardware-runner\<close>: \<open>parse_command\<close> of \<open>src/lib.rs\<close>, \<open>KeyValueArguments\<close> of
  \<open>src/support.rs\<close> and the \<open>parse_args\<close> of the three scenarios, with their error texts.  The arguments are
  \<open>String\<close>s; paths are compared component by component (\<open>parse_path\<close>), as \<open>PathBuf\<close> does.
\<close>

section \<open>The scenario\<close>

datatype runner_scenario = ProPeriodicScenario | ProProfileScenario | JoyConProfileScenario

datatype runner_command = RunnerHelp | RunnerScenario runner_scenario "string list"

definition parse_runner_command :: "string list \<Rightarrow> runner_command option" where
  "parse_runner_command arguments =
     (case arguments of
        [] \<Rightarrow> None
      | command # remaining \<Rightarrow>
          if command \<in> {''help'', ''--help'', ''-h''} \<and> remaining = [] then Some RunnerHelp
          else if command = ''pro-periodic'' then Some (RunnerScenario ProPeriodicScenario remaining)
          else if command = ''pro-profile'' then Some (RunnerScenario ProProfileScenario remaining)
          else if command = ''joycon-profile'' then Some (RunnerScenario JoyConProfileScenario remaining)
          else None)"

section \<open>Keys and values\<close>

type_synonym usage_error = string
type_synonym key_values = "(string \<times> string) list"

fun read_key_values :: "string list \<Rightarrow> string list \<Rightarrow> key_values \<Rightarrow> (key_values, usage_error) result" where
  "read_key_values allowed [] values = Inr values"
| "read_key_values allowed [flag] values = Inl ''argument value is missing''"
| "read_key_values allowed (flag # v # rest) values =
     (if flag \<notin> set allowed then Inl ''unknown argument''
      else if map_of values flag \<noteq> None then Inl ''duplicate argument''
      else read_key_values allowed rest (btree_insert flag v values))"

definition key_values_parse :: "string list \<Rightarrow> string list \<Rightarrow> (key_values, usage_error) result" where
  "key_values_parse arguments allowed = read_key_values allowed arguments []"

text \<open>\<open>required\<close> and \<open>optional\<close> take the value out.\<close>

definition kv_without :: "string \<Rightarrow> key_values \<Rightarrow> key_values" where
  "kv_without flag values = filter (\<lambda>(k, v). k \<noteq> flag) values"

definition kv_optional :: "string \<Rightarrow> key_values \<Rightarrow> string option \<times> key_values" where
  "kv_optional flag values = (map_of values flag, kv_without flag values)"

definition kv_required :: "string \<Rightarrow> usage_error \<Rightarrow> key_values \<Rightarrow> (string \<times> key_values, usage_error) result" where
  "kv_required flag missing values =
     (case kv_optional flag values of (None, values) \<Rightarrow> Inl missing | (Some v, values) \<Rightarrow> Inr (v, values))"

text \<open>The steps that the scenarios share: a nonempty text, a name, a number in a range.\<close>

definition nonempty :: "usage_error \<Rightarrow> string \<Rightarrow> (string, usage_error) result" where
  "nonempty invalid v = (if v = [] then Inl invalid else Inr v)"

definition named :: "usage_error \<Rightarrow> (string \<times> 'a) list \<Rightarrow> string \<Rightarrow> ('a, usage_error) result" where
  "named invalid names v = (case map_of names v of None \<Rightarrow> Inl invalid | Some x \<Rightarrow> Inr x)"

definition ranged :: "usage_error \<Rightarrow> nat \<Rightarrow> nat \<Rightarrow> nat \<Rightarrow> string \<Rightarrow> (nat, usage_error) result" where
  "ranged invalid bound lo hi v =
     (case parse_unsigned bound v of
        None \<Rightarrow> Inl invalid
      | Some n \<Rightarrow> if lo \<le> n \<and> n \<le> hi then Inr n else Inl invalid)"

definition required_as ::
  "string \<Rightarrow> usage_error \<Rightarrow> (string \<Rightarrow> ('a, usage_error) result) \<Rightarrow> key_values
   \<Rightarrow> ('a \<Rightarrow> key_values \<Rightarrow> ('b, usage_error) result) \<Rightarrow> ('b, usage_error) result" where
  "required_as flag missing read values continue =
     bind_result (kv_required flag missing values) (\<lambda>(v, values). bind_result (read v) (\<lambda>x. continue x values))"

datatype runner_mode = RunPeriodic | RunDirect

definition runner_modes :: "(string \<times> runner_mode) list" where
  "runner_modes = [(''periodic'', RunPeriodic), (''direct'', RunDirect)]"

section \<open>\<open>pro-periodic\<close>\<close>

record pro_periodic_args =
  pp_adapter :: string
  pp_profile :: string
  pp_pair_timeout :: duration
  pp_run_index :: nat

definition pro_periodic_flags :: "string list" where
  "pro_periodic_flags = [''--adapter'', ''--profile'', ''--pair-timeout-secs'', ''--run'']"

definition pro_periodic_parse_args :: "string list \<Rightarrow> (pro_periodic_args, usage_error) result" where
  "pro_periodic_parse_args arguments =
     bind_result (key_values_parse arguments pro_periodic_flags) (\<lambda>values.
     required_as ''--adapter'' ''missing --adapter'' (nonempty ''invalid --adapter'') values (\<lambda>adapter values.
     required_as ''--profile'' ''missing --profile'' (nonempty ''invalid --profile'') values (\<lambda>profile values.
     required_as ''--pair-timeout-secs'' ''missing --pair-timeout-secs''
       (ranged ''invalid --pair-timeout-secs'' (2 ^ 64) 1 600) values (\<lambda>secs values.
     required_as ''--run'' ''missing --run'' (ranged ''invalid --run'' (2 ^ 8) 1 20) values (\<lambda>run_index values.
     Inr \<lparr>pp_adapter = adapter, pp_profile = profile, pp_pair_timeout = from_secs secs, pp_run_index = run_index\<rparr>)))))"

section \<open>\<open>pro-profile\<close>\<close>

datatype operator_setup = SetupNormal | SetupPostPowerCycle | SetupStaleBond

definition operator_setups :: "(string \<times> operator_setup) list" where
  "operator_setups = [(''normal'', SetupNormal), (''post-power-cycle'', SetupPostPowerCycle), (''stale-bond'', SetupStaleBond)]"

record pro_profile_args =
  pr_adapter :: string
  pr_profile :: string
  pr_stale_source :: "string option"
  pr_mode :: runner_mode
  pr_setup :: operator_setup
  pr_connect_timeout :: duration
  pr_run_index :: nat

definition pro_profile_flags :: "string list" where
  "pro_profile_flags = [''--adapter'', ''--profile'', ''--stale-source-profile'', ''--mode'', ''--setup'',
     ''--connect-timeout-secs'', ''--run'']"

definition stale_source_problem :: "operator_setup \<Rightarrow> string option \<Rightarrow> string \<Rightarrow> usage_error option" where
  "stale_source_problem setup source profile =
     (case (setup, source) of
        (SetupStaleBond, None) \<Rightarrow> Some ''stale-bond setup requires --stale-source-profile''
      | (SetupStaleBond, Some source) \<Rightarrow>
          if parse_path source = parse_path profile then Some ''stale-bond source and target profiles must differ''
          else None
      | (_, Some _) \<Rightarrow> Some ''--stale-source-profile requires stale-bond setup''
      | (_, None) \<Rightarrow> None)"

definition pro_profile_parse_args :: "string list \<Rightarrow> (pro_profile_args, usage_error) result" where
  "pro_profile_parse_args arguments =
     bind_result (key_values_parse arguments pro_profile_flags) (\<lambda>values.
     required_as ''--adapter'' ''missing --adapter'' (nonempty ''invalid --adapter'') values (\<lambda>adapter values.
     required_as ''--profile'' ''missing --profile'' (nonempty ''invalid --profile'') values (\<lambda>profile values.
     case kv_optional ''--stale-source-profile'' values of (source, values) \<Rightarrow>
     required_as ''--mode'' ''missing --mode'' (named ''invalid --mode'' runner_modes) values (\<lambda>mode values.
     required_as ''--setup'' ''missing --setup'' (named ''invalid --setup'' operator_setups) values (\<lambda>setup values.
     required_as ''--connect-timeout-secs'' ''missing --connect-timeout-secs''
       (ranged ''invalid --connect-timeout-secs'' (2 ^ 64) 1 600) values (\<lambda>secs values.
     required_as ''--run'' ''missing --run'' (ranged ''invalid --run'' (2 ^ 8) 1 99) values (\<lambda>run_index values.
     case stale_source_problem setup source profile of
       Some problem \<Rightarrow> Inl problem
     | None \<Rightarrow>
         Inr \<lparr>pr_adapter = adapter, pr_profile = profile, pr_stale_source = source, pr_mode = mode, pr_setup = setup,
           pr_connect_timeout = from_secs secs, pr_run_index = run_index\<rparr>)))))))"

section \<open>\<open>joycon-profile\<close>\<close>

datatype joycon_model = JoyConLeft | JoyConRight

datatype joycon_connection = JoyConPair | JoyConReconnect

definition joycon_models :: "(string \<times> joycon_model) list" where
  "joycon_models = [(''left'', JoyConLeft), (''right'', JoyConRight)]"

definition joycon_connections :: "(string \<times> joycon_connection) list" where
  "joycon_connections = [(''pair'', JoyConPair), (''reconnect'', JoyConReconnect)]"

record joycon_args =
  jc_adapter :: string
  jc_profile :: string
  jc_model :: joycon_model
  jc_mode :: runner_mode
  jc_connection :: joycon_connection
  jc_timeout :: duration
  jc_pre_input_idle :: duration
  jc_run_index :: nat

definition joycon_flags :: "string list" where
  "joycon_flags = [''--adapter'', ''--profile'', ''--model'', ''--mode'', ''--connection'', ''--timeout-secs'',
     ''--pre-input-idle-ms'', ''--run'']"

definition joycon_parse_args :: "string list \<Rightarrow> (joycon_args, usage_error) result" where
  "joycon_parse_args arguments =
     bind_result (key_values_parse arguments joycon_flags) (\<lambda>values.
     required_as ''--adapter'' ''missing --adapter'' (nonempty ''invalid --adapter'') values (\<lambda>adapter values.
     required_as ''--profile'' ''missing --profile'' (nonempty ''invalid --profile'') values (\<lambda>profile values.
     required_as ''--model'' ''missing --model'' (named ''invalid --model'' joycon_models) values (\<lambda>model values.
     required_as ''--mode'' ''missing --mode'' (named ''invalid --mode'' runner_modes) values (\<lambda>mode values.
     required_as ''--connection'' ''missing --connection'' (named ''invalid --connection'' joycon_connections) values
       (\<lambda>connection values.
     if connection = JoyConPair \<and> mode \<noteq> RunPeriodic then Inl ''pair requires periodic mode''
     else required_as ''--timeout-secs'' ''missing --timeout-secs''
       (ranged ''invalid --timeout-secs'' (2 ^ 64) 1 600) values (\<lambda>secs values.
     case kv_optional ''--pre-input-idle-ms'' values of (idle, values) \<Rightarrow>
     bind_result (case idle of None \<Rightarrow> Inr 0 | Some v \<Rightarrow> ranged ''invalid --pre-input-idle-ms'' (2 ^ 64) 0 10000 v)
       (\<lambda>idle_ms.
     required_as ''--run'' ''missing --run'' (ranged ''invalid --run'' (2 ^ 8) 1 99) values (\<lambda>run_index values.
     Inr \<lparr>jc_adapter = adapter, jc_profile = profile, jc_model = model, jc_mode = mode, jc_connection = connection,
       jc_timeout = from_secs secs, jc_pre_input_idle = from_millis idle_ms, jc_run_index = run_index\<rparr>)))))))))"

section \<open>What is accepted\<close>

lemma cons_flatten:
  "k # v # rest = flatten_pairs opts \<longleftrightarrow> (\<exists>opts'. opts = (k, v) # opts' \<and> rest = flatten_pairs opts')"
  by (cases opts) auto

lemma read_key_values_Inr:
  assumes "btree_ok vals"
  shows "read_key_values allowed args vals = Inr m \<longleftrightarrow>
    (\<exists>opts. args = flatten_pairs opts \<and> distinct (map fst opts) \<and> fst ` set opts \<subseteq> set allowed
       \<and> fst ` set opts \<inter> fst ` set vals = {} \<and> m = fold (\<lambda>(k, v). btree_insert k v) opts vals)"
  using assms
proof (induction allowed args vals rule: read_key_values.induct)
  case (2 allowed flag vals)
  have "odd (length [flag])"
    by simp
  then have "[flag] \<noteq> flatten_pairs opts" for opts
    by (metis dvd_triv_left length_flatten)
  then show ?case
    by simp
next
  case (3 allowed flag v rest vals)
  have step: "(\<exists>opts. flag # v # rest = flatten_pairs opts \<and> P opts) \<longleftrightarrow>
      (\<exists>opts. rest = flatten_pairs opts \<and> P ((flag, v) # opts))" for P
    by (auto simp: cons_flatten)
  show ?case
  proof (cases "flag \<in> set allowed \<and> map_of vals flag = None")
    case True
    then show ?thesis
      using "3.IH" "3.prems" unfolding step
      by (auto simp: btree_ok_insert set_btree_insert_keys map_of_eq_None_iff)
  next
    case False
    then show ?thesis
      unfolding step by (auto simp: map_of_eq_None_iff)
  qed
next
  case (1 allowed vals)
  have "[] = flatten_pairs opts \<longleftrightarrow> opts = []" for opts :: "(string \<times> string) list"
    by (cases opts) auto
  then show ?case
    by auto
qed

lemma key_values_exact:
  "key_values_parse args allowed = Inr m \<longleftrightarrow>
    (\<exists>opts. args = flatten_pairs opts \<and> distinct (map fst opts) \<and> fst ` set opts \<subseteq> set allowed
       \<and> m = fold (\<lambda>(k, v). btree_insert k v) opts [])"
  by (simp add: key_values_parse_def read_key_values_Inr)

lemma key_values_lookup:
  assumes "distinct (map fst opts)"
  shows "map_of (fold (\<lambda>(k, v). btree_insert k v) opts []) = map_of opts"
proof -
  have "map_of (rev opts) = map_of opts"
    using assms by (intro iffD2[OF map_of_inject_set]) (simp_all flip: rev_map)
  then show ?thesis
    by (auto simp: btree.find_collect split: option.split)
qed

lemma map_of_taken: "map_of (kv_without flag m) k = (if k = flag then None else map_of m k)"
  by (induction m) (auto simp: kv_without_def)

lemma required_as_Inr:
  "required_as flag missing read m continue = Inr b \<longleftrightarrow>
     (\<exists>v x. map_of m flag = Some v \<and> read v = Inr x \<and> continue x (kv_without flag m) = Inr b)"
  by (auto simp: required_as_def kv_required_def kv_optional_def bind_result_Inr_iff split: option.splits)

lemma option_case_Inr:
  "(case x of None \<Rightarrow> Inr y | Some e \<Rightarrow> Inl e) = Inr z \<longleftrightarrow> x = None \<and> y = z"
  by (cases x) auto

lemma if_Inl_Inr: "(if c then Inl e else r) = Inr x \<longleftrightarrow> \<not> c \<and> r = Inr x"
  by simp

definition number_or :: "nat \<Rightarrow> nat \<Rightarrow> string option \<Rightarrow> nat option" where
  "number_or d bound v = (case v of None \<Rightarrow> Some d | Some t \<Rightarrow> parse_unsigned bound t)"

lemma default_Inr:
  "(case v of None \<Rightarrow> Inr 0 | Some t \<Rightarrow> ranged e bound 0 hi t) = Inr n \<longleftrightarrow> number_or 0 bound v = Some n \<and> n \<le> hi"
  by (cases v) (auto simp: ranged_def number_or_def split: option.splits)

lemma reads_Inr:
  "nonempty e v = Inr x \<longleftrightarrow> x = v \<and> v \<noteq> []"
  "named e names v = Inr y \<longleftrightarrow> map_of names v = Some y"
  "ranged e bound lo hi v = Inr n \<longleftrightarrow> parse_unsigned bound v = Some n \<and> lo \<le> n \<and> n \<le> hi"
  by (auto simp: nonempty_def named_def ranged_def split: option.splits if_splits)

definition number_option :: "(string \<times> string) list \<Rightarrow> string \<Rightarrow> nat \<Rightarrow> nat option" where
  "number_option opts flag bound = Option.bind (map_of opts flag) (parse_unsigned bound)"

lemma number_option_Some:
  "number_option opts flag bound = Some n \<longleftrightarrow> (\<exists>v. map_of opts flag = Some v \<and> parse_unsigned bound v = Some n)"
  by (auto simp: number_option_def bind_eq_Some_conv)

lemma stale_source_ok:
  "stale_source_problem setup source profile = None \<longleftrightarrow>
     (setup = SetupStaleBond \<longleftrightarrow> source \<noteq> None)
     \<and> (\<forall>s. source = Some s \<longrightarrow> parse_path s \<noteq> parse_path profile)"
  by (cases "setup"; cases source) (auto simp: stale_source_problem_def)

text \<open>
  Each scenario accepts exactly the complete command lines: known flags, each once, in any order, the required ones
  present, every value in its range, and what the scenario cannot do refused.
\<close>

definition accepted :: "string list \<Rightarrow> string list \<Rightarrow> ((string \<times> string) list \<Rightarrow> bool) \<Rightarrow> bool" where
  "accepted args flags holds \<longleftrightarrow>
     (\<exists>opts. args = flatten_pairs opts \<and> distinct (map fst opts) \<and> fst ` set opts \<subseteq> set flags \<and> holds opts)"

theorem pro_profile_accepts_exactly:
  "pro_profile_parse_args args = Inr a \<longleftrightarrow>
     accepted args pro_profile_flags (\<lambda>opts.
       map_of opts ''--adapter'' = Some (pr_adapter a) \<and> pr_adapter a \<noteq> []
       \<and> map_of opts ''--profile'' = Some (pr_profile a) \<and> pr_profile a \<noteq> []
       \<and> pr_stale_source a = map_of opts ''--stale-source-profile''
       \<and> Option.bind (map_of opts ''--mode'') (map_of runner_modes) = Some (pr_mode a)
       \<and> Option.bind (map_of opts ''--setup'') (map_of operator_setups) = Some (pr_setup a)
       \<and> (\<exists>secs \<in> {1..600}. number_option opts ''--connect-timeout-secs'' (2 ^ 64) = Some secs
            \<and> pr_connect_timeout a = from_secs secs)
       \<and> number_option opts ''--run'' (2 ^ 8) = Some (pr_run_index a) \<and> pr_run_index a \<in> {1..99}
       \<and> stale_source_problem (pr_setup a) (pr_stale_source a) (pr_profile a) = None)"
  (is "_ \<longleftrightarrow> accepted args _ ?ok")
proof -
  have body: "pro_profile_parse_args args = Inr a \<longleftrightarrow>
      (\<exists>m. key_values_parse args pro_profile_flags = Inr m \<and>
       map_of m ''--adapter'' = Some (pr_adapter a) \<and> pr_adapter a \<noteq> []
       \<and> map_of m ''--profile'' = Some (pr_profile a) \<and> pr_profile a \<noteq> []
       \<and> pr_stale_source a = map_of m ''--stale-source-profile''
       \<and> Option.bind (map_of m ''--mode'') (map_of runner_modes) = Some (pr_mode a)
       \<and> Option.bind (map_of m ''--setup'') (map_of operator_setups) = Some (pr_setup a)
       \<and> (\<exists>secs \<in> {1..600}. Option.bind (map_of m ''--connect-timeout-secs'') (parse_unsigned (2 ^ 64)) = Some secs
            \<and> pr_connect_timeout a = from_secs secs)
       \<and> Option.bind (map_of m ''--run'') (parse_unsigned (2 ^ 8)) = Some (pr_run_index a) \<and> pr_run_index a \<in> {1..99}
       \<and> stale_source_problem (pr_setup a) (pr_stale_source a) (pr_profile a) = None)"
    unfolding pro_profile_parse_args_def bind_result_Inr_iff required_as_Inr kv_optional_def reads_Inr prod.case
      option_case_Inr
    by (cases a) (auto simp: map_of_taken required_as_Inr reads_Inr bind_eq_Some_conv)
  show ?thesis
    unfolding body accepted_def key_values_exact number_option_def
    by (auto simp: key_values_lookup)
qed

theorem pro_periodic_accepts_exactly:
  "pro_periodic_parse_args args = Inr a \<longleftrightarrow>
     accepted args pro_periodic_flags (\<lambda>opts.
       map_of opts ''--adapter'' = Some (pp_adapter a)
       \<and> pp_adapter a \<noteq> []
       \<and> map_of opts ''--profile'' = Some (pp_profile a)
       \<and> pp_profile a \<noteq> []
       \<and> (\<exists>secs \<in> {1..600}. number_option opts ''--pair-timeout-secs'' (2 ^ 64) = Some secs \<and> pp_pair_timeout a = from_secs secs)
       \<and> number_option opts ''--run'' (2 ^ 8) = Some (pp_run_index a)
       \<and> pp_run_index a \<in> {1..20})"
proof -
  have body: "pro_periodic_parse_args args = Inr a \<longleftrightarrow>
      (\<exists>m. key_values_parse args pro_periodic_flags = Inr m \<and>
       map_of m ''--adapter'' = Some (pp_adapter a)
       \<and> pp_adapter a \<noteq> []
       \<and> map_of m ''--profile'' = Some (pp_profile a)
       \<and> pp_profile a \<noteq> []
       \<and> (\<exists>secs \<in> {1..600}. Option.bind (map_of m ''--pair-timeout-secs'') (parse_unsigned (2 ^ 64)) = Some secs \<and> pp_pair_timeout a = from_secs secs)
       \<and> Option.bind (map_of m ''--run'') (parse_unsigned (2 ^ 8)) = Some (pp_run_index a)
       \<and> pp_run_index a \<in> {1..20})"
    unfolding pro_periodic_parse_args_def bind_result_Inr_iff required_as_Inr kv_optional_def reads_Inr prod.case
    by (cases a) (auto simp: map_of_taken required_as_Inr reads_Inr bind_eq_Some_conv)
  show ?thesis
    unfolding body accepted_def key_values_exact number_option_def
    by (auto simp: key_values_lookup)
qed

theorem joycon_accepts_exactly:
  "joycon_parse_args args = Inr a \<longleftrightarrow>
     accepted args joycon_flags (\<lambda>opts.
       map_of opts ''--adapter'' = Some (jc_adapter a)
       \<and> jc_adapter a \<noteq> []
       \<and> map_of opts ''--profile'' = Some (jc_profile a)
       \<and> jc_profile a \<noteq> []
       \<and> Option.bind (map_of opts ''--model'') (map_of joycon_models) = Some (jc_model a)
       \<and> Option.bind (map_of opts ''--mode'') (map_of runner_modes) = Some (jc_mode a)
       \<and> Option.bind (map_of opts ''--connection'') (map_of joycon_connections) = Some (jc_connection a)
       \<and> (jc_connection a = JoyConPair \<longrightarrow> jc_mode a = RunPeriodic)
       \<and> (\<exists>secs \<in> {1..600}. number_option opts ''--timeout-secs'' (2 ^ 64) = Some secs \<and> jc_timeout a = from_secs secs)
       \<and> (\<exists>millis \<in> {0..10000}. number_or 0 (2 ^ 64) (map_of opts ''--pre-input-idle-ms'') = Some millis \<and> jc_pre_input_idle a = from_millis millis)
       \<and> number_option opts ''--run'' (2 ^ 8) = Some (jc_run_index a)
       \<and> jc_run_index a \<in> {1..99})"
proof -
  have body: "joycon_parse_args args = Inr a \<longleftrightarrow>
      (\<exists>m. key_values_parse args joycon_flags = Inr m \<and>
       map_of m ''--adapter'' = Some (jc_adapter a)
       \<and> jc_adapter a \<noteq> []
       \<and> map_of m ''--profile'' = Some (jc_profile a)
       \<and> jc_profile a \<noteq> []
       \<and> Option.bind (map_of m ''--model'') (map_of joycon_models) = Some (jc_model a)
       \<and> Option.bind (map_of m ''--mode'') (map_of runner_modes) = Some (jc_mode a)
       \<and> Option.bind (map_of m ''--connection'') (map_of joycon_connections) = Some (jc_connection a)
       \<and> (jc_connection a = JoyConPair \<longrightarrow> jc_mode a = RunPeriodic)
       \<and> (\<exists>secs \<in> {1..600}. Option.bind (map_of m ''--timeout-secs'') (parse_unsigned (2 ^ 64)) = Some secs \<and> jc_timeout a = from_secs secs)
       \<and> (\<exists>millis \<in> {0..10000}. number_or 0 (2 ^ 64) (map_of m ''--pre-input-idle-ms'') = Some millis \<and> jc_pre_input_idle a = from_millis millis)
       \<and> Option.bind (map_of m ''--run'') (parse_unsigned (2 ^ 8)) = Some (jc_run_index a)
       \<and> jc_run_index a \<in> {1..99})"
    unfolding joycon_parse_args_def bind_result_Inr_iff required_as_Inr kv_optional_def reads_Inr prod.case if_Inl_Inr
      default_Inr map_of_taken
    by (cases a) (auto simp: bind_eq_Some_conv)
  show ?thesis
    unfolding body accepted_def key_values_exact number_option_def
    by (auto simp: key_values_lookup)
qed

end
