(* ===== verification/UnitInput.thy ===== *)
theory UnitInput
  imports InputState Ieee
begin

text \<open>
  Sticks and IMU frames from physical units: \<open>Stick::normalized\<close> and the tilt constructors of
  \<open>crates/swbt-core/src/input/stick.rs\<close> (\<open>f32\<close>), \<open>ImuFrame::gyro_rate\<close>, \<open>accel_g\<close> and their inverses of
  \<open>crates/swbt-core/src/input/imu.rs\<close> (\<open>f64\<close>), over the arithmetic of \<open>Ieee\<close>.
\<close>

section \<open>Sticks\<close>

definition normalized_axis_to_raw :: "float_value \<Rightarrow> u16" where
  "normalized_axis_to_raw v =
     (let distance = (if float_less v (Finite 0) then stick_center_axis - stick_min else stick_max - stick_center_axis);
          raw = float_add binary32 (float_round_ties_even (float_mul binary32 v (of_nat (unat distance))))
                  (of_nat (unat stick_center_axis))
      in word_of_int (float_to_int 0 (2 ^ 16 - 1) raw))"

definition axis_input_to_raw :: "float_value \<Rightarrow> rat \<Rightarrow> rat \<Rightarrow> rat \<Rightarrow> (u16, error) result" where
  "axis_input_to_raw v low high direction =
     (if \<not> float_is_finite v \<or> \<not> (float_less_eq (Finite low) v \<and> float_less_eq v (Finite high))
      then Inl (new_error InvalidInput)
      else Inr (normalized_axis_to_raw (float_mul binary32 v direction)))"

definition stick_normalized :: "float_value \<Rightarrow> float_value \<Rightarrow> (stick, error) result" where
  "stick_normalized x y =
     bind_result (axis_input_to_raw x (- 1) 1 1) (\<lambda>x.
     bind_result (axis_input_to_raw y (- 1) 1 1) (\<lambda>y. Inr \<lparr>stick_x = x, stick_y = y\<rparr>))"

definition stick_tilt :: "float_value \<Rightarrow> float_value \<Rightarrow> (stick, error) result" where
  "stick_tilt x y = stick_normalized x y"

definition stick_up :: "float_value \<Rightarrow> (stick, error) result" where
  "stick_up amount =
     map_ok (\<lambda>y. \<lparr>stick_x = stick_center_axis, stick_y = y\<rparr>) (axis_input_to_raw amount 0 1 1)"

definition stick_down :: "float_value \<Rightarrow> (stick, error) result" where
  "stick_down amount =
     map_ok (\<lambda>y. \<lparr>stick_x = stick_center_axis, stick_y = y\<rparr>) (axis_input_to_raw amount 0 1 (- 1))"

definition stick_left :: "float_value \<Rightarrow> (stick, error) result" where
  "stick_left amount =
     map_ok (\<lambda>x. \<lparr>stick_x = x, stick_y = stick_center_axis\<rparr>) (axis_input_to_raw amount 0 1 (- 1))"

definition stick_right :: "float_value \<Rightarrow> (stick, error) result" where
  "stick_right amount =
     map_ok (\<lambda>x. \<lparr>stick_x = x, stick_y = stick_center_axis\<rparr>) (axis_input_to_raw amount 0 1 1)"

section \<open>IMU frames\<close>

text \<open>The \<open>f64\<close> nearest to a decimal literal or to the quotient of two constants.\<close>

definition f64_constant :: "rat \<Rightarrow> rat" where
  "f64_constant x = nearest binary64 x"

definition pi_constant :: rat where
  "pi_constant = f64_constant (314159265358979323846264338327950288 / 10 ^ 35)"

definition gyro_dps_per_raw_value :: rat where "gyro_dps_per_raw_value = f64_constant (70 / 1000)"
definition accel_g_per_raw :: rat where "accel_g_per_raw = f64_constant (1 / 4096)"

definition to_degrees :: "float_value \<Rightarrow> float_value" where
  "to_degrees v = float_mul binary64 v (f64_constant (180 / pi_constant))"

definition to_radians :: "float_value \<Rightarrow> float_value" where
  "to_radians v = float_mul binary64 v (f64_constant (pi_constant / 180))"

definition rounded_i16 :: "float_value \<Rightarrow> (i16, error) result" where
  "rounded_i16 v =
     (if \<not> float_is_finite v then Inl (new_error InvalidInput)
      else let rounded = float_round_ties_even v in
        if float_less rounded (Finite (- (2 ^ 15))) \<or> float_less (Finite (2 ^ 15 - 1)) rounded
        then Inl (new_error InvalidInput)
        else Inr (word_of_int (float_to_int (- (2 ^ 15)) (2 ^ 15 - 1) rounded)))"

definition gyro_rate_to_raw :: "float_value \<Rightarrow> (i16, error) result" where
  "gyro_rate_to_raw v = rounded_i16 (float_div binary64 (to_degrees v) gyro_dps_per_raw_value)"

definition acceleration_to_raw :: "float_value \<Rightarrow> (i16, error) result" where
  "acceleration_to_raw v = rounded_i16 (float_div binary64 v accel_g_per_raw)"

fun map_axes :: "('a \<Rightarrow> 'b) \<Rightarrow> 'a \<times> 'a \<times> 'a \<Rightarrow> 'b \<times> 'b \<times> 'b" where
  "map_axes g (x, y, z) = (g x, g y, g z)"

fun convert_axes :: "('a \<Rightarrow> ('b, 'e) result) \<Rightarrow> 'a \<times> 'a \<times> 'a \<Rightarrow> ('b \<times> 'b \<times> 'b, 'e) result" where
  "convert_axes g (x, y, z) =
     bind_result (g x) (\<lambda>x. bind_result (g y) (\<lambda>y. bind_result (g z) (\<lambda>z. Inr (x, y, z))))"

definition gyro_rate :: "float_value \<times> float_value \<times> float_value \<Rightarrow> (imu_frame, error) result" where
  "gyro_rate rates = map_ok (imu_frame_raw (0, 0, 0)) (convert_axes gyro_rate_to_raw rates)"

definition to_gyro_rate :: "imu_frame \<Rightarrow> float_value \<times> float_value \<times> float_value" where
  "to_gyro_rate frame =
     map_axes (\<lambda>raw. to_radians (float_mul binary64 (Finite (of_int (sint raw))) gyro_dps_per_raw_value)) (gyro frame)"

definition with_gyro_rate ::
  "imu_frame \<Rightarrow> float_value \<times> float_value \<times> float_value \<Rightarrow> (imu_frame, error) result" where
  "with_gyro_rate frame rates = map_ok (\<lambda>converted. with_gyro frame (gyro converted)) (gyro_rate rates)"

definition accel_g :: "float_value \<times> float_value \<times> float_value \<Rightarrow> (imu_frame, error) result" where
  "accel_g values = map_ok (\<lambda>raw. imu_frame_raw raw (0, 0, 0)) (convert_axes acceleration_to_raw values)"

definition to_accel_g :: "imu_frame \<Rightarrow> float_value \<times> float_value \<times> float_value" where
  "to_accel_g frame =
     map_axes (\<lambda>raw. float_mul binary64 (Finite (of_int (sint raw))) accel_g_per_raw) (accel frame)"

definition with_accel_g ::
  "imu_frame \<Rightarrow> float_value \<times> float_value \<times> float_value \<Rightarrow> (imu_frame, error) result" where
  "with_accel_g frame values = map_ok (\<lambda>converted. with_accel frame (accel converted)) (accel_g values)"

section \<open>The stick axes\<close>

text \<open>The exact position of an axis, and its distance from the centre as the code rounds it.\<close>

definition scaled_axis :: "rat \<Rightarrow> rat" where
  "scaled_axis x = 2048 + x * (if x < 0 then 2048 else 2047)"

definition rounded_axis :: "rat \<Rightarrow> int" where
  "rounded_axis x = ties_even (nearest binary32 (x * (if x < 0 then 2048 else 2047)))"

definition raw_axis :: "rat \<Rightarrow> u16" where
  "raw_axis x = word_of_int (2048 + rounded_axis x)"

lemma stick_distances:
  "(unsigned (stick_center_axis - stick_min) :: rat) = 2048" "(unsigned (stick_max - stick_center_axis) :: rat) = 2047"
  "(unsigned stick_center_axis :: rat) = 2048"
  by (simp_all add: stick_center_axis_def stick_min_def stick_max_def)

lemma abs_scaled_le: "\<bar>x\<bar> \<le> 1 \<Longrightarrow> 0 \<le> d \<Longrightarrow> \<bar>x * d\<bar> \<le> (d :: rat)"
  using mult_right_mono[of "\<bar>x\<bar>" 1 d] by (simp add: abs_mult)

lemma rounded_axis_bounds:
  assumes "\<bar>x\<bar> \<le> 1"
  shows "- 2048 \<le> rounded_axis x" "rounded_axis x \<le> 2047" "x < 0 \<Longrightarrow> rounded_axis x \<le> 0" "0 \<le> x \<Longrightarrow> 0 \<le> rounded_axis x"
proof -
  have 1: "\<bar>nearest binary32 (x * 2048)\<bar> \<le> of_int 2048" "\<bar>nearest binary32 (x * 2047)\<bar> \<le> of_int 2047"
    using abs_scaled_le[OF assms, of 2048] abs_scaled_le[OF assms, of 2047]
    by (intro nearest_bounded; simp)+
  have neg: "nearest binary32 (x * 2048) \<le> 0" if "x < 0"
    using nearest_nonneg[of "- (x * 2048)" binary32] that by (simp add: nearest_uminus)
  have "ties_even (of_int (- 2048)) \<le> rounded_axis x \<and> rounded_axis x \<le> ties_even (of_int 2047)"
    unfolding rounded_axis_def using 1 neg by (intro conjI ties_even_mono) (auto simp: abs_le_iff)
  then show "- 2048 \<le> rounded_axis x" "rounded_axis x \<le> 2047"
    by (simp_all only: ties_even_of_int)
  show "rounded_axis x \<le> 0" if "x < 0"
    using that neg ties_even_mono[of _ 0] by (simp add: rounded_axis_def)
  show "0 \<le> rounded_axis x" if "0 \<le> x"
    using that nearest_nonneg[of "x * 2047" binary32] ties_even_mono[of 0] by (simp add: rounded_axis_def)
qed

lemma rounded_axis_mono:
  assumes "\<bar>x\<bar> \<le> 1" "\<bar>y\<bar> \<le> 1" "x \<le> y"
  shows "rounded_axis x \<le> rounded_axis y"
proof (cases "x < 0 \<longleftrightarrow> y < 0")
  case True
  then show ?thesis
    using assms(3) by (auto simp: rounded_axis_def intro!: ties_even_mono nearest_mono mult_right_mono)
next
  case False
  then show ?thesis
    using rounded_axis_bounds(3)[OF assms(1)] rounded_axis_bounds(4)[OF assms(2)] assms(3) by force
qed

lemma normalized_axis_to_raw_eq:
  assumes "\<bar>x\<bar> \<le> 1"
  shows "normalized_axis_to_raw (Finite x) = raw_axis x"
proof -
  have mul: "float_mul binary32 (Finite x) d = Finite (nearest binary32 (x * d))" if "0 \<le> d" "d \<le> 2048" for d
    using abs_scaled_le[OF assms that(1)] that by (simp add: round_to_binary32)
  have "nearest binary32 (of_int (rounded_axis x + 2048)) = of_int (rounded_axis x + 2048)"
    using rounded_axis_bounds[OF assms] by (intro nearest_int) simp_all
  moreover have "\<bar>of_int (rounded_axis x + 2048) :: rat\<bar> \<le> 2 ^ 23"
    using rounded_axis_bounds[OF assms] by (simp flip: of_int_abs)
  ultimately have add: "float_add binary32 (Finite (of_int (rounded_axis x))) 2048 = Finite (of_int (2048 + rounded_axis x))"
    by (simp add: round_to_binary32 add.commute)
  have "normalized_axis_to_raw (Finite x) =
      word_of_int (float_to_int 0 65535 (float_add binary32 (Finite (of_int (rounded_axis x))) 2048))"
    using mul by (simp add: normalized_axis_to_raw_def stick_distances rounded_axis_def Let_def del: float_add.simps)
  then show ?thesis
    unfolding add using rounded_axis_bounds[OF assms] by (simp add: truncated_def raw_axis_def del: wi_hom_add wi_hom_syms)
qed

lemma rounded_axis_error:
  assumes "\<bar>x\<bar> \<le> 1"
  shows "\<bar>of_int (2048 + rounded_axis x) - scaled_axis x\<bar> \<le> 1 / 2 + 1 / 8192"
proof -
  define p where "p = x * (if x < 0 then 2048 else 2047)"
  have p: "\<bar>p\<bar> < two_to 12"
    using abs_scaled_le[OF assms, of 2048] abs_scaled_le[OF assms, of 2047]
    by (auto simp: p_def two_to_def)
  have "rounding_unit binary32 p \<le> two_to (- 12)" if "p \<noteq> 0"
  proof -
    have "two_to (binade \<bar>p\<bar>) < two_to 12"
      using binade_bounds(1)[of "\<bar>p\<bar>"] that p by linarith
    then show ?thesis
      by (simp add: rounding_unit_def two_to_less_iff two_to_mono)
  qed
  then have "\<bar>nearest binary32 p - p\<bar> \<le> 1 / 8192"
    using nearest_error[of binary32 p] by (cases "p = 0") (simp_all add: two_to_def)
  then have "\<bar>of_int (ties_even (nearest binary32 p)) - p\<bar> \<le> 1 / 2 + 1 / 8192"
    using ties_even_error[of "nearest binary32 p"] by linarith
  then show ?thesis
    by (simp add: rounded_axis_def scaled_axis_def p_def)
qed

lemma axis_input_to_raw_eq:
  assumes "nearest binary32 x = x"
  shows "axis_input_to_raw (Finite x) (- 1) 1 1 =
    (if \<bar>x\<bar> \<le> 1 then Inr (raw_axis x) else Inl (new_error InvalidInput))"
proof (cases "\<bar>x\<bar> \<le> 1")
  case True
  then have "\<bar>x\<bar> \<le> 2 ^ 23"
    by simp
  then have "float_mul binary32 (Finite x) 1 = Finite x"
    using assms by (simp add: round_to_binary32)
  with True show ?thesis
    by (simp add: axis_input_to_raw_def normalized_axis_to_raw_eq abs_le_iff)
next
  case False
  then have "\<not> (- 1 \<le> x \<and> x \<le> 1)"
    by (auto simp: abs_le_iff)
  then show ?thesis
    using False by (simp add: axis_input_to_raw_def)
qed

lemma unat_axis:
  assumes "\<bar>x\<bar> \<le> 1"
  shows "int (unat (raw_axis x)) = 2048 + rounded_axis x"
proof -
  have "uint (raw_axis x) = (2048 + rounded_axis x) mod 2 ^ 16"
    unfolding raw_axis_def by (simp only: uint_word_of_int) simp
  then show ?thesis
    using rounded_axis_bounds[OF assms] by simp
qed

lemma rounded_axis_ends: "rounded_axis (- 1) = - 2048" "rounded_axis 0 = 0" "rounded_axis 1 = 2047"
proof -
  have "nearest binary32 (of_int (- 2048)) = of_int (- 2048)" "nearest binary32 (of_int 2047) = of_int 2047"
    by (intro nearest_int; simp)+
  then show "rounded_axis (- 1) = - 2048" "rounded_axis 0 = 0" "rounded_axis 1 = 2047"
    using ties_even_of_int[of "- 2048"] ties_even_of_int[of 2047]
    by (simp_all add: rounded_axis_def)
qed

lemma raw_axis_ends: "raw_axis (- 1) = stick_min" "raw_axis 0 = stick_center_axis" "raw_axis 1 = stick_max"
  by (simp_all add: raw_axis_def rounded_axis_ends stick_min_def stick_center_axis_def stick_max_def)

lemma axis_directions:
  assumes "nearest binary32 x = x"
  shows "axis_input_to_raw (Finite x) 0 1 1 =
      (if 0 \<le> x then axis_input_to_raw (Finite x) (- 1) 1 1 else Inl (new_error InvalidInput))"
    and "axis_input_to_raw (Finite x) 0 1 (- 1) =
      (if 0 \<le> x then axis_input_to_raw (Finite (- x)) (- 1) 1 1 else Inl (new_error InvalidInput))"
  by (auto simp: axis_input_to_raw_def)

text \<open>
  C29: a stick given in units is rejected exactly when an axis is not a number between -1 and 1; otherwise
  each axis is a valid raw axis within 0.5002 of the exact position, the ends and the centre are met exactly, and
  a larger input never gives a smaller axis.  The tilt constructors are the same positions on one axis.
\<close>

theorem normalized_sticks_scale_axes:
  assumes "nearest binary32 x = x" and "nearest binary32 y = y"
  shows "(if \<bar>x\<bar> \<le> 1 \<and> \<bar>y\<bar> \<le> 1
      then \<exists>s. stick_normalized (Finite x) (Finite y) = Inr s \<and> valid_stick s
        \<and> \<bar>of_nat (unat (stick_x s)) - scaled_axis x\<bar> \<le> 1 / 2 + 1 / 8192
        \<and> \<bar>of_nat (unat (stick_y s)) - scaled_axis y\<bar> \<le> 1 / 2 + 1 / 8192
        \<and> (x = - 1 \<longrightarrow> stick_x s = stick_min) \<and> (x = 0 \<longrightarrow> stick_x s = stick_center_axis)
        \<and> (x = 1 \<longrightarrow> stick_x s = stick_max) \<and> (x \<le> y \<longrightarrow> stick_x s \<le> stick_y s)
      else stick_normalized (Finite x) (Finite y) = Inl (new_error InvalidInput))
    \<and> (\<forall>v w. \<not> float_is_finite v \<or> \<not> float_is_finite w \<longrightarrow> stick_normalized v w = Inl (new_error InvalidInput))
    \<and> stick_up (Finite y) = (if 0 \<le> y then stick_normalized (Finite 0) (Finite y) else Inl (new_error InvalidInput))
    \<and> stick_down (Finite y) = (if 0 \<le> y then stick_normalized (Finite 0) (Finite (- y)) else Inl (new_error InvalidInput))
    \<and> stick_left (Finite y) = (if 0 \<le> y then stick_normalized (Finite (- y)) (Finite 0) else Inl (new_error InvalidInput))
    \<and> stick_right (Finite y) = (if 0 \<le> y then stick_normalized (Finite y) (Finite 0) else Inl (new_error InvalidInput))"
proof -
  have center: "axis_input_to_raw (Finite 0) (- 1) 1 1 = Inr stick_center_axis"
    using axis_input_to_raw_eq[of 0] by (simp add: raw_axis_ends)
  have neg: "nearest binary32 (- y) = - y"
    using assms(2) by (simp add: nearest_uminus)
  have axis: "axis_input_to_raw (Finite (- y)) (- 1) 1 1 = Inl (new_error InvalidInput)
      \<or> (\<exists>v. axis_input_to_raw (Finite (- y)) (- 1) 1 1 = Inr v)"
      "axis_input_to_raw (Finite y) (- 1) 1 1 = Inl (new_error InvalidInput)
      \<or> (\<exists>v. axis_input_to_raw (Finite y) (- 1) 1 1 = Inr v)"
    by (simp_all add: axis_input_to_raw_def)
  have tilts: "stick_up (Finite y) = (if 0 \<le> y then stick_normalized (Finite 0) (Finite y) else Inl (new_error InvalidInput))"
    "stick_down (Finite y) = (if 0 \<le> y then stick_normalized (Finite 0) (Finite (- y)) else Inl (new_error InvalidInput))"
    "stick_left (Finite y) = (if 0 \<le> y then stick_normalized (Finite (- y)) (Finite 0) else Inl (new_error InvalidInput))"
    "stick_right (Finite y) = (if 0 \<le> y then stick_normalized (Finite y) (Finite 0) else Inl (new_error InvalidInput))"
    using axis
    by (auto simp: stick_up_def stick_down_def stick_left_def stick_right_def stick_normalized_def center
        axis_directions[OF assms(2)])
  have "stick_normalized v w = Inl (new_error InvalidInput)" if "\<not> float_is_finite v \<or> \<not> float_is_finite w" for v w
    using that by (auto simp: stick_normalized_def axis_input_to_raw_def)
  moreover have "\<bar>of_nat (unat (raw_axis z)) - scaled_axis z\<bar> \<le> 1 / 2 + 1 / 8192"
    if "\<bar>z\<bar> \<le> 1" for z
    using rounded_axis_error[OF that] unat_axis[OF that] by (metis of_int_of_nat_eq)
  moreover have "stick_x s \<le> stick_y s" if "s = \<lparr>stick_x = raw_axis x, stick_y = raw_axis y\<rparr>"
      "\<bar>x\<bar> \<le> 1" "\<bar>y\<bar> \<le> 1" "x \<le> y" for s
    using unat_axis[of x] unat_axis[of y] rounded_axis_mono[of x y] that by (simp add: word_le_def)
  moreover have "(raw_axis z) \<le> stick_max" if "\<bar>z\<bar> \<le> 1" for z
    using unat_axis[OF that] rounded_axis_bounds[OF that] by (simp add: stick_max_def word_le_def)
  ultimately show ?thesis
    using tilts assms
    by (simp add: stick_normalized_def axis_input_to_raw_eq valid_stick_def raw_axis_ends)
qed

lemma normalized_sticks_scale_axes_witness:
  "nearest binary32 (1 / 2) = 1 / 2 \<and> (\<exists>s. stick_normalized (Finite (1 / 2)) (Finite 1) = Inr s \<and> valid_stick s)"
proof -
  have half: "nearest binary32 (1 / 2) = 1 / 2"
    by code_simp
  have one: "nearest binary32 1 = 1"
    by code_simp
  show ?thesis
    using normalized_sticks_scale_axes[OF half one] half by simp blast
qed

section \<open>Frames\<close>

lemma unit_constants:
  "accel_g_per_raw = 1 / 4096" "pi_constant = 884279719003555 / 281474976710656"
  "gyro_dps_per_raw_value = 1261007895663739 / 18014398509481984"
  by code_simp+

lemma degree_constants:
  "f64_constant (180 / pi_constant) = 1007958012753983 / 17592186044416"
  "f64_constant (pi_constant / 180) = 5030569068109113 / 288230376151711744"
  by code_simp+

lemma rounded_i16_close:
  assumes "\<bar>x - of_int k\<bar> < 1 / 2" "- 32768 \<le> k" "k \<le> 32767"
  shows "rounded_i16 (Finite x) = Inr (word_of_int k)"
proof -
  have "ties_even x = k"
    by (rule ties_even_close[OF assms(1)])
  then show ?thesis
    using assms(2,3) by (simp add: rounded_i16_def truncated_def)
qed

lemma acceleration_roundtrip:
  assumes "- 32768 \<le> k" "k \<le> 32767"
  shows "acceleration_to_raw (float_mul binary64 (Finite (of_int k)) accel_g_per_raw) = Inr (word_of_int k)"
proof -
  have "nearest binary64 (of_int k * two_to (- 12)) = of_int k * two_to (- 12)"
    using assms by (intro nearest_exact) simp_all
  moreover have "nearest binary64 (of_int k) = of_int k"
    using assms by (intro nearest_int) simp_all
  moreover have "\<bar>of_int k :: rat\<bar> \<le> 32768"
    using assms by (simp flip: of_int_abs)
  ultimately show ?thesis
    using rounded_i16_close[of "of_int k" k] assms
    by (simp add: acceleration_to_raw_def float_div_def unit_constants round_to_binary64 two_to_def)
qed

text \<open>One rounded product of a positive value, from bounds to bounds.\<close>

lemma nearest_product_bounds:
  assumes "r * lo \<le> x \<and> x \<le> r * hi" "0 < c" "0 < lo" "1 \<le> r" "two_to (- 1022) \<le> lo * c"
  shows "r * (lo * c * (1 - 1 / 2 ^ 53)) \<le> nearest binary64 (x * c)
    \<and> nearest binary64 (x * c) \<le> r * (hi * c * (1 + 1 / 2 ^ 53))"
proof
  have xc: "r * (lo * c) \<le> x * c" "x * c \<le> r * (hi * c)"
    using assms mult_right_mono[of "r * lo" x c] mult_right_mono[of x "r * hi" c] by (simp_all add: mult.assoc)
  have "1 * (lo * c) \<le> r * (lo * c)"
    using assms by (intro mult_right_mono) simp_all
  then have "two_to (ff_min_exponent binary64) \<le> x * c"
    using xc assms by (simp only: binary_formats mult_1)
  then have err: "\<bar>nearest binary64 (x * c) - x * c\<bar> \<le> x * c / 2 ^ 53"
    using nearest_relative_error[of binary64 "x * c"] by simp
  have "r * (lo * c * (1 - 1 / 2 ^ 53)) = r * (lo * c) * (1 - 1 / 2 ^ 53)"
    by (simp add: mult.assoc)
  also have "\<dots> \<le> x * c * (1 - 1 / 2 ^ 53)"
    using xc by (intro mult_right_mono) simp_all
  also have "\<dots> = x * c - x * c / 2 ^ 53"
    by (simp add: right_diff_distrib)
  also have "\<dots> \<le> nearest binary64 (x * c)"
    using abs_le_D2[OF err] by linarith
  finally show "r * (lo * c * (1 - 1 / 2 ^ 53)) \<le> nearest binary64 (x * c)" .
  have "nearest binary64 (x * c) \<le> x * c + x * c / 2 ^ 53"
    using abs_le_D1[OF err] by linarith
  also have "\<dots> = x * c * (1 + 1 / 2 ^ 53)"
    by (simp add: distrib_left)
  also have "\<dots> \<le> r * (hi * c) * (1 + 1 / 2 ^ 53)"
    using xc by (intro mult_right_mono) simp_all
  finally show "nearest binary64 (x * c) \<le> r * (hi * c * (1 + 1 / 2 ^ 53))"
    by (simp add: mult.assoc)
qed

definition rate_chain :: "rat \<Rightarrow> rat" where
  "rate_chain r =
     nearest binary64 (nearest binary64 (nearest binary64 (nearest binary64 (r * gyro_dps_per_raw_value)
        * f64_constant (pi_constant / 180)) * f64_constant (180 / pi_constant)) * (1 / gyro_dps_per_raw_value))"

lemma small_two_to: "1 / 2 ^ 60 \<le> z \<Longrightarrow> two_to (- 1022) \<le> z"
  using two_to_mono[of "- 1022" "- 60"] by (simp add: two_to_def)


lemma rate_chain_bounds:
  assumes "1 \<le> r"
  shows "r * (1 - 1 / 10 ^ 12) \<le> rate_chain r" "rate_chain r \<le> r * (1 + 1 / 10 ^ 12)"
proof -
  let ?g = "1261007895663739 / 18014398509481984 :: rat"
  let ?rad = "5030569068109113 / 288230376151711744 :: rat"
  let ?deg = "1007958012753983 / 17592186044416 :: rat"
  let ?dn = "1 - 1 / 2 ^ 53 :: rat" and ?up = "1 + 1 / 2 ^ 53 :: rat"
  note step = nearest_product_bounds[OF _ _ _ assms small_two_to]
  have s1: "r * (1 * ?g * ?dn) \<le> nearest binary64 (r * ?g) \<and> nearest binary64 (r * ?g) \<le> r * (1 * ?g * ?up)"
    by (rule step) simp_all
  have s2: "r * (1 * ?g * ?dn * ?rad * ?dn) \<le> nearest binary64 (nearest binary64 (r * ?g) * ?rad)
    \<and> nearest binary64 (nearest binary64 (r * ?g) * ?rad) \<le> r * (1 * ?g * ?up * ?rad * ?up)"
    by (rule step[OF s1]) simp_all
  have s3: "r * (1 * ?g * ?dn * ?rad * ?dn * ?deg * ?dn)
      \<le> nearest binary64 (nearest binary64 (nearest binary64 (r * ?g) * ?rad) * ?deg)
    \<and> nearest binary64 (nearest binary64 (nearest binary64 (r * ?g) * ?rad) * ?deg)
      \<le> r * (1 * ?g * ?up * ?rad * ?up * ?deg * ?up)"
    by (rule step[OF s2]) simp_all
  have s4: "r * (1 * ?g * ?dn * ?rad * ?dn * ?deg * ?dn * (1 / ?g) * ?dn) \<le> rate_chain r
    \<and> rate_chain r \<le> r * (1 * ?g * ?up * ?rad * ?up * ?deg * ?up * (1 / ?g) * ?up)"
    unfolding rate_chain_def degree_constants unfolding unit_constants by (rule step[OF s3]) simp_all
  have "r * (1 - 1 / 10 ^ 12) \<le> r * (1 * ?g * ?dn * ?rad * ?dn * ?deg * ?dn * (1 / ?g) * ?dn)"
    using assms by (intro mult_left_mono) simp_all
  then show "r * (1 - 1 / 10 ^ 12) \<le> rate_chain r"
    using s4 by linarith
  have "r * (1 * ?g * ?up * ?rad * ?up * ?deg * ?up * (1 / ?g) * ?up) \<le> r * (1 + 1 / 10 ^ 12)"
    using assms by (intro mult_left_mono) simp_all
  then show "rate_chain r \<le> r * (1 + 1 / 10 ^ 12)"
    using s4 by linarith
qed


lemma rate_chain_uminus: "rate_chain (- r) = - rate_chain r"
  by (simp add: rate_chain_def nearest_uminus)

lemma rate_chain_close:
  assumes "- 32768 \<le> k" "k \<le> 32767"
  shows "\<bar>rate_chain (of_int k) - of_int k\<bar> < 1 / 2"
proof -
  have pos: "\<bar>rate_chain (of_int n) - of_int n\<bar> < 1 / 2" if "1 \<le> n" "n \<le> 32768" for n
  proof -
    have n: "1 \<le> (of_int n :: rat)" "(of_int n :: rat) \<le> 32768"
      using that by simp_all
    have "\<bar>rate_chain (of_int n) - of_int n\<bar> \<le> of_int n / 10 ^ 12"
      using rate_chain_bounds[OF n(1)] by (intro abs_leI) (simp_all add: field_simps)
    then show ?thesis
      using n by simp
  qed
  consider "1 \<le> k" | "k = 0" | "1 \<le> - k"
    by linarith
  then show ?thesis
  proof cases
    case 2
    then show ?thesis by (simp add: rate_chain_def)
  next
    case 3
    then show ?thesis
      using pos[of "- k"] assms rate_chain_uminus[of "of_int k"] by (simp add: abs_if split: if_splits)
  qed (use pos assms in simp)
qed

lemma bounded_product:
  assumes "\<bar>x\<bar> \<le> 2 ^ a" "\<bar>c\<bar> \<le> 2 ^ b" "a + b \<le> 52"
  shows "float_mul binary64 (Finite x) c = Finite (nearest binary64 (x * c))
    \<and> \<bar>nearest binary64 (x * c)\<bar> \<le> 2 ^ (a + b)"
proof -
  have le: "\<bar>x * c\<bar> \<le> of_int (2 ^ (a + b))"
    using assms(1,2) by (simp add: abs_mult power_add mult_mono)
  have "(2 :: int) ^ (a + b) < 2 ^ 53"
    using assms(3) by (intro power_strict_increasing) simp_all
  then have "\<bar>nearest binary64 (x * c)\<bar> \<le> of_int (2 ^ (a + b))"
    by (intro nearest_bounded[OF le]) simp_all
  moreover have "\<bar>x * c\<bar> \<le> 2 ^ 52"
    using le power_increasing[OF assms(3), of "2 :: rat"] by simp
  ultimately show ?thesis
    by (simp add: round_to_binary64)
qed

lemma constant_bounds:
  "\<bar>gyro_dps_per_raw_value\<bar> \<le> 2 ^ 0" "\<bar>f64_constant (pi_constant / 180)\<bar> \<le> 2 ^ 0"
  "\<bar>f64_constant (180 / pi_constant)\<bar> \<le> 2 ^ 6" "\<bar>1 / gyro_dps_per_raw_value\<bar> \<le> 2 ^ 4"
  unfolding degree_constants unfolding unit_constants by simp_all

lemma gyro_roundtrip:
  assumes "- 32768 \<le> k" "k \<le> 32767"
  shows "gyro_rate_to_raw (to_radians (float_mul binary64 (Finite (of_int k)) gyro_dps_per_raw_value)) =
    Inr (word_of_int k)"
proof -
  let ?a = "nearest binary64 (of_int k * gyro_dps_per_raw_value)"
  let ?b = "nearest binary64 (?a * f64_constant (pi_constant / 180))"
  let ?c = "nearest binary64 (?b * f64_constant (180 / pi_constant))"
  have k: "\<bar>of_int k :: rat\<bar> \<le> 2 ^ 15"
    using assms by (simp flip: of_int_abs)
  have a: "float_mul binary64 (Finite (of_int k)) gyro_dps_per_raw_value = Finite ?a \<and> \<bar>?a\<bar> \<le> 2 ^ (15 + 0)"
    by (rule bounded_product[OF k constant_bounds(1)]) simp
  have b: "float_mul binary64 (Finite ?a) (f64_constant (pi_constant / 180)) = Finite ?b \<and> \<bar>?b\<bar> \<le> 2 ^ (15 + 0 + 0)"
    by (rule bounded_product[OF conjunct2[OF a] constant_bounds(2)]) simp
  have c: "float_mul binary64 (Finite ?b) (f64_constant (180 / pi_constant)) = Finite ?c
      \<and> \<bar>?c\<bar> \<le> 2 ^ (15 + 0 + 0 + 6)"
    by (rule bounded_product[OF conjunct2[OF b] constant_bounds(3)]) simp
  have d: "float_mul binary64 (Finite ?c) (1 / gyro_dps_per_raw_value) = Finite (rate_chain (of_int k))"
    unfolding rate_chain_def
    by (rule conjunct1[OF bounded_product[OF conjunct2[OF c] constant_bounds(4)]]) simp
  show ?thesis
    using rounded_i16_close[OF rate_chain_close[OF assms] assms]
    by (simp only: gyro_rate_to_raw_def to_radians_def to_degrees_def float_div_def conjunct1[OF a] conjunct1[OF b]
        conjunct1[OF c] d)
qed

text \<open>
  C30: physical units lose nothing and never wrap.  Converting a frame's gyroscope axes to radians per second
  and back, and its accelerometer axes to G and back, returns the same raw axes for every 16-bit value; a value that
  is not finite or that rounds outside the 16-bit range is refused, never truncated.
\<close>

theorem imu_units_roundtrip:
  "gyro_rate (to_gyro_rate frame) = Inr (imu_frame_raw (0, 0, 0) (gyro frame))
   \<and> accel_g (to_accel_g frame) = Inr (imu_frame_raw (accel frame) (0, 0, 0))
   \<and> with_gyro_rate frame (to_gyro_rate frame) = Inr frame \<and> with_accel_g frame (to_accel_g frame) = Inr frame
   \<and> (case rounded_i16 v of
        Inl e \<Rightarrow> e = new_error InvalidInput
          \<and> \<not> (\<exists>x. v = Finite x \<and> - (2 ^ 15) \<le> ties_even x \<and> ties_even x \<le> 2 ^ 15 - 1)
      | Inr r \<Rightarrow> \<exists>x. v = Finite x \<and> sint r = ties_even x \<and> \<bar>of_int (sint r) - x\<bar> \<le> 1 / 2)"
proof -
  have range: "- 32768 \<le> sint r" "sint r \<le> 32767" for r :: i16
    using sint_ge[of r] sint_lt[of r] by simp_all
  have g: "gyro_rate_to_raw (to_radians (float_mul binary64 (Finite (of_int (sint r))) gyro_dps_per_raw_value)) = Inr r" for r :: i16
    using gyro_roundtrip[OF range, of r] by (simp del: float_mul.simps)
  have a: "acceleration_to_raw (float_mul binary64 (Finite (of_int (sint r))) accel_g_per_raw) = Inr r" for r :: i16
    using acceleration_roundtrip[OF range, of r] by (simp del: float_mul.simps)
  obtain gx gy gz ax ay az where f: "gyro frame = (gx, gy, gz)" "accel frame = (ax, ay, az)"
    by (metis prod_cases3)
  have rates: "gyro_rate (to_gyro_rate frame) = Inr (imu_frame_raw (0, 0, 0) (gyro frame))"
    unfolding gyro_rate_def to_gyro_rate_def f map_axes.simps convert_axes.simps g by simp
  have accels: "accel_g (to_accel_g frame) = Inr (imu_frame_raw (accel frame) (0, 0, 0))"
    unfolding accel_g_def to_accel_g_def f map_axes.simps convert_axes.simps a by simp
  have "with_gyro_rate frame (to_gyro_rate frame) = Inr frame" "with_accel_g frame (to_accel_g frame) = Inr frame"
    by (simp_all add: with_gyro_rate_def with_accel_g_def rates accels imu_frame_raw_def with_gyro_def with_accel_def)
  moreover have "sint (word_of_int k :: i16) = k" "(signed (word_of_int k :: i16) :: rat) = of_int k"
    if "- 32768 \<le> k" "k \<le> 32767" for k
    using that by (simp_all add: signed_of_int signed_take_bit_int_eq_self)
  ultimately show ?thesis
    using rates accels ties_even_error
    by (cases v) (auto simp: rounded_i16_def truncated_def abs_minus_commute)
qed

end
