(* ===== verification/ToolWorld.thy ===== *)
theory ToolWorld
  imports Controller FileStore Json UnitInput DiagnosticsRecord
begin

text \<open>
  What \<open>tools/swbt-hardware-runner\<close> and \<open>tools/swbt-probe\<close> do with the library: controllers of the six types behind
  one type, as the tools' enums and type parameters have them, and calls on them, on the file system and on the
  clock as a state monad.

  \<open>tool_env\<close> holds what the surroundings decide, each as a stream indexed by the moment of the call: the platform
  of every controller that is built, how many iterations of its loop the worker runs during a pause, the clocks, and
  whether standard output takes a line.  A call that does not return, and a panic, is \<open>None\<close>.
\<close>

section \<open>The world of a tool\<close>

record ('h, 't) tool_env =
  tl_json :: json_codec
  tl_parse_value :: "string \<Rightarrow> json_value option"
  tl_pretty_value :: "json_value \<Rightarrow> string option"
  tl_writer :: "'h atomic_writer"
  tl_platform :: "nat \<Rightarrow> 't platform"
  tl_runs :: "nat \<Rightarrow> duration \<Rightarrow> nat"
  tl_instant :: "nat \<Rightarrow> duration"
  tl_unix :: "nat \<Rightarrow> duration"
  tl_prints :: "nat \<Rightarrow> bool"

record tool_world =
  tw_fs :: fs_world
  tw_builds :: nat
  tw_moment :: nat
  tw_lines :: "json_object list"   \<comment> \<open>what is on standard output\<close>

type_synonym 'a tool = "tool_world \<Rightarrow> ('a \<times> tool_world) option"

definition tool_return :: "'a \<Rightarrow> 'a tool" where
  "tool_return a w = Some (a, w)"

definition tool_bind :: "'a tool \<Rightarrow> ('a \<Rightarrow> 'b tool) \<Rightarrow> 'b tool" where
  "tool_bind m f w = (case m w of None \<Rightarrow> None | Some (a, w) \<Rightarrow> f a w)"

definition tool_stuck :: "'a tool" where
  "tool_stuck w = None"

text \<open>One more moment, and what it decides.\<close>

definition tool_moment :: "(nat \<Rightarrow> 'a) \<Rightarrow> 'a tool" where
  "tool_moment f w = Some (f (tw_moment w), w\<lparr>tw_moment := tw_moment w + 1\<rparr>)"

text \<open>\<open>Instant::now\<close> and \<open>Instant::elapsed\<close>.\<close>

definition tool_now :: "('h, 't) tool_env \<Rightarrow> duration tool" where
  "tool_now E = tool_moment (tl_instant E)"

definition tool_elapsed :: "('h, 't) tool_env \<Rightarrow> duration \<Rightarrow> duration tool" where
  "tool_elapsed E started = tool_bind (tool_now E) (\<lambda>now. tool_return (now - started))"

definition tool_io :: "'a io \<Rightarrow> ('a, io_error) result tool" where
  "tool_io m w = (case m (tw_fs w) of (fs, r) \<Rightarrow> Some (r, w\<lparr>tw_fs := fs\<rparr>))"

section \<open>Controllers of every type\<close>

datatype 't any_controller =
    PeriodicController "(duration, periodic_command, periodic_runtime, 't) controller"
  | DirectController "(unit, direct_command, direct_runtime, 't) controller"

record 't hardware_controller =
  hc_model :: controller_kind
  hc_platform :: "'t platform"
  hc_controller :: "'t any_controller"

fun any_status :: "'t any_controller \<Rightarrow> status_projection" where
  "any_status (PeriodicController c) = controller_status c"
| "any_status (DirectController c) = controller_status c"

definition hw_status :: "'t hardware_controller \<Rightarrow> status_projection" where
  "hw_status hc = any_status (hc_controller hc)"

definition hw_snapshot_neutral :: "'t hardware_controller \<Rightarrow> bool" where
  "hw_snapshot_neutral hc \<longleftrightarrow> st_snapshot (hw_status hc) = input_neutral"

fun any_reporting :: "'t any_controller \<Rightarrow> reporting_kind" where
  "any_reporting (PeriodicController c) = PeriodicKind"
| "any_reporting (DirectController c) = DirectKind"

definition hw_reporting :: "'t hardware_controller \<Rightarrow> reporting_kind" where
  "hw_reporting hc = any_reporting (hc_controller hc)"

text \<open>A call on whichever controller it is.\<close>

type_synonym ('t, 'a) call = "'t hardware_controller \<Rightarrow> (('a, error) result \<times> 't hardware_controller) tool"

definition hw_call ::
  "('t hardware_controller \<Rightarrow> (duration, periodic_command, periodic_runtime, 't) controller
      \<Rightarrow> (duration, periodic_command, periodic_runtime, 't) controller \<times> ('a, error) result option)
   \<Rightarrow> ('t hardware_controller \<Rightarrow> (unit, direct_command, direct_runtime, 't) controller
      \<Rightarrow> (unit, direct_command, direct_runtime, 't) controller \<times> ('a, error) result option)
   \<Rightarrow> ('t, 'a) call" where
  "hw_call periodic direct hc w =
     (case (case hc_controller hc of
              PeriodicController c \<Rightarrow> (case periodic hc c of (c, r) \<Rightarrow> (PeriodicController c, r))
            | DirectController c \<Rightarrow> (case direct hc c of (c, r) \<Rightarrow> (DirectController c, r))) of
        (c, None) \<Rightarrow> None
      | (c, Some r) \<Rightarrow> Some ((r, hc\<lparr>hc_controller := c\<rparr>), w))"

definition hw_open :: "('t, unit) call" where
  "hw_open =
     hw_call (\<lambda>hc. controller_open periodic_reporting periodic_mode (hc_platform hc) (hc_model hc))
       (\<lambda>hc. controller_open direct_reporting direct_mode (hc_platform hc) (hc_model hc))"

definition hw_reconnect :: "duration \<Rightarrow> ('t, unit) call" where
  "hw_reconnect timeout =
     hw_call (\<lambda>hc. controller_reconnect periodic_reporting (hc_platform hc) timeout)
       (\<lambda>hc. controller_reconnect direct_reporting (hc_platform hc) timeout)"

definition hw_press :: "button_kind list \<Rightarrow> ('t, unit) call" where
  "hw_press buttons =
     hw_call (\<lambda>hc. controller_press periodic_reporting periodic_mode (hc_platform hc) buttons)
       (\<lambda>hc. controller_press direct_reporting direct_mode (hc_platform hc) buttons)"

definition hw_release :: "button_kind list \<Rightarrow> ('t, unit) call" where
  "hw_release buttons =
     hw_call (\<lambda>hc. controller_release periodic_reporting periodic_mode (hc_platform hc) buttons)
       (\<lambda>hc. controller_release direct_reporting direct_mode (hc_platform hc) buttons)"

definition hw_tap :: "button_kind list \<Rightarrow> duration \<Rightarrow> ('t, unit) call" where
  "hw_tap buttons d =
     hw_call (\<lambda>hc. controller_tap periodic_reporting periodic_mode (hc_platform hc) buttons d)
       (\<lambda>hc. controller_tap direct_reporting direct_mode (hc_platform hc) buttons d)"

text \<open>\<open>apply\<close> of a periodic controller, \<open>send\<close> of a direct one.\<close>

definition hw_send_state :: "input_state \<Rightarrow> ('t, unit) call" where
  "hw_send_state state =
     hw_call (\<lambda>hc. controller_apply (hc_platform hc) state) (\<lambda>hc. controller_send (hc_platform hc) state)"

definition hw_neutral :: "('t, unit) call" where
  "hw_neutral =
     hw_call (\<lambda>hc. controller_neutral periodic_reporting periodic_mode (hc_platform hc))
       (\<lambda>hc. controller_neutral direct_reporting direct_mode (hc_platform hc))"

definition hw_close :: "('t, unit) call" where
  "hw_close =
     hw_call (\<lambda>hc. controller_close periodic_reporting (hc_platform hc))
       (\<lambda>hc. controller_close direct_reporting (hc_platform hc))"

definition hw_close_without_neutral :: "('t, unit) call" where
  "hw_close_without_neutral =
     hw_call (\<lambda>hc. controller_close_without_neutral periodic_reporting (hc_platform hc))
       (\<lambda>hc. controller_close_without_neutral direct_reporting (hc_platform hc))"

definition hw_button :: "button_kind \<Rightarrow> ('t, button_kind) call" where
  "hw_button kind =
     hw_call (\<lambda>hc c. case controller_button (hc_model hc) kind c of (c, r) \<Rightarrow> (c, Some r))
       (\<lambda>hc c. case controller_button (hc_model hc) kind c of (c, r) \<Rightarrow> (c, Some r))"

text \<open>\<open>thread::sleep\<close>: the worker goes on.\<close>

definition run_runtime :: "('c, 'r, 't) worker_reporting \<Rightarrow> nat \<Rightarrow> ('g, 'c, 'r, 't) controller \<Rightarrow> ('g, 'c, 'r, 't) controller" where
  "run_runtime R n c =
     c\<lparr>ctl_runtime := map_option (\<lambda>rt. rt\<lparr>rt_owner := worker_runs R (rt_env rt) n (rt_owner rt)\<rparr>) (ctl_runtime c)\<rparr>"

fun any_runs :: "nat \<Rightarrow> 't any_controller \<Rightarrow> 't any_controller" where
  "any_runs n (PeriodicController c) = PeriodicController (run_runtime periodic_reporting n c)"
| "any_runs n (DirectController c) = DirectController (run_runtime direct_reporting n c)"

definition hw_sleep :: "('h, 't) tool_env \<Rightarrow> duration \<Rightarrow> 't hardware_controller \<Rightarrow> 't hardware_controller tool" where
  "hw_sleep E d hc =
     tool_bind (tool_moment (\<lambda>n. tl_runs E n d)) (\<lambda>n.
     tool_return (hc\<lparr>hc_controller := any_runs n (hc_controller hc)\<rparr>))"

text \<open>
  The worker's thread also goes on between two instructions of the tool: before the status is read it may have run.
\<close>

definition hw_observed :: "('h, 't) tool_env \<Rightarrow> 't hardware_controller \<Rightarrow> 't hardware_controller tool" where
  "hw_observed E hc = hw_sleep E 0 hc"

text \<open>\<open>ControllerBuilder::build\<close> and \<open>create_profile\<close> for a persistent profile.\<close>

definition next_platform :: "('h, 't) tool_env \<Rightarrow> 't platform tool" where
  "next_platform E w = Some (tl_platform E (tw_builds w), w\<lparr>tw_builds := tw_builds w + 1\<rparr>)"

definition tool_fs :: "(fs_world \<Rightarrow> fs_world \<times> 'a) \<Rightarrow> 'a tool" where
  "tool_fs f w = (case f (tw_fs w) of (fs, r) \<Rightarrow> Some (r, w\<lparr>tw_fs := fs\<rparr>))"

definition profile_builder ::
  "('o, 'g, 'c, 'r) reporting_mode \<Rightarrow> controller_kind \<Rightarrow> string \<Rightarrow> string \<Rightarrow> 'o controller_builder" where
  "profile_builder mode m adapter profile = with_profile_path profile (controller_builder_new mode m adapter)"

definition hw_build ::
  "('h, 't) tool_env \<Rightarrow> reporting_kind \<Rightarrow> controller_kind \<Rightarrow> string \<Rightarrow> string
   \<Rightarrow> ('t hardware_controller, error) result tool" where
  "hw_build E reporting m adapter profile =
     tool_bind (next_platform E) (\<lambda>P.
     let S = file_profile_store (tl_writer E);
         made = (\<lambda>c. \<lparr>hc_model = m, hc_platform = P, hc_controller = c\<rparr>)
     in case reporting of
          PeriodicKind \<Rightarrow>
            tool_bind (tool_fs (build_with_profile_reader (tl_json E) S periodic_mode m
                (profile_builder periodic_mode m adapter profile))) (\<lambda>r.
            tool_return (map_ok (\<lambda>config. made (PeriodicController (controller_from_config config))) r))
        | DirectKind \<Rightarrow>
            tool_bind (tool_fs (build_with_profile_reader (tl_json E) S direct_mode m
                (profile_builder direct_mode m adapter profile))) (\<lambda>r.
            tool_return (map_ok (\<lambda>config. made (DirectController (controller_from_config config))) r)))"

text \<open>The tools create profiles with a periodic controller only.\<close>

definition hw_create_profile ::
  "('h, 't) tool_env \<Rightarrow> controller_kind \<Rightarrow> string \<Rightarrow> string \<Rightarrow> create_profile_options
   \<Rightarrow> ('t hardware_controller, error) result tool" where
  "hw_create_profile E m adapter profile options =
     tool_bind (next_platform E) (\<lambda>P.
     tool_bind (tool_fs (create_profile_with periodic_reporting periodic_mode P (tl_json E)
         (file_profile_store (tl_writer E)) m (profile_builder periodic_mode m adapter profile) options)) (\<lambda>r.
     case r of
       None \<Rightarrow> tool_stuck
     | Some r \<Rightarrow>
         tool_return (map_ok (\<lambda>c. \<lparr>hc_model = m, hc_platform = P, hc_controller = PeriodicController c\<rparr>) r)))"

text \<open>
  \<open>settle\<close>: a periodic controller is left alone for two report periods.
\<close>

definition saturating_double :: "duration \<Rightarrow> duration" where
  "saturating_double d = min (2 * d) duration_max"

definition hw_settle :: "('h, 't) tool_env \<Rightarrow> 't hardware_controller \<Rightarrow> 't hardware_controller tool" where
  "hw_settle E hc =
     (case hc_controller hc of
        PeriodicController c \<Rightarrow> hw_sleep E (saturating_double (cf_mode (ctl_config c))) hc
      | DirectController c \<Rightarrow> tool_return hc)"

section \<open>Sequences of calls with \<open>?\<close>\<close>

definition call_then ::
  "('t, 'a) call \<Rightarrow> ('a \<Rightarrow> ('t, 'b) call) \<Rightarrow> ('t, 'b) call" where
  "call_then first rest hc =
     tool_bind (first hc) (\<lambda>(r, hc). case r of Inl e \<Rightarrow> tool_return (Inl e, hc) | Inr a \<Rightarrow> rest a hc)"

definition call_ok :: "('t, unit) call" where
  "call_ok hc = tool_return (Inr (), hc)"

text \<open>A step that cannot fail.\<close>

definition and_rest :: "('t hardware_controller \<Rightarrow> 't hardware_controller tool) \<Rightarrow> ('t, unit) call" where
  "and_rest step hc = tool_bind (step hc) call_ok"

fun call_all :: "('t, unit) call list \<Rightarrow> ('t, unit) call" where
  "call_all [] = call_ok"
| "call_all (c # cs) = call_then c (\<lambda>_. call_all cs)"

end
