(* ===== verification/RunnerEvidence.thy ===== *)
theory RunnerEvidence
  imports ToolWorld
begin

text \<open>
  \<open>src/support.rs\<close> of \<open>tools/swbt-hardware-runner\<close>: the events of evidence that the runner writes, one JSON object
  per line, and the check that the adapter can be opened again.

  \<open>evidence_target\<close> is the trait \<open>EvidenceTarget\<close>; \<open>sc_env\<close> with the target and the instant of the start is what the
  scenarios pass to every function.
\<close>

record evidence_target =
  et_schema :: string
  et_dimensions :: "(string \<times> json_value) list"
  et_error_name :: "error_kind \<Rightarrow> string"

definition evidence_schema_version :: nat where "evidence_schema_version = 1"

fun runner_error_name :: "error_kind \<Rightarrow> string" where
  "runner_error_name AdapterDiscovery = ''adapter_discovery''"
| "runner_error_name TransportOpen = ''transport_open''"
| "runner_error_name AdapterIdentityRecoveryRequired = ''adapter_identity_recovery_required''"
| "runner_error_name ProfilePathRequired = ''profile_path_required''"
| "runner_error_name ProfileNotFound = ''profile_not_found''"
| "runner_error_name ProfileAlreadyExists = ''profile_already_exists''"
| "runner_error_name InvalidProfile = ''invalid_profile''"
| "runner_error_name ProfileControllerMismatch = ''profile_controller_mismatch''"
| "runner_error_name InvalidKeyStore = ''invalid_key_store''"
| "runner_error_name TransportClosed = ''transport_closed''"
| "runner_error_name NoBond = ''no_bond''"
| "runner_error_name ConnectionTimeout = ''connection_timeout''"
| "runner_error_name ConnectionFailed = ''connection_failed''"
| "runner_error_name Protocol = ''protocol''"
| "runner_error_name InvalidInput = ''invalid_input''"
| "runner_error_name UnsupportedInput = ''unsupported_input''"
| "runner_error_name UnsupportedCapability = ''unsupported_capability''"
| "runner_error_name WorkerFailed = ''worker_failed''"
| "runner_error_name Shutdown = ''shutdown''"
| "runner_error_name Internal = ''internal''"

definition duration_ms :: "duration \<Rightarrow> nat" where
  "duration_ms d = min (d div 1000000) (2 ^ 64 - 1)"

section \<open>Events\<close>

record ('h, 't) scenario =
  sc_env :: "('h, 't) tool_env"
  sc_target :: evidence_target
  sc_started :: duration

definition evidence_event ::
  "evidence_target \<Rightarrow> duration \<Rightarrow> nat \<Rightarrow> string \<Rightarrow> (string \<times> json_value) list \<Rightarrow> json_object" where
  "evidence_event target unix_time elapsed_ms event entries =
     fold (\<lambda>(name, v). or_insert name v) (et_dimensions target @ entries)
       (json_fields
          [(''schema'', JsonString (et_schema target)),
           (''schema_version'', JsonNumber evidence_schema_version),
           (''unix_time_ms'', JsonNumber (duration_ms unix_time)),
           (''elapsed_ms'', JsonNumber elapsed_ms),
           (''event'', JsonString event)])"

text \<open>\<open>write_event\<close>: a line that standard output does not take is a panic.\<close>

definition write_event :: "('h, 't) tool_env \<Rightarrow> json_object \<Rightarrow> unit tool" where
  "write_event E v =
     tool_bind (tool_moment (tl_prints E)) (\<lambda>printed.
     if printed then (\<lambda>w. Some ((), w\<lparr>tw_lines := tw_lines w @ [v]\<rparr>)) else tool_stuck)"

definition evidence_emit :: "('h, 't) scenario \<Rightarrow> string \<Rightarrow> (string \<times> json_value) list \<Rightarrow> unit tool" where
  "evidence_emit sc event entries =
     tool_bind (tool_elapsed (sc_env sc) (sc_started sc)) (\<lambda>elapsed.
     tool_bind (tool_moment (tl_unix (sc_env sc))) (\<lambda>unix_time.
     write_event (sc_env sc) (evidence_event (sc_target sc) unix_time (duration_ms elapsed) event entries)))"

definition status_fields :: "'t hardware_controller \<Rightarrow> (string \<times> json_value) list" where
  "status_fields hc =
     (let st = hw_status hc in
      [(''lifecycle'', JsonString (lifecycle_name (st_lifecycle st))),
       (''connected'', JsonBool (st_connected st)),
       (''controller_kind'', JsonString (controller_kind_name (hc_model hc))),
       (''reporting_kind'', JsonString (reporting_name (hw_reporting hc))),
       (''report_mode'', json_optional (st_report_mode st)),
       (''input_reports_accepted'', json_number (st_input_reports_accepted st)),
       (''replies_accepted'', json_number (st_replies_accepted st)),
       (''last_subcommand'', json_optional (st_last_subcommand st)),
       (''last_disconnect_reason'', json_optional (st_last_disconnect_reason st)),
       (''worker_failure_present'', JsonBool (st_worker_failure st \<noteq> None))])"

definition emit_status ::
  "('h, 't) scenario \<Rightarrow> string \<Rightarrow> string option \<Rightarrow> 't hardware_controller \<Rightarrow> 't hardware_controller tool" where
  "emit_status sc event operation hc =
     tool_bind (hw_observed (sc_env sc) hc) (\<lambda>hc.
     tool_bind (evidence_emit sc event
       (status_fields hc @ [(''snapshot_neutral'', JsonBool (hw_snapshot_neutral hc))]
        @ (case operation of None \<Rightarrow> [] | Some operation \<Rightarrow> [(''operation'', JsonString operation)])))
       (\<lambda>_. tool_return hc))"

definition controller_failure_fields :: "evidence_target \<Rightarrow> string \<Rightarrow> error \<Rightarrow> (string \<times> json_value) list" where
  "controller_failure_fields target operation e =
     [(''operation'', JsonString operation),
      (''error_kind'', JsonString (et_error_name target (err_kind e))),
      (''related_failure_present'', JsonBool (related_error e \<noteq> None))]"

definition emit_controller_failure :: "('h, 't) scenario \<Rightarrow> string \<Rightarrow> error \<Rightarrow> unit tool" where
  "emit_controller_failure sc operation e =
     evidence_emit sc ''operation_failure'' (controller_failure_fields (sc_target sc) operation e)"

definition emit_fixed_failure :: "('h, 't) scenario \<Rightarrow> string \<Rightarrow> string \<Rightarrow> unit tool" where
  "emit_fixed_failure sc operation error_kind =
     evidence_emit sc ''operation_failure''
       [(''operation'', JsonString operation), (''error_kind'', JsonString error_kind),
        (''related_failure_present'', JsonBool False)]"

definition emit_completion :: "('h, 't) scenario \<Rightarrow> bool \<Rightarrow> unit tool" where
  "emit_completion sc success = evidence_emit sc ''runner_complete'' [(''success'', JsonBool success)]"

section \<open>Opening the adapter again\<close>

definition verify_adapter_reopen ::
  "('h, 't) scenario \<Rightarrow> ('t hardware_controller, error) result tool \<Rightarrow> bool tool" where
  "verify_adapter_reopen sc build =
     tool_bind (evidence_emit sc ''adapter_reopen_start'' []) (\<lambda>_.
     tool_bind build (\<lambda>built.
     case built of
       Inl e \<Rightarrow> tool_bind (emit_controller_failure sc ''adapter_reopen_build'' e) (\<lambda>_. tool_return False)
     | Inr hc \<Rightarrow>
         tool_bind (hw_open hc) (\<lambda>(r, hc).
         case r of
           Inl e \<Rightarrow> tool_bind (emit_controller_failure sc ''adapter_reopen_open'' e) (\<lambda>_. tool_return False)
         | Inr _ \<Rightarrow>
             tool_bind (hw_close_without_neutral hc) (\<lambda>(r, hc).
             case r of
               Inl e \<Rightarrow> tool_bind (emit_controller_failure sc ''adapter_reopen_close'' e) (\<lambda>_. tool_return False)
             | Inr _ \<Rightarrow>
                 tool_bind (emit_status sc ''adapter_reopen_complete'' None hc) (\<lambda>_. tool_return True)))))"

section \<open>Operations under observation\<close>

text \<open>
  The part that the three \<open>run_operation\<close> share: an action between \<open>operation_start\<close> and \<open>operation_complete\<close>, with
  the number of input reports accepted meanwhile.
\<close>

definition accepted_delta :: "u64 \<Rightarrow> 't hardware_controller \<Rightarrow> u64" where
  "accepted_delta before hc = saturating_sub_u64 (st_input_reports_accepted (hw_status hc)) before"

definition timed_operation ::
  "('h, 't) scenario \<Rightarrow> string \<Rightarrow> bool \<Rightarrow> ('t, unit) call
   \<Rightarrow> (bool \<Rightarrow> u64 \<Rightarrow> ('t, 'a) call) \<Rightarrow> (error \<Rightarrow> ('t, 'a) call) \<Rightarrow> ('t, 'a) call" where
  "timed_operation sc operation observation_required action completed failed hc =
     tool_bind (tool_now (sc_env sc)) (\<lambda>operation_started.
     tool_bind (hw_observed (sc_env sc) hc) (\<lambda>hc.
     let accepted_before = st_input_reports_accepted (hw_status hc) in
     tool_bind (evidence_emit sc ''operation_start''
         [(''operation'', JsonString operation), (''ui_observation_required'', JsonBool observation_required)]) (\<lambda>_.
     tool_bind (action hc) (\<lambda>(r, hc).
     case r of
       Inl e \<Rightarrow> tool_bind (emit_controller_failure sc operation e) (\<lambda>_. failed e hc)
     | Inr _ \<Rightarrow>
         tool_bind (hw_observed (sc_env sc) hc) (\<lambda>hc.
         let delta = accepted_delta accepted_before hc; connected = st_connected (hw_status hc) in
         tool_bind (tool_elapsed (sc_env sc) operation_started) (\<lambda>elapsed.
         tool_bind (evidence_emit sc ''operation_complete''
             [(''operation'', JsonString operation),
              (''operation_elapsed_ms'', JsonNumber (duration_ms elapsed)),
              (''input_reports_accepted_delta'', json_number delta),
              (''ui_observed'', JsonNull)]) (\<lambda>_.
         tool_bind (emit_status sc ''operation_status'' (Some operation) hc) (\<lambda>hc. completed connected delta hc))))))))"

text \<open>Accepted reports over a pause, between two events.\<close>

definition verify_idle ::
  "('h, 't) scenario \<Rightarrow> string \<Rightarrow> string \<Rightarrow> duration \<Rightarrow> ('t hardware_controller \<Rightarrow> (string \<times> json_value) list)
   \<Rightarrow> 't hardware_controller \<Rightarrow> (u64 \<times> 't hardware_controller) tool" where
  "verify_idle sc start_event complete_event pause extra hc =
     tool_bind (hw_observed (sc_env sc) hc) (\<lambda>hc.
     let accepted_before = st_input_reports_accepted (hw_status hc) in
     tool_bind (evidence_emit sc start_event [(''idle_ms'', JsonNumber (duration_ms pause))]) (\<lambda>_.
     tool_bind (hw_sleep (sc_env sc) pause hc) (\<lambda>hc.
     tool_bind (evidence_emit sc complete_event
         (extra hc @ [(''input_reports_accepted_delta'', json_number (accepted_delta accepted_before hc))])) (\<lambda>_.
     tool_return (accepted_delta accepted_before hc, hc)))))"

definition direct_idle :: duration where "direct_idle = from_millis 500"

definition verify_direct_idle ::
  "('h, 't) scenario \<Rightarrow> 't hardware_controller \<Rightarrow> (bool \<times> 't hardware_controller) tool" where
  "verify_direct_idle sc hc =
     tool_bind (verify_idle sc ''direct_idle_start'' ''direct_idle_complete'' direct_idle (\<lambda>_. []) hc)
       (\<lambda>(delta, hc). tool_return (delta = 0, hc))"

definition close_controller ::
  "('h, 't) scenario \<Rightarrow> bool \<Rightarrow> 't hardware_controller \<Rightarrow> (bool \<times> 't hardware_controller) tool" where
  "close_controller sc with_neutral hc =
     tool_bind (evidence_emit sc ''close_start'' [(''with_neutral'', JsonBool with_neutral)]) (\<lambda>_.
     tool_bind (if with_neutral then hw_close hc else hw_close_without_neutral hc) (\<lambda>(r, hc).
     case r of
       Inr _ \<Rightarrow> tool_bind (emit_status sc ''close_complete'' None hc) (\<lambda>hc. tool_return (True, hc))
     | Inl e \<Rightarrow> tool_bind (emit_controller_failure sc ''close'' e) (\<lambda>_. tool_return (False, hc))))"

end
