(* ===== verification/RunnerScenarios.thy ===== *)
theory RunnerScenarios
  imports RunnerEvidence RunnerArguments
begin

text \<open>
  The three scenarios of \<open>tools/swbt-hardware-runner/src/scenarios\<close>, with \<open>run\<close> of each and of \<open>src/lib.rs\<close>.

  \<open>fs::read\<close> and the other calls on files are those of FileStore.  The usage text that goes to standard error is
  left out; what matters is the exit code.
\<close>

section \<open>Steps that the scenarios share\<close>

definition sample_stick :: "(float_value \<Rightarrow> (stick, error) result) \<Rightarrow> (stick, error) result" where
  "sample_stick direction = direction (Finite 1)"

definition button_hold :: duration where "button_hold = from_millis 500"
definition stick_hold :: duration where "stick_hold = from_millis 500"

text \<open>Hold a state, then neutral.\<close>

definition hold_state :: "('h, 't) tool_env \<Rightarrow> input_state \<Rightarrow> duration \<Rightarrow> ('t, unit) call" where
  "hold_state E state hold =
     call_all [hw_send_state state, and_rest (hw_sleep E hold), hw_neutral, and_rest (hw_settle E)]"

definition neutral_and_settle :: "('h, 't) tool_env \<Rightarrow> ('t, unit) call" where
  "neutral_and_settle E = call_all [hw_neutral, and_rest (hw_settle E)]"

definition finish_with :: "('h, 't) scenario \<Rightarrow> bool \<Rightarrow> bool tool" where
  "finish_with sc success = tool_bind (emit_completion sc success) (\<lambda>_. tool_return success)"

text \<open>A function that borrows a controller or a value and ends the scenario.\<close>

definition exit_code :: "bool \<Rightarrow> u8" where
  "exit_code success = (if success then 0 else 1)"

section \<open>\<open>pro-periodic\<close>\<close>

definition pro_periodic_error_name :: "error_kind \<Rightarrow> string" where
  "pro_periodic_error_name kind =
     (if kind = InvalidKeyStore \<or> kind = NoBond then ''unknown'' else runner_error_name kind)"

definition pro_periodic_target :: "pro_periodic_args \<Rightarrow> evidence_target" where
  "pro_periodic_target args =
     \<lparr>et_schema = ''swbt.m5.pro-periodic'', et_dimensions = [(''run_index'', JsonNumber (pp_run_index args))],
      et_error_name = pro_periodic_error_name\<rparr>"

definition imu_hold :: duration where "imu_hold = from_secs 1"

definition pro_periodic_build ::
  "('h, 't) scenario \<Rightarrow> pro_periodic_args \<Rightarrow> ('t hardware_controller, error) result tool" where
  "pro_periodic_build sc args = hw_build (sc_env sc) PeriodicKind Pro (pp_adapter args) (pp_profile args)"

definition pro_periodic_operation ::
  "('h, 't) scenario \<Rightarrow> string \<Rightarrow> bool \<Rightarrow> ('t, unit) call \<Rightarrow> ('t, unit) call" where
  "pro_periodic_operation sc operation observation_required action =
     timed_operation sc operation observation_required action (\<lambda>_ _. call_ok) (\<lambda>e hc. tool_return (Inl e, hc))"

definition pro_tap :: "('h, 't) tool_env \<Rightarrow> button_kind list \<Rightarrow> ('t, unit) call" where
  "pro_tap E buttons = call_all [hw_tap buttons button_hold, and_rest (hw_settle E)]"

text \<open>The eight directions; an element's stick is made, or refused, before the loop begins.\<close>

definition stick_table :: "(string \<times> bool \<times> (float_value \<Rightarrow> (stick, error) result)) list" where
  "stick_table =
     [(''left_stick_up_500ms'', True, stick_up), (''left_stick_right_500ms'', True, stick_right),
      (''left_stick_down_500ms'', True, stick_down), (''left_stick_left_500ms'', True, stick_left),
      (''right_stick_up_500ms'', False, stick_up), (''right_stick_right_500ms'', False, stick_right),
      (''right_stick_down_500ms'', False, stick_down), (''right_stick_left_500ms'', False, stick_left)]"

fun make_sticks ::
  "(string \<times> bool \<times> (float_value \<Rightarrow> (stick, error) result)) list \<Rightarrow> ((string \<times> input_state) list, error) result" where
  "make_sticks [] = Inr []"
| "make_sticks ((operation, left, direction) # rest) =
     bind_result (sample_stick direction) (\<lambda>stick.
     bind_result (make_sticks rest) (\<lambda>states.
     Inr ((operation,
           if left then with_left_stick input_neutral stick else with_right_stick input_neutral stick) # states)))"

definition call_with :: "('a, error) result \<Rightarrow> ('a \<Rightarrow> ('t, 'b) call) \<Rightarrow> ('t, 'b) call" where
  "call_with r f hc = (case r of Inl e \<Rightarrow> tool_return (Inl e, hc) | Inr a \<Rightarrow> f a hc)"

definition pro_periodic_imu :: "(imu_frame, error) result" where
  "pro_periodic_imu =
     bind_result (accel_g (Finite (1 / 4), Finite (- 1 / 4), Finite (5 / 4))) (\<lambda>frame.
     with_gyro_rate frame (Finite (1 / 2), Finite (- 1 / 4), Finite (1 / 8)))"

definition pro_periodic_inputs :: "('h, 't) scenario \<Rightarrow> ('t, unit) call" where
  "pro_periodic_inputs sc =
     call_then (call_all
       [pro_periodic_operation sc ''a_500ms'' True (pro_tap (sc_env sc) [Btn_A]),
        pro_periodic_operation sc ''l_plus_r_500ms'' True (pro_tap (sc_env sc) [Btn_L, Btn_R])]) (\<lambda>_.
     call_with (make_sticks stick_table) (\<lambda>states.
     call_then (call_all (map (\<lambda>(operation, state).
         pro_periodic_operation sc operation True (hold_state (sc_env sc) state stick_hold)) states)) (\<lambda>_.
     call_with pro_periodic_imu (\<lambda>imu.
     call_all
       [pro_periodic_operation sc ''imu_non_neutral_1000ms'' False
          (hold_state (sc_env sc) (with_imu input_neutral (Repeat imu)) imu_hold),
        pro_periodic_operation sc ''explicit_neutral'' True (neutral_and_settle (sc_env sc))]))))"

definition validate_profile :: "('h, 't) scenario \<Rightarrow> pro_periodic_args \<Rightarrow> bool tool" where
  "validate_profile sc args =
     tool_bind (pro_periodic_build sc args) (\<lambda>r.
     case r of
       Inr _ \<Rightarrow>
         tool_bind (evidence_emit sc ''profile_validation''
           [(''valid'', JsonBool True), (''controller_kind'', JsonString ''pro''),
            (''raw_profile_emitted'', JsonBool False), (''key_material_emitted'', JsonBool False)])
           (\<lambda>_. tool_return True)
     | Inl e \<Rightarrow> tool_bind (emit_controller_failure sc ''profile_validation'' e) (\<lambda>_. tool_return False))"

text \<open>\<open>profile_valid && verify_adapter_reopen(..)\<close>, with what the first says.\<close>

definition validate_and_reopen :: "('h, 't) scenario \<Rightarrow> pro_periodic_args \<Rightarrow> (bool \<times> bool) tool" where
  "validate_and_reopen sc args =
     tool_bind (validate_profile sc args) (\<lambda>valid.
     if valid then tool_bind (verify_adapter_reopen sc (pro_periodic_build sc args)) (\<lambda>reopened. tool_return (valid, reopened))
     else tool_return (valid, False))"

definition pro_periodic_close :: "('h, 't) scenario \<Rightarrow> 't hardware_controller \<Rightarrow> bool tool" where
  "pro_periodic_close sc hc =
     tool_bind (evidence_emit sc ''close_start'' []) (\<lambda>_.
     tool_bind (hw_close hc) (\<lambda>(r, hc).
     case r of
       Inr _ \<Rightarrow> tool_bind (emit_status sc ''close_complete'' None hc) (\<lambda>_. tool_return True)
     | Inl e \<Rightarrow> tool_bind (emit_controller_failure sc ''close'' e) (\<lambda>_. tool_return False)))"

definition pro_periodic_hardware :: "('h, 't) tool_env \<Rightarrow> pro_periodic_args \<Rightarrow> bool tool" where
  "pro_periodic_hardware E args =
     tool_bind (tool_now E) (\<lambda>started.
     let sc = \<lparr>sc_env = E, sc_target = pro_periodic_target args, sc_started = started\<rparr> in
     tool_bind (evidence_emit sc ''runner_start''
         [(''pair_timeout_ms'', JsonNumber (duration_ms (pp_pair_timeout args)))]) (\<lambda>_.
     tool_bind (tool_io (sys_symlink_metadata (parse_path (pp_profile args)))) (\<lambda>metadata.
     if metadata \<noteq> Inl IoNotFound
     then tool_bind (emit_fixed_failure sc ''profile_preflight''
            (if is_ok metadata then ''target_exists'' else ''filesystem'')) (\<lambda>_. finish_with sc False)
     else
       tool_bind (evidence_emit sc ''pair_start'' []) (\<lambda>_.
       tool_bind (tool_now E) (\<lambda>pair_started.
       tool_bind (hw_create_profile E Pro (pp_adapter args) (pp_profile args)
           \<lparr>cp_identity = AdapterDefault, cp_pair_timeout = pp_pair_timeout args\<rparr>) (\<lambda>created.
       case created of
         Inl e \<Rightarrow>
           tool_bind (emit_controller_failure sc ''create_profile'' e) (\<lambda>_.
           tool_bind (validate_and_reopen sc args) (\<lambda>(_, reopen_ok).
           tool_bind (if reopen_ok then evidence_emit sc ''failed_run_cleanup_verified'' [] else tool_return ()) (\<lambda>_.
           finish_with sc False)))
       | Inr hc \<Rightarrow>
           tool_bind (tool_elapsed E pair_started) (\<lambda>elapsed.
           tool_bind (evidence_emit sc ''pair_ready'' [(''pair_elapsed_ms'', JsonNumber (duration_ms elapsed))]) (\<lambda>_.
           tool_bind (emit_status sc ''ready_status'' None hc) (\<lambda>hc.
           tool_bind (pro_periodic_inputs sc hc) (\<lambda>(inputs, hc).
           tool_bind (if is_ok inputs then emit_status sc ''pre_close_status'' None hc else tool_return hc) (\<lambda>hc.
           tool_bind (pro_periodic_close sc hc) (\<lambda>close_ok.
           tool_bind (validate_and_reopen sc args) (\<lambda>(profile_valid, reopen_ok).
           finish_with sc (is_ok inputs \<and> close_ok \<and> profile_valid \<and> reopen_ok))))))))))))))"

definition pro_periodic_run :: "('h, 't) tool_env \<Rightarrow> string list \<Rightarrow> u8 tool" where
  "pro_periodic_run E arguments =
     (case pro_periodic_parse_args arguments of
        Inl _ \<Rightarrow> tool_return 2
      | Inr args \<Rightarrow> tool_bind (pro_periodic_hardware E args) (\<lambda>success. tool_return (exit_code success)))"

end
