(* ===== verification/RunnerProfiles.thy ===== *)
theory RunnerProfiles
  imports RunnerScenarios
begin

text \<open>
  The scenarios \<open>pro-profile\<close> and \<open>joycon-profile\<close>, and the entry of the runner.
\<close>

section \<open>A stale copy of a profile\<close>

text \<open>\<open>Value::get_mut\<close>, and the first value of a map.\<close>

fun value_get :: "string \<Rightarrow> json_value \<Rightarrow> json_value option" where
  "value_get k (JsonObject object) = map_of object k"
| "value_get k v = None"

fun as_object :: "json_value \<Rightarrow> json_object option" where
  "as_object (JsonObject object) = Some object"
| "as_object v = None"

text \<open>Assignment through a path of keys that exist.\<close>

fun set_path :: "string list \<Rightarrow> json_value \<Rightarrow> json_value \<Rightarrow> json_value" where
  "set_path [] x v = x"
| "set_path (k # ks) x (JsonObject object) =
     JsonObject (map (\<lambda>(k', v). if k' = k then (k', set_path ks x v) else (k', v)) object)"
| "set_path (k # ks) x v = v"

definition ascii_hexdigit :: "char \<Rightarrow> bool" where
  "ascii_hexdigit c \<longleftrightarrow> c \<in> set ''0123456789abcdefABCDEF''"

definition stale_link_key :: "string \<Rightarrow> string" where
  "stale_link_key key_text = (if hd key_text = CHR ''0'' then CHR ''1'' else CHR ''0'') # tl key_text"

definition some_or :: "'e \<Rightarrow> 'a option \<Rightarrow> ('a, 'e) result" where
  "some_or e v = (case v of None \<Rightarrow> Inl e | Some a \<Rightarrow> Inr a)"

definition stale_profile :: "json_value \<Rightarrow> (json_value, string) result" where
  "stale_profile profile =
     bind_result (some_or ''stale_source_invalid_namespaces''
       (Option.bind (Option.bind (value_get ''key_store'' profile) (value_get ''namespaces'')) as_object)) (\<lambda>namespaces.
     case namespaces of
       [(namespace, peer_map)] \<Rightarrow>
         bind_result (some_or ''stale_source_invalid_peer_map'' (as_object peer_map)) (\<lambda>peers.
         case peers of
           [(peer, keys)] \<Rightarrow>
             bind_result (some_or ''stale_source_missing_link_key''
               (Option.bind (Option.bind (value_get ''link_key'' keys) (value_get ''value'')) as_str)) (\<lambda>key_text.
             if length key_text \<noteq> 32 \<or> \<not> list_all ascii_hexdigit key_text then Inl ''stale_source_invalid_link_key''
             else Inr (set_path [''key_store'', ''namespaces'', namespace, peer, ''link_key'', ''value'']
                         (JsonString (stale_link_key key_text)) profile))
         | _ \<Rightarrow> Inl ''stale_source_requires_one_peer'')
     | _ \<Rightarrow> Inl ''stale_source_requires_one_namespace'')"

definition stale_profile_bytes :: "('h, 't) tool_env \<Rightarrow> string \<Rightarrow> (string, string) result" where
  "stale_profile_bytes E source =
     bind_result (some_or ''stale_source_invalid_json'' (tl_parse_value E source)) (\<lambda>profile.
     bind_result (stale_profile profile) (\<lambda>profile.
     map_ok (\<lambda>bytes. bytes @ [CHR 0x0A]) (some_or ''stale_target_serialize'' (tl_pretty_value E profile))))"

section \<open>\<open>pro-profile\<close>\<close>

fun mode_name :: "runner_mode \<Rightarrow> string" where
  "mode_name RunPeriodic = ''periodic''"
| "mode_name RunDirect = ''direct''"

fun mode_reporting :: "runner_mode \<Rightarrow> reporting_kind" where
  "mode_reporting RunPeriodic = PeriodicKind"
| "mode_reporting RunDirect = DirectKind"

fun setup_name :: "operator_setup \<Rightarrow> string" where
  "setup_name SetupNormal = ''normal''"
| "setup_name SetupPostPowerCycle = ''post_power_cycle''"
| "setup_name SetupStaleBond = ''stale_bond''"

definition pro_profile_target :: "pro_profile_args \<Rightarrow> evidence_target" where
  "pro_profile_target args =
     \<lparr>et_schema = ''swbt.m6.pro-profile'',
      et_dimensions =
        [(''run_index'', JsonNumber (pr_run_index args)), (''mode'', JsonString (mode_name (pr_mode args))),
         (''operator_setup'', JsonString (setup_name (pr_setup args)))],
      et_error_name = runner_error_name\<rparr>"

record profile_baseline =
  pb_bytes :: string
  pb_stale_source :: "(string \<times> string) option"

definition tool_read :: "string \<Rightarrow> (string, io_error) result tool" where
  "tool_read path = tool_io (store_read (parse_path path))"

text \<open>A fallible step whose error is replaced.\<close>

definition step_or :: "'e \<Rightarrow> ('a, 'x) result tool \<Rightarrow> ('a \<Rightarrow> ('b, 'e) result tool) \<Rightarrow> ('b, 'e) result tool" where
  "step_or e m f = tool_bind m (\<lambda>r. case r of Inl _ \<Rightarrow> tool_return (Inl e) | Inr a \<Rightarrow> f a)"

definition create_stale_copy ::
  "('h, 't) tool_env \<Rightarrow> string \<Rightarrow> string \<Rightarrow> (profile_baseline, string) result tool" where
  "create_stale_copy E source_path target_path =
     step_or ''stale_source_read'' (tool_read source_path) (\<lambda>source.
     case stale_profile_bytes E source of
       Inl e \<Rightarrow> tool_return (Inl e)
     | Inr stale \<Rightarrow>
         step_or ''stale_target_create'' (tool_io (sys_create_new (parse_path target_path))) (\<lambda>target.
         step_or ''stale_target_write'' (tool_io (sys_write_all target stale)) (\<lambda>_.
         step_or ''stale_target_sync'' (tool_io (sys_sync_all target)) (\<lambda>_.
         tool_return (Inr \<lparr>pb_bytes = stale, pb_stale_source = Some (source_path, source)\<rparr>)))))"

definition prepare_profile ::
  "('h, 't) scenario \<Rightarrow> pro_profile_args \<Rightarrow> (profile_baseline, string) result tool" where
  "prepare_profile sc args =
     tool_bind
       (if pr_setup args = SetupStaleBond
        then case pr_stale_source args of
               None \<Rightarrow> tool_stuck
             | Some source_path \<Rightarrow> create_stale_copy (sc_env sc) source_path (pr_profile args)
        else step_or ''profile_read'' (tool_read (pr_profile args)) (\<lambda>bytes.
          tool_return (Inr \<lparr>pb_bytes = bytes, pb_stale_source = None\<rparr>))) (\<lambda>r.
     case r of
       Inl e \<Rightarrow> tool_return (Inl e)
     | Inr baseline \<Rightarrow>
         tool_bind (evidence_emit sc ''profile_preflight''
           [(''profile_exists'', JsonBool True), (''profile_size_bytes'', JsonNumber (length (pb_bytes baseline))),
            (''raw_profile_emitted'', JsonBool False), (''key_material_emitted'', JsonBool False),
            (''stale_copy_created'', JsonBool (pr_setup args = SetupStaleBond))])
           (\<lambda>_. tool_return (Inr baseline)))"

definition pro_profile_build ::
  "('h, 't) scenario \<Rightarrow> pro_profile_args \<Rightarrow> ('t hardware_controller, error) result tool" where
  "pro_profile_build sc args =
     hw_build (sc_env sc) (mode_reporting (pr_mode args)) Pro (pr_adapter args) (pr_profile args)"

definition pro_profile_operation :: "('h, 't) scenario \<Rightarrow> string \<Rightarrow> ('t, unit) call \<Rightarrow> ('t, unit) call" where
  "pro_profile_operation sc operation action =
     timed_operation sc operation True action (\<lambda>_ _. call_ok) (\<lambda>e hc. tool_return (Inl e, hc))"

definition pro_profile_inputs :: "('h, 't) scenario \<Rightarrow> ('t, unit) call" where
  "pro_profile_inputs sc =
     call_then (call_all
       [pro_profile_operation sc ''a_500ms'' (pro_tap (sc_env sc) [Btn_A]),
        pro_profile_operation sc ''l_plus_r_500ms'' (pro_tap (sc_env sc) [Btn_L, Btn_R])]) (\<lambda>_.
     call_with (make_sticks stick_table) (\<lambda>states.
     call_then (call_all (map (\<lambda>(operation, state).
         pro_profile_operation sc operation (hold_state (sc_env sc) state stick_hold)) states)) (\<lambda>_.
     pro_profile_operation sc ''explicit_neutral'' (neutral_and_settle (sc_env sc)))))"

definition verify_profile_unchanged ::
  "('h, 't) scenario \<Rightarrow> pro_profile_args \<Rightarrow> profile_baseline \<Rightarrow> bool tool" where
  "verify_profile_unchanged sc args baseline =
     tool_bind (tool_read (pr_profile args)) (\<lambda>current.
     tool_bind (case pb_stale_source baseline of
         None \<Rightarrow> tool_return True
       | Some (path, expected) \<Rightarrow> tool_bind (tool_read path) (\<lambda>source. tool_return (source = Inr expected))) (\<lambda>source_unchanged.
     let target_unchanged = (current = Inr (pb_bytes baseline)) in
     tool_bind (evidence_emit sc ''profile_postflight''
       [(''target_unchanged'', JsonBool target_unchanged), (''stale_source_unchanged'', JsonBool source_unchanged),
        (''raw_profile_emitted'', JsonBool False), (''key_material_emitted'', JsonBool False)]) (\<lambda>_.
     tool_return (target_unchanged \<and> source_unchanged))))"

text \<open>The checks after the inputs, which all run.\<close>

definition pro_profile_wrap_up ::
  "('h, 't) scenario \<Rightarrow> pro_profile_args \<Rightarrow> profile_baseline \<Rightarrow> bool \<Rightarrow> bool \<Rightarrow> 't hardware_controller \<Rightarrow> bool tool" where
  "pro_profile_wrap_up sc args baseline with_neutral good hc =
     tool_bind (close_controller sc with_neutral hc) (\<lambda>(close_ok, hc).
     tool_bind (verify_adapter_reopen sc (pro_profile_build sc args)) (\<lambda>reopen_ok.
     tool_bind (verify_profile_unchanged sc args baseline) (\<lambda>profile_ok.
     finish_with sc (good \<and> close_ok \<and> reopen_ok \<and> profile_ok))))"

definition pro_profile_connected ::
  "('h, 't) scenario \<Rightarrow> pro_profile_args \<Rightarrow> profile_baseline \<Rightarrow> 't hardware_controller \<Rightarrow> bool tool" where
  "pro_profile_connected sc args baseline hc =
     tool_bind (if pr_mode args = RunDirect then verify_direct_idle sc hc else tool_return (True, hc)) (\<lambda>(idle_ok, hc).
     tool_bind (pro_profile_inputs sc hc) (\<lambda>(inputs, hc).
     tool_bind (if is_ok inputs then emit_status sc ''pre_close_status'' None hc else tool_return hc) (\<lambda>hc.
     pro_profile_wrap_up sc args baseline True (idle_ok \<and> is_ok inputs) hc)))"

definition expected_stale_error :: "error \<Rightarrow> bool" where
  "expected_stale_error e \<longleftrightarrow> err_kind e = ConnectionFailed \<or> err_kind e = ConnectionTimeout"

definition pro_profile_reconnect ::
  "('h, 't) scenario \<Rightarrow> pro_profile_args \<Rightarrow> profile_baseline \<Rightarrow> 't hardware_controller \<Rightarrow> bool tool" where
  "pro_profile_reconnect sc args baseline hc =
     tool_bind (evidence_emit sc ''reconnect_start'' []) (\<lambda>_.
     tool_bind (tool_now (sc_env sc)) (\<lambda>reconnect_started.
     tool_bind (hw_reconnect (pr_connect_timeout args) hc) (\<lambda>(r, hc).
     case r of
       Inr _ \<Rightarrow>
         if pr_setup args = SetupStaleBond
         then tool_bind (emit_fixed_failure sc ''reconnect'' ''unexpected_stale_bond_success'') (\<lambda>_.
              tool_bind (hw_close hc) (\<lambda>_. finish_with sc False))
         else
           tool_bind (tool_elapsed (sc_env sc) reconnect_started) (\<lambda>elapsed.
           tool_bind (evidence_emit sc ''reconnect_ready''
             [(''reconnect_elapsed_ms'', JsonNumber (duration_ms elapsed))]) (\<lambda>_.
           tool_bind (emit_status sc ''ready_status'' None hc) (\<lambda>hc.
           pro_profile_connected sc args baseline hc)))
     | Inl e \<Rightarrow>
         if pr_setup args = SetupStaleBond \<and> expected_stale_error e
         then
           tool_bind (tool_elapsed (sc_env sc) reconnect_started) (\<lambda>elapsed.
           tool_bind (evidence_emit sc ''expected_reconnect_failure''
             [(''error_kind'', JsonString (et_error_name (sc_target sc) (err_kind e))),
              (''reconnect_elapsed_ms'', JsonNumber (duration_ms elapsed))]) (\<lambda>_.
           pro_profile_wrap_up sc args baseline False True hc))
         else
           tool_bind (emit_controller_failure sc ''reconnect'' e) (\<lambda>_.
           tool_bind (hw_close_without_neutral hc) (\<lambda>_.
           tool_bind (verify_profile_unchanged sc args baseline) (\<lambda>_. finish_with sc False))))))"

definition pro_profile_hardware :: "('h, 't) tool_env \<Rightarrow> pro_profile_args \<Rightarrow> bool tool" where
  "pro_profile_hardware E args =
     tool_bind (tool_now E) (\<lambda>started.
     let sc = \<lparr>sc_env = E, sc_target = pro_profile_target args, sc_started = started\<rparr> in
     tool_bind (evidence_emit sc ''runner_start''
       [(''mode'', JsonString (mode_name (pr_mode args))), (''operator_setup'', JsonString (setup_name (pr_setup args))),
        (''operator_setup_machine_verified'', JsonBool False),
        (''connect_timeout_ms'', JsonNumber (duration_ms (pr_connect_timeout args)))]) (\<lambda>_.
     tool_bind (prepare_profile sc args) (\<lambda>prepared.
     case prepared of
       Inl problem \<Rightarrow> tool_bind (emit_fixed_failure sc ''profile_preflight'' problem) (\<lambda>_. finish_with sc False)
     | Inr baseline \<Rightarrow>
         tool_bind (pro_profile_build sc args) (\<lambda>built.
         case built of
           Inl e \<Rightarrow> tool_bind (emit_controller_failure sc ''profile_build'' e) (\<lambda>_. finish_with sc False)
         | Inr hc \<Rightarrow>
             tool_bind (hw_open hc) (\<lambda>(r, hc).
             case r of
               Inl e \<Rightarrow> tool_bind (emit_controller_failure sc ''open'' e) (\<lambda>_. finish_with sc False)
             | Inr _ \<Rightarrow> pro_profile_reconnect sc args baseline hc)))))"

definition pro_profile_run :: "('h, 't) tool_env \<Rightarrow> string list \<Rightarrow> u8 tool" where
  "pro_profile_run E arguments =
     (case pro_profile_parse_args arguments of
        Inl _ \<Rightarrow> tool_return 2
      | Inr args \<Rightarrow> tool_bind (pro_profile_hardware E args) (\<lambda>success. tool_return (exit_code success)))"

end
