(* ===== verification/RunnerJoyCon.thy ===== *)
theory RunnerJoyCon
  imports RunnerProfiles
begin

text \<open>The scenario \<open>joycon-profile\<close>, and the entry of the runner.\<close>

section \<open>\<open>joycon-profile\<close>\<close>

fun joycon_name :: "joycon_model \<Rightarrow> string" where
  "joycon_name JoyConLeft = ''joycon_l''"
| "joycon_name JoyConRight = ''joycon_r''"

fun joycon_connection_name :: "joycon_connection \<Rightarrow> string" where
  "joycon_connection_name JoyConPair = ''pair''"
| "joycon_connection_name JoyConReconnect = ''reconnect''"

fun joycon_kind :: "joycon_model \<Rightarrow> controller_kind" where
  "joycon_kind JoyConLeft = JoyConL"
| "joycon_kind JoyConRight = JoyConR"

fun opposite_model :: "joycon_model \<Rightarrow> joycon_model" where
  "opposite_model JoyConLeft = JoyConRight"
| "opposite_model JoyConRight = JoyConLeft"

definition joycon_target :: "joycon_args \<Rightarrow> evidence_target" where
  "joycon_target args =
     \<lparr>et_schema = ''swbt.m7.joycon-profile'',
      et_dimensions =
        [(''run_index'', JsonNumber (jc_run_index args)), (''model'', JsonString (joycon_name (jc_model args))),
         (''mode'', JsonString (mode_name (jc_mode args))),
         (''connection'', JsonString (joycon_connection_name (jc_connection args)))],
      et_error_name = runner_error_name\<rparr>"

text \<open>\<open>ProfileBaseline\<close>: \<open>None\<close> is \<open>New\<close>.\<close>

type_synonym joycon_baseline = "string option"

definition joycon_prepare_profile ::
  "('h, 't) scenario \<Rightarrow> joycon_args \<Rightarrow> (joycon_baseline, string) result tool" where
  "joycon_prepare_profile sc args =
     (case jc_connection args of
        JoyConPair \<Rightarrow>
          tool_bind (tool_io (sys_symlink_metadata (parse_path (jc_profile args)))) (\<lambda>metadata.
          if metadata \<noteq> Inl IoNotFound
          then tool_return (Inl (if is_ok metadata then ''pair_target_exists'' else ''profile_preflight_filesystem''))
          else
            tool_bind (evidence_emit sc ''profile_preflight''
              [(''profile_exists'', JsonBool False), (''raw_profile_emitted'', JsonBool False),
               (''key_material_emitted'', JsonBool False)]) (\<lambda>_. tool_return (Inr None)))
      | JoyConReconnect \<Rightarrow>
          step_or ''profile_read'' (tool_read (jc_profile args)) (\<lambda>bytes.
          tool_bind (evidence_emit sc ''profile_preflight''
            [(''profile_exists'', JsonBool True), (''profile_size_bytes'', JsonNumber (length bytes)),
             (''raw_profile_emitted'', JsonBool False), (''key_material_emitted'', JsonBool False)])
            (\<lambda>_. tool_return (Inr (Some bytes)))))"

definition joycon_create_paired ::
  "('h, 't) scenario \<Rightarrow> joycon_args \<Rightarrow> ('t hardware_controller, error) result tool" where
  "joycon_create_paired sc args =
     hw_create_profile (sc_env sc) (joycon_kind (jc_model args)) (jc_adapter args) (jc_profile args)
       \<lparr>cp_identity = AdapterDefault, cp_pair_timeout = jc_timeout args\<rparr>"

definition joycon_build ::
  "('h, 't) scenario \<Rightarrow> joycon_args \<Rightarrow> ('t hardware_controller, error) result tool" where
  "joycon_build sc args =
     hw_build (sc_env sc) (mode_reporting (jc_mode args)) (joycon_kind (jc_model args)) (jc_adapter args) (jc_profile args)"

text \<open>\<open>tap_left\<close> and \<open>tap_right\<close>: a periodic controller presses, waits and releases.\<close>

definition joycon_tap :: "('h, 't) tool_env \<Rightarrow> button_kind list \<Rightarrow> duration \<Rightarrow> ('t, unit) call" where
  "joycon_tap E buttons d hc =
     (case hc_controller hc of
        PeriodicController _ \<Rightarrow> call_all [hw_press buttons, and_rest (hw_sleep E d), hw_release buttons] hc
      | DirectController _ \<Rightarrow> hw_tap buttons d hc)"

definition joycon_tap_and_settle :: "('h, 't) tool_env \<Rightarrow> button_kind list \<Rightarrow> duration \<Rightarrow> ('t, unit) call" where
  "joycon_tap_and_settle E buttons d = call_all [joycon_tap E buttons d, and_rest (hw_settle E)]"

definition verify_pre_input_idle ::
  "('h, 't) scenario \<Rightarrow> joycon_args \<Rightarrow> 't hardware_controller \<Rightarrow> (bool \<times> 't hardware_controller) tool" where
  "verify_pre_input_idle sc args hc =
     (if jc_pre_input_idle args = 0 then tool_return (True, hc)
      else
        tool_bind (verify_idle sc ''pre_input_idle_start'' ''pre_input_idle_complete'' (jc_pre_input_idle args)
            (\<lambda>hc. [(''connected'', JsonBool (st_connected (hw_status hc)))]) hc) (\<lambda>(delta, hc).
        let reporting_valid = (case jc_mode args of RunPeriodic \<Rightarrow> 0 < delta | RunDirect \<Rightarrow> delta = 0) in
        if st_connected (hw_status hc) \<and> reporting_valid then tool_return (True, hc)
        else tool_bind (emit_fixed_failure sc ''pre_input_idle'' ''idle_verification_failed'')
               (\<lambda>_. tool_return (False, hc))))"

text \<open>\<open>run_operation\<close>: the connection must have lasted and a report must have been accepted.\<close>

definition input_sequence_failure :: error where "input_sequence_failure = new_error Internal"

definition joycon_operation :: "('h, 't) scenario \<Rightarrow> string \<Rightarrow> ('t, unit) call \<Rightarrow> ('t, unit) call" where
  "joycon_operation sc operation action =
     timed_operation sc operation True action
       (\<lambda>connected delta hc.
          if \<not> connected
          then tool_bind (emit_fixed_failure sc operation ''connection_lost'')
                 (\<lambda>_. tool_return (Inl input_sequence_failure, hc))
          else if delta = 0
          then tool_bind (emit_fixed_failure sc operation ''no_input_report_accepted'')
                 (\<lambda>_. tool_return (Inl input_sequence_failure, hc))
          else call_ok hc)
       (\<lambda>e hc. tool_return (Inl input_sequence_failure, hc))"

definition right_face_button_hold :: duration where "right_face_button_hold = from_millis 200"

definition left_taps :: "(string \<times> button_kind list \<times> duration) list" where
  "left_taps =
     [(''dpad_up_500ms'', [Btn_DpadUp], button_hold), (''dpad_right_500ms'', [Btn_DpadRight], button_hold),
      (''dpad_down_500ms'', [Btn_DpadDown], button_hold), (''dpad_left_500ms'', [Btn_DpadLeft], button_hold),
      (''l_plus_zl_500ms'', [Btn_L, Btn_ZL], button_hold), (''sl_plus_sr_500ms'', [Btn_SL, Btn_SR], button_hold)]"

definition right_taps :: "(string \<times> button_kind list \<times> duration) list" where
  "right_taps =
     [(''a_200ms'', [Btn_A], right_face_button_hold), (''b_200ms'', [Btn_B], right_face_button_hold),
      (''x_200ms'', [Btn_X], right_face_button_hold), (''y_200ms'', [Btn_Y], right_face_button_hold),
      (''r_plus_zr_500ms'', [Btn_R, Btn_ZR], button_hold), (''sl_plus_sr_500ms'', [Btn_SL, Btn_SR], button_hold)]"

definition left_sticks :: "(string \<times> bool \<times> (float_value \<Rightarrow> (stick, error) result)) list" where
  "left_sticks =
     [(''left_stick_up_500ms'', True, stick_up), (''left_stick_right_500ms'', True, stick_right),
      (''left_stick_down_500ms'', True, stick_down), (''left_stick_left_500ms'', True, stick_left)]"

definition right_sticks :: "(string \<times> bool \<times> (float_value \<Rightarrow> (stick, error) result)) list" where
  "right_sticks =
     [(''right_stick_up_500ms'', False, stick_up), (''right_stick_right_500ms'', False, stick_right),
      (''right_stick_down_500ms'', False, stick_down), (''right_stick_left_500ms'', False, stick_left)]"

text \<open>\<open>expect\<close>: a stick that cannot be made is a panic.\<close>

definition call_expect :: "('a, error) result \<Rightarrow> ('a \<Rightarrow> ('t, 'b) call) \<Rightarrow> ('t, 'b) call" where
  "call_expect r f hc = (case r of Inl _ \<Rightarrow> tool_stuck | Inr a \<Rightarrow> f a hc)"

definition joycon_sequence ::
  "('h, 't) scenario \<Rightarrow> (string \<times> button_kind list \<times> duration) list
   \<Rightarrow> (string \<times> bool \<times> (float_value \<Rightarrow> (stick, error) result)) list \<Rightarrow> ('t, unit) call" where
  "joycon_sequence sc taps sticks =
     call_then (call_all (map (\<lambda>(operation, buttons, hold).
         joycon_operation sc operation (joycon_tap_and_settle (sc_env sc) buttons hold)) taps)) (\<lambda>_.
     call_expect (make_sticks sticks) (\<lambda>states.
     call_then (call_all (map (\<lambda>(operation, state).
         joycon_operation sc operation (hold_state (sc_env sc) state stick_hold)) states)) (\<lambda>_.
     joycon_operation sc ''explicit_neutral'' (neutral_and_settle (sc_env sc)))))"

definition joycon_inputs :: "('h, 't) scenario \<Rightarrow> joycon_args \<Rightarrow> ('t, unit) call" where
  "joycon_inputs sc args =
     (case jc_model args of
        JoyConLeft \<Rightarrow> joycon_sequence sc left_taps left_sticks
      | JoyConRight \<Rightarrow> joycon_sequence sc right_taps right_sticks)"

definition unopened_adapter :: string where "unopened_adapter = ''adapter-must-not-open''"

definition verify_profile_postflight ::
  "('h, 't) scenario \<Rightarrow> joycon_args \<Rightarrow> joycon_baseline \<Rightarrow> bool tool" where
  "verify_profile_postflight sc args baseline =
     tool_bind (tool_read (jc_profile args)) (\<lambda>current.
     let (profile_exists, profile_unchanged) =
           (case (current, baseline) of
              (Inr bytes, None) \<Rightarrow> (bytes \<noteq> [], True)
            | (Inr bytes, Some original) \<Rightarrow> (True, bytes = original)
            | (Inl _, _) \<Rightarrow> (False, False));
         build_as = (\<lambda>model. hw_build (sc_env sc) PeriodicKind (joycon_kind model) unopened_adapter (jc_profile args))
     in
     tool_bind (build_as (jc_model args)) (\<lambda>same.
     tool_bind (build_as (opposite_model (jc_model args))) (\<lambda>opposite.
     let model_valid = is_ok same;
         opposite_rejected = (case opposite of Inr _ \<Rightarrow> False | Inl e \<Rightarrow> err_kind e = ProfileControllerMismatch)
     in
     tool_bind (evidence_emit sc ''profile_postflight''
       [(''profile_exists'', JsonBool profile_exists), (''profile_unchanged'', JsonBool profile_unchanged),
        (''controller_model_valid'', JsonBool model_valid), (''opposite_model_rejected'', JsonBool opposite_rejected),
        (''raw_profile_emitted'', JsonBool False), (''key_material_emitted'', JsonBool False)]) (\<lambda>_.
     tool_return (profile_exists \<and> profile_unchanged \<and> model_valid \<and> opposite_rejected)))))"

definition joycon_connected ::
  "('h, 't) scenario \<Rightarrow> joycon_args \<Rightarrow> joycon_baseline \<Rightarrow> duration \<Rightarrow> 't hardware_controller \<Rightarrow> bool tool" where
  "joycon_connected sc args baseline connection_started hc =
     tool_bind (tool_elapsed (sc_env sc) connection_started) (\<lambda>elapsed.
     tool_bind (evidence_emit sc ''connection_ready''
       [(''connection_elapsed_ms'', JsonNumber (duration_ms elapsed))]) (\<lambda>_.
     tool_bind (emit_status sc ''ready_status'' None hc) (\<lambda>hc.
     tool_bind (verify_pre_input_idle sc args hc) (\<lambda>(pre_input_ok, hc).
     tool_bind (if pre_input_ok \<and> jc_mode args = RunDirect then verify_direct_idle sc hc
                else tool_return (pre_input_ok, hc)) (\<lambda>(idle_ok, hc).
     tool_bind (if pre_input_ok then joycon_inputs sc args hc
                else tool_return (Inl input_sequence_failure, hc)) (\<lambda>(inputs, hc).
     tool_bind (if is_ok inputs then emit_status sc ''pre_close_status'' None hc else tool_return hc) (\<lambda>hc.
     tool_bind (close_controller sc True hc) (\<lambda>(close_ok, hc).
     tool_bind (verify_adapter_reopen sc (joycon_build sc args)) (\<lambda>reopen_ok.
     tool_bind (verify_profile_postflight sc args baseline) (\<lambda>profile_ok.
     finish_with sc (idle_ok \<and> is_ok inputs \<and> close_ok \<and> reopen_ok \<and> profile_ok)))))))))))"

definition joycon_connection_failed ::
  "('h, 't) scenario \<Rightarrow> joycon_args \<Rightarrow> joycon_baseline \<Rightarrow> error \<Rightarrow> bool tool" where
  "joycon_connection_failed sc args baseline e =
     tool_bind (emit_controller_failure sc ''connection'' e) (\<lambda>_.
     tool_bind (verify_profile_postflight sc args baseline) (\<lambda>_. finish_with sc False))"

definition joycon_connect ::
  "('h, 't) scenario \<Rightarrow> joycon_args \<Rightarrow> joycon_baseline \<Rightarrow> duration \<Rightarrow> bool tool" where
  "joycon_connect sc args baseline connection_started =
     (case jc_connection args of
        JoyConPair \<Rightarrow>
          tool_bind (joycon_create_paired sc args) (\<lambda>created.
          case created of
            Inl e \<Rightarrow> joycon_connection_failed sc args baseline e
          | Inr hc \<Rightarrow> joycon_connected sc args baseline connection_started hc)
      | JoyConReconnect \<Rightarrow>
          tool_bind (joycon_build sc args) (\<lambda>built.
          case built of
            Inl e \<Rightarrow> tool_bind (emit_controller_failure sc ''profile_build'' e) (\<lambda>_. finish_with sc False)
          | Inr hc \<Rightarrow>
              tool_bind (hw_open hc) (\<lambda>(r, hc).
              case r of
                Inl e \<Rightarrow> tool_bind (emit_controller_failure sc ''open'' e) (\<lambda>_. finish_with sc False)
              | Inr _ \<Rightarrow>
                  tool_bind (hw_reconnect (jc_timeout args) hc) (\<lambda>(r, hc).
                  case r of
                    Inr _ \<Rightarrow> joycon_connected sc args baseline connection_started hc
                  | Inl e \<Rightarrow>
                      tool_bind (emit_status sc ''connection_failure_status'' (Some ''connection'') hc) (\<lambda>hc.
                      tool_bind (hw_close_without_neutral hc) (\<lambda>_.
                      joycon_connection_failed sc args baseline e))))))"

definition joycon_hardware :: "('h, 't) tool_env \<Rightarrow> joycon_args \<Rightarrow> bool tool" where
  "joycon_hardware E args =
     tool_bind (tool_now E) (\<lambda>started.
     let sc = \<lparr>sc_env = E, sc_target = joycon_target args, sc_started = started\<rparr> in
     tool_bind (evidence_emit sc ''runner_start''
       [(''timeout_ms'', JsonNumber (duration_ms (jc_timeout args))),
        (''pre_input_idle_ms'', JsonNumber (duration_ms (jc_pre_input_idle args))),
        (''ui_observation_machine_verified'', JsonBool False),
        (''switch_system_version_reported'', JsonString ''22.5.0''),
        (''switch_system_version_machine_verified'', JsonBool False)]) (\<lambda>_.
     tool_bind (joycon_prepare_profile sc args) (\<lambda>prepared.
     case prepared of
       Inl problem \<Rightarrow> tool_bind (emit_fixed_failure sc ''profile_preflight'' problem) (\<lambda>_. finish_with sc False)
     | Inr baseline \<Rightarrow>
         tool_bind (evidence_emit sc ''connection_start'' []) (\<lambda>_.
         tool_bind (tool_now E) (\<lambda>connection_started. joycon_connect sc args baseline connection_started)))))"

definition joycon_run :: "('h, 't) tool_env \<Rightarrow> string list \<Rightarrow> u8 tool" where
  "joycon_run E arguments =
     (case joycon_parse_args arguments of
        Inl _ \<Rightarrow> tool_return 2
      | Inr args \<Rightarrow> tool_bind (joycon_hardware E args) (\<lambda>success. tool_return (exit_code success)))"

section \<open>The runner\<close>

text \<open>\<open>run\<close> of \<open>src/lib.rs\<close>; \<open>printed\<close> says whether the help text could be written.\<close>

definition runner_run :: "('h, 't) tool_env \<Rightarrow> bool \<Rightarrow> string list \<Rightarrow> u8 tool" where
  "runner_run E printed arguments =
     (case parse_runner_command arguments of
        Some RunnerHelp \<Rightarrow> tool_return (if printed then 0 else 1)
      | Some (RunnerScenario ProPeriodicScenario arguments) \<Rightarrow> pro_periodic_run E arguments
      | Some (RunnerScenario ProProfileScenario arguments) \<Rightarrow> pro_profile_run E arguments
      | Some (RunnerScenario JoyConProfileScenario arguments) \<Rightarrow> joycon_run E arguments
      | None \<Rightarrow> tool_return (if printed then 2 else 1))"

end
