(* ===== verification/RunnerLogic.thy ===== *)
theory RunnerLogic
  imports RunnerJoyCon
begin

text \<open>
  A program logic for the tools: \<open>yields m Q\<close> says that whatever \<open>m\<close> returns, the lines it has printed satisfy
  \<open>Q\<close>.  The rules follow the program backwards; the facts about the procedures of the runner are stated so that they
  fit in between.
\<close>

section \<open>The triple\<close>

definition yields :: "'a tool \<Rightarrow> ('a \<Rightarrow> json_object list \<Rightarrow> bool) \<Rightarrow> bool" where
  "yields m Q \<longleftrightarrow> (\<forall>w a w'. m w = Some (a, w') \<longrightarrow> (\<exists>evs. tw_lines w' = tw_lines w @ evs \<and> Q a evs))"

named_theorems yields_rules \<open>the rules of the logic, one for each construct\<close>

lemma yields_return [yields_rules]: "Q a [] \<Longrightarrow> yields (tool_return a) Q"
  by (simp add: yields_def tool_return_def)

lemma yields_stuck [yields_rules]: "yields tool_stuck Q"
  by (simp add: yields_def tool_stuck_def)

lemma yields_bind [yields_rules]:
  "yields m (\<lambda>a evs. yields (f a) (\<lambda>b evs'. Q b (evs @ evs'))) \<Longrightarrow> yields (tool_bind m f) Q"
  unfolding yields_def tool_bind_def by (fastforce split: option.splits)

lemma yields_conseq: "yields m Q' \<Longrightarrow> (\<And>a evs. Q' a evs \<Longrightarrow> Q a evs) \<Longrightarrow> yields m Q"
  unfolding yields_def by blast

lemma yields_if [yields_rules]:
  "(b \<Longrightarrow> yields m Q) \<Longrightarrow> (\<not> b \<Longrightarrow> yields n Q) \<Longrightarrow> yields (if b then m else n) Q"
  by simp

lemma yields_sum [yields_rules]:
  "(\<And>e. r = Inl e \<Longrightarrow> yields (f e) Q) \<Longrightarrow> (\<And>a. r = Inr a \<Longrightarrow> yields (g a) Q)
   \<Longrightarrow> yields (case r of Inl e \<Rightarrow> f e | Inr a \<Rightarrow> g a) Q"
  by (cases r) auto

lemma yields_option [yields_rules]:
  "(r = None \<Longrightarrow> yields m Q) \<Longrightarrow> (\<And>a. r = Some a \<Longrightarrow> yields (g a) Q)
   \<Longrightarrow> yields (case r of None \<Rightarrow> m | Some a \<Rightarrow> g a) Q"
  by (cases r) auto

lemma yields_prod [yields_rules]:
  "(\<And>a b. p = (a, b) \<Longrightarrow> yields (f a b) Q) \<Longrightarrow> yields (case p of (a, b) \<Rightarrow> f a b) Q"
  by (cases p) auto

lemma yields_let [yields_rules]: "(\<And>a. a = x \<Longrightarrow> yields (f a) Q) \<Longrightarrow> yields (Let x f) Q"
  by simp

text \<open>Steps that print nothing.\<close>

lemma yields_silent [yields_rules]:
  "(\<And>x. Q1 x []) \<Longrightarrow> yields (tool_moment f) Q1"
  "(\<And>x. Q2 x []) \<Longrightarrow> yields (tool_io m) Q2"
  "(\<And>x. Q3 x []) \<Longrightarrow> yields (tool_fs g) Q3"
  "(\<And>x. Q4 x []) \<Longrightarrow> yields (next_platform E) Q4"
  "(\<And>r hc. Q5 (r, hc) []) \<Longrightarrow> yields (hw_call p d hc0) Q5"
  by (auto simp: yields_def tool_moment_def tool_io_def tool_fs_def next_platform_def hw_call_def
      split: prod.splits option.splits)

lemma yields_clock [yields_rules]:
  "(\<And>x. Q1 x []) \<Longrightarrow> yields (tool_now E) Q1"
  "(\<And>x. Q2 x []) \<Longrightarrow> yields (tool_elapsed E started) Q2"
  by (auto simp: tool_now_def tool_elapsed_def intro!: yields_rules)

lemma yields_controller [yields_rules]:
  "(\<And>x. Q1 x []) \<Longrightarrow> yields (hw_sleep E d hc0) Q1"
  "(\<And>x. Q2 x []) \<Longrightarrow> yields (hw_observed E hc0) Q2"
  "(\<And>x. Q3 x []) \<Longrightarrow> yields (hw_settle E hc0) Q3"
  "(\<And>x. Q4 x []) \<Longrightarrow> yields (hw_build E r m adapter profile) Q4"
  "(\<And>x. Q5 x []) \<Longrightarrow> yields (hw_create_profile E m adapter profile options) Q5"
  by (auto simp: hw_sleep_def hw_observed_def hw_settle_def hw_build_def hw_create_profile_def Let_def
      intro!: yields_rules split: any_controller.split reporting_kind.split)

lemma yields_calls [yields_rules]:
  "(\<And>r hc. Q (r, hc) []) \<Longrightarrow> yields (hw_open hc0) Q"
  "(\<And>r hc. Q (r, hc) []) \<Longrightarrow> yields (hw_reconnect timeout hc0) Q"
  "(\<And>r hc. Q (r, hc) []) \<Longrightarrow> yields (hw_press buttons hc0) Q"
  "(\<And>r hc. Q (r, hc) []) \<Longrightarrow> yields (hw_release buttons hc0) Q"
  "(\<And>r hc. Q (r, hc) []) \<Longrightarrow> yields (hw_tap buttons d hc0) Q"
  "(\<And>r hc. Q (r, hc) []) \<Longrightarrow> yields (hw_send_state state hc0) Q"
  "(\<And>r hc. Q (r, hc) []) \<Longrightarrow> yields (hw_neutral hc0) Q"
  "(\<And>r hc. Q (r, hc) []) \<Longrightarrow> yields (hw_close hc0) Q"
  "(\<And>r hc. Q (r, hc) []) \<Longrightarrow> yields (hw_close_without_neutral hc0) Q"
  unfolding hw_open_def hw_reconnect_def hw_press_def hw_release_def hw_tap_def hw_send_state_def hw_neutral_def
    hw_close_def hw_close_without_neutral_def
  by (auto intro!: yields_rules)

section \<open>What an event shows\<close>

text \<open>
  Every text that the evidence may contain; no adapter, no path and no byte of a profile is among them.
\<close>

definition fixed_words :: "string list" where
  "fixed_words =
     [''swbt.m5.pro-periodic'', ''swbt.m6.pro-profile'', ''swbt.m7.joycon-profile'', ''unknown'', ''22.5.0'',
        ''runner_start'', ''runner_complete'', ''pair_start'', ''pair_ready'', ''failed_run_cleanup_verified'',
        ''reconnect_start'', ''reconnect_ready'', ''expected_reconnect_failure'', ''connection_start'',
        ''connection_ready'', ''connection_failure_status'', ''ready_status'', ''pre_close_status'',
        ''pre_input_idle_start'', ''pre_input_idle_complete'', ''direct_idle_start'', ''direct_idle_complete'',
        ''operation_start'', ''operation_complete'', ''operation_status'', ''operation_failure'',
        ''close_start'', ''close_complete'', ''adapter_reopen_start'', ''adapter_reopen_complete'',
        ''profile_preflight'', ''profile_validation'', ''profile_postflight'',
        ''create_profile'', ''close'', ''open'', ''reconnect'', ''connection'', ''profile_build'', ''pre_input_idle'',
        ''adapter_reopen_build'', ''adapter_reopen_open'', ''adapter_reopen_close'',
        ''target_exists'', ''filesystem'', ''unexpected_stale_bond_success'', ''pair_target_exists'',
        ''profile_preflight_filesystem'', ''profile_read'', ''idle_verification_failed'', ''connection_lost'',
        ''no_input_report_accepted'', ''stale_source_read'', ''stale_source_invalid_json'',
        ''stale_source_invalid_namespaces'', ''stale_source_requires_one_namespace'', ''stale_source_invalid_peer_map'',
        ''stale_source_requires_one_peer'', ''stale_source_missing_link_key'', ''stale_source_invalid_link_key'',
        ''stale_target_serialize'', ''stale_target_create'', ''stale_target_write'', ''stale_target_sync'',
        ''a_500ms'', ''l_plus_r_500ms'', ''imu_non_neutral_1000ms'', ''explicit_neutral'',
        ''left_stick_up_500ms'', ''left_stick_right_500ms'', ''left_stick_down_500ms'', ''left_stick_left_500ms'',
        ''right_stick_up_500ms'', ''right_stick_right_500ms'', ''right_stick_down_500ms'', ''right_stick_left_500ms'',
        ''dpad_up_500ms'', ''dpad_right_500ms'', ''dpad_down_500ms'', ''dpad_left_500ms'', ''l_plus_zl_500ms'',
        ''sl_plus_sr_500ms'', ''a_200ms'', ''b_200ms'', ''x_200ms'', ''y_200ms'', ''r_plus_zr_500ms'']"

definition evidence_words :: "string list" where
  "evidence_words =
     map runner_error_name
       [AdapterDiscovery, TransportOpen, ProfilePathRequired, ProfileNotFound, ProfileAlreadyExists, InvalidProfile,
        ProfileControllerMismatch, InvalidKeyStore, NoBond, TransportClosed, ConnectionTimeout, ConnectionFailed,
        Protocol, InvalidInput, UnsupportedInput, UnsupportedCapability, AdapterIdentityRecoveryRequired, WorkerFailed,
        Shutdown, Internal]
     @ map lifecycle_name [Lc_Configured, Lc_Open, Lc_Connecting, Lc_Ready, Lc_Closing, Lc_Closed, Lc_Failed]
     @ map controller_kind_name [Pro, JoyConL, JoyConR] @ map reporting_name [PeriodicKind, DirectKind]
     @ map setup_name [SetupNormal, SetupPostPowerCycle, SetupStaleBond]
     @ map joycon_connection_name [JoyConPair, JoyConReconnect]
     @ fixed_words"

definition evidence_word :: "string \<Rightarrow> bool" where
  "evidence_word s \<longleftrightarrow> s \<in> set evidence_words"

fun plain :: "json_value \<Rightarrow> bool" where
  "plain (JsonString s) = evidence_word s"
| "plain (JsonFloat x) = False"
| "plain (JsonArray vs) = False"
| "plain (JsonObject object) = False"
| "plain v = True"

definition redacted :: "json_object \<Rightarrow> bool" where
  "redacted object \<longleftrightarrow> (\<forall>(k, v) \<in> set object. plain v)"

text \<open>The fields that report a check, and whether none of those in a line reports a failure.\<close>

definition check_fields :: "string list" where
  "check_fields =
     [''valid'', ''target_unchanged'', ''stale_source_unchanged'', ''profile_unchanged'', ''controller_model_valid'',
      ''opposite_model_rejected'']"

definition checks_pass :: "json_object \<Rightarrow> bool" where
  "checks_pass object \<longleftrightarrow> list_all (\<lambda>k. map_of object k \<in> {None, Some (JsonBool True)}) check_fields"

text \<open>The event of a line, the operation it is about, and whether its checks pass.\<close>

definition event_label :: "json_object \<Rightarrow> string option \<times> string option \<times> bool" where
  "event_label object =
     (Option.bind (map_of object ''event'') as_str, Option.bind (map_of object ''operation'') as_str,
      checks_pass object)"

definition sound_event :: "json_object \<Rightarrow> bool" where
  "sound_event object \<longleftrightarrow> redacted object \<and> fst (event_label object) \<noteq> Some ''runner_complete''"

lemma words_names [simp]:
  "evidence_word (runner_error_name k)" "evidence_word (lifecycle_name lc)" "evidence_word (controller_kind_name m)"
  "evidence_word (reporting_name r)" "evidence_word (setup_name setup)" "evidence_word (joycon_connection_name c)"
proof -
  show "evidence_word (runner_error_name k)"
    by (cases k) (simp_all only: evidence_word_def evidence_words_def set_append set_map list.set, blast+)
  show "evidence_word (lifecycle_name lc)"
    by (cases lc) (simp_all only: evidence_word_def evidence_words_def set_append set_map list.set, blast+)
  show "evidence_word (controller_kind_name m)"
    by (cases m) (simp_all only: evidence_word_def evidence_words_def set_append set_map list.set, blast+)
  show "evidence_word (reporting_name r)"
    by (cases r) (simp_all only: evidence_word_def evidence_words_def set_append set_map list.set, blast+)
  show "evidence_word (setup_name setup)"
    by (cases "setup") (simp_all only: evidence_word_def evidence_words_def set_append set_map list.set, blast+)
  show "evidence_word (joycon_connection_name c)"
    by (cases c) (simp_all only: evidence_word_def evidence_words_def set_append set_map list.set, blast+)
qed

lemma words_more [simp]: "evidence_word (mode_name mode)" "evidence_word (joycon_name model)"
proof -
  have "mode_name mode = reporting_name (mode_reporting mode)" "joycon_name model = controller_kind_name (joycon_kind model)"
    by (cases mode; simp) (cases model; simp)
  then show "evidence_word (mode_name mode)" "evidence_word (joycon_name model)"
    by simp_all
qed

lemma words_pro [simp]: "evidence_word ''pro''"
  by (rule words_names(3)[of Pro, unfolded controller_kind_name.simps])

lemma words_stale [simp]: "evidence_word ''stale_bond''"
  by (rule words_names(5)[of SetupStaleBond, unfolded setup_name.simps])

lemma words_fixed: "list_all evidence_word fixed_words"
  by (simp add: list_all_iff evidence_word_def evidence_words_def)

lemmas words_literals [simp] = words_fixed[unfolded fixed_words_def list.pred_inject simp_thms]


section \<open>Emitting\<close>

text \<open>What a scenario may hand to the evidence functions.\<close>

definition plain_entries :: "(string \<times> json_value) list \<Rightarrow> bool" where
  "plain_entries entries \<longleftrightarrow> list_all (\<lambda>(k, v). plain v) entries"

definition scenario_ok :: "('h, 't) scenario \<Rightarrow> bool" where
  "scenario_ok sc \<longleftrightarrow>
     evidence_word (et_schema (sc_target sc)) \<and> plain_entries (et_dimensions (sc_target sc))
     \<and> map_of (et_dimensions (sc_target sc)) ''operation'' = None
     \<and> map_of (et_dimensions (sc_target sc)) ''success'' = None
     \<and> list_all (\<lambda>k. map_of (et_dimensions (sc_target sc)) k = None) check_fields
     \<and> (\<forall>kind. evidence_word (et_error_name (sc_target sc) kind))"

lemma plain_entries_simps [simp]:
  "plain_entries []" "plain_entries ((k, v) # entries) \<longleftrightarrow> plain v \<and> plain_entries entries"
  "plain_entries (xs @ ys) \<longleftrightarrow> plain_entries xs \<and> plain_entries ys"
  by (simp_all add: plain_entries_def)

lemma plain_numbers [simp]: "plain (json_number w)" "plain (json_optional v)"
  by (simp_all add: json_number_def json_optional_def split: option.split)

lemma set_or_insert: "set (or_insert k v object) \<subseteq> insert (k, v) (set object)"
  using set_btree_insert[of k v object] by (auto simp: or_insert_def)

lemma fold_or_insert:
  assumes "btree_ok object"
  shows "btree_ok (fold (\<lambda>(k, v). or_insert k v) entries object)
    \<and> map_of (fold (\<lambda>(k, v). or_insert k v) entries object) name =
        (case map_of object name of None \<Rightarrow> map_of entries name | Some v \<Rightarrow> Some v)
    \<and> set (fold (\<lambda>(k, v). or_insert k v) entries object) \<subseteq> set entries \<union> set object"
  using assms
proof (induction entries arbitrary: object)
  case (Cons entry entries)
  obtain k v where entry: "entry = (k, v)"
    by (cases entry)
  have "btree_ok (or_insert k v object)"
    using Cons.prems by (simp add: or_insert_def btree_ok_insert)
  from Cons.IH[OF this] show ?case
    using set_or_insert[of k v object] Cons.prems
    by (auto simp: entry or_insert_def map_of_btree_insert split: option.splits if_splits)
qed (auto split: option.split)

lemma evidence_event_facts:
  assumes "scenario_ok sc" "evidence_word event" "plain_entries entries" "map_of entries ''event'' = None"
  shows "redacted (evidence_event (sc_target sc) time elapsed event entries)"
    "event_label (evidence_event (sc_target sc) time elapsed event entries) =
       (Some event, Option.bind (map_of entries ''operation'') as_str, checks_pass entries)"
    "map_of (evidence_event (sc_target sc) time elapsed event entries) ''success'' = map_of entries ''success''"
proof -
  let ?base = "json_fields
    [(''schema'', JsonString (et_schema (sc_target sc))), (''schema_version'', JsonNumber evidence_schema_version),
     (''unix_time_ms'', JsonNumber (duration_ms time)), (''elapsed_ms'', JsonNumber elapsed),
     (''event'', JsonString event)]"
  note facts = fold_or_insert[OF btree_ok_json_fields, of "et_dimensions (sc_target sc) @ entries"]
  have base: "set ?base \<subseteq> {(''schema'', JsonString (et_schema (sc_target sc))),
      (''schema_version'', JsonNumber evidence_schema_version), (''unix_time_ms'', JsonNumber (duration_ms time)),
      (''elapsed_ms'', JsonNumber elapsed), (''event'', JsonString event)}"
    unfolding json_fields_def extend_object_def by (simp add: subset_iff)
  show "redacted (evidence_event (sc_target sc) time elapsed event entries)"
  proof -
    have "\<forall>(k, v) \<in> set (et_dimensions (sc_target sc) @ entries) \<union> set ?base. plain v"
      using assms(1-3) base by (auto simp: scenario_ok_def plain_entries_def list_all_iff)
    then show ?thesis
      using facts by (auto simp: redacted_def evidence_event_def)
  qed
  show "event_label (evidence_event (sc_target sc) time elapsed event entries) =
      (Some event, Option.bind (map_of entries ''operation'') as_str, checks_pass entries)"
    "map_of (evidence_event (sc_target sc) time elapsed event entries) ''success'' = map_of entries ''success''"
    using assms(1) facts
    by (simp_all add: event_label_def evidence_event_def map_of_json_fields map_add_def scenario_ok_def checks_pass_def
        check_fields_def)
qed

text \<open>One line is printed; its label is known, and it is sound unless it says that the runner is complete.\<close>

lemma yields_emit:
  assumes "scenario_ok sc" "evidence_word event" "plain_entries entries" "map_of entries ''event'' = None"
    and "\<And>ev. redacted ev \<Longrightarrow> event_label ev = (Some event, Option.bind (map_of entries ''operation'') as_str, checks_pass entries) \<Longrightarrow>
      map_of ev ''success'' = map_of entries ''success'' \<Longrightarrow> Q () [ev]"
  shows "yields (evidence_emit sc event entries) Q"
proof -
  have "yields (write_event E ev) Q'" if "Q' () [ev]" for E :: "('a, 'b) tool_env" and ev Q'
    using that by (auto simp: yields_def write_event_def tool_bind_def tool_moment_def tool_stuck_def
        split: if_splits)
  then show ?thesis
    unfolding evidence_emit_def
    using assms(5) evidence_event_facts[OF assms(1-4)] by (fastforce intro!: yields_rules)
qed

end
