(* ===== verification/RunnerProperties.thy ===== *)
theory RunnerProperties
  imports RunnerLogic
begin

text \<open>What the runner writes: procedures first, then the three scenarios.\<close>

section \<open>The functions of support.rs\<close>

type_synonym label = "string option \<times> string option \<times> bool"

abbreviation plain_label :: "string \<Rightarrow> label" where "plain_label event \<equiv> (Some event, None, True)"

definition operation_labels :: "string \<Rightarrow> label list" where
  "operation_labels operation =
     [(Some ''operation_start'', Some operation, True), (Some ''operation_complete'', Some operation, True),
      (Some ''operation_status'', Some operation, True)]"

definition sound_lines :: "json_object list \<Rightarrow> bool" where
  "sound_lines evs \<longleftrightarrow> list_all sound_event evs"

lemma sound_lines_simps [simp]:
  "sound_lines []" "sound_lines (ev # evs) \<longleftrightarrow> sound_event ev \<and> sound_lines evs"
  "sound_lines (xs @ ys) \<longleftrightarrow> sound_lines xs \<and> sound_lines ys"
  by (simp_all add: sound_lines_def)

text \<open>One line that is not the last.\<close>

lemma yields_line:
  assumes "scenario_ok sc" "evidence_word event" "plain_entries entries" "map_of entries ''event'' = None"
    and "event \<noteq> ''runner_complete''"
    and "\<And>ev. sound_event ev \<Longrightarrow> event_label ev = (Some event, Option.bind (map_of entries ''operation'') as_str, checks_pass entries) \<Longrightarrow>
      Q () [ev]"
  shows "yields (evidence_emit sc event entries) Q"
  using assms by (intro yields_emit) (auto simp: sound_event_def)

lemma status_fields_plain [simp]:
  "plain_entries (status_fields hc)" "map_of (status_fields hc) ''event'' = None"
  "map_of (status_fields hc) ''operation'' = None"
  by (simp_all add: status_fields_def Let_def)

lemma status_fields_checks: "list_all (\<lambda>k. map_of (status_fields hc) k = None) check_fields"
  by (simp add: status_fields_def Let_def check_fields_def)

lemma checks_pass_other:
  "list_all (\<lambda>k. map_of entries k = None) check_fields \<Longrightarrow> checks_pass (entries @ rest) = checks_pass rest"
  by (auto simp: checks_pass_def list_all_iff map_add_def split: option.splits)

lemma status_checks_pass:
  "checks_pass (status_fields hc @ [(''snapshot_neutral'', b)])"
  "checks_pass (status_fields hc @ [(''snapshot_neutral'', b), (''operation'', v)])"
  unfolding checks_pass_other[OF status_fields_checks] by (simp_all add: checks_pass_def check_fields_def)

lemmas checks_defs = checks_pass_def check_fields_def

lemma yields_status:
  assumes "scenario_ok sc" "evidence_word event" "event \<noteq> ''runner_complete''" "\<And>word. operation = Some word \<Longrightarrow> evidence_word word"
    and "\<And>ev hc. sound_event ev \<Longrightarrow> event_label ev = (Some event, operation, True) \<Longrightarrow> Q hc [ev]"
  shows "yields (emit_status sc event operation hc0) Q"
  unfolding emit_status_def using assms
  by (cases operation) (auto intro!: yields_rules yields_line
      simp: map_add_def status_checks_pass)

lemma yields_failure:
  assumes "scenario_ok sc" "evidence_word operation"
    and "\<And>ev. sound_event ev \<Longrightarrow> Q () [ev]"
  shows "yields (emit_controller_failure sc operation e) Q"
  unfolding emit_controller_failure_def controller_failure_fields_def using assms
  by (auto intro!: yields_line simp: scenario_ok_def)

lemma yields_fixed_failure:
  assumes "scenario_ok sc" "evidence_word operation" "evidence_word kind"
    and "\<And>ev. sound_event ev \<Longrightarrow> Q () [ev]"
  shows "yields (emit_fixed_failure sc operation kind) Q"
  unfolding emit_fixed_failure_def using assms by (auto intro!: yields_line)

lemmas emit_rules = yields_rules yields_line yields_status yields_failure yields_fixed_failure

lemma yields_reopen:
  assumes "scenario_ok sc" "\<And>Q. (\<And>r. Q r []) \<Longrightarrow> yields build Q"
    and "\<And>ok evs. sound_lines evs \<Longrightarrow>
      (ok \<Longrightarrow> map event_label evs = [plain_label ''adapter_reopen_start'', plain_label ''adapter_reopen_complete'']) \<Longrightarrow> Q ok evs"
  shows "yields (verify_adapter_reopen sc build) Q"
  unfolding verify_adapter_reopen_def using assms(1)
  by (auto simp: checks_defs intro!: emit_rules assms(2,3))

lemma yields_close:
  assumes "scenario_ok sc"
    and "\<And>ok hc evs. sound_lines evs \<Longrightarrow>
      (ok \<Longrightarrow> map event_label evs = [plain_label ''close_start'', plain_label ''close_complete'']) \<Longrightarrow> Q (ok, hc) evs"
  shows "yields (close_controller sc with_neutral hc0) Q"
  unfolding close_controller_def using assms(1)
  by (auto simp: checks_defs intro!: emit_rules assms(2))


section \<open>Calls that are made one after the other\<close>

text \<open>\<open>c\<close> prints sound lines, and when it succeeds, exactly the lines \<open>labels\<close>.\<close>

definition call_shows :: "('t, 'a) call \<Rightarrow> label list \<Rightarrow> bool" where
  "call_shows c labels \<longleftrightarrow>
     (\<forall>hc. yields (c hc) (\<lambda>(r, hc) evs. sound_lines evs \<and> (is_ok r \<longrightarrow> map event_label evs = labels)))"

named_theorems shows_rules \<open>what the calls of an input sequence show\<close>

lemma yields_call:
  assumes "call_shows c labels"
    and "\<And>r hc evs. sound_lines evs \<Longrightarrow> (is_ok r \<Longrightarrow> map event_label evs = labels) \<Longrightarrow> Q (r, hc) evs"
  shows "yields (c hc0) Q"
  by (rule yields_conseq[OF assms(1)[unfolded call_shows_def, rule_format]]) (auto intro: assms(2))

lemma shows_then [shows_rules]:
  assumes "call_shows c labels" "\<And>a. call_shows (f a) labels'"
  shows "call_shows (call_then c f) (labels @ labels')"
proof -
  have "yields (call_then c f hc) (\<lambda>(r, hc) evs. sound_lines evs \<and> (is_ok r \<longrightarrow> map event_label evs = labels @ labels'))" for hc
    unfolding call_then_def
    by (auto intro!: yields_rules yields_call[OF assms(1)] yields_call[OF assms(2)])
  then show ?thesis
    by (simp add: call_shows_def)
qed

lemma shows_silent [shows_rules]:
  "call_shows call_ok []"
  "call_shows (hw_press buttons) []" "call_shows (hw_release buttons) []" "call_shows (hw_tap buttons d) []"
  "call_shows (hw_send_state state) []" "call_shows hw_neutral []"
  "call_shows (and_rest (hw_sleep E d)) []" "call_shows (and_rest (hw_settle E)) []"
  by (auto simp: call_shows_def call_ok_def and_rest_def intro!: yields_rules)

lemma shows_silent_all [shows_rules]:
  "(\<And>c. c \<in> set cs \<Longrightarrow> call_shows c []) \<Longrightarrow> call_shows (call_all cs) []"
proof (induction cs)
  case (Cons c cs)
  then show ?case
    using shows_then[of c "[]" "\<lambda>_. call_all cs" "[]"] by simp
qed (simp add: shows_silent)

lemma shows_all:
  "(\<And>x. x \<in> set xs \<Longrightarrow> call_shows (f x) (labels x)) \<Longrightarrow> call_shows (call_all (map f xs)) (concat (map labels xs))"
proof (induction xs)
  case (Cons x xs)
  then show ?case
    using shows_then[of "f x" "labels x" "\<lambda>_. call_all (map f xs)" "concat (map labels xs)"] by simp
qed (simp add: shows_silent)

lemma shows_with:
  "(\<And>a. r = Inr a \<Longrightarrow> call_shows (f a) labels) \<Longrightarrow> call_shows (call_with r f) labels"
  "(\<And>a. r = Inr a \<Longrightarrow> call_shows (f a) labels) \<Longrightarrow> call_shows (call_expect r f) labels"
  by (cases r; auto simp: call_shows_def call_with_def call_expect_def intro!: yields_rules)+

lemma shows_operation:
  assumes "scenario_ok sc" "evidence_word operation" "call_shows action []"
    and "\<And>connected delta. call_shows (completed connected delta) []"
    and "\<And>e hc. \<exists>e'. failed e hc = tool_return (Inl e', hc)"
  shows "call_shows (timed_operation sc operation required action completed failed) (operation_labels operation)"
proof -
  have failed: "yields (failed e hc) Q" if "\<And>e'. Q (Inl e', hc) []" for e hc Q
  proof -
    obtain e' where "failed e hc = tool_return (Inl e', hc)"
      using assms(5) by blast
    then show ?thesis
      using that by (simp add: yields_return)
  qed
  show ?thesis
    unfolding call_shows_def timed_operation_def using assms(1,2)
    by (auto simp: checks_defs intro!: emit_rules failed yields_call[OF assms(3)] yields_call[OF assms(4)] simp: operation_labels_def)
qed

lemma shows_holds [shows_rules]:
  "call_shows (hold_state E state hold) []" "call_shows (neutral_and_settle E) []"
  "call_shows (pro_tap E buttons) []" "call_shows (joycon_tap_and_settle E buttons d) []"
proof -
  have tap: "call_shows (joycon_tap E buttons d) []"
    unfolding call_shows_def joycon_tap_def
    by (auto intro!: yields_call[of _ "[]"] shows_rules simp del: call_all.simps split: any_controller.split)
  show "call_shows (hold_state E state hold) []" "call_shows (neutral_and_settle E) []"
    "call_shows (pro_tap E buttons) []" "call_shows (joycon_tap_and_settle E buttons d) []"
    unfolding hold_state_def neutral_and_settle_def pro_tap_def joycon_tap_and_settle_def
    by (auto intro!: shows_rules tap simp del: call_all.simps)
qed

lemma shows_pro_operation:
  assumes "scenario_ok sc" "evidence_word operation" "call_shows action []"
  shows "call_shows (pro_periodic_operation sc operation required action) (operation_labels operation)"
    "call_shows (pro_profile_operation sc operation action) (operation_labels operation)"
    "call_shows (joycon_operation sc operation action) (operation_labels operation)"
proof -
  have "call_shows (\<lambda>hc. if \<not> connected
          then tool_bind (emit_fixed_failure sc operation ''connection_lost'')
                 (\<lambda>_. tool_return (Inl input_sequence_failure, hc))
          else if delta = 0
          then tool_bind (emit_fixed_failure sc operation ''no_input_report_accepted'')
                 (\<lambda>_. tool_return (Inl input_sequence_failure, hc))
          else call_ok hc) []" for connected and delta :: u64
    unfolding call_shows_def call_ok_def using assms(1,2) by (auto simp: checks_defs intro!: emit_rules)
  then show "call_shows (joycon_operation sc operation action) (operation_labels operation)"
    unfolding joycon_operation_def by (intro shows_operation assms) auto
  show "call_shows (pro_periodic_operation sc operation required action) (operation_labels operation)"
    unfolding pro_periodic_operation_def by (rule shows_operation[OF assms]) (auto simp: shows_silent)
  show "call_shows (pro_profile_operation sc operation action) (operation_labels operation)"
    unfolding pro_profile_operation_def by (rule shows_operation[OF assms]) (auto simp: shows_silent)
qed


section \<open>The input sequences\<close>

definition pro_operations :: "string list" where
  "pro_operations = [''a_500ms'', ''l_plus_r_500ms''] @ map fst stick_table"

definition joycon_operations :: "joycon_model \<Rightarrow> string list" where
  "joycon_operations model =
     (case model of
        JoyConLeft \<Rightarrow> map fst left_taps @ map fst left_sticks
      | JoyConRight \<Rightarrow> map fst right_taps @ map fst right_sticks) @ [''explicit_neutral'']"

lemma make_sticks_names: "make_sticks table = Inr states \<Longrightarrow> map fst states = map fst table"
  by (induction table arbitrary: states rule: make_sticks.induct) (auto simp: bind_result_Inr_iff)

lemma operation_words:
  "list_all evidence_word (map fst stick_table)" "list_all evidence_word (map fst left_taps)"
  "list_all evidence_word (map fst right_taps)" "list_all evidence_word (map fst left_sticks)"
  "list_all evidence_word (map fst right_sticks)"
  by (simp_all add: stick_table_def left_taps_def right_taps_def left_sticks_def right_sticks_def)

text \<open>A table of operations, one after the other.\<close>

lemma shows_table:
  assumes "map fst xs = names" "list_all evidence_word names"
    and "\<And>name x. evidence_word name \<Longrightarrow> call_shows (f (name, x)) (operation_labels name)"
  shows "call_shows (call_all (map f xs)) (concat (map operation_labels names))"
proof -
  have "call_shows (f x) (operation_labels (fst x))" if "x \<in> set xs" for x
    using assms(2) assms(3)[of "fst x" "snd x"] that by (auto simp: list_all_iff simp flip: assms(1))
  from shows_all[OF this] show ?thesis
    by (simp add: assms(1)[symmetric] o_def)
qed

lemma shows_two:
  "call_shows a l \<Longrightarrow> call_shows b l' \<Longrightarrow> call_shows (call_all [a, b]) (l @ l')"
  using shows_then[of a l "\<lambda>_. call_all [b]" l'] shows_then[of b l' "\<lambda>_. call_ok" "[]"] by (simp add: shows_silent)

lemma shows_states:
  assumes "make_sticks table = Inr states" "list_all evidence_word (map fst table)"
    and "\<And>name action. evidence_word name \<Longrightarrow> call_shows action [] \<Longrightarrow> call_shows (run name action) (operation_labels name)"
  shows "call_shows (call_all (map (\<lambda>(operation, state). run operation (hold_state E state hold)) states))
    (concat (map operation_labels (map fst table)))"
  using make_sticks_names[OF assms(1)] assms(2) by (rule shows_table) (simp add: assms(3) shows_holds)

lemma shows_pro_inputs:
  assumes "scenario_ok sc"
  shows "call_shows (pro_periodic_inputs sc)
      (concat (map operation_labels (pro_operations @ [''imu_non_neutral_1000ms'', ''explicit_neutral''])))"
    "call_shows (pro_profile_inputs sc) (concat (map operation_labels (pro_operations @ [''explicit_neutral''])))"
proof -
  note operations = shows_pro_operation[OF assms]
  have "call_shows (pro_periodic_inputs sc)
      ((operation_labels ''a_500ms'' @ operation_labels ''l_plus_r_500ms'')
       @ (concat (map operation_labels (map fst stick_table))
          @ (operation_labels ''imu_non_neutral_1000ms'' @ operation_labels ''explicit_neutral'')))"
    unfolding pro_periodic_inputs_def
  proof (rule shows_then, goal_cases taps states)
    case taps
    show ?case by (intro shows_two operations shows_holds; simp)
  next
    case states
    show ?case
    proof (rule shows_with(1))
      fix states assume "make_sticks stick_table = Inr states"
      from shows_states[OF this operation_words(1) operations(1)]
      show "call_shows (call_then (call_all (map (\<lambda>(operation, state).
            pro_periodic_operation sc operation True (hold_state (sc_env sc) state stick_hold)) states)) (\<lambda>_.
          call_with pro_periodic_imu (\<lambda>imu.
          call_all
            [pro_periodic_operation sc ''imu_non_neutral_1000ms'' False
               (hold_state (sc_env sc) (with_imu input_neutral (Repeat imu)) imu_hold),
             pro_periodic_operation sc ''explicit_neutral'' True (neutral_and_settle (sc_env sc))])))
         (concat (map operation_labels (map fst stick_table))
          @ (operation_labels ''imu_non_neutral_1000ms'' @ operation_labels ''explicit_neutral''))"
        by (rule shows_then) (assumption | (intro shows_with shows_two operations shows_holds; simp))+
    qed
  qed
  then show "call_shows (pro_periodic_inputs sc)
      (concat (map operation_labels (pro_operations @ [''imu_non_neutral_1000ms'', ''explicit_neutral''])))"
    by (simp add: pro_operations_def)
  have "call_shows (pro_profile_inputs sc)
      ((operation_labels ''a_500ms'' @ operation_labels ''l_plus_r_500ms'')
       @ (concat (map operation_labels (map fst stick_table)) @ operation_labels ''explicit_neutral''))"
    unfolding pro_profile_inputs_def
  proof (rule shows_then, goal_cases taps states)
    case taps
    show ?case by (intro shows_two operations shows_holds; simp)
  next
    case states
    show ?case
    proof (rule shows_with(1))
      fix states assume "make_sticks stick_table = Inr states"
      from shows_states[OF this operation_words(1) operations(2)]
      show "call_shows (call_then (call_all (map (\<lambda>(operation, state).
            pro_profile_operation sc operation (hold_state (sc_env sc) state stick_hold)) states)) (\<lambda>_.
          pro_profile_operation sc ''explicit_neutral'' (neutral_and_settle (sc_env sc))))
         (concat (map operation_labels (map fst stick_table)) @ operation_labels ''explicit_neutral'')"
        by (rule shows_then) (assumption | (intro operations shows_holds; simp))+
    qed
  qed
  then show "call_shows (pro_profile_inputs sc)
      (concat (map operation_labels (pro_operations @ [''explicit_neutral''])))"
    by (simp add: pro_operations_def)
qed

lemma shows_joycon_inputs:
  assumes "scenario_ok sc"
  shows "call_shows (joycon_inputs sc args) (concat (map operation_labels (joycon_operations (jc_model args))))"
proof -
  note operations = shows_pro_operation[OF assms]
  have "call_shows (joycon_sequence sc taps sticks)
      (concat (map operation_labels (map fst taps))
       @ (concat (map operation_labels (map fst sticks)) @ operation_labels ''explicit_neutral''))"
    if "list_all evidence_word (map fst taps)" "list_all evidence_word (map fst sticks)" for taps sticks
    unfolding joycon_sequence_def
  proof (rule shows_then, goal_cases taps states)
    case taps
    show ?case
      by (rule shows_table[OF refl that(1)]) (auto intro!: operations shows_holds)
  next
    case states
    show ?case
    proof (rule shows_with(2))
      fix states assume "make_sticks sticks = Inr states"
      from shows_states[OF this that(2) operations(3)]
      show "call_shows (call_then (call_all (map (\<lambda>(operation, state).
            joycon_operation sc operation (hold_state (sc_env sc) state stick_hold)) states)) (\<lambda>_.
          joycon_operation sc ''explicit_neutral'' (neutral_and_settle (sc_env sc))))
         (concat (map operation_labels (map fst sticks)) @ operation_labels ''explicit_neutral'')"
        by (rule shows_then) (assumption | (intro operations shows_holds; simp))+
    qed
  qed
  from this[of left_taps left_sticks] this[of right_taps right_sticks] show ?thesis
    by (simp add: operation_words joycon_inputs_def joycon_operations_def split: joycon_model.split)
qed

end
