(* ===== verification/RunnerRun.thy ===== *)
theory RunnerRun
  imports RunnerProperties Sender
begin

text \<open>The evidence of a whole run of the runner.\<close>

section \<open>The scripts of good runs\<close>

definition operations_script :: "string list \<Rightarrow> label list" where
  "operations_script operations = concat (map operation_labels operations)"

definition wrap_up_script :: "label list" where
  "wrap_up_script = map plain_label
     [''close_start'', ''close_complete'', ''adapter_reopen_start'', ''adapter_reopen_complete'',
      ''profile_postflight'', ''runner_complete'']"

definition pro_periodic_script :: "label list" where
  "pro_periodic_script =
     map plain_label [''runner_start'', ''pair_start'', ''pair_ready'', ''ready_status'']
     @ operations_script (pro_operations @ [''imu_non_neutral_1000ms'', ''explicit_neutral''])
     @ map plain_label
       [''pre_close_status'', ''close_start'', ''close_complete'', ''profile_validation'', ''adapter_reopen_start'',
        ''adapter_reopen_complete'', ''runner_complete'']"

definition idle_script :: "runner_mode \<Rightarrow> label list" where
  "idle_script mode =
     (if mode = RunDirect then map plain_label [''direct_idle_start'', ''direct_idle_complete''] else [])"

definition pro_profile_script :: "pro_profile_args \<Rightarrow> label list" where
  "pro_profile_script args =
     map plain_label [''runner_start'', ''profile_preflight'', ''reconnect_start'']
     @ (if pr_setup args = SetupStaleBond then [plain_label ''expected_reconnect_failure'']
        else map plain_label [''reconnect_ready'', ''ready_status''] @ idle_script (pr_mode args)
          @ operations_script (pro_operations @ [''explicit_neutral'']) @ [plain_label ''pre_close_status''])
     @ wrap_up_script"

definition joycon_script :: "joycon_args \<Rightarrow> label list" where
  "joycon_script args =
     map plain_label
       [''runner_start'', ''profile_preflight'', ''connection_start'', ''connection_ready'', ''ready_status'']
     @ (if jc_pre_input_idle args = 0 then []
        else map plain_label [''pre_input_idle_start'', ''pre_input_idle_complete''])
     @ idle_script (jc_mode args) @ operations_script (joycon_operations (jc_model args))
     @ [plain_label ''pre_close_status''] @ wrap_up_script"

definition completes :: "label list \<Rightarrow> bool \<Rightarrow> json_object list \<Rightarrow> bool" where
  "completes script success evs \<longleftrightarrow>
     evs \<noteq> [] \<and> sound_lines (butlast evs) \<and> redacted (last evs)
     \<and> event_label (last evs) = plain_label ''runner_complete''
     \<and> map_of (last evs) ''success'' = Some (JsonBool success)
     \<and> (success \<longrightarrow> map event_label evs = script)"

lemma yields_finish:
  assumes "scenario_ok sc"
    and "\<And>ev. redacted ev \<Longrightarrow> event_label ev = plain_label ''runner_complete'' \<Longrightarrow>
      map_of ev ''success'' = Some (JsonBool success) \<Longrightarrow> Q success [ev]"
  shows "yields (finish_with sc success) Q"
  unfolding finish_with_def emit_completion_def using assms
  by (auto simp: checks_defs intro!: yields_rules yields_emit)

lemmas run_rules = emit_rules yields_finish yields_reopen yields_close

section \<open>\<open>pro-periodic\<close>\<close>

lemma yields_validate:
  assumes "scenario_ok sc"
    and "\<And>valid reopened evs. sound_lines evs \<Longrightarrow>
      (valid \<and> reopened \<Longrightarrow> map event_label evs = map plain_label
         [''profile_validation'', ''adapter_reopen_start'', ''adapter_reopen_complete'']) \<Longrightarrow> Q (valid, reopened) evs"
  shows "yields (validate_and_reopen sc args) Q"
  unfolding validate_and_reopen_def validate_profile_def pro_periodic_build_def using assms(1)
  by (auto simp: checks_defs intro!: run_rules assms(2))

lemma yields_pro_periodic_close:
  assumes "scenario_ok sc"
    and "\<And>ok evs. sound_lines evs \<Longrightarrow>
      (ok \<Longrightarrow> map event_label evs = [plain_label ''close_start'', plain_label ''close_complete'']) \<Longrightarrow> Q ok evs"
  shows "yields (pro_periodic_close sc hc) Q"
  unfolding pro_periodic_close_def using assms(1) by (auto simp: checks_defs intro!: run_rules assms(2))

lemma scenario_ok_targets:
  "scenario_ok \<lparr>sc_env = E, sc_target = pro_periodic_target pp, sc_started = t\<rparr>"
  "scenario_ok \<lparr>sc_env = E, sc_target = pro_profile_target pr, sc_started = t\<rparr>"
  "scenario_ok \<lparr>sc_env = E, sc_target = joycon_target jc, sc_started = t\<rparr>"
  by (simp_all add: check_fields_def scenario_ok_def pro_periodic_target_def pro_profile_target_def joycon_target_def
      pro_periodic_error_name_def)

lemma yields_pro_periodic:
  "yields (pro_periodic_hardware E args) (completes pro_periodic_script)"
proof -
  note inputs = yields_call[OF shows_pro_inputs(1)[OF scenario_ok_targets(1)[of E args]]]
  show ?thesis
    unfolding pro_periodic_hardware_def Let_def
    by (auto simp: checks_defs intro!: run_rules yields_validate yields_pro_periodic_close inputs scenario_ok_targets
        simp: checks_defs completes_def pro_periodic_script_def operations_script_def butlast_append)
qed


section \<open>\<open>pro-profile\<close>\<close>

lemma stale_problem_words: "stale_profile_bytes E source = Inl problem \<Longrightarrow> evidence_word problem"
  by (auto simp: stale_profile_bytes_def stale_profile_def some_or_def bind_result_Inl_iff
      split: option.splits list.splits if_splits prod.splits)

lemma yields_prepare:
  assumes "scenario_ok sc"
    and "\<And>r evs. sound_lines evs \<Longrightarrow> (\<And>problem. r = Inl problem \<Longrightarrow> evidence_word problem) \<Longrightarrow>
      (is_ok r \<Longrightarrow> map event_label evs = [plain_label ''profile_preflight'']) \<Longrightarrow> Q r evs"
  shows "yields (prepare_profile sc args) Q"
  unfolding prepare_profile_def create_stale_copy_def step_or_def tool_read_def using assms(1)
  by (auto simp: checks_defs intro!: run_rules assms(2) dest: stale_problem_words)

lemma yields_unchanged:
  assumes "scenario_ok sc"
    and "\<And>ok evs. sound_lines evs \<Longrightarrow> (ok \<Longrightarrow> map event_label evs = [plain_label ''profile_postflight'']) \<Longrightarrow> Q ok evs"
  shows "yields (verify_profile_unchanged sc args baseline) Q"
  unfolding verify_profile_unchanged_def tool_read_def Let_def using assms(1)
  by (auto simp: checks_defs intro!: run_rules assms(2))

lemma yields_direct_idle:
  assumes "scenario_ok sc"
    and "\<And>ok hc evs. sound_lines evs \<Longrightarrow>
      map event_label evs = [plain_label ''direct_idle_start'', plain_label ''direct_idle_complete''] \<Longrightarrow> Q (ok, hc) evs"
  shows "yields (verify_direct_idle sc hc0) Q"
  unfolding verify_direct_idle_def verify_idle_def Let_def using assms(1)
  by (auto simp: checks_defs intro!: run_rules assms(2))

lemma yields_pro_profile_wrap_up:
  assumes "scenario_ok sc"
    and "\<And>success evs. completes wrap_up_script success evs \<Longrightarrow> (success \<Longrightarrow> good) \<Longrightarrow> Q success evs"
  shows "yields (pro_profile_wrap_up sc args baseline with_neutral good hc) Q"
proof -
  have "yields (hw_build E r m adapter profile) Q" if "\<And>x. Q x []" for E :: "('a, 'b) tool_env" and r m adapter profile Q
    using that by (rule yields_controller)
  then show ?thesis
    unfolding pro_profile_wrap_up_def pro_profile_build_def using assms(1)
    by (auto simp: checks_defs intro!: run_rules yields_unchanged assms(2) simp: checks_defs completes_def wrap_up_script_def butlast_append)
qed

lemma yields_pro_profile_connected:
  assumes "scenario_ok sc"
    and "\<And>success evs. completes (idle_script (pr_mode args)
        @ operations_script (pro_operations @ [''explicit_neutral'']) @ [plain_label ''pre_close_status'']
        @ wrap_up_script) success evs \<Longrightarrow> Q success evs"
  shows "yields (pro_profile_connected sc args baseline hc) Q"
proof -
  note inputs = yields_call[OF shows_pro_inputs(2)[OF assms(1)]]
  show ?thesis
    unfolding pro_profile_connected_def using assms(1)
    by (auto simp: checks_defs intro!: run_rules yields_direct_idle inputs yields_pro_profile_wrap_up assms(2)
        simp: checks_defs completes_def butlast_append idle_script_def operations_script_def)
qed


lemma yields_pro_profile_reconnect:
  assumes "scenario_ok sc"
    and "\<And>success evs. completes (plain_label ''reconnect_start''
        # (if pr_setup args = SetupStaleBond then [plain_label ''expected_reconnect_failure'']
           else map plain_label [''reconnect_ready'', ''ready_status''] @ idle_script (pr_mode args)
             @ operations_script (pro_operations @ [''explicit_neutral'']) @ [plain_label ''pre_close_status''])
        @ wrap_up_script) success evs \<Longrightarrow> Q success evs"
  shows "yields (pro_profile_reconnect sc args baseline hc) Q"
proof -
  have kinds: "evidence_word (et_error_name (sc_target sc) kind)" for kind
    using assms(1) by (simp add: scenario_ok_def)
  show ?thesis
    unfolding pro_profile_reconnect_def using assms(1)
    by (auto simp: checks_defs intro!: run_rules yields_unchanged yields_pro_profile_wrap_up yields_pro_profile_connected assms(2)
        simp: checks_defs completes_def butlast_append kinds)
qed

lemma yields_pro_profile:
  "yields (pro_profile_hardware E args) (completes (pro_profile_script args))"
  unfolding pro_profile_hardware_def pro_profile_build_def Let_def
  by (auto simp: checks_defs intro!: run_rules yields_prepare yields_pro_profile_reconnect scenario_ok_targets
      simp: checks_defs completes_def butlast_append pro_profile_script_def)

section \<open>\<open>joycon-profile\<close>\<close>

lemma yields_joycon_prepare:
  assumes "scenario_ok sc"
    and "\<And>r evs. sound_lines evs \<Longrightarrow> (\<And>problem. r = Inl problem \<Longrightarrow> evidence_word problem) \<Longrightarrow>
      (is_ok r \<Longrightarrow> map event_label evs = [plain_label ''profile_preflight'']) \<Longrightarrow> Q r evs"
  shows "yields (joycon_prepare_profile sc args) Q"
  unfolding joycon_prepare_profile_def step_or_def tool_read_def using assms(1)
  by (auto simp: checks_defs intro!: run_rules assms(2) split: joycon_connection.split)

lemma yields_pre_input_idle:
  assumes "scenario_ok sc"
    and "\<And>ok hc evs. sound_lines evs \<Longrightarrow>
      (ok \<Longrightarrow> map event_label evs = (if jc_pre_input_idle args = 0 then []
         else map plain_label [''pre_input_idle_start'', ''pre_input_idle_complete''])) \<Longrightarrow> Q (ok, hc) evs"
  shows "yields (verify_pre_input_idle sc args hc0) Q"
  unfolding verify_pre_input_idle_def verify_idle_def Let_def using assms(1)
  by (auto simp: checks_defs intro!: run_rules assms(2))

lemma yields_postflight:
  assumes "scenario_ok sc"
    and "\<And>ok evs. sound_lines evs \<Longrightarrow> (ok \<Longrightarrow> map event_label evs = [plain_label ''profile_postflight'']) \<Longrightarrow> Q ok evs"
  shows "yields (verify_profile_postflight sc args baseline) Q"
  unfolding verify_profile_postflight_def tool_read_def Let_def using assms(1)
  by (auto simp: checks_defs intro!: run_rules assms(2))

lemma yields_joycon_connected:
  assumes "scenario_ok sc"
    and "\<And>success evs. completes (map plain_label [''connection_ready'', ''ready_status'']
        @ (if jc_pre_input_idle args = 0 then []
           else map plain_label [''pre_input_idle_start'', ''pre_input_idle_complete''])
        @ idle_script (jc_mode args) @ operations_script (joycon_operations (jc_model args))
        @ [plain_label ''pre_close_status''] @ wrap_up_script) success evs \<Longrightarrow> Q success evs"
  shows "yields (joycon_connected sc args baseline t hc) Q"
proof -
  note inputs = yields_call[OF shows_joycon_inputs[OF assms(1)]]
  show ?thesis
    unfolding joycon_connected_def joycon_build_def using assms(1)
    by (auto simp: checks_defs intro!: run_rules yields_pre_input_idle yields_direct_idle inputs yields_postflight assms(2)
        simp: checks_defs completes_def butlast_append idle_script_def operations_script_def wrap_up_script_def)
qed

lemma yields_joycon_failed:
  assumes "scenario_ok sc" and "\<And>evs. completes script False evs \<Longrightarrow> Q False evs"
  shows "yields (joycon_connection_failed sc args baseline e) Q"
  unfolding joycon_connection_failed_def using assms(1)
  by (auto simp: checks_defs intro!: run_rules yields_postflight assms(2) simp: checks_defs completes_def butlast_append)


lemma yields_joycon_connect:
  assumes "scenario_ok sc"
    and "\<And>success evs. completes (map plain_label [''connection_ready'', ''ready_status'']
        @ (if jc_pre_input_idle args = 0 then []
           else map plain_label [''pre_input_idle_start'', ''pre_input_idle_complete''])
        @ idle_script (jc_mode args) @ operations_script (joycon_operations (jc_model args))
        @ [plain_label ''pre_close_status''] @ wrap_up_script) success evs \<Longrightarrow> Q success evs"
  shows "yields (joycon_connect sc args baseline t) Q"
  unfolding joycon_connect_def joycon_build_def joycon_create_paired_def using assms(1)
  by (cases "jc_connection args")
    (auto intro!: run_rules yields_joycon_connected yields_joycon_failed assms(2) simp: checks_defs completes_def butlast_append)

lemma yields_joycon:
  "yields (joycon_hardware E args) (completes (joycon_script args))"
  unfolding joycon_hardware_def Let_def
  by (auto simp: checks_defs intro!: run_rules yields_joycon_prepare yields_joycon_connect scenario_ok_targets
      simp: checks_defs completes_def butlast_append joycon_script_def)

section \<open>The runner\<close>

definition when_parsed :: "('a, 'e) result \<Rightarrow> ('a \<Rightarrow> 'b) \<Rightarrow> 'b option" where
  "when_parsed parsed f = (case parsed of Inl _ \<Rightarrow> None | Inr args \<Rightarrow> Some (f args))"

definition runner_script :: "string list \<Rightarrow> label list option" where
  "runner_script arguments =
     (case parse_runner_command arguments of
        Some (RunnerScenario ProPeriodicScenario arguments) \<Rightarrow>
          when_parsed (pro_periodic_parse_args arguments) (\<lambda>_. pro_periodic_script)
      | Some (RunnerScenario ProProfileScenario arguments) \<Rightarrow>
          when_parsed (pro_profile_parse_args arguments) pro_profile_script
      | Some (RunnerScenario JoyConProfileScenario arguments) \<Rightarrow>
          when_parsed (joycon_parse_args arguments) joycon_script
      | _ \<Rightarrow> None)"

lemma yields_scenarios:
  "yields (pro_periodic_run E arguments) (\<lambda>code evs.
     case when_parsed (pro_periodic_parse_args arguments) (\<lambda>_. pro_periodic_script) of
       None \<Rightarrow> evs = [] \<and> code = 2 | Some script \<Rightarrow> code \<in> {0, 1} \<and> completes script (code = 0) evs)"
  "yields (pro_profile_run E arguments) (\<lambda>code evs.
     case when_parsed (pro_profile_parse_args arguments) pro_profile_script of
       None \<Rightarrow> evs = [] \<and> code = 2 | Some script \<Rightarrow> code \<in> {0, 1} \<and> completes script (code = 0) evs)"
  "yields (joycon_run E arguments) (\<lambda>code evs.
     case when_parsed (joycon_parse_args arguments) joycon_script of
       None \<Rightarrow> evs = [] \<and> code = 2 | Some script \<Rightarrow> code \<in> {0, 1} \<and> completes script (code = 0) evs)"
  unfolding pro_periodic_run_def pro_profile_run_def joycon_run_def when_parsed_def exit_code_def
  by (auto intro!: yields_rules yields_conseq[OF yields_pro_periodic] yields_conseq[OF yields_pro_profile]
      yields_conseq[OF yields_joycon])

lemma yields_runner:
  "yields (runner_run E printed arguments) (\<lambda>code evs.
     case runner_script arguments of
       None \<Rightarrow> evs = [] \<and> (code = 0 \<longrightarrow> parse_runner_command arguments = Some RunnerHelp)
     | Some script \<Rightarrow> code \<in> {0, 1} \<and> completes script (code = 0) evs)"
  unfolding runner_run_def runner_script_def
  by (auto intro!: yields_rules yields_conseq[OF yields_scenarios(1)] yields_conseq[OF yields_scenarios(2)]
      yields_conseq[OF yields_scenarios(3)]
      split: option.split runner_command.split runner_scenario.split option.splits)


text \<open>The profile is missing: three lines, and exit code 1.\<close>

definition unused_atomic_writer :: "unit atomic_writer" where
  "unused_atomic_writer =
     \<lparr>aw_open = (\<lambda>_. io_fail IoOther), aw_write_all = (\<lambda>_ _. io_fail IoOther), aw_flush = (\<lambda>_. io_fail IoOther),
      aw_sync_all = (\<lambda>_. io_fail IoOther), aw_commit = (\<lambda>_. io_fail IoOther), aw_drop = (\<lambda>_ w. w)\<rparr>"

definition sample_tool_env :: "(unit, scripted_port) tool_env" where
  "sample_tool_env =
     \<lparr>tl_json = sample_json_codec, tl_parse_value = (\<lambda>_. None), tl_pretty_value = (\<lambda>_. None),
      tl_writer = unused_atomic_writer,
      tl_platform = (\<lambda>_. \<lparr>pf_floats = sample_floats, pf_transport = scripted_transport,
        pf_factory = (\<lambda>_. Inl (new_error TransportOpen)), pf_clock = (\<lambda>n. n), pf_waits = (\<lambda>_. True),
        pf_spawns = True, pf_join = Inr (), pf_delay = 2, pf_fuel = 3\<rparr>),
      tl_runs = (\<lambda>_ _. 1), tl_instant = (\<lambda>n. n), tl_unix = (\<lambda>n. n), tl_prints = (\<lambda>_. True)\<rparr>"

definition sample_tool_world :: tool_world where
  "sample_tool_world = \<lparr>tw_fs = empty_world, tw_builds = 0, tw_moment = 0, tw_lines = []\<rparr>"

definition sample_runner_arguments :: "string list" where
  "sample_runner_arguments =
     [''pro-profile'', ''--adapter'', ''usb:0'', ''--profile'', ''p'', ''--mode'', ''direct'', ''--setup'', ''normal'',
      ''--connect-timeout-secs'', ''1'', ''--run'', ''1'']"

definition sample_profile_args :: pro_profile_args where
  "sample_profile_args = \<lparr>pr_adapter = ''usb:0'', pr_profile = ''p'', pr_stale_source = None, pr_mode = RunDirect,
     pr_setup = SetupNormal, pr_connect_timeout = from_secs 1, pr_run_index = 1\<rparr>"

lemma sample_numbers: "parse_unsigned (2 ^ 64) ''1'' = Some 1" "parse_unsigned (2 ^ 8) ''1'' = Some 1"
  by (simp_all add: parse_unsigned_def decimal_value_def digit_value_def)

lemma sample_arguments_read:
  "parse_runner_command sample_runner_arguments = Some (RunnerScenario ProProfileScenario (tl sample_runner_arguments))"
  "pro_profile_parse_args (tl sample_runner_arguments) = Inr sample_profile_args"
proof -
  show "parse_runner_command sample_runner_arguments =
      Some (RunnerScenario ProProfileScenario (tl sample_runner_arguments))"
    by code_simp
  let ?opts = "[(''--adapter'', ''usb:0''), (''--profile'', ''p''), (''--mode'', ''direct''), (''--setup'', ''normal''),
    (''--connect-timeout-secs'', ''1''), (''--run'', ''1'')]"
  have "tl sample_runner_arguments = flatten_pairs ?opts"
    by (simp add: sample_runner_arguments_def)
  then show "pro_profile_parse_args (tl sample_runner_arguments) = Inr sample_profile_args"
    unfolding pro_profile_accepts_exactly accepted_def
    by (intro exI[of _ ?opts])
      (simp add: pro_profile_flags_def sample_profile_args_def runner_modes_def operator_setups_def number_option_def
        sample_numbers[simplified] stale_source_problem_def)
qed

lemma sample_profile_missing: "snd (store_read (parse_path ''p'') empty_world) = Inl IoNotFound"
  by code_simp

lemma sample_run: "map_option fst (runner_run sample_tool_env True sample_runner_arguments sample_tool_world) = Some 1"
proof -
  obtain fs where read: "store_read (parse_path ''p'') empty_world = (fs, Inl IoNotFound)"
    using sample_profile_missing by (metis prod.collapse)
  show ?thesis
    by (simp add: runner_run_def sample_arguments_read pro_profile_run_def pro_profile_hardware_def prepare_profile_def
        sample_profile_args_def step_or_def tool_read_def tool_io_def tool_bind_def tool_return_def tool_now_def
        tool_moment_def tool_elapsed_def evidence_emit_def write_event_def emit_fixed_failure_def finish_with_def
        emit_completion_def sample_tool_env_def sample_tool_world_def read exit_code_def Let_def)
qed


end
