(* ===== verification/StaleProfile.thy ===== *)
theory StaleProfile
  imports RunnerProfiles "HOL-Library.Sublist"
begin

text \<open>
  The stale copy that \<open>pro-profile\<close> makes of a profile: the profile with another link key, one hexadecimal digit away.
\<close>

fun get_path :: "string list \<Rightarrow> json_value \<Rightarrow> json_value option" where
  "get_path [] v = Some v"
| "get_path (k # ks) v = Option.bind (value_get k v) (get_path ks)"

lemma map_of_assigned:
  "map_of (map (\<lambda>(k', v). if k' = k then (k', f v) else (k', v)) object) j =
     (if j = k then map_option f (map_of object k) else map_of object j)"
  by (induction object) auto

lemma value_get_set:
  "value_get j (set_path (k # ks) x v) = (if j = k then map_option (set_path ks x) (value_get k v) else value_get j v)"
  by (cases v) (simp_all add: map_of_assigned)

lemma get_path_set: "get_path p v \<noteq> None \<Longrightarrow> get_path p (set_path p x v) = Some x"
proof (induction p arbitrary: v)
  case (Cons k p)
  then show ?case
    by (auto simp: value_get_set bind_eq_Some_conv simp del: set_path.simps)
qed simp

lemma get_path_elsewhere:
  "\<not> prefix p q \<Longrightarrow> \<not> prefix q p \<Longrightarrow> get_path q (set_path p x v) = get_path q v"
proof (induction p arbitrary: q v)
  case (Cons k p)
  then obtain j q' where q: "q = j # q'"
    by (cases q) auto
  show ?case
  proof (cases "j = k")
    case True
    then show ?thesis
      using Cons q by (cases "value_get k v") (auto simp: value_get_set simp del: set_path.simps)
  next
    case False
    then show ?thesis
      by (simp add: q value_get_set del: set_path.simps)
  qed
qed simp

lemma value_get_object: "as_object v = Some object \<Longrightarrow> value_get k v = map_of object k"
  by (cases v) auto

theorem stale_copy_differs_in_one_digit:
  assumes "stale_profile profile = Inr stale"
  obtains namespace peer key where
    "get_path [''key_store'', ''namespaces'', namespace, peer, ''link_key'', ''value''] profile = Some (JsonString key)"
    "get_path [''key_store'', ''namespaces'', namespace, peer, ''link_key'', ''value''] stale =
       Some (JsonString (stale_link_key key))"
    "length (stale_link_key key) = 32" "list_all ascii_hexdigit (stale_link_key key)"
    "hd (stale_link_key key) \<noteq> hd key" "tl (stale_link_key key) = tl key"
    "\<And>q. \<not> prefix q [''key_store'', ''namespaces'', namespace, peer, ''link_key'', ''value''] \<Longrightarrow>
       \<not> prefix [''key_store'', ''namespaces'', namespace, peer, ''link_key'', ''value''] q \<Longrightarrow>
       get_path q stale = get_path q profile"
proof -
  from assms obtain store names namespace peer_map peer keys link v key where
    path: "value_get ''key_store'' profile = Some store" "value_get ''namespaces'' store = Some names"
      "as_object names = Some [(namespace, peer_map)]" "as_object peer_map = Some [(peer, keys)]"
      "value_get ''link_key'' keys = Some link" "value_get ''value'' link = Some v" "as_str v = Some key"
    and key: "length key = 32" "list_all ascii_hexdigit key"
    and stale: "stale = set_path [''key_store'', ''namespaces'', namespace, peer, ''link_key'', ''value'']
        (JsonString (stale_link_key key)) profile"
    by (auto simp: stale_profile_def some_or_def bind_result_Inr_iff bind_eq_Some_conv
        split: option.splits list.splits prod.splits if_splits)
  have v: "v = JsonString key"
    using path(7) by (cases v) auto
  let ?path = "[''key_store'', ''namespaces'', namespace, peer, ''link_key'', ''value'']"
  have found: "get_path ?path profile = Some (JsonString key)"
    using path v by (simp add: value_get_object)
  obtain c t where ct: "key = c # t"
    using key(1) by (cases key) auto
  show thesis
  proof (rule that[OF found])
    show "get_path ?path stale = Some (JsonString (stale_link_key key))"
      unfolding stale by (rule get_path_set) (use found in simp)
    show "get_path q stale = get_path q profile" if "\<not> prefix q ?path" "\<not> prefix ?path q" for q
      unfolding stale by (rule get_path_elsewhere) (use that in simp_all)
  qed (use key in \<open>auto simp: stale_link_key_def ct ascii_hexdigit_def\<close>)
qed

end
