(* ===== verification/WorkerDeadlines.thy ===== *)
theory WorkerDeadlines
  imports WorkerProperties WorkerEndings
begin

text \<open>
  What the thread waits for after a step: no deadline of the reporting mode, of the connection attempt or
  of its handshake is slept through.
\<close>

section \<open>Deadlines\<close>

lemma minimum_deadline_covers:
  "d \<in> set_option a \<union> set_option b \<Longrightarrow> \<exists>m. minimum_deadline a b = Some m \<and> m \<le> d"
  by (auto simp: minimum_deadline_def split: option.splits)

text \<open>Everything a worker has to wake up for.\<close>

definition worker_deadlines :: "('c, 'r, 't) worker_reporting \<Rightarrow> ('r, 't) worker_core \<Rightarrow> duration set" where
  "worker_deadlines R w =
     set_option (rp_next_deadline R (wk_reporting w))
     \<union> (case wk_connection w of None \<Rightarrow> {} | Some c \<Rightarrow>
          insert (gate_operation_deadline (cw_readiness c))
            (case cw_handshake c of None \<Rightarrow> {} | Some h \<Rightarrow> set_option (handshake_next_deadline h)))"

lemma worker_next_deadline_covers:
  assumes "d \<in> worker_deadlines R w"
  shows "\<exists>m. worker_next_deadline R w = Some m \<and> m \<le> d"
  using assms
  by (auto simp: worker_deadlines_def worker_next_deadline_def minimum_deadline_def Let_def min_def
      split: option.splits)



end
