(* ===== verification/Spec2Isabelle.thy ===== *)
theory Spec2Isabelle
  imports Prelude Adapter Bumble BumbleController Cleanup Clock Colors Command CommandLine Controller ControllerConfig ControllerModel ControllerProperties DiagnosticsRecord Direct ErrorMap Errors FakeTransport FileSafety FileStore Float64 Handshake Identity Ieee ImuBlock ImuEncoding ImuMotion InputReport InputState Json Lifecycle Observed OutputReport Owner Periodic ProbeArguments ProbeTrace ProfileDocument ProfileKeyStore ProtocolError ProtocolSession Readiness Reopening Reporting ReportingLaws RunnerArguments RunnerEvidence RunnerJoyCon RunnerLogic RunnerProfiles RunnerProperties RunnerRun RunnerScenarios Scheduler Sender Sessions ShutdownChannel SpiFlash StaleProfile Status Subcommand ThreadInvariant ToolWorld Transport TransportRelease UnitInput Worker WorkerCommands WorkerDeadlines WorkerEndings WorkerInvariant WorkerPanic WorkerPhases WorkerProperties WorkerShutdown WorkerStep WorkerThread
begin

text \<open>
  A verification development for swbt-rs, a virtual game controller that talks Bluetooth HID to a
  console.  It models the protocol crate (\<open>crates/swbt-core\<close>), the runtime of the main crate
  (\<open>src/runtime\<close>) and the public controller (\<open>src/controller\<close>, \<open>src/reporting\<close>).

  The program.  A controller has a worker (\<open>WorkerCore\<close>, \<open>worker.rs\<close>) that owns the committed input
  state, the report sender, the transport and the connection attempt.  Each step of the worker takes at
  most one command, polls the transport, handles the events of the current session (link and channel
  events drive the handshake, output reports are answered with subcommand replies), drives the
  connection attempt (handshake and readiness gate), and performs what is due (an automatic report, the
  release of a tap).  A shutdown request is looked for after every one of these, and wins.  Bytes reach
  the wire only through \<open>ReportSender\<close>, which commits its timer and protocol session after the transport
  has accepted them.  A controller is periodic (reports on a schedule, held off by replies) or direct
  (one report per command).  The worker runs on a thread of its own: the loop steps it, delivers the answer
  of the command in flight and waits until the next deadline or activity.  The controller's calls put a
  command into a channel of capacity one and block on its response; a close goes through a shutdown cell of
  its own, which the worker polls first and often.

  Conventions (Prelude, Errors, Clock).  Machine integers are words, lengths and indices are \<open>nat\<close>.
  \<open>Result\<close> is \<open>('a, 'e) result = 'e + 'a\<close>, errors left.  \<open>Duration\<close> is a number of nanoseconds,
  a \<open>nat\<close> bounded by \<open>duration_max\<close> where the source checks or saturates.  \<open>&mut self\<close> is a state
  argument returned updated.  Panics that the source could reach are latches in the state
  (\<open>st_panicked\<close>, \<open>pg_panicked\<close>) that the invariants exclude.

  The theories, in the order of the code.
    \<^item> Errors: \<open>error.rs\<close>; Colors: \<open>profile/colors.rs\<close>; ControllerModel: \<open>model/mod.rs\<close>, \<open>model/hid.rs\<close>.
    \<^item> InputState: \<open>input/*.rs\<close> and \<open>controller/input.rs\<close> (buttons, sticks, IMU frames, taps); Ieee: binary32
      and binary64 arithmetic; UnitInput: the conversions of \<open>stick.rs\<close> and \<open>imu.rs\<close> from normalized axes,
      radians per second and G.
    \<^item> ProtocolError, OutputReport, InputReport, ImuEncoding, SpiFlash, ProtocolSession, Subcommand:
      the files of \<open>protocol/\<close>; Subcommand holds \<open>subcommand.rs\<close> and \<open>facade.rs\<close>.
    \<^item> Identity and ProfileDocument: \<open>profile/identity.rs\<close>, \<open>document.rs\<close>, \<open>summary.rs\<close>.
    \<^item> FileStore: \<open>profile/store.rs\<close> over paths, a disk and system calls that may fail; FileSafety: a small
      program logic for it, and what every crash or failure leaves on the disk.  ProfileKeyStore:
      \<open>transport/profile_key_store.rs\<close>, the bonds of the Bluetooth backend kept in the profile.
    \<^item> Adapter: \<open>adapter.rs\<close>, the discovery of Bluetooth adapters among USB devices.
    \<^item> Lifecycle, Transport, Observed, Scheduler, Status, Sender, Sessions, Periodic, Direct, Handshake,
      Readiness, Cleanup: the files of \<open>src/runtime\<close> of those names; Observed is \<open>connection.rs\<close>, Status is
      \<open>status.rs\<close> with \<open>diagnostics/event.rs\<close>, whose JSON records are in
      DiagnosticsRecord (over the JSON values of Json), Sender is \<open>sender.rs\<close>, \<open>state.rs\<close> and \<open>output.rs\<close>.
    \<^item> FakeTransport: \<open>transport/fake.rs\<close>, the queue with scripted sends that the runtime tests stand on.
    \<^item> Reporting: the \<open>WorkerReporting\<close> trait of \<open>worker.rs\<close> as a record of operations, and its two
      implementations; ReportingLaws: the locale \<open>reporting_laws\<close>, the contract the worker relies on,
      interpreted for both.
    \<^item> Worker: \<open>WorkerCore\<close>, its step as a sequence of phases.  WorkerInvariant, WorkerStep and
      WorkerPhases prove from \<open>reporting_laws\<close> that every phase keeps the invariant (lifecycle, session,
      connection attempt, pending command and published status agree) and the account of commands and
      answers; WorkerShutdown tracks the polls of the shutdown cell through a step; WorkerCommands shows
      that a step takes only the command it was offered; WorkerDeadlines what the thread waits for.
    \<^item> Command: the command channel (\<open>command.rs\<close>); ShutdownChannel: the shutdown cell; WorkerThread: the
      loop, the end and the join of the thread (\<open>worker_thread.rs\<close>); ThreadInvariant: channel and worker
      agree on what is owed, and the loop ends.  WorkerPanic: the \<open>catch_unwind\<close> blocks around the loop, the
      cleanup and the teardown, with the place of a panic as an argument.
    \<^item> WorkerProperties: the statements about reachable workers and whole threads, for both modes.
    \<^item> ErrorMap: \<open>error_map.rs\<close>.  Owner: \<open>WorkerOwner\<close> and its thread as one state, with blocking requests
      and finishing.  ControllerConfig: builder, options, profile creation plan and transport configuration.
      Controller: opening, requests, connect, close and profile creation.  ControllerProperties: what
      callers of a reachable controller rely on.
    \<^item> Reopening: the failure text and the counters that a controller carries over when it is opened again.
    \<^item> WorkerEndings: how a step ends early; TransportRelease: whatever ends a worker, its last call on the transport
      is the close.  Bumble: \<open>transport/bumble.rs\<close>, the transport over one session of the Bluetooth backend, with the log
      of its sessions; BumbleController: no session outlives its controller.
    \<^item> ImuBlock: a decoder of the IMU block, written independently of the encoder, and what it reads from a packed
      block.  Float64: IEEE binary64 on bit patterns, over the arithmetic of Ieee, as an instance of \<open>f64_ops\<close> (the sine
      and the cosine stay arguments).  ImuMotion: what a host reads from the blocks of the two forms.
    \<^item> The tools.  CommandLine: what both command lines share.  ProbeArguments: the command line of
      \<open>tools/swbt-probe/src/main.rs\<close>; ProbeTrace: its \<open>trace.rs\<close>, the subscriber that writes the diagnostics to a file.
      RunnerArguments: the command lines of \<open>tools/swbt-hardware-runner\<close>.  ToolWorld: controllers of every type, the
      file system and the clocks as a tool sees them, as a state monad over the Controller model.  RunnerEvidence,
      RunnerScenarios, RunnerProfiles and RunnerJoyCon: \<open>support.rs\<close> and the three scenarios.  RunnerLogic: a program
      logic for what a tool prints; RunnerProperties and RunnerRun: what every run of the runner prints.
      StaleProfile: the copy of a profile with a spoilt link key.

  Interfaces.  \<open>codec\<close> (an encoding and its partial decoder) and \<open>element_set\<close> (a set built by
  insertion) are locales of the Prelude, interpreted for sticks, colours, report parsing, addresses, IMU
  modes, link keys and documents, and for the button set and the observed subcommands.  \<open>key_map\<close> is the
  contract of \<open>BTreeMap\<close>, interpreted for sorted association lists.  \<open>reporting_laws\<close> is the contract of
  a reporting mode; \<open>reporting_laws_everywhere\<close> is the same in every environment, which a controller
  that chooses its environment when it opens needs.  \<open>runtime_invariant\<close> is what every operation of a
  controller keeps of its runtime and leaves behind on closing, interpreted for the owner's invariant of both modes.  \<open>step_endings\<close> is what closing and failing a worker
  guarantee, interpreted for the outcome and for the transport.  The type \<open>managed_port\<close> of the Bluetooth
  ports that keep the session discipline carries it through the worker, which is polymorphic in its transport.

  Parameters.  The transport (\<open>transport_port\<close>, the Bluetooth stack), the double arithmetic of the
  quaternion encoding (\<open>f64_ops\<close>) and JSON text (\<open>json_codec\<close>) are arguments.  Nothing is assumed of the
  first two; the round trip of a saved profile assumes that rendered JSON reads back (\<open>json_reads_back\<close>).
  The crate \<open>atomic-write-file\<close> is \<open>atomic_writer\<close>, with the contract \<open>atomic_contract\<close>; the addresses and bonds of the
  Bluetooth backend are \<open>backend_values\<close>, with \<open>backend_values_ok\<close>; what \<open>rusb\<close> reports of a device is data.
  The backend \<open>swbt-bumble-backend\<close> is \<open>bumble_backend\<close>, of which nothing is assumed.  The clock
  and the shutdown channel of a step are streams of answers, one element per call, so that a statement for
  all streams covers every interleaving with time and with the controller's threads; for an owner and its
  thread, \<open>pf_delay\<close> says how many polls pass before a request is seen.  The factory that makes a transport,
  the start of the thread, its join and the profile store are fields of \<open>platform\<close> and \<open>profile_store\<close>.

  Loops.  The step is structurally recursive (the poll loop on the batch budget and on the list of received
  events).  The loop of the thread runs on fuel, one unit per iteration.  Every iteration polls the shutdown
  cell at least once, so \<open>k + 1\<close> units are enough when the \<open>k\<close>-th poll finds a request, and more change
  nothing (\<open>worker_loop_terminates\<close>).  A blocking request is followed for \<open>pf_fuel\<close> iterations; whether the host
  answers in time is not in the program's hands, so a request that needs more returns \<open>None\<close>.

  Scope.  The invariants hold for a worker opened on a settled status (\<open>status_settled\<close>: no session, no failure,
  a well-nested log), and \<open>controller_reachable\<close> closes and opens a controller as often as it likes.  Only a
  controller whose status shows a failure is not opened again there: the failure text outlives the close, and
  Reopening shows what it hides.

  Not modelled: the text form of diagnostic records (\<open>serde_json\<close> and \<open>tracing\<close>), the activity notifier of the
  transport, and message texts.
\<close>

end
